(* ===== verification/WalletTypes.thy ===== *)
theory WalletTypes
  imports Prelude
begin

text \<open>
  Value types of the Bitcoin executor's wallet (btc-executor/src): the error enums of
  \<open>errors.rs\<close>, the shared values of \<open>wallet/state.rs\<close>, the normalised requests of
  \<open>wallet/request.rs\<close>, the wallet configuration of \<open>wallet/config.rs\<close> and the vocabulary of
  \<open>wallet/store.rs\<close>.
  Types of the \<open>bitcoin\<close>, \<open>uuid\<close> and \<open>time\<close> crates are modelled by the data the code reads
  from them: a txid is its 256-bit hash, a lineage id its 128-bit UUID, a script its bytes, an
  address its text together with the script it pays to, a timestamp the nanoseconds since the
  epoch. A formatted message is its format string and its arguments.
\<close>

section \<open>Identifiers\<close>

type_synonym txid = "256 word"
type_synonym script = bytes
type_synonym timestamp = int

datatype lineage_id = LineageId (lineage_uuid: "128 word")

text \<open>
  Lineage ids are ordered by their UUID. The canonical text of a UUID is big-endian lowercase
  hexadecimal of fixed shape, so this is also the order of the text column and of
  \<open>lineage_id.to_string()\<close>.
\<close>

instantiation lineage_id :: linorder
begin

definition less_eq_lineage_id :: "lineage_id \<Rightarrow> lineage_id \<Rightarrow> bool" where
  "less_eq_lineage_id a b = (lineage_uuid a \<le> lineage_uuid b)"

definition less_lineage_id :: "lineage_id \<Rightarrow> lineage_id \<Rightarrow> bool" where
  "less_lineage_id a b = (lineage_uuid a < lineage_uuid b)"

instance
  by standard (auto simp: less_eq_lineage_id_def less_lineage_id_def lineage_id.expand)

end

record outpoint =
  op_txid :: txid
  op_vout :: u32

record address =
  addr_text :: string
  addr_script :: script

section \<open>Errors\<close>

datatype msg_arg =
    ArgStr string
  | ArgTxid txid
  | ArgLineage lineage_id
  | ArgOutpoint outpoint
  | ArgNat nat
  | ArgMessage message
and message = Format string "msg_arg list"

datatype chain_error =
    LockPoisoned string
  | NotRegistered string
  | DecodeFailed message
  | ContractRevert message
  | SimulationFailed string
  | Rpc message
  | TxTimeout
  | Unsupported message
  | ValidationFailed message
  | WorkerChannel message
  | ChainOther message

datatype persistence_error =
    Query message
  | NotFound message
  | Conflict message
  | Connection message
  | DataCorruption message

datatype venue_error = VenueOther message

datatype executor_error =
    Chain chain_error
  | Persistence persistence_error
  | Venue venue_error
  | Domain message

fun chain_is_transient :: "chain_error \<Rightarrow> bool" where
  "chain_is_transient (Rpc _) = True"
| "chain_is_transient TxTimeout = True"
| "chain_is_transient (WorkerChannel _) = True"
| "chain_is_transient _ = False"

fun persistence_is_transient :: "persistence_error \<Rightarrow> bool" where
  "persistence_is_transient (Connection _) = True"
| "persistence_is_transient _ = False"

fun executor_is_transient :: "executor_error \<Rightarrow> bool" where
  "executor_is_transient (Chain e) = chain_is_transient e"
| "executor_is_transient (Persistence e) = persistence_is_transient e"
| "executor_is_transient (Venue e) = False"
| "executor_is_transient (Domain _) = False"

definition data_corruption :: "message \<Rightarrow> executor_error" where
  "data_corruption m = Persistence (DataCorruption m)"

section \<open>Requests\<close>

datatype tap_sighash_type =
    SighashDefault | SighashAll | SighashNone | SighashSingle
  | SighashAllPlusAnyoneCanPay | SighashNonePlusAnyoneCanPay | SighashSinglePlusAnyoneCanPay

record send_request =
  sr_address :: address
  sr_amount :: u64

record spend_request =
  sp_outpoint :: outpoint
  sp_value :: u64
  sp_script_pubkey :: script
  sp_witness_template :: "bytes list"
  sp_script :: script
  sp_leaf_hash :: "256 word"
  sp_sequence :: u32
  sp_sighash_type :: tap_sighash_type
  sp_recipient :: "send_request option"

datatype wallet_request_kind = Send send_request | Spend spend_request

record wallet_request =
  dedupe_key :: string
  wr_kind :: wallet_request_kind

datatype wallet_request_error =
    EmptyDedupeKey | InvalidSendAmount | InvalidSpendValue | MissingSacpRecipient

text \<open>
  \<open>str::trim\<close> removes characters with the Unicode property White_Space. A string is its UTF-8
  bytes, so the white-space characters beyond ASCII are the byte sequences listed here.
\<close>

fun all_whitespace :: "nat list \<Rightarrow> bool" where
  "all_whitespace [] = True"
| "all_whitespace (b # bs) =
    (if b \<in> {9, 10, 11, 12, 13, 32} then all_whitespace bs
     else (case bs of
        [] \<Rightarrow> False
      | c # cs \<Rightarrow>
         (if b = 0xC2 \<and> c \<in> {0x85, 0xA0} then all_whitespace cs
          else (case cs of
             [] \<Rightarrow> False
           | d # ds \<Rightarrow>
              (if (b = 0xE1 \<and> c = 0x9A \<and> d = 0x80)
                \<or> (b = 0xE2 \<and> c = 0x80 \<and> (0x80 \<le> d \<and> d \<le> 0x8A \<or> d \<in> {0xA8, 0xA9, 0xAF}))
                \<or> (b = 0xE2 \<and> c = 0x81 \<and> d = 0x9F)
                \<or> (b = 0xE3 \<and> c = 0x80 \<and> d = 0x80)
               then all_whitespace ds else False)))))"

definition trim_is_empty :: "string \<Rightarrow> bool" where
  "trim_is_empty s = all_whitespace (map of_char s)"

definition validate_dedupe_key :: "string \<Rightarrow> (wallet_request_error, string) result" where
  "validate_dedupe_key key = (if trim_is_empty key then Inl EmptyDedupeKey else Inr key)"

definition from_parts ::
    "string \<Rightarrow> wallet_request_kind \<Rightarrow> (wallet_request_error, wallet_request) result" where
  "from_parts key knd =
    try_bind (validate_dedupe_key key) (\<lambda>key.
      case knd of
        Send send \<Rightarrow>
          if sr_amount send = 0 then Inl InvalidSendAmount
          else Inr \<lparr>dedupe_key = key, wr_kind = Send send\<rparr>
      | Spend spend \<Rightarrow>
          if sp_value spend = 0 then Inl InvalidSpendValue
          else if sp_sighash_type spend = SighashSinglePlusAnyoneCanPay \<and> sp_recipient spend = None
          then Inl MissingSacpRecipient
          else Inr \<lparr>dedupe_key = key, wr_kind = Spend spend\<rparr>)"

definition wr_send :: "string \<Rightarrow> address \<Rightarrow> u64 \<Rightarrow> (wallet_request_error, wallet_request) result" where
  "wr_send key addr amt = from_parts key (Send \<lparr>sr_address = addr, sr_amount = amt\<rparr>)"

definition wr_spend ::
    "string \<Rightarrow> outpoint \<Rightarrow> u64 \<Rightarrow> script \<Rightarrow> bytes list \<Rightarrow> script \<Rightarrow> 256 word \<Rightarrow> u32 \<Rightarrow>
     tap_sighash_type \<Rightarrow> send_request option \<Rightarrow> (wallet_request_error, wallet_request) result" where
  "wr_spend key op val spk wit scr leaf sq sh rcp =
    from_parts key (Spend \<lparr>sp_outpoint = op, sp_value = val, sp_script_pubkey = spk,
      sp_witness_template = wit, sp_script = scr, sp_leaf_hash = leaf, sp_sequence = sq,
      sp_sighash_type = sh, sp_recipient = rcp\<rparr>)"

text \<open>What every constructed request satisfies.\<close>

definition wf_request :: "wallet_request \<Rightarrow> bool" where
  "wf_request r = (\<not> trim_is_empty (dedupe_key r) \<and>
    (case wr_kind r of
       Send send \<Rightarrow> sr_amount send \<noteq> 0
     | Spend spend \<Rightarrow> sp_value spend \<noteq> 0 \<and>
         (sp_sighash_type spend = SighashSinglePlusAnyoneCanPay \<longrightarrow> sp_recipient spend \<noteq> None)))"

lemma from_parts_Inr_iff:
  "from_parts key knd = Inr r \<longleftrightarrow>
    r = \<lparr>dedupe_key = key, wr_kind = knd\<rparr> \<and> wf_request r"
  by (auto simp: from_parts_def validate_dedupe_key_def wf_request_def split: wallet_request_kind.splits)

lemma from_parts_roundtrip: "wf_request r \<Longrightarrow> from_parts (dedupe_key r) (wr_kind r) = Inr r"
  by (simp add: from_parts_Inr_iff)

section \<open>Anchors, cover inputs and lineages\<close>

record chain_anchor =
  confirmed_txid :: txid
  change_outpoint :: outpoint
  change_value :: u64
  change_script_pubkey :: script
  confirmed_height :: u64

record cover_utxo =
  cu_outpoint :: outpoint
  cu_value :: u64
  cu_script_pubkey :: script

record pending_wallet_request =
  pr_request :: wallet_request
  pr_chain_anchor :: "chain_anchor option"
  pr_created_at :: timestamp

record live_lineage_request =
  lr_request :: wallet_request
  lr_txid_history :: "txid list"
  lr_created_at :: timestamp

record live_lineage_snapshot =
  ls_lineage_id :: lineage_id
  ls_head_txid :: txid
  ls_all_txids :: "txid list"
  ls_requests :: "live_lineage_request list"
  ls_cover_utxos :: "cover_utxo list"
  ls_chain_anchor :: "chain_anchor option"

record restored_wallet_state =
  rs_pending :: "pending_wallet_request list"
  rs_inflight :: "live_lineage_snapshot list"

abbreviation pr_key :: "pending_wallet_request \<Rightarrow> string" where
  "pr_key p \<equiv> dedupe_key (pr_request p)"

abbreviation lr_key :: "live_lineage_request \<Rightarrow> string" where
  "lr_key p \<equiv> dedupe_key (lr_request p)"

section \<open>Configuration\<close>

text \<open>Fee rates (\<open>f64\<close>) are rationals here; the wallet only compares and clamps them.\<close>

record wallet_config =
  tick_interval_secs :: u64
  missing_batch_threshold :: u32
  max_outputs_per_batch :: nat
  max_pending_ttl_secs :: u64
  max_fee_rate :: rat
  min_fee_rate :: rat
  min_change_value :: u64
  max_concurrent_lineages :: nat
  chain_anchor_confirmations :: u64

definition DUST_LIMIT :: u64 where
  "DUST_LIMIT = 546"

definition default_wallet_config :: wallet_config where
  "default_wallet_config =
    \<lparr>tick_interval_secs = 10, missing_batch_threshold = 3, max_outputs_per_batch = 96,
     max_pending_ttl_secs = 3600, max_fee_rate = 100, min_fee_rate = 1,
     min_change_value = DUST_LIMIT, max_concurrent_lineages = 8,
     chain_anchor_confirmations = 6\<rparr>"

section \<open>Store vocabulary\<close>

datatype enqueue_result =
    EnqueuedPending
  | AlreadyPending
  | AlreadyInflight lineage_id txid
  | AlreadyConfirmed lineage_id txid
  | AlreadyDropped

datatype resolve_pending_result = CancelledPending | AlreadySubmitted txid

datatype broadcast_kind = KFresh | KRbf | KChained

record broadcast_plan =
  bp_kind :: broadcast_kind
  bp_lineage_id :: lineage_id
  bp_txid :: txid
  bp_raw_tx_hex :: string
  bp_included :: "string list"
  bp_dropped :: "string list"

datatype lifecycle_status = Pending | Inflight | Confirmed | Dropped

record request_snapshot =
  sn_dedupe_key :: string
  sn_status :: lifecycle_status
  sn_lineage_id :: "lineage_id option"
  sn_batch_txid :: "txid option"
  sn_txid_history :: "txid list"
  sn_chain_anchor :: "chain_anchor option"

record batch_receipt =
  br_lineage_id :: lineage_id
  br_txid :: txid
  br_raw_tx_hex :: string
  br_snapshots :: "request_snapshot list"

record confirmed_head =
  ch_lineage_id :: lineage_id
  ch_confirmed_txid :: txid

record confirmation_plan =
  cp_lineage_id :: lineage_id
  cp_confirmed_txid :: txid
  cp_confirmed :: "string list"
  cp_orphaned :: "string list"
  cp_chain_anchor :: "chain_anchor option"

datatype reconciliation_kind = RConfirmed txid | RInMempool txid | RNoSurvivor

record reconciliation_plan =
  rp_lineage_id :: lineage_id
  rp_kind :: reconciliation_kind
  rp_survivors :: "string list"
  rp_requeued :: "string list"
  rp_chain_anchor :: "chain_anchor option"

end
