(* ===== verification/WalletRows.thy ===== *)
theory WalletRows
  imports WalletTypes
begin

text \<open>
  Rows, statements and checks of the Postgres wallet store
  (btc-executor/src/infrastructure/persistence/bitcoin_wallet.rs).
  The table \<open>bitcoin_wallet_requests\<close> is the list of its rows; a SELECT is a filter and a
  stable sort, an UPDATE a \<open>map\<close>, an INSERT \<open>ON CONFLICT DO NOTHING\<close> an append guarded by the
  primary key. Every operation of the store is one transaction: it returns the new table, or an
  error and then no new table, which is the rollback.
  A text column that the code parses (a txid, a lineage id) is \<open>Parsed v\<close> when its text parses
  to \<open>v\<close> and \<open>Garbled s\<close> otherwise; writing \<open>v.to_string()\<close> stores \<open>Parsed v\<close>.
  The column \<open>updated_at\<close>, which no code reads, and failures of the database connection itself
  are not modelled. Key columns are compared and sorted bytewise.
\<close>

section \<open>Rows\<close>

datatype 'a col = Parsed 'a | Garbled string

datatype wallet_request_status = WPending | WInflight | WConfirmed | WDropped

fun status_as_str :: "wallet_request_status \<Rightarrow> string" where
  "status_as_str WPending = ''pending''"
| "status_as_str WInflight = ''inflight''"
| "status_as_str WConfirmed = ''confirmed''"
| "status_as_str WDropped = ''dropped''"

fun as_lifecycle_status :: "wallet_request_status \<Rightarrow> lifecycle_status" where
  "as_lifecycle_status WPending = Pending"
| "as_lifecycle_status WInflight = Inflight"
| "as_lifecycle_status WConfirmed = Confirmed"
| "as_lifecycle_status WDropped = Dropped"

definition try_from_status :: "string \<Rightarrow> (executor_error, wallet_request_status) result" where
  "try_from_status value =
    (if value = ''pending'' then Inr WPending
     else if value = ''inflight'' then Inr WInflight
     else if value = ''confirmed'' then Inr WConfirmed
     else if value = ''dropped'' then Inr WDropped
     else Inl (data_corruption (Format ''invalid wallet request status: {other}'' [ArgStr value])))"

fun lifecycle_status_as_str :: "lifecycle_status \<Rightarrow> string" where
  "lifecycle_status_as_str Pending = ''pending''"
| "lifecycle_status_as_str Inflight = ''inflight''"
| "lifecycle_status_as_str Confirmed = ''confirmed''"
| "lifecycle_status_as_str Dropped = ''dropped''"

fun request_kind_name :: "wallet_request_kind \<Rightarrow> string" where
  "request_kind_name (Send _) = ''send''"
| "request_kind_name (Spend _) = ''spend''"

record wallet_row =
  row_scope :: string
  row_dedupe_key :: string
  row_kind :: string
  row_status :: string
  row_lineage_id :: "lineage_id col option"
  row_batch_txid :: "txid col option"
  row_txid_history :: "txid col list"
  row_chain_anchor :: "chain_anchor option"
  row_payload :: wallet_request_kind
  row_created_at :: timestamp

type_synonym wallet_table = "wallet_row list"

definition into_request :: "wallet_row \<Rightarrow> (executor_error, wallet_request) result" where
  "into_request r =
    (case from_parts (row_dedupe_key r) (row_payload r) of
       Inl err \<Rightarrow> Inl (data_corruption (Format ''invalid wallet request payload: {err}'' []))
     | Inr req \<Rightarrow> Inr req)"

fun parse_lineage_id :: "lineage_id col option \<Rightarrow> (executor_error, lineage_id) result" where
  "parse_lineage_id None = Inl (data_corruption (Format ''missing lineage_id'' []))"
| "parse_lineage_id (Some (Garbled s)) = Inl (data_corruption (Format ''invalid lineage_id: {err}'' []))"
| "parse_lineage_id (Some (Parsed l)) = Inr l"

fun parse_txid :: "txid col option \<Rightarrow> string \<Rightarrow> (executor_error, txid) result" where
  "parse_txid None field = Inl (data_corruption (Format ''missing {field_name}'' [ArgStr field]))"
| "parse_txid (Some (Garbled s)) field =
     Inl (data_corruption (Format ''invalid {field_name}: {err}'' [ArgStr field]))"
| "parse_txid (Some (Parsed t)) field = Inr t"

fun parse_history_entry :: "txid col \<Rightarrow> (executor_error, txid) result" where
  "parse_history_entry (Parsed t) = Inr t"
| "parse_history_entry (Garbled s) =
     Inl (data_corruption (Format ''invalid txid_history entry: {err}'' []))"

definition parse_txid_history :: "txid col list \<Rightarrow> (executor_error, txid list) result" where
  "parse_txid_history cols = try_map parse_history_entry cols"

definition encode_txid_history :: "txid list \<Rightarrow> txid col list" where
  "encode_txid_history txids = map Parsed txids"

section \<open>Row checks\<close>

definition ensure_unique_txid_history :: "txid list \<Rightarrow> (executor_error, unit) result" where
  "ensure_unique_txid_history txids =
    ensure (card (set txids) = length txids)
      (data_corruption (Format ''wallet request txid_history contains duplicate txids'' []))"

definition ensure_inflight_row_history_targets_head ::
    "txid list \<Rightarrow> txid \<Rightarrow> string \<Rightarrow> (executor_error, unit) result" where
  "ensure_inflight_row_history_targets_head hist head key =
    try_bind (ensure_unique_txid_history hist) (\<lambda>_.
      (case hist of
         [] \<Rightarrow> Inl (data_corruption
           (Format ''inflight request {dedupe_key} has empty txid_history'' [ArgStr key]))
       | _ \<Rightarrow> (if last hist = head then Inr ()
           else Inl (data_corruption
             (Format ''inflight request {dedupe_key} ends at txid {last_txid} but head is {head_txid}''
               [ArgStr key, ArgTxid (last hist), ArgTxid head])))))"

definition ensure_txid_history_append_is_safe ::
    "wallet_row \<Rightarrow> txid \<Rightarrow> string \<Rightarrow> (executor_error, unit) result" where
  "ensure_txid_history_append_is_safe r nxt key =
    try_bind (parse_txid_history (row_txid_history r)) (\<lambda>hist.
    try_bind (ensure_unique_txid_history hist) (\<lambda>_.
      ensure (nxt \<notin> set hist)
        (data_corruption (Format
          ''wallet request {dedupe_key} already contains txid {next_txid} in txid_history''
          [ArgStr key, ArgTxid nxt]))))"

definition ensure_status ::
    "wallet_row \<Rightarrow> wallet_request_status \<Rightarrow> string \<Rightarrow> (executor_error, unit) result" where
  "ensure_status r expected key =
    try_bind (try_from_status (row_status r)) (\<lambda>actual.
      ensure (actual = expected)
        (data_corruption (Format ''wallet request {dedupe_key} has status {}, expected {}''
          [ArgStr key, ArgStr (row_status r), ArgStr (status_as_str expected)])))"

definition ensure_matching_lineage ::
    "wallet_row \<Rightarrow> lineage_id \<Rightarrow> string \<Rightarrow> (executor_error, unit) result" where
  "ensure_matching_lineage r expected key =
    try_bind (parse_lineage_id (row_lineage_id r)) (\<lambda>actual.
      ensure (actual = expected)
        (data_corruption (Format
          ''wallet request {dedupe_key} belongs to lineage {actual}, expected {expected}''
          [ArgStr key, ArgLineage actual, ArgLineage expected])))"

definition snapshot_from_row :: "wallet_row \<Rightarrow> (executor_error, request_snapshot) result" where
  "snapshot_from_row r =
    try_bind (try_from_status (row_status r)) (\<lambda>st.
    try_bind (case row_lineage_id r of None \<Rightarrow> Inr None
              | Some v \<Rightarrow> try_bind (parse_lineage_id (Some v)) (\<lambda>l. Inr (Some l))) (\<lambda>lin.
    try_bind (case row_batch_txid r of None \<Rightarrow> Inr None
              | Some v \<Rightarrow> try_bind (parse_txid (Some v) ''batch_txid'') (\<lambda>b. Inr (Some b))) (\<lambda>batch.
    try_bind (parse_txid_history (row_txid_history r)) (\<lambda>hist.
      Inr \<lparr>sn_dedupe_key = row_dedupe_key r, sn_status = as_lifecycle_status st,
           sn_lineage_id = lin, sn_batch_txid = batch, sn_txid_history = hist,
           sn_chain_anchor = row_chain_anchor r\<rparr>))))"

section \<open>Plan checks\<close>

definition ensure_unique_keys :: "string \<Rightarrow> string list \<Rightarrow> (executor_error, unit) result" where
  "ensure_unique_keys label keys =
    ensure (card (set keys) = length keys)
      (data_corruption (Format ''wallet broadcast persistence has duplicate {label} request keys''
        [ArgStr label]))"

definition validate_persist_plan :: "broadcast_plan \<Rightarrow> (executor_error, unit) result" where
  "validate_persist_plan plan =
    try_bind (ensure (bp_included plan \<noteq> []) (data_corruption (Format
      ''wallet broadcast persistence requires at least one included request'' []))) (\<lambda>_.
    try_bind (ensure_unique_keys ''included'' (bp_included plan)) (\<lambda>_.
    try_bind (ensure_unique_keys ''dropped'' (bp_dropped plan)) (\<lambda>_.
      ensure (\<not> list_ex (\<lambda>k. k \<in> set (bp_dropped plan)) (bp_included plan))
        (data_corruption (Format
          ''wallet broadcast persistence cannot include and drop the same request'' [])))))"

definition validate_revert_receipt :: "batch_receipt \<Rightarrow> (executor_error, unit) result" where
  "validate_revert_receipt receipt =
    try_bind (ensure (br_snapshots receipt \<noteq> []) (data_corruption (Format
      ''wallet broadcast revert requires at least one snapshot'' []))) (\<lambda>_.
      ensure_unique_keys ''snapshot'' (map sn_dedupe_key (br_snapshots receipt)))"

definition validate_confirmation_plan :: "confirmation_plan \<Rightarrow> (executor_error, unit) result" where
  "validate_confirmation_plan plan =
    try_bind (ensure (cp_confirmed plan \<noteq> []) (data_corruption (Format
      ''wallet confirmation persistence requires at least one confirmed request'' []))) (\<lambda>_.
    try_bind (ensure_unique_keys ''confirmed'' (cp_confirmed plan)) (\<lambda>_.
    try_bind (ensure_unique_keys ''orphaned'' (cp_orphaned plan)) (\<lambda>_.
    try_bind (ensure (\<not> list_ex (\<lambda>k. k \<in> set (cp_orphaned plan)) (cp_confirmed plan))
        (data_corruption (Format
          ''wallet confirmation persistence cannot confirm and orphan the same request'' []))) (\<lambda>_.
      ensure (\<not> (cp_chain_anchor plan \<noteq> None \<and> cp_orphaned plan = []))
        (data_corruption (Format
          ''wallet confirmation persistence cannot set a chain anchor without orphaned requests'' []))))))"

definition validate_reconciliation_plan :: "reconciliation_plan \<Rightarrow> (executor_error, unit) result" where
  "validate_reconciliation_plan plan =
    try_bind (ensure_unique_keys ''survivor'' (rp_survivors plan)) (\<lambda>_.
    try_bind (ensure_unique_keys ''requeued'' (rp_requeued plan)) (\<lambda>_.
    try_bind (ensure (\<not> list_ex (\<lambda>k. k \<in> set (rp_requeued plan)) (rp_survivors plan))
        (data_corruption (Format
          ''wallet reconciliation persistence cannot keep and requeue the same request'' []))) (\<lambda>_.
      case rp_kind plan of
        RConfirmed _ \<Rightarrow>
          ensure (rp_survivors plan \<noteq> []) (data_corruption (Format
            ''wallet reconciliation persistence needs at least one confirmed survivor'' []))
      | RInMempool _ \<Rightarrow>
          try_bind (ensure (rp_survivors plan \<noteq> []) (data_corruption (Format
            ''wallet reconciliation persistence needs at least one inflight survivor'' []))) (\<lambda>_.
          ensure (rp_chain_anchor plan = None) (data_corruption (Format
            ''wallet reconciliation persistence cannot set a chain anchor for mempool survivors'' [])))
      | RNoSurvivor \<Rightarrow>
          try_bind (ensure (rp_survivors plan = []) (data_corruption (Format
            ''wallet reconciliation persistence cannot keep survivors when no survivor exists'' []))) (\<lambda>_.
          try_bind (ensure (rp_chain_anchor plan = None) (data_corruption (Format
            ''wallet reconciliation persistence cannot set a chain anchor without a confirmed survivor'' []))) (\<lambda>_.
          ensure (rp_requeued plan \<noteq> []) (data_corruption (Format
            ''wallet reconciliation persistence requires requests to requeue when no survivor exists'' [])))))))"

definition collect_plan_keys :: "broadcast_plan \<Rightarrow> string list" where
  "collect_plan_keys plan = sort (bp_included plan @ bp_dropped plan)"

definition collect_confirmation_keys :: "confirmation_plan \<Rightarrow> string list" where
  "collect_confirmation_keys plan = sort (cp_confirmed plan @ cp_orphaned plan)"

definition collect_reconciliation_keys :: "reconciliation_plan \<Rightarrow> string list" where
  "collect_reconciliation_keys plan = sort (rp_survivors plan @ rp_requeued plan)"

section \<open>Statements\<close>

definition key_in :: "string \<Rightarrow> string list \<Rightarrow> wallet_row \<Rightarrow> bool" where
  "key_in scope keys r = (row_scope r = scope \<and> row_dedupe_key r \<in> set keys)"

definition update_where :: "(wallet_row \<Rightarrow> bool) \<Rightarrow> (wallet_row \<Rightarrow> wallet_row) \<Rightarrow> wallet_table \<Rightarrow> wallet_table" where
  "update_where c f t = map (\<lambda>r. if c r then f r else r) t"

definition load_wallet_request_rows_for_update ::
    "wallet_table \<Rightarrow> string \<Rightarrow> string list \<Rightarrow> (executor_error, wallet_row list) result" where
  "load_wallet_request_rows_for_update t scope keys =
    (if keys = [] then Inr []
     else let rows = sort_key row_dedupe_key (filter (key_in scope keys) t) in
       if length rows \<noteq> length keys
       then Inl (data_corruption (Format ''wallet broadcast persistence expected {} rows but loaded {}''
              [ArgNat (length keys), ArgNat (length rows)]))
       else Inr rows)"

definition load_wallet_request_row :: "wallet_table \<Rightarrow> string \<Rightarrow> string \<Rightarrow> wallet_row option" where
  "load_wallet_request_row t scope key = find (key_in scope [key]) t"

fun index_wallet_request_rows ::
    "wallet_row list \<Rightarrow> (string \<times> wallet_row) list \<Rightarrow> (executor_error, (string \<times> wallet_row) list) result" where
  "index_wallet_request_rows [] by_key = Inr by_key"
| "index_wallet_request_rows (r # rs) by_key =
    (if map_of by_key (row_dedupe_key r) \<noteq> None
     then Inl (data_corruption (Format ''duplicate wallet request row loaded for {dedupe_key}''
            [ArgStr (row_dedupe_key r)]))
     else index_wallet_request_rows rs (AList.update (row_dedupe_key r) r by_key))"

definition update_rows_to_inflight ::
    "string \<Rightarrow> string list \<Rightarrow> lineage_id \<Rightarrow> txid \<Rightarrow> wallet_table \<Rightarrow> wallet_table" where
  "update_rows_to_inflight scope keys lin tx =
    update_where (key_in scope keys)
      (\<lambda>r. r\<lparr>row_status := ''inflight'', row_lineage_id := Some (Parsed lin),
             row_batch_txid := Some (Parsed tx),
             row_txid_history := row_txid_history r @ [Parsed tx]\<rparr>)"

definition update_rows_to_surviving_inflight ::
    "string \<Rightarrow> string list \<Rightarrow> lineage_id \<Rightarrow> txid \<Rightarrow> wallet_table \<Rightarrow> wallet_table" where
  "update_rows_to_surviving_inflight scope keys lin tx =
    update_where (key_in scope keys)
      (\<lambda>r. r\<lparr>row_status := ''inflight'', row_lineage_id := Some (Parsed lin),
             row_batch_txid := Some (Parsed tx)\<rparr>)"

definition update_rows_to_pending :: "string \<Rightarrow> string list \<Rightarrow> wallet_table \<Rightarrow> wallet_table" where
  "update_rows_to_pending scope keys =
    update_where (key_in scope keys)
      (\<lambda>r. r\<lparr>row_status := ''pending'', row_lineage_id := None, row_batch_txid := None\<rparr>)"

definition update_rows_to_dropped :: "string \<Rightarrow> string list \<Rightarrow> wallet_table \<Rightarrow> wallet_table" where
  "update_rows_to_dropped scope keys =
    update_where (key_in scope keys)
      (\<lambda>r. r\<lparr>row_status := ''dropped'', row_lineage_id := None, row_batch_txid := None\<rparr>)"

definition update_rows_to_confirmed ::
    "string \<Rightarrow> string list \<Rightarrow> txid \<Rightarrow> wallet_table \<Rightarrow> wallet_table" where
  "update_rows_to_confirmed scope keys tx =
    update_where (key_in scope keys)
      (\<lambda>r. r\<lparr>row_status := ''confirmed'', row_batch_txid := Some (Parsed tx), row_chain_anchor := None\<rparr>)"

definition update_rows_to_pending_with_optional_anchor ::
    "string \<Rightarrow> string list \<Rightarrow> chain_anchor option \<Rightarrow> wallet_table \<Rightarrow> wallet_table" where
  "update_rows_to_pending_with_optional_anchor scope keys anchor =
    update_where (key_in scope keys)
      (\<lambda>r. r\<lparr>row_status := ''pending'', row_lineage_id := None, row_batch_txid := None,
             row_chain_anchor := anchor\<rparr>)"

end
