(* ===== verification/WalletStore.thy ===== *)
theory WalletStore
  imports WalletRows
begin

text \<open>
  The operations of the Postgres wallet store, \<open>impl WalletStore for PgBitcoinWalletStore\<close>
  (btc-executor/src/infrastructure/persistence/bitcoin_wallet.rs), and the trait of
  \<open>wallet/store.rs\<close> as a locale.
\<close>

section \<open>Enqueue and resolve\<close>

definition enqueue ::
    "timestamp \<Rightarrow> wallet_table \<Rightarrow> string \<Rightarrow> wallet_request \<Rightarrow>
     (executor_error, enqueue_result \<times> wallet_table) result" where
  "enqueue now t scope req =
    (case load_wallet_request_row t scope (dedupe_key req) of
       None \<Rightarrow> Inr (EnqueuedPending,
         t @ [\<lparr>row_scope = scope, row_dedupe_key = dedupe_key req,
               row_kind = request_kind_name (wr_kind req), row_status = status_as_str WPending,
               row_lineage_id = None, row_batch_txid = None, row_txid_history = [],
               row_chain_anchor = None, row_payload = wr_kind req, row_created_at = now\<rparr>])
     | Some existing \<Rightarrow>
         try_bind (try_from_status (row_status existing)) (\<lambda>st.
           case st of
             WPending \<Rightarrow> Inr (AlreadyPending, t)
           | WInflight \<Rightarrow>
               try_bind (parse_lineage_id (row_lineage_id existing)) (\<lambda>l.
               try_bind (parse_txid (row_batch_txid existing) ''batch_txid'') (\<lambda>b.
                 Inr (AlreadyInflight l b, t)))
           | WConfirmed \<Rightarrow>
               try_bind (parse_lineage_id (row_lineage_id existing)) (\<lambda>l.
               try_bind (parse_txid (row_batch_txid existing) ''batch_txid'') (\<lambda>b.
                 Inr (AlreadyConfirmed l b, t)))
           | WDropped \<Rightarrow> Inr (AlreadyDropped, t)))"

definition resolve_pending ::
    "wallet_table \<Rightarrow> string \<Rightarrow> string \<Rightarrow>
     (executor_error, resolve_pending_result \<times> wallet_table) result" where
  "resolve_pending t scope key =
    try_bind (load_wallet_request_rows_for_update t scope [key]) (\<lambda>rows.
      case rows of
        [] \<Rightarrow> Inl (data_corruption (Format ''missing wallet request: {dedupe_key}'' [ArgStr key]))
      | r # _ \<Rightarrow>
          try_bind (try_from_status (row_status r)) (\<lambda>st.
            if st = WPending \<or> st = WDropped
            then Inr (CancelledPending, update_rows_to_dropped scope [key] t)
            else try_bind (parse_txid (row_batch_txid r) ''batch_txid'') (\<lambda>b.
              Inr (AlreadySubmitted b, t))))"

section \<open>Restore\<close>

record inflight_accumulator =
  ia_lineage_id :: lineage_id
  ia_head_txid :: txid
  ia_all_txids :: "txid list"
  ia_requests :: "live_lineage_request list"
  ia_chain_anchor :: "chain_anchor option"

definition accumulator_new :: "lineage_id \<Rightarrow> txid \<Rightarrow> chain_anchor option \<Rightarrow> inflight_accumulator" where
  "accumulator_new l h a =
    \<lparr>ia_lineage_id = l, ia_head_txid = h, ia_all_txids = [], ia_requests = [], ia_chain_anchor = a\<rparr>"

definition accumulator_finish :: "inflight_accumulator \<Rightarrow> live_lineage_snapshot" where
  "accumulator_finish a =
    \<lparr>ls_lineage_id = ia_lineage_id a, ls_head_txid = ia_head_txid a, ls_all_txids = ia_all_txids a,
     ls_requests = ia_requests a, ls_cover_utxos = [], ls_chain_anchor = ia_chain_anchor a\<rparr>"

text \<open>\<open>iter().position(..)\<close>\<close>

fun position :: "'a \<Rightarrow> 'a list \<Rightarrow> nat option" where
  "position x [] = None"
| "position x (y # ys) = (if y = x then Some 0 else map_option Suc (position x ys))"

definition insert_at :: "nat \<Rightarrow> 'a \<Rightarrow> 'a list \<Rightarrow> 'a list" where
  "insert_at i x xs = take i xs @ x # drop i xs"

fun merge_loop ::
    "txid list \<Rightarrow> nat option \<Rightarrow> txid list \<Rightarrow> (executor_error, txid list) result" where
  "merge_loop all_txids cursor [] = Inr all_txids"
| "merge_loop all_txids cursor (tx # txs) =
    (case position tx all_txids of
       Some existing_index \<Rightarrow>
         (if (case cursor of Some c \<Rightarrow> existing_index < c | None \<Rightarrow> False)
          then Inl (data_corruption
            (Format ''inflight lineage txid histories disagree on submission order'' []))
          else merge_loop all_txids (Some existing_index) txs)
     | None \<Rightarrow>
         (let insert_pos = (case cursor of None \<Rightarrow> 0 | Some i \<Rightarrow> i + 1)
          in merge_loop (insert_at insert_pos tx all_txids) (Some insert_pos) txs))"

definition merge_ordered_unique_txids ::
    "txid list \<Rightarrow> txid list \<Rightarrow> (executor_error, txid list) result" where
  "merge_ordered_unique_txids all_txids row_txids =
    try_bind (ensure_unique_txid_history row_txids) (\<lambda>_. merge_loop all_txids None row_txids)"

definition restore_step ::
    "live_lineage_snapshot list \<times> inflight_accumulator option \<Rightarrow> wallet_row \<Rightarrow>
     (executor_error, live_lineage_snapshot list \<times> inflight_accumulator option) result" where
  "restore_step s r =
    (let (inflight, current) = s in
     try_bind (parse_lineage_id (row_lineage_id r)) (\<lambda>lin.
     try_bind (parse_txid (row_batch_txid r) ''batch_txid'') (\<lambda>head.
     try_bind (parse_txid_history (row_txid_history r)) (\<lambda>hist.
     try_bind (ensure_inflight_row_history_targets_head hist head (row_dedupe_key r)) (\<lambda>_.
     try_bind (into_request r) (\<lambda>req.
       let lreq = \<lparr>lr_request = req, lr_txid_history = hist, lr_created_at = row_created_at r\<rparr>;
           anchor = row_chain_anchor r;
           start = (\<lambda>done. try_bind (merge_ordered_unique_txids [] hist) (\<lambda>txs.
             Inr (done, Some ((accumulator_new lin head anchor)
               \<lparr>ia_all_txids := txs, ia_requests := [lreq]\<rparr>))))
       in
       case current of
         Some acc \<Rightarrow>
           if ia_lineage_id acc = lin then
             if ia_head_txid acc \<noteq> head
             then Inl (data_corruption (Format ''inflight lineage {} has inconsistent head txids'' [ArgLineage lin]))
             else
               let acc = (if anchor \<noteq> None \<and> ia_chain_anchor acc = None
                          then acc\<lparr>ia_chain_anchor := anchor\<rparr> else acc)
               in if anchor \<noteq> None \<and> ia_chain_anchor acc \<noteq> anchor
                  then Inl (data_corruption (Format ''inflight lineage {} has inconsistent chain anchors'' [ArgLineage lin]))
                  else try_bind (merge_ordered_unique_txids (ia_all_txids acc) hist) (\<lambda>txs.
                    Inr (inflight, Some (acc\<lparr>ia_all_txids := txs, ia_requests := ia_requests acc @ [lreq]\<rparr>)))
           else start (inflight @ [accumulator_finish acc])
       | None \<Rightarrow> start inflight))))))"

definition restore_pending_row :: "wallet_row \<Rightarrow> (executor_error, pending_wallet_request) result" where
  "restore_pending_row r =
    try_bind (into_request r) (\<lambda>req.
      Inr \<lparr>pr_request = req, pr_chain_anchor = row_chain_anchor r, pr_created_at = row_created_at r\<rparr>)"

text \<open>\<open>ORDER BY lineage_id ASC NULLS LAST, dedupe_key ASC\<close>\<close>

fun lineage_rank :: "lineage_id col option \<Rightarrow> nat \<times> nat \<times> string" where
  "lineage_rank (Some (Parsed l)) = (0, unat (lineage_uuid l), [])"
| "lineage_rank (Some (Garbled s)) = (1, 0, s)"
| "lineage_rank None = (2, 0, [])"

definition pending_rows :: "wallet_table \<Rightarrow> string \<Rightarrow> wallet_row list" where
  "pending_rows t scope =
    sort_key row_dedupe_key (filter (\<lambda>r. row_scope r = scope \<and> row_status r = ''pending'') t)"

definition inflight_rows :: "wallet_table \<Rightarrow> string \<Rightarrow> wallet_row list" where
  "inflight_rows t scope =
    sort_key (\<lambda>r. lineage_rank (row_lineage_id r))
      (sort_key row_dedupe_key (filter (\<lambda>r. row_scope r = scope \<and> row_status r = ''inflight'') t))"

definition restore :: "wallet_table \<Rightarrow> string \<Rightarrow> (executor_error, restored_wallet_state) result" where
  "restore t scope =
    try_bind (try_map restore_pending_row (pending_rows t scope)) (\<lambda>pending.
    try_bind (try_fold restore_step ([], None) (inflight_rows t scope)) (\<lambda>(inflight, current).
      Inr \<lparr>rs_pending = pending,
           rs_inflight = (case current of None \<Rightarrow> inflight
                          | Some acc \<Rightarrow> inflight @ [accumulator_finish acc])\<rparr>))"

section \<open>Broadcast\<close>

definition row_for ::
    "(string \<times> wallet_row) list \<Rightarrow> string \<Rightarrow> (executor_error, wallet_row) result" where
  "row_for by_key key =
    ok_or (map_of by_key key) (data_corruption (Format ''missing wallet request: {key}'' [ArgStr key]))"

definition check_fresh_included ::
    "(string \<times> wallet_row) list \<Rightarrow> txid \<Rightarrow> string \<Rightarrow> (executor_error, unit) result" where
  "check_fresh_included by_key tx key =
    try_bind (row_for by_key key) (\<lambda>r.
    try_bind (ensure_status r WPending key) (\<lambda>_.
      ensure_txid_history_append_is_safe r tx key))"

definition check_rbf_included ::
    "(string \<times> wallet_row) list \<Rightarrow> lineage_id \<Rightarrow> txid \<Rightarrow> string \<Rightarrow> (executor_error, unit) result" where
  "check_rbf_included by_key lin tx key =
    try_bind (row_for by_key key) (\<lambda>r.
    try_bind (try_from_status (row_status r)) (\<lambda>st.
    try_bind (case st of
        WPending \<Rightarrow> Inr ()
      | WInflight \<Rightarrow> ensure_matching_lineage r lin key
      | _ \<Rightarrow> Inl (data_corruption (Format ''rbf included request {key} has invalid status {}''
               [ArgStr key, ArgStr (row_status r)]))) (\<lambda>_.
      ensure_txid_history_append_is_safe r tx key)))"

definition check_inflight_member ::
    "(string \<times> wallet_row) list \<Rightarrow> lineage_id \<Rightarrow> string \<Rightarrow> (executor_error, unit) result" where
  "check_inflight_member by_key lin key =
    try_bind (row_for by_key key) (\<lambda>r.
    try_bind (ensure_status r WInflight key) (\<lambda>_. ensure_matching_lineage r lin key))"

definition check_broadcast ::
    "(string \<times> wallet_row) list \<Rightarrow> broadcast_plan \<Rightarrow> (executor_error, unit) result" where
  "check_broadcast by_key plan =
    (case bp_kind plan of
       KRbf \<Rightarrow>
         try_bind (try_each (check_rbf_included by_key (bp_lineage_id plan) (bp_txid plan)) (bp_included plan)) (\<lambda>_.
           try_each (check_inflight_member by_key (bp_lineage_id plan)) (bp_dropped plan))
     | _ \<Rightarrow>
         try_bind (ensure (bp_dropped plan = []) (data_corruption (Format
           ''fresh and chained broadcasts cannot drop requests during persistence'' []))) (\<lambda>_.
           try_each (check_fresh_included by_key (bp_txid plan)) (bp_included plan)))"

definition persist_broadcast ::
    "wallet_table \<Rightarrow> string \<Rightarrow> broadcast_plan \<Rightarrow> (executor_error, batch_receipt \<times> wallet_table) result" where
  "persist_broadcast t scope plan =
    try_bind (validate_persist_plan plan) (\<lambda>_.
    try_bind (load_wallet_request_rows_for_update t scope (collect_plan_keys plan)) (\<lambda>rows.
    try_bind (index_wallet_request_rows rows []) (\<lambda>by_key.
    try_bind (check_broadcast by_key plan) (\<lambda>_.
    try_bind (try_map snapshot_from_row (map snd by_key)) (\<lambda>snaps.
      let t1 = update_rows_to_inflight scope (bp_included plan) (bp_lineage_id plan) (bp_txid plan) t;
          t2 = (if bp_kind plan = KRbf \<and> bp_dropped plan \<noteq> []
                then update_rows_to_pending scope (bp_dropped plan) t1 else t1)
      in Inr (\<lparr>br_lineage_id = bp_lineage_id plan, br_txid = bp_txid plan,
               br_raw_tx_hex = bp_raw_tx_hex plan,
               br_snapshots = sort_key sn_dedupe_key snaps\<rparr>, t2))))))"

definition revert_row :: "request_snapshot \<Rightarrow> wallet_row \<Rightarrow> wallet_row" where
  "revert_row sn r =
    r\<lparr>row_status := lifecycle_status_as_str (sn_status sn),
      row_lineage_id := map_option Parsed (sn_lineage_id sn),
      row_batch_txid := map_option Parsed (sn_batch_txid sn),
      row_txid_history := encode_txid_history (sn_txid_history sn),
      row_chain_anchor := sn_chain_anchor sn\<rparr>"

definition revert_broadcast ::
    "wallet_table \<Rightarrow> string \<Rightarrow> batch_receipt \<Rightarrow> (executor_error, unit \<times> wallet_table) result" where
  "revert_broadcast t scope receipt =
    try_bind (validate_revert_receipt receipt) (\<lambda>_.
    try_bind (load_wallet_request_rows_for_update t scope (map sn_dedupe_key (br_snapshots receipt))) (\<lambda>_.
      Inr ((), foldl (\<lambda>t sn. update_where (key_in scope [sn_dedupe_key sn]) (revert_row sn) t)
                 t (br_snapshots receipt))))"

section \<open>Confirmation and reconciliation\<close>

definition persist_confirmation ::
    "wallet_table \<Rightarrow> string \<Rightarrow> confirmation_plan \<Rightarrow> (executor_error, unit \<times> wallet_table) result" where
  "persist_confirmation t scope plan =
    try_bind (validate_confirmation_plan plan) (\<lambda>_.
    try_bind (load_wallet_request_rows_for_update t scope (collect_confirmation_keys plan)) (\<lambda>rows.
    try_bind (index_wallet_request_rows rows []) (\<lambda>by_key.
    try_bind (try_each (check_inflight_member by_key (cp_lineage_id plan)) (cp_confirmed plan)) (\<lambda>_.
    try_bind (try_each (check_inflight_member by_key (cp_lineage_id plan)) (cp_orphaned plan)) (\<lambda>_.
      let t1 = update_rows_to_confirmed scope (cp_confirmed plan) (cp_confirmed_txid plan) t;
          t2 = (if cp_orphaned plan \<noteq> []
                then update_rows_to_pending_with_optional_anchor scope (cp_orphaned plan) (cp_chain_anchor plan) t1
                else t1)
      in Inr ((), t2))))))"

definition persist_reconciliation ::
    "wallet_table \<Rightarrow> string \<Rightarrow> reconciliation_plan \<Rightarrow> (executor_error, unit \<times> wallet_table) result" where
  "persist_reconciliation t scope plan =
    try_bind (validate_reconciliation_plan plan) (\<lambda>_.
    try_bind (load_wallet_request_rows_for_update t scope (collect_reconciliation_keys plan)) (\<lambda>rows.
    try_bind (index_wallet_request_rows rows []) (\<lambda>by_key.
    try_bind (try_each (check_inflight_member by_key (rp_lineage_id plan)) (rp_survivors plan)) (\<lambda>_.
    try_bind (try_each (check_inflight_member by_key (rp_lineage_id plan)) (rp_requeued plan)) (\<lambda>_.
      Inr ((),
        case rp_kind plan of
          RConfirmed confirmed \<Rightarrow>
            (let t1 = update_rows_to_confirmed scope (rp_survivors plan) confirmed t
             in if rp_requeued plan \<noteq> []
                then update_rows_to_pending_with_optional_anchor scope (rp_requeued plan) (rp_chain_anchor plan) t1
                else t1)
        | RInMempool surviving \<Rightarrow>
            (let t1 = update_rows_to_surviving_inflight scope (rp_survivors plan) (rp_lineage_id plan) surviving t
             in if rp_requeued plan \<noteq> []
                then update_rows_to_pending_with_optional_anchor scope (rp_requeued plan) None t1
                else t1)
        | RNoSurvivor \<Rightarrow>
            update_rows_to_pending_with_optional_anchor scope (rp_requeued plan) None t))))))"

section \<open>Queries\<close>

definition has_submitted_tx :: "wallet_table \<Rightarrow> string \<Rightarrow> txid \<Rightarrow> bool" where
  "has_submitted_tx t scope tx =
    list_ex (\<lambda>r. row_scope r = scope \<and>
      (row_batch_txid r = Some (Parsed tx) \<or> Parsed tx \<in> set (row_txid_history r))) t"

text \<open>
  \<open>SELECT DISTINCT ON (lineage_id) .. ORDER BY lineage_id, created_at DESC\<close> keeps one row of
  each lineage, the one created last (the first of them in the table when several tie).
\<close>

fun distinct_on_lineage :: "wallet_row list \<Rightarrow> wallet_row list" where
  "distinct_on_lineage [] = []"
| "distinct_on_lineage (r # rs) =
    r # distinct_on_lineage (filter (\<lambda>q. row_lineage_id q \<noteq> row_lineage_id r) rs)"

definition list_confirmed_lineage_heads ::
    "wallet_table \<Rightarrow> string \<Rightarrow> nat \<Rightarrow> (executor_error, confirmed_head list) result" where
  "list_confirmed_lineage_heads t scope limit =
    (let confirmed = filter (\<lambda>r. row_scope r = scope \<and> row_status r = ''confirmed'' \<and> row_lineage_id r \<noteq> None) t;
         heads = distinct_on_lineage
           (sort_key (\<lambda>r. lineage_rank (row_lineage_id r)) (sort_key (\<lambda>r. - row_created_at r) confirmed));
         rows = take limit (sort_key (\<lambda>r. - row_created_at r) heads)
     in try_map (\<lambda>r.
          try_bind (parse_lineage_id (row_lineage_id r)) (\<lambda>l.
          try_bind (parse_txid (row_batch_txid r) ''batch_txid'') (\<lambda>b.
            Inr \<lparr>ch_lineage_id = l, ch_confirmed_txid = b\<rparr>))) rows)"

end
