(* ===== verification/WalletStoreLaws.thy ===== *)
theory WalletStoreLaws
  imports WalletStore
begin

text \<open>
  The laws of the Postgres wallet store: what each operation does to the rows, that a reverted
  broadcast restores the table exactly, the row invariant of the lifecycle and its preservation
  over every reachable table, and what \<open>restore\<close> rebuilds.
\<close>

named_theorems row_simps \<open>row-level equations of the store\<close>

section \<open>Tables and their primary key\<close>

definition row_pk :: "wallet_row \<Rightarrow> string \<times> string" where
  "row_pk r = (row_scope r, row_dedupe_key r)"

definition table_wf :: "wallet_table \<Rightarrow> bool" where
  "table_wf t = distinct (map row_pk t)"

lemma table_wf_unique:
  "table_wf t \<Longrightarrow> r \<in> set t \<Longrightarrow> q \<in> set t \<Longrightarrow> row_scope r = row_scope q \<Longrightarrow>
    row_dedupe_key r = row_dedupe_key q \<Longrightarrow> r = q"
  by (auto simp: table_wf_def row_pk_def distinct_map inj_on_def)

lemma table_wf_update_where:
  assumes "\<And>r. row_pk (f r) = row_pk r"
  shows "table_wf (update_where c f t) = table_wf t"
proof -
  have "map row_pk (update_where c f t) = map row_pk t"
    using assms by (simp add: update_where_def)
  then show ?thesis by (simp add: table_wf_def)
qed

lemma distinct_keys_in_scope:
  assumes "table_wf t"
  shows "distinct (map row_dedupe_key (filter (key_in scope keys) t))"
proof -
  have "distinct (map row_pk (filter (key_in scope keys) t))"
    using assms by (auto simp: table_wf_def distinct_map_filter)
  then have "inj_on row_pk (set (filter (key_in scope keys) t))" "distinct (filter (key_in scope keys) t)"
    by (auto simp: distinct_map)
  moreover from this(1) have "inj_on row_dedupe_key (set (filter (key_in scope keys) t))"
    by (auto simp: inj_on_def row_pk_def key_in_def)
  ultimately show ?thesis by (simp add: distinct_map)
qed

lemma load_row_eq_Some:
  assumes "table_wf t"
  shows "load_wallet_request_row t scope k = Some r \<longleftrightarrow>
    r \<in> set t \<and> row_scope r = scope \<and> row_dedupe_key r = k"
proof
  assume "load_wallet_request_row t scope k = Some r"
  then show "r \<in> set t \<and> row_scope r = scope \<and> row_dedupe_key r = k"
    by (auto simp: load_wallet_request_row_def find_Some_iff key_in_def)
next
  assume r: "r \<in> set t \<and> row_scope r = scope \<and> row_dedupe_key r = k"
  then obtain q where q: "load_wallet_request_row t scope k = Some q"
    by (cases "load_wallet_request_row t scope k")
      (auto simp: load_wallet_request_row_def find_None_iff key_in_def)
  then have "q \<in> set t \<and> row_scope q = scope \<and> row_dedupe_key q = k"
    by (auto simp: load_wallet_request_row_def find_Some_iff key_in_def)
  with r assms have "q = r" by (metis table_wf_unique)
  with q show "load_wallet_request_row t scope k = Some r" by simp
qed

lemma load_row_eq_None:
  "load_wallet_request_row t scope k = None \<longleftrightarrow>
    (\<forall>r \<in> set t. \<not> (row_scope r = scope \<and> row_dedupe_key r = k))"
  by (auto simp: load_wallet_request_row_def find_None_iff key_in_def)

lemma load_row_update_where:
  assumes "\<And>r. row_pk (f r) = row_pk r"
  shows "load_wallet_request_row (update_where c f t) scope k =
    map_option (\<lambda>r. if c r then f r else r) (load_wallet_request_row t scope k)"
proof -
  have "key_in scope [k] (if c r then f r else r) = key_in scope [k] r" for r
    using assms[of r] by (simp add: key_in_def row_pk_def)
  then show ?thesis
    by (induction t) (auto simp: load_wallet_request_row_def update_where_def)
qed

section \<open>Locking the rows of a plan\<close>

lemma filter_key_in_cong: "set ks = set ks' \<Longrightarrow> filter (key_in scope ks) t = filter (key_in scope ks') t"
  by (intro filter_cong) (auto simp: key_in_def)

lemma load_rows_Inr:
  assumes wf: "table_wf t" and load: "load_wallet_request_rows_for_update t scope keys = Inr rows"
    and d: "distinct keys"
  shows "distinct (map row_dedupe_key rows)" "set (map row_dedupe_key rows) = set keys"
    "set rows = {r \<in> set t. key_in scope keys r}"
proof -
  have rows: "rows = sort_key row_dedupe_key (filter (key_in scope keys) t)"
    and len: "length rows = length keys"
    using load by (auto simp: load_wallet_request_rows_for_update_def Let_def key_in_def split: if_splits)
  have "mset (map row_dedupe_key rows) = mset (map row_dedupe_key (filter (key_in scope keys) t))"
    by (simp add: rows)
  then show dr: "distinct (map row_dedupe_key rows)"
    using distinct_keys_in_scope[OF wf] by (metis mset_eq_imp_distinct_iff)
  show "set rows = {r \<in> set t. key_in scope keys r}"
    by (auto simp: rows)
  have sub: "set (map row_dedupe_key rows) \<subseteq> set keys"
    by (auto simp: rows key_in_def)
  have "card (set (map row_dedupe_key rows)) = card (set keys)"
    using dr d len by (simp only: distinct_card length_map)
  with sub show "set (map row_dedupe_key rows) = set keys"
    by (meson List.finite_set card_subset_eq)
qed

lemma index_rows_distinct:
  assumes "distinct (map row_dedupe_key rows)" "fst ` set acc \<inter> row_dedupe_key ` set rows = {}"
  shows "index_wallet_request_rows rows acc = Inr (acc @ map (\<lambda>r. (row_dedupe_key r, r)) rows)"
  using assms
proof (induction rows arbitrary: acc)
  case (Cons r rs)
  then have new: "row_dedupe_key r \<notin> fst ` set acc" by auto
  then have none: "map_of acc (row_dedupe_key r) = None" by (simp add: map_of_eq_None_iff)
  have upd: "AList.update (row_dedupe_key r) r acc = acc @ [(row_dedupe_key r, r)]"
    using new by (rule update_fresh)
  have "fst ` set (acc @ [(row_dedupe_key r, r)]) \<inter> row_dedupe_key ` set rs = {}"
    using Cons.prems by auto
  with Cons.IH[of "acc @ [(row_dedupe_key r, r)]"] Cons.prems none upd show ?case by simp
qed simp

lemma index_rows:
  "distinct (map row_dedupe_key rows) \<Longrightarrow>
    index_wallet_request_rows rows [] = Inr (map (\<lambda>r. (row_dedupe_key r, r)) rows)"
  by (simp add: index_rows_distinct)

lemma map_of_index:
  assumes "distinct (map row_dedupe_key rows)"
  shows "map_of (map (\<lambda>r. (row_dedupe_key r, r)) rows) k = Some r \<longleftrightarrow>
    r \<in> set rows \<and> row_dedupe_key r = k"
proof -
  have "distinct (map fst (map (\<lambda>r. (row_dedupe_key r, r)) rows))"
    using assms by (simp add: comp_def)
  then show ?thesis by (auto simp: image_iff simp del: map_map)
qed

text \<open>The row a check of a plan sees under a key is the row of the table.\<close>

lemma row_for_locked:
  assumes wf: "table_wf t" and load: "load_wallet_request_rows_for_update t scope keys = Inr rows"
    and d: "distinct keys" and k: "k \<in> set keys"
  shows "row_for (map (\<lambda>r. (row_dedupe_key r, r)) rows) k = Inr r \<longleftrightarrow>
    load_wallet_request_row t scope k = Some r"
proof -
  note L = load_rows_Inr[OF wf load d]
  have "row_for (map (\<lambda>r. (row_dedupe_key r, r)) rows) k = Inr r \<longleftrightarrow> r \<in> set rows \<and> row_dedupe_key r = k"
    using map_of_index[OF L(1)] by (simp add: row_for_def try_simps)
  also have "\<dots> \<longleftrightarrow> r \<in> set t \<and> row_scope r = scope \<and> row_dedupe_key r = k"
    using k by (auto simp: L(3) key_in_def)
  finally show ?thesis using load_row_eq_Some[OF wf] by simp
qed

section \<open>What a broadcast does to the table\<close>

lemma validate_persist_plan_Inr:
  "validate_persist_plan plan = Inr u \<longleftrightarrow>
    bp_included plan \<noteq> [] \<and> distinct (bp_included plan) \<and> distinct (bp_dropped plan)
    \<and> set (bp_included plan) \<inter> set (bp_dropped plan) = {}"
proof -
  have "card (set xs) = length xs \<longleftrightarrow> distinct xs" for xs :: "string list"
    using card_distinct distinct_card by blast
  then show ?thesis
    by (auto simp: validate_persist_plan_def ensure_unique_keys_def try_simps list_ex_iff)
qed

lemma collect_plan_keys_facts:
  assumes "validate_persist_plan plan = Inr u"
  shows "distinct (collect_plan_keys plan)"
    "set (collect_plan_keys plan) = set (bp_included plan) \<union> set (bp_dropped plan)"
    "collect_plan_keys plan \<noteq> []"
proof -
  have "mset (collect_plan_keys plan) = mset (bp_included plan @ bp_dropped plan)"
    by (simp add: collect_plan_keys_def)
  then show "distinct (collect_plan_keys plan)"
    using assms by (auto simp: collect_plan_keys_def validate_persist_plan_Inr)
  show "set (collect_plan_keys plan) = set (bp_included plan) \<union> set (bp_dropped plan)"
    by (simp add: collect_plan_keys_def)
  then show "collect_plan_keys plan \<noteq> []"
    using assms by (auto simp: validate_persist_plan_Inr simp flip: set_empty)
qed

definition inflight_row :: "lineage_id \<Rightarrow> txid \<Rightarrow> wallet_row \<Rightarrow> wallet_row" where
  "inflight_row lin tx r =
    r\<lparr>row_status := ''inflight'', row_lineage_id := Some (Parsed lin),
      row_batch_txid := Some (Parsed tx), row_txid_history := row_txid_history r @ [Parsed tx]\<rparr>"

definition requeued_row :: "wallet_row \<Rightarrow> wallet_row" where
  "requeued_row r = r\<lparr>row_status := ''pending'', row_lineage_id := None, row_batch_txid := None\<rparr>"

definition broadcast_row :: "string \<Rightarrow> broadcast_plan \<Rightarrow> wallet_row \<Rightarrow> wallet_row" where
  "broadcast_row scope plan r =
    (if key_in scope (bp_included plan) r then inflight_row (bp_lineage_id plan) (bp_txid plan) r
     else if key_in scope (bp_dropped plan) r then requeued_row r else r)"

lemma row_pk_broadcast_row [row_simps]: "row_pk (broadcast_row scope plan r) = row_pk r"
  by (simp add: broadcast_row_def inflight_row_def requeued_row_def row_pk_def)

lemma key_in_row_pk: "row_pk r = row_pk q \<Longrightarrow> key_in scope keys r = key_in scope keys q"
  by (simp add: row_pk_def key_in_def)

lemma key_in_broadcast_row [row_simps]: "key_in s k (broadcast_row scope plan r) = key_in s k r"
  by (rule key_in_row_pk) (rule row_pk_broadcast_row)

text \<open>
  Everything a successful \<open>persist_broadcast\<close> establishes: the plan is valid, its rows are
  exactly the rows of its keys, their snapshots are in the receipt, and the new table.
\<close>

lemma persist_broadcast_Inr:
  assumes wf: "table_wf t" and ok: "persist_broadcast t scope plan = Inr (receipt, t')"
  obtains rows snaps where
    "validate_persist_plan plan = Inr ()"
    "load_wallet_request_rows_for_update t scope (collect_plan_keys plan) = Inr rows"
    "check_broadcast (map (\<lambda>r. (row_dedupe_key r, r)) rows) plan = Inr ()"
    "try_map snapshot_from_row rows = Inr snaps"
    "receipt = \<lparr>br_lineage_id = bp_lineage_id plan, br_txid = bp_txid plan,
       br_raw_tx_hex = bp_raw_tx_hex plan, br_snapshots = sort_key sn_dedupe_key snaps\<rparr>"
    "t' = map (broadcast_row scope plan) t"
proof -
  from ok obtain rows by_key snaps where v: "validate_persist_plan plan = Inr ()"
    and load: "load_wallet_request_rows_for_update t scope (collect_plan_keys plan) = Inr rows"
    and idx: "index_wallet_request_rows rows [] = Inr by_key"
    and chk: "check_broadcast by_key plan = Inr ()"
    and snaps: "try_map snapshot_from_row (map snd by_key) = Inr snaps"
    and rc: "receipt = \<lparr>br_lineage_id = bp_lineage_id plan, br_txid = bp_txid plan,
       br_raw_tx_hex = bp_raw_tx_hex plan, br_snapshots = sort_key sn_dedupe_key snaps\<rparr>"
    and t': "t' = (if bp_kind plan = KRbf \<and> bp_dropped plan \<noteq> []
       then update_rows_to_pending scope (bp_dropped plan)
         (update_rows_to_inflight scope (bp_included plan) (bp_lineage_id plan) (bp_txid plan) t)
       else update_rows_to_inflight scope (bp_included plan) (bp_lineage_id plan) (bp_txid plan) t)"
    by (auto simp: persist_broadcast_def Let_def try_simps)
  note K = collect_plan_keys_facts[OF v]
  have by_key: "by_key = map (\<lambda>r. (row_dedupe_key r, r)) rows"
    using idx index_rows[OF load_rows_Inr(1)[OF wf load K(1)]] by simp
  have dropped: "bp_kind plan \<noteq> KRbf \<Longrightarrow> bp_dropped plan = []"
    using chk by (auto simp: check_broadcast_def try_simps split: broadcast_kind.splits)
  have disj: "set (bp_included plan) \<inter> set (bp_dropped plan) = {}"
    using v by (simp add: validate_persist_plan_Inr)
  have infl: "update_rows_to_inflight scope (bp_included plan) (bp_lineage_id plan) (bp_txid plan) t =
      map (\<lambda>r. if key_in scope (bp_included plan) r
        then inflight_row (bp_lineage_id plan) (bp_txid plan) r else r) t"
    by (simp add: update_rows_to_inflight_def update_where_def inflight_row_def)
  have "t' = map (broadcast_row scope plan) t"
  proof (cases "bp_kind plan = KRbf \<and> bp_dropped plan \<noteq> []")
    case True
    then show ?thesis
      using disj
      by (auto simp: t' infl update_rows_to_pending_def update_where_def broadcast_row_def
          inflight_row_def requeued_row_def key_in_def)
  next
    case False
    then have "bp_dropped plan = []" using dropped by blast
    with False show ?thesis by (auto simp: t' infl broadcast_row_def key_in_def)
  qed
  moreover from snaps have "try_map snapshot_from_row rows = Inr snaps"
    by (simp add: by_key comp_def)
  ultimately show thesis using that v load chk[unfolded by_key] rc by blast
qed

section \<open>Reverting a broadcast\<close>

lemma status_roundtrip:
  "try_from_status s = Inr st \<Longrightarrow> lifecycle_status_as_str (as_lifecycle_status st) = s"
  by (auto simp: try_from_status_def split: if_splits)

lemma parse_history_roundtrip: "parse_txid_history cols = Inr hist \<Longrightarrow> encode_txid_history hist = cols"
proof (induction cols arbitrary: hist)
  case (Cons c cs)
  then show ?case
    by (cases c) (auto simp: parse_txid_history_def encode_txid_history_def try_simps)
qed (simp add: parse_txid_history_def encode_txid_history_def)

lemma parse_optional_lineage:
  "(case c of None \<Rightarrow> Inr None | Some v \<Rightarrow> try_bind (parse_lineage_id (Some v)) (\<lambda>l. Inr (Some l))) = Inr l
    \<Longrightarrow> map_option Parsed l = c"
  by (cases c rule: option.exhaust; cases "the c") (auto simp: try_simps)

lemma parse_optional_txid:
  "(case c of None \<Rightarrow> Inr None | Some v \<Rightarrow> try_bind (parse_txid (Some v) f) (\<lambda>l. Inr (Some l))) = Inr l
    \<Longrightarrow> map_option Parsed l = c"
  by (cases c rule: option.exhaust; cases "the c") (auto simp: try_simps)

lemma snapshot_from_row_Inr:
  assumes "snapshot_from_row r = Inr sn"
  shows "sn_dedupe_key sn = row_dedupe_key r" "lifecycle_status_as_str (sn_status sn) = row_status r"
    "map_option Parsed (sn_lineage_id sn) = row_lineage_id r"
    "map_option Parsed (sn_batch_txid sn) = row_batch_txid r"
    "encode_txid_history (sn_txid_history sn) = row_txid_history r"
    "sn_chain_anchor sn = row_chain_anchor r"
proof -
  from assms obtain st l b h where
    "try_from_status (row_status r) = Inr st"
    "(case row_lineage_id r of None \<Rightarrow> Inr None
      | Some v \<Rightarrow> try_bind (parse_lineage_id (Some v)) (\<lambda>l. Inr (Some l))) = Inr l"
    "(case row_batch_txid r of None \<Rightarrow> Inr None
      | Some v \<Rightarrow> try_bind (parse_txid (Some v) ''batch_txid'') (\<lambda>l. Inr (Some l))) = Inr b"
    "parse_txid_history (row_txid_history r) = Inr h"
    "sn = \<lparr>sn_dedupe_key = row_dedupe_key r, sn_status = as_lifecycle_status st,
       sn_lineage_id = l, sn_batch_txid = b, sn_txid_history = h, sn_chain_anchor = row_chain_anchor r\<rparr>"
    by (auto simp: snapshot_from_row_def try_simps)
  then show "sn_dedupe_key sn = row_dedupe_key r" "lifecycle_status_as_str (sn_status sn) = row_status r"
    "map_option Parsed (sn_lineage_id sn) = row_lineage_id r"
    "map_option Parsed (sn_batch_txid sn) = row_batch_txid r"
    "encode_txid_history (sn_txid_history sn) = row_txid_history r"
    "sn_chain_anchor sn = row_chain_anchor r"
    by (auto simp: status_roundtrip parse_history_roundtrip
        dest: parse_optional_lineage parse_optional_txid)
qed

text \<open>Two rows that differ at most in the columns a broadcast writes.\<close>

definition same_request :: "wallet_row \<Rightarrow> wallet_row \<Rightarrow> bool" where
  "same_request r q = (row_pk r = row_pk q \<and> row_kind r = row_kind q
    \<and> row_payload r = row_payload q \<and> row_created_at r = row_created_at q)"

lemma revert_row_snapshot:
  assumes "snapshot_from_row r = Inr sn" "same_request r q"
  shows "revert_row sn q = r"
  using snapshot_from_row_Inr[OF assms(1)] assms(2)
  by (simp add: revert_row_def same_request_def row_pk_def)

lemma row_pk_revert_row [row_simps]: "row_pk (revert_row sn r) = row_pk r"
  by (simp add: revert_row_def row_pk_def)

lemma same_request_broadcast_row: "same_request r (broadcast_row scope plan r)"
  by (simp add: same_request_def broadcast_row_def inflight_row_def requeued_row_def row_pk_def)

definition revert_with :: "string \<Rightarrow> request_snapshot list \<Rightarrow> wallet_row \<Rightarrow> wallet_row" where
  "revert_with scope sns r =
    (if row_scope r = scope
     then (case find (\<lambda>sn. sn_dedupe_key sn = row_dedupe_key r) sns of
             None \<Rightarrow> r | Some sn \<Rightarrow> revert_row sn r)
     else r)"

lemma foldl_revert:
  "distinct (map sn_dedupe_key sns) \<Longrightarrow>
    foldl (\<lambda>t sn. update_where (key_in scope [sn_dedupe_key sn]) (revert_row sn) t) t sns =
    map (revert_with scope sns) t"
proof (induction sns arbitrary: t)
  case Nil
  then show ?case by (simp add: revert_with_def map_idI)
next
  case (Cons sn sns)
  have "revert_with scope sns (if key_in scope [sn_dedupe_key sn] r then revert_row sn r else r) =
      revert_with scope (sn # sns) r" for r
  proof (cases "key_in scope [sn_dedupe_key sn] r")
    case True
    then have "find (\<lambda>s. sn_dedupe_key s = row_dedupe_key r) sns = None"
      using Cons.prems by (auto simp: find_None_iff key_in_def image_iff)
    with True show ?thesis
      by (simp add: revert_with_def key_in_def revert_row_def)
  qed (auto simp: revert_with_def key_in_def)
  with Cons show ?case by (simp add: update_where_def comp_def)
qed

lemma find_unique_key:
  assumes "distinct (map f xs)" "x \<in> set xs"
  shows "find (\<lambda>y. f y = f x) xs = Some x"
  using assms
proof (induction xs)
  case (Cons y ys)
  then show ?case by (cases "y = x") (auto simp: image_iff)
qed simp

lemma find_no_key: "k \<notin> f ` set xs \<Longrightarrow> find (\<lambda>y. f y = k) xs = None"
  by (auto simp: find_None_iff)

text \<open>The snapshots of a receipt are those of the rows of the plan, one for each key.\<close>

lemma receipt_snapshots:
  assumes wf: "table_wf t" and ok: "persist_broadcast t scope plan = Inr (receipt, t')"
  shows "distinct (map sn_dedupe_key (br_snapshots receipt))"
    and "sn_dedupe_key ` set (br_snapshots receipt) = set (collect_plan_keys plan)"
    and "length (filter (key_in scope (collect_plan_keys plan)) t) = length (br_snapshots receipt)"
    and "br_snapshots receipt \<noteq> []"
    and "k \<in> set (collect_plan_keys plan) \<Longrightarrow> \<exists>r \<in> set t. row_scope r = scope \<and> row_dedupe_key r = k"
    and "r \<in> set t \<Longrightarrow> key_in scope (collect_plan_keys plan) r \<Longrightarrow>
      \<exists>sn. find (\<lambda>s. sn_dedupe_key s = row_dedupe_key r) (br_snapshots receipt) = Some sn
        \<and> snapshot_from_row r = Inr sn"
proof -
  obtain rows snaps where v: "validate_persist_plan plan = Inr ()"
    and load: "load_wallet_request_rows_for_update t scope (collect_plan_keys plan) = Inr rows"
    and snaps: "try_map snapshot_from_row rows = Inr snaps"
    and rc: "br_snapshots receipt = sort_key sn_dedupe_key snaps"
    using persist_broadcast_Inr[OF wf ok] by (metis batch_receipt.select_convs(4))
  note K = collect_plan_keys_facts[OF v]
  note R = load_rows_Inr[OF wf load K(1)]
  have all2: "list_all2 (\<lambda>r sn. snapshot_from_row r = Inr sn) rows snaps"
    using snaps by (simp add: try_map_eq_Inr)
  then have keys: "map sn_dedupe_key snaps = map row_dedupe_key rows"
    by (induction rule: list_all2_induct) (auto simp: snapshot_from_row_Inr(1))
  have "distinct (map sn_dedupe_key snaps)" using R(1) keys by simp
  then show dist: "distinct (map sn_dedupe_key (br_snapshots receipt))"
    by (metis (no_types, lifting) rc mset_eq_imp_distinct_iff mset_map mset_sort)
  have "sn_dedupe_key ` set snaps = row_dedupe_key ` set rows" using keys by (metis list.set_map)
  then show set: "sn_dedupe_key ` set (br_snapshots receipt) = set (collect_plan_keys plan)"
    using R(2) by (simp add: rc)
  then show "br_snapshots receipt \<noteq> []"
    using K(3) by (metis image_is_empty set_empty)
  have "length rows = length snaps" using keys by (metis length_map)
  then show "length (filter (key_in scope (collect_plan_keys plan)) t) = length (br_snapshots receipt)"
    using load K(3) by (auto simp: rc load_wallet_request_rows_for_update_def Let_def split: if_splits)
  show "k \<in> set (collect_plan_keys plan) \<Longrightarrow> \<exists>r \<in> set t. row_scope r = scope \<and> row_dedupe_key r = k"
  proof -
    assume "k \<in> set (collect_plan_keys plan)"
    then have "k \<in> row_dedupe_key ` set rows" using R(2) by simp
    then show ?thesis using R(3) by (auto simp: key_in_def)
  qed
  show "\<exists>sn. find (\<lambda>s. sn_dedupe_key s = row_dedupe_key r) (br_snapshots receipt) = Some sn
        \<and> snapshot_from_row r = Inr sn"
    if "r \<in> set t" "key_in scope (collect_plan_keys plan) r"
  proof -
    have "r \<in> set rows" using R(3) that by simp
    with all2 have "\<exists>sn \<in> set snaps. snapshot_from_row r = Inr sn"
      by (induction rule: list_all2_induct) auto
    then obtain sn where sn: "sn \<in> set snaps" "snapshot_from_row r = Inr sn" by blast
    then have "sn \<in> set (br_snapshots receipt)" by (simp add: rc)
    from find_unique_key[OF dist this] sn show ?thesis by (simp add: snapshot_from_row_Inr(1))
  qed
qed

text \<open>
  The rollback of a rejected broadcast, with requests enqueued by other tasks in between: the
  rows written by the broadcast return to what they were, the appended rows stay.
\<close>

lemma revert_broadcast_exact:
  assumes wf: "table_wf (t @ extra)" and ok: "persist_broadcast t scope plan = Inr (receipt, t')"
  shows "revert_broadcast (t' @ extra) scope receipt = Inr ((), t @ extra)"
proof -
  have wft: "table_wf t" using wf by (simp add: table_wf_def)
  let ?sns = "br_snapshots receipt" and ?keys = "collect_plan_keys plan"
  note R = receipt_snapshots[OF wft ok]
  have t': "t' = map (broadcast_row scope plan) t" and v: "validate_persist_plan plan = Inr ()"
    using persist_broadcast_Inr[OF wft ok] by metis+
  have valid: "validate_revert_receipt receipt = Inr ()"
    using R(4) distinct_card[OF R(1)]
    by (simp add: validate_revert_receipt_def ensure_unique_keys_def try_simps)
  have extra: "\<not> key_in scope ?keys e" if e: "e \<in> set extra" for e
  proof
    assume k: "key_in scope ?keys e"
    then obtain r where "r \<in> set t" "row_pk r = row_pk e"
      using R(5)[of "row_dedupe_key e"] by (auto simp: key_in_def row_pk_def)
    with e wf show False by (auto simp: table_wf_def)
  qed
  have set: "set (map sn_dedupe_key ?sns) = set ?keys" using R(2) by simp
  have "filter (key_in scope ?keys) t' = map (broadcast_row scope plan) (filter (key_in scope ?keys) t)"
    by (simp add: t' filter_map comp_def row_simps)
  then have "length (filter (key_in scope (map sn_dedupe_key ?sns)) (t' @ extra)) = length (map sn_dedupe_key ?sns)"
    using R(3) extra by (simp add: filter_key_in_cong[OF set] filter_empty_conv)
  then obtain rs where load: "load_wallet_request_rows_for_update (t' @ extra) scope (map sn_dedupe_key ?sns) = Inr rs"
    using R(4) by (auto simp: load_wallet_request_rows_for_update_def Let_def simp del: filter_append)
  have unkeyed: "revert_with scope ?sns r = r" if "\<not> key_in scope ?keys r" for r
    using that R(2) by (auto simp: revert_with_def key_in_def find_no_key)
  have "revert_with scope ?sns (broadcast_row scope plan r) = r" if r: "r \<in> set t" for r
  proof (cases "key_in scope ?keys r")
    case True
    have pk: "row_scope (broadcast_row scope plan r) = row_scope r"
      "row_dedupe_key (broadcast_row scope plan r) = row_dedupe_key r"
      using row_pk_broadcast_row[of scope plan r] by (simp_all add: row_pk_def)
    from R(6)[OF r True] True pk show ?thesis
      by (auto simp: revert_with_def key_in_def revert_row_snapshot[OF _ same_request_broadcast_row])
  next
    case False
    then have "broadcast_row scope plan r = r"
      using collect_plan_keys_facts(2)[OF v] by (auto simp: broadcast_row_def key_in_def)
    with unkeyed[OF False] show ?thesis by simp
  qed
  then have "map (revert_with scope ?sns) (t' @ extra) = t @ extra"
    using unkeyed extra by (auto simp: t' map_idI)
  with valid load show ?thesis
    by (simp add: revert_broadcast_def foldl_revert[OF R(1)])
qed

section \<open>What the checks of a plan establish\<close>

lemma try_from_status_Inr [try_simps]: "try_from_status s = Inr st \<longleftrightarrow> s = status_as_str st"
  by (cases st) (auto simp: try_from_status_def)

lemma ensure_status_Inr [try_simps]: "ensure_status r st k = Inr u \<longleftrightarrow> row_status r = status_as_str st"
  by (cases st) (auto simp: ensure_status_def try_simps)

lemma parse_lineage_id_Inr [try_simps]: "parse_lineage_id c = Inr l \<longleftrightarrow> c = Some (Parsed l)"
  by (cases c rule: parse_lineage_id.cases) auto

lemma parse_txid_Inr [try_simps]: "parse_txid c f = Inr b \<longleftrightarrow> c = Some (Parsed b)"
  by (cases "(c, f)" rule: parse_txid.cases) auto

lemma ensure_matching_lineage_Inr [try_simps]:
  "ensure_matching_lineage r l k = Inr u \<longleftrightarrow> row_lineage_id r = Some (Parsed l)"
  by (auto simp: ensure_matching_lineage_def try_simps)

lemma parse_txid_history_Inr: "parse_txid_history cols = Inr hist \<longleftrightarrow> cols = map Parsed hist"
proof
  assume "cols = map Parsed hist"
  moreover have "try_map parse_history_entry (map Parsed hist) = Inr hist"
    by (induction hist) auto
  ultimately show "parse_txid_history cols = Inr hist" by (simp add: parse_txid_history_def)
qed (use parse_history_roundtrip in \<open>auto simp: encode_txid_history_def\<close>)

lemma ensure_unique_txid_history_Inr [try_simps]: "ensure_unique_txid_history h = Inr u \<longleftrightarrow> distinct h"
  using card_distinct distinct_card by (auto simp: ensure_unique_txid_history_def try_simps)

lemma history_append_is_safe_Inr:
  "ensure_txid_history_append_is_safe r tx k = Inr u \<longleftrightarrow>
    (\<exists>hist. row_txid_history r = map Parsed hist \<and> distinct (hist @ [tx]))"
  by (auto simp: ensure_txid_history_append_is_safe_def try_simps parse_txid_history_Inr)

lemma check_inflight_member_row:
  assumes "table_wf t" "load_wallet_request_rows_for_update t scope keys = Inr rows" "distinct keys"
    and "k \<in> set keys"
    and "check_inflight_member (map (\<lambda>r. (row_dedupe_key r, r)) rows) lin k = Inr u"
    and r: "r \<in> set t" "row_scope r = scope" "row_dedupe_key r = k"
  shows "row_status r = ''inflight'' \<and> row_lineage_id r = Some (Parsed lin)"
proof -
  have "load_wallet_request_row t scope k = Some r"
    using load_row_eq_Some[OF assms(1)] r by blast
  then have "row_for (map (\<lambda>r. (row_dedupe_key r, r)) rows) k = Inr r"
    using row_for_locked[OF assms(1-4)] by blast
  with assms(5) show ?thesis by (simp add: check_inflight_member_def try_simps)
qed

definition can_append :: "txid \<Rightarrow> wallet_row \<Rightarrow> bool" where
  "can_append tx r = (\<exists>hist. row_txid_history r = map Parsed hist \<and> distinct (hist @ [tx]))"

lemma check_fresh_included_Inr:
  "check_fresh_included by_key tx k = Inr u \<longleftrightarrow>
    (\<exists>r. row_for by_key k = Inr r \<and> row_status r = ''pending'' \<and> can_append tx r)"
  by (simp add: check_fresh_included_def can_append_def try_simps history_append_is_safe_Inr)

lemma rbf_status_check:
  "(\<exists>st. s = status_as_str st \<and> (case st of WPending \<Rightarrow> Inr () | WInflight \<Rightarrow> c | _ \<Rightarrow> Inl e) = Inr u) \<longleftrightarrow>
    s = ''pending'' \<or> s = ''inflight'' \<and> c = Inr u"
proof
  assume "\<exists>st. s = status_as_str st \<and> (case st of WPending \<Rightarrow> Inr () | WInflight \<Rightarrow> c | _ \<Rightarrow> Inl e) = Inr u"
  then obtain st where "s = status_as_str st"
    "(case st of WPending \<Rightarrow> Inr () | WInflight \<Rightarrow> c | _ \<Rightarrow> Inl e) = Inr u" by blast
  then show "s = ''pending'' \<or> s = ''inflight'' \<and> c = Inr u"
    by (cases st) auto
next
  assume "s = ''pending'' \<or> s = ''inflight'' \<and> c = Inr u"
  then show "\<exists>st. s = status_as_str st \<and> (case st of WPending \<Rightarrow> Inr () | WInflight \<Rightarrow> c | _ \<Rightarrow> Inl e) = Inr u"
    by (auto intro: exI[of _ WPending] exI[of _ WInflight])
qed

lemma check_rbf_included_Inr:
  "check_rbf_included by_key lin tx k = Inr u \<longleftrightarrow>
    (\<exists>r. row_for by_key k = Inr r \<and> can_append tx r \<and>
      (row_status r = ''pending'' \<or> row_status r = ''inflight'' \<and> row_lineage_id r = Some (Parsed lin)))"
proof -
  have "check_rbf_included by_key lin tx k = Inr u \<longleftrightarrow> (\<exists>r. row_for by_key k = Inr r \<and> can_append tx r \<and>
      (\<exists>st. row_status r = status_as_str st \<and>
        (case st of WPending \<Rightarrow> Inr () | WInflight \<Rightarrow> ensure_matching_lineage r lin k
         | _ \<Rightarrow> Inl (data_corruption (Format ''rbf included request {key} has invalid status {}''
               [ArgStr k, ArgStr (row_status r)]))) = Inr ()))"
    by (auto simp: check_rbf_included_def can_append_def try_simps history_append_is_safe_Inr)
  then show ?thesis by (simp only: rbf_status_check ensure_matching_lineage_Inr)
qed

lemma check_inflight_member_Inr:
  "check_inflight_member by_key lin k = Inr u \<longleftrightarrow>
    (\<exists>r. row_for by_key k = Inr r \<and> row_status r = ''inflight'' \<and> row_lineage_id r = Some (Parsed lin))"
  by (simp add: check_inflight_member_def try_simps)

text \<open>Included rows are pending, or inflight in the replaced lineage, and their history can grow.\<close>

lemma check_broadcast_row:
  assumes wf: "table_wf t" and v: "validate_persist_plan plan = Inr ()"
    and load: "load_wallet_request_rows_for_update t scope (collect_plan_keys plan) = Inr rows"
    and chk: "check_broadcast (map (\<lambda>r. (row_dedupe_key r, r)) rows) plan = Inr ()"
    and r: "r \<in> set t"
  shows "key_in scope (bp_included plan) r \<Longrightarrow>
      (row_status r = ''pending''
        \<or> bp_kind plan = KRbf \<and> row_status r = ''inflight'' \<and> row_lineage_id r = Some (Parsed (bp_lineage_id plan)))
      \<and> can_append (bp_txid plan) r"
    and "key_in scope (bp_dropped plan) r \<Longrightarrow>
      bp_kind plan = KRbf \<and> row_status r = ''inflight'' \<and> row_lineage_id r = Some (Parsed (bp_lineage_id plan))"
proof -
  note K = collect_plan_keys_facts[OF v]
  have row: "row_for (map (\<lambda>r. (row_dedupe_key r, r)) rows) (row_dedupe_key r) = Inr r"
    if "key_in scope (collect_plan_keys plan) r"
    using row_for_locked[OF wf load K(1)] load_row_eq_Some[OF wf] r that by (auto simp: key_in_def)
  show "(row_status r = ''pending''
        \<or> bp_kind plan = KRbf \<and> row_status r = ''inflight'' \<and> row_lineage_id r = Some (Parsed (bp_lineage_id plan)))
      \<and> can_append (bp_txid plan) r"
    if i: "key_in scope (bp_included plan) r"
  proof -
    have "row_for (map (\<lambda>r. (row_dedupe_key r, r)) rows) (row_dedupe_key r) = Inr r"
      using row i K(2) by (auto simp: key_in_def)
    moreover have "row_dedupe_key r \<in> set (bp_included plan)" using i by (simp add: key_in_def)
    ultimately show ?thesis using chk
      by (cases "bp_kind plan")
        (auto simp: check_broadcast_def check_fresh_included_Inr check_rbf_included_Inr try_simps)
  qed
  show "bp_kind plan = KRbf \<and> row_status r = ''inflight'' \<and> row_lineage_id r = Some (Parsed (bp_lineage_id plan))"
    if d: "key_in scope (bp_dropped plan) r"
  proof -
    have "row_for (map (\<lambda>r. (row_dedupe_key r, r)) rows) (row_dedupe_key r) = Inr r"
      using row d K(2) by (auto simp: key_in_def)
    moreover have "row_dedupe_key r \<in> set (bp_dropped plan)" using d by (simp add: key_in_def)
    ultimately show ?thesis using chk
      by (cases "bp_kind plan") (auto simp: check_broadcast_def check_inflight_member_Inr try_simps)
  qed
qed

section \<open>What a confirmation and a reconciliation do to the table\<close>

definition confirmed_row :: "txid \<Rightarrow> wallet_row \<Rightarrow> wallet_row" where
  "confirmed_row tx r =
    r\<lparr>row_status := ''confirmed'', row_batch_txid := Some (Parsed tx), row_chain_anchor := None\<rparr>"

definition anchored_row :: "chain_anchor option \<Rightarrow> wallet_row \<Rightarrow> wallet_row" where
  "anchored_row a r = (requeued_row r)\<lparr>row_chain_anchor := a\<rparr>"

definition surviving_row :: "lineage_id \<Rightarrow> txid \<Rightarrow> wallet_row \<Rightarrow> wallet_row" where
  "surviving_row lin tx r =
    r\<lparr>row_status := ''inflight'', row_lineage_id := Some (Parsed lin), row_batch_txid := Some (Parsed tx)\<rparr>"

definition confirmation_row :: "string \<Rightarrow> confirmation_plan \<Rightarrow> wallet_row \<Rightarrow> wallet_row" where
  "confirmation_row scope plan r =
    (if key_in scope (cp_confirmed plan) r then confirmed_row (cp_confirmed_txid plan) r
     else if key_in scope (cp_orphaned plan) r then anchored_row (cp_chain_anchor plan) r else r)"

definition survivor_row :: "reconciliation_plan \<Rightarrow> wallet_row \<Rightarrow> wallet_row" where
  "survivor_row plan r =
    (case rp_kind plan of RConfirmed tx \<Rightarrow> confirmed_row tx r
     | RInMempool tx \<Rightarrow> surviving_row (rp_lineage_id plan) tx r | RNoSurvivor \<Rightarrow> r)"

definition reconciliation_row :: "string \<Rightarrow> reconciliation_plan \<Rightarrow> wallet_row \<Rightarrow> wallet_row" where
  "reconciliation_row scope plan r =
    (if key_in scope (rp_survivors plan) r then survivor_row plan r
     else if key_in scope (rp_requeued plan) r
     then anchored_row (case rp_kind plan of RConfirmed _ \<Rightarrow> rp_chain_anchor plan | _ \<Rightarrow> None) r
     else r)"

lemmas written_row_defs =
  confirmed_row_def anchored_row_def surviving_row_def requeued_row_def inflight_row_def

lemma row_pk_written [row_simps]:
  "row_pk (confirmation_row scope cplan r) = row_pk r"
  "row_pk (reconciliation_row scope rplan r) = row_pk r"
  by (auto simp: confirmation_row_def reconciliation_row_def survivor_row_def written_row_defs row_pk_def
      split: reconciliation_kind.splits)

lemma distinct_iff_card: "card (set xs) = length xs \<longleftrightarrow> distinct xs"
  using card_distinct distinct_card by blast

lemma validate_confirmation_plan_Inr:
  "validate_confirmation_plan plan = Inr u \<longleftrightarrow>
    cp_confirmed plan \<noteq> [] \<and> distinct (cp_confirmed plan @ cp_orphaned plan)
    \<and> (cp_orphaned plan = [] \<longrightarrow> cp_chain_anchor plan = None)"
  by (auto simp: validate_confirmation_plan_def ensure_unique_keys_def try_simps list_ex_iff distinct_iff_card)

lemma validate_reconciliation_plan_Inr:
  "validate_reconciliation_plan plan = Inr u \<longleftrightarrow>
    distinct (rp_survivors plan @ rp_requeued plan)
    \<and> (case rp_kind plan of
         RConfirmed _ \<Rightarrow> rp_survivors plan \<noteq> []
       | RInMempool _ \<Rightarrow> rp_survivors plan \<noteq> [] \<and> rp_chain_anchor plan = None
       | RNoSurvivor \<Rightarrow> rp_survivors plan = [] \<and> rp_chain_anchor plan = None \<and> rp_requeued plan \<noteq> [])"
  by (auto simp: validate_reconciliation_plan_def ensure_unique_keys_def try_simps list_ex_iff distinct_iff_card
      split: reconciliation_kind.splits)

lemma persist_confirmation_Inr:
  assumes wf: "table_wf t" and ok: "persist_confirmation t scope plan = Inr (u, t')"
  shows "validate_confirmation_plan plan = Inr ()" "t' = map (confirmation_row scope plan) t"
    and "r \<in> set t \<Longrightarrow> key_in scope (cp_confirmed plan @ cp_orphaned plan) r \<Longrightarrow>
      row_status r = ''inflight'' \<and> row_lineage_id r = Some (Parsed (cp_lineage_id plan))"
proof -
  from ok obtain rows by_key where v: "validate_confirmation_plan plan = Inr ()"
    and load: "load_wallet_request_rows_for_update t scope (collect_confirmation_keys plan) = Inr rows"
    and idx: "index_wallet_request_rows rows [] = Inr by_key"
    and c: "\<forall>k \<in> set (cp_confirmed plan). check_inflight_member by_key (cp_lineage_id plan) k = Inr ()"
    and o: "\<forall>k \<in> set (cp_orphaned plan). check_inflight_member by_key (cp_lineage_id plan) k = Inr ()"
    and t': "t' = (let t1 = update_rows_to_confirmed scope (cp_confirmed plan) (cp_confirmed_txid plan) t
       in if cp_orphaned plan \<noteq> [] then update_rows_to_pending_with_optional_anchor scope (cp_orphaned plan) (cp_chain_anchor plan) t1 else t1)"
    by (auto simp: persist_confirmation_def Let_def try_simps)
  show "validate_confirmation_plan plan = Inr ()" by (rule v)
  have d: "distinct (cp_confirmed plan @ cp_orphaned plan)" using v by (simp add: validate_confirmation_plan_Inr)
  have K: "distinct (collect_confirmation_keys plan)"
    "set (collect_confirmation_keys plan) = set (cp_confirmed plan @ cp_orphaned plan)"
    using d by (auto simp: collect_confirmation_keys_def)
  have by_key: "by_key = map (\<lambda>r. (row_dedupe_key r, r)) rows"
    using idx index_rows[OF load_rows_Inr(1)[OF wf load K(1)]] by simp
  show "row_status r = ''inflight'' \<and> row_lineage_id r = Some (Parsed (cp_lineage_id plan))"
    if "r \<in> set t" "key_in scope (cp_confirmed plan @ cp_orphaned plan) r"
    using check_inflight_member_row[OF wf load K(1), of "row_dedupe_key r"] c o that K(2)
    by (auto simp: key_in_def by_key)
  show "t' = map (confirmation_row scope plan) t"
    using d by (auto simp: t' Let_def update_rows_to_confirmed_def update_where_def key_in_def
        update_rows_to_pending_with_optional_anchor_def confirmation_row_def written_row_defs)
qed

lemma persist_reconciliation_Inr:
  assumes wf: "table_wf t" and ok: "persist_reconciliation t scope plan = Inr (u, t')"
  shows "validate_reconciliation_plan plan = Inr ()" "t' = map (reconciliation_row scope plan) t"
    and "r \<in> set t \<Longrightarrow> key_in scope (rp_survivors plan @ rp_requeued plan) r \<Longrightarrow>
      row_status r = ''inflight'' \<and> row_lineage_id r = Some (Parsed (rp_lineage_id plan))"
proof -
  from ok obtain rows by_key where v: "validate_reconciliation_plan plan = Inr ()"
    and load: "load_wallet_request_rows_for_update t scope (collect_reconciliation_keys plan) = Inr rows"
    and idx: "index_wallet_request_rows rows [] = Inr by_key"
    and c: "\<forall>k \<in> set (rp_survivors plan). check_inflight_member by_key (rp_lineage_id plan) k = Inr ()"
    and o: "\<forall>k \<in> set (rp_requeued plan). check_inflight_member by_key (rp_lineage_id plan) k = Inr ()"
    by (auto simp: persist_reconciliation_def Let_def try_simps)
  show "validate_reconciliation_plan plan = Inr ()" by (rule v)
  have d: "distinct (rp_survivors plan @ rp_requeued plan)" using v by (simp add: validate_reconciliation_plan_Inr)
  have K: "distinct (collect_reconciliation_keys plan)"
    "set (collect_reconciliation_keys plan) = set (rp_survivors plan @ rp_requeued plan)"
    using d by (auto simp: collect_reconciliation_keys_def)
  have by_key: "by_key = map (\<lambda>r. (row_dedupe_key r, r)) rows"
    using idx index_rows[OF load_rows_Inr(1)[OF wf load K(1)]] by simp
  show "row_status r = ''inflight'' \<and> row_lineage_id r = Some (Parsed (rp_lineage_id plan))"
    if "r \<in> set t" "key_in scope (rp_survivors plan @ rp_requeued plan) r"
    using check_inflight_member_row[OF wf load K(1), of "row_dedupe_key r"] c o that K(2)
    by (auto simp: key_in_def by_key)
  show "t' = map (reconciliation_row scope plan) t"
    using ok d v
    by (cases "rp_kind plan")
      (auto simp: persist_reconciliation_def Let_def try_simps update_rows_to_confirmed_def update_where_def key_in_def
        update_rows_to_pending_with_optional_anchor_def update_rows_to_surviving_inflight_def
        reconciliation_row_def survivor_row_def written_row_defs validate_reconciliation_plan_Inr)
qed

lemma load_row_map:
  assumes "\<And>r. row_pk (f r) = row_pk r"
  shows "load_wallet_request_row (map f t) scope k = map_option f (load_wallet_request_row t scope k)"
proof (induction t)
  case (Cons r t)
  have "key_in scope [k] (f r) = key_in scope [k] r" by (rule key_in_row_pk) (rule assms)
  with Cons show ?case by (simp add: load_wallet_request_row_def)
qed (simp add: load_wallet_request_row_def)

end
