(* ===== verification/WalletLifecycle.thy ===== *)
theory WalletLifecycle
  imports WalletStoreLaws
begin

text \<open>
  The lifecycle of the persisted requests: the well-formedness of a row, the store as a state
  machine whose steps are the store operations in the order the runner may issue them, and the
  properties of every reachable table.
\<close>

section \<open>Well-formed rows\<close>

definition row_history_ok :: "wallet_row \<Rightarrow> bool" where
  "row_history_ok r = (\<exists>hist. row_txid_history r = map Parsed hist \<and> distinct hist)"

definition row_state_ok :: "wallet_row \<Rightarrow> bool" where
  "row_state_ok r =
    (if row_status r \<in> {''pending'', ''dropped''} then row_lineage_id r = None \<and> row_batch_txid r = None
     else if row_status r = ''inflight'' then
       (\<exists>l b. row_lineage_id r = Some (Parsed l) \<and> row_batch_txid r = Some (Parsed b)
         \<and> Parsed b \<in> set (row_txid_history r))
     else if row_status r = ''confirmed'' then
       (\<exists>l b. row_lineage_id r = Some (Parsed l) \<and> row_batch_txid r = Some (Parsed b)
         \<and> Parsed b \<in> set (row_txid_history r)) \<and> row_chain_anchor r = None
     else False)"

definition row_ok :: "wallet_row \<Rightarrow> bool" where
  "row_ok r = (wf_request \<lparr>dedupe_key = row_dedupe_key r, wr_kind = row_payload r\<rparr>
    \<and> row_kind r = request_kind_name (row_payload r) \<and> row_history_ok r \<and> row_state_ok r)"

definition table_ok :: "wallet_table \<Rightarrow> bool" where
  "table_ok t = (table_wf t \<and> (\<forall>r \<in> set t. row_ok r))"

lemmas row_ok_defs = row_ok_def row_history_ok_def row_state_ok_def

lemma table_ok_map:
  assumes "table_ok t" and "\<And>r. row_pk (f r) = row_pk r" and "\<And>r. r \<in> set t \<Longrightarrow> row_ok (f r)"
  shows "table_ok (map f t)"
proof -
  have "map row_pk (map f t) = map row_pk t" using assms(2) by simp
  then have "table_wf (map f t)" using assms(1) by (simp add: table_ok_def table_wf_def del: map_map)
  with assms(3) show ?thesis by (simp add: table_ok_def)
qed

section \<open>Operations keep the rows well formed\<close>

lemma row_ok_inflight:
  assumes "row_ok r" "can_append tx r"
  shows "row_ok (inflight_row lin tx r)"
proof -
  from assms(2) obtain hist where "row_txid_history r = map Parsed hist" "distinct (hist @ [tx])"
    by (auto simp: can_append_def)
  then have "row_txid_history (inflight_row lin tx r) = map Parsed (hist @ [tx])" "distinct (hist @ [tx])"
    by (simp_all add: inflight_row_def)
  then have "row_history_ok (inflight_row lin tx r)" unfolding row_history_ok_def by blast
  with assms(1) show ?thesis by (simp add: row_ok_def row_state_ok_def inflight_row_def)
qed

lemma row_ok_requeued: "row_ok r \<Longrightarrow> row_ok (requeued_row r)"
  by (simp add: row_ok_defs requeued_row_def)

lemma row_ok_anchored: "row_ok r \<Longrightarrow> row_ok (anchored_row a r)"
  by (simp add: row_ok_defs requeued_row_def anchored_row_def)

lemma row_ok_confirmed:
  "row_ok r \<Longrightarrow> row_status r = ''inflight'' \<Longrightarrow> Parsed tx \<in> set (row_txid_history r) \<Longrightarrow>
    row_ok (confirmed_row tx r)"
  by (auto simp: row_ok_defs confirmed_row_def)

lemma row_ok_surviving:
  "row_ok r \<Longrightarrow> Parsed tx \<in> set (row_txid_history r) \<Longrightarrow> row_ok (surviving_row lin tx r)"
  by (auto simp: row_ok_defs surviving_row_def)

lemma table_ok_persist_broadcast:
  assumes ok: "table_ok t" and p: "persist_broadcast t scope plan = Inr (receipt, t')"
  shows "table_ok t'"
proof -
  have wf: "table_wf t" using ok by (simp add: table_ok_def)
  obtain rows where v: "validate_persist_plan plan = Inr ()"
    and load: "load_wallet_request_rows_for_update t scope (collect_plan_keys plan) = Inr rows"
    and chk: "check_broadcast (map (\<lambda>r. (row_dedupe_key r, r)) rows) plan = Inr ()"
    and t': "t' = map (broadcast_row scope plan) t"
    using persist_broadcast_Inr[OF wf p] by metis
  have "row_ok (broadcast_row scope plan r)" if r: "r \<in> set t" for r
  proof -
    have "row_ok r" using ok r by (simp add: table_ok_def)
    with check_broadcast_row(1)[OF wf v load chk r] show ?thesis
      by (auto simp: broadcast_row_def row_ok_inflight row_ok_requeued)
  qed
  with table_ok_map[OF ok row_pk_broadcast_row] show ?thesis by (simp add: t')
qed

text \<open>
  The winner named by a confirmation or a reconciliation is a transaction the kept requests were
  part of: the wallet selects the kept requests by their txid history.
\<close>

definition winner_carries :: "wallet_table \<Rightarrow> string \<Rightarrow> string list \<Rightarrow> txid \<Rightarrow> bool" where
  "winner_carries t scope keys tx =
    list_all (\<lambda>r. key_in scope keys r \<longrightarrow> Parsed tx \<in> set (row_txid_history r)) t"

fun reconciliation_winner :: "reconciliation_kind \<Rightarrow> txid option" where
  "reconciliation_winner (RConfirmed tx) = Some tx"
| "reconciliation_winner (RInMempool tx) = Some tx"
| "reconciliation_winner RNoSurvivor = None"

lemma table_ok_persist_confirmation:
  assumes ok: "table_ok t" and p: "persist_confirmation t scope plan = Inr (u, t')"
    and w: "winner_carries t scope (cp_confirmed plan) (cp_confirmed_txid plan)"
  shows "table_ok t'"
proof -
  have wf: "table_wf t" using ok by (simp add: table_ok_def)
  note P = persist_confirmation_Inr[OF wf p]
  have "row_ok (confirmation_row scope plan r)" if r: "r \<in> set t" for r
  proof -
    have "row_ok r" using ok r by (simp add: table_ok_def)
    moreover have "key_in scope (cp_confirmed plan) r \<Longrightarrow>
        row_status r = ''inflight'' \<and> Parsed (cp_confirmed_txid plan) \<in> set (row_txid_history r)"
      using P(3)[OF r] w r by (auto simp: winner_carries_def list_all_iff key_in_def)
    ultimately show ?thesis by (auto simp: confirmation_row_def row_ok_confirmed row_ok_anchored)
  qed
  with table_ok_map[OF ok row_pk_written(1)] show ?thesis by (simp add: P(2))
qed

lemma table_ok_persist_reconciliation:
  assumes ok: "table_ok t" and p: "persist_reconciliation t scope plan = Inr (u, t')"
    and w: "\<And>tx. reconciliation_winner (rp_kind plan) = Some tx \<Longrightarrow> winner_carries t scope (rp_survivors plan) tx"
  shows "table_ok t'"
proof -
  have wf: "table_wf t" using ok by (simp add: table_ok_def)
  note P = persist_reconciliation_Inr[OF wf p]
  have "row_ok (reconciliation_row scope plan r)" if r: "r \<in> set t" for r
  proof -
    have "row_ok r" using ok r by (simp add: table_ok_def)
    moreover have "row_ok (survivor_row plan r)" if k: "key_in scope (rp_survivors plan) r"
    proof -
      have "row_status r = ''inflight''" using P(3)[OF r] k by (simp add: key_in_def)
      moreover have "Parsed tx \<in> set (row_txid_history r)" if "reconciliation_winner (rp_kind plan) = Some tx" for tx
        using w[OF that] r k by (auto simp: winner_carries_def list_all_iff)
      ultimately show ?thesis using \<open>row_ok r\<close>
        by (cases "rp_kind plan") (auto simp: survivor_row_def row_ok_confirmed row_ok_surviving)
    qed
    ultimately show ?thesis by (auto simp: reconciliation_row_def row_ok_anchored)
  qed
  with table_ok_map[OF ok row_pk_written(2)] show ?thesis by (simp add: P(2))
qed

lemma enqueue_Inr_cases:
  assumes "enqueue now t scope req = Inr (res, t')"
  obtains "t' = t" "res \<noteq> EnqueuedPending" "load_wallet_request_row t scope (dedupe_key req) \<noteq> None"
  | r where "t' = t @ [r]" "res = EnqueuedPending" "load_wallet_request_row t scope (dedupe_key req) = None"
    "r = \<lparr>row_scope = scope, row_dedupe_key = dedupe_key req, row_kind = request_kind_name (wr_kind req),
       row_status = ''pending'', row_lineage_id = None, row_batch_txid = None, row_txid_history = [],
       row_chain_anchor = None, row_payload = wr_kind req, row_created_at = now\<rparr>"
proof (cases "load_wallet_request_row t scope (dedupe_key req)")
  case None
  then show thesis using assms that(2) by (auto simp: enqueue_def)
next
  case (Some r)
  then obtain st where "row_status r = status_as_str st"
    using assms by (auto simp: enqueue_def try_simps)
  then have "t' = t \<and> res \<noteq> EnqueuedPending"
    using assms Some by (cases st) (auto simp: enqueue_def try_simps try_from_status_def)
  with Some show thesis using that(1) by simp
qed

lemma table_ok_enqueue:
  assumes "table_ok t" "enqueue now t scope req = Inr (res, t')" "wf_request req"
  shows "table_ok t'"
  using assms(2)
proof (cases rule: enqueue_Inr_cases)
  case (2 r)
  then have "row_pk r \<notin> row_pk ` set t"
    by (auto simp: load_row_eq_None row_pk_def)
  moreover have "row_ok r"
    using assms(3) by (simp add: 2(4) row_ok_defs wf_request_def)
  ultimately show ?thesis
    using assms(1) by (simp add: 2(1) table_ok_def table_wf_def)
qed (use assms in auto)

definition dropped_row :: "wallet_row \<Rightarrow> wallet_row" where
  "dropped_row r = r\<lparr>row_status := ''dropped'', row_lineage_id := None, row_batch_txid := None\<rparr>"

lemma resolve_pending_Inr:
  assumes wf: "table_wf t" and ok: "resolve_pending t scope key = Inr (res, t')"
  obtains r where "r \<in> set t" "row_scope r = scope" "row_dedupe_key r = key"
    "res = CancelledPending" "row_status r \<in> {''pending'', ''dropped''}"
    "t' = map (\<lambda>r. if key_in scope [key] r then dropped_row r else r) t"
  | r b where "r \<in> set t" "row_scope r = scope" "row_dedupe_key r = key"
    "res = AlreadySubmitted b" "row_status r \<in> {''inflight'', ''confirmed''}"
    "row_batch_txid r = Some (Parsed b)" "t' = t"
proof -
  from ok obtain rows where load: "load_wallet_request_rows_for_update t scope [key] = Inr rows"
    by (auto simp: resolve_pending_def try_simps)
  with ok obtain r rs where rows: "rows = r # rs"
    by (cases rows) (auto simp: resolve_pending_def)
  have "r \<in> set rows" by (simp add: rows)
  then have r: "r \<in> set t" "row_scope r = scope" "row_dedupe_key r = key"
    using load_rows_Inr(3)[OF wf load] by (auto simp: key_in_def)
  obtain st where st: "row_status r = status_as_str st"
    using ok load rows by (auto simp: resolve_pending_def try_simps)
  have "row_status r \<in> {''pending'', ''dropped''} \<and> res = CancelledPending \<and> t' = update_rows_to_dropped scope [key] t
    \<or> (\<exists>b. row_status r \<in> {''inflight'', ''confirmed''} \<and> row_batch_txid r = Some (Parsed b)
        \<and> res = AlreadySubmitted b \<and> t' = t)"
    using ok load rows st by (cases st) (auto simp: resolve_pending_def try_simps try_from_status_def)
  then consider
      "row_status r \<in> {''pending'', ''dropped''}" "res = CancelledPending" "t' = update_rows_to_dropped scope [key] t"
    | b where "row_status r \<in> {''inflight'', ''confirmed''}" "row_batch_txid r = Some (Parsed b)"
      "res = AlreadySubmitted b" "t' = t"
    by blast
  then show thesis
  proof cases
    case 1
    then show thesis using that(1)[OF r]
      by (simp add: update_rows_to_dropped_def update_where_def dropped_row_def)
  next
    case 2
    then show thesis using that(2)[OF r] by blast
  qed
qed

lemma table_ok_resolve_pending:
  assumes ok: "table_ok t" and p: "resolve_pending t scope key = Inr (res, t')"
  shows "table_ok t'"
proof -
  have wf: "table_wf t" using ok by (simp add: table_ok_def)
  from wf p show ?thesis
  proof (cases rule: resolve_pending_Inr)
    case (1 r)
    have "row_ok r \<Longrightarrow> row_ok (dropped_row r)" for r
      by (simp add: row_ok_defs dropped_row_def)
    then have "table_ok (map (\<lambda>r. if key_in scope [key] r then dropped_row r else r) t)"
      using ok by (intro table_ok_map[OF ok]) (simp_all add: table_ok_def dropped_row_def row_pk_def)
    with 1 show ?thesis by simp
  qed (use ok in simp)
qed

section \<open>The store as a state machine\<close>

text \<open>
  The runner is the only task that writes lineages, one operation at a time; other tasks may
  enqueue at any moment. Between \<open>persist_broadcast\<close> and the broadcaster's answer the receipt is
  outstanding; the answer either accepts it or makes the runner revert it.
\<close>

record store_state =
  ss_table :: wallet_table
  ss_outstanding :: "(string \<times> batch_receipt) option"

inductive store_step :: "store_state \<Rightarrow> store_state \<Rightarrow> bool" where
  step_enqueue: "enqueue now (ss_table s) scope req = Inr (res, t') \<Longrightarrow> wf_request req \<Longrightarrow>
    store_step s (s\<lparr>ss_table := t'\<rparr>)"
| step_resolve: "ss_outstanding s = None \<Longrightarrow> resolve_pending (ss_table s) scope key = Inr (rres, t') \<Longrightarrow>
    store_step s (s\<lparr>ss_table := t'\<rparr>)"
| step_broadcast: "ss_outstanding s = None \<Longrightarrow> persist_broadcast (ss_table s) scope plan = Inr (receipt, t') \<Longrightarrow>
    store_step s (s\<lparr>ss_table := t', ss_outstanding := Some (scope, receipt)\<rparr>)"
| step_accepted: "ss_outstanding s = Some out \<Longrightarrow> store_step s (s\<lparr>ss_outstanding := None\<rparr>)"
| step_rejected: "ss_outstanding s = Some (scope, receipt) \<Longrightarrow>
    revert_broadcast (ss_table s) scope receipt = Inr (u, t') \<Longrightarrow>
    store_step s (s\<lparr>ss_table := t', ss_outstanding := None\<rparr>)"
| step_confirmation: "ss_outstanding s = None \<Longrightarrow> persist_confirmation (ss_table s) scope cplan = Inr (u, t') \<Longrightarrow>
    winner_carries (ss_table s) scope (cp_confirmed cplan) (cp_confirmed_txid cplan) \<Longrightarrow>
    store_step s (s\<lparr>ss_table := t'\<rparr>)"
| step_reconciliation: "ss_outstanding s = None \<Longrightarrow> persist_reconciliation (ss_table s) scope rplan = Inr (u, t') \<Longrightarrow>
    (\<And>tx. reconciliation_winner (rp_kind rplan) = Some tx \<Longrightarrow> winner_carries (ss_table s) scope (rp_survivors rplan) tx) \<Longrightarrow>
    store_step s (s\<lparr>ss_table := t'\<rparr>)"

inductive store_reachable :: "store_state \<Rightarrow> bool" where
  reach_empty: "store_reachable \<lparr>ss_table = [], ss_outstanding = None\<rparr>"
| reach_step: "store_reachable s \<Longrightarrow> store_step s s' \<Longrightarrow> store_reachable s'"

text \<open>
  The invariant: the rows are well formed, and an outstanding receipt is the one of a broadcast
  that was persisted on a well-formed table to which only new requests were added since.
\<close>

definition store_inv :: "store_state \<Rightarrow> bool" where
  "store_inv s = (table_ok (ss_table s) \<and>
    (case ss_outstanding s of None \<Rightarrow> True
     | Some (scope, receipt) \<Rightarrow> (\<exists>t0 plan t1 extra. persist_broadcast t0 scope plan = Inr (receipt, t1)
         \<and> ss_table s = t1 @ extra \<and> table_ok (t0 @ extra))))"

lemma table_ok_append_cong:
  assumes "table_ok (t1 @ extra)" "table_ok t1'" "map row_pk t1' = map row_pk t1"
  shows "table_ok (t1' @ extra)"
proof -
  have "row_pk ` set t1' = row_pk ` set t1" using assms(3) by (metis list.set_map)
  with assms show ?thesis by (auto simp: table_ok_def table_wf_def)
qed

lemma persist_broadcast_pks:
  assumes "table_wf t" "persist_broadcast t scope plan = Inr (receipt, t')"
  shows "map row_pk t' = map row_pk t"
  by (rule persist_broadcast_Inr[OF assms]) (simp add: row_simps)

lemma table_ok_prefix: "table_ok (t @ extra) \<Longrightarrow> table_ok t"
  by (simp add: table_ok_def table_wf_def)

lemma store_inv_enqueue:
  assumes inv: "store_inv s" and e: "enqueue now (ss_table s) scope req = Inr (res, t')" "wf_request req"
  shows "store_inv (s\<lparr>ss_table := t'\<rparr>)"
proof -
  have ok: "table_ok t'" using table_ok_enqueue[OF _ e] inv by (simp add: store_inv_def)
  show ?thesis
  proof (cases "ss_outstanding s")
    case None
    with ok show ?thesis by (simp add: store_inv_def)
  next
    case (Some out)
    obtain sc receipt where out: "out = (sc, receipt)" by (cases out)
    from inv Some out obtain t0 plan t1 extra where p: "persist_broadcast t0 sc plan = Inr (receipt, t1)"
      and t: "ss_table s = t1 @ extra" and ok0: "table_ok (t0 @ extra)"
      by (auto simp: store_inv_def)
    from e(1) obtain new where t': "t' = t1 @ extra @ new"
      by (cases rule: enqueue_Inr_cases) (auto simp: t)
    have "table_ok (t0 @ extra @ new)"
    proof (rule table_ok_append_cong)
      show "table_ok (t1 @ extra @ new)" using ok t' by simp
      show "table_ok t0" by (rule table_ok_prefix[OF ok0])
      show "map row_pk t0 = map row_pk t1"
        using persist_broadcast_pks[OF _ p] \<open>table_ok t0\<close> by (simp add: table_ok_def)
    qed
    with p t' ok Some out show ?thesis by (auto simp: store_inv_def)
  qed
qed

lemma store_inv_step: "store_step s s' \<Longrightarrow> store_inv s \<Longrightarrow> store_inv s'"
proof (induction rule: store_step.induct)
  case step_enqueue
  then show ?case by (blast intro: store_inv_enqueue)
next
  case step_resolve
  then show ?case by (auto simp: store_inv_def intro: table_ok_resolve_pending)
next
  case (step_broadcast s scope plan receipt t')
  then have ok: "table_ok (ss_table s)" by (simp add: store_inv_def)
  then have "table_ok t'" using table_ok_persist_broadcast step_broadcast by blast
  moreover have "persist_broadcast (ss_table s) scope plan = Inr (receipt, t') \<and> t' = t' @ []
      \<and> table_ok (ss_table s @ [])"
    using ok step_broadcast by simp
  ultimately have "table_ok t' \<and> (\<exists>t0 plan t1 extra. persist_broadcast t0 scope plan = Inr (receipt, t1)
      \<and> t' = t1 @ extra \<and> table_ok (t0 @ extra))"
    by blast
  then show ?case by (simp add: store_inv_def)
next
  case step_accepted
  then show ?case by (simp add: store_inv_def)
next
  case (step_rejected s scope receipt u t')
  then obtain t0 plan t1 extra where "persist_broadcast t0 scope plan = Inr (receipt, t1)"
    "ss_table s = t1 @ extra" "table_ok (t0 @ extra)"
    by (auto simp: store_inv_def)
  with revert_broadcast_exact[of t0 extra] step_rejected(2) show ?case
    by (auto simp: store_inv_def table_ok_def)
next
  case step_confirmation
  then show ?case by (auto simp: store_inv_def intro: table_ok_persist_confirmation)
next
  case step_reconciliation
  then show ?case by (auto simp: store_inv_def intro: table_ok_persist_reconciliation)
qed

lemma store_reachable_inv: "store_reachable s \<Longrightarrow> store_inv s"
proof (induction rule: store_reachable.induct)
  case reach_empty
  show ?case by (simp add: store_inv_def table_ok_def table_wf_def)
qed (blast intro: store_inv_step)

section \<open>Terminal rows\<close>

definition row_terminal :: "wallet_row \<Rightarrow> bool" where
  "row_terminal r = (row_status r = ''confirmed'' \<or> row_status r = ''dropped'')"

lemma broadcast_keeps_terminal:
  assumes wf: "table_wf t" and p: "persist_broadcast t scope plan = Inr (receipt, t')"
    and r: "r \<in> set t"
  shows "row_terminal r \<Longrightarrow> broadcast_row scope plan r = r"
    and "row_terminal (broadcast_row scope plan r) \<Longrightarrow> broadcast_row scope plan r = r"
proof -
  obtain rows where v: "validate_persist_plan plan = Inr ()"
    and load: "load_wallet_request_rows_for_update t scope (collect_plan_keys plan) = Inr rows"
    and chk: "check_broadcast (map (\<lambda>r. (row_dedupe_key r, r)) rows) plan = Inr ()"
    using persist_broadcast_Inr[OF wf p] by metis
  show "row_terminal r \<Longrightarrow> broadcast_row scope plan r = r"
    using check_broadcast_row[OF wf v load chk r] by (auto simp: broadcast_row_def row_terminal_def)
  show "row_terminal (broadcast_row scope plan r) \<Longrightarrow> broadcast_row scope plan r = r"
    by (auto simp: broadcast_row_def row_terminal_def inflight_row_def requeued_row_def split: if_splits)
qed

lemma row_terminal_resolve:
  assumes "row_ok r" "row_terminal r" "row_status r \<in> {''pending'', ''dropped''}"
  shows "dropped_row r = r"
  using assms by (auto simp: row_ok_defs row_terminal_def dropped_row_def)

lemma terminal_row_step:
  "store_step s s' \<Longrightarrow> store_inv s \<Longrightarrow> r \<in> set (ss_table s) \<Longrightarrow> row_terminal r \<Longrightarrow> r \<in> set (ss_table s')"
proof (induction rule: store_step.induct)
  case (step_enqueue now s scope req res t')
  from step_enqueue(1) show ?case
    by (cases rule: enqueue_Inr_cases) (use step_enqueue in auto)
next
  case (step_resolve s scope key rres t')
  then have ok: "table_ok (ss_table s)" by (simp add: store_inv_def)
  then have wf: "table_wf (ss_table s)" by (simp add: table_ok_def)
  from wf step_resolve(2) show ?case
  proof (cases rule: resolve_pending_Inr)
    case (1 q)
    have "dropped_row r = r" if "key_in scope [key] r"
    proof -
      have "r = q" using 1 that step_resolve table_wf_unique[OF wf] by (auto simp: key_in_def)
      with 1 ok step_resolve show ?thesis by (auto intro: row_terminal_resolve simp: table_ok_def)
    qed
    then show ?thesis using 1 step_resolve(4) by (auto intro!: rev_image_eqI[of r])
  qed (use step_resolve in simp)
next
  case (step_broadcast s scope plan receipt t')
  then have wf: "table_wf (ss_table s)" by (simp add: store_inv_def table_ok_def)
  have "t' = map (broadcast_row scope plan) (ss_table s)"
    using persist_broadcast_Inr[OF wf step_broadcast(2)] by metis
  moreover have "r = broadcast_row scope plan r"
    using broadcast_keeps_terminal(1)[OF wf step_broadcast(2)] step_broadcast by simp
  ultimately show ?case using step_broadcast(4) by (auto intro: rev_image_eqI)
next
  case step_accepted
  then show ?case by simp
next
  case (step_rejected s scope receipt u t')
  then obtain t0 plan t1 extra where p: "persist_broadcast t0 scope plan = Inr (receipt, t1)"
    and t: "ss_table s = t1 @ extra" and ok: "table_ok (t0 @ extra)"
    by (auto simp: store_inv_def)
  have wf: "table_wf t0" using ok by (simp add: table_ok_def table_wf_def)
  have t': "t' = t0 @ extra"
    using revert_broadcast_exact[OF _ p, of extra] step_rejected(2) t ok by (simp add: table_ok_def)
  have t1: "t1 = map (broadcast_row scope plan) t0" using persist_broadcast_Inr[OF wf p] by metis
  from step_rejected(4) t consider "r \<in> set extra" | q where "q \<in> set t0" "r = broadcast_row scope plan q"
    by (auto simp: t1)
  then show ?case
  proof cases
    case 2
    then show ?thesis using broadcast_keeps_terminal(2)[OF wf p, of q] step_rejected(5) by (simp add: t')
  qed (simp add: t')
next
  case (step_confirmation s scope cplan u t')
  then have wf: "table_wf (ss_table s)" by (simp add: store_inv_def table_ok_def)
  note P = persist_confirmation_Inr[OF wf step_confirmation(2)]
  have "confirmation_row scope cplan r = r"
    using P(3) step_confirmation by (auto simp: confirmation_row_def row_terminal_def key_in_def)
  with P(2) step_confirmation(5) show ?case by (auto intro!: rev_image_eqI[of r])
next
  case (step_reconciliation s scope rplan u t')
  then have wf: "table_wf (ss_table s)" by (simp add: store_inv_def table_ok_def)
  note P = persist_reconciliation_Inr[OF wf step_reconciliation(2)]
  have "reconciliation_row scope rplan r = r"
    using P(3) step_reconciliation by (auto simp: reconciliation_row_def row_terminal_def key_in_def)
  with P(2) step_reconciliation(5) show ?case by (auto intro!: rev_image_eqI[of r])
qed

end
