(* ===== verification/WalletStoreProps.thy ===== *)
theory WalletStoreProps
  imports WalletLifecycle
begin

text \<open>
  The properties of the wallet store, with a small table to apply them to.
\<close>

section \<open>A table\<close>

definition req_send :: "string \<Rightarrow> u64 \<Rightarrow> wallet_request" where
  "req_send key amt = \<lparr>dedupe_key = key, wr_kind = Send \<lparr>sr_address = \<lparr>addr_text = ''addr'', addr_script = [0]\<rparr>, sr_amount = amt\<rparr>\<rparr>"

definition pending_row :: "string \<Rightarrow> string \<Rightarrow> timestamp \<Rightarrow> wallet_row" where
  "pending_row scope key now =
    \<lparr>row_scope = scope, row_dedupe_key = key, row_kind = ''send'', row_status = ''pending'',
     row_lineage_id = None, row_batch_txid = None, row_txid_history = [], row_chain_anchor = None,
     row_payload = wr_kind (req_send key 1000), row_created_at = now\<rparr>"

definition sample_table :: wallet_table where
  "sample_table = [pending_row ''w'' ''a'' 1, pending_row ''w'' ''b'' 2,
     inflight_row (LineageId 7) 11 (pending_row ''w'' ''c'' 3),
     inflight_row (LineageId 7) 12 (inflight_row (LineageId 7) 11 (pending_row ''w'' ''d'' 4)),
     confirmed_row 13 (inflight_row (LineageId 9) 13 (pending_row ''w'' ''e'' 5))]"

definition sample_fresh :: broadcast_plan where
  "sample_fresh = \<lparr>bp_kind = KFresh, bp_lineage_id = LineageId 8, bp_txid = 20, bp_raw_tx_hex = ''00'',
     bp_included = [''a'', ''b''], bp_dropped = []\<rparr>"

definition sample_rbf :: broadcast_plan where
  "sample_rbf = \<lparr>bp_kind = KRbf, bp_lineage_id = LineageId 7, bp_txid = 21, bp_raw_tx_hex = ''00'',
     bp_included = [''a'', ''d''], bp_dropped = [''c'']\<rparr>"

lemmas sample_defs = sample_table_def sample_fresh_def sample_rbf_def pending_row_def req_send_def
  inflight_row_def confirmed_row_def

lemma sample_table_ok: "table_ok sample_table"
proof -
  have *: "\<And>x::txid. (\<exists>h. [Parsed x] = map Parsed h \<and> distinct h)" 
    by (rule_tac x="[x]" in exI) simp
  have **: "(\<exists>h. [Parsed (11::txid), Parsed 12] = map Parsed h \<and> distinct h)" 
    by (rule exI[of _ "[11,12]"]) simp
  show ?thesis
    by (simp add: table_ok_def table_wf_def row_ok_defs sample_defs row_pk_def wf_request_def trim_is_empty_def * **)
qed

lemma sample_fresh_ok: "\<not> isl (persist_broadcast sample_table ''w'' sample_fresh)"
  by code_simp

lemma sample_rbf_ok: "\<not> isl (persist_broadcast sample_table ''w'' sample_rbf)"
  by code_simp

section \<open>When an operation succeeds\<close>

lemma load_rows_ok:
  assumes wf: "table_wf t" and d: "distinct keys"
    and all: "\<And>k. k \<in> set keys \<Longrightarrow> load_wallet_request_row t scope k \<noteq> None"
  obtains rows where "load_wallet_request_rows_for_update t scope keys = Inr rows"
proof (cases "keys = []")
  case False
  let ?rows = "filter (key_in scope keys) t"
  have "row_dedupe_key ` set ?rows = set keys"
  proof
    show "set keys \<subseteq> row_dedupe_key ` set ?rows"
    proof
      fix k assume k: "k \<in> set keys"
      with all obtain r where "load_wallet_request_row t scope k = Some r" by blast
      with k show "k \<in> row_dedupe_key ` set ?rows"
        by (auto simp: load_row_eq_Some[OF wf] key_in_def)
    qed
  qed (auto simp: key_in_def)
  then have "length ?rows = length keys"
    using distinct_keys_in_scope[OF wf, of scope keys] d
    by (metis distinct_card length_map list.set_map)
  with False that show thesis by (simp add: load_wallet_request_rows_for_update_def)
qed (use that in \<open>simp add: load_wallet_request_rows_for_update_def\<close>)

lemma snapshot_from_row_ok:
  assumes "row_ok r"
  shows "\<exists>sn. snapshot_from_row r = Inr sn"
proof -
  from assms have ok: "row_state_ok r" by (simp add: row_ok_def)
  then have "row_status r \<in> {status_as_str WPending, status_as_str WInflight, status_as_str WConfirmed, status_as_str WDropped}"
    unfolding row_state_ok_def by (auto simp del: status_as_str.simps simp add: status_as_str.simps[symmetric] split: if_splits)
  then obtain st where st: "try_from_status (row_status r) = Inr st"
    unfolding try_from_status_Inr by (auto simp del: status_as_str.simps)
  obtain hist where hist: "parse_txid_history (row_txid_history r) = Inr hist"
    using assms by (auto simp: row_ok_def row_history_ok_def parse_txid_history_Inr)
  have "row_lineage_id r = None \<or> (\<exists>l. row_lineage_id r = Some (Parsed l))"
    "row_batch_txid r = None \<or> (\<exists>b. row_batch_txid r = Some (Parsed b))"
    using ok unfolding row_state_ok_def by (auto split: if_split_asm)
  then show ?thesis
    unfolding snapshot_from_row_def st hist try_bind_Inr by (elim exE disjE) simp_all
qed

lemma try_map_total_ex: "(\<And>x. x \<in> set xs \<Longrightarrow> \<exists>y. f x = Inr y) \<Longrightarrow> \<exists>ys. try_map f xs = Inr ys"
proof -
  assume "\<And>x. x \<in> set xs \<Longrightarrow> \<exists>y. f x = Inr y"
  then have "\<And>x. x \<in> set xs \<Longrightarrow> f x = Inr (projr (f x))" by (metis sum.sel(2))
  then show ?thesis using try_map_total[of xs f "\<lambda>x. projr (f x)"] by blast
qed

definition broadcast_accepted :: "wallet_table \<Rightarrow> string \<Rightarrow> broadcast_plan \<Rightarrow> bool" where
  "broadcast_accepted t scope plan =
    (bp_included plan \<noteq> [] \<and> distinct (bp_included plan @ bp_dropped plan)
    \<and> (bp_kind plan \<noteq> KRbf \<longrightarrow> bp_dropped plan = [])
    \<and> (\<forall>k \<in> set (bp_included plan). \<exists>r. load_wallet_request_row t scope k = Some r
        \<and> can_append (bp_txid plan) r
        \<and> (row_status r = ''pending'' \<or> bp_kind plan = KRbf \<and> row_status r = ''inflight''
             \<and> row_lineage_id r = Some (Parsed (bp_lineage_id plan))))
    \<and> (\<forall>k \<in> set (bp_dropped plan). \<exists>r. load_wallet_request_row t scope k = Some r
        \<and> row_status r = ''inflight'' \<and> row_lineage_id r = Some (Parsed (bp_lineage_id plan))))"

lemma persist_broadcast_accepted:
  assumes ok: "table_ok t"
  shows "(\<exists>receipt t'. persist_broadcast t scope plan = Inr (receipt, t')) \<longleftrightarrow> broadcast_accepted t scope plan"
proof
  have wf: "table_wf t" using ok by (simp add: table_ok_def)
  show "broadcast_accepted t scope plan" if ex: "\<exists>receipt t'. persist_broadcast t scope plan = Inr (receipt, t')"
  proof -
    obtain rows where v: "validate_persist_plan plan = Inr ()"
      and load: "load_wallet_request_rows_for_update t scope (collect_plan_keys plan) = Inr rows"
      and chk: "check_broadcast (map (\<lambda>r. (row_dedupe_key r, r)) rows) plan = Inr ()"
      using ex by (elim exE) (rule persist_broadcast_Inr[OF wf], assumption, metis)
    note K = collect_plan_keys_facts[OF v]
    have R: "\<exists>r. load_wallet_request_row t scope k = Some r \<and> r \<in> set t \<and> row_scope r = scope \<and> row_dedupe_key r = k"
      if "k \<in> set (bp_included plan @ bp_dropped plan)" for k
    proof -
      have "k \<in> row_dedupe_key ` set rows" using load_rows_Inr(2)[OF wf load K(1)] K(2) that by auto
      then show ?thesis using load_rows_Inr(3)[OF wf load K(1)] by (auto simp: load_row_eq_Some[OF wf] key_in_def)
    qed
    note C = check_broadcast_row[OF wf v load chk]
    have "bp_kind plan \<noteq> KRbf \<longrightarrow> bp_dropped plan = []"
      using chk by (cases "bp_kind plan") (auto simp: check_broadcast_def try_simps)
    moreover have "\<forall>k \<in> set (bp_included plan). \<exists>r. load_wallet_request_row t scope k = Some r
        \<and> can_append (bp_txid plan) r
        \<and> (row_status r = ''pending'' \<or> bp_kind plan = KRbf \<and> row_status r = ''inflight''
             \<and> row_lineage_id r = Some (Parsed (bp_lineage_id plan)))"
    proof
      fix k assume k: "k \<in> set (bp_included plan)"
      with R obtain r where "load_wallet_request_row t scope k = Some r" "r \<in> set t"
        "key_in scope (bp_included plan) r" by (auto simp: key_in_def)
      with C(1)[of r] show "\<exists>r. load_wallet_request_row t scope k = Some r \<and> can_append (bp_txid plan) r
        \<and> (row_status r = ''pending'' \<or> bp_kind plan = KRbf \<and> row_status r = ''inflight''
             \<and> row_lineage_id r = Some (Parsed (bp_lineage_id plan)))" by blast
    qed
    moreover have "\<forall>k \<in> set (bp_dropped plan). \<exists>r. load_wallet_request_row t scope k = Some r
        \<and> row_status r = ''inflight'' \<and> row_lineage_id r = Some (Parsed (bp_lineage_id plan))"
    proof
      fix k assume k: "k \<in> set (bp_dropped plan)"
      with R obtain r where "load_wallet_request_row t scope k = Some r" "r \<in> set t"
        "key_in scope (bp_dropped plan) r" by (auto simp: key_in_def)
      with C(2)[of r] show "\<exists>r. load_wallet_request_row t scope k = Some r
        \<and> row_status r = ''inflight'' \<and> row_lineage_id r = Some (Parsed (bp_lineage_id plan))" by blast
    qed
    ultimately show ?thesis
      using v by (simp add: broadcast_accepted_def validate_persist_plan_Inr)
  qed
  show "\<exists>receipt t'. persist_broadcast t scope plan = Inr (receipt, t')" if acc: "broadcast_accepted t scope plan"
  proof -
    have v: "validate_persist_plan plan = Inr ()" 
      using acc by (auto simp: broadcast_accepted_def validate_persist_plan_Inr)
    note K = collect_plan_keys_facts[OF v]
    have "\<And>k. k \<in> set (collect_plan_keys plan) \<Longrightarrow> load_wallet_request_row t scope k \<noteq> None"
      using acc K(2) by (auto simp: broadcast_accepted_def)
    with load_rows_ok[OF wf K(1)] obtain rows where
      load: "load_wallet_request_rows_for_update t scope (collect_plan_keys plan) = Inr rows" by blast
    let ?by_key = "map (\<lambda>r. (row_dedupe_key r, r)) rows"
    have idx: "index_wallet_request_rows rows [] = Inr ?by_key"
      using index_rows[OF load_rows_Inr(1)[OF wf load K(1)]] .
    have row: "k \<in> set (collect_plan_keys plan) \<Longrightarrow> load_wallet_request_row t scope k = Some r \<Longrightarrow>
        row_for ?by_key k = Inr r" for k r
      using row_for_locked[OF wf load K(1)] by blast
    have chk: "check_broadcast ?by_key plan = Inr ()"
      using acc row K(2)
      by (cases "bp_kind plan")
        (fastforce simp: check_broadcast_def broadcast_accepted_def check_fresh_included_Inr
          check_rbf_included_Inr check_inflight_member_Inr try_simps)+
    have "row_ok r" if "r \<in> set rows" for r
      using load_rows_Inr(3)[OF wf load K(1)] that ok by (auto simp: table_ok_def)
    then obtain snaps where "try_map snapshot_from_row (map snd ?by_key) = Inr snaps"
      using try_map_total_ex[of "map snd ?by_key" snapshot_from_row] snapshot_from_row_ok by (auto simp: comp_def)
    with v load idx chk show ?thesis by (simp add: persist_broadcast_def Let_def comp_def)
  qed
qed

lemma load_row_scope: "load_wallet_request_row t scope k = Some r \<Longrightarrow> row_scope r = scope \<and> row_dedupe_key r = k"
  by (auto simp: load_wallet_request_row_def find_Some_iff key_in_def)

section \<open>Properties\<close>

text \<open>C1: Rejecting a broadcast is undone exactly. After a successful \<open>persist_broadcast\<close>, and
  whatever requests were enqueued since, \<open>revert_broadcast\<close> with the receipt succeeds and the
  table is again the one before, with the new rows kept.\<close>

theorem revert_undoes_persist_broadcast:
  assumes "table_wf (t @ extra)" and "persist_broadcast t scope plan = Inr (receipt, t')"
  shows "revert_broadcast (t' @ extra) scope receipt = Inr ((), t @ extra)"
  by (rule revert_broadcast_exact[OF assms])

theorem revert_undoes_persist_broadcast_witness:
  "\<exists>receipt t'. persist_broadcast sample_table ''w'' sample_rbf = Inr (receipt, t')
    \<and> t' \<noteq> sample_table
    \<and> revert_broadcast (t' @ [pending_row ''w'' ''f'' 6]) ''w'' receipt
        = Inr ((), sample_table @ [pending_row ''w'' ''f'' 6])"
proof -
  obtain receipt t' where p: "persist_broadcast sample_table ''w'' sample_rbf = Inr (receipt, t')"
    using sample_rbf_ok by (cases "persist_broadcast sample_table ''w'' sample_rbf") auto
  have "table_wf (sample_table @ [pending_row ''w'' ''f'' 6])"
    by (simp add: table_wf_def sample_defs row_pk_def)
  moreover have "snd (projr (persist_broadcast sample_table ''w'' sample_rbf)) \<noteq> sample_table" by code_simp
  ultimately show ?thesis using revert_undoes_persist_broadcast p by auto
qed

text \<open>A broadcast is persisted exactly when it is consistent with the table: at least one
  request included, no key twice, only a replacement drops requests, every included row is
  pending (or, for a replacement, inflight in the replaced lineage) with a history that the new
  txid extends, and every dropped row is inflight in that lineage.\<close>

theorem persist_broadcast_accepts_iff:
  assumes "table_ok t"
  shows "(\<exists>receipt t'. persist_broadcast t scope plan = Inr (receipt, t')) =
    (bp_included plan \<noteq> [] \<and> distinct (bp_included plan @ bp_dropped plan)
    \<and> (bp_kind plan = KRbf \<or> bp_dropped plan = [])
    \<and> (\<forall>k \<in> set (bp_included plan). \<exists>r hist. load_wallet_request_row t scope k = Some r
        \<and> row_txid_history r = map Parsed hist \<and> bp_txid plan \<notin> set hist
        \<and> (row_status r = ''pending'' \<or> bp_kind plan = KRbf \<and> row_status r = ''inflight''
             \<and> row_lineage_id r = Some (Parsed (bp_lineage_id plan))))
    \<and> (\<forall>k \<in> set (bp_dropped plan). \<exists>r. load_wallet_request_row t scope k = Some r
        \<and> row_status r = ''inflight'' \<and> row_lineage_id r = Some (Parsed (bp_lineage_id plan))))"
proof -
  have "can_append tx r \<longleftrightarrow> (\<exists>hist. row_txid_history r = map Parsed hist \<and> tx \<notin> set hist)"
    if "load_wallet_request_row t scope k = Some r" for k r tx
  proof -
    have "row_ok r" using assms that load_row_eq_Some[of t] by (auto simp: table_ok_def)
    then obtain h where "row_txid_history r = map Parsed h" "distinct h"
      by (auto simp: row_ok_def row_history_ok_def)
    moreover have "map Parsed h = map Parsed h' \<Longrightarrow> h = h'" for h' :: "txid list"
      by (auto dest: map_injective simp: inj_on_def)
    ultimately show ?thesis by (auto simp: can_append_def)
  qed
  then have "broadcast_accepted t scope plan = (bp_included plan \<noteq> [] \<and> distinct (bp_included plan @ bp_dropped plan)
    \<and> (bp_kind plan = KRbf \<or> bp_dropped plan = [])
    \<and> (\<forall>k \<in> set (bp_included plan). \<exists>r hist. load_wallet_request_row t scope k = Some r
        \<and> row_txid_history r = map Parsed hist \<and> bp_txid plan \<notin> set hist
        \<and> (row_status r = ''pending'' \<or> bp_kind plan = KRbf \<and> row_status r = ''inflight''
             \<and> row_lineage_id r = Some (Parsed (bp_lineage_id plan))))
    \<and> (\<forall>k \<in> set (bp_dropped plan). \<exists>r. load_wallet_request_row t scope k = Some r
        \<and> row_status r = ''inflight'' \<and> row_lineage_id r = Some (Parsed (bp_lineage_id plan))))"
    unfolding broadcast_accepted_def by blast
  with persist_broadcast_accepted[OF assms] show ?thesis by simp
qed

theorem persist_broadcast_accepts_iff_witness:
  "table_ok sample_table \<and> (\<exists>receipt t'. persist_broadcast sample_table ''w'' sample_fresh = Inr (receipt, t'))"
  using persist_broadcast_accepts_iff[OF sample_table_ok, of "''w''" sample_fresh] sample_table_ok
  by (simp add: sample_defs load_wallet_request_row_def key_in_def)

text \<open>What a persisted broadcast writes, row by row: the included rows are inflight in the
  plan's lineage under its txid, which ends their history; the dropped rows are pending again
  with their history kept; every other row, and every row of another wallet, is untouched.\<close>

theorem persist_broadcast_writes:
  assumes "table_wf t" and "persist_broadcast t scope plan = Inr (receipt, t')"
  shows "load_wallet_request_row t' sc k =
    map_option (\<lambda>r.
      if sc = scope \<and> k \<in> set (bp_included plan)
      then r\<lparr>row_status := ''inflight'', row_lineage_id := Some (Parsed (bp_lineage_id plan)),
             row_batch_txid := Some (Parsed (bp_txid plan)),
             row_txid_history := row_txid_history r @ [Parsed (bp_txid plan)]\<rparr>
      else if sc = scope \<and> k \<in> set (bp_dropped plan)
      then r\<lparr>row_status := ''pending'', row_lineage_id := None, row_batch_txid := None\<rparr>
      else r) (load_wallet_request_row t sc k)"
proof -
  have "t' = map (broadcast_row scope plan) t"
    using persist_broadcast_Inr[OF assms] by metis
  then show ?thesis
    by (simp add: load_row_map row_simps)
      (cases "load_wallet_request_row t sc k";
       auto dest!: load_row_scope simp: broadcast_row_def key_in_def inflight_row_def requeued_row_def)
qed

theorem persist_broadcast_writes_witness:
  "\<exists>receipt t'. persist_broadcast sample_table ''w'' sample_rbf = Inr (receipt, t')
    \<and> map_option row_status (load_wallet_request_row t' ''w'' ''c'') = Some ''pending''
    \<and> map_option row_txid_history (load_wallet_request_row t' ''w'' ''d'') = Some [Parsed 11, Parsed 12, Parsed 21]"
proof -
  obtain receipt t' where p: "persist_broadcast sample_table ''w'' sample_rbf = Inr (receipt, t')"
    using sample_rbf_ok by (cases "persist_broadcast sample_table ''w'' sample_rbf") auto
  have "table_wf sample_table" using sample_table_ok by (simp add: table_ok_def)
  from persist_broadcast_writes[OF this p, of "''w''"] p show ?thesis
    by (simp add: sample_defs load_wallet_request_row_def key_in_def)
qed

text \<open>C2: Every table the store can reach from the empty one, through any sequence of enqueues,
  resolutions, broadcasts (accepted or rejected), confirmations and reconciliations, is well
  formed: primary keys are unique, every payload is one \<open>from_parts\<close> accepts, histories have no
  duplicates, a row has a lineage and a head transaction of its own history exactly when it is
  inflight or confirmed. And a rejected broadcast can always be reverted.\<close>

theorem reachable_tables_ok:
  assumes "store_reachable s"
  shows "table_ok (ss_table s)
    \<and> (case ss_outstanding s of None \<Rightarrow> True
       | Some (scope, receipt) \<Rightarrow> \<exists>t'. revert_broadcast (ss_table s) scope receipt = Inr ((), t') \<and> table_ok t')"
proof -
  have inv: "store_inv s" by (rule store_reachable_inv[OF assms])
  show ?thesis
  proof (cases "ss_outstanding s")
    case (Some out)
    obtain scope receipt where out: "out = (scope, receipt)" by (cases out)
    from inv Some out obtain t0 plan t1 extra where "persist_broadcast t0 scope plan = Inr (receipt, t1)"
      "ss_table s = t1 @ extra" "table_ok (t0 @ extra)"
      by (auto simp: store_inv_def)
    with revert_broadcast_exact[of t0 extra] Some out inv show ?thesis
      by (auto simp: store_inv_def table_ok_def)
  qed (use inv in \<open>simp add: store_inv_def\<close>)
qed

definition sample_enqueued :: wallet_table where
  "sample_enqueued = [pending_row ''w'' ''a'' 1, pending_row ''w'' ''b'' 2]"

lemma sample_reachable:
  "store_reachable \<lparr>ss_table = sample_enqueued, ss_outstanding = None\<rparr>"
proof -
  have wf: "wf_request (req_send ''a'' 1000)" "wf_request (req_send ''b'' 1000)"
    by (simp_all add: wf_request_def req_send_def trim_is_empty_def)
  have "store_reachable \<lparr>ss_table = [pending_row ''w'' ''a'' 1], ss_outstanding = None\<rparr>"
    using store_reachable.intros(2)[OF reach_empty step_enqueue[of 1 _ "''w''", OF _ wf(1)]]
    by (simp add: enqueue_def pending_row_def req_send_def load_wallet_request_row_def)
  from store_reachable.intros(2)[OF this step_enqueue[of 2 _ "''w''", OF _ wf(2)]] show ?thesis
    by (simp add: enqueue_def sample_enqueued_def pending_row_def req_send_def load_wallet_request_row_def key_in_def)
qed

theorem reachable_tables_ok_witness:
  "\<exists>s receipt. store_reachable s \<and> ss_outstanding s = Some (''w'', receipt) \<and> table_ok (ss_table s)"
proof -
  let ?p = "persist_broadcast sample_enqueued ''w'' sample_fresh"
  have "\<not> isl ?p" by code_simp
  then obtain receipt t' where p: "?p = Inr (receipt, t')" by (cases ?p) auto
  let ?s = "\<lparr>ss_table = t', ss_outstanding = Some (''w'', receipt)\<rparr>"
  have "store_reachable ?s"
    using store_reachable.intros(2)[OF sample_reachable step_broadcast[of _ "''w''"]] p by simp
  with reachable_tables_ok[OF this] show ?thesis by (auto intro!: exI[of _ ?s])
qed

text \<open>C3: A confirmed or dropped request is final: along every run of the store from a reachable
  state its row is never changed or removed.\<close>

theorem terminal_rows_final:
  assumes "store_reachable s" and "store_step\<^sup>*\<^sup>* s s'"
    and "r \<in> set (ss_table s)" and "row_status r = ''confirmed'' \<or> row_status r = ''dropped''"
  shows "r \<in> set (ss_table s')"
  using assms(2)
proof (induction rule: rtranclp_induct)
  case base
  show ?case by (rule assms(3))
next
  case (step s1 s2)
  have "store_reachable s1"
    using step(1) assms(1) by (induction rule: rtranclp_induct) (auto intro: reach_step)
  then show ?case
    using terminal_row_step[OF step(2)] step assms(4) by (simp add: store_reachable_inv row_terminal_def)
qed

theorem terminal_rows_final_witness:
  "\<exists>s s'. store_step\<^sup>*\<^sup>* s s' \<and> s' \<noteq> s \<and> dropped_row (pending_row ''w'' ''b'' 2) \<in> set (ss_table s')"
proof -
  let ?t = "[pending_row ''w'' ''a'' 1, dropped_row (pending_row ''w'' ''b'' 2)]"
  let ?s = "\<lparr>ss_table = ?t, ss_outstanding = None\<rparr>"
  let ?s' = "\<lparr>ss_table = ?t @ [pending_row ''w'' ''c'' 3], ss_outstanding = None\<rparr>"
  have "resolve_pending sample_enqueued ''w'' ''b'' = Inr (CancelledPending, ?t)" by code_simp
  then have r: "store_reachable ?s"
    using store_reachable.intros(2)[OF sample_reachable step_resolve[of _ "''w''"]] by simp
  have "enqueue 3 ?t ''w'' (req_send ''c'' 1000) = Inr (EnqueuedPending, ?t @ [pending_row ''w'' ''c'' 3])"
    by code_simp
  moreover have "wf_request (req_send ''c'' 1000)"
    by (simp add: wf_request_def req_send_def trim_is_empty_def)
  ultimately have st: "store_step ?s ?s'" using step_enqueue[of 3 ?s "''w''"] by simp
  have "dropped_row (pending_row ''w'' ''b'' 2) \<in> set (ss_table ?s')"
    by (rule terminal_rows_final[OF r r_into_rtranclp[of store_step, OF st]]) (simp_all add: dropped_row_def)
  with st show ?thesis by (intro exI[of _ ?s] exI[of _ ?s']) auto
qed

text \<open>Enqueueing never fails on a well-formed table and is idempotent by dedupe key: a first
  enqueue adds one pending row, and a second one under the same key, whatever its payload,
  changes nothing and reports where the stored request is in its lifecycle.\<close>

theorem enqueue_idempotent:
  assumes "table_ok t"
  shows "\<exists>res t'. enqueue now t scope req = Inr (res, t')
    \<and> (\<exists>res'. res' \<noteq> EnqueuedPending \<and> (\<forall>now' knd.
          enqueue now' t' scope \<lparr>dedupe_key = dedupe_key req, wr_kind = knd\<rparr> = Inr (res', t')))
    \<and> (res = EnqueuedPending \<longleftrightarrow> load_wallet_request_row t scope (dedupe_key req) = None)
    \<and> length t' = length t + (if res = EnqueuedPending then 1 else 0)"
proof (cases "load_wallet_request_row t scope (dedupe_key req)")
  case None
  then have "find (key_in scope [dedupe_key req]) (t @ [r]) = find (key_in scope [dedupe_key req]) [r]" for r
    by (induction t) (auto simp: load_wallet_request_row_def split: if_splits)
  with None show ?thesis
    by (simp add: enqueue_def load_wallet_request_row_def key_in_def try_from_status_def)
next
  case (Some r)
  then have "row_ok r" using assms load_row_eq_Some[of t] by (auto simp: table_ok_def)
  then have "row_state_ok r" by (simp add: row_ok_def)
  then consider "row_status r = ''pending''" | "row_status r = ''dropped''"
    | l b where "row_status r = ''inflight''" "row_lineage_id r = Some (Parsed l)" "row_batch_txid r = Some (Parsed b)"
    | l b where "row_status r = ''confirmed''" "row_lineage_id r = Some (Parsed l)" "row_batch_txid r = Some (Parsed b)"
    unfolding row_state_ok_def by (auto split: if_split_asm)
  then show ?thesis by cases (simp_all add: Some enqueue_def try_from_status_def)
qed

theorem enqueue_idempotent_witness:
  "\<exists>res t'. enqueue 9 sample_table ''w'' (req_send ''d'' 5) = Inr (res, t') \<and> res \<noteq> EnqueuedPending \<and> length t' = 5"
proof -
  have "load_wallet_request_row sample_table ''w'' ''d'' \<noteq> None" "length sample_table = 5" by code_simp+
  then show ?thesis
    using enqueue_idempotent[OF sample_table_ok, of 9 "''w''" "req_send ''d'' 5"] by (auto simp: req_send_def)
qed

end
