(* ===== verification/WalletRestore.thy ===== *)
theory WalletRestore
  imports WalletStoreProps
begin

text \<open>
  What \<open>restore\<close> rebuilds from the rows of a wallet: the merged transaction order of a lineage
  and the grouping of the inflight rows.
\<close>

section \<open>Merging transaction histories\<close>

lemma position_Some: "position x xs = Some i \<Longrightarrow> i < length xs \<and> xs ! i = x"
  by (induction xs arbitrary: i) (auto split: if_splits)

lemma position_None: "position x xs = None \<longleftrightarrow> x \<notin> set xs"
  by (induction xs) auto

definition cursor_len :: "nat option \<Rightarrow> nat" where
  "cursor_len c = (case c of None \<Rightarrow> 0 | Some i \<Rightarrow> Suc i)"

lemma set_insert_at: "set (insert_at i x xs) = insert x (set xs)"
proof -
  have "set xs = set (take i xs) \<union> set (drop i xs)" by (metis append_take_drop_id set_append)
  then show ?thesis by (auto simp: insert_at_def)
qed

lemma distinct_insert_at: "distinct xs \<Longrightarrow> x \<notin> set xs \<Longrightarrow> distinct (insert_at i x xs)"
  by (auto simp: insert_at_def set_take_disj_set_drop_if_distinct dest: in_set_takeD in_set_dropD)

lemma subseq_insert_at: "subseq xs (insert_at i x xs)"
proof -
  have "subseq (take i xs @ drop i xs) (take i xs @ x # drop i xs)"
    by (intro list_emb_append_mono) auto
  then show ?thesis by (simp add: insert_at_def)
qed

lemma merge_loop_Inr:
  assumes "merge_loop all cursor txs = Inr res" "distinct all" "distinct txs"
    and "cursor_len cursor \<le> length all" "\<And>c. cursor = Some c \<Longrightarrow> all ! c \<notin> set txs"
  shows "distinct res \<and> set res = set all \<union> set txs \<and> subseq all res
    \<and> take (cursor_len cursor) res = take (cursor_len cursor) all \<and> subseq txs (drop (cursor_len cursor) res)"
  using assms
proof (induction all cursor txs rule: merge_loop.induct)
  case (2 all cursor tx txs)
  let ?n = "cursor_len cursor"
  show ?case
  proof (cases "position tx all")
    case (Some i)
    then have i: "i < length all" "all ! i = tx" by (auto dest: position_Some)
    have c: "\<not> (case cursor of Some c \<Rightarrow> i < c | None \<Rightarrow> False)" and rec: "merge_loop all (Some i) txs = Inr res"
      using 2(3) Some by (auto split: if_splits option.splits)
    have n: "?n \<le> i"
      using c i 2(7) by (cases cursor) (auto simp: cursor_len_def Suc_le_eq not_less le_less)
    have "distinct txs" "tx \<notin> set txs" using 2(5) by simp_all
    with 2(2)[OF Some c rec 2(4)] i
    have IH: "distinct res \<and> set res = set all \<union> set txs \<and> subseq all res"
      "take (Suc i) res = take (Suc i) all" "subseq txs (drop (Suc i) res)"
      by (simp_all add: cursor_len_def Suc_le_eq)
    have "take ?n res = take ?n (take (Suc i) res)" using n by simp
    also have "\<dots> = take ?n all" using IH(2) n by simp
    finally have t: "take ?n res = take ?n all" .
    have len: "Suc i \<le> length res" using IH(2) i(1) by (metis Suc_leI length_take min_absorb2 nat_le_linear take_all_iff)
    have "drop ?n (take (Suc i) res) = drop ?n (take i all) @ [tx]"
      using IH(2) i n by (simp add: take_Suc_conv_app_nth)
    then have "subseq [tx] (drop ?n (take (Suc i) res))"
      by (auto intro: list_emb_append2)
    moreover have "drop ?n res = drop ?n (take (Suc i) res) @ drop (Suc i) res"
    proof -
      have "drop ?n (take (Suc i) res @ drop (Suc i) res) = drop ?n (take (Suc i) res) @ drop (Suc i) res"
        using n len by (subst drop_append) simp
      then show ?thesis by simp
    qed
    ultimately have "subseq ([tx] @ txs) (drop ?n res)"
      using IH(3) list_emb_append_mono by metis
    moreover have "set res = set all \<union> set (tx # txs)" using IH(1) i nth_mem[of i all] by auto
    ultimately show ?thesis using IH(1) t by simp
  next
    case None
    have pos: "(case cursor of None \<Rightarrow> 0 | Some i \<Rightarrow> i + 1) = ?n" by (simp add: cursor_len_def split: option.splits)
    let ?all = "insert_at ?n tx all"
    have rec: "merge_loop ?all (Some ?n) txs = Inr res" using 2(3) None pos by (simp add: Let_def)
    have tx: "tx \<notin> set all" using None by (simp add: position_None)
    have nth: "?all ! ?n = tx" "length ?all = Suc (length all)" using 2(6) by (simp_all add: insert_at_def nth_append)
    have d: "distinct ?all" using 2(4) tx by (rule distinct_insert_at)
    have IH: "distinct res" "set res = set ?all \<union> set txs" "subseq ?all res"
      "take (Suc ?n) res = take (Suc ?n) ?all" "subseq txs (drop (Suc ?n) res)"
      using 2(1)[OF None pos[symmetric]] rec d 2(5,6) nth by (auto simp: cursor_len_def)
    have t: "take (Suc ?n) ?all = take ?n all @ [tx]"
      using 2(6) by (simp add: insert_at_def)
    have "take ?n res = take ?n (take (Suc ?n) res)" by simp
    also have "\<dots> = take ?n all" using 2(6) by (simp add: IH(4) t)
    finally have t': "take ?n res = take ?n all" .
    have "drop ?n res = drop ?n (take (Suc ?n) res @ drop (Suc ?n) res)" by simp
    also have "\<dots> = tx # drop (Suc ?n) res"
      using 2(6) by (subst IH(4)) (simp add: t del: append_take_drop_id)
    finally have "subseq (tx # txs) (drop ?n res)" using IH(5) by simp
    moreover have "subseq all res" using subseq_insert_at IH(3) by (rule subseq_order.trans)
    ultimately show ?thesis using IH(1,2) t' by (auto simp: set_insert_at)
  qed
qed simp

lemma merge_txids_Inr:
  assumes "merge_ordered_unique_txids all txs = Inr res" "distinct all"
  shows "distinct res" "set res = set all \<union> set txs" "subseq all res" "subseq txs res" "distinct txs"
proof -
  have m: "merge_loop all None txs = Inr res" and d: "distinct txs"
    using assms(1) by (auto simp: merge_ordered_unique_txids_def try_simps)
  from merge_loop_Inr[OF m assms(2) d]
  show "distinct res" "set res = set all \<union> set txs" "subseq all res" "subseq txs res" "distinct txs"
    using d by (auto simp: cursor_len_def)
qed

section \<open>Grouping the inflight rows\<close>

text \<open>A row and the request of a lineage it was restored to.\<close>

definition restored_request :: "wallet_row \<Rightarrow> live_lineage_request \<Rightarrow> bool" where
  "restored_request r q =
    (lr_request q = \<lparr>dedupe_key = row_dedupe_key r, wr_kind = row_payload r\<rparr>
    \<and> row_txid_history r = map Parsed (lr_txid_history q) \<and> lr_created_at q = row_created_at r)"

definition restored_into :: "wallet_row \<Rightarrow> lineage_id \<times> txid \<times> live_lineage_request \<Rightarrow> bool" where
  "restored_into r = (\<lambda>(l, h, q). row_lineage_id r = Some (Parsed l) \<and> row_batch_txid r = Some (Parsed h)
    \<and> restored_request r q)"

definition lineage_members :: "live_lineage_snapshot \<Rightarrow> (lineage_id \<times> txid \<times> live_lineage_request) list" where
  "lineage_members s = map (\<lambda>q. (ls_lineage_id s, ls_head_txid s, q)) (ls_requests s)"

text \<open>
  A snapshot is coherent: it has requests, each ends at the head, and its transactions are those
  of its requests, without duplicates and in an order every request agrees with.
\<close>

definition snapshot_ok :: "live_lineage_snapshot \<Rightarrow> bool" where
  "snapshot_ok s = (ls_requests s \<noteq> [] \<and> distinct (ls_all_txids s)
    \<and> set (ls_all_txids s) = (\<Union>q \<in> set (ls_requests s). set (lr_txid_history q))
    \<and> (\<forall>q \<in> set (ls_requests s). lr_txid_history q \<noteq> [] \<and> last (lr_txid_history q) = ls_head_txid s
         \<and> subseq (lr_txid_history q) (ls_all_txids s)))"

definition open_lineages :: "live_lineage_snapshot list \<times> inflight_accumulator option \<Rightarrow> live_lineage_snapshot list" where
  "open_lineages s = fst s @ (case snd s of None \<Rightarrow> [] | Some acc \<Rightarrow> [accumulator_finish acc])"

definition restore_inv ::
    "wallet_row list \<Rightarrow> live_lineage_snapshot list \<times> inflight_accumulator option \<Rightarrow> bool" where
  "restore_inv rows s =
    (list_all2 restored_into rows (concat (map lineage_members (open_lineages s)))
    \<and> (\<forall>x \<in> set (open_lineages s). snapshot_ok x)
    \<and> sorted_wrt (<) (map ls_lineage_id (open_lineages s))
    \<and> (snd s = None \<longrightarrow> fst s = []))"

lemma history_targets_head_Inr [try_simps]:
  "ensure_inflight_row_history_targets_head h head k = Inr u \<longleftrightarrow> distinct h \<and> h \<noteq> [] \<and> last h = head"
  by (cases h) (auto simp: ensure_inflight_row_history_targets_head_def try_simps split: if_splits)

lemma into_request_Inr [try_simps]:
  "into_request r = Inr req \<longleftrightarrow> req = \<lparr>dedupe_key = row_dedupe_key r, wr_kind = row_payload r\<rparr> \<and> wf_request req"
  by (auto simp: into_request_def from_parts_Inr_iff split: sum.splits)
    (metis from_parts_Inr_iff sum.distinct(1))

text \<open>What one row adds: it opens a lineage or joins the current one.\<close>

lemma restore_step_Inr:
  assumes "restore_step (fin, cur) r = Inr s'"
  obtains l h hist where "row_lineage_id r = Some (Parsed l)" "row_batch_txid r = Some (Parsed h)"
    "row_txid_history r = map Parsed hist" "distinct hist" "hist \<noteq> []" "last hist = h"
    "wf_request \<lparr>dedupe_key = row_dedupe_key r, wr_kind = row_payload r\<rparr>"
    "(\<exists>acc acc' txs. cur = Some acc \<and> ia_lineage_id acc = l \<and> ia_head_txid acc = h
        \<and> merge_ordered_unique_txids (ia_all_txids acc) hist = Inr txs
        \<and> s' = (fin, Some acc') \<and> ia_lineage_id acc' = l \<and> ia_head_txid acc' = h \<and> ia_all_txids acc' = txs
        \<and> ia_requests acc' = ia_requests acc @ [\<lparr>lr_request = \<lparr>dedupe_key = row_dedupe_key r, wr_kind = row_payload r\<rparr>,
              lr_txid_history = hist, lr_created_at = row_created_at r\<rparr>])
     \<or> (\<exists>acc' txs. (\<forall>acc. cur = Some acc \<longrightarrow> ia_lineage_id acc \<noteq> l)
        \<and> merge_ordered_unique_txids [] hist = Inr txs
        \<and> s' = (open_lineages (fin, cur), Some acc')
        \<and> ia_lineage_id acc' = l \<and> ia_head_txid acc' = h \<and> ia_all_txids acc' = txs
        \<and> ia_requests acc' = [\<lparr>lr_request = \<lparr>dedupe_key = row_dedupe_key r, wr_kind = row_payload r\<rparr>,
              lr_txid_history = hist, lr_created_at = row_created_at r\<rparr>])"
proof -
  obtain l h hist where P: "row_lineage_id r = Some (Parsed l)" "row_batch_txid r = Some (Parsed h)"
    "row_txid_history r = map Parsed hist" "distinct hist" "hist \<noteq> []" "last hist = h"
    "wf_request \<lparr>dedupe_key = row_dedupe_key r, wr_kind = row_payload r\<rparr>"
    using assms unfolding restore_step_def by (auto simp: try_simps parse_txid_history_Inr Let_def)
  have [simp]: "parse_txid_history (map Parsed hist) = Inr hist" by (simp add: parse_txid_history_Inr)
  have [simp]: "into_request r = Inr \<lparr>dedupe_key = row_dedupe_key r, wr_kind = row_payload r\<rparr>"
    using P(7) by (simp add: try_simps)
  have [simp]: "ensure_inflight_row_history_targets_head hist h (row_dedupe_key r) = Inr ()"
    using P by (simp add: try_simps)
  show thesis
    apply (rule that[OF P])
    using assms
    by (cases cur)
      (auto simp: restore_step_def P(1-3) Let_def try_simps accumulator_new_def open_lineages_def
        split: if_splits)
qed

lemma snapshot_ok_open:
  assumes "merge_ordered_unique_txids [] hist = Inr txs" "hist \<noteq> []" "last hist = h"
    and "ia_head_txid acc = h" "ia_all_txids acc = txs" "ia_requests acc = [q]" "lr_txid_history q = hist"
  shows "snapshot_ok (accumulator_finish acc)"
  using merge_txids_Inr[OF assms(1)] assms(2-) by (simp add: snapshot_ok_def accumulator_finish_def)

lemma snapshot_ok_join:
  assumes ok: "snapshot_ok (accumulator_finish acc)"
    and m: "merge_ordered_unique_txids (ia_all_txids acc) hist = Inr txs"
    and "hist \<noteq> []" "last hist = h" "ia_head_txid acc = h" "ia_head_txid acc' = h"
    and "ia_all_txids acc' = txs" "ia_requests acc' = ia_requests acc @ [q]" "lr_txid_history q = hist"
  shows "snapshot_ok (accumulator_finish acc')"
proof -
  have "distinct (ia_all_txids acc)" using ok by (simp add: snapshot_ok_def accumulator_finish_def)
  note M = merge_txids_Inr[OF m this]
  have "subseq (lr_txid_history p) txs" if "p \<in> set (ia_requests acc)" for p
  proof -
    have "subseq (lr_txid_history p) (ia_all_txids acc)"
      using ok that by (simp add: snapshot_ok_def accumulator_finish_def)
    then show ?thesis using M(3) by (rule subseq_order.trans)
  qed
  with M assms show ?thesis by (auto simp: snapshot_ok_def accumulator_finish_def)
qed

lemma restore_step_inv:
  assumes st: "restore_step s r = Inr s'" and inv: "restore_inv rows s"
    and ord: "\<And>q. q \<in> set rows \<Longrightarrow> lineage_rank (row_lineage_id q) \<le> lineage_rank (row_lineage_id r)"
  shows "restore_inv (rows @ [r]) s'"
proof -
  obtain fin cur where s: "s = (fin, cur)" by (cases s)
  obtain l h hist where R: "row_lineage_id r = Some (Parsed l)" "row_batch_txid r = Some (Parsed h)"
    "row_txid_history r = map Parsed hist" "distinct hist" "hist \<noteq> []" "last hist = h"
    and D: "(\<exists>acc acc' txs. cur = Some acc \<and> ia_lineage_id acc = l \<and> ia_head_txid acc = h
        \<and> merge_ordered_unique_txids (ia_all_txids acc) hist = Inr txs
        \<and> s' = (fin, Some acc') \<and> ia_lineage_id acc' = l \<and> ia_head_txid acc' = h \<and> ia_all_txids acc' = txs
        \<and> ia_requests acc' = ia_requests acc @ [\<lparr>lr_request = \<lparr>dedupe_key = row_dedupe_key r, wr_kind = row_payload r\<rparr>,
              lr_txid_history = hist, lr_created_at = row_created_at r\<rparr>])
     \<or> (\<exists>acc' txs. (\<forall>acc. cur = Some acc \<longrightarrow> ia_lineage_id acc \<noteq> l)
        \<and> merge_ordered_unique_txids [] hist = Inr txs
        \<and> s' = (open_lineages (fin, cur), Some acc')
        \<and> ia_lineage_id acc' = l \<and> ia_head_txid acc' = h \<and> ia_all_txids acc' = txs
        \<and> ia_requests acc' = [\<lparr>lr_request = \<lparr>dedupe_key = row_dedupe_key r, wr_kind = row_payload r\<rparr>,
              lr_txid_history = hist, lr_created_at = row_created_at r\<rparr>])"
    using st unfolding s by (rule restore_step_Inr)
  define q where "q = \<lparr>lr_request = \<lparr>dedupe_key = row_dedupe_key r, wr_kind = row_payload r\<rparr>,
      lr_txid_history = hist, lr_created_at = row_created_at r\<rparr>"
  have q: "restored_into r (l, h, q)" "lr_txid_history q = hist"
    by (simp_all add: restored_into_def restored_request_def q_def R)
  from D show ?thesis
  proof (elim disjE exE conjE)
    fix acc acc' txs
    assume A: "cur = Some acc" "ia_lineage_id acc = l" "ia_head_txid acc = h"
      "merge_ordered_unique_txids (ia_all_txids acc) hist = Inr txs"
      "s' = (fin, Some acc')" "ia_lineage_id acc' = l" "ia_head_txid acc' = h" "ia_all_txids acc' = txs"
      "ia_requests acc' = ia_requests acc @ [\<lparr>lr_request = \<lparr>dedupe_key = row_dedupe_key r, wr_kind = row_payload r\<rparr>,
              lr_txid_history = hist, lr_created_at = row_created_at r\<rparr>]"
    have ok: "snapshot_ok (accumulator_finish acc)" using inv A(1) by (simp add: restore_inv_def s open_lineages_def)
    have "snapshot_ok (accumulator_finish acc')"
      using snapshot_ok_join[OF ok A(4) R(5,6) A(3,7,8)] A(9) by simp
    moreover have "lineage_members (accumulator_finish acc') = lineage_members (accumulator_finish acc) @ [(l, h, q)]"
      using A by (simp add: lineage_members_def accumulator_finish_def q_def)
    ultimately show ?thesis
      using inv q(1) A(1,2,5,6) unfolding restore_inv_def s open_lineages_def
      by (auto simp: list_all2_appendI accumulator_finish_def append.assoc[symmetric] simp del: append.assoc append_assoc)
  next
    fix acc' txs
    assume A: "\<forall>acc. cur = Some acc \<longrightarrow> ia_lineage_id acc \<noteq> l" "merge_ordered_unique_txids [] hist = Inr txs"
      "s' = (open_lineages (fin, cur), Some acc')" "ia_lineage_id acc' = l" "ia_head_txid acc' = h"
      "ia_all_txids acc' = txs"
      "ia_requests acc' = [\<lparr>lr_request = \<lparr>dedupe_key = row_dedupe_key r, wr_kind = row_payload r\<rparr>,
              lr_txid_history = hist, lr_created_at = row_created_at r\<rparr>]"
    have "snapshot_ok (accumulator_finish acc')"
      using snapshot_ok_open[OF A(2) R(5,6) A(5,6,7)] by simp
    moreover have "lineage_members (accumulator_finish acc') = [(l, h, q)]"
      using A by (simp add: lineage_members_def accumulator_finish_def q_def)
    moreover have "x < l" if x: "x \<in> set (map ls_lineage_id (open_lineages s))" for x
    proof (cases cur)
      case None
      with inv x show ?thesis by (simp add: restore_inv_def s open_lineages_def)
    next
      case (Some acc)
      have "snapshot_ok (accumulator_finish acc)" using inv Some by (simp add: restore_inv_def s open_lineages_def)
      then have "ia_requests acc \<noteq> []" by (simp add: snapshot_ok_def accumulator_finish_def)
      then have "(ia_lineage_id acc, ia_head_txid acc, hd (ia_requests acc)) \<in> set (concat (map lineage_members (open_lineages s)))"
        using Some by (simp add: s open_lineages_def lineage_members_def accumulator_finish_def)
      moreover have "list_all2 restored_into rows (concat (map lineage_members (open_lineages s)))"
        using inv by (simp add: restore_inv_def)
      ultimately obtain p where "p \<in> set rows" "row_lineage_id p = Some (Parsed (ia_lineage_id acc))"
        unfolding restored_into_def list_all2_conv_all_nth in_set_conv_nth by (metis (mono_tags, lifting) case_prodD)
      with ord[of p] R(1) have "ia_lineage_id acc \<le> l"
        by (auto simp: less_eq_lineage_id_def word_le_nat_alt)
      with A(1) Some have "ia_lineage_id acc < l" by (simp add: order.not_eq_order_implies_strict)
      moreover have "x \<le> ia_lineage_id acc"
        using inv x Some unfolding restore_inv_def s open_lineages_def
        by (auto simp: sorted_wrt_append accumulator_finish_def)
      ultimately show ?thesis by simp
    qed
    moreover have o: "open_lineages s' = open_lineages s @ [accumulator_finish acc']"
      "ls_lineage_id (accumulator_finish acc') = l" "snd s' \<noteq> None"
      using A(3,4) by (simp_all add: s open_lineages_def accumulator_finish_def)
    ultimately show ?thesis
      using inv q(1) unfolding restore_inv_def o
      by (auto simp: sorted_wrt_append o(2,3) intro: list_all2_appendI)
  qed
qed

lemma restore_fold_inv:
  assumes "try_fold restore_step s todo = Inr s'" "restore_inv rows s"
    and "sorted (map (\<lambda>r. lineage_rank (row_lineage_id r)) (rows @ todo))"
  shows "restore_inv (rows @ todo) s'"
  using assms
proof (induction todo arbitrary: s rows)
  case (Cons r todo)
  then obtain s1 where "restore_step s r = Inr s1" "try_fold restore_step s1 todo = Inr s'"
    by (auto simp: try_simps)
  moreover from this have "restore_inv (rows @ [r]) s1"
    using restore_step_inv Cons.prems(2,3) by (auto simp: sorted_append)
  ultimately show ?case using Cons.IH[of s1 "rows @ [r]"] Cons.prems(3) by simp
qed simp

lemma restore_Inr:
  assumes "restore t scope = Inr st"
  shows "list_all2 restored_into (inflight_rows t scope) (concat (map lineage_members (rs_inflight st)))"
    "\<forall>x \<in> set (rs_inflight st). snapshot_ok x" "sorted_wrt (<) (map ls_lineage_id (rs_inflight st))"
    "list_all2 (\<lambda>r p. p = \<lparr>pr_request = \<lparr>dedupe_key = row_dedupe_key r, wr_kind = row_payload r\<rparr>,
       pr_chain_anchor = row_chain_anchor r, pr_created_at = row_created_at r\<rparr>) (pending_rows t scope) (rs_pending st)"
proof -
  obtain pend s where p: "try_map restore_pending_row (pending_rows t scope) = Inr pend"
    and f: "try_fold restore_step ([], None) (inflight_rows t scope) = Inr s"
    and st: "rs_pending st = pend" "rs_inflight st = open_lineages s"
    using assms by (auto simp: restore_def try_simps open_lineages_def split: prod.splits option.splits)
  have "sorted (map (\<lambda>r. lineage_rank (row_lineage_id r)) (inflight_rows t scope))"
    by (simp add: inflight_rows_def)
  with restore_fold_inv[OF f, of "[]"] have "restore_inv (inflight_rows t scope) s"
    by (simp add: restore_inv_def open_lineages_def)
  then show "list_all2 restored_into (inflight_rows t scope) (concat (map lineage_members (rs_inflight st)))"
    "\<forall>x \<in> set (rs_inflight st). snapshot_ok x" "sorted_wrt (<) (map ls_lineage_id (rs_inflight st))"
    by (simp_all add: restore_inv_def st)
  show "list_all2 (\<lambda>r p. p = \<lparr>pr_request = \<lparr>dedupe_key = row_dedupe_key r, wr_kind = row_payload r\<rparr>,
       pr_chain_anchor = row_chain_anchor r, pr_created_at = row_created_at r\<rparr>) (pending_rows t scope) (rs_pending st)"
    using p unfolding try_map_eq_Inr st by (rule list_all2_mono) (auto simp: restore_pending_row_def try_simps)
qed

lemma list_all2_memberD: "list_all2 P xs ys \<Longrightarrow> x \<in> set xs \<Longrightarrow> \<exists>y \<in> set ys. P x y"
  by (induction rule: list_all2_induct) auto

lemma restored_row_ends_at_head:
  assumes "restore t scope = Inr st" "r \<in> set t" "row_scope r = scope" "row_status r = ''inflight''"
  obtains h hist where "row_batch_txid r = Some (Parsed h)" "row_txid_history r = map Parsed hist"
    "hist \<noteq> []" "last hist = h"
proof -
  have "r \<in> set (inflight_rows t scope)" using assms by (simp add: inflight_rows_def)
  from list_all2_memberD[OF restore_Inr(1)[OF assms(1)] this]
  obtain s q where s: "s \<in> set (rs_inflight st)" "q \<in> set (ls_requests s)"
    "restored_into r (ls_lineage_id s, ls_head_txid s, q)"
    by (auto simp: lineage_members_def)
  then have "snapshot_ok s" using restore_Inr(2)[OF assms(1)] by blast
  with s that[of "ls_head_txid s" "lr_txid_history q"] show thesis
    by (simp add: restored_into_def restored_request_def snapshot_ok_def)
qed

section \<open>Properties\<close>

text \<open>Merging a request's transaction history into the lineage's transaction list keeps both
  orders: the result has no duplicates, holds exactly the transactions of the two lists, and
  contains each of them as a subsequence.\<close>

theorem merge_ordered_unique_txids_sound:
  assumes "distinct all_txids" and "merge_ordered_unique_txids all_txids row_txids = Inr res"
  shows "distinct res \<and> set res = set all_txids \<union> set row_txids
    \<and> subseq all_txids res \<and> subseq row_txids res"
  using merge_txids_Inr[OF assms(2,1)] by simp

theorem merge_ordered_unique_txids_sound_witness:
  "merge_ordered_unique_txids [1, 2, 4] [1, 3, 4] = Inr [1, 3, 2, 4] \<and> subseq [1, 3, 4] [1, 3, 2, 4 :: txid]"
proof -
  have *: "merge_ordered_unique_txids [1, 2, 4] [1, 3, 4] = Inr [1, 3, 2, 4]" by code_simp
  show ?thesis using merge_ordered_unique_txids_sound[OF _ *] * by simp
qed

text \<open>C4: \<open>restore\<close> loses and invents nothing: it returns one pending request per pending row
  and one lineage member per inflight row of the wallet, in key order, each under the lineage and
  head transaction of its row; there is one snapshot per lineage, each with at least one request,
  all of whose histories end at the head and embed in the snapshot's transaction list.\<close>

theorem restore_faithful:
  assumes "restore t scope = Inr st"
  shows "list_all2 (\<lambda>r p. pr_request p = \<lparr>dedupe_key = row_dedupe_key r, wr_kind = row_payload r\<rparr>
        \<and> pr_chain_anchor p = row_chain_anchor r \<and> pr_created_at p = row_created_at r)
      (pending_rows t scope) (rs_pending st)
    \<and> list_all2 (\<lambda>r (l, h, q). row_lineage_id r = Some (Parsed l) \<and> row_batch_txid r = Some (Parsed h)
        \<and> lr_request q = \<lparr>dedupe_key = row_dedupe_key r, wr_kind = row_payload r\<rparr>
        \<and> row_txid_history r = map Parsed (lr_txid_history q))
      (inflight_rows t scope)
      (concat (map (\<lambda>s. map (\<lambda>q. (ls_lineage_id s, ls_head_txid s, q)) (ls_requests s)) (rs_inflight st)))
    \<and> sorted_wrt (<) (map ls_lineage_id (rs_inflight st))
    \<and> (\<forall>s \<in> set (rs_inflight st). ls_requests s \<noteq> [] \<and> distinct (ls_all_txids s)
        \<and> (\<forall>q \<in> set (ls_requests s). last (lr_txid_history q) = ls_head_txid s
            \<and> subseq (lr_txid_history q) (ls_all_txids s)))"
proof -
  note R = restore_Inr[OF assms]
  have m: "map lineage_members = map (\<lambda>s. map (\<lambda>q. (ls_lineage_id s, ls_head_txid s, q)) (ls_requests s))"
    by (simp add: lineage_members_def[abs_def])
  show ?thesis
    using R(2,3) list_all2_mono[OF R(1)[unfolded m], of "\<lambda>r (l, h, q). row_lineage_id r = Some (Parsed l)
        \<and> row_batch_txid r = Some (Parsed h)
        \<and> lr_request q = \<lparr>dedupe_key = row_dedupe_key r, wr_kind = row_payload r\<rparr>
        \<and> row_txid_history r = map Parsed (lr_txid_history q)"]
    by (auto simp: snapshot_ok_def restored_into_def restored_request_def intro: list_all2_mono[OF R(4)])
qed

definition sample_two_members :: wallet_table where
  "sample_two_members = [pending_row ''w'' ''a'' 1,
     inflight_row (LineageId 7) 12 (pending_row ''w'' ''c'' 3),
     inflight_row (LineageId 7) 12 (inflight_row (LineageId 7) 11 (pending_row ''w'' ''d'' 4))]"

theorem restore_faithful_witness:
  "\<exists>st. restore sample_two_members ''w'' = Inr st \<and> length (rs_pending st) = 1
    \<and> map ls_all_txids (rs_inflight st) = [[11, 12]]"
proof -
  let ?r = "restore sample_two_members ''w''"
  have 1: "\<not> isl ?r \<and> map ls_all_txids (rs_inflight (projr ?r)) = [[11, 12]]" by code_simp
  have 2: "length (pending_rows sample_two_members ''w'') = 1" by code_simp
  obtain st where st: "?r = Inr st" using 1 by (cases ?r) auto
  then have "length (rs_pending st) = 1" using restore_faithful[OF st] 2 by (auto dest: list_all2_lengthD)
  with st 1 show ?thesis by auto
qed

text \<open>After a head went missing and an older transaction of the lineage was found in the
  mempool, the persisted reconciliation leaves the survivors' histories ending past their new
  head, so a \<open>restore\<close> of that wallet, which the runner does at startup, fails on the new table.\<close>

theorem reconciled_in_mempool_not_restorable:
  assumes "table_wf t" and "persist_reconciliation t scope plan = Inr (u, t')"
    and "rp_kind plan = RInMempool surviving"
    and "load_wallet_request_row t scope key = Some r" "key \<in> set (rp_survivors plan)"
    and "row_txid_history r \<noteq> []" "last (row_txid_history r) \<noteq> Parsed surviving"
  shows "\<exists>e. restore t' scope = Inl e"
proof (rule ccontr)
  assume "\<not> (\<exists>e. restore t' scope = Inl e)"
  then obtain st where st: "restore t' scope = Inr st" by (cases "restore t' scope") auto
  have t': "t' = map (reconciliation_row scope plan) t" by (rule persist_reconciliation_Inr(2)[OF assms(1,2)])
  have r: "r \<in> set t" "row_scope r = scope" "row_dedupe_key r = key"
    using assms(4) load_row_eq_Some[OF assms(1)] by auto
  let ?r = "reconciliation_row scope plan r"
  have "?r = surviving_row (rp_lineage_id plan) surviving r"
    using r assms(3,5) by (simp add: reconciliation_row_def survivor_row_def key_in_def)
  then have R: "row_scope ?r = scope" "row_status ?r = ''inflight''" "row_batch_txid ?r = Some (Parsed surviving)"
    "row_txid_history ?r = row_txid_history r"
    using r by (simp_all add: surviving_row_def)
  have "?r \<in> set t'" using r(1) by (simp add: t')
  from restored_row_ends_at_head[OF st this R(1,2)] R assms(6,7) show False
    by (metis col.inject(1) last_map option.inject)
qed

definition sample_survivor_plan :: reconciliation_plan where
  "sample_survivor_plan = \<lparr>rp_lineage_id = LineageId 7, rp_kind = RInMempool 11, rp_survivors = [''d''],
     rp_requeued = [''c''], rp_chain_anchor = None\<rparr>"

theorem reconciled_in_mempool_not_restorable_witness:
  "\<exists>t' e. persist_reconciliation sample_two_members ''w'' sample_survivor_plan = Inr ((), t')
    \<and> restore t' ''w'' = Inl e \<and> \<not> isl (restore sample_two_members ''w'')"
proof -
  let ?p = "persist_reconciliation sample_two_members ''w'' sample_survivor_plan"
  have "\<not> isl ?p" and ok: "\<not> isl (restore sample_two_members ''w'')" by code_simp+
  then obtain t' where p: "?p = Inr ((), t')" by (cases ?p) auto
  have wf: "table_wf sample_two_members"
    by (simp add: table_wf_def sample_two_members_def sample_defs row_pk_def)
  have "load_wallet_request_row sample_two_members ''w'' ''d''
      = Some (inflight_row (LineageId 7) 12 (inflight_row (LineageId 7) 11 (pending_row ''w'' ''d'' 4)))"
    by code_simp
  from reconciled_in_mempool_not_restorable[OF wf p _ this, of 11] p ok show ?thesis
    by (auto simp: sample_survivor_plan_def inflight_row_def pending_row_def)
qed

end
