(* ===== verification/WalletState.thy ===== *)
theory WalletState
  imports WalletTypes
begin

text \<open>
  The in-memory state of the wallet runner (btc-executor .. wallet/runtime.rs): live lineages,
  pending requests and missing-head counters, with the operations on them that neither plan nor
  observe. A \<open>HashMap\<close> is an association list with distinct keys; its order, which the code
  iterates in, is arbitrary.
\<close>

section \<open>Live lineages\<close>

record live_lineage =
  ll_lineage_id :: lineage_id
  ll_head_txid :: txid
  ll_all_txids :: "txid list"
  ll_requests :: "live_lineage_request list"
  ll_cover_utxos :: "cover_utxo list"
  ll_chain_anchor :: "chain_anchor option"

definition lineage_of_snapshot :: "live_lineage_snapshot \<Rightarrow> live_lineage" where
  "lineage_of_snapshot s =
    \<lparr>ll_lineage_id = ls_lineage_id s, ll_head_txid = ls_head_txid s, ll_all_txids = ls_all_txids s,
     ll_requests = ls_requests s, ll_cover_utxos = ls_cover_utxos s, ll_chain_anchor = ls_chain_anchor s\<rparr>"

definition wallet_requests :: "live_lineage \<Rightarrow> wallet_request list" where
  "wallet_requests l = map lr_request (ll_requests l)"

definition derived_lineage_prevout :: "live_lineage \<Rightarrow> cover_utxo option" where
  "derived_lineage_prevout l =
    map_option (\<lambda>a. \<lparr>cu_outpoint = change_outpoint a, cu_value = change_value a,
      cu_script_pubkey = change_script_pubkey a\<rparr>) (ll_chain_anchor l)"

section \<open>Pending requests\<close>

record pending_state =
  ps_free :: "pending_wallet_request list"
  ps_anchored :: "pending_wallet_request list"

definition from_requests :: "pending_wallet_request list \<Rightarrow> pending_state" where
  "from_requests rs =
    \<lparr>ps_free = filter (\<lambda>r. pr_chain_anchor r = None) rs,
     ps_anchored = filter (\<lambda>r. pr_chain_anchor r \<noteq> None) rs\<rparr>"

definition pending_is_empty :: "pending_state \<Rightarrow> bool" where
  "pending_is_empty p = (ps_free p = [] \<and> ps_anchored p = [])"

record runtime_state =
  rt_live_lineages :: "(lineage_id \<times> live_lineage) list"
  rt_pending :: pending_state
  rt_missing :: "(lineage_id \<times> u32) list"
  rt_current_height :: u64

text \<open>\<open>collect()\<close> into a \<open>HashMap\<close> keeps the last value of a repeated key.\<close>

definition from_restored :: "restored_wallet_state \<Rightarrow> u64 \<Rightarrow> runtime_state" where
  "from_restored rs height =
    \<lparr>rt_live_lineages = foldl (\<lambda>m l. AList.update (ll_lineage_id l) l m) []
       (map lineage_of_snapshot (rs_inflight rs)),
     rt_pending = from_requests (rs_pending rs), rt_missing = [], rt_current_height = height\<rparr>"

definition live_lineage_at :: "runtime_state \<Rightarrow> lineage_id \<Rightarrow> live_lineage option" where
  "live_lineage_at rt l = map_of (rt_live_lineages rt) l"

definition missing_observations :: "runtime_state \<Rightarrow> lineage_id \<Rightarrow> u32" where
  "missing_observations rt l = (case map_of (rt_missing rt) l of None \<Rightarrow> 0 | Some n \<Rightarrow> n)"

text \<open>\<open>*observations += 1\<close> on a \<open>u32\<close>, wrapping as a release build does.\<close>

definition record_missing_observation :: "runtime_state \<Rightarrow> lineage_id \<Rightarrow> runtime_state \<times> u32" where
  "record_missing_observation rt l =
    (let n = missing_observations rt l + 1
     in (rt\<lparr>rt_missing := AList.update l n (rt_missing rt)\<rparr>, n))"

definition reset_missing_observations :: "lineage_id \<Rightarrow> runtime_state \<Rightarrow> runtime_state" where
  "reset_missing_observations l rt = rt\<lparr>rt_missing := AList.delete l (rt_missing rt)\<rparr>"

definition push_pending :: "runtime_state \<Rightarrow> pending_wallet_request \<Rightarrow> runtime_state" where
  "push_pending rt r =
    (let p = rt_pending rt in
     rt\<lparr>rt_pending := (if pr_chain_anchor r \<noteq> None
       then p\<lparr>ps_anchored := ps_anchored p @ [r]\<rparr>
       else p\<lparr>ps_free := ps_free p @ [r]\<rparr>)\<rparr>)"

section \<open>Anchors\<close>

text \<open>The state of the two draining loops: free requests, requests still anchored, and the result.\<close>

type_synonym drain_state =
  "pending_wallet_request list \<times> pending_wallet_request list \<times> pending_wallet_request list"

definition release_step :: "chain_anchor \<Rightarrow> drain_state \<Rightarrow> pending_wallet_request \<Rightarrow> drain_state" where
  "release_step anchor s r =
    (let (free, still, released) = s in
     if pr_chain_anchor r = Some anchor
     then (let f = r\<lparr>pr_chain_anchor := None\<rparr> in (free @ [f], still, released @ [f]))
     else (free, still @ [r], released))"

definition release_chain_anchor_group ::
    "chain_anchor \<Rightarrow> runtime_state \<Rightarrow> runtime_state \<times> pending_wallet_request list" where
  "release_chain_anchor_group anchor rt =
    (let p = rt_pending rt;
         (free, still, released) = foldl (release_step anchor) (ps_free p, [], []) (ps_anchored p)
     in (rt\<lparr>rt_pending := \<lparr>ps_free = free, ps_anchored = still\<rparr>\<rparr>, released))"

definition anchor_confirmations :: "u64 \<Rightarrow> chain_anchor \<Rightarrow> u64" where
  "anchor_confirmations height anchor = saturating_add (saturating_sub height (confirmed_height anchor)) 1"

definition expire_step :: "u64 \<Rightarrow> u64 \<Rightarrow> drain_state \<Rightarrow> pending_wallet_request \<Rightarrow> drain_state" where
  "expire_step height required s r =
    (let (free, still, expired) = s in
     case pr_chain_anchor r of
       None \<Rightarrow> (free @ [r], still, expired)
     | Some anchor \<Rightarrow>
         (if anchor_confirmations height anchor \<ge> required
          then (let f = r\<lparr>pr_chain_anchor := None\<rparr> in (free @ [f], still, expired @ [f]))
          else (free, still @ [r], expired)))"

definition expire_chain_anchors ::
    "u64 \<Rightarrow> runtime_state \<Rightarrow> runtime_state \<times> pending_wallet_request list" where
  "expire_chain_anchors required rt =
    (let p = rt_pending rt;
         (free, still, expired) =
           foldl (expire_step (rt_current_height rt) required) (ps_free p, [], []) (ps_anchored p)
     in (rt\<lparr>rt_pending := \<lparr>ps_free = free, ps_anchored = still\<rparr>\<rparr>, expired))"

text \<open>
  A request is stale when \<open>created_at + ttl < now\<close>, in nanoseconds. The TTL is cast to \<open>i64\<close>.
  (An addition beyond the year 9999 would panic; the model has no such bound.)
\<close>

definition stale :: "timestamp \<Rightarrow> u64 \<Rightarrow> pending_wallet_request \<Rightarrow> bool" where
  "stale now ttl_secs r = (pr_created_at r + sint ttl_secs * 1000000000 < now)"

definition drop_stale_pending ::
    "timestamp \<Rightarrow> u64 \<Rightarrow> runtime_state \<Rightarrow> runtime_state \<times> pending_wallet_request list" where
  "drop_stale_pending now ttl_secs rt =
    (let p = rt_pending rt in
     (rt\<lparr>rt_pending :=
        \<lparr>ps_free = filter (\<lambda>r. \<not> stale now ttl_secs r) (ps_free p),
         ps_anchored = filter (\<lambda>r. \<not> stale now ttl_secs r) (ps_anchored p)\<rparr>\<rparr>,
      filter (stale now ttl_secs) (ps_free p) @ filter (stale now ttl_secs) (ps_anchored p)))"

section \<open>The invariant of the runtime state\<close>

definition wf_pending :: "pending_state \<Rightarrow> bool" where
  "wf_pending p = ((\<forall>r \<in> set (ps_free p). pr_chain_anchor r = None)
    \<and> (\<forall>r \<in> set (ps_anchored p). pr_chain_anchor r \<noteq> None))"

definition wf_runtime :: "runtime_state \<Rightarrow> bool" where
  "wf_runtime rt = (wf_pending (rt_pending rt) \<and> hm_wf (rt_live_lineages rt) \<and> hm_wf (rt_missing rt)
    \<and> (\<forall>(k, l) \<in> set (rt_live_lineages rt). ll_lineage_id l = k))"

abbreviation all_pending :: "runtime_state \<Rightarrow> pending_wallet_request list" where
  "all_pending rt \<equiv> ps_free (rt_pending rt) @ ps_anchored (rt_pending rt)"

lemmas runtime_defs = wf_runtime_def wf_pending_def push_pending_def from_requests_def
  reset_missing_observations_def record_missing_observation_def Let_def

lemma wf_from_requests: "wf_pending (from_requests rs)"
  by (simp add: runtime_defs)

lemma mset_from_requests: "mset (ps_free (from_requests rs)) + mset (ps_anchored (from_requests rs)) = mset rs"
  using mset_filter_split[of "\<lambda>r. pr_chain_anchor r = None" rs] by (simp add: from_requests_def)

lemma wf_push_pending: "wf_runtime rt \<Longrightarrow> wf_runtime (push_pending rt r)"
  by (auto simp: runtime_defs)

lemma wf_push_all: "wf_runtime rt \<Longrightarrow> wf_runtime (foldl push_pending rt rs)"
  by (induction rs arbitrary: rt) (simp_all add: wf_push_pending)

lemma push_pending_rest [simp]:
  "rt_live_lineages (push_pending rt r) = rt_live_lineages rt"
  "rt_missing (push_pending rt r) = rt_missing rt"
  "rt_current_height (push_pending rt r) = rt_current_height rt"
  by (simp_all add: push_pending_def Let_def)

lemma push_all_rest [simp]:
  "rt_live_lineages (foldl push_pending rt rs) = rt_live_lineages rt"
  "rt_missing (foldl push_pending rt rs) = rt_missing rt"
  "rt_current_height (foldl push_pending rt rs) = rt_current_height rt"
  by (induction rs arbitrary: rt) simp_all

lemma mset_push_pending: "mset (all_pending (push_pending rt r)) = add_mset r (mset (all_pending rt))"
  by (simp add: push_pending_def Let_def)

lemma mset_push_all: "mset (all_pending (foldl push_pending rt rs)) = mset (all_pending rt) + mset rs"
proof (induction rs arbitrary: rt)
  case (Cons r rs)
  from Cons[of "push_pending rt r"] mset_push_pending[of rt r] show ?case by simp
qed simp

text \<open>The draining loops in closed form.\<close>

definition freed :: "pending_wallet_request \<Rightarrow> pending_wallet_request" where
  "freed r = r\<lparr>pr_chain_anchor := None\<rparr>"

lemma foldl_release:
  "foldl (release_step a) (free, still, out) rs =
    (free @ map freed (filter (\<lambda>r. pr_chain_anchor r = Some a) rs),
     still @ filter (\<lambda>r. pr_chain_anchor r \<noteq> Some a) rs,
     out @ map freed (filter (\<lambda>r. pr_chain_anchor r = Some a) rs))"
  by (induction rs arbitrary: free still out) (simp_all add: release_step_def freed_def Let_def)

definition expired_anchor :: "u64 \<Rightarrow> u64 \<Rightarrow> pending_wallet_request \<Rightarrow> bool" where
  "expired_anchor height required r =
    (case pr_chain_anchor r of None \<Rightarrow> True | Some a \<Rightarrow> anchor_confirmations height a \<ge> required)"

lemma freed_free: "pr_chain_anchor r = None \<Longrightarrow> freed r = r"
  by (simp add: freed_def)

lemma foldl_expire:
  assumes "\<And>r. r \<in> set rs \<Longrightarrow> pr_chain_anchor r \<noteq> None"
  shows "foldl (expire_step h req) (free, still, out) rs =
    (free @ map freed (filter (expired_anchor h req) rs),
     still @ filter (\<lambda>r. \<not> expired_anchor h req r) rs,
     out @ map freed (filter (expired_anchor h req) rs))"
  using assms
proof (induction rs arbitrary: free still out)
  case (Cons r rs)
  from Cons.prems[of r] obtain a where "pr_chain_anchor r = Some a" by (cases "pr_chain_anchor r") auto
  with Cons show ?case by (simp add: expire_step_def expired_anchor_def freed_def Let_def)
qed simp

lemma release_closed:
  "release_chain_anchor_group a rt =
    (let p = rt_pending rt; out = map freed (filter (\<lambda>r. pr_chain_anchor r = Some a) (ps_anchored p))
     in (rt\<lparr>rt_pending := \<lparr>ps_free = ps_free p @ out,
           ps_anchored = filter (\<lambda>r. pr_chain_anchor r \<noteq> Some a) (ps_anchored p)\<rparr>\<rparr>, out))"
  by (simp add: release_chain_anchor_group_def foldl_release Let_def)

lemma expire_closed:
  assumes "wf_pending (rt_pending rt)"
  shows "expire_chain_anchors req rt =
    (let p = rt_pending rt; out = map freed (filter (expired_anchor (rt_current_height rt) req) (ps_anchored p))
     in (rt\<lparr>rt_pending := \<lparr>ps_free = ps_free p @ out,
           ps_anchored = filter (\<lambda>r. \<not> expired_anchor (rt_current_height rt) req r) (ps_anchored p)\<rparr>\<rparr>, out))"
  using assms foldl_expire[of "ps_anchored (rt_pending rt)"]
  by (simp add: expire_chain_anchors_def wf_pending_def Let_def)

lemma wf_release: "wf_runtime rt \<Longrightarrow> wf_runtime (fst (release_chain_anchor_group a rt))"
  by (auto simp: release_closed runtime_defs freed_def)

lemma wf_expire: "wf_runtime rt \<Longrightarrow> wf_runtime (fst (expire_chain_anchors req rt))"
  by (auto simp: expire_closed runtime_defs freed_def)

lemma wf_drop_stale: "wf_runtime rt \<Longrightarrow> wf_runtime (fst (drop_stale_pending now ttl rt))"
  by (auto simp: drop_stale_pending_def runtime_defs)

end
