(* ===== verification/WalletPlanner.thy ===== *)
theory WalletPlanner
  imports WalletState
begin

text \<open>
  The batch planner (wallet/planner.rs). Costs are \<open>u64\<close> sums that wrap as in a release build;
  \<open>usize::MAX\<close>, the index of the baseline assignment, is \<open>None\<close>.
\<close>

section \<open>Actions and costs\<close>

datatype planned_action =
    PFresh "pending_wallet_request list"
  | PRbf lineage_id "pending_wallet_request list"
  | PChained "lineage_id option" chain_anchor "pending_wallet_request list"

text \<open>The trait \<open>PlannerCostEvaluator\<close>.\<close>

record cost_evaluator =
  ce_fresh :: "pending_wallet_request list \<Rightarrow> u64 option"
  ce_rbf :: "live_lineage \<Rightarrow> pending_wallet_request list \<Rightarrow> u64 option"
  ce_chained :: "chain_anchor \<Rightarrow> live_lineage option \<Rightarrow> pending_wallet_request list \<Rightarrow> u64 option"

record costed_action =
  ca_action :: planned_action
  ca_cost :: u64

section \<open>The planner\<close>

definition request_outputs :: "wallet_request_kind \<Rightarrow> nat" where
  "request_outputs knd = (case knd of Send _ \<Rightarrow> 1 | Spend sp \<Rightarrow> (if sp_recipient sp \<noteq> None then 1 else 0))"

definition request_output_count :: "pending_wallet_request list \<Rightarrow> nat" where
  "request_output_count rs = sum_list (map (\<lambda>p. request_outputs (wr_kind (pr_request p))) rs)"

definition requests_fit_output_cap :: "pending_wallet_request list \<Rightarrow> nat \<Rightarrow> bool" where
  "requests_fit_output_cap rs cap = (request_output_count rs \<le> cap)"

fun add_to_group ::
    "(chain_anchor \<times> pending_wallet_request list) list \<Rightarrow> chain_anchor \<Rightarrow> pending_wallet_request \<Rightarrow>
     (chain_anchor \<times> pending_wallet_request list) list" where
  "add_to_group [] a r = [(a, [r])]"
| "add_to_group ((b, rs) # gs) a r = (if b = a then (b, rs @ [r]) # gs else (b, rs) # add_to_group gs a r)"

definition group_step ::
    "(chain_anchor \<times> pending_wallet_request list) list \<Rightarrow> pending_wallet_request \<Rightarrow>
     (chain_anchor \<times> pending_wallet_request list) list" where
  "group_step gs r = (case pr_chain_anchor r of None \<Rightarrow> gs | Some a \<Rightarrow> add_to_group gs a r)"

definition group_anchored_requests ::
    "pending_wallet_request list \<Rightarrow> (chain_anchor \<times> pending_wallet_request list) list" where
  "group_anchored_requests rs = foldl group_step [] rs"

definition cheapest_choice :: "costed_action list \<Rightarrow> costed_action option" where
  "cheapest_choice choices = (case sort_key ca_cost choices of [] \<Rightarrow> None | c # _ \<Rightarrow> Some c)"

definition plan_free_only ::
    "runtime_state \<Rightarrow> wallet_config \<Rightarrow> cost_evaluator \<Rightarrow> pending_wallet_request list \<Rightarrow> costed_action option" where
  "plan_free_only rt cfg ev rs =
    (if \<not> requests_fit_output_cap rs (max_outputs_per_batch cfg) then None
     else cheapest_choice
       (if length (rt_live_lineages rt) < max_concurrent_lineages cfg
        then (case ce_fresh ev rs of None \<Rightarrow> [] | Some c \<Rightarrow> [\<lparr>ca_action = PFresh rs, ca_cost = c\<rparr>])
        else []))"

text \<open>\<open>values().filter(..).min_by_key(|lineage| lineage.lineage_id.to_string())\<close>\<close>

definition existing_lineage_for :: "runtime_state \<Rightarrow> chain_anchor \<Rightarrow> live_lineage option" where
  "existing_lineage_for rt a =
    (case sort_key ll_lineage_id (filter (\<lambda>l. ll_chain_anchor l = Some a) (map snd (rt_live_lineages rt))) of
       [] \<Rightarrow> None | l # _ \<Rightarrow> Some l)"

definition plan_chained_group ::
    "runtime_state \<Rightarrow> wallet_config \<Rightarrow> cost_evaluator \<Rightarrow> chain_anchor \<Rightarrow> pending_wallet_request list \<Rightarrow>
     costed_action option" where
  "plan_chained_group rt cfg ev a rs =
    (if \<not> requests_fit_output_cap rs (max_outputs_per_batch cfg) then None
     else let existing = existing_lineage_for rt a in
       map_option (\<lambda>c. \<lparr>ca_action = PChained (map_option ll_lineage_id existing) a rs, ca_cost = c\<rparr>)
         (ce_chained ev a existing rs))"

text \<open>The mandatory groups; \<open>None\<close> when one of them is impossible.\<close>

fun plan_groups ::
    "runtime_state \<Rightarrow> wallet_config \<Rightarrow> cost_evaluator \<Rightarrow> (chain_anchor \<times> pending_wallet_request list) list \<Rightarrow>
     (chain_anchor \<times> pending_wallet_request list \<times> costed_action) list option" where
  "plan_groups rt cfg ev [] = Some []"
| "plan_groups rt cfg ev ((a, rs) # gs) =
    (case plan_chained_group rt cfg ev a rs of
       None \<Rightarrow> None
     | Some c \<Rightarrow> map_option ((#) (a, rs, c)) (plan_groups rt cfg ev gs))"

type_synonym assignment = "nat option \<times> costed_action \<times> u64"

definition mix_step ::
    "runtime_state \<Rightarrow> wallet_config \<Rightarrow> cost_evaluator \<Rightarrow> u64 \<Rightarrow> assignment option \<Rightarrow>
     nat \<times> chain_anchor \<times> pending_wallet_request list \<times> costed_action \<Rightarrow> assignment option" where
  "mix_step rt cfg ev base best g =
    (let (index, a, anchored, choice) = g in
     case plan_chained_group rt cfg ev a (anchored @ ps_free (rt_pending rt)) of
       None \<Rightarrow> best
     | Some mixed \<Rightarrow>
         let total = base - ca_cost choice + ca_cost mixed;
             replace = (case best of Some (_, _, best_cost) \<Rightarrow> total < best_cost | None \<Rightarrow> True)
         in if replace then Some (Some index, mixed, total) else best)"

definition plan_wallet_batches ::
    "runtime_state \<Rightarrow> wallet_config \<Rightarrow> cost_evaluator \<Rightarrow> planned_action list" where
  "plan_wallet_batches rt cfg ev =
    (if pending_is_empty (rt_pending rt) then []
     else let free = ps_free (rt_pending rt);
              groups = group_anchored_requests (ps_anchored (rt_pending rt)) in
       if groups = [] then
         (case plan_free_only rt cfg ev free of None \<Rightarrow> [] | Some c \<Rightarrow> [ca_action c])
       else
         (case plan_groups rt cfg ev groups of
            None \<Rightarrow> []
          | Some choices \<Rightarrow>
              let planned = map (\<lambda>(_, _, c). ca_action c) choices;
                  base = sum_u64 (map (\<lambda>(_, _, c). ca_cost c) choices) in
              if free = [] then planned
              else
                let best = map_option (\<lambda>c. (None, c, base + ca_cost c)) (plan_free_only rt cfg ev free);
                    best = foldl (mix_step rt cfg ev base) best (enumerate 0 choices)
                in (case best of
                      None \<Rightarrow> planned
                    | Some (None, c, _) \<Rightarrow> planned @ [ca_action c]
                    | Some (Some i, c, _) \<Rightarrow> planned[i := ca_action c])))"

end
