(* ===== verification/WalletPlannerProps.thy ===== *)
theory WalletPlannerProps
  imports WalletPlanner
begin

text \<open>
  What the planner guarantees: which requests its actions carry, the constraints they respect,
  and that the free requests are placed where the total cost is least.
\<close>

section \<open>Requests of a plan\<close>

fun action_requests :: "planned_action \<Rightarrow> pending_wallet_request list" where
  "action_requests (PFresh rs) = rs"
| "action_requests (PRbf l rs) = rs"
| "action_requests (PChained ex a rs) = rs"

definition plan_requests :: "planned_action list \<Rightarrow> pending_wallet_request list" where
  "plan_requests acts = concat (map action_requests acts)"

fun action_ok :: "runtime_state \<Rightarrow> wallet_config \<Rightarrow> planned_action \<Rightarrow> bool" where
  "action_ok rt cfg (PFresh rs) =
    (requests_fit_output_cap rs (max_outputs_per_batch cfg)
    \<and> (\<forall>r \<in> set rs. pr_chain_anchor r = None)
    \<and> length (rt_live_lineages rt) < max_concurrent_lineages cfg)"
| "action_ok rt cfg (PRbf l rs) = False"
| "action_ok rt cfg (PChained ex a rs) =
    (requests_fit_output_cap rs (max_outputs_per_batch cfg)
    \<and> (\<forall>r \<in> set rs. pr_chain_anchor r = None \<or> pr_chain_anchor r = Some a)
    \<and> (\<exists>r \<in> set rs. pr_chain_anchor r = Some a)
    \<and> ex = map_option ll_lineage_id (existing_lineage_for rt a))"

section \<open>Groups\<close>

definition groups_ok :: "(chain_anchor \<times> pending_wallet_request list) list \<Rightarrow> bool" where
  "groups_ok gs = (distinct (map fst gs) \<and> (\<forall>(a, rs) \<in> set gs. rs \<noteq> [] \<and> (\<forall>r \<in> set rs. pr_chain_anchor r = Some a)))"

lemma add_to_group_fst: "fst ` set (add_to_group gs a r) = insert a (fst ` set gs)"
  by (induction gs a r rule: add_to_group.induct) auto

lemma distinct_add_to_group: "distinct (map fst gs) \<Longrightarrow> distinct (map fst (add_to_group gs a r))"
  by (induction gs a r rule: add_to_group.induct) (auto simp: add_to_group_fst)

lemma add_to_group_entry:
  "(b, rs) \<in> set (add_to_group gs a r) \<Longrightarrow>
    (b, rs) \<in> set gs \<or> b = a \<and> (rs = [r] \<or> (\<exists>qs. (a, qs) \<in> set gs \<and> rs = qs @ [r]))"
  by (induction gs a r rule: add_to_group.induct) (auto split: if_splits)

lemma groups_ok_add:
  assumes "groups_ok gs" "pr_chain_anchor r = Some a"
  shows "groups_ok (add_to_group gs a r)"
  using assms distinct_add_to_group[of gs a r] unfolding groups_ok_def
  by (auto dest!: add_to_group_entry) fastforce

lemma mset_add_to_group:
  "mset (concat (map snd (add_to_group gs a r))) = add_mset r (mset (concat (map snd gs)))"
  by (induction gs a r rule: add_to_group.induct) auto

lemma foldl_group_step:
  "groups_ok gs \<Longrightarrow> groups_ok (foldl group_step gs rs)
    \<and> mset (concat (map snd (foldl group_step gs rs))) = mset (concat (map snd gs)) + mset (filter (\<lambda>r. pr_chain_anchor r \<noteq> None) rs)"
proof (induction rs arbitrary: gs)
  case (Cons r rs)
  have "groups_ok (group_step gs r)"
    using Cons.prems by (cases "pr_chain_anchor r") (simp_all add: group_step_def groups_ok_add)
  from Cons.IH[OF this] show ?case
    by (cases "pr_chain_anchor r") (simp_all add: group_step_def mset_add_to_group)
qed simp

lemma group_anchored:
  "groups_ok (group_anchored_requests rs)"
  "mset (concat (map snd (group_anchored_requests rs))) = mset (filter (\<lambda>r. pr_chain_anchor r \<noteq> None) rs)"
  using foldl_group_step[of "[]" rs] by (simp_all add: group_anchored_requests_def groups_ok_def)

section \<open>Feasible actions\<close>

lemma group_entry:
  assumes "(a, rs) \<in> set (group_anchored_requests xs)"
  shows "rs \<noteq> []" "r \<in> set rs \<Longrightarrow> pr_chain_anchor r = Some a"
  using assms group_anchored(1)[of xs] unfolding groups_ok_def by fastforce+

lemma plan_free_only_Some:
  "plan_free_only rt cfg ev rs = Some c \<longleftrightarrow>
    requests_fit_output_cap rs (max_outputs_per_batch cfg) \<and> length (rt_live_lineages rt) < max_concurrent_lineages cfg
    \<and> (\<exists>k. ce_fresh ev rs = Some k \<and> c = \<lparr>ca_action = PFresh rs, ca_cost = k\<rparr>)"
  by (auto simp: plan_free_only_def cheapest_choice_def split: option.splits if_splits)

definition chain_action :: "runtime_state \<Rightarrow> chain_anchor \<Rightarrow> pending_wallet_request list \<Rightarrow> planned_action" where
  "chain_action rt a rs = PChained (map_option ll_lineage_id (existing_lineage_for rt a)) a rs"

lemma plan_chained_group_Some:
  "plan_chained_group rt cfg ev a rs = Some c \<longleftrightarrow>
    requests_fit_output_cap rs (max_outputs_per_batch cfg)
    \<and> (\<exists>k. ce_chained ev a (existing_lineage_for rt a) rs = Some k \<and> c = \<lparr>ca_action = chain_action rt a rs, ca_cost = k\<rparr>)"
  by (auto simp: plan_chained_group_def chain_action_def Let_def)

lemma plan_groups_Some:
  "plan_groups rt cfg ev gs = Some choices \<longleftrightarrow>
    list_all2 (\<lambda>(a, rs) (b, qs, c). b = a \<and> qs = rs \<and> plan_chained_group rt cfg ev a rs = Some c) gs choices"
proof (induction gs arbitrary: choices)
  case (Cons g gs)
  obtain a rs where g: "g = (a, rs)" by (cases g)
  show ?case
    by (auto simp: g Cons list_all2_Cons1 split: option.splits)
qed auto

lemma plan_groups_choices:
  assumes "plan_groups rt cfg ev gs = Some choices"
  shows "map (\<lambda>(a, rs, c). (a, rs)) choices = gs" "length choices = length gs"
    "\<And>a rs c. (a, rs, c) \<in> set choices \<Longrightarrow> plan_chained_group rt cfg ev a rs = Some c \<and> (a, rs) \<in> set gs"
proof -
  have L: "list_all2 (\<lambda>(a, rs) (b, qs, c). b = a \<and> qs = rs \<and> plan_chained_group rt cfg ev a rs = Some c) gs choices"
    using assms by (simp add: plan_groups_Some)
  from L show "map (\<lambda>(a, rs, c). (a, rs)) choices = gs"
    by (induction rule: list_all2_induct) auto
  from L show "length choices = length gs" by (simp add: list_all2_lengthD)
  from L show "(a, rs, c) \<in> set choices \<Longrightarrow> plan_chained_group rt cfg ev a rs = Some c \<and> (a, rs) \<in> set gs" for a rs c
    by (induction rule: list_all2_induct) auto
qed

section \<open>The cheapest assignment\<close>

definition mix_candidates ::
    "runtime_state \<Rightarrow> wallet_config \<Rightarrow> cost_evaluator \<Rightarrow> u64 \<Rightarrow>
     (nat \<times> chain_anchor \<times> pending_wallet_request list \<times> costed_action) list \<Rightarrow> assignment list" where
  "mix_candidates rt cfg ev base gs = concat (map (\<lambda>(i, a, anchored, choice).
     case plan_chained_group rt cfg ev a (anchored @ ps_free (rt_pending rt)) of
       None \<Rightarrow> []
     | Some mixed \<Rightarrow> [(Some i, mixed, base - ca_cost choice + ca_cost mixed)]) gs)"

definition least_of :: "assignment list \<Rightarrow> assignment option \<Rightarrow> bool" where
  "least_of cands best = (case best of None \<Rightarrow> cands = []
    | Some x \<Rightarrow> x \<in> set cands \<and> (\<forall>y \<in> set cands. snd (snd x) \<le> snd (snd y)))"

lemma mix_step_least:
  assumes "least_of cands best"
  shows "least_of (cands @ mix_candidates rt cfg ev base [g]) (mix_step rt cfg ev base best g)"
proof -
  obtain i a anchored choice where g: "g = (i, a, anchored, choice)" by (cases g)
  show ?thesis
    using assms
    by (cases "plan_chained_group rt cfg ev a (anchored @ ps_free (rt_pending rt))"; cases best)
      (force simp: g mix_step_def mix_candidates_def least_of_def Let_def split: prod.splits)+
qed

lemma mix_candidates_Cons:
  "mix_candidates rt cfg ev base (g # gs) = mix_candidates rt cfg ev base [g] @ mix_candidates rt cfg ev base gs"
  by (simp add: mix_candidates_def)

lemma mix_fold_least:
  assumes "least_of cands best"
  shows "least_of (cands @ mix_candidates rt cfg ev base gs) (foldl (mix_step rt cfg ev base) best gs)"
  using assms
proof (induction gs arbitrary: cands best)
  case (Cons g gs)
  from Cons.IH[OF mix_step_least[OF Cons.prems]] show ?case
    by (subst mix_candidates_Cons) simp
qed (simp add: mix_candidates_def)

lemma mix_candidates_member:
  "x \<in> set (mix_candidates rt cfg ev base (enumerate 0 choices)) \<longleftrightarrow>
    (\<exists>i a rs c mixed. i < length choices \<and> choices ! i = (a, rs, c)
      \<and> plan_chained_group rt cfg ev a (rs @ ps_free (rt_pending rt)) = Some mixed
      \<and> x = (Some i, mixed, base - ca_cost c + ca_cost mixed))"
  by (force simp: mix_candidates_def in_set_enumerate_eq split: option.splits)

text \<open>Every assignment the planner compares, the baseline first.\<close>

definition candidates ::
    "runtime_state \<Rightarrow> wallet_config \<Rightarrow> cost_evaluator \<Rightarrow>
     (chain_anchor \<times> pending_wallet_request list \<times> costed_action) list \<Rightarrow> assignment list" where
  "candidates rt cfg ev choices =
    (let base = sum_u64 (map (\<lambda>(_, _, c). ca_cost c) choices) in
     (case plan_free_only rt cfg ev (ps_free (rt_pending rt)) of None \<Rightarrow> [] | Some c \<Rightarrow> [(None, c, base + ca_cost c)])
     @ mix_candidates rt cfg ev base (enumerate 0 choices))"

definition base_actions :: "runtime_state \<Rightarrow> planned_action list" where
  "base_actions rt = map (\<lambda>(a, rs). chain_action rt a rs) (group_anchored_requests (ps_anchored (rt_pending rt)))"

fun assigned :: "planned_action list \<Rightarrow> assignment \<Rightarrow> planned_action list" where
  "assigned base (None, c, k) = base @ [ca_action c]"
| "assigned base (Some i, c, k) = base[i := ca_action c]"

lemma plan_groups_actions:
  assumes "plan_groups rt cfg ev (group_anchored_requests (ps_anchored (rt_pending rt))) = Some choices"
  shows "map (\<lambda>(_, _, c). ca_action c) choices = base_actions rt"
proof -
  note G = plan_groups_choices[OF assms]
  have "map (\<lambda>(_, _, c). ca_action c) choices = map ((\<lambda>(a, rs). chain_action rt a rs) \<circ> (\<lambda>(a, rs, c). (a, rs))) choices"
    using G(3) by (fastforce simp: plan_chained_group_Some)
  also have "\<dots> = base_actions rt" unfolding base_actions_def G(1)[symmetric] by simp
  finally show ?thesis .
qed

lemma plan_cases:
  obtains "plan_wallet_batches rt cfg ev = []"
      "group_anchored_requests (ps_anchored (rt_pending rt)) = []
        \<or> plan_groups rt cfg ev (group_anchored_requests (ps_anchored (rt_pending rt))) = None"
  | c where "group_anchored_requests (ps_anchored (rt_pending rt)) = []"
      "plan_free_only rt cfg ev (ps_free (rt_pending rt)) = Some c" "plan_wallet_batches rt cfg ev = [ca_action c]"
  | choices where "plan_groups rt cfg ev (group_anchored_requests (ps_anchored (rt_pending rt))) = Some choices"
      "choices \<noteq> []" "plan_wallet_batches rt cfg ev = base_actions rt"
      "ps_free (rt_pending rt) = [] \<or> candidates rt cfg ev choices = []"
  | choices x where "plan_groups rt cfg ev (group_anchored_requests (ps_anchored (rt_pending rt))) = Some choices"
      "choices \<noteq> []" "ps_free (rt_pending rt) \<noteq> []" "x \<in> set (candidates rt cfg ev choices)"
      "\<forall>y \<in> set (candidates rt cfg ev choices). snd (snd x) \<le> snd (snd y)"
      "plan_wallet_batches rt cfg ev = assigned (base_actions rt) x"
proof -
  let ?free = "ps_free (rt_pending rt)" and ?gs = "group_anchored_requests (ps_anchored (rt_pending rt))"
  consider "pending_is_empty (rt_pending rt)" | "\<not> pending_is_empty (rt_pending rt)" "?gs = []"
    | "\<not> pending_is_empty (rt_pending rt)" "?gs \<noteq> []" "plan_groups rt cfg ev ?gs = None"
    | choices where "\<not> pending_is_empty (rt_pending rt)" "?gs \<noteq> []" "plan_groups rt cfg ev ?gs = Some choices"
    by (cases "plan_groups rt cfg ev ?gs") auto
  then show thesis
  proof cases
    case 1
    then show thesis using that(1)
      by (simp add: plan_wallet_batches_def pending_is_empty_def group_anchored_requests_def)
  next
    case 2
    show thesis
    proof (cases "plan_free_only rt cfg ev ?free")
      case None
      with 2 that(1) show thesis by (simp add: plan_wallet_batches_def)
    next
      case (Some c)
      with 2 that(2) show thesis by (simp add: plan_wallet_batches_def)
    qed
  next
    case 3
    then show thesis using that(1) by (simp add: plan_wallet_batches_def)
  next
    case (4 choices)
    then have ne: "choices \<noteq> []" using plan_groups_choices(2)[OF 4(3)] by auto
    let ?base = "sum_u64 (map (\<lambda>(_, _, c). ca_cost c) choices)"
    let ?start = "map_option (\<lambda>c. (None, c, ?base + ca_cost c)) (plan_free_only rt cfg ev ?free)"
    let ?best = "foldl (mix_step rt cfg ev ?base) ?start (enumerate 0 choices)"
    have least: "least_of (candidates rt cfg ev choices) ?best"
      unfolding candidates_def Let_def
      by (rule mix_fold_least) (simp add: least_of_def split: option.splits)
    have plan: "plan_wallet_batches rt cfg ev =
      (if ?free = [] then base_actions rt
       else case ?best of None \<Rightarrow> base_actions rt | Some x \<Rightarrow> assigned (base_actions rt) x)"
      using 4 plan_groups_actions[OF 4(3)]
      by (simp add: plan_wallet_batches_def Let_def split: option.splits prod.splits)
    show thesis
    proof (cases "?free = []")
      case True
      with that(3)[OF 4(3) ne] plan show thesis by simp
    next
      case False
      then show thesis
        using that(3)[OF 4(3) ne] that(4)[OF 4(3) ne False] plan least
        by (cases ?best) (auto simp: least_of_def)
    qed
  qed
qed

section \<open>Alternatives and their costs\<close>

text \<open>What an action costs, when the wallet can perform it.\<close>

fun action_cost :: "runtime_state \<Rightarrow> wallet_config \<Rightarrow> cost_evaluator \<Rightarrow> planned_action \<Rightarrow> u64 option" where
  "action_cost rt cfg ev (PFresh rs) =
    (if requests_fit_output_cap rs (max_outputs_per_batch cfg) \<and> length (rt_live_lineages rt) < max_concurrent_lineages cfg
     then ce_fresh ev rs else None)"
| "action_cost rt cfg ev (PRbf l rs) = None"
| "action_cost rt cfg ev (PChained ex a rs) =
    (if requests_fit_output_cap rs (max_outputs_per_batch cfg)
     then ce_chained ev a (existing_lineage_for rt a) rs else None)"

definition feasible :: "runtime_state \<Rightarrow> wallet_config \<Rightarrow> cost_evaluator \<Rightarrow> planned_action list \<Rightarrow> bool" where
  "feasible rt cfg ev acts = list_all (\<lambda>a. action_cost rt cfg ev a \<noteq> None) acts"

definition total_cost :: "runtime_state \<Rightarrow> wallet_config \<Rightarrow> cost_evaluator \<Rightarrow> planned_action list \<Rightarrow> nat" where
  "total_cost rt cfg ev acts = sum_list (map (\<lambda>a. unat (the (action_cost rt cfg ev a))) acts)"

text \<open>The free requests on their own, or in one of the mandatory groups.\<close>

definition alternatives :: "runtime_state \<Rightarrow> planned_action list list" where
  "alternatives rt =
    (let base = base_actions rt; free = ps_free (rt_pending rt);
         groups = group_anchored_requests (ps_anchored (rt_pending rt))
     in (base @ [PFresh free])
        # map (\<lambda>i. base[i := chain_action rt (fst (groups ! i)) (snd (groups ! i) @ free)]) [0..<length groups])"

lemma action_cost_free:
  "plan_free_only rt cfg ev rs = Some c \<longleftrightarrow>
    (\<exists>k. action_cost rt cfg ev (PFresh rs) = Some k \<and> c = \<lparr>ca_action = PFresh rs, ca_cost = k\<rparr>)"
  by (auto simp: plan_free_only_Some)

lemma action_cost_chain:
  "plan_chained_group rt cfg ev a rs = Some c \<longleftrightarrow>
    (\<exists>k. action_cost rt cfg ev (chain_action rt a rs) = Some k \<and> c = \<lparr>ca_action = chain_action rt a rs, ca_cost = k\<rparr>)"
  by (auto simp: plan_chained_group_Some chain_action_def)

lemma sum_u64_update:
  "i < length xs \<Longrightarrow> sum_u64 (xs[i := y]) = sum_u64 xs - xs ! i + y"
  by (induction xs arbitrary: i) (auto simp: nth_Cons' split: nat.splits)

definition word_cost :: "runtime_state \<Rightarrow> wallet_config \<Rightarrow> cost_evaluator \<Rightarrow> planned_action list \<Rightarrow> u64" where
  "word_cost rt cfg ev acts = sum_u64 (map (\<lambda>a. the (action_cost rt cfg ev a)) acts)"

lemma word_cost_total:
  "total_cost rt cfg ev acts < 2 ^ 64 \<Longrightarrow> unat (word_cost rt cfg ev acts) = total_cost rt cfg ev acts"
  using unat_sum_u64[of "map (\<lambda>a. the (action_cost rt cfg ev a)) acts"]
  by (simp add: word_cost_def total_cost_def comp_def)

lemma choices_costs:
  assumes "plan_groups rt cfg ev (group_anchored_requests (ps_anchored (rt_pending rt))) = Some choices"
  shows "map (\<lambda>(_, _, c). ca_cost c) choices = map (\<lambda>a. the (action_cost rt cfg ev a)) (base_actions rt)"
    "feasible rt cfg ev (base_actions rt)"
proof -
  have C: "action_cost rt cfg ev (ca_action c) = Some (ca_cost c)" if "(a, rs, c) \<in> set choices" for a rs c
    using plan_groups_choices(3)[OF assms that] by (auto simp: action_cost_chain)
  show "map (\<lambda>(_, _, c). ca_cost c) choices = map (\<lambda>a. the (action_cost rt cfg ev a)) (base_actions rt)"
    unfolding plan_groups_actions[OF assms, symmetric] using C by fastforce
  show "feasible rt cfg ev (base_actions rt)"
    unfolding plan_groups_actions[OF assms, symmetric] feasible_def list_all_iff using C by fastforce
qed

lemma feasible_plan_groups:
  assumes "feasible rt cfg ev (map (\<lambda>(a, rs). chain_action rt a rs) gs)"
  shows "\<exists>choices. plan_groups rt cfg ev gs = Some choices"
  using assms
proof (induction gs)
  case (Cons g gs)
  obtain a rs where g: "g = (a, rs)" by (cases g)
  have "plan_chained_group rt cfg ev a rs \<noteq> None"
    using Cons.prems by (auto simp: g feasible_def action_cost_chain)
  with Cons show ?case by (auto simp: g feasible_def)
qed simp

text \<open>The candidates are exactly the feasible alternatives, each with its cost.\<close>

lemma candidate_alternative:
  assumes pg: "plan_groups rt cfg ev (group_anchored_requests (ps_anchored (rt_pending rt))) = Some choices"
  shows "x \<in> set (candidates rt cfg ev choices) \<Longrightarrow>
      assigned (base_actions rt) x \<in> set (alternatives rt) \<and> feasible rt cfg ev (assigned (base_actions rt) x)
      \<and> snd (snd x) = word_cost rt cfg ev (assigned (base_actions rt) x)"
    and "alt \<in> set (alternatives rt) \<Longrightarrow> feasible rt cfg ev alt \<Longrightarrow>
      \<exists>x \<in> set (candidates rt cfg ev choices). alt = assigned (base_actions rt) x"
proof -
  let ?free = "ps_free (rt_pending rt)" and ?gs = "group_anchored_requests (ps_anchored (rt_pending rt))"
  let ?base = "base_actions rt"
  note G = plan_groups_choices[OF pg] and B = choices_costs[OF pg]
  have nth: "?gs ! i = (a, rs)" if "i < length choices" "choices ! i = (a, rs, c)" for i a rs c
    using that by (simp flip: G(1))
  have len: "length ?base = length choices" using G(2) by (simp add: base_actions_def)
  have bc: "ca_cost c = the (action_cost rt cfg ev (?base ! i))" if "i < length choices" "choices ! i = (a, rs, c)" for i a rs c
  proof -
    have "map (\<lambda>(_, _, c). ca_cost c) choices ! i = ca_cost c" using that by simp
    with B(1) that len show ?thesis by simp
  qed
  show "assigned ?base x \<in> set (alternatives rt) \<and> feasible rt cfg ev (assigned ?base x)
      \<and> snd (snd x) = word_cost rt cfg ev (assigned ?base x)"
    if x: "x \<in> set (candidates rt cfg ev choices)"
  proof -
    from x consider k where "action_cost rt cfg ev (PFresh ?free) = Some k"
        "x = (None, \<lparr>ca_action = PFresh ?free, ca_cost = k\<rparr>, word_cost rt cfg ev ?base + k)"
      | i a rs c k where "i < length choices" "choices ! i = (a, rs, c)"
        "action_cost rt cfg ev (chain_action rt a (rs @ ?free)) = Some k"
        "x = (Some i, \<lparr>ca_action = chain_action rt a (rs @ ?free), ca_cost = k\<rparr>, word_cost rt cfg ev ?base - ca_cost c + k)"
      by (cases "plan_free_only rt cfg ev ?free")
        (auto simp: candidates_def Let_def mix_candidates_member action_cost_free action_cost_chain word_cost_def B(1))
    then show ?thesis
    proof cases
      case 1
      then show ?thesis using B(2) by (simp add: alternatives_def Let_def feasible_def word_cost_def)
    next
      case (2 i a rs c k)
      have "word_cost rt cfg ev (?base[i := chain_action rt a (rs @ ?free)]) = word_cost rt cfg ev ?base - ca_cost c + k"
        using 2 bc[OF 2(1,2)] len by (simp add: word_cost_def map_update sum_u64_update)
      moreover have "feasible rt cfg ev (?base[i := chain_action rt a (rs @ ?free)])"
        using B(2) 2(3) by (auto simp: feasible_def list_all_iff dest!: set_update_subset_insert[THEN subsetD])
      moreover have "?base[i := chain_action rt a (rs @ ?free)] \<in> set (alternatives rt)"
        using nth[OF 2(1,2)] 2(1) G(2) by (auto simp: alternatives_def Let_def intro!: image_eqI[of _ _ i])
      ultimately show ?thesis using 2 by simp
    qed
  qed
  show "\<exists>x \<in> set (candidates rt cfg ev choices). alt = assigned ?base x"
    if alt: "alt \<in> set (alternatives rt)" and f: "feasible rt cfg ev alt"
  proof -
    from alt consider "alt = ?base @ [PFresh ?free]"
      | i where "i < length ?gs" "alt = ?base[i := chain_action rt (fst (?gs ! i)) (snd (?gs ! i) @ ?free)]"
      by (auto simp: alternatives_def Let_def)
    then show ?thesis
    proof cases
      case 1
      with f obtain k where "action_cost rt cfg ev (PFresh ?free) = Some k" by (auto simp: feasible_def)
      then have "plan_free_only rt cfg ev ?free = Some \<lparr>ca_action = PFresh ?free, ca_cost = k\<rparr>"
        by (simp only: action_cost_free) simp
      with 1 show ?thesis
        by (auto simp: candidates_def Let_def)
    next
      case (2 i)
      obtain a rs c where c: "choices ! i = (a, rs, c)" by (cases "choices ! i")
      have i: "i < length choices" using 2 G(2) by simp
      have a: "alt = ?base[i := chain_action rt a (rs @ ?free)]" using 2 nth[OF i c] by simp
      then have "chain_action rt a (rs @ ?free) \<in> set alt" using i len by (simp add: set_update_memI)
      with f obtain k where "action_cost rt cfg ev (chain_action rt a (rs @ ?free)) = Some k"
        by (auto simp: feasible_def list_all_iff)
      then have m: "plan_chained_group rt cfg ev a (rs @ ?free) = Some \<lparr>ca_action = chain_action rt a (rs @ ?free), ca_cost = k\<rparr>"
        by (simp only: action_cost_chain) simp
      let ?b = "sum_u64 (map (\<lambda>(_, _, c). ca_cost c) choices)"
      have "(Some i, \<lparr>ca_action = chain_action rt a (rs @ ?free), ca_cost = k\<rparr>, ?b - ca_cost c + k)
          \<in> set (candidates rt cfg ev choices)"
        unfolding candidates_def Let_def set_append by (rule UnI2) (use i c m in \<open>auto simp: mix_candidates_member\<close>)
      with a show ?thesis by force
    qed
  qed
qed

lemma base_actions_ok:
  assumes "plan_groups rt cfg ev (group_anchored_requests (ps_anchored (rt_pending rt))) = Some choices"
    and "act \<in> set (base_actions rt)"
  shows "action_ok rt cfg act"
proof -
  obtain a rs where g: "(a, rs) \<in> set (group_anchored_requests (ps_anchored (rt_pending rt)))"
    and act: "act = chain_action rt a rs"
    using assms(2) by (auto simp: base_actions_def)
  have "rs \<noteq> []" "\<forall>r \<in> set rs. pr_chain_anchor r = Some a"
    using group_entry[OF g] by auto
  moreover have "requests_fit_output_cap rs (max_outputs_per_batch cfg)"
  proof -
    have "action_cost rt cfg ev act \<noteq> None"
      using choices_costs(2)[OF assms(1)] assms(2) by (simp add: feasible_def list_all_iff)
    then show ?thesis by (simp add: act chain_action_def split: if_splits)
  qed
  ultimately show ?thesis by (cases rs) (auto simp: act chain_action_def)
qed

lemma alternative_actions_ok:
  assumes wf: "wf_pending (rt_pending rt)" and f: "feasible rt cfg ev alt" and alt: "alt \<in> set (alternatives rt)"
    and base: "\<And>act. act \<in> set (base_actions rt) \<Longrightarrow> action_ok rt cfg act" and act: "act \<in> set alt"
  shows "action_ok rt cfg act"
proof -
  let ?free = "ps_free (rt_pending rt)" and ?gs = "group_anchored_requests (ps_anchored (rt_pending rt))"
  have free: "\<forall>r \<in> set ?free. pr_chain_anchor r = None" using wf by (simp add: wf_pending_def)
  have cost: "action_cost rt cfg ev act \<noteq> None" using f act by (simp add: feasible_def list_all_iff)
  from alt act consider "act \<in> set (base_actions rt)" | "act = PFresh ?free"
    | i where "i < length ?gs" "act = chain_action rt (fst (?gs ! i)) (snd (?gs ! i) @ ?free)"
    by (auto simp: alternatives_def Let_def dest!: set_update_subset_insert[THEN subsetD])
  then show ?thesis
  proof cases
    case 2
    with cost free show ?thesis by (simp split: if_splits)
  next
    case (3 i)
    obtain a rs where g: "?gs ! i = (a, rs)" by (cases "?gs ! i")
    have "(a, rs) \<in> set ?gs" using 3(1) g by (metis nth_mem)
    then have "rs \<noteq> []" "\<forall>r \<in> set rs. pr_chain_anchor r = Some a"
      using group_entry by auto
    with cost free 3(2) g show ?thesis
      by (cases rs) (auto simp: chain_action_def split: if_splits)
  qed (rule base)
qed

lemma mset_concat_update:
  "i < length xs \<Longrightarrow> mset (concat (xs[i := xs ! i @ ys])) = mset (concat xs) + mset ys"
  by (induction xs arbitrary: i) (auto simp: nth_Cons' split: nat.splits)

lemma mset_base_actions:
  "mset (plan_requests (base_actions rt)) = mset (filter (\<lambda>r. pr_chain_anchor r \<noteq> None) (ps_anchored (rt_pending rt)))"
proof -
  have "action_requests \<circ> (\<lambda>(a, rs). chain_action rt a rs) = snd" by (auto simp: chain_action_def)
  then have "plan_requests (base_actions rt) = concat (map snd (group_anchored_requests (ps_anchored (rt_pending rt))))"
    by (simp add: plan_requests_def base_actions_def)
  then show ?thesis using group_anchored(2) by metis
qed

lemma mset_alternative:
  assumes "alt \<in> set (alternatives rt)"
  shows "mset (plan_requests alt) = mset (plan_requests (base_actions rt)) + mset (ps_free (rt_pending rt))"
proof -
  let ?free = "ps_free (rt_pending rt)" and ?gs = "group_anchored_requests (ps_anchored (rt_pending rt))"
  from assms consider "alt = base_actions rt @ [PFresh ?free]"
    | i where "i < length ?gs" "alt = (base_actions rt)[i := chain_action rt (fst (?gs ! i)) (snd (?gs ! i) @ ?free)]"
    by (auto simp: alternatives_def Let_def)
  then show ?thesis
  proof cases
    case (2 i)
    let ?reqs = "map action_requests (base_actions rt)"
    have "?reqs ! i = snd (?gs ! i)" "i < length ?reqs"
      using 2(1) by (simp_all add: base_actions_def chain_action_def split_beta)
    then have "map action_requests alt = ?reqs[i := ?reqs ! i @ ?free]"
      using 2(2) by (simp add: map_update chain_action_def)
    with mset_concat_update[OF \<open>i < length ?reqs\<close>] show ?thesis by (simp add: plan_requests_def)
  qed (simp add: plan_requests_def)
qed

lemma filter_anchored: "wf_pending p \<Longrightarrow> filter (\<lambda>r. pr_chain_anchor r \<noteq> None) (ps_anchored p) = ps_anchored p"
  by (auto simp: wf_pending_def filter_id_iff)

lemma plan_conserves:
  assumes "wf_pending (rt_pending rt)"
  shows "plan_wallet_batches rt cfg ev = []
    \<or> mset (concat (map action_requests (plan_wallet_batches rt cfg ev))) = mset (all_pending rt)
    \<or> mset (concat (map action_requests (plan_wallet_batches rt cfg ev))) = mset (ps_anchored (rt_pending rt))"
proof (cases rule: plan_cases[of rt cfg ev])
  case (2 c)
  have "ps_anchored (rt_pending rt) = []"
    using group_anchored(2)[of "ps_anchored (rt_pending rt)"] 2(1) filter_anchored[OF assms] by simp
  with 2 show ?thesis by (auto simp: plan_free_only_Some)
next
  case (3 choices)
  have "mset (plan_requests (base_actions rt)) = mset (ps_anchored (rt_pending rt))"
    by (simp only: mset_base_actions filter_anchored[OF assms])
  with 3 show ?thesis by (simp add: plan_requests_def)
next
  case (4 choices x)
  have "mset (plan_requests (base_actions rt)) = mset (ps_anchored (rt_pending rt))"
    by (simp only: mset_base_actions filter_anchored[OF assms])
  moreover have "assigned (base_actions rt) x \<in> set (alternatives rt)"
    using candidate_alternative(1)[OF 4(1,4)] by blast
  ultimately have "mset (plan_requests (assigned (base_actions rt) x)) = mset (all_pending rt)"
    using mset_alternative by fastforce
  with 4(6) show ?thesis by (simp add: plan_requests_def)
qed simp

text \<open>The anchors of a plan's chained batches, and its fresh batches.\<close>

fun action_anchor :: "planned_action \<Rightarrow> chain_anchor option" where
  "action_anchor (PChained ex a rs) = Some a"
| "action_anchor act = None"

fun is_fresh :: "planned_action \<Rightarrow> bool" where
  "is_fresh (PFresh rs) = True"
| "is_fresh act = False"

lemma chain_action_simps [simp]: "action_anchor (chain_action rt a rs) = Some a" "\<not> is_fresh (chain_action rt a rs)"
  by (simp_all add: chain_action_def)

lemma base_anchors:
  "List.map_filter action_anchor (base_actions rt) = map fst (group_anchored_requests (ps_anchored (rt_pending rt)))"
  "filter is_fresh (base_actions rt) = []"
  by (auto simp: base_actions_def List.map_filter_def comp_def case_prod_unfold filter_empty_conv)

lemma update_same: "i < length xs \<Longrightarrow> f y = f (xs ! i) \<Longrightarrow> map f (xs[i := y]) = map f xs"
  by (metis map_update list_update_id nth_map length_map)

lemma alternative_anchors:
  assumes "alt \<in> set (alternatives rt)"
  shows "distinct (List.map_filter action_anchor alt)" "length (filter is_fresh alt) \<le> 1"
proof -
  let ?gs = "group_anchored_requests (ps_anchored (rt_pending rt))" and ?free = "ps_free (rt_pending rt)"
  have D: "distinct (map fst ?gs)" using group_anchored(1) by (simp add: groups_ok_def)
  have nth: "base_actions rt ! i = chain_action rt (fst (?gs ! i)) (snd (?gs ! i))" if "i < length ?gs" for i
    using that by (simp add: base_actions_def split_beta)
  have len: "length (base_actions rt) = length ?gs" by (simp add: base_actions_def)
  have as_maps: "List.map_filter action_anchor xs = map the (filter (\<lambda>a. a \<noteq> None) (map action_anchor xs))"
    "length (filter is_fresh xs) = length (filter id (map is_fresh xs))" for xs
    by (simp_all add: List.map_filter_def filter_map comp_def)
  from assms consider "alt = base_actions rt @ [PFresh ?free]"
    | i where "i < length ?gs" "alt = (base_actions rt)[i := chain_action rt (fst (?gs ! i)) (snd (?gs ! i) @ ?free)]"
    by (auto simp: alternatives_def Let_def)
  then have "List.map_filter action_anchor alt = map fst ?gs \<and> length (filter is_fresh alt) \<le> 1"
  proof cases
    case 1
    have "List.map_filter action_anchor (base_actions rt @ [PFresh ?free]) = List.map_filter action_anchor (base_actions rt)"
      by (simp add: List.map_filter_def)
    with 1 show ?thesis by (simp add: base_anchors)
  next
    case (2 i)
    then have "map action_anchor alt = map action_anchor (base_actions rt)" "map is_fresh alt = map is_fresh (base_actions rt)"
      using nth[OF 2(1)] len by (simp_all add: update_same)
    then show ?thesis using base_anchors[of rt] by (metis as_maps list.size(3) zero_le)
  qed
  with D show "distinct (List.map_filter action_anchor alt)" "length (filter is_fresh alt) \<le> 1" by simp_all
qed

lemma plan_anchors:
  "distinct (List.map_filter action_anchor (plan_wallet_batches rt cfg ev))"
  "length (filter is_fresh (plan_wallet_batches rt cfg ev)) \<le> 1"
proof -
  have "distinct (List.map_filter action_anchor (plan_wallet_batches rt cfg ev))
    \<and> length (filter is_fresh (plan_wallet_batches rt cfg ev)) \<le> 1"
  proof (cases rule: plan_cases[of rt cfg ev])
    case (2 c)
    then show ?thesis by (auto simp: plan_free_only_Some List.map_filter_def)
  next
    case (3 choices)
    have "distinct (map fst (group_anchored_requests (ps_anchored (rt_pending rt))))"
      using group_anchored(1) by (simp add: groups_ok_def)
    with 3 show ?thesis by (simp add: base_anchors)
  next
    case (4 choices x)
    have "assigned (base_actions rt) x \<in> set (alternatives rt)" using candidate_alternative(1)[OF 4(1,4)] by simp
    from alternative_anchors[OF this] 4(6) show ?thesis by simp
  qed (simp add: List.map_filter_def)
  then show "distinct (List.map_filter action_anchor (plan_wallet_batches rt cfg ev))"
    "length (filter is_fresh (plan_wallet_batches rt cfg ev)) \<le> 1" by simp_all
qed

section \<open>A runtime to plan\<close>

definition sample_anchor :: chain_anchor where
  "sample_anchor = \<lparr>confirmed_txid = 5, change_outpoint = \<lparr>op_txid = 5, op_vout = 1\<rparr>, change_value = 9000,
     change_script_pubkey = [0], confirmed_height = 100\<rparr>"

definition sample_pending :: "string \<Rightarrow> chain_anchor option \<Rightarrow> pending_wallet_request" where
  "sample_pending key a =
    \<lparr>pr_request = \<lparr>dedupe_key = key, wr_kind = Send \<lparr>sr_address = \<lparr>addr_text = ''x'', addr_script = [0]\<rparr>, sr_amount = 1000\<rparr>\<rparr>,
     pr_chain_anchor = a, pr_created_at = 0\<rparr>"

definition sample_runtime :: runtime_state where
  "sample_runtime = \<lparr>rt_live_lineages = [],
     rt_pending = \<lparr>ps_free = [sample_pending ''f'' None, sample_pending ''g'' None],
                  ps_anchored = [sample_pending ''a'' (Some sample_anchor)]\<rparr>,
     rt_missing = [], rt_current_height = 101\<rparr>"

text \<open>A batch costs 100, and 50 for each of its requests.\<close>

definition sample_costs :: cost_evaluator where
  "sample_costs = \<lparr>ce_fresh = \<lambda>rs. Some (100 + 50 * of_nat (length rs)), ce_rbf = \<lambda>l rs. None,
     ce_chained = \<lambda>a l rs. Some (100 + 50 * of_nat (length rs))\<rparr>"

lemma sample_wf: "wf_pending (rt_pending sample_runtime)"
  by (simp add: wf_pending_def sample_runtime_def sample_pending_def)

lemma sample_plan:
  "plan_wallet_batches sample_runtime default_wallet_config sample_costs =
    [PChained None sample_anchor [sample_pending ''a'' (Some sample_anchor), sample_pending ''f'' None, sample_pending ''g'' None]]"
  by code_simp

section \<open>Properties\<close>

text \<open>C5: A plan has at most one fresh batch: it holds only free requests and is planned only while the
  number of live lineages is below the limit. It has at most one chained batch for each anchor: it
  holds a request of that anchor, none of another, and is aimed at the live lineage that already
  chains from the anchor, as a replacement of its head, if there is one; otherwise it opens a lineage,
  which the limit does not hold back. Direct replacements are never planned, and every batch
  fits the output cap.\<close>

theorem planner_actions_ok:
  assumes "wf_pending (rt_pending rt)" and "act \<in> set (plan_wallet_batches rt cfg ev)"
  shows "(case act of
      PFresh rs \<Rightarrow> (\<forall>r \<in> set rs. pr_chain_anchor r = None)
        \<and> length (rt_live_lineages rt) < max_concurrent_lineages cfg
        \<and> request_output_count rs \<le> max_outputs_per_batch cfg
    | PRbf l rs \<Rightarrow> False
    | PChained ex a rs \<Rightarrow> (\<forall>r \<in> set rs. pr_chain_anchor r = None \<or> pr_chain_anchor r = Some a)
        \<and> (\<exists>r \<in> set rs. pr_chain_anchor r = Some a)
        \<and> ex = map_option ll_lineage_id (existing_lineage_for rt a)
        \<and> request_output_count rs \<le> max_outputs_per_batch cfg)
    \<and> length (filter is_fresh (plan_wallet_batches rt cfg ev)) \<le> 1
    \<and> distinct (List.map_filter action_anchor (plan_wallet_batches rt cfg ev))"
proof -
  have "action_ok rt cfg act"
  proof (cases rule: plan_cases[of rt cfg ev])
    case 1
    with assms(2) show ?thesis by simp
  next
    case (2 c)
    with assms show ?thesis by (auto simp: plan_free_only_Some wf_pending_def)
  next
    case (3 choices)
    with assms base_actions_ok show ?thesis by simp
  next
    case (4 choices x)
    note A = candidate_alternative(1)[OF 4(1,4)]
    show ?thesis
      using alternative_actions_ok[OF assms(1) _ _ base_actions_ok[OF 4(1)]] A assms(2) 4(6) by auto
  qed
  then show ?thesis using plan_anchors[of rt cfg ev] by (cases act) (auto simp: requests_fit_output_cap_def)
qed

theorem planner_actions_ok_witness:
  "\<exists>act. act \<in> set (plan_wallet_batches sample_runtime default_wallet_config sample_costs)
    \<and> length (action_requests act) = 3 \<and> request_output_count (action_requests act) \<le> 96"
proof -
  let ?act = "PChained None sample_anchor [sample_pending ''a'' (Some sample_anchor), sample_pending ''f'' None, sample_pending ''g'' None]"
  have m: "?act \<in> set (plan_wallet_batches sample_runtime default_wallet_config sample_costs)" by (simp add: sample_plan)
  from planner_actions_ok[OF sample_wf m] m show ?thesis
    by (intro exI[of _ ?act]) (simp add: default_wallet_config_def)
qed

text \<open>C6: No request is lost, duplicated or invented by planning: a plan is empty, or it carries
  exactly the pending requests, each in one action, or exactly the anchored ones.\<close>

theorem planner_conserves_requests:
  assumes "wf_pending (rt_pending rt)"
  shows "plan_wallet_batches rt cfg ev = []
    \<or> mset (concat (map action_requests (plan_wallet_batches rt cfg ev))) = mset (all_pending rt)
    \<or> mset (concat (map action_requests (plan_wallet_batches rt cfg ev))) = mset (ps_anchored (rt_pending rt))"
  by (rule plan_conserves[OF assms])

theorem planner_conserves_requests_witness:
  "mset (concat (map action_requests (plan_wallet_batches sample_runtime default_wallet_config sample_costs)))
    = mset (all_pending sample_runtime)"
  using planner_conserves_requests[OF sample_wf, of default_wallet_config sample_costs]
  by (auto simp: sample_plan) (simp add: sample_runtime_def)

text \<open>C7: With anchored and free requests pending and every mandatory group possible, the planner
  picks the cheapest way to place the free requests: among the feasible alternatives (a fresh
  batch of their own, or one of the chained groups) none has a smaller total cost. The costs are
  assumed not to overflow a \<open>u64\<close>.\<close>

theorem planner_minimises_cost:
  assumes "group_anchored_requests (ps_anchored (rt_pending rt)) \<noteq> []" and "ps_free (rt_pending rt) \<noteq> []"
    and "feasible rt cfg ev (base_actions rt)"
    and "\<exists>alt \<in> set (alternatives rt). feasible rt cfg ev alt"
    and "\<And>alt. alt \<in> set (alternatives rt) \<Longrightarrow> feasible rt cfg ev alt \<Longrightarrow> total_cost rt cfg ev alt < 2 ^ 64"
  shows "plan_wallet_batches rt cfg ev \<in> set (alternatives rt)
    \<and> feasible rt cfg ev (plan_wallet_batches rt cfg ev)
    \<and> (\<forall>alt \<in> set (alternatives rt). feasible rt cfg ev alt \<longrightarrow>
        total_cost rt cfg ev (plan_wallet_batches rt cfg ev) \<le> total_cost rt cfg ev alt)"
proof -
  let ?gs = "group_anchored_requests (ps_anchored (rt_pending rt))"
  obtain choices where pg: "plan_groups rt cfg ev ?gs = Some choices"
    using feasible_plan_groups assms(3) unfolding base_actions_def by blast
  note A = candidate_alternative[OF pg]
  have ne: "candidates rt cfg ev choices \<noteq> []" using assms(4) A(2) by force
  show ?thesis
  proof (cases rule: plan_cases[of rt cfg ev])
    case (4 ch x)
    then have x: "x \<in> set (candidates rt cfg ev choices)"
      and least: "\<forall>y \<in> set (candidates rt cfg ev choices). snd (snd x) \<le> snd (snd y)" using pg by simp_all
    have P: "plan_wallet_batches rt cfg ev \<in> set (alternatives rt)" "feasible rt cfg ev (plan_wallet_batches rt cfg ev)"
      "snd (snd x) = word_cost rt cfg ev (plan_wallet_batches rt cfg ev)"
      using A(1)[OF x] 4(6) by simp_all
    have "total_cost rt cfg ev (plan_wallet_batches rt cfg ev) \<le> total_cost rt cfg ev alt"
      if alt: "alt \<in> set (alternatives rt)" "feasible rt cfg ev alt" for alt
    proof -
      obtain y where y: "y \<in> set (candidates rt cfg ev choices)" "alt = assigned (base_actions rt) y"
        using A(2)[OF alt] by blast
      have "word_cost rt cfg ev (plan_wallet_batches rt cfg ev) \<le> word_cost rt cfg ev alt"
        using least y(1) A(1)[OF y(1)] P(3) y(2) by auto
      then show ?thesis
        using word_cost_total[OF assms(5)[OF P(1,2)]] word_cost_total[OF assms(5)[OF alt]]
        by (simp add: word_le_nat_alt)
    qed
    with P show ?thesis by blast
  next
    case 1
    with assms(1) pg show ?thesis by simp
  qed (use assms(1,2) ne pg in auto)
qed

theorem planner_minimises_cost_witness:
  "total_cost sample_runtime default_wallet_config sample_costs
      (plan_wallet_batches sample_runtime default_wallet_config sample_costs)
    \<le> total_cost sample_runtime default_wallet_config sample_costs
        [PChained None sample_anchor [sample_pending ''a'' (Some sample_anchor)],
         PFresh [sample_pending ''f'' None, sample_pending ''g'' None]]"
proof -
  let ?rt = sample_runtime and ?cfg = default_wallet_config and ?ev = sample_costs
  have g: "group_anchored_requests (ps_anchored (rt_pending ?rt)) \<noteq> [] \<and> ps_free (rt_pending ?rt) \<noteq> []
      \<and> feasible ?rt ?cfg ?ev (base_actions ?rt)"
    by code_simp
  let ?a = "sample_pending ''a'' (Some sample_anchor)" and ?f = "[sample_pending ''f'' None, sample_pending ''g'' None]"
  have alts: "alternatives ?rt = [[PChained None sample_anchor [?a], PFresh ?f], [PChained None sample_anchor (?a # ?f)]]"
    by code_simp
  have f: "feasible ?rt ?cfg ?ev alt" "total_cost ?rt ?cfg ?ev alt < 2 ^ 64" if "alt \<in> set (alternatives ?rt)" for alt
  proof -
    from that consider "alt = [PChained None sample_anchor [?a], PFresh ?f]" | "alt = [PChained None sample_anchor (?a # ?f)]"
      by (auto simp: alts)
    then have "feasible ?rt ?cfg ?ev alt \<and> total_cost ?rt ?cfg ?ev alt < 2 ^ 64"
      by cases (simp_all add: feasible_def total_cost_def sample_costs_def sample_pending_def sample_runtime_def
        requests_fit_output_cap_def request_output_count_def request_outputs_def default_wallet_config_def)
    then show "feasible ?rt ?cfg ?ev alt" "total_cost ?rt ?cfg ?ev alt < 2 ^ 64" by simp_all
  qed
  have m: "[PChained None sample_anchor [?a], PFresh ?f] \<in> set (alternatives ?rt)" by (simp add: alts)
  then have ex: "\<exists>alt \<in> set (alternatives ?rt). feasible ?rt ?cfg ?ev alt" using f(1) by blast
  have g1: "group_anchored_requests (ps_anchored (rt_pending ?rt)) \<noteq> []" and g2: "ps_free (rt_pending ?rt) \<noteq> []"
    and g3: "feasible ?rt ?cfg ?ev (base_actions ?rt)" using g by blast+
  from planner_minimises_cost[OF g1 g2 g3 ex f(2)] m f(1)[OF m] show ?thesis by blast
qed

end
