(* ===== verification/WalletPorts.thy ===== *)
theory WalletPorts
  imports WalletStore WalletState
begin

text \<open>
  The outside world as the wallet sees it: the Esplora responses (clients/electrs.rs), and the
  traits \<open>WalletStore\<close> (wallet/store.rs), \<open>WalletTxObserver\<close> and \<open>WalletBatchBroadcaster\<close>
  (wallet/runtime.rs) as records of functions. A store operation returns an error, and the store
  is as before, or a value and the new store. Within one operation of the wallet each question to
  an observer is asked at most once per transaction, so an observer is a function.
\<close>

section \<open>Esplora\<close>

datatype client_error =
    Http "nat option" \<comment> \<open>the status code, when there was a response\<close>
  | ClientRpc string
  | ClientParse string
  | ClientJson string

fun starts_with :: "string \<Rightarrow> string \<Rightarrow> bool" where
  "starts_with [] s = True"
| "starts_with (c # cs) [] = False"
| "starts_with (c # cs) (d # ds) = (c = d \<and> starts_with cs ds)"

fun contains :: "string \<Rightarrow> string \<Rightarrow> bool" where
  "contains needle [] = (needle = [])"
| "contains needle (c # cs) = (starts_with needle (c # cs) \<or> contains needle cs)"

fun is_tx_not_found :: "client_error \<Rightarrow> bool" where
  "is_tx_not_found (Http status) = (status = Some 404)"
| "is_tx_not_found (ClientRpc msg) =
    (contains ''not in mempool'' msg \<or> contains ''-5'' msg \<or> contains ''Transaction not found'' msg
     \<or> contains ''not found'' msg \<or> contains ''not in memory pool'' msg)"
| "is_tx_not_found (ClientParse _) = False"
| "is_tx_not_found (ClientJson _) = False"

record tx_status =
  ts_confirmed :: bool
  ts_block_height :: "u64 option"
  ts_block_hash :: "string option"
  ts_block_time :: "u64 option"

record tx_vout =
  vo_scriptpubkey :: string
  vo_scriptpubkey_address :: "string option"
  vo_value :: u64

record tx_vin =
  vi_txid :: string
  vi_vout :: u32
  vi_prevout :: "tx_vout option"
  vi_scriptsig :: string
  vi_witness :: "string list option"
  vi_sequence :: u32

record esplora_tx =
  et_txid :: string
  et_version :: u32
  et_locktime :: u32
  et_vin :: "tx_vin list"
  et_vout :: "tx_vout list"
  et_size :: u64
  et_weight :: u64
  et_fee :: u64
  et_status :: tx_status

record esplora_utxo =
  eu_txid :: string
  eu_vout :: u32
  eu_value :: u64
  eu_status :: tx_status

section \<open>Observer, broadcaster, store\<close>

datatype observed_tx_state = ObsConfirmed | ObsInMempool | ObsMissing

record tx_observer =
  observe_tx :: "txid \<Rightarrow> (executor_error, observed_tx_state) result"
  load_wallet_funding_inputs :: "txid \<Rightarrow> (executor_error, cover_utxo list) result"
  load_tx :: "txid \<Rightarrow> (executor_error, esplora_tx) result"

datatype broadcast_acceptance = BcAccepted | BcRejected | BcAmbiguous

datatype submission_result = SubAccepted batch_receipt | SubRejected batch_receipt | SubAmbiguous batch_receipt

type_synonym broadcaster = "string \<Rightarrow> batch_receipt \<Rightarrow> (executor_error, broadcast_acceptance) result"

type_synonym ('s, 'a) store_op = "'s \<Rightarrow> (executor_error, 'a \<times> 's) result"

record 's wallet_store =
  so_enqueue :: "string \<Rightarrow> wallet_request \<Rightarrow> ('s, enqueue_result) store_op"
  so_restore :: "string \<Rightarrow> 's \<Rightarrow> (executor_error, restored_wallet_state) result"
  so_resolve_pending :: "string \<Rightarrow> string \<Rightarrow> ('s, resolve_pending_result) store_op"
  so_persist_broadcast :: "string \<Rightarrow> broadcast_plan \<Rightarrow> ('s, batch_receipt) store_op"
  so_revert_broadcast :: "string \<Rightarrow> batch_receipt \<Rightarrow> ('s, unit) store_op"
  so_persist_confirmation :: "string \<Rightarrow> confirmation_plan \<Rightarrow> ('s, unit) store_op"
  so_list_confirmed_lineage_heads :: "string \<Rightarrow> nat \<Rightarrow> 's \<Rightarrow> (executor_error, confirmed_head list) result"
  so_has_submitted_tx :: "string \<Rightarrow> txid \<Rightarrow> 's \<Rightarrow> (executor_error, bool) result"
  so_persist_reconciliation :: "string \<Rightarrow> reconciliation_plan \<Rightarrow> ('s, unit) store_op"

text \<open>The Postgres store, at the time \<open>now\<close> its inserts read from the clock.\<close>

definition pg_store :: "timestamp \<Rightarrow> wallet_table wallet_store" where
  "pg_store now =
    \<lparr>so_enqueue = \<lambda>scope req t. enqueue now t scope req,
     so_restore = \<lambda>scope t. restore t scope,
     so_resolve_pending = \<lambda>scope key t. resolve_pending t scope key,
     so_persist_broadcast = \<lambda>scope plan t. persist_broadcast t scope plan,
     so_revert_broadcast = \<lambda>scope receipt t. revert_broadcast t scope receipt,
     so_persist_confirmation = \<lambda>scope plan t. persist_confirmation t scope plan,
     so_list_confirmed_lineage_heads = \<lambda>scope limit t. list_confirmed_lineage_heads t scope limit,
     so_has_submitted_tx = \<lambda>scope tx t. Inr (has_submitted_tx t scope tx),
     so_persist_reconciliation = \<lambda>scope plan t. persist_reconciliation t scope plan\<rparr>"

section \<open>Persist, then submit\<close>

definition persist_and_submit_broadcast ::
    "'s wallet_store \<Rightarrow> broadcaster \<Rightarrow> string \<Rightarrow> broadcast_plan \<Rightarrow> 's \<Rightarrow>
     's \<times> (executor_error, submission_result) result" where
  "persist_and_submit_broadcast st bc scope plan s =
    (case so_persist_broadcast st scope plan s of
       Inl e \<Rightarrow> (s, Inl e)
     | Inr (receipt, s1) \<Rightarrow>
         (case bc scope receipt of
            Inl e \<Rightarrow> (s1, Inl e)
          | Inr BcAccepted \<Rightarrow> (s1, Inr (SubAccepted receipt))
          | Inr BcAmbiguous \<Rightarrow> (s1, Inr (SubAmbiguous receipt))
          | Inr BcRejected \<Rightarrow>
              (case so_revert_broadcast st scope receipt s1 of
                 Inl e \<Rightarrow> (s1, Inl e)
               | Inr (_, s2) \<Rightarrow> (s2, Inr (SubRejected receipt)))))"

section \<open>Confirmed winners\<close>

record confirmation_partition =
  cf_confirmed_txid :: txid
  cf_confirmed :: "wallet_request list"
  cf_orphaned :: "wallet_request list"

definition partition_confirmed_lineage :: "live_lineage \<Rightarrow> txid \<Rightarrow> confirmation_partition" where
  "partition_confirmed_lineage l tx =
    \<lparr>cf_confirmed_txid = tx,
     cf_confirmed = map lr_request (filter (\<lambda>q. tx \<in> set (lr_txid_history q)) (ll_requests l)),
     cf_orphaned = map lr_request (filter (\<lambda>q. tx \<notin> set (lr_txid_history q)) (ll_requests l))\<rparr>"

text \<open>
  \<open>hex::decode\<close> is a parameter. The output index is cast to \<open>u32\<close>.
\<close>

fun change_output ::
    "(string \<Rightarrow> bytes option) \<Rightarrow> script \<Rightarrow> nat \<times> tx_vout \<Rightarrow> (u32 \<times> u64 \<times> script) option" where
  "change_output hex spk (index, out) =
    (case hex (vo_scriptpubkey out) of
       None \<Rightarrow> None
     | Some bs \<Rightarrow> if bs = spk then Some (of_nat index, vo_value out, bs) else None)"

definition extract_chain_anchor ::
    "(string \<Rightarrow> bytes option) \<Rightarrow> txid \<Rightarrow> u64 \<Rightarrow> esplora_tx \<Rightarrow> script \<Rightarrow> (executor_error, chain_anchor) result" where
  "extract_chain_anchor hex tx height confirmed_tx spk =
    (case List.map_filter (change_output hex spk) (enumerate 0 (et_vout confirmed_tx)) of
       [(vout, val, script)] \<Rightarrow> Inr
         \<lparr>confirmed_txid = tx, change_outpoint = \<lparr>op_txid = tx, op_vout = vout\<rparr>, change_value = val,
          change_script_pubkey = script, confirmed_height = height\<rparr>
     | [] \<Rightarrow> Inl (Chain (ValidationFailed
         (Format ''confirmed tx {confirmed_txid} has no wallet change output'' [ArgTxid tx])))
     | _ \<Rightarrow> Inl (Chain (ValidationFailed
         (Format ''confirmed tx {confirmed_txid} has multiple wallet change outputs'' [ArgTxid tx]))))"

lemma mset_map_split: "mset (map f (filter P xs)) + mset (map f (filter (\<lambda>x. \<not> P x) xs)) = mset (map f xs)"
  by (induction xs) simp_all

lemma partition_confirmed_mset:
  "mset (cf_confirmed (partition_confirmed_lineage l tx)) + mset (cf_orphaned (partition_confirmed_lineage l tx))
    = mset (wallet_requests l)"
  by (simp add: partition_confirmed_lineage_def wallet_requests_def mset_map_split flip: mset_map)

end
