(* ===== verification/WalletReconcile.thy ===== *)
theory WalletReconcile
  imports WalletPorts
begin

text \<open>
  Reconciliation of a lineage whose head disappeared (wallet/reconcile.rs).
\<close>

datatype reconciliation_survivor = SvConfirmed txid | SvInMempool txid | SvNoSurvivor

record reconciliation_partition =
  rpt_survivor :: reconciliation_survivor
  rpt_survivors :: "wallet_request list"
  rpt_requeued :: "wallet_request list"

datatype reconciled_state = RsConfirmed txid | RsInMempool txid | RsNoSurvivor

record reconciliation_result =
  rr_state :: reconciled_state
  rr_survivors :: "wallet_request list"
  rr_requeued :: "pending_wallet_request list"

definition split_by_history ::
    "live_lineage \<Rightarrow> txid \<Rightarrow> reconciliation_survivor \<Rightarrow> reconciliation_partition" where
  "split_by_history l tx sv =
    \<lparr>rpt_survivor = sv,
     rpt_survivors = map lr_request (filter (\<lambda>q. tx \<in> set (lr_txid_history q)) (ll_requests l)),
     rpt_requeued = map lr_request (filter (\<lambda>q. tx \<notin> set (lr_txid_history q)) (ll_requests l))\<rparr>"

fun partition_surviving_lineage :: "live_lineage \<Rightarrow> reconciliation_survivor \<Rightarrow> reconciliation_partition" where
  "partition_surviving_lineage l (SvConfirmed tx) = split_by_history l tx (SvConfirmed tx)"
| "partition_surviving_lineage l (SvInMempool tx) = split_by_history l tx (SvInMempool tx)"
| "partition_surviving_lineage l SvNoSurvivor =
    \<lparr>rpt_survivor = SvNoSurvivor, rpt_survivors = [], rpt_requeued = wallet_requests l\<rparr>"

text \<open>\<open>now\<close> is what \<open>Timestamp::now()\<close> returns.\<close>

definition created_at_for_request :: "timestamp \<Rightarrow> live_lineage \<Rightarrow> string \<Rightarrow> timestamp" where
  "created_at_for_request now l key =
    (case find (\<lambda>q. lr_key q = key) (ll_requests l) of Some q \<Rightarrow> lr_created_at q | None \<Rightarrow> now)"

definition requeue ::
    "timestamp \<Rightarrow> live_lineage \<Rightarrow> chain_anchor option \<Rightarrow> wallet_request \<Rightarrow> pending_wallet_request" where
  "requeue now l anchor req =
    \<lparr>pr_request = req, pr_chain_anchor = anchor,
     pr_created_at = created_at_for_request now l (dedupe_key req)\<rparr>"

text \<open>The anchor that the requests orphaned by a confirmed winner are pinned to.\<close>

definition survivor_anchor ::
    "(string \<Rightarrow> bytes option) \<Rightarrow> tx_observer \<Rightarrow> txid \<Rightarrow> u64 \<Rightarrow> u64 \<Rightarrow> script \<Rightarrow> wallet_request list \<Rightarrow>
     (executor_error, chain_anchor option) result" where
  "survivor_anchor hex ob tx height confs spk requeued =
    (if requeued = [] then Inr None
     else try_bind (load_tx ob tx) (\<lambda>confirmed_tx.
       try_bind (ok_or (ts_block_height (et_status confirmed_tx))
           (Domain (Format ''confirmed tx {candidate_txid} is missing block height'' [ArgTxid tx]))) (\<lambda>h.
         if saturating_add (saturating_sub height h) 1 < confs
         then try_bind (extract_chain_anchor hex tx h confirmed_tx spk) (\<lambda>a. Inr (Some a))
         else Inr None)))"

definition reconciliation_plan_of ::
    "live_lineage \<Rightarrow> reconciliation_kind \<Rightarrow> reconciliation_partition \<Rightarrow> chain_anchor option \<Rightarrow> reconciliation_plan" where
  "reconciliation_plan_of l knd part anchor =
    \<lparr>rp_lineage_id = ll_lineage_id l, rp_kind = knd, rp_survivors = map dedupe_key (rpt_survivors part),
     rp_requeued = map dedupe_key (rpt_requeued part), rp_chain_anchor = anchor\<rparr>"

text \<open>Persist the decision, then return it.\<close>

definition settle ::
    "'s wallet_store \<Rightarrow> string \<Rightarrow> timestamp \<Rightarrow> live_lineage \<Rightarrow> reconciliation_kind \<Rightarrow> reconciled_state \<Rightarrow>
     reconciliation_partition \<Rightarrow> chain_anchor option \<Rightarrow> 's \<Rightarrow> (executor_error, reconciliation_result \<times> 's) result" where
  "settle st scope now l knd state part anchor s =
    try_bind (so_persist_reconciliation st scope (reconciliation_plan_of l knd part anchor) s) (\<lambda>(_, s').
      Inr (\<lparr>rr_state = state, rr_survivors = rpt_survivors part,
            rr_requeued = map (requeue now l anchor) (rpt_requeued part)\<rparr>, s'))"

fun reconcile_candidates ::
    "(string \<Rightarrow> bytes option) \<Rightarrow> 's wallet_store \<Rightarrow> tx_observer \<Rightarrow> string \<Rightarrow> timestamp \<Rightarrow> live_lineage \<Rightarrow>
     u64 \<Rightarrow> u64 \<Rightarrow> script \<Rightarrow> 's \<Rightarrow> txid list \<Rightarrow> (executor_error, reconciliation_result \<times> 's) result" where
  "reconcile_candidates hex st ob scope now l height confs spk s [] =
    settle st scope now l RNoSurvivor RsNoSurvivor (partition_surviving_lineage l SvNoSurvivor) None s"
| "reconcile_candidates hex st ob scope now l height confs spk s (tx # txs) =
    try_bind (observe_tx ob tx) (\<lambda>state.
      case state of
        ObsConfirmed \<Rightarrow>
          (let part = partition_surviving_lineage l (SvConfirmed tx) in
           try_bind (survivor_anchor hex ob tx height confs spk (rpt_requeued part)) (\<lambda>anchor.
             settle st scope now l (RConfirmed tx) (RsConfirmed tx) part anchor s))
      | ObsInMempool \<Rightarrow>
          settle st scope now l (RInMempool tx) (RsInMempool tx)
            (partition_surviving_lineage l (SvInMempool tx)) None s
      | ObsMissing \<Rightarrow> reconcile_candidates hex st ob scope now l height confs spk s txs)"

definition reconcile_missing_lineage ::
    "(string \<Rightarrow> bytes option) \<Rightarrow> 's wallet_store \<Rightarrow> tx_observer \<Rightarrow> string \<Rightarrow> timestamp \<Rightarrow> live_lineage \<Rightarrow>
     u64 \<Rightarrow> u64 \<Rightarrow> script \<Rightarrow> 's \<Rightarrow> (executor_error, reconciliation_result \<times> 's) result" where
  "reconcile_missing_lineage hex st ob scope now l height confs spk s =
    reconcile_candidates hex st ob scope now l height confs spk s (rev (ll_all_txids l))"

end
