(* ===== verification/WalletContract.thy ===== *)
theory WalletContract
  imports WalletReconcile WalletRestore
begin

text \<open>
  The contract of the trait \<open>WalletStore\<close> (wallet/store.rs) as a locale: what the runner relies
  on, proved once for its clients, and the Postgres store as a provider.
\<close>

section \<open>The contract\<close>

locale wallet_store_contract =
  fixes st :: "'s wallet_store" and inv :: "'s \<Rightarrow> bool"
  assumes enqueue_keeps: "inv s \<Longrightarrow> wf_request req \<Longrightarrow> so_enqueue st scope req s = Inr (res, s') \<Longrightarrow> inv s'"
    and enqueue_again: "inv s \<Longrightarrow> so_enqueue st scope req s = Inr (res, s') \<Longrightarrow>
      \<exists>res'. so_enqueue st scope req s' = Inr (res', s') \<and> res' \<noteq> EnqueuedPending"
    and resolve_keeps: "inv s \<Longrightarrow> so_resolve_pending st scope key s = Inr (rres, s') \<Longrightarrow> inv s'"
    and broadcast_keeps: "inv s \<Longrightarrow> so_persist_broadcast st scope plan s = Inr (receipt, s') \<Longrightarrow> inv s'"
    and revert_undoes: "inv s \<Longrightarrow> so_persist_broadcast st scope plan s = Inr (receipt, s') \<Longrightarrow>
      so_revert_broadcast st scope receipt s' = Inr ((), s)"
begin

lemma submit_cases:
  assumes "inv s" "persist_and_submit_broadcast st bc scope plan s = (s', res)"
  obtains e where "so_persist_broadcast st scope plan s = Inl e" "s' = s" "res = Inl e"
  | receipt s1 e where "so_persist_broadcast st scope plan s = Inr (receipt, s1)" "bc scope receipt = Inl e"
      "s' = s1" "res = Inl e"
  | receipt s1 where "so_persist_broadcast st scope plan s = Inr (receipt, s1)" "bc scope receipt = Inr BcAccepted"
      "s' = s1" "res = Inr (SubAccepted receipt)"
  | receipt s1 where "so_persist_broadcast st scope plan s = Inr (receipt, s1)" "bc scope receipt = Inr BcAmbiguous"
      "s' = s1" "res = Inr (SubAmbiguous receipt)"
  | receipt s1 where "so_persist_broadcast st scope plan s = Inr (receipt, s1)" "bc scope receipt = Inr BcRejected"
      "s' = s" "res = Inr (SubRejected receipt)"
proof (cases "so_persist_broadcast st scope plan s")
  case (Inl e)
  show thesis by (rule that(1)[OF Inl]) (use assms(2) Inl in \<open>simp_all add: persist_and_submit_broadcast_def\<close>)
next
  case (Inr p)
  obtain receipt s1 where p: "so_persist_broadcast st scope plan s = Inr (receipt, s1)" using Inr by (cases p) auto
  note R = revert_undoes[OF assms(1) p]
  consider e where "bc scope receipt = Inl e" | "bc scope receipt = Inr BcAccepted"
    | "bc scope receipt = Inr BcAmbiguous" | "bc scope receipt = Inr BcRejected"
    by (cases "bc scope receipt"; cases "projr (bc scope receipt)") auto
  then show thesis
  proof cases
    case (1 e)
    show thesis by (rule that(2)[OF p 1]) (use assms(2) p 1 in \<open>simp_all add: persist_and_submit_broadcast_def\<close>)
  next
    case 2
    show thesis by (rule that(3)[OF p 2]) (use assms(2) p 2 in \<open>simp_all add: persist_and_submit_broadcast_def\<close>)
  next
    case 3
    show thesis by (rule that(4)[OF p 3]) (use assms(2) p 3 in \<open>simp_all add: persist_and_submit_broadcast_def\<close>)
  next
    case 4
    show thesis by (rule that(5)[OF p 4]) (use assms(2) p 4 R in \<open>simp_all add: persist_and_submit_broadcast_def\<close>)
  qed
qed

lemma submit_keeps:
  assumes "inv s" "persist_and_submit_broadcast st bc scope plan s = (s', res)"
  shows "inv s'"
  using assms by (cases rule: submit_cases) (use assms(1) broadcast_keeps in auto)

lemma submit_rejected:
  assumes "inv s" "persist_and_submit_broadcast st bc scope plan s = (s', Inr (SubRejected receipt))"
  shows "s' = s"
  using assms by (cases rule: submit_cases) auto

end

section \<open>A store that knows the history of each request\<close>

locale wallet_ledger = wallet_store_contract +
  fixes history :: "'a \<Rightarrow> string \<Rightarrow> string \<Rightarrow> txid list option"
  assumes confirmation_keeps: "inv s \<Longrightarrow> so_persist_confirmation st scope cplan s = Inr (u, s') \<Longrightarrow>
      (\<And>k. k \<in> set (cp_confirmed cplan) \<Longrightarrow> \<exists>h. history s scope k = Some h \<and> cp_confirmed_txid cplan \<in> set h) \<Longrightarrow> inv s'"
    and reconciliation_keeps: "inv s \<Longrightarrow> so_persist_reconciliation st scope rplan s = Inr (u, s') \<Longrightarrow>
      (\<And>k tx. k \<in> set (rp_survivors rplan) \<Longrightarrow> reconciliation_winner (rp_kind rplan) = Some tx \<Longrightarrow>
        \<exists>h. history s scope k = Some h \<and> tx \<in> set h) \<Longrightarrow> inv s'"
begin

text \<open>A lineage mirrors the store when the store knows each transaction of each of its requests.\<close>

definition mirrors :: "'a \<Rightarrow> string \<Rightarrow> live_lineage \<Rightarrow> bool" where
  "mirrors s scope l = (\<forall>q \<in> set (ll_requests l).
    \<exists>h. history s scope (lr_key q) = Some h \<and> set (lr_txid_history q) \<subseteq> set h)"

lemma settle_keeps:
  assumes "inv s" "mirrors s scope l" "settle st scope now l knd state part anchor s = Inr (res, s')"
    and "\<And>tx. reconciliation_winner knd = Some tx \<Longrightarrow> part = split_by_history l tx sv"
  shows "inv s'"
proof -
  let ?plan = "reconciliation_plan_of l knd part anchor"
  obtain u where p: "so_persist_reconciliation st scope ?plan s = Inr (u, s')"
    using assms(3) by (auto simp: settle_def try_simps split: prod.splits)
  have "\<exists>h. history s scope k = Some h \<and> tx \<in> set h"
    if "k \<in> set (rp_survivors ?plan)" "reconciliation_winner (rp_kind ?plan) = Some tx" for k tx
    using that assms(2,4) by (fastforce simp: reconciliation_plan_of_def split_by_history_def mirrors_def)
  with reconciliation_keeps[OF assms(1) p] show ?thesis by blast
qed

lemma reconcile_candidates_keeps:
  assumes "inv s" "mirrors s scope l"
    and "reconcile_candidates hex st ob scope now l height confs spk s txs = Inr (res, s')"
  shows "inv s'"
  using assms(3)
proof (induction txs)
  case Nil
  then show ?case by (auto intro: settle_keeps[OF assms(1,2), of _ RNoSurvivor])
next
  case (Cons tx txs)
  then obtain state where "observe_tx ob tx = Inr state" by (auto simp: try_simps)
  with Cons show ?case
    by (cases state)
      (auto simp: try_simps Let_def
        intro: settle_keeps[OF assms(1,2), of _ "RConfirmed tx" _ _ _ _ _ "SvConfirmed tx"]
          settle_keeps[OF assms(1,2), of _ "RInMempool tx" _ _ _ _ _ "SvInMempool tx"])
qed

lemma reconcile_keeps:
  assumes "inv s" "mirrors s scope l"
    and "reconcile_missing_lineage hex st ob scope now l height confs spk s = Inr (res, s')"
  shows "inv s'"
  using reconcile_candidates_keeps[OF assms(1,2)] assms(3) by (simp add: reconcile_missing_lineage_def)

end

section \<open>The Postgres store provides it\<close>

fun parsed_entry :: "'a col \<Rightarrow> 'a option" where
  "parsed_entry (Parsed x) = Some x"
| "parsed_entry (Garbled s) = None"

definition pg_history :: "wallet_table \<Rightarrow> string \<Rightarrow> string \<Rightarrow> txid list option" where
  "pg_history t scope key =
    map_option (\<lambda>r. List.map_filter parsed_entry (row_txid_history r)) (load_wallet_request_row t scope key)"

lemma pg_history_carries:
  assumes wf: "table_wf t" and h: "\<And>k. k \<in> set keys \<Longrightarrow> \<exists>h. pg_history t scope k = Some h \<and> tx \<in> set h"
  shows "winner_carries t scope keys tx"
  unfolding winner_carries_def list_all_iff
proof (intro ballI impI)
  fix r assume r: "r \<in> set t" "key_in scope keys r"
  then have "load_wallet_request_row t scope (row_dedupe_key r) = Some r"
    by (simp add: load_row_eq_Some[OF wf] key_in_def)
  with h[of "row_dedupe_key r"] r(2) have "tx \<in> set (List.map_filter parsed_entry (row_txid_history r))"
    by (auto simp: pg_history_def key_in_def)
  then obtain c where "c \<in> set (row_txid_history r)" "parsed_entry c = Some tx"
    unfolding map_filter_def by auto
  moreover from this(2) have "c = Parsed tx" by (cases c) auto
  ultimately show "Parsed tx \<in> set (row_txid_history r)" by simp
qed

lemma pg_enqueue_again:
  assumes "table_ok t" "enqueue now t scope req = Inr (res, t')"
  shows "\<exists>res'. enqueue now t' scope req = Inr (res', t') \<and> res' \<noteq> EnqueuedPending"
  using assms(2)
proof (cases rule: enqueue_Inr_cases)
  case 1
  with assms(2) show ?thesis by auto
next
  case (2 r)
  have "find (key_in scope [dedupe_key req]) (t @ [r]) = Some r"
    using 2(3,4) by (induction t) (auto simp: load_wallet_request_row_def key_in_def split: if_splits)
  then show ?thesis using 2 by (simp add: enqueue_def load_wallet_request_row_def try_from_status_def)
qed

interpretation pg: wallet_ledger "pg_store now" table_ok pg_history for now
proof (unfold_locales, goal_cases)
  case (1 s req scope res s') then show ?case by (auto simp: pg_store_def intro: table_ok_enqueue)
next
  case (2 s scope req res s') then show ?case by (simp add: pg_store_def pg_enqueue_again)
next
  case (3 s scope key rres s') then show ?case by (auto simp: pg_store_def intro: table_ok_resolve_pending)
next
  case (4 s scope plan receipt s') then show ?case by (auto simp: pg_store_def intro: table_ok_persist_broadcast)
next
  case (5 s scope plan receipt s')
  then show ?case using revert_broadcast_exact[of s "[]"] by (simp add: pg_store_def table_ok_def)
next
  case (6 s scope cplan u s')
  then have "table_wf s" by (simp add: table_ok_def)
  from pg_history_carries[OF this 6(3)] 6(1,2) show ?case
    by (auto simp: pg_store_def intro: table_ok_persist_confirmation)
next
  case (7 s scope rplan u s')
  then have "table_wf s" by (simp add: table_ok_def)
  from pg_history_carries[OF this 7(3)] 7(1,2) show ?case
    by (auto simp: pg_store_def intro: table_ok_persist_reconciliation)
qed

end
