(* ===== verification/WalletReconcileProps.thy ===== *)
theory WalletReconcileProps
  imports WalletContract
begin

text \<open>
  Submitting a broadcast and reconciling a lineage whose head disappeared, on the Postgres store.
\<close>

section \<open>The newest surviving transaction\<close>

definition newest_seen :: "tx_observer \<Rightarrow> txid list \<Rightarrow> txid \<Rightarrow> bool" where
  "newest_seen ob txids tx = (\<exists>older newer. txids = older @ tx # newer
    \<and> (\<forall>t \<in> set newer. observe_tx ob t = Inr ObsMissing))"

definition requeued_of :: "timestamp \<Rightarrow> live_lineage \<Rightarrow> (live_lineage_request \<Rightarrow> bool) \<Rightarrow> chain_anchor option \<Rightarrow> pending_wallet_request list" where
  "requeued_of now l P anchor = map (requeue now l anchor) (map lr_request (filter P (ll_requests l)))"

fun reconciled_as :: "tx_observer \<Rightarrow> timestamp \<Rightarrow> live_lineage \<Rightarrow> reconciliation_result \<Rightarrow> bool" where
  "reconciled_as ob now l res =
    (case rr_state res of
       RsConfirmed tx \<Rightarrow> newest_seen ob (ll_all_txids l) tx \<and> observe_tx ob tx = Inr ObsConfirmed
         \<and> rr_survivors res = map lr_request (filter (\<lambda>q. tx \<in> set (lr_txid_history q)) (ll_requests l))
         \<and> (\<exists>anchor. rr_requeued res = requeued_of now l (\<lambda>q. tx \<notin> set (lr_txid_history q)) anchor)
     | RsInMempool tx \<Rightarrow> newest_seen ob (ll_all_txids l) tx \<and> observe_tx ob tx = Inr ObsInMempool
         \<and> rr_survivors res = map lr_request (filter (\<lambda>q. tx \<in> set (lr_txid_history q)) (ll_requests l))
         \<and> rr_requeued res = requeued_of now l (\<lambda>q. tx \<notin> set (lr_txid_history q)) None
     | RsNoSurvivor \<Rightarrow> (\<forall>t \<in> set (ll_all_txids l). observe_tx ob t = Inr ObsMissing)
         \<and> rr_survivors res = [] \<and> rr_requeued res = requeued_of now l (\<lambda>q. True) None)"

lemma settle_Inr:
  "settle st scope now l knd state part anchor s = Inr (res, s') \<Longrightarrow>
    res = \<lparr>rr_state = state, rr_survivors = rpt_survivors part, rr_requeued = map (requeue now l anchor) (rpt_requeued part)\<rparr>"
  by (auto simp: settle_def try_simps split: prod.splits)

lemma reconcile_candidates_sound:
  assumes "reconcile_candidates hex st ob scope now l height confs spk s txs = Inr (res, s')"
    and "ll_all_txids l = rev txs @ newer" "\<forall>t \<in> set newer. observe_tx ob t = Inr ObsMissing"
  shows "reconciled_as ob now l res"
  using assms
proof (induction txs arbitrary: newer)
  case Nil
  then show ?case by (auto dest!: settle_Inr simp: wallet_requests_def requeued_of_def)
next
  case (Cons tx txs)
  have "newest_seen ob (ll_all_txids l) tx"
    unfolding newest_seen_def by (rule exI[of _ "rev txs"], rule exI[of _ newer]) (use Cons.prems in simp)
  note P = this Cons.prems
  from P(2) obtain state where state: "observe_tx ob tx = Inr state" by (auto simp: try_simps)
  show ?case
  proof (cases state)
    case ObsConfirmed
    with P state show ?thesis
      by (auto simp: try_simps Let_def split_by_history_def requeued_of_def dest!: settle_Inr)
  next
    case ObsInMempool
    with P state show ?thesis
      by (auto simp: split_by_history_def requeued_of_def dest!: settle_Inr)
  next
    case ObsMissing
    with Cons.IH[of "tx # newer"] P state show ?thesis by simp
  qed
qed

lemma reconcile_sound:
  "reconcile_missing_lineage hex st ob scope now l height confs spk s = Inr (res, s') \<Longrightarrow> reconciled_as ob now l res"
  by (rule reconcile_candidates_sound[of _ _ _ _ _ _ _ _ _ _ "rev (ll_all_txids l)" _ _ "[]"])
    (simp_all add: reconcile_missing_lineage_def)

lemma requeued_requests: "map pr_request (requeued_of now l P anchor) = map lr_request (filter P (ll_requests l))"
  by (simp add: requeued_of_def requeue_def comp_def)

section \<open>Properties\<close>

text \<open>Whatever the broadcaster answers, the table and the runner agree: a transaction was only
  ever handed to the network after its plan was persisted, an accepted or ambiguous answer and a
  broadcaster failure leave the persisted plan in place, and a rejected one leaves the table
  exactly as it was.\<close>

theorem submission_is_durable:
  assumes "table_ok t" and "persist_and_submit_broadcast (pg_store now) bc scope plan t = (t', res)"
  shows "(case res of
      Inl e \<Rightarrow> (persist_broadcast t scope plan = Inl e \<and> t' = t)
        \<or> (\<exists>receipt. persist_broadcast t scope plan = Inr (receipt, t') \<and> bc scope receipt = Inl e)
    | Inr (SubAccepted receipt) \<Rightarrow> persist_broadcast t scope plan = Inr (receipt, t') \<and> bc scope receipt = Inr BcAccepted
    | Inr (SubAmbiguous receipt) \<Rightarrow> persist_broadcast t scope plan = Inr (receipt, t') \<and> bc scope receipt = Inr BcAmbiguous
    | Inr (SubRejected receipt) \<Rightarrow> t' = t)"
  using assms by (cases rule: pg.submit_cases) (auto simp: pg_store_def)

theorem submission_is_durable_witness:
  "\<exists>receipt. persist_and_submit_broadcast (pg_store 0) (\<lambda>_ _. Inr BcRejected) ''w'' sample_rbf sample_table
      = (sample_table, Inr (SubRejected receipt))"
proof -
  let ?r = "persist_and_submit_broadcast (pg_store 0) (\<lambda>_ _. Inr BcRejected) ''w'' sample_rbf sample_table"
  obtain receipt t1 where p: "persist_broadcast sample_table ''w'' sample_rbf = Inr (receipt, t1)"
    using sample_rbf_ok by (cases "persist_broadcast sample_table ''w'' sample_rbf") auto
  obtain t' res where r: "?r = (t', res)" by (cases ?r)
  have "\<not> isl (snd ?r)" by code_simp
  with r obtain x where "res = Inr x" by (cases res) auto
  with submission_is_durable[OF sample_table_ok r] r show ?thesis
    by (cases x) auto
qed

text \<open>C8: Reconciliation of a missing head settles on the newest transaction of the lineage that
  is confirmed or in the mempool, every newer one having been reported missing; the survivors are
  the requests that were part of it, every other request goes back to pending with its creation
  time, and no request is lost or duplicated.\<close>

theorem reconcile_settles_on_newest:
  assumes "reconcile_missing_lineage hex st ob scope now l height confs spk s = Inr (res, s')"
  shows "(case rr_state res of
       RsConfirmed tx \<Rightarrow> observe_tx ob tx = Inr ObsConfirmed \<and> newest_seen ob (ll_all_txids l) tx
         \<and> rr_survivors res = map lr_request (filter (\<lambda>q. tx \<in> set (lr_txid_history q)) (ll_requests l))
     | RsInMempool tx \<Rightarrow> observe_tx ob tx = Inr ObsInMempool \<and> newest_seen ob (ll_all_txids l) tx
         \<and> rr_survivors res = map lr_request (filter (\<lambda>q. tx \<in> set (lr_txid_history q)) (ll_requests l))
     | RsNoSurvivor \<Rightarrow> (\<forall>t \<in> set (ll_all_txids l). observe_tx ob t = Inr ObsMissing) \<and> rr_survivors res = [])
    \<and> mset (rr_survivors res) + mset (map pr_request (rr_requeued res)) = mset (wallet_requests l)
    \<and> (\<forall>p \<in> set (rr_requeued res). \<exists>q \<in> set (ll_requests l).
        lr_key q = pr_key p \<and> pr_created_at p = lr_created_at q)"
proof -
  have R: "reconciled_as ob now l res" by (rule reconcile_sound[OF assms])
  obtain P anchor where Q: "rr_requeued res = requeued_of now l P anchor"
    "rr_survivors res = map lr_request (filter (\<lambda>q. \<not> P q) (ll_requests l))"
  proof (cases "rr_state res")
    case (RsConfirmed tx)
    with R that[of "\<lambda>q. tx \<notin> set (lr_txid_history q)"] show thesis by auto
  next
    case (RsInMempool tx)
    with R that[of "\<lambda>q. tx \<notin> set (lr_txid_history q)"] show thesis by auto
  next
    case RsNoSurvivor
    with R that[of "\<lambda>q. True"] show thesis by auto
  qed
  have "mset (rr_survivors res) + mset (map pr_request (rr_requeued res)) = mset (wallet_requests l)"
    unfolding Q requeued_requests wallet_requests_def using mset_map_split[of lr_request P "ll_requests l"] by (simp add: add.commute)
  moreover have "\<exists>q \<in> set (ll_requests l). lr_key q = pr_key p \<and> pr_created_at p = lr_created_at q"
    if p: "p \<in> set (rr_requeued res)" for p
  proof -
    obtain q0 where q0: "q0 \<in> set (ll_requests l)" "p = requeue now l anchor (lr_request q0)"
      using p by (auto simp: Q requeued_of_def)
    then have "find (\<lambda>q. lr_key q = lr_key q0) (ll_requests l) \<noteq> None" by (auto simp: find_None_iff)
    then obtain q where f: "find (\<lambda>q. lr_key q = lr_key q0) (ll_requests l) = Some q" by auto
    then have "q \<in> set (ll_requests l) \<and> lr_key q = lr_key q0" by (auto simp: find_Some_iff)
    moreover have "created_at_for_request now l (lr_key q0) = lr_created_at q"
      by (simp add: created_at_for_request_def f)
    ultimately show ?thesis using q0 by (intro bexI[of _ q]) (simp_all add: requeue_def)
  qed
  ultimately show ?thesis using R by (cases "rr_state res") auto
qed

definition sample_lineage :: live_lineage where
  "sample_lineage = \<lparr>ll_lineage_id = LineageId 7, ll_head_txid = 12, ll_all_txids = [11, 12],
     ll_requests = [\<lparr>lr_request = req_send ''c'' 1000, lr_txid_history = [12], lr_created_at = 3\<rparr>,
       \<lparr>lr_request = req_send ''d'' 1000, lr_txid_history = [11, 12], lr_created_at = 4\<rparr>],
     ll_cover_utxos = [], ll_chain_anchor = None\<rparr>"

definition sample_observer :: tx_observer where
  "sample_observer = \<lparr>observe_tx = \<lambda>tx. Inr (if tx = 11 then ObsInMempool else ObsMissing),
     load_wallet_funding_inputs = \<lambda>_. Inr [], load_tx = \<lambda>_. Inl (Domain (Format ''no tx'' []))\<rparr>"

abbreviation sample_reconcile :: "(executor_error, reconciliation_result \<times> wallet_table) result" where
  "sample_reconcile \<equiv> reconcile_missing_lineage (\<lambda>_. None) (pg_store 0) sample_observer ''w'' 9 sample_lineage
     100 6 [] sample_two_members"

lemma sample_reconcile_settles:
  "sample_reconcile = settle (pg_store 0) ''w'' 9 sample_lineage (RInMempool 11) (RsInMempool 11)
    (split_by_history sample_lineage 11 (SvInMempool 11)) None sample_two_members"
proof -
  have "rev (ll_all_txids sample_lineage) = [12, 11]" by (simp add: sample_lineage_def)
  then show ?thesis by (simp add: reconcile_missing_lineage_def sample_observer_def)
qed

lemma sample_reconcile_ok: "\<not> isl sample_reconcile"
  unfolding sample_reconcile_settles by code_simp

theorem reconcile_settles_on_newest_witness:
  "\<exists>res t'. sample_reconcile = Inr (res, t') \<and> rr_state res = RsInMempool 11
    \<and> rr_survivors res = [req_send ''d'' 1000]"
proof -
  obtain res t' where r: "sample_reconcile = Inr (res, t')"
    using sample_reconcile_ok by (cases sample_reconcile) auto
  have "rr_state res = RsInMempool 11" using r[unfolded sample_reconcile_settles] by (auto dest: settle_Inr)
  with r reconcile_settles_on_newest[OF r] show ?thesis by (simp add: sample_lineage_def)
qed

text \<open>Reconciling a lineage keeps the table well formed, whichever transaction survived, when the
  store knows every transaction of the lineage's requests.\<close>

theorem reconcile_keeps_table_ok:
  assumes "table_ok t"
    and "\<forall>q \<in> set (ll_requests l). \<exists>h. pg_history t scope (lr_key q) = Some h \<and> set (lr_txid_history q) \<subseteq> set h"
    and "reconcile_missing_lineage hex (pg_store now) ob scope now_req l height confs spk t = Inr (res, t')"
  shows "table_ok t'"
  using pg.reconcile_keeps[OF assms(1) _ assms(3)] assms(2) by (simp add: pg.mirrors_def)

lemma sample_two_members_ok: "table_ok sample_two_members"
proof -
  have *: "\<exists>h. [Parsed (12::txid)] = map Parsed h \<and> distinct h" by (rule exI[of _ "[12]"]) simp
  have **: "\<exists>h. [Parsed (11::txid), Parsed 12] = map Parsed h \<and> distinct h" by (rule exI[of _ "[11, 12]"]) simp
  show ?thesis
    by (simp add: table_ok_def table_wf_def row_ok_defs sample_two_members_def sample_defs row_pk_def
        wf_request_def trim_is_empty_def * **)
qed

theorem reconcile_keeps_table_ok_witness:
  "\<exists>res t'. sample_reconcile = Inr (res, t') \<and> table_ok t'"
proof -
  obtain res t' where r: "sample_reconcile = Inr (res, t')"
    using sample_reconcile_ok by (cases sample_reconcile) auto
  have "list_all (\<lambda>q. pg_history sample_two_members ''w'' (lr_key q) = Some (lr_txid_history q)) (ll_requests sample_lineage)"
    by code_simp
  then have "\<forall>q \<in> set (ll_requests sample_lineage). \<exists>h. pg_history sample_two_members ''w'' (lr_key q) = Some h
      \<and> set (lr_txid_history q) \<subseteq> set h"
    by (simp add: list_all_iff)
  from reconcile_keeps_table_ok[OF sample_two_members_ok this r] r show ?thesis by blast
qed

end
