(* ===== verification/WalletRuntime.thy ===== *)
theory WalletRuntime
  imports WalletPorts WalletPlanner
begin

text \<open>
  The runner's state machine (wallet/runtime.rs): observing the live lineages, the synchronous
  tick, and recovery after a restart.
\<close>

section \<open>Missing heads\<close>

datatype missing_head_resolution =
    ConfirmedSibling txid
  | MempoolSibling txid "cover_utxo list"
  | NoLiveSibling
  | ObserverError

definition load_funding_inputs_for_txid ::
    "tx_observer \<Rightarrow> txid \<Rightarrow> chain_anchor option \<Rightarrow> (executor_error, cover_utxo list) result" where
  "load_funding_inputs_for_txid ob tx anchor =
    try_bind (load_wallet_funding_inputs ob tx) (\<lambda>inputs.
      Inr (case anchor of
             None \<Rightarrow> inputs
           | Some a \<Rightarrow> filter (\<lambda>u. cu_outpoint u \<noteq> change_outpoint a) inputs))"

definition probe_end :: "bool \<Rightarrow> missing_head_resolution" where
  "probe_end saw_error = (if saw_error then ObserverError else NoLiveSibling)"

fun probe_siblings ::
    "tx_observer \<Rightarrow> chain_anchor option \<Rightarrow> bool \<Rightarrow> txid list \<Rightarrow> missing_head_resolution" where
  "probe_siblings ob anchor saw_error [] = probe_end saw_error"
| "probe_siblings ob anchor saw_error (tx # txs) =
    (case observe_tx ob tx of
       Inr ObsConfirmed \<Rightarrow> ConfirmedSibling tx
     | Inr ObsInMempool \<Rightarrow>
         (case load_funding_inputs_for_txid ob tx anchor of
            Inr covers \<Rightarrow> MempoolSibling tx covers
          | Inl _ \<Rightarrow> probe_end True)
     | Inr ObsMissing \<Rightarrow> probe_siblings ob anchor saw_error txs
     | Inl _ \<Rightarrow> probe_siblings ob anchor True txs)"

definition probe_missing_head_resolution :: "tx_observer \<Rightarrow> live_lineage \<Rightarrow> missing_head_resolution" where
  "probe_missing_head_resolution ob l =
    probe_siblings ob (ll_chain_anchor l) False (filter (\<lambda>tx. tx \<noteq> ll_head_txid l) (rev (ll_all_txids l)))"

section \<open>Observing live lineages\<close>

record pending_confirmation =
  pc_lineage :: live_lineage
  pc_confirmed_txid :: txid

definition remove_lineage :: "lineage_id \<Rightarrow> runtime_state \<Rightarrow> runtime_state" where
  "remove_lineage l rt = rt\<lparr>rt_live_lineages := AList.delete l (rt_live_lineages rt)\<rparr>"

definition insert_lineage :: "live_lineage \<Rightarrow> runtime_state \<Rightarrow> runtime_state" where
  "insert_lineage l rt = rt\<lparr>rt_live_lineages := AList.update (ll_lineage_id l) l (rt_live_lineages rt)\<rparr>"

definition adopt_head :: "lineage_id \<Rightarrow> txid \<Rightarrow> cover_utxo list \<Rightarrow> runtime_state \<Rightarrow> runtime_state" where
  "adopt_head k tx covers rt =
    (case map_of (rt_live_lineages rt) k of
       None \<Rightarrow> rt
     | Some l \<Rightarrow> rt\<lparr>rt_live_lineages :=
         AList.update k (l\<lparr>ll_head_txid := tx, ll_cover_utxos := covers\<rparr>) (rt_live_lineages rt)\<rparr>)"

definition observe_step ::
    "tx_observer \<Rightarrow> runtime_state \<times> pending_confirmation list \<Rightarrow> lineage_id \<Rightarrow>
     runtime_state \<times> pending_confirmation list" where
  "observe_step ob s k =
    (let (rt, out) = s in
     case map_of (rt_live_lineages rt) k of
       None \<Rightarrow> s
     | Some l \<Rightarrow>
         (let confirmed = (\<lambda>tx. (reset_missing_observations k (remove_lineage k rt),
                out @ [\<lparr>pc_lineage = l, pc_confirmed_txid = tx\<rparr>])) in
          case observe_tx ob (ll_head_txid l) of
            Inr ObsConfirmed \<Rightarrow> confirmed (ll_head_txid l)
          | Inr ObsInMempool \<Rightarrow> (reset_missing_observations k rt, out)
          | Inr ObsMissing \<Rightarrow>
              (case probe_missing_head_resolution ob l of
                 ConfirmedSibling tx \<Rightarrow> confirmed tx
               | MempoolSibling tx covers \<Rightarrow> (reset_missing_observations k (adopt_head k tx covers rt), out)
               | NoLiveSibling \<Rightarrow> (fst (record_missing_observation rt k), out)
               | ObserverError \<Rightarrow> (rt, out))
          | Inl _ \<Rightarrow> (rt, out)))"

definition observe_live_lineages ::
    "tx_observer \<Rightarrow> runtime_state \<Rightarrow> runtime_state \<times> pending_confirmation list" where
  "observe_live_lineages ob rt = foldl (observe_step ob) (rt, []) (map fst (rt_live_lineages rt))"

section \<open>The tick\<close>

record tick_outcome =
  to_executed :: "planned_action list"
  to_dropped :: "pending_wallet_request list"
  to_expired :: "pending_wallet_request list"

text \<open>\<open>execute\<close> is the \<open>PlannedActionExecutor\<close>, with its own state.\<close>

definition tick ::
    "pending_wallet_request list \<Rightarrow> u64 \<Rightarrow> timestamp \<Rightarrow> wallet_config \<Rightarrow> cost_evaluator \<Rightarrow>
     ('x \<Rightarrow> planned_action \<Rightarrow> 'x) \<Rightarrow> runtime_state \<times> 'x \<Rightarrow> (runtime_state \<times> 'x) \<times> tick_outcome" where
  "tick new_requests height now cfg ev execute s =
    (let (rt, x) = s;
         rt = foldl push_pending (rt\<lparr>rt_current_height := height\<rparr>) new_requests;
         (rt, expired) = expire_chain_anchors (chain_anchor_confirmations cfg) rt;
         (rt, dropped) = drop_stale_pending now (max_pending_ttl_secs cfg) rt;
         actions = plan_wallet_batches rt cfg ev
     in ((rt, foldl execute x actions),
         \<lparr>to_executed = actions, to_dropped = dropped, to_expired = expired\<rparr>))"

section \<open>Recovery\<close>

record recovered_runtime =
  rec_runtime :: runtime_state
  rec_confirmations :: "pending_confirmation list"

definition recover_step ::
    "tx_observer \<Rightarrow> runtime_state \<times> pending_confirmation list \<Rightarrow> live_lineage_snapshot \<Rightarrow>
     (executor_error, runtime_state \<times> pending_confirmation list) result" where
  "recover_step ob s snapshot =
    (let (rt, out) = s; l = lineage_of_snapshot snapshot;
         keep = (\<lambda>l. Inr (insert_lineage l rt, out)) in
     case observe_tx ob (ll_head_txid l) of
       Inr ObsConfirmed \<Rightarrow>
         try_bind (load_funding_inputs_for_txid ob (ll_head_txid l) (ll_chain_anchor l)) (\<lambda>covers.
           Inr (rt, out @ [\<lparr>pc_lineage = l\<lparr>ll_cover_utxos := covers\<rparr>, pc_confirmed_txid = ll_head_txid l\<rparr>]))
     | Inr ObsInMempool \<Rightarrow>
         try_bind (load_funding_inputs_for_txid ob (ll_head_txid l) (ll_chain_anchor l)) (\<lambda>covers.
           keep (l\<lparr>ll_cover_utxos := covers\<rparr>))
     | Inr ObsMissing \<Rightarrow>
         (case probe_missing_head_resolution ob l of
            ConfirmedSibling tx \<Rightarrow> Inr (rt, out @ [\<lparr>pc_lineage = l, pc_confirmed_txid = tx\<rparr>])
          | MempoolSibling tx covers \<Rightarrow> keep (l\<lparr>ll_head_txid := tx, ll_cover_utxos := covers\<rparr>)
          | _ \<Rightarrow> keep l)
     | Inl _ \<Rightarrow> keep l)"

definition recover_wallet_runtime ::
    "'s wallet_store \<Rightarrow> tx_observer \<Rightarrow> string \<Rightarrow> u64 \<Rightarrow> 's \<Rightarrow> (executor_error, recovered_runtime) result" where
  "recover_wallet_runtime st ob scope height s =
    try_bind (so_restore st scope s) (\<lambda>restored.
    try_bind (try_fold (recover_step ob)
      (\<lparr>rt_live_lineages = [], rt_pending = from_requests (rs_pending restored), rt_missing = [],
        rt_current_height = height\<rparr>, []) (rs_inflight restored)) (\<lambda>(rt, out).
      Inr \<lparr>rec_runtime = rt, rec_confirmations = out\<rparr>))"

section \<open>Invariants\<close>

lemma delete_entry: "x \<in> set (AList.delete k m) \<Longrightarrow> x \<in> set m"
  by (simp add: AList.delete_eq)

lemma wf_remove_lineage: "wf_runtime rt \<Longrightarrow> wf_runtime (remove_lineage k rt)"
  by (auto simp: remove_lineage_def wf_runtime_def dest: delete_entry)

lemma wf_reset: "wf_runtime rt \<Longrightarrow> wf_runtime (reset_missing_observations k rt)"
  by (simp add: runtime_defs)

lemma wf_record: "wf_runtime rt \<Longrightarrow> wf_runtime (fst (record_missing_observation rt k))"
  by (simp add: runtime_defs)

lemma alist_update_entry: "x \<in> set (AList.update k v m) \<Longrightarrow> x = (k, v) \<or> x \<in> set m"
  by (induction m) (auto split: if_splits)

lemma wf_update_lineage:
  "wf_runtime rt \<Longrightarrow> ll_lineage_id l = k \<Longrightarrow>
    wf_runtime (rt\<lparr>rt_live_lineages := AList.update k l (rt_live_lineages rt)\<rparr>)"
  by (auto simp: wf_runtime_def dest!: alist_update_entry)

lemma wf_insert_lineage: "wf_runtime rt \<Longrightarrow> wf_runtime (insert_lineage l rt)"
  unfolding insert_lineage_def by (rule wf_update_lineage) simp_all

lemma live_lineage_id: "wf_runtime rt \<Longrightarrow> map_of (rt_live_lineages rt) k = Some l \<Longrightarrow> ll_lineage_id l = k"
  by (auto simp: wf_runtime_def dest: map_of_SomeD)

lemma wf_adopt_head: "wf_runtime rt \<Longrightarrow> wf_runtime (adopt_head k tx covers rt)"
  by (auto simp: adopt_head_def live_lineage_id split: option.splits intro!: wf_update_lineage)

lemma wf_observe_step: "wf_runtime (fst s) \<Longrightarrow> wf_runtime (fst (observe_step ob s k))"
  by (cases s)
    (auto simp: observe_step_def Let_def split: option.splits sum.splits observed_tx_state.splits missing_head_resolution.splits
      intro!: wf_reset wf_remove_lineage wf_record wf_adopt_head)

section \<open>What a lineage is made of\<close>

text \<open>The part of a lineage that observation must not change.\<close>

definition lineage_core ::
    "live_lineage \<Rightarrow> lineage_id \<times> live_lineage_request list \<times> txid list \<times> chain_anchor option" where
  "lineage_core l = (ll_lineage_id l, ll_requests l, ll_all_txids l, ll_chain_anchor l)"

definition cores :: "runtime_state \<times> pending_confirmation list \<Rightarrow>
    (lineage_id \<times> live_lineage_request list \<times> txid list \<times> chain_anchor option) multiset" where
  "cores s = mset (map (lineage_core \<circ> snd) (rt_live_lineages (fst s))) + mset (map (lineage_core \<circ> pc_lineage) (snd s))"

lemma mset_alist_delete:
  "hm_wf m \<Longrightarrow> map_of m k = Some v \<Longrightarrow> mset m = add_mset (k, v) (mset (AList.delete k m))"
proof (induction m)
  case (Cons e m)
  show ?case
  proof (cases "fst e = k")
    case True
    have "k \<notin> fst ` set m" using Cons.prems(1) True by (auto simp: hm_wf_def)
    then have "AList.delete k m = m" by (force simp: AList.delete_eq filter_id_conv)
    with True Cons.prems(2) show ?thesis by (cases e) auto
  next
    case False
    with Cons show ?thesis by (cases e) (auto simp: hm_wf_def)
  qed
qed simp

lemma map_alist_update:
  "map_of m k = Some v \<Longrightarrow> f v' = f v \<Longrightarrow> map (f \<circ> snd) (AList.update k v' m) = map (f \<circ> snd) m"
  by (induction m) (auto split: if_splits)

lemma cores_confirm:
  assumes "hm_wf (rt_live_lineages rt)" "map_of (rt_live_lineages rt) k = Some l"
  shows "cores (reset_missing_observations k (remove_lineage k rt), out @ [\<lparr>pc_lineage = l, pc_confirmed_txid = tx\<rparr>])
    = cores (rt, out)"
  using mset_alist_delete[OF assms] by (simp add: cores_def remove_lineage_def reset_missing_observations_def)

lemma cores_adopt:
  assumes "map_of (rt_live_lineages rt) k = Some l"
  shows "cores (adopt_head k tx covers rt, out) = cores (rt, out)"
  using map_alist_update[OF assms, of lineage_core "l\<lparr>ll_head_txid := tx, ll_cover_utxos := covers\<rparr>"] assms
  by (simp add: cores_def adopt_head_def lineage_core_def comp_def flip: mset_map)

lemma cores_reset [simp]: "cores (reset_missing_observations k rt, out) = cores (rt, out)"
  by (simp add: cores_def reset_missing_observations_def)

lemma cores_record [simp]: "cores (fst (record_missing_observation rt k), out) = cores (rt, out)"
  by (simp add: cores_def record_missing_observation_def Let_def)

lemma cores_observe_step:
  assumes "wf_runtime (fst s)"
  shows "cores (observe_step ob s k) = cores s"
proof -
  obtain rt out where s: "s = (rt, out)" by (cases s)
  show ?thesis
  proof (cases "map_of (rt_live_lineages rt) k")
    case None
    then show ?thesis by (simp add: s observe_step_def)
  next
    case (Some l)
    have wf: "hm_wf (rt_live_lineages rt)" using assms by (simp add: s wf_runtime_def)
    show ?thesis
      using cores_confirm[OF wf Some] cores_adopt[OF Some]
      by (auto simp: s observe_step_def Some Let_def split: sum.splits observed_tx_state.splits missing_head_resolution.splits)
  qed
qed

lemma observe_fold:
  "wf_runtime (fst s) \<Longrightarrow> wf_runtime (fst (foldl (observe_step ob) s ks)) \<and> cores (foldl (observe_step ob) s ks) = cores s"
  by (induction ks arbitrary: s) (simp_all add: wf_observe_step cores_observe_step)

section \<open>The tick in closed form\<close>

definition pushed_state :: "pending_wallet_request list \<Rightarrow> u64 \<Rightarrow> runtime_state \<Rightarrow> runtime_state" where
  "pushed_state new_requests height rt = foldl push_pending (rt\<lparr>rt_current_height := height\<rparr>) new_requests"

definition cleaned_state :: "wallet_config \<Rightarrow> timestamp \<Rightarrow> runtime_state \<Rightarrow> runtime_state" where
  "cleaned_state cfg now rt = fst (drop_stale_pending now (max_pending_ttl_secs cfg)
    (fst (expire_chain_anchors (chain_anchor_confirmations cfg) rt)))"

lemma wf_pushed_state: "wf_runtime rt \<Longrightarrow> wf_runtime (pushed_state new_requests height rt)"
  unfolding pushed_state_def by (rule wf_push_all) (simp add: wf_runtime_def)

lemma wf_cleaned_state: "wf_runtime rt \<Longrightarrow> wf_runtime (cleaned_state cfg now rt)"
  unfolding cleaned_state_def by (intro wf_drop_stale wf_expire)

lemma tick_state:
  "fst (fst (tick new_requests height now cfg ev execute (rt, x))) = cleaned_state cfg now (pushed_state new_requests height rt)"
  by (simp add: tick_def Let_def cleaned_state_def pushed_state_def split: prod.splits)

lemma tick_actions:
  "to_executed (snd (tick new_requests height now cfg ev execute (rt, x)))
    = plan_wallet_batches (cleaned_state cfg now (pushed_state new_requests height rt)) cfg ev"
  by (simp add: tick_def Let_def cleaned_state_def pushed_state_def split: prod.splits)

text \<open>A pending request without its anchor: what anchor expiry keeps.\<close>

definition unpinned :: "pending_wallet_request \<Rightarrow> wallet_request \<times> timestamp" where
  "unpinned r = (pr_request r, pr_created_at r)"

lemma unpinned_freed [simp]: "unpinned (freed r) = unpinned r"
  by (simp add: unpinned_def freed_def)

lemma stale_freed [simp]: "stale now ttl (freed r) = stale now ttl r"
  by (simp add: stale_def freed_def)

lemma mset_expire:
  assumes "wf_pending (rt_pending rt)"
  shows "mset (map unpinned (all_pending (fst (expire_chain_anchors req rt)))) = mset (map unpinned (all_pending rt))"
proof -
  have "mset (map unpinned (filter P xs)) + mset (map unpinned (filter (\<lambda>x. \<not> P x) xs)) = mset (map unpinned xs)" for P xs
    by (rule mset_map_split)
  from this[of "expired_anchor (rt_current_height rt) req" "ps_anchored (rt_pending rt)"] show ?thesis
    by (simp add: expire_closed[OF assms] Let_def comp_def add.assoc flip: mset_map)
qed

lemma mset_drop:
  "mset (map f (all_pending (fst (drop_stale_pending now ttl rt)))) + mset (map f (snd (drop_stale_pending now ttl rt)))
    = mset (map f (all_pending rt))"
  using mset_map_split[of f "stale now ttl" "ps_free (rt_pending rt)"]
    mset_map_split[of f "stale now ttl" "ps_anchored (rt_pending rt)"]
  by (simp add: drop_stale_pending_def Let_def ac_simps flip: mset_map)

lemma tick_mset:
  assumes "wf_runtime rt"
  shows "mset (map unpinned (all_pending (fst (fst (tick new_requests height now cfg ev execute (rt, x))))))
    + mset (map unpinned (to_dropped (snd (tick new_requests height now cfg ev execute (rt, x)))))
    = mset (map unpinned (all_pending rt)) + mset (map unpinned new_requests)"
proof -
  let ?pushed = "foldl push_pending (rt\<lparr>rt_current_height := height\<rparr>) new_requests"
  let ?expired = "fst (expire_chain_anchors (chain_anchor_confirmations cfg) ?pushed)"
  have wf: "wf_pending (rt_pending ?pushed)"
    using wf_pushed_state[OF assms] by (simp add: wf_runtime_def pushed_state_def)
  have "mset (all_pending ?pushed) = mset (all_pending rt) + mset new_requests"
    by (subst mset_push_all) simp
  then have "mset (map unpinned (all_pending ?pushed)) = mset (map unpinned (all_pending rt)) + mset (map unpinned new_requests)"
    by (metis image_mset_union mset_map)
  moreover have "to_dropped (snd (tick new_requests height now cfg ev execute (rt, x)))
      = snd (drop_stale_pending now (max_pending_ttl_secs cfg) ?expired)"
    by (simp add: tick_def Let_def split: prod.splits)
  ultimately show ?thesis
    using mset_drop[of unpinned now "max_pending_ttl_secs cfg" ?expired] mset_expire[OF wf]
    by (simp only: tick_state cleaned_state_def pushed_state_def)
qed

end
