(* ===== verification/WalletRuntimeProps.thy ===== *)
theory WalletRuntimeProps
  imports WalletRuntime WalletPlannerProps WalletReconcileProps
begin

text \<open>
  Properties of the runner's state machine: nothing is lost by a tick, by observing the chain or
  by a restart.
\<close>

section \<open>Lemmas on the tick\<close>

lemma cleaned_not_stale:
  assumes "wf_runtime rt" "r \<in> set (all_pending (cleaned_state cfg now rt))"
  shows "\<not> stale now (max_pending_ttl_secs cfg) r"
  using assms(2) by (auto simp: cleaned_state_def drop_stale_pending_def Let_def)

lemma cleaned_anchored:
  assumes "wf_runtime rt" "r \<in> set (ps_anchored (rt_pending (cleaned_state cfg now rt)))" "pr_chain_anchor r = Some a"
  shows "anchor_confirmations (rt_current_height rt) a < chain_anchor_confirmations cfg"
  using assms by (auto simp: cleaned_state_def drop_stale_pending_def Let_def expire_closed wf_runtime_def
      expired_anchor_def not_le split: option.splits)

lemma tick_dropped_stale:
  "r \<in> set (to_dropped (snd (tick new_requests height now cfg ev execute (rt, x)))) \<Longrightarrow> stale now (max_pending_ttl_secs cfg) r"
  by (auto simp: tick_def Let_def drop_stale_pending_def split: prod.splits)

lemma plan_requests_pending:
  assumes "wf_pending (rt_pending rt)" "act \<in> set (plan_wallet_batches rt cfg ev)" "r \<in> set (action_requests act)"
  shows "r \<in> set (all_pending rt)"
proof -
  let ?plan = "plan_wallet_batches rt cfg ev"
  have "r \<in># mset (concat (map action_requests ?plan))" using assms(2,3) by auto
  moreover have "mset (concat (map action_requests ?plan)) = mset (all_pending rt)
      \<or> mset (concat (map action_requests ?plan)) = mset (ps_anchored (rt_pending rt))"
    using plan_conserves[OF assms(1), of cfg ev] assms(2) by auto
  ultimately have "r \<in># mset (all_pending rt) \<or> r \<in># mset (ps_anchored (rt_pending rt))" by metis
  then show ?thesis by auto
qed

section \<open>Lemmas on recovery\<close>

lemma recover_step_ok:
  assumes "recover_step ob s snap = Inr s'" "wf_runtime (fst s)" "ls_lineage_id snap \<notin> fst ` set (rt_live_lineages (fst s))"
  shows "wf_runtime (fst s') \<and> cores s' = cores s + {#lineage_core (lineage_of_snapshot snap)#}
    \<and> rt_pending (fst s') = rt_pending (fst s)
    \<and> fst ` set (rt_live_lineages (fst s')) \<subseteq> insert (ls_lineage_id snap) (fst ` set (rt_live_lineages (fst s)))"
proof -
  obtain rt out where s: "s = (rt, out)" by (cases s)
  let ?l = "lineage_of_snapshot snap"
  have id: "ll_lineage_id ?l = ls_lineage_id snap" by (simp add: lineage_of_snapshot_def)
  have live: "wf_runtime (insert_lineage l rt) \<and> cores (insert_lineage l rt, out) = cores s + {#lineage_core ?l#}
      \<and> rt_pending (insert_lineage l rt) = rt_pending rt
      \<and> fst ` set (rt_live_lineages (insert_lineage l rt)) \<subseteq> insert (ls_lineage_id snap) (fst ` set (rt_live_lineages rt))"
    if "lineage_core l = lineage_core ?l" for l
  proof -
    have k: "ll_lineage_id l = ls_lineage_id snap" using that id by (simp add: lineage_core_def)
    have "AList.update (ll_lineage_id l) l (rt_live_lineages rt) = rt_live_lineages rt @ [(ll_lineage_id l, l)]"
      using assms(3) by (intro update_fresh) (simp add: k s)
    then show ?thesis
      using wf_insert_lineage[of rt l] assms(2) that k by (simp add: cores_def insert_lineage_def s)
  qed
  have settled: "wf_runtime rt \<and> cores (rt, out @ [\<lparr>pc_lineage = l, pc_confirmed_txid = tx\<rparr>]) = cores s + {#lineage_core ?l#}"
    if "lineage_core l = lineage_core ?l" for l tx
    using assms(2) that by (simp add: cores_def s)
  note step = assms(1)[unfolded s recover_step_def Let_def prod.case]
  show ?thesis
  proof (cases "observe_tx ob (ll_head_txid ?l)")
    case (Inl e)
    with step have "s' = (insert_lineage ?l rt, out)" by simp
    with live[of ?l] show ?thesis by (simp add: s)
  next
    case (Inr state)
    show ?thesis
    proof (cases state)
      case ObsConfirmed
      with step Inr obtain covers where
        "s' = (rt, out @ [\<lparr>pc_lineage = ?l\<lparr>ll_cover_utxos := covers\<rparr>, pc_confirmed_txid = ll_head_txid ?l\<rparr>])"
        by (auto simp: try_simps)
      with settled[of "?l\<lparr>ll_cover_utxos := covers\<rparr>"] show ?thesis by (simp add: s lineage_core_def subset_insertI)
    next
      case ObsInMempool
      with step Inr obtain covers where "s' = (insert_lineage (?l\<lparr>ll_cover_utxos := covers\<rparr>) rt, out)"
        by (auto simp: try_simps)
      with live[of "?l\<lparr>ll_cover_utxos := covers\<rparr>"] show ?thesis by (simp add: s lineage_core_def)
    next
      case ObsMissing
      show ?thesis
      proof (cases "probe_missing_head_resolution ob ?l")
        case (MempoolSibling tx covers)
        with step Inr ObsMissing have "s' = (insert_lineage (?l\<lparr>ll_head_txid := tx, ll_cover_utxos := covers\<rparr>) rt, out)" by simp
        with live[of "?l\<lparr>ll_head_txid := tx, ll_cover_utxos := covers\<rparr>"] show ?thesis by (simp add: s lineage_core_def)
      next
        case (ConfirmedSibling tx)
        with step Inr ObsMissing have "s' = (rt, out @ [\<lparr>pc_lineage = ?l, pc_confirmed_txid = tx\<rparr>])" by simp
        with settled[of ?l] show ?thesis by (simp add: s subset_insertI)
      next
        case NoLiveSibling
        with step Inr ObsMissing have "s' = (insert_lineage ?l rt, out)" by simp
        with live[of ?l] show ?thesis by (simp add: s)
      next
        case ObserverError
        with step Inr ObsMissing have "s' = (insert_lineage ?l rt, out)" by simp
        with live[of ?l] show ?thesis by (simp add: s)
      qed
    qed
  qed
qed

lemma recover_fold_ok:
  assumes "try_fold (recover_step ob) s snaps = Inr s'" "wf_runtime (fst s)"
    and "distinct (map ls_lineage_id snaps)" "ls_lineage_id ` set snaps \<inter> fst ` set (rt_live_lineages (fst s)) = {}"
  shows "wf_runtime (fst s') \<and> cores s' = cores s + mset (map (lineage_core \<circ> lineage_of_snapshot) snaps)
    \<and> rt_pending (fst s') = rt_pending (fst s)"
  using assms
proof (induction snaps arbitrary: s)
  case (Cons snap snaps)
  then obtain s1 where s1: "recover_step ob s snap = Inr s1" "try_fold (recover_step ob) s1 snaps = Inr s'"
    by (auto simp: try_simps)
  have "ls_lineage_id snap \<notin> fst ` set (rt_live_lineages (fst s))" using Cons.prems(4) by auto
  note S = recover_step_ok[OF s1(1) Cons.prems(2) this]
  have "ls_lineage_id ` set snaps \<inter> insert (ls_lineage_id snap) (fst ` set (rt_live_lineages (fst s))) = {}"
    using Cons.prems(3,4) by auto
  with S have "ls_lineage_id ` set snaps \<inter> fst ` set (rt_live_lineages (fst s1)) = {}" by blast
  with Cons.IH[OF s1(2)] S Cons.prems(3) show ?case by simp
qed simp

section \<open>Properties\<close>

text \<open>C9: A tick loses and invents no request: what was pending and what is new is, with its
  creation time, afterwards pending or dropped. It drops exactly stale requests and keeps none, it
  keeps a request pinned only while its anchor has fewer confirmations than required, it plans only
  requests that are pending, and it keeps the state well formed.\<close>

theorem tick_conserves_requests:
  assumes "wf_runtime rt"
    and "tick new_requests height now cfg ev execute (rt, x) = ((rt', x'), out)"
  shows "mset (map (\<lambda>r. (pr_request r, pr_created_at r)) (all_pending rt'))
      + mset (map (\<lambda>r. (pr_request r, pr_created_at r)) (to_dropped out))
      = mset (map (\<lambda>r. (pr_request r, pr_created_at r)) (all_pending rt))
        + mset (map (\<lambda>r. (pr_request r, pr_created_at r)) new_requests)
    \<and> (\<forall>r \<in> set (to_dropped out). stale now (max_pending_ttl_secs cfg) r)
    \<and> (\<forall>r \<in> set (all_pending rt'). \<not> stale now (max_pending_ttl_secs cfg) r)
    \<and> (\<forall>r \<in> set (ps_anchored (rt_pending rt')). \<exists>a. pr_chain_anchor r = Some a
        \<and> anchor_confirmations height a < chain_anchor_confirmations cfg)
    \<and> (\<forall>act \<in> set (to_executed out). set (action_requests act) \<subseteq> set (all_pending rt'))
    \<and> wf_runtime rt' \<and> x' = foldl execute x (to_executed out)"
proof -
  let ?t = "tick new_requests height now cfg ev execute (rt, x)"
  let ?p = "pushed_state new_requests height rt"
  have rt': "rt' = cleaned_state cfg now ?p" and out: "out = snd ?t" using tick_state[of new_requests height now cfg ev execute rt x] assms(2) by simp_all
  have wfp: "wf_runtime ?p" by (rule wf_pushed_state[OF assms(1)])
  have wf: "wf_runtime rt'" unfolding rt' by (rule wf_cleaned_state[OF wfp])
  have h: "rt_current_height ?p = height" by (simp add: pushed_state_def)
  have "(\<lambda>r. (pr_request r, pr_created_at r)) = unpinned" by (simp add: unpinned_def fun_eq_iff)
  then have "mset (map (\<lambda>r. (pr_request r, pr_created_at r)) (all_pending rt'))
      + mset (map (\<lambda>r. (pr_request r, pr_created_at r)) (to_dropped out))
      = mset (map (\<lambda>r. (pr_request r, pr_created_at r)) (all_pending rt))
        + mset (map (\<lambda>r. (pr_request r, pr_created_at r)) new_requests)"
    using tick_mset[OF assms(1), of new_requests height now cfg ev execute x] assms(2) by simp
  moreover have "\<forall>r \<in> set (to_dropped out). stale now (max_pending_ttl_secs cfg) r"
    using tick_dropped_stale[of _ new_requests height now cfg ev execute rt x] by (simp add: out)
  moreover have "\<forall>r \<in> set (all_pending rt'). \<not> stale now (max_pending_ttl_secs cfg) r"
    using cleaned_not_stale[OF wfp] rt' by blast
  moreover have "\<forall>r \<in> set (ps_anchored (rt_pending rt')). \<exists>a. pr_chain_anchor r = Some a
        \<and> anchor_confirmations height a < chain_anchor_confirmations cfg"
  proof
    fix r assume r: "r \<in> set (ps_anchored (rt_pending rt'))"
    then obtain a where "pr_chain_anchor r = Some a" using wf by (auto simp: wf_runtime_def wf_pending_def)
    with cleaned_anchored[OF wfp r[unfolded rt']] h show "\<exists>a. pr_chain_anchor r = Some a
        \<and> anchor_confirmations height a < chain_anchor_confirmations cfg" by simp
  qed
  moreover have "\<forall>act \<in> set (to_executed out). set (action_requests act) \<subseteq> set (all_pending rt')"
    using plan_requests_pending[of rt'] wf tick_actions[of new_requests height now cfg ev execute rt x]
    unfolding wf_runtime_def out rt' by fastforce
  moreover have "x' = foldl execute x (to_executed out)"
    using assms(2) by (auto simp: tick_def Let_def split: prod.splits)
  ultimately show ?thesis using wf by blast
qed

theorem tick_conserves_requests_witness:
  "\<exists>rt' x' out. tick [sample_pending ''n'' None] 110 (5 * 1000000000) default_wallet_config sample_costs
      (\<lambda>n _. n + 1) (sample_runtime, 0 :: nat) = ((rt', x'), out)
    \<and> wf_runtime rt' \<and> ps_anchored (rt_pending rt') = []"
proof -
  let ?t = "tick [sample_pending ''n'' None] 110 (5 * 1000000000) default_wallet_config sample_costs
      (\<lambda>n _. n + 1) (sample_runtime, 0 :: nat)"
  have wf: "wf_runtime sample_runtime" using sample_wf by (simp add: wf_runtime_def) (simp add: sample_runtime_def)
  obtain rt' x' out where t: "?t = ((rt', x'), out)" by (metis surj_pair)
  note T = tick_conserves_requests[OF wf t]
  have "anchor_confirmations 110 sample_anchor = 11" 
    by (simp add: anchor_confirmations_def saturating_add_def saturating_sub_def sample_anchor_def)
  moreover have "rt' = cleaned_state default_wallet_config (5 * 1000000000) (pushed_state [sample_pending ''n'' None] 110 sample_runtime)"
    using t tick_state[of "[sample_pending ''n'' None]" 110 "5 * 1000000000" default_wallet_config sample_costs "\<lambda>n _. n + 1" sample_runtime "0 :: nat"]
    by simp
  ultimately have "ps_anchored (rt_pending rt') = []"
    by (simp add: cleaned_state_def pushed_state_def push_pending_def Let_def sample_pending_def expire_chain_anchors_def
        drop_stale_pending_def sample_runtime_def expire_step_def default_wallet_config_def)
  with t T show ?thesis by blast
qed

text \<open>Observing the chain loses no lineage: each live lineage is afterwards still live or handed
  over for confirmation, exactly once, with its requests, transactions and anchor unchanged; only
  its head may move.\<close>

theorem observation_conserves_lineages:
  assumes "wf_runtime rt" and "observe_live_lineages ob rt = (rt', confirmed)"
  shows "mset (map (lineage_core \<circ> snd) (rt_live_lineages rt')) + mset (map (lineage_core \<circ> pc_lineage) confirmed)
      = mset (map (lineage_core \<circ> snd) (rt_live_lineages rt))
    \<and> wf_runtime rt'"
  using observe_fold[of "(rt, [])" ob "map fst (rt_live_lineages rt)"] assms
  by (simp add: observe_live_lineages_def cores_def)

definition sample_live :: runtime_state where
  "sample_live = sample_runtime\<lparr>rt_live_lineages := [(LineageId 7, sample_lineage)]\<rparr>"

lemma sample_live_wf: "wf_runtime sample_live"
  using sample_wf by (simp add: wf_runtime_def sample_live_def) (simp add: sample_runtime_def sample_lineage_def hm_wf_def)

theorem observation_conserves_lineages_witness:
  "\<exists>rt' out. observe_live_lineages sample_observer sample_live = (rt', out)
    \<and> mset (map (lineage_core \<circ> snd) (rt_live_lineages rt')) + mset (map (lineage_core \<circ> pc_lineage) out)
      = {#lineage_core sample_lineage#}"
proof -
  obtain rt' out where o: "observe_live_lineages sample_observer sample_live = (rt', out)"
    by (cases "observe_live_lineages sample_observer sample_live")
  from observation_conserves_lineages[OF sample_live_wf o] o show ?thesis
    by (simp add: sample_live_def)
qed

text \<open>C10: A restart loses nothing: if recovery succeeds on the Postgres store, the pending requests
  are those \<open>restore\<close> returned, split by anchor, and every restored lineage is either live or
  handed over for confirmation, exactly once, with its requests, transactions and anchor.\<close>

theorem recovery_loses_nothing:
  assumes "restore t scope = Inr restored"
    and "recover_wallet_runtime (pg_store now) ob scope height t = Inr rec"
  shows "mset (map (lineage_core \<circ> snd) (rt_live_lineages (rec_runtime rec)))
      + mset (map (lineage_core \<circ> pc_lineage) (rec_confirmations rec))
      = mset (map (lineage_core \<circ> lineage_of_snapshot) (rs_inflight restored))
    \<and> mset (all_pending (rec_runtime rec)) = mset (rs_pending restored)
    \<and> wf_runtime (rec_runtime rec)"
proof -
  let ?rt = "\<lparr>rt_live_lineages = [], rt_pending = from_requests (rs_pending restored), rt_missing = [], rt_current_height = height\<rparr>"
  obtain rt out where f: "try_fold (recover_step ob) (?rt, []) (rs_inflight restored) = Inr (rt, out)"
    and rec: "rec = \<lparr>rec_runtime = rt, rec_confirmations = out\<rparr>"
    using assms by (auto simp: recover_wallet_runtime_def pg_store_def try_simps split: prod.splits)
  have wf: "wf_runtime (fst (?rt, [] :: pending_confirmation list))"
    by (simp add: wf_runtime_def wf_from_requests)
  have "sorted_wrt (<) (map ls_lineage_id (rs_inflight restored))" by (rule restore_Inr(3)[OF assms(1)])
  then have "distinct (map ls_lineage_id (rs_inflight restored))"
    by (simp add: strict_sorted_iff)
  from recover_fold_ok[OF f wf this] show ?thesis
    using mset_from_requests[of "rs_pending restored"] by (simp add: rec cores_def)
qed

theorem recovery_loses_nothing_witness:
  "\<exists>rec. recover_wallet_runtime (pg_store 0) sample_observer ''w'' 100 sample_two_members = Inr rec
    \<and> length (rt_live_lineages (rec_runtime rec)) + length (rec_confirmations rec) = 1"
proof -
  let ?r = "restore sample_two_members ''w''"
  have "\<not> isl ?r \<and> length (rs_inflight (projr ?r)) = 1" by code_simp
  then obtain st where st: "?r = Inr st" "length (rs_inflight st) = 1" by (cases ?r) auto
  have "\<not> isl (recover_wallet_runtime (pg_store 0) sample_observer ''w'' 100 sample_two_members)" by code_simp
  then obtain rec where r: "recover_wallet_runtime (pg_store 0) sample_observer ''w'' 100 sample_two_members = Inr rec"
    by (cases "recover_wallet_runtime (pg_store 0) sample_observer ''w'' 100 sample_two_members") auto
  from recovery_loses_nothing[OF st(1) r] st(2) have
    "size (mset (map (lineage_core \<circ> snd) (rt_live_lineages (rec_runtime rec)))
      + mset (map (lineage_core \<circ> pc_lineage) (rec_confirmations rec))) = 1" by simp
  with r show ?thesis by simp
qed

end
