(* ===== verification/TxTypes.thy ===== *)
theory TxTypes
  imports WalletState
begin

text \<open>
  The values of the transaction builder (btc-executor .. tx_builder): errors (deps.rs), adaptor
  parameters and RBF context (primitives.rs), validation (validation.rs), build options and
  receipts (builder.rs). A transaction of the \<open>bitcoin\<close> crate is the record of its fields. Fee
  rates are exact rationals where the code has \<open>f64\<close>.
\<close>

section \<open>Transactions\<close>

record tx_in =
  in_previous_output :: outpoint
  in_script_sig :: script
  in_sequence :: u32
  in_witness :: "bytes list"

record tx_out =
  out_value :: u64
  out_script_pubkey :: script

record transaction =
  tx_version :: u32
  tx_lock_time :: u32
  tx_input :: "tx_in list"
  tx_output :: "tx_out list"

section \<open>Errors, parameters, options\<close>

datatype tx_builder_error =
    TbValidation message
  | TbInsufficientFunds u64 u64 \<comment> \<open>needed, available\<close>
  | TbMaxIterationsExceeded
  | TbConsensus message
  | TbSighash message
  | TbClient message

record adaptor_params =
  ap_sacps :: "spend_request list"
  ap_spends :: "spend_request list"
  ap_sends :: "send_request list"
  ap_fee_rate :: rat

record rbf_fee_context =
  rc_previous_fee_rate :: rat
  rc_previous_total_fee :: u64
  rc_descendant_fee :: u64

record build_options =
  bo_lineage_prevout :: "cover_utxo option"
  bo_min_change_value :: u64
  bo_ignored_cover_outpoints :: "outpoint list"

definition default_build_options :: build_options where
  "default_build_options =
    \<lparr>bo_lineage_prevout = None, bo_min_change_value = min_change_value default_wallet_config,
     bo_ignored_cover_outpoints = []\<rparr>"

record build_receipt =
  bt_tx :: transaction
  bt_fee_paid_sats :: u64
  bt_cover_utxos :: "cover_utxo list"
  bt_lineage_prevout :: "cover_utxo option"

text \<open>One iteration of the partition of \<open>BitcoinTxAdaptorParams::from_requests\<close>.\<close>

definition sort_request ::
    "adaptor_params \<Rightarrow> wallet_request \<Rightarrow> (tx_builder_error, adaptor_params) result" where
  "sort_request p req =
    (case wr_kind req of
       Send send \<Rightarrow> Inr (p\<lparr>ap_sends := ap_sends p @ [send]\<rparr>)
     | Spend spend \<Rightarrow>
         if sp_sighash_type spend \<noteq> SighashSinglePlusAnyoneCanPay \<and> sp_recipient spend \<noteq> None
         then Inl (TbValidation (Format ''regular spend must not set paired recipient for {}''
                [ArgStr (dedupe_key req)]))
         else if sp_sighash_type spend = SighashSinglePlusAnyoneCanPay
         then Inr (p\<lparr>ap_sacps := ap_sacps p @ [spend]\<rparr>)
         else Inr (p\<lparr>ap_spends := ap_spends p @ [spend]\<rparr>))"

definition params_from_requests ::
    "wallet_request list \<Rightarrow> rat \<Rightarrow> (tx_builder_error, adaptor_params) result" where
  "params_from_requests reqs fee_rate =
    try_fold sort_request \<lparr>ap_sacps = [], ap_spends = [], ap_sends = [], ap_fee_rate = fee_rate\<rparr> reqs"

section \<open>Validation\<close>

definition validate_spend :: "spend_request \<Rightarrow> (tx_builder_error, unit) result" where
  "validate_spend spend =
    (if sp_value spend = 0 then Inl (TbValidation (Format ''UTXO value must be > 0'' []))
     else if sp_sighash_type spend = SighashSinglePlusAnyoneCanPay \<and> sp_recipient spend = None
     then Inl (TbValidation (Format ''SACP spend must have a recipient'' []))
     else Inr ())"

definition validate_send :: "send_request \<Rightarrow> (tx_builder_error, unit) result" where
  "validate_send send =
    ensure (\<not> sr_amount send < DUST_LIMIT)
      (TbValidation (Format ''output {} below dust {}'' [ArgNat (unat (sr_amount send)), ArgNat (unat DUST_LIMIT)]))"

definition validate_params :: "adaptor_params \<Rightarrow> (tx_builder_error, unit) result" where
  "validate_params p =
    (if ap_sacps p = [] \<and> ap_spends p = [] \<and> ap_sends p = []
     then Inl (TbValidation (Format ''must have at least one operation'' []))
     else try_bind (try_each validate_spend (ap_sacps p)) (\<lambda>_.
          try_bind (try_each validate_spend (ap_spends p)) (\<lambda>_.
            try_each validate_send (ap_sends p))))"

text \<open>The \<open>HashSet\<close> of outpoints seen so far is the list of them.\<close>

definition ensure_unique_outpoint ::
    "string \<Rightarrow> outpoint list \<Rightarrow> outpoint \<Rightarrow> (tx_builder_error, outpoint list) result" where
  "ensure_unique_outpoint role seen op =
    (if op \<in> set seen
     then Inl (TbValidation (Format ''duplicate mandatory input outpoint detected for {role}: {outpoint}''
            [ArgStr role, ArgOutpoint op]))
     else Inr (op # seen))"

definition validate_unique_mandatory_inputs ::
    "adaptor_params \<Rightarrow> cover_utxo list \<Rightarrow> cover_utxo option \<Rightarrow> (tx_builder_error, unit) result" where
  "validate_unique_mandatory_inputs p carried prevout =
    try_bind (try_fold (ensure_unique_outpoint ''request input'') []
        (map sp_outpoint (ap_sacps p) @ map sp_outpoint (ap_spends p))) (\<lambda>seen.
    try_bind (try_fold (ensure_unique_outpoint ''carried cover input'') seen (map cu_outpoint carried)) (\<lambda>seen.
      case prevout of
        None \<Rightarrow> Inr ()
      | Some u \<Rightarrow> try_bind (ensure_unique_outpoint ''lineage prevout'' seen (cu_outpoint u)) (\<lambda>_. Inr ())))"

section \<open>Lemmas\<close>

lemma ensure_unique_outpoint_eq_Inr [try_simps]:
  "ensure_unique_outpoint role seen a = Inr s \<longleftrightarrow> a \<notin> set seen \<and> s = a # seen"
  by (auto simp: ensure_unique_outpoint_def)

lemma ensure_unique_fold:
  "try_fold (ensure_unique_outpoint role) seen ops = Inr seen' \<Longrightarrow>
    seen' = rev ops @ seen \<and> distinct ops \<and> set ops \<inter> set seen = {}"
proof (induction ops arbitrary: seen)
  case (Cons a ops)
  then have a: "a \<notin> set seen" and f: "try_fold (ensure_unique_outpoint role) (a # seen) ops = Inr seen'"
    by (auto simp: try_simps)
  from Cons.IH[OF f] a show ?case by auto
qed simp

lemma ensure_unique_fold_ok:
  "distinct ops \<Longrightarrow> set ops \<inter> set seen = {} \<Longrightarrow>
    try_fold (ensure_unique_outpoint role) seen ops = Inr (rev ops @ seen)"
  by (induction ops arbitrary: seen) (auto simp: ensure_unique_outpoint_def)

definition mandatory_outpoints :: "adaptor_params \<Rightarrow> cover_utxo list \<Rightarrow> cover_utxo option \<Rightarrow> outpoint list" where
  "mandatory_outpoints p carried prevout =
    map sp_outpoint (ap_sacps p) @ map sp_outpoint (ap_spends p) @ map cu_outpoint carried
    @ (case prevout of None \<Rightarrow> [] | Some u \<Rightarrow> [cu_outpoint u])"

lemma ensure_unique_fold_iff:
  "try_fold (ensure_unique_outpoint role) seen ops = Inr seen' \<longleftrightarrow>
    distinct ops \<and> set ops \<inter> set seen = {} \<and> seen' = rev ops @ seen"
  using ensure_unique_fold[of role seen ops seen'] ensure_unique_fold_ok[of ops seen role] by auto

lemma validate_unique_iff:
  "validate_unique_mandatory_inputs p carried prevout = Inr u \<longleftrightarrow> distinct (mandatory_outpoints p carried prevout)"
  unfolding validate_unique_mandatory_inputs_def mandatory_outpoints_def
  by (cases prevout) (auto simp: try_simps ensure_unique_fold_iff)

lemma params_from_requests_Inr:
  assumes "try_fold sort_request p reqs = Inr p'"
  shows "ap_fee_rate p' = ap_fee_rate p
    \<and> ap_sends p' = ap_sends p @ [s. Send s \<leftarrow> map wr_kind reqs]
    \<and> ap_sacps p' = ap_sacps p @ [s. Spend s \<leftarrow> map wr_kind reqs, sp_sighash_type s = SighashSinglePlusAnyoneCanPay]
    \<and> ap_spends p' = ap_spends p @ [s. Spend s \<leftarrow> map wr_kind reqs, sp_sighash_type s \<noteq> SighashSinglePlusAnyoneCanPay]
    \<and> (\<forall>s \<in> set [s. Spend s \<leftarrow> map wr_kind reqs, sp_sighash_type s \<noteq> SighashSinglePlusAnyoneCanPay]. sp_recipient s = None)"
  using assms
proof (induction reqs arbitrary: p)
  case (Cons req reqs)
  then obtain q where q: "sort_request p req = Inr q" "try_fold sort_request q reqs = Inr p'" by (auto simp: try_simps)
  show ?case
    using Cons.IH[OF q(2)] q(1)
    by (cases "wr_kind req") (auto simp: sort_request_def split: if_splits)
qed simp

end
