(* ===== verification/TxFeeBuilder.thy ===== *)
theory TxFeeBuilder
  imports TxTypes
begin

text \<open>
  The iterative fee builder (tx_builder/fee_builder.rs) over the traits of deps.rs. The traits are
  records of functions: \<open>CoverUtxoProvider\<close> is a state \<open>'c\<close> with its four operations (the
  asynchronous \<open>available\<close> also returns the provider, since it consumes an answer of the client),
  the codec, fee estimator and adaptor traits form \<open>chain_adaptor\<close>. An \<open>i64\<close> is a 64-bit
  word read with \<open>sint\<close>, so \<open>as i64\<close> and \<open>as u64\<close> keep the bits and arithmetic wraps.
\<close>

section \<open>Traits\<close>

type_synonym i64 = "64 word"

record ('c, 'u, 'tx) cover_provider =
  selected :: "'c \<Rightarrow> 'u list"
  add_utxos :: "'c \<Rightarrow> 'u list \<Rightarrow> 'c"
  available :: "'c \<Rightarrow> 'tx \<Rightarrow> (tx_builder_error, 'u list) result \<times> 'c"
  select :: "'c \<Rightarrow> 'u list \<Rightarrow> u64 \<Rightarrow> (tx_builder_error, 'u list) result"

record ('p, 'c, 'u, 'tx) chain_adaptor =
  encode :: "'tx \<Rightarrow> (tx_builder_error, bytes) result"
  decode :: "bytes \<Rightarrow> (tx_builder_error, 'tx) result"
  current_fee :: "'p \<Rightarrow> 'c \<Rightarrow> 'tx \<Rightarrow> (tx_builder_error, i64) result"
  target_fee :: "'p \<Rightarrow> 'tx \<Rightarrow> (tx_builder_error, u64) result"
  build :: "'p \<Rightarrow> 'u list \<Rightarrow> u64 \<Rightarrow> (tx_builder_error, 'tx) result"

section \<open>Fee plans\<close>

definition MAX_ITERATIONS :: nat where
  "MAX_ITERATIONS = 16"

definition SIZE_TOLERANCE :: nat where
  "SIZE_TOLERANCE = 2"

record 'tx fee_builder_result =
  fr_tx :: 'tx
  fr_change :: u64
  fr_fee_paid_sats :: u64

datatype fee_action = Done | ReduceChange u64 | AddUtxos u64 | IncreaseChange u64

definition plan_fee_actions :: "i64 \<Rightarrow> u64 \<Rightarrow> u64 \<Rightarrow> fee_action list" where
  "plan_fee_actions fee_delta change min_change =
    (if sint fee_delta = 0 then
       (if change < min_change then [AddUtxos (min_change - change)] else [Done])
     else if sint fee_delta < 0 then
       (let needed = word_of_int \<bar>sint fee_delta\<bar>;
            reducible_change = saturating_sub change min_change;
            reduction = min reducible_change needed;
            needed' = (if 0 < reducible_change then needed - reduction else needed) in
        (if 0 < reducible_change then [ReduceChange reduction] else [])
        @ (if 0 < needed' then [AddUtxos needed'] else []))
     else
       (let increase = fee_delta;
            projected_change = saturating_add change increase in
        IncreaseChange increase
        # (if projected_change < min_change then [AddUtxos (min_change - projected_change)] else [])))"

text \<open>\<open>u64::try_from\<close> of an \<open>i64\<close>.\<close>

definition u64_try_from :: "i64 \<Rightarrow> string \<Rightarrow> (tx_builder_error, u64) result" where
  "u64_try_from x msg = (if sint x < 0 then Inl (TbClient (Format msg [])) else Inr x)"

section \<open>The loop\<close>

record 'c fee_loop_state =
  fl_change :: u64
  fl_last_size :: "nat option"
  fl_best_overpay :: "(bytes \<times> u64 \<times> u64 \<times> i64) option"
  fl_best_overpay_delta :: i64
  fl_cover :: 'c

type_synonym ('c, 'tx) fee_outcome = "(tx_builder_error, 'tx fee_builder_result) result \<times> 'c"

text \<open>Control flow of a loop body: go on with a state, or return from the function.\<close>

datatype ('s, 'r) flow = Next 's | Return 'r

primrec flow_bind :: "('s, 'r) flow \<Rightarrow> ('s \<Rightarrow> ('s, 'r) flow) \<Rightarrow> ('s, 'r) flow" where
  "flow_bind (Next s) f = f s"
| "flow_bind (Return r) f = Return r"

definition fallback_best ::
    "('p, 'c, 'u, 'tx) chain_adaptor \<Rightarrow> (bytes \<times> u64 \<times> u64 \<times> i64) option \<Rightarrow>
     (tx_builder_error, 'tx fee_builder_result) result" where
  "fallback_best adaptor best =
    (case best of
       None \<Rightarrow> Inl TbMaxIterationsExceeded
     | Some (data, change, fee, _) \<Rightarrow>
         try_bind (decode adaptor data) (\<lambda>tx.
           Inr \<lparr>fr_tx = tx, fr_change = change, fr_fee_paid_sats = fee\<rparr>))"

definition apply_action ::
    "('p, 'c, 'u, 'tx) chain_adaptor \<Rightarrow> ('c, 'u, 'tx) cover_provider \<Rightarrow> 'tx \<Rightarrow> i64 \<Rightarrow>
     'c fee_loop_state \<Rightarrow> fee_action \<Rightarrow> ('c fee_loop_state, ('c, 'tx) fee_outcome) flow" where
  "apply_action adaptor prov tx current s action =
    (case action of
       Done \<Rightarrow>
         Return (try_bind (u64_try_from current ''fee builder finished with negative current fee'') (\<lambda>fee.
           Inr \<lparr>fr_tx = tx, fr_change = fl_change s, fr_fee_paid_sats = fee\<rparr>), fl_cover s)
     | ReduceChange n \<Rightarrow> Next (s\<lparr>fl_change := saturating_sub (fl_change s) n\<rparr>)
     | IncreaseChange n \<Rightarrow> Next (s\<lparr>fl_change := saturating_add (fl_change s) n\<rparr>)
     | AddUtxos needed \<Rightarrow>
         (case available prov (fl_cover s) tx of
            (Inl e, c) \<Rightarrow> Return (Inl e, c)
          | (Inr candidates, c) \<Rightarrow>
              (case select prov c candidates needed of
                 Inl e \<Rightarrow>
                   Return (case e of
                       TbInsufficientFunds _ _ \<Rightarrow>
                         if fl_best_overpay s \<noteq> None then fallback_best adaptor (fl_best_overpay s) else Inl e
                     | _ \<Rightarrow> Inl e, c)
               | Inr extra \<Rightarrow>
                   if extra = [] then
                     Return (if fl_best_overpay s \<noteq> None then fallback_best adaptor (fl_best_overpay s)
                             else Inl (TbInsufficientFunds needed 0), c)
                   else Next (s\<lparr>fl_cover := add_utxos prov c extra\<rparr>))))"

lemma flow_bind_Next [simp]: "flow_bind f Next = f"
  by (cases f) simp_all

fun apply_actions ::
    "('p, 'c, 'u, 'tx) chain_adaptor \<Rightarrow> ('c, 'u, 'tx) cover_provider \<Rightarrow> 'tx \<Rightarrow> i64 \<Rightarrow>
     'c fee_loop_state \<Rightarrow> fee_action list \<Rightarrow> ('c fee_loop_state, ('c, 'tx) fee_outcome) flow" where
  "apply_actions adaptor prov tx current s [] = Next s"
| "apply_actions adaptor prov tx current s (a # as) =
    flow_bind (apply_action adaptor prov tx current s a) (\<lambda>s. apply_actions adaptor prov tx current s as)"

text \<open>The acceptance by size stability and the record of the best overpaying candidate.\<close>

definition size_stable :: "nat option \<Rightarrow> nat \<Rightarrow> bool" where
  "size_stable last_size sz =
    (case last_size of None \<Rightarrow> False | Some prev \<Rightarrow> prev < sz \<and> sz - prev \<le> SIZE_TOLERANCE)"

definition record_best ::
    "bytes \<Rightarrow> i64 \<Rightarrow> i64 \<Rightarrow> 'c fee_loop_state \<Rightarrow> (tx_builder_error, 'c fee_loop_state) result" where
  "record_best encoded current delta s =
    (if 0 < sint delta \<and> sint delta < sint (fl_best_overpay_delta s) then
       try_bind (u64_try_from current ''fee builder recorded negative fee for best overpay candidate'') (\<lambda>fee.
         Inr (s\<lparr>fl_best_overpay_delta := delta, fl_best_overpay := Some (encoded, fl_change s, fee, delta)\<rparr>))
     else Inr s)"

text \<open>Build the candidate of the current state and measure it: transaction, fee, delta, bytes.\<close>

definition probe ::
    "('p, 'c, 'u, 'tx) chain_adaptor \<Rightarrow> ('c, 'u, 'tx) cover_provider \<Rightarrow> 'p \<Rightarrow> 'c fee_loop_state \<Rightarrow>
     (tx_builder_error, 'tx \<times> i64 \<times> i64 \<times> bytes) result" where
  "probe adaptor prov params s =
    try_bind (build adaptor params (selected prov (fl_cover s)) (fl_change s)) (\<lambda>tx.
    try_bind (current_fee adaptor params (fl_cover s) tx) (\<lambda>current.
    try_bind (target_fee adaptor params tx) (\<lambda>target.
    try_bind (encode adaptor tx) (\<lambda>encoded.
      Inr (tx, current, current - target, encoded)))))"

text \<open>One iteration.\<close>

definition fee_iteration ::
    "('p, 'c, 'u, 'tx) chain_adaptor \<Rightarrow> ('c, 'u, 'tx) cover_provider \<Rightarrow> 'p \<Rightarrow> u64 \<Rightarrow>
     'c fee_loop_state \<Rightarrow> ('c fee_loop_state, ('c, 'tx) fee_outcome) flow" where
  "fee_iteration adaptor prov params min_change s =
    (case probe adaptor prov params s of
       Inl e \<Rightarrow> Return (Inl e, fl_cover s)
     | Inr (tx, current, delta, encoded) \<Rightarrow>
         if size_stable (fl_last_size s) (length encoded) then
           Return (try_bind (u64_try_from current ''fee builder produced negative current fee on converged tx'') (\<lambda>fee.
             Inr \<lparr>fr_tx = tx, fr_change = fl_change s, fr_fee_paid_sats = fee\<rparr>), fl_cover s)
         else
           (case record_best encoded current delta (s\<lparr>fl_last_size := Some (length encoded)\<rparr>) of
              Inl e \<Rightarrow> Return (Inl e, fl_cover s)
            | Inr s' \<Rightarrow>
                apply_actions adaptor prov tx current s' (plan_fee_actions delta (fl_change s') min_change)))"

fun fee_loop ::
    "('p, 'c, 'u, 'tx) chain_adaptor \<Rightarrow> ('c, 'u, 'tx) cover_provider \<Rightarrow> 'p \<Rightarrow> u64 \<Rightarrow> nat \<Rightarrow>
     'c fee_loop_state \<Rightarrow> ('c, 'tx) fee_outcome" where
  "fee_loop adaptor prov params min_change 0 s = (fallback_best adaptor (fl_best_overpay s), fl_cover s)"
| "fee_loop adaptor prov params min_change (Suc n) s =
    (case fee_iteration adaptor prov params min_change s of
       Next s' \<Rightarrow> fee_loop adaptor prov params min_change n s'
     | Return r \<Rightarrow> r)"

definition build_with_fee_floor ::
    "('p, 'c, 'u, 'tx) chain_adaptor \<Rightarrow> ('c, 'u, 'tx) cover_provider \<Rightarrow> 'p \<Rightarrow> 'c \<Rightarrow> u64 \<Rightarrow> u64 \<Rightarrow>
     ('c, 'tx) fee_outcome" where
  "build_with_fee_floor adaptor prov params cover initial_change min_change =
    fee_loop adaptor prov params min_change MAX_ITERATIONS
      \<lparr>fl_change = initial_change, fl_last_size = None, fl_best_overpay = None,
       fl_best_overpay_delta = word_of_int (2 ^ 63 - 1), fl_cover = cover\<rparr>"

definition build_with_fee ::
    "('p, 'c, 'u, 'tx) chain_adaptor \<Rightarrow> ('c, 'u, 'tx) cover_provider \<Rightarrow> 'p \<Rightarrow> 'c \<Rightarrow> ('c, 'tx) fee_outcome" where
  "build_with_fee adaptor prov params cover = build_with_fee_floor adaptor prov params cover 0 0"

definition build_with_min_change ::
    "('p, 'c, 'u, 'tx) chain_adaptor \<Rightarrow> ('c, 'u, 'tx) cover_provider \<Rightarrow> 'p \<Rightarrow> 'c \<Rightarrow> u64 \<Rightarrow>
     ('c, 'tx) fee_outcome" where
  "build_with_min_change adaptor prov params cover min_change =
    build_with_fee_floor adaptor prov params cover min_change min_change"

section \<open>What the builder guarantees of any adaptor and provider\<close>

text \<open>A transaction built from a state of the provider, with its fees and its size.\<close>

record ('c, 'tx) candidate =
  cd_cover :: 'c
  cd_change :: u64
  cd_tx :: 'tx
  cd_current :: i64
  cd_target :: u64
  cd_encoded :: bytes

definition is_candidate ::
    "('p, 'c, 'u, 'tx) chain_adaptor \<Rightarrow> ('c, 'u, 'tx) cover_provider \<Rightarrow> 'p \<Rightarrow> ('c, 'tx) candidate \<Rightarrow> bool" where
  "is_candidate adaptor prov params d =
    (build adaptor params (selected prov (cd_cover d)) (cd_change d) = Inr (cd_tx d)
     \<and> current_fee adaptor params (cd_cover d) (cd_tx d) = Inr (cd_current d)
     \<and> target_fee adaptor params (cd_tx d) = Inr (cd_target d)
     \<and> encode adaptor (cd_tx d) = Inr (cd_encoded d))"

text \<open>
  How the loop accepts a candidate: the fee is the target, or above it, or the candidate is at most
  \<open>SIZE_TOLERANCE\<close> bytes longer than the one before.
\<close>

definition priced ::
    "('p, 'c, 'u, 'tx) chain_adaptor \<Rightarrow> ('c, 'u, 'tx) cover_provider \<Rightarrow> 'p \<Rightarrow> ('c, 'tx) candidate \<Rightarrow> bool" where
  "priced adaptor prov params d =
    (cd_current d = cd_target d \<or> 0 < sint (cd_current d - cd_target d)
     \<or> (\<exists>d'. is_candidate adaptor prov params d' \<and> size_stable (Some (length (cd_encoded d'))) (length (cd_encoded d))))"

definition result_of :: "('c, 'tx) candidate \<Rightarrow> 'tx fee_builder_result" where
  "result_of d = \<lparr>fr_tx = cd_tx d, fr_change = cd_change d, fr_fee_paid_sats = cd_current d\<rparr>"

lemma sint_eq_0_iff: "sint x = 0 \<longleftrightarrow> x = 0" for x :: i64
  by (simp add: signed_eq_0_iff)

lemma unsigned_abs: "sint delta < 0 \<Longrightarrow> (word_of_int \<bar>sint delta\<bar> :: u64) = - delta" for delta :: i64
  by (simp add: abs_of_neg)

lemma negative_nonzero: "sint delta < 0 \<Longrightarrow> - delta \<noteq> 0" for delta :: i64
  by auto

lemma plan_fee_actions_cases:
  assumes "lo \<le> change"
  obtains (exact) "sint delta = 0" "plan_fee_actions delta change lo = [Done]"
  | (change) a as where "plan_fee_actions delta change lo = a # as"
      "(\<exists>n. a = IncreaseChange n) \<or> (\<exists>n. a = ReduceChange n \<and> n \<le> change - lo)"
      "as = [] \<or> (\<exists>n. as = [AddUtxos n])"
  | (add) n where "plan_fee_actions delta change lo = [AddUtxos n]"
proof -
  consider "sint delta = 0" | "sint delta < 0" | "sint delta > 0" by linarith
  then show ?thesis
  proof cases
    case 1
    with assms show ?thesis by (intro exact) (auto simp: plan_fee_actions_def)
  next
    case 2
    show ?thesis
    proof (cases "0 < saturating_sub change lo")
      case True
      with 2 assms show ?thesis
        by (intro change[OF _ disjI2]) (auto simp: plan_fee_actions_def Let_def saturating_sub_def)
    next
      case False
      then have "saturating_sub change lo = 0" by (simp add: word_gt_0)
      then have "plan_fee_actions delta change lo = [AddUtxos (- delta)]"
        using 2 negative_nonzero[OF 2] by (simp add: plan_fee_actions_def Let_def unsigned_abs word_gt_0)
      then show ?thesis by (rule add)
    qed
  next
    case 3
    then show ?thesis by (intro change[OF _ disjI1]) (auto simp: plan_fee_actions_def Let_def)
  qed
qed

lemma saturating_sub_floor:
  fixes change lo n :: u64
  assumes "lo \<le> change" "n \<le> change - lo"
  shows "lo \<le> saturating_sub change n"
proof -
  have "unat n \<le> unat change - unat lo" using assms by (simp add: word_le_nat_alt unat_sub)
  moreover have "unat lo \<le> unat change" using assms by (simp add: word_le_nat_alt)
  ultimately show ?thesis by (simp add: word_le_nat_alt unat_saturating_sub)
qed

lemma saturating_add_floor:
  fixes change lo n :: u64
  assumes "lo \<le> change" shows "lo \<le> saturating_add change n"
proof -
  have "unat lo \<le> unat change" using assms by (simp add: word_le_nat_alt)
  moreover have "unat change \<le> unat (- 1 :: u64)" by (simp flip: word_le_nat_alt)
  ultimately show ?thesis by (simp add: word_le_nat_alt unat_saturating_add unat_max_word)
qed

section \<open>How often the provider is asked\<close>

lemma plan_one_add: "length (filter (\<lambda>a. \<exists>n. a = AddUtxos n) (plan_fee_actions delta change lo)) \<le> 1"
  by (simp add: plan_fee_actions_def Let_def)

fun flow_cover :: "('c fee_loop_state, ('c, 'tx) fee_outcome) flow \<Rightarrow> 'c" where
  "flow_cover (Next s) = fl_cover s"
| "flow_cover (Return r) = snd r"

lemma record_best_frame:
  "record_best bs cur delta s = Inr s' \<Longrightarrow> fl_cover s' = fl_cover s \<and> fl_change s' = fl_change s"
  by (auto simp: record_best_def try_simps split: if_splits)

text \<open>A cost of the provider's state that only \<open>available\<close> raises, by at most \<open>k\<close>.\<close>

lemma fee_loop_cost:
  fixes cost :: "'c \<Rightarrow> nat" and prov :: "('c, 'u, 'tx) cover_provider"
  assumes ask: "\<And>c tx r c'. available prov c tx = (r, c') \<Longrightarrow> cost c' \<le> cost c + k"
    and add: "\<And>c us. cost (add_utxos prov c us) = cost c"
  shows "cost (snd (fee_loop adaptor prov params lo n s)) \<le> cost (fl_cover s) + k * n"
proof -
  let ?adds = "\<lambda>as. length (filter (\<lambda>a. \<exists>n. a = AddUtxos n) as)"
  have one: "cost (flow_cover (apply_action adaptor prov tx cur s a)) \<le> cost (fl_cover s) + k * ?adds [a]" for tx cur s a
    using ask[of "fl_cover s" tx] add
    by (cases a) (auto simp: apply_action_def split: prod.splits sum.splits)
  have actions: "cost (flow_cover (apply_actions adaptor prov tx cur s as)) \<le> cost (fl_cover s) + k * ?adds as" for tx cur s as
  proof (induction as arbitrary: s)
    case (Cons a as)
    show ?case
    proof (cases "apply_action adaptor prov tx cur s a")
      case (Next s')
      then have "cost (fl_cover s') \<le> cost (fl_cover s) + k * ?adds [a]" using one[of tx cur s a] by simp
      moreover have "?adds (a # as) = ?adds [a] + ?adds as" by simp
      ultimately show ?thesis using Cons.IH[of s'] Next by (simp add: distrib_left)
    next
      case (Return r)
      then show ?thesis using one[of tx cur s a] by (auto simp: distrib_left split: if_splits)
    qed
  qed simp
  have iter: "cost (flow_cover (fee_iteration adaptor prov params lo s)) \<le> cost (fl_cover s) + k" for s
  proof (cases "probe adaptor prov params s")
    case (Inr x)
    obtain tx cur delta bs where x: "x = (tx, cur, delta, bs)" by (cases x)
    have "k * ?adds (plan_fee_actions delta ch lo) \<le> k" for ch
      using mult_le_mono2[OF plan_one_add[of delta ch lo], of k] by simp
    then have acts: "cost (flow_cover (apply_actions adaptor prov tx cur s' (plan_fee_actions delta (fl_change s') lo)))
        \<le> cost (fl_cover s') + k" for s' :: "'c fee_loop_state"
      using actions[of tx cur s' "plan_fee_actions delta (fl_change s') lo"] by (meson add_left_mono order_trans)
    show ?thesis
    proof (cases "record_best bs cur delta (s\<lparr>fl_last_size := Some (length bs)\<rparr>)")
      case rec: (Inr s')
      then show ?thesis
        using acts[of s'] record_best_frame[OF rec] by (simp add: fee_iteration_def Inr x)
    qed (simp add: fee_iteration_def Inr x)
  qed (simp add: fee_iteration_def)
  show ?thesis
  proof (induction n arbitrary: s)
    case (Suc n)
    show ?case
    proof (cases "fee_iteration adaptor prov params lo s")
      case (Next s')
      with iter[of s] Suc.IH[of s'] show ?thesis by simp
    next
      case (Return r)
      with iter[of s] show ?thesis by simp
    qed
  qed simp
qed

section \<open>The contract\<close>

text \<open>
  The contract between the builder, an adaptor and a provider: decoding undoes encoding on built
  transactions; the operations of the provider keep an invariant of its state and only ever add
  to its selection.
\<close>

locale fee_builder =
  fixes adaptor :: "('p, 'c, 'u, 'tx) chain_adaptor"
    and prov :: "('c, 'u, 'tx) cover_provider"
    and params :: 'p
    and ok :: "'c \<Rightarrow> bool"
  assumes codec: "ok c \<Longrightarrow> build adaptor params (selected prov c) change = Inr tx \<Longrightarrow> encode adaptor tx = Inr bs \<Longrightarrow>
      decode adaptor bs = Inr tx"
    and available_ok: "ok c \<Longrightarrow> available prov c tx = (r, c') \<Longrightarrow> ok c' \<and> selected prov c' = selected prov c"
    and add_ok: "ok c \<Longrightarrow> build adaptor params (selected prov c) change = Inr tx \<Longrightarrow>
      available prov c tx = (Inr us, c') \<Longrightarrow> select prov c' us needed = Inr extra \<Longrightarrow>
      ok (add_utxos prov c' extra)"
    and add_selected: "set (selected prov (add_utxos prov c us)) = set (selected prov c) \<union> set us"
begin

text \<open>A candidate whose selection the provider's state \<open>c\<close> still contains.\<close>

definition cand :: "u64 \<Rightarrow> 'c \<Rightarrow> ('c, 'tx) candidate \<Rightarrow> bool" where
  "cand lo c d = (is_candidate adaptor prov params d \<and> ok (cd_cover d) \<and> lo \<le> cd_change d
     \<and> set (selected prov (cd_cover d)) \<subseteq> set (selected prov c))"

definition inv :: "u64 \<Rightarrow> 'c fee_loop_state \<Rightarrow> bool" where
  "inv lo s = (ok (fl_cover s) \<and> lo \<le> fl_change s
     \<and> (\<forall>n. fl_last_size s = Some n \<longrightarrow> (\<exists>d. cand lo (fl_cover s) d \<and> length (cd_encoded d) = n))
     \<and> (\<forall>bs change fee delta. fl_best_overpay s = Some (bs, change, fee, delta) \<longrightarrow>
          (\<exists>d. cand lo (fl_cover s) d \<and> bs = cd_encoded d \<and> change = cd_change d \<and> fee = cd_current d
             \<and> 0 \<le> sint fee \<and> 0 < sint (cd_current d - cd_target d))))"

text \<open>How a returned transaction was priced.\<close>

definition good :: "u64 \<Rightarrow> 'tx fee_builder_result \<Rightarrow> 'c \<Rightarrow> bool" where
  "good lo res c = (ok c \<and> (\<exists>d. cand lo c d \<and> res = result_of d \<and> 0 \<le> sint (cd_current d) \<and>
     (cd_cover d = c \<and> cd_current d = cd_target d
      \<or> 0 < sint (cd_current d - cd_target d)
      \<or> cd_cover d = c \<and> (\<exists>d'. cand lo c d' \<and> size_stable (Some (length (cd_encoded d'))) (length (cd_encoded d))))))"

definition good_outcome :: "u64 \<Rightarrow> ('c, 'tx) fee_outcome \<Rightarrow> bool" where
  "good_outcome lo r = (\<forall>res. fst r = Inr res \<longrightarrow> good lo res (snd r))"

lemma cand_mono: "cand lo c d \<Longrightarrow> set (selected prov c) \<subseteq> set (selected prov c') \<Longrightarrow> cand lo c' d"
  by (auto simp: cand_def)

lemma inv_mono:
  assumes "inv lo s" "ok c" "lo \<le> change" "set (selected prov (fl_cover s)) \<subseteq> set (selected prov c)"
  shows "inv lo (s\<lparr>fl_change := change, fl_cover := c\<rparr>)"
  using assms unfolding inv_def by (fastforce intro: cand_mono)

lemma inv_change: "inv lo s \<Longrightarrow> lo \<le> change \<Longrightarrow> inv lo (s\<lparr>fl_change := change\<rparr>)"
  by (auto simp: inv_def)

lemma inv_cover:
  "inv lo s \<Longrightarrow> ok c \<Longrightarrow> set (selected prov (fl_cover s)) \<subseteq> set (selected prov c) \<Longrightarrow> inv lo (s\<lparr>fl_cover := c\<rparr>)"
  using inv_mono[of lo s c "fl_change s"] by (simp add: inv_def)

lemma inv_size:
  "inv lo s \<Longrightarrow> cand lo (fl_cover s) d \<Longrightarrow> inv lo (s\<lparr>fl_last_size := Some (length (cd_encoded d))\<rparr>)"
  by (auto simp: inv_def)

lemma inv_best:
  "inv lo s \<Longrightarrow> cand lo (fl_cover s) d \<Longrightarrow> 0 \<le> sint (cd_current d) \<Longrightarrow> 0 < sint (cd_current d - cd_target d) \<Longrightarrow>
    inv lo (s\<lparr>fl_best_overpay_delta := x, fl_best_overpay := Some (cd_encoded d, cd_change d, cd_current d, y)\<rparr>)"
  by (auto simp: inv_def)

lemma fallback_good:
  assumes "inv lo s" "set (selected prov (fl_cover s)) \<subseteq> set (selected prov c)" "ok c"
  shows "good_outcome lo (fallback_best adaptor (fl_best_overpay s), c)"
proof (cases "fl_best_overpay s")
  case (Some b)
  obtain bs change fee delta where b: "b = (bs, change, fee, delta)" by (cases b)
  with Some assms(1) obtain d where d: "cand lo (fl_cover s) d" "bs = cd_encoded d" "change = cd_change d"
      "fee = cd_current d" "0 \<le> sint fee" "0 < sint (cd_current d - cd_target d)"
    by (auto simp: inv_def)
  then have "decode adaptor bs = Inr (cd_tx d)" using codec by (auto simp: cand_def is_candidate_def)
  with Some b d show ?thesis
    unfolding good_outcome_def good_def using assms(3)
    by (auto simp: fallback_best_def result_of_def intro!: exI[of _ d] cand_mono[OF d(1) assms(2)])
qed (simp add: fallback_best_def good_outcome_def)

text \<open>The state while the actions of one iteration are carried out.\<close>

definition flow_ok :: "u64 \<Rightarrow> ('c fee_loop_state, ('c, 'tx) fee_outcome) flow \<Rightarrow> bool" where
  "flow_ok lo f = (case f of Next s \<Rightarrow> inv lo s | Return r \<Rightarrow> good_outcome lo r)"

lemma add_action_ok:
  assumes "inv lo s" "build adaptor params (selected prov (fl_cover s)) change = Inr tx"
  shows "flow_ok lo (apply_action adaptor prov tx cur s (AddUtxos needed))"
proof -
  obtain r c where a: "available prov (fl_cover s) tx = (r, c)" by fastforce
  have ok: "ok (fl_cover s)" using assms(1) by (simp add: inv_def)
  note c = available_ok[OF ok a]
  have fb: "good_outcome lo (fallback_best adaptor (fl_best_overpay s), c)"
    by (rule fallback_good[OF assms(1)]) (simp_all add: c)
  have ext: "inv lo (s\<lparr>fl_cover := add_utxos prov c extra\<rparr>)"
    if "r = Inr us" "select prov c us needed = Inr extra" for us extra
    using add_ok[OF ok assms(2) a[unfolded that(1)] that(2)] assms(1) c
    by (intro inv_cover) (auto simp: add_selected)
  show ?thesis
    using fb ext a
    by (auto simp: apply_action_def flow_ok_def good_outcome_def split: sum.splits tx_builder_error.splits)
qed


lemma adjust_ok:
  assumes "inv lo s" "(\<exists>n. a = IncreaseChange n) \<or> (\<exists>n. a = ReduceChange n \<and> n \<le> fl_change s - lo)"
  obtains s' where "apply_action adaptor prov tx cur s a = Next s'" "inv lo s'" "fl_cover s' = fl_cover s"
proof -
  have "lo \<le> fl_change s" using assms(1) by (simp add: inv_def)
  then have "\<exists>change. apply_action adaptor prov tx cur s a = Next (s\<lparr>fl_change := change\<rparr>) \<and> lo \<le> change"
    using assms(2) by (auto simp: apply_action_def saturating_add_floor saturating_sub_floor)
  then show ?thesis using inv_change[OF assms(1)] that by fastforce
qed

lemma actions_ok:
  assumes "inv lo s" "build adaptor params (selected prov (fl_cover s)) change = Inr tx"
    "plan_fee_actions delta (fl_change s) lo \<noteq> [Done]"
  shows "flow_ok lo (apply_actions adaptor prov tx cur s (plan_fee_actions delta (fl_change s) lo))"
proof -
  have "lo \<le> fl_change s" using assms(1) by (simp add: inv_def)
  then show ?thesis
  proof (cases rule: plan_fee_actions_cases[where delta = delta])
    case (change a as)
    from adjust_ok[OF assms(1) change(2), of tx cur]
    obtain s' where s': "apply_action adaptor prov tx cur s a = Next s'" "inv lo s'" "fl_cover s' = fl_cover s"
      by blast
    have "flow_ok lo (apply_action adaptor prov tx cur s' (AddUtxos n))" for n
      using add_action_ok[OF s'(2)] assms(2) s'(3) by simp
    with change(3) s' show ?thesis by (auto simp: change(1) flow_ok_def)
  next
    case (add n)
    then show ?thesis
      using add_action_ok[OF assms(1,2), of cur n] by simp
  qed (use assms(3) in simp)
qed

text \<open>One iteration keeps the invariant or returns a well-priced transaction.\<close>

lemma iteration_ok:
  assumes "inv lo s"
  shows "flow_ok lo (fee_iteration adaptor prov params lo s)"
proof (cases "probe adaptor prov params s")
  case (Inl e)
  then show ?thesis by (simp add: fee_iteration_def flow_ok_def good_outcome_def)
next
  case (Inr r)
  obtain tx cur delta bs where r: "r = (tx, cur, delta, bs)" by (cases r)
  from Inr r obtain tgt where eqs: "build adaptor params (selected prov (fl_cover s)) (fl_change s) = Inr tx"
      "current_fee adaptor params (fl_cover s) tx = Inr cur" "target_fee adaptor params tx = Inr tgt"
      "encode adaptor tx = Inr bs" "delta = cur - tgt"
    by (auto simp: probe_def try_simps)
  note probed = Inr[unfolded r]
  let ?d = "\<lparr>cd_cover = fl_cover s, cd_change = fl_change s, cd_tx = tx, cd_current = cur, cd_target = tgt, cd_encoded = bs\<rparr>"
  have d: "cand lo (fl_cover s) ?d" using assms eqs by (simp add: cand_def is_candidate_def inv_def)
  have stable: "flow_ok lo (Return (try_bind (u64_try_from cur msg) (\<lambda>fee.
             Inr \<lparr>fr_tx = tx, fr_change = fl_change s, fr_fee_paid_sats = fee\<rparr>), fl_cover s))"
    if "size_stable (fl_last_size s) (length bs) \<or> cur = tgt" for msg
  proof -
    have "\<exists>d'. cand lo (fl_cover s) d' \<and> size_stable (Some (length (cd_encoded d'))) (length bs)"
      if "size_stable (fl_last_size s) (length bs)"
      using that assms by (fastforce simp: size_stable_def inv_def split: option.splits)
    with that have "cur = tgt \<or> (\<exists>d'. cand lo (fl_cover s) d' \<and> size_stable (Some (length (cd_encoded d'))) (length bs))"
      by blast
    then have "0 \<le> sint cur \<Longrightarrow> good lo (result_of ?d) (fl_cover s)"
      unfolding good_def using d assms by (intro conjI exI[of _ ?d]) (simp add: inv_def, auto)
    then show ?thesis
      by (auto simp: flow_ok_def good_outcome_def result_of_def u64_try_from_def)
  qed
  have rec: "inv lo s' \<and> fl_change s' = fl_change s \<and> fl_cover s' = fl_cover s"
    if "record_best bs cur delta (s\<lparr>fl_last_size := Some (length bs)\<rparr>) = Inr s'" for s'
    using that inv_size[OF assms d] inv_best[OF inv_size[OF assms d], of ?d] d eqs(5)
    by (auto simp: record_best_def u64_try_from_def split: if_splits)
  have exact: "delta = 0" if "plan_fee_actions delta (fl_change s) lo = [Done]"
    using that by (auto simp: plan_fee_actions_def Let_def sint_eq_0_iff split: if_splits)
  show ?thesis
  proof (cases "record_best bs cur delta (s\<lparr>fl_last_size := Some (length bs)\<rparr>)")
    case (Inl e)
    then show ?thesis
      using stable by (auto simp: fee_iteration_def probed flow_ok_def good_outcome_def)
  next
    case (Inr s')
    note s' = rec[OF Inr]
    show ?thesis
    proof (cases "plan_fee_actions delta (fl_change s) lo = [Done]")
      case True
      with s' stable eqs(5) exact[OF True] Inr show ?thesis
        by (auto simp: fee_iteration_def probed apply_action_def)
    next
      case False
      with s' actions_ok[of lo s' "fl_change s" tx delta cur] eqs(1) Inr stable show ?thesis
        by (auto simp: fee_iteration_def probed)
    qed
  qed
qed

lemma loop_ok: "inv lo s \<Longrightarrow> good_outcome lo (fee_loop adaptor prov params lo n s)"
proof (induction n arbitrary: s)
  case 0
  then show ?case using fallback_good[of lo s "fl_cover s"] by (simp add: inv_def)
next
  case (Suc n)
  then show ?case using iteration_ok[OF Suc.prems] by (auto simp: flow_ok_def split: flow.splits)
qed

theorem build_with_fee_floor_good:
  assumes "ok cover" "lo \<le> initial" "build_with_fee_floor adaptor prov params cover initial lo = (Inr res, c)"
  shows "good lo res c"
proof -
  have "inv lo \<lparr>fl_change = initial, fl_last_size = None, fl_best_overpay = None,
       fl_best_overpay_delta = word_of_int (2 ^ 63 - 1), fl_cover = cover\<rparr>"
    using assms by (simp add: inv_def)
  from loop_ok[OF this, of MAX_ITERATIONS] assms(3) show ?thesis
    by (simp add: good_outcome_def build_with_fee_floor_def)
qed

corollary build_with_fee_floor_candidate:
  assumes "ok cover" "lo \<le> initial" "build_with_fee_floor adaptor prov params cover initial lo = (Inr res, c)"
  shows "ok c \<and> (\<exists>d. is_candidate adaptor prov params d \<and> ok (cd_cover d) \<and> lo \<le> cd_change d
    \<and> set (selected prov (cd_cover d)) \<subseteq> set (selected prov c) \<and> res = result_of d \<and> 0 \<le> sint (cd_current d)
    \<and> priced adaptor prov params d)"
  using build_with_fee_floor_good[OF assms] unfolding good_def cand_def priced_def by blast

end

end
