(* ===== verification/TxCover.thy ===== *)
theory TxCover
  imports TxFeeBuilder WalletPorts
begin

text \<open>
  The wallet's cover inputs (tx_builder/cover_utxo.rs): the provider's state, its selection of
  inputs, and its queries to Electrs. The client is the sequence of its answers: \<open>el_clock\<close>
  counts the queries made, the answers are functions of that number.
  \<open>Txid::from_str\<close> of the \<open>bitcoin\<close> crate is a parameter.
\<close>

section \<open>Electrs\<close>

record electrs_client =
  el_clock :: nat
  el_address_utxos :: "nat \<Rightarrow> string \<Rightarrow> (client_error, esplora_utxo list) result"
  el_block_height :: "nat \<Rightarrow> (client_error, u64) result"

definition get_address_utxos ::
    "electrs_client \<Rightarrow> string \<Rightarrow> (client_error, esplora_utxo list) result \<times> electrs_client" where
  "get_address_utxos el addr = (el_address_utxos el (el_clock el) addr, el\<lparr>el_clock := el_clock el + 1\<rparr>)"

definition get_block_height :: "electrs_client \<Rightarrow> (client_error, u64) result \<times> electrs_client" where
  "get_block_height el = (el_block_height el (el_clock el), el\<lparr>el_clock := el_clock el + 1\<rparr>)"

fun client_error_message :: "client_error \<Rightarrow> message" where
  "client_error_message (Http status) =
    Format ''HTTP request failed: {0}'' (case status of None \<Rightarrow> [] | Some n \<Rightarrow> [ArgNat n])"
| "client_error_message (ClientRpc m) = Format ''JSON-RPC error: {0}'' [ArgStr m]"
| "client_error_message (ClientParse m) = Format ''parse error: {0}'' [ArgStr m]"
| "client_error_message (ClientJson m) = Format ''JSON deserialization error: {0}'' [ArgStr m]"

section \<open>The provider\<close>

record btc_cover =
  bc_address :: address
  bc_electrs :: "electrs_client option"
  bc_must_include :: "cover_utxo list"
  bc_selected :: "cover_utxo list"
  bc_lineage_prevout :: "outpoint option"
  bc_ignored_outpoints :: "outpoint list"

definition cover_new ::
    "address \<Rightarrow> electrs_client \<Rightarrow> cover_utxo list \<Rightarrow> cover_utxo option \<Rightarrow> outpoint list \<Rightarrow> btc_cover" where
  "cover_new addr electrs must_include prevout ignored =
    (let sel = must_include @ (case prevout of None \<Rightarrow> [] | Some u \<Rightarrow> [u]) in
     \<lparr>bc_address = addr, bc_electrs = Some electrs, bc_must_include = sel, bc_selected = sel,
      bc_lineage_prevout = map_option cu_outpoint prevout, bc_ignored_outpoints = ignored\<rparr>)"

definition selected_cover_utxos :: "btc_cover \<Rightarrow> cover_utxo list" where
  "selected_cover_utxos c =
    (case bc_lineage_prevout c of
       Some _ \<Rightarrow> take (length (bc_selected c) - 1) (bc_selected c)
     | None \<Rightarrow> bc_selected c)"

definition selected_lineage_prevout :: "btc_cover \<Rightarrow> cover_utxo option" where
  "selected_lineage_prevout c =
    (case bc_lineage_prevout c of
       None \<Rightarrow> None
     | Some _ \<Rightarrow> (if bc_selected c = [] then None else Some (last (bc_selected c))))"

text \<open>\<open>splice(insert_at..insert_at, utxos)\<close> inserts without removing.\<close>

definition cover_add :: "btc_cover \<Rightarrow> cover_utxo list \<Rightarrow> btc_cover" where
  "cover_add c utxos =
    (case bc_lineage_prevout c of
       Some _ \<Rightarrow>
         (let insert_at = length (bc_selected c) - 1 in
          c\<lparr>bc_selected := take insert_at (bc_selected c) @ utxos @ drop insert_at (bc_selected c)\<rparr>)
     | None \<Rightarrow> c\<lparr>bc_selected := bc_selected c @ utxos\<rparr>)"

definition is_confirmed_utxo :: "esplora_utxo \<Rightarrow> u64 \<Rightarrow> bool" where
  "is_confirmed_utxo utxo current_height = True"

definition electrs_cover ::
    "(string \<Rightarrow> (string, txid) result) \<Rightarrow> btc_cover \<Rightarrow> cover_utxo list \<Rightarrow> esplora_utxo \<Rightarrow>
     (tx_builder_error, cover_utxo list) result" where
  "electrs_cover txid_of c all u =
    (case txid_of (eu_txid u) of
       Inl e \<Rightarrow> Inl (TbConsensus (Format ''invalid txid: {e}'' [ArgStr e]))
     | Inr tx \<Rightarrow>
         (let op = \<lparr>op_txid = tx, op_vout = eu_vout u\<rparr> in
          if op \<in> set (bc_ignored_outpoints c) then Inr all
          else Inr (all @ [\<lparr>cu_outpoint = op, cu_value = eu_value u,
                 cu_script_pubkey = addr_script (bc_address c)\<rparr>])))"

definition merge_must_include :: "cover_utxo list \<Rightarrow> cover_utxo \<Rightarrow> cover_utxo list" where
  "merge_must_include all u =
    (if \<exists>a \<in> set all. cu_outpoint a = cu_outpoint u then all else all @ [u])"

definition usable_covers :: "btc_cover \<Rightarrow> transaction \<Rightarrow> cover_utxo list \<Rightarrow> cover_utxo list" where
  "usable_covers c tx all =
    filter (\<lambda>u. \<not> (\<exists>s \<in> set (bc_selected c). cu_outpoint s = cu_outpoint u))
      (filter (\<lambda>u. \<not> (\<exists>i \<in> set (tx_input tx). in_previous_output i = cu_outpoint u)) all)"

definition cover_available ::
    "(string \<Rightarrow> (string, txid) result) \<Rightarrow> btc_cover \<Rightarrow> transaction \<Rightarrow>
     (tx_builder_error, cover_utxo list) result \<times> btc_cover" where
  "cover_available txid_of c tx =
    (case bc_electrs c of
       None \<Rightarrow> (Inl (TbClient (Format ''no electrs client configured'' [])), c)
     | Some el \<Rightarrow>
         (case get_address_utxos el (addr_text (bc_address c)) of
            (Inl e, el1) \<Rightarrow> (Inl (TbClient (client_error_message e)), c\<lparr>bc_electrs := Some el1\<rparr>)
          | (Inr utxos, el1) \<Rightarrow>
              (case get_block_height el1 of
                 (Inl e, el2) \<Rightarrow> (Inl (TbClient (client_error_message e)), c\<lparr>bc_electrs := Some el2\<rparr>)
               | (Inr height, el2) \<Rightarrow>
                   (try_bind (try_fold (electrs_cover txid_of c) [] (filter (\<lambda>u. is_confirmed_utxo u height) utxos))
                      (\<lambda>all. Inr (usable_covers c tx (foldl merge_must_include all (bc_must_include c)))),
                    c\<lparr>bc_electrs := Some el2\<rparr>))))"

text \<open>Greedy selection over the candidates, largest value first (\<open>sort_by\<close> is stable).\<close>

fun greedy :: "u64 \<Rightarrow> u64 \<Rightarrow> cover_utxo list \<Rightarrow> cover_utxo list \<Rightarrow> (tx_builder_error, cover_utxo list) result" where
  "greedy needed acc chosen [] = Inl (TbInsufficientFunds needed acc)"
| "greedy needed acc chosen (u # us) =
    (let acc' = acc + cu_value u; chosen' = chosen @ [u] in
     if needed \<le> acc' then Inr chosen' else greedy needed acc' chosen' us)"

definition cover_select :: "btc_cover \<Rightarrow> cover_utxo list \<Rightarrow> u64 \<Rightarrow> (tx_builder_error, cover_utxo list) result" where
  "cover_select c utxos needed = greedy needed 0 [] (sort_key (\<lambda>u. - uint (cu_value u)) utxos)"

definition btc_provider :: "(string \<Rightarrow> (string, txid) result) \<Rightarrow> (btc_cover, cover_utxo, transaction) cover_provider" where
  "btc_provider txid_of =
    \<lparr>selected = bc_selected, add_utxos = cover_add, available = cover_available txid_of, select = cover_select\<rparr>"

lemma btc_provider_simps [simp]:
  "selected (btc_provider txid_of) = bc_selected"
  "add_utxos (btc_provider txid_of) = cover_add"
  "available (btc_provider txid_of) = cover_available txid_of"
  "select (btc_provider txid_of) = cover_select"
  by (simp_all add: btc_provider_def)

section \<open>Selection\<close>

text \<open>The total of a list of inputs, as a natural number.\<close>

definition total :: "cover_utxo list \<Rightarrow> nat" where
  "total us = sum_list (map (\<lambda>u. unat (cu_value u)) us)"

lemma total_simps [simp]: "total [] = 0" "total (u # us) = unat (cu_value u) + total us"
    "total (us @ vs) = total us + total vs"
  by (simp_all add: total_def)

lemma greedy_spec:
  assumes "unat acc = total chosen" "total chosen + total us < 2 ^ 64"
  shows "greedy needed acc chosen us =
    (if us = [] \<or> total (chosen @ us) < unat needed then Inl (TbInsufficientFunds needed (word_of_nat (total (chosen @ us))))
     else Inr (chosen @ take (LEAST n. 0 < n \<and> unat needed \<le> total (chosen @ take n us)) us))"
  using assms
proof (induction us arbitrary: acc chosen)
  case Nil
  show ?case by (simp flip: Nil(1))
next
  case (Cons u us)
  have accw: "acc = word_of_nat (total chosen)" by (simp flip: Cons.prems(1))
  have acc: "unat (acc + cu_value u) = total (chosen @ [u])"
    using Cons.prems by (simp add: unat_add_if_fits)
  show ?case
  proof (cases "needed \<le> acc + cu_value u")
    case True
    then have "unat needed \<le> total (chosen @ [u])" using acc by (simp add: word_le_nat_alt)
    moreover from this have "(LEAST n. 0 < n \<and> unat needed \<le> total (chosen @ take n (u # us))) = 1"
      by (intro Least_equality) auto
    ultimately show ?thesis using True by (simp add: Let_def)
  next
    case False
    then have lt: "total (chosen @ [u]) < unat needed" using acc by (simp add: word_le_nat_alt)
    have least: "(LEAST n. 0 < n \<and> unat needed \<le> total (chosen @ take n (u # us)))
        = Suc (LEAST n. 0 < n \<and> unat needed \<le> total ((chosen @ [u]) @ take n us))"
      if "unat needed \<le> total (chosen @ u # us)"
    proof -
      let ?P = "\<lambda>n. 0 < n \<and> unat needed \<le> total (chosen @ take n (u # us))"
      have "?P (Suc (length us))" using that by simp
      moreover have "\<not> ?P 0" by simp
      ultimately have "(LEAST n. ?P n) = Suc (LEAST m. ?P (Suc m))" by (rule Least_Suc)
      moreover have "?P (Suc m) \<longleftrightarrow> 0 < m \<and> unat needed \<le> total ((chosen @ [u]) @ take m us)" for m
        using lt by (cases m) auto
      ultimately show ?thesis by simp
    qed
    have "total (chosen @ [u]) + total us < 2 ^ 64" using Cons.prems by simp
    note IH = Cons.IH[OF acc this]
    show ?thesis
    proof (cases "us = []")
      case True
      then show ?thesis using False lt by (auto simp: Let_def accw)
    next
      case ne: False
      then show ?thesis using False lt least by (auto simp: Let_def IH)
    qed
  qed
qed

lemma greedy_members: "greedy needed acc chosen us = Inr vs \<Longrightarrow> \<exists>n. vs = chosen @ take n us"
proof (induction needed acc chosen us rule: greedy.induct)
  case (2 needed acc chosen u us)
  show ?case
  proof (cases "needed \<le> acc + cu_value u")
    case True
    then show ?thesis using 2(2) by (auto simp: Let_def intro!: exI[of _ 1])
  next
    case False
    with 2 obtain n where "vs = (chosen @ [u]) @ take n us" by (fastforce simp: Let_def)
    then show ?thesis by (intro exI[of _ "Suc n"]) simp
  qed
qed simp

lemma mset_take_subset: "mset (take n xs) \<subseteq># mset xs"
  by (metis append_take_drop_id mset_append mset_subset_eq_add_left)

text \<open>Among a list sorted by descending value, no \<open>k\<close> inputs are worth more than the first \<open>k\<close>.\<close>

definition mtotal :: "cover_utxo multiset \<Rightarrow> nat" where
  "mtotal M = (\<Sum>u \<in># M. unat (cu_value u))"

lemma mtotal_mset [simp]: "mtotal (mset us) = total us"
  by (simp add: mtotal_def total_def flip: mset_map sum_mset_sum_list)

lemma first_are_largest:
  "sorted_wrt (\<lambda>u v. unat (cu_value v) \<le> unat (cu_value u)) us \<Longrightarrow> M \<subseteq># mset us \<Longrightarrow>
    mtotal M \<le> total (take (size M) us)"
proof (induction us arbitrary: M)
  case (Cons u us)
  note sorted = Cons.prems(1)
  show ?case
  proof (cases "u \<in># M")
    case True
    then obtain N where N: "M = add_mset u N" by (metis insert_DiffM)
    with Cons.prems have "N \<subseteq># mset us" by simp
    then have "mtotal N \<le> total (take (size N) us)" using Cons.IH sorted by simp
    then show ?thesis by (simp add: N mtotal_def)
  next
    case False
    have M: "M \<subseteq># mset us"
    proof (rule mset_subset_eqI)
      fix a
      show "count M a \<le> count (mset us) a"
        using mset_subset_eq_count[OF Cons.prems(2), of a] False by (cases "a = u") (auto simp: not_in_iff)
    qed
    show ?thesis
    proof (cases "M = {#}")
      case False
      then obtain v N where N: "M = add_mset v N" by (metis multiset_nonemptyE insert_DiffM)
      have v: "unat (cu_value v) \<le> unat (cu_value u)"
        using M sorted by (auto simp: N dest!: mset_subset_eqD)
      have "N \<subseteq># mset us" using M unfolding N by (meson mset_subset_eq_add_right mset_subset_eq_add_left subset_mset.order_trans mset_subset_eq_insertD subset_mset.less_imp_le)
      then have "mtotal N \<le> total (take (size N) us)" using Cons.IH sorted M by (auto simp: N)
      with v show ?thesis by (simp add: N mtotal_def)
    qed (simp add: mtotal_def)
  qed
qed (simp add: mtotal_def)

lemma sorted_by_value:
  "sorted_wrt (\<lambda>u v. unat (cu_value v) \<le> unat (cu_value u)) (sort_key (\<lambda>u. - uint (cu_value u)) us)"
  using sorted_sort_key[of "\<lambda>u. - uint (cu_value u)" us]
  by (simp add: sorted_map flip: word_le_def word_le_nat_alt)

lemma cover_select_cases:
  assumes "total us < 2 ^ 64"
  shows "cover_select c us needed = Inl (TbInsufficientFunds needed (word_of_nat (total us))) \<and> (us = [] \<or> total us < unat needed)
    \<or> (\<exists>vs. cover_select c us needed = Inr vs \<and> vs \<noteq> [] \<and> mset vs \<subseteq># mset us \<and> unat needed \<le> total vs
        \<and> (\<forall>M. M \<subseteq># mset us \<and> M \<noteq> {#} \<and> unat needed \<le> mtotal M \<longrightarrow> length vs \<le> size M))"
proof -
  let ?s = "sort_key (\<lambda>u. - uint (cu_value u)) us"
  let ?P = "\<lambda>n. 0 < n \<and> unat needed \<le> total (take n ?s)"
  have tot: "total ?s = total us" by (metis mset_sort mtotal_mset)
  show ?thesis
  proof (cases "us = [] \<or> total us < unat needed")
    case True
    then show ?thesis
      using greedy_spec[of 0 "[]" ?s needed] assms tot by (auto simp: cover_select_def)
  next
    case False
    then have P: "?P (length us)" using tot by simp
    have ne: "?s \<noteq> []" using False by (metis length_0_conv length_sort)
    have sel: "cover_select c us needed = Inr (take (Least ?P) ?s)"
      using False ne greedy_spec[of 0 "[]" ?s needed] assms tot by (simp add: cover_select_def)
    have least: "?P (Least ?P)" "Least ?P \<le> length us" using LeastI[of ?P, OF P] Least_le[of ?P, OF P] by auto
    have "length (take (Least ?P) ?s) \<le> size M"
      if "M \<subseteq># mset us" "M \<noteq> {#}" "unat needed \<le> mtotal M" for M
    proof -
      have "mtotal M \<le> total (take (size M) ?s)" using first_are_largest[OF sorted_by_value] that(1) by simp
      then have "?P (size M)" using that by (auto simp: nonempty_has_size)
      then show ?thesis using Least_le[of ?P "size M"] by simp
    qed
    moreover have "mset (take (Least ?P) ?s) \<subseteq># mset us"
      using mset_take_subset[of "Least ?P" ?s] by simp
    moreover have "take (Least ?P) ?s \<noteq> []" using least(1) ne by simp
    ultimately have "\<exists>vs. cover_select c us needed = Inr vs \<and> vs \<noteq> [] \<and> mset vs \<subseteq># mset us \<and> unat needed \<le> total vs
        \<and> (\<forall>M. M \<subseteq># mset us \<and> M \<noteq> {#} \<and> unat needed \<le> mtotal M \<longrightarrow> length vs \<le> size M)"
      using sel least(1) by (intro exI[of _ "take (Least ?P) ?s"]) blast
    then show ?thesis by (rule disjI2)
  qed
qed

end
