(* ===== verification/TxAdaptor.thy ===== *)
theory TxAdaptor
  imports TxCover
begin

text \<open>
  The Bitcoin adaptor (tx_builder/tx_adaptor.rs, fee.rs) and the wallet key it signs with
  (infrastructure/keys/mod.rs). What the code calls of the \<open>bitcoin\<close>, \<open>secp256k1\<close> and
  \<open>hex\<close> crates are the fields of the record \<open>crates\<close>, over an abstract type of key pairs; the
  bytes of scripts, transactions and signatures are opaque.
\<close>

datatype network = Bitcoin | Testnet | Testnet4 | Signet | Regtest

record 'k crates =
  hex_decode :: "string \<Rightarrow> (string, bytes) result"
  keypair_of_slice :: "bytes \<Rightarrow> (string, 'k) result"
  x_only_public_key :: "'k \<Rightarrow> bytes"
  p2tr :: "bytes \<Rightarrow> network \<Rightarrow> address"
  tap_tweak :: "'k \<Rightarrow> 'k"
  sign_schnorr_raw :: "256 word \<Rightarrow> 'k \<Rightarrow> bytes"
  serialize_signature :: "bytes \<Rightarrow> tap_sighash_type \<Rightarrow> bytes"
  txid_from_str :: "string \<Rightarrow> (string, txid) result"
  serialize_tx :: "transaction \<Rightarrow> bytes"
  deserialize_tx :: "bytes \<Rightarrow> (string, transaction) result"
  weight_wu :: "transaction \<Rightarrow> u64"
  script_spend_sighash :: "transaction \<Rightarrow> nat \<Rightarrow> tx_out list \<Rightarrow> 256 word \<Rightarrow> tap_sighash_type \<Rightarrow> (string, 256 word) result"
  key_spend_sighash :: "transaction \<Rightarrow> nat \<Rightarrow> tx_out list \<Rightarrow> tap_sighash_type \<Rightarrow> (string, 256 word) result"

section \<open>Keys\<close>

datatype key_error = InvalidBtcKey message | WalletInit message | Signing message

record 'k bitcoin_wallet =
  bw_keypair :: 'k
  bw_x_only_pubkey :: bytes
  bw_address :: address
  bw_network :: network

text \<open>\<open>trim_start_matches("0x")\<close> removes the prefix as often as it occurs.\<close>

fun trim_0x :: "string \<Rightarrow> string" where
  "trim_0x (c # d # cs) = (if c = CHR ''0'' \<and> d = CHR ''x'' then trim_0x cs else c # d # cs)"
| "trim_0x cs = cs"

definition from_private_key ::
    "'k crates \<Rightarrow> string \<Rightarrow> network \<Rightarrow> (key_error, 'k bitcoin_wallet) result" where
  "from_private_key cr hex_key net =
    (case hex_decode cr (trim_0x hex_key) of
       Inl e \<Rightarrow> Inl (InvalidBtcKey (Format ''hex decode: {e}'' [ArgStr e]))
     | Inr bs \<Rightarrow>
         (case keypair_of_slice cr bs of
            Inl e \<Rightarrow> Inl (InvalidBtcKey (Format ''invalid secret key: {e}'' [ArgStr e]))
          | Inr k \<Rightarrow>
              Inr \<lparr>bw_keypair = k, bw_x_only_pubkey = x_only_public_key cr k,
                   bw_address = p2tr cr (x_only_public_key cr k) net, bw_network = net\<rparr>))"

definition sign_taproot_script_spend ::
    "'k crates \<Rightarrow> 'k bitcoin_wallet \<Rightarrow> 256 word \<Rightarrow> tap_sighash_type \<Rightarrow> (key_error, bytes \<times> tap_sighash_type) result" where
  "sign_taproot_script_spend cr w msg ty = Inr (sign_schnorr_raw cr msg (bw_keypair w), ty)"

definition sign_taproot_key_spend ::
    "'k crates \<Rightarrow> 'k bitcoin_wallet \<Rightarrow> 256 word \<Rightarrow> tap_sighash_type \<Rightarrow> (key_error, bytes \<times> tap_sighash_type) result" where
  "sign_taproot_key_spend cr w msg ty = Inr (sign_schnorr_raw cr msg (tap_tweak cr (bw_keypair w)), ty)"

definition sign_schnorr :: "'k crates \<Rightarrow> 'k bitcoin_wallet \<Rightarrow> 256 word \<Rightarrow> (key_error, bytes) result" where
  "sign_schnorr cr w msg =
    try_bind (sign_taproot_script_spend cr w msg SighashDefault) (\<lambda>(signature, _). Inr signature)"

fun key_error_message :: "key_error \<Rightarrow> message" where
  "key_error_message (InvalidBtcKey m) = m"
| "key_error_message (WalletInit m) = m"
| "key_error_message (Signing m) = m"

section \<open>The adaptor\<close>

definition P2TR_KEYPATH_WITNESS_PLACEHOLDER_LEN :: nat where
  "P2TR_KEYPATH_WITNESS_PLACEHOLDER_LEN = 65"

definition ENABLE_RBF_NO_LOCKTIME :: u32 where
  "ENABLE_RBF_NO_LOCKTIME = 0xFFFFFFFD"

record 'k tx_adaptor =
  ta_wallet :: "'k bitcoin_wallet"
  ta_network :: network
  ta_rbf_context :: "rbf_fee_context option"

definition adaptor_new :: "'k bitcoin_wallet \<Rightarrow> network \<Rightarrow> 'k tx_adaptor" where
  "adaptor_new w net = \<lparr>ta_wallet = w, ta_network = net, ta_rbf_context = None\<rparr>"

definition with_rbf_context :: "'k tx_adaptor \<Rightarrow> rbf_fee_context option \<Rightarrow> 'k tx_adaptor" where
  "with_rbf_context a ctx = a\<lparr>ta_rbf_context := ctx\<rparr>"

definition estimate_vsize :: "'k crates \<Rightarrow> transaction \<Rightarrow> u64" where
  "estimate_vsize cr tx = weight_wu cr tx div 4 + (if weight_wu cr tx mod 4 = 0 then 0 else 1)"

definition collect_all_prevouts :: "adaptor_params \<Rightarrow> cover_utxo list \<Rightarrow> tx_out list" where
  "collect_all_prevouts p covers =
    map (\<lambda>s. \<lparr>out_value = sp_value s, out_script_pubkey = sp_script_pubkey s\<rparr>) (ap_sacps p)
    @ map (\<lambda>s. \<lparr>out_value = sp_value s, out_script_pubkey = sp_script_pubkey s\<rparr>) (ap_spends p)
    @ map (\<lambda>u. \<lparr>out_value = cu_value u, out_script_pubkey = cu_script_pubkey u\<rparr>) covers"

text \<open>The first witness element that is the zeroed signature slot becomes the signature.\<close>

fun fill_signature :: "bytes \<Rightarrow> bytes list \<Rightarrow> bytes list" where
  "fill_signature sig [] = []"
| "fill_signature sig (e # es) =
    (if length e = 65 \<and> (\<forall>b \<in> set e. b = 0) then sig # es else e # fill_signature sig es)"

definition set_witness :: "transaction \<Rightarrow> nat \<Rightarrow> bytes list \<Rightarrow> transaction" where
  "set_witness tx i w = tx\<lparr>tx_input := (tx_input tx)[i := (tx_input tx ! i)\<lparr>in_witness := w\<rparr>]\<rparr>"

definition tb_sighash :: "(string, 'a) result \<Rightarrow> (tx_builder_error, 'a) result" where
  "tb_sighash r = (case r of Inl e \<Rightarrow> Inl (TbSighash (Format ''{}'' [ArgStr e])) | Inr x \<Rightarrow> Inr x)"

definition tb_signing :: "(key_error, 'a) result \<Rightarrow> (tx_builder_error, 'a) result" where
  "tb_signing r = (case r of Inl e \<Rightarrow> Inl (TbSighash (key_error_message e)) | Inr x \<Rightarrow> Inr x)"

definition sign_sacp_input ::
    "'k crates \<Rightarrow> 'k tx_adaptor \<Rightarrow> tx_out list \<Rightarrow> transaction \<Rightarrow> nat \<times> spend_request \<Rightarrow>
     (tx_builder_error, transaction) result" where
  "sign_sacp_input cr a prevouts tx = (\<lambda>(i, spend).
    try_bind (tb_sighash (script_spend_sighash cr tx i prevouts (sp_leaf_hash spend) SighashSinglePlusAnyoneCanPay)) (\<lambda>h.
    try_bind (tb_signing (sign_taproot_script_spend cr (ta_wallet a) h SighashSinglePlusAnyoneCanPay)) (\<lambda>(s, ty).
      Inr (set_witness tx i (fill_signature (serialize_signature cr s ty) (sp_witness_template spend))))))"

definition sign_sacp_inputs ::
    "'k crates \<Rightarrow> 'k tx_adaptor \<Rightarrow> transaction \<Rightarrow> adaptor_params \<Rightarrow> tx_out list \<Rightarrow>
     (tx_builder_error, transaction) result" where
  "sign_sacp_inputs cr a tx p prevouts =
    try_fold (sign_sacp_input cr a prevouts) tx (enumerate 0 (ap_sacps p))"

definition sign_spend_input ::
    "'k crates \<Rightarrow> 'k tx_adaptor \<Rightarrow> tx_out list \<Rightarrow> transaction \<Rightarrow> nat \<times> spend_request \<Rightarrow>
     (tx_builder_error, transaction) result" where
  "sign_spend_input cr a prevouts tx = (\<lambda>(i, spend).
    try_bind (tb_sighash (script_spend_sighash cr tx i prevouts (sp_leaf_hash spend) (sp_sighash_type spend))) (\<lambda>h.
    try_bind (tb_signing (sign_taproot_script_spend cr (ta_wallet a) h (sp_sighash_type spend))) (\<lambda>(s, ty).
      Inr (set_witness tx i (fill_signature (serialize_signature cr s ty) (sp_witness_template spend))))))"

definition sign_spend_inputs ::
    "'k crates \<Rightarrow> 'k tx_adaptor \<Rightarrow> transaction \<Rightarrow> adaptor_params \<Rightarrow> nat \<Rightarrow> tx_out list \<Rightarrow>
     (tx_builder_error, transaction) result" where
  "sign_spend_inputs cr a tx p sacp_input_count prevouts =
    try_fold (sign_spend_input cr a prevouts) tx (enumerate sacp_input_count (ap_spends p))"

definition sign_cover_input ::
    "'k crates \<Rightarrow> 'k tx_adaptor \<Rightarrow> tx_out list \<Rightarrow> transaction \<Rightarrow> nat \<Rightarrow> (tx_builder_error, transaction) result" where
  "sign_cover_input cr a prevouts tx i =
    try_bind (tb_sighash (key_spend_sighash cr tx i prevouts SighashAll)) (\<lambda>h.
    try_bind (tb_signing (sign_taproot_key_spend cr (ta_wallet a) h SighashAll)) (\<lambda>(s, ty).
      Inr (set_witness tx i [serialize_signature cr s ty])))"

definition sign_cover_inputs ::
    "'k crates \<Rightarrow> 'k tx_adaptor \<Rightarrow> transaction \<Rightarrow> nat \<Rightarrow> nat \<Rightarrow> tx_out list \<Rightarrow> (tx_builder_error, transaction) result" where
  "sign_cover_inputs cr a tx cover_start_idx cover_count prevouts =
    try_fold (sign_cover_input cr a prevouts) tx (map (\<lambda>i. cover_start_idx + i) [0..<cover_count])"

definition sign ::
    "'k crates \<Rightarrow> 'k tx_adaptor \<Rightarrow> transaction \<Rightarrow> adaptor_params \<Rightarrow> cover_utxo list \<Rightarrow>
     (tx_builder_error, transaction) result" where
  "sign cr a tx p covers =
    (let prevouts = collect_all_prevouts p covers;
         sacp_input_count = length (ap_sacps p);
         spend_input_count = length (ap_spends p);
         cover_start_idx = sacp_input_count + spend_input_count in
     try_bind (sign_sacp_inputs cr a tx p prevouts) (\<lambda>tx.
     try_bind (sign_spend_inputs cr a tx p sacp_input_count prevouts) (\<lambda>tx.
       sign_cover_inputs cr a tx cover_start_idx (length covers) prevouts)))"

section \<open>Codec and fees\<close>

definition tx_encode :: "'k crates \<Rightarrow> transaction \<Rightarrow> (tx_builder_error, bytes) result" where
  "tx_encode cr tx = Inr (serialize_tx cr tx)"

definition tx_decode :: "'k crates \<Rightarrow> bytes \<Rightarrow> (tx_builder_error, transaction) result" where
  "tx_decode cr data =
    (case deserialize_tx cr data of Inl e \<Rightarrow> Inl (TbConsensus (Format ''{}'' [ArgStr e])) | Inr tx \<Rightarrow> Inr tx)"

definition tx_current :: "adaptor_params \<Rightarrow> btc_cover \<Rightarrow> transaction \<Rightarrow> (tx_builder_error, i64) result" where
  "tx_current p cover tx =
    (let sacp_value = sum_u64 (map sp_value (ap_sacps p));
         spend_value = sum_u64 (map sp_value (ap_spends p));
         cover_value = sum_u64 (map cu_value (bc_selected cover));
         output_value = sum_u64 (map out_value (tx_output tx));
         input_total = sacp_value + spend_value + cover_value in
     Inr (input_total - output_value))"

text \<open>\<open>x.ceil() as u64\<close>: the cast of a float saturates at both ends.\<close>

definition ceil_u64 :: "rat \<Rightarrow> u64" where
  "ceil_u64 x = word_of_int (max 0 (min (2 ^ 64 - 1) \<lceil>x\<rceil>))"

definition u64_rat :: "u64 \<Rightarrow> rat" where
  "u64_rat x = of_nat (unat x)"

definition tx_target :: "'k crates \<Rightarrow> 'k tx_adaptor \<Rightarrow> adaptor_params \<Rightarrow> transaction \<Rightarrow> (tx_builder_error, u64) result" where
  "tx_target cr a p tx =
    (let vsize = estimate_vsize cr tx + 1 in
     case ta_rbf_context a of
       None \<Rightarrow> Inr (ceil_u64 (u64_rat vsize * ap_fee_rate p))
     | Some rbf \<Rightarrow>
         (let fee1 = ceil_u64 ((rc_previous_fee_rate rbf + 1 / 1000) * u64_rat vsize);
              fee2 = ceil_u64 (u64_rat (rc_previous_total_fee rbf) + u64_rat (rc_descendant_fee rbf) + u64_rat vsize);
              fee3 = ceil_u64 (ap_fee_rate p * u64_rat vsize) in
          Inr (max (max fee1 fee2) fee3)))"

section \<open>Building\<close>

definition spend_input :: "spend_request \<Rightarrow> tx_in" where
  "spend_input s =
    \<lparr>in_previous_output = sp_outpoint s, in_script_sig = [], in_sequence = sp_sequence s,
     in_witness = sp_witness_template s\<rparr>"

definition sacp_output :: "spend_request \<Rightarrow> (tx_builder_error, tx_out) result" where
  "sacp_output s =
    (case sp_recipient s of
       None \<Rightarrow> Inl (TbValidation (Format ''SACP spend requires a recipient for its paired output'' []))
     | Some r \<Rightarrow> Inr \<lparr>out_value = sr_amount r, out_script_pubkey = addr_script (sr_address r)\<rparr>)"

definition send_output :: "send_request \<Rightarrow> tx_out" where
  "send_output s = \<lparr>out_value = sr_amount s, out_script_pubkey = addr_script (sr_address s)\<rparr>"

definition cover_input :: "cover_utxo \<Rightarrow> tx_in" where
  "cover_input u =
    \<lparr>in_previous_output = cu_outpoint u, in_script_sig = [], in_sequence = ENABLE_RBF_NO_LOCKTIME,
     in_witness = [replicate P2TR_KEYPATH_WITNESS_PLACEHOLDER_LEN 0]\<rparr>"

definition tx_build ::
    "'k crates \<Rightarrow> 'k tx_adaptor \<Rightarrow> adaptor_params \<Rightarrow> cover_utxo list \<Rightarrow> u64 \<Rightarrow>
     (tx_builder_error, transaction) result" where
  "tx_build cr a p covers change =
    try_bind (try_map sacp_output (ap_sacps p)) (\<lambda>paired.
      let inputs = map spend_input (ap_sacps p) @ map spend_input (ap_spends p) @ map cover_input covers;
          outputs = paired @ map send_output (ap_sends p)
            @ (if DUST_LIMIT < change
               then [\<lparr>out_value = change, out_script_pubkey = addr_script (bw_address (ta_wallet a))\<rparr>] else []) in
      sign cr a \<lparr>tx_version = 2, tx_lock_time = 0, tx_input = inputs, tx_output = outputs\<rparr> p covers)"

definition btc_adaptor :: "'k crates \<Rightarrow> 'k tx_adaptor \<Rightarrow> (adaptor_params, btc_cover, cover_utxo, transaction) chain_adaptor" where
  "btc_adaptor cr a =
    \<lparr>encode = tx_encode cr, decode = tx_decode cr, current_fee = tx_current, target_fee = tx_target cr a,
     build = tx_build cr a\<rparr>"

lemma btc_adaptor_simps [simp]:
  "encode (btc_adaptor cr a) = tx_encode cr"
  "decode (btc_adaptor cr a) = tx_decode cr"
  "current_fee (btc_adaptor cr a) = tx_current"
  "target_fee (btc_adaptor cr a) = tx_target cr a"
  "build (btc_adaptor cr a) = tx_build cr a"
  by (simp_all add: btc_adaptor_def)

section \<open>Signing touches witnesses only\<close>

text \<open>Two transactions that differ in the witnesses of their inputs only.\<close>

definition same_skeleton :: "transaction \<Rightarrow> transaction \<Rightarrow> bool" where
  "same_skeleton tx tx' =
    (tx_version tx' = tx_version tx \<and> tx_lock_time tx' = tx_lock_time tx \<and> tx_output tx' = tx_output tx
     \<and> map (in_witness_update (\<lambda>_. [])) (tx_input tx') = map (in_witness_update (\<lambda>_. [])) (tx_input tx))"

lemma same_skeleton_refl [simp]: "same_skeleton tx tx"
  by (simp add: same_skeleton_def)

lemma same_skeleton_trans: "same_skeleton a b \<Longrightarrow> same_skeleton b c \<Longrightarrow> same_skeleton a c"
  by (simp add: same_skeleton_def)

lemma set_witness_skeleton: "i < length (tx_input tx) \<Longrightarrow> same_skeleton tx (set_witness tx i w)"
  by (simp add: same_skeleton_def set_witness_def map_update list_update_same_conv)

lemma set_witness_skeleton_any: "same_skeleton tx (set_witness tx i w)"
proof (cases "i < length (tx_input tx)")
  case False
  then show ?thesis by (simp add: same_skeleton_def set_witness_def not_less list_update_beyond)
qed (rule set_witness_skeleton)

lemma try_fold_skeleton:
  assumes "try_fold f tx xs = Inr tx'" and "\<And>t x t'. f t x = Inr t' \<Longrightarrow> same_skeleton t t'"
  shows "same_skeleton tx tx'"
  using assms(1) by (rule try_fold_invariant) (simp, blast intro: same_skeleton_trans assms(2))

lemma sign_skeleton:
  assumes "sign cr a tx p covers = Inr tx'"
  shows "same_skeleton tx tx'"
proof -
  obtain t1 t2 where f: "sign_sacp_inputs cr a tx p (collect_all_prevouts p covers) = Inr t1"
      "sign_spend_inputs cr a t1 p (length (ap_sacps p)) (collect_all_prevouts p covers) = Inr t2"
      "sign_cover_inputs cr a t2 (length (ap_sacps p) + length (ap_spends p)) (length covers)
         (collect_all_prevouts p covers) = Inr tx'"
    using assms by (auto simp: sign_def Let_def try_simps)
  have "same_skeleton tx t1"
    using f(1) unfolding sign_sacp_inputs_def
    by (rule try_fold_skeleton) (auto simp: sign_sacp_input_def try_simps set_witness_skeleton_any)
  moreover have "same_skeleton t1 t2"
    using f(2) unfolding sign_spend_inputs_def
    by (rule try_fold_skeleton) (auto simp: sign_spend_input_def try_simps set_witness_skeleton_any)
  moreover have "same_skeleton t2 tx'"
    using f(3) unfolding sign_cover_inputs_def
    by (rule try_fold_skeleton) (auto simp: sign_cover_input_def try_simps set_witness_skeleton_any)
  ultimately show ?thesis using same_skeleton_trans by blast
qed

end
