(* ===== verification/TxBuilder.thy ===== *)
theory TxBuilder
  imports TxAdaptor
begin

text \<open>
  The transaction builder (tx_builder/builder.rs): validation, adaptor, cover provider and fee
  loop put together. The builder holds its Electrs client, so every build also returns the
  builder with the client after the queries made. The lemmas interpret the contract of the fee
  loop on the Bitcoin adaptor and provider.
\<close>

record 'k tx_builder =
  tb_wallet :: "'k bitcoin_wallet"
  tb_electrs :: electrs_client
  tb_network :: network
  tb_inflight_cover_utxos :: "cover_utxo list"

definition builder_new :: "'k bitcoin_wallet \<Rightarrow> electrs_client \<Rightarrow> network \<Rightarrow> 'k tx_builder" where
  "builder_new w el net = \<lparr>tb_wallet = w, tb_electrs = el, tb_network = net, tb_inflight_cover_utxos = []\<rparr>"

definition set_inflight_cover_utxos :: "'k tx_builder \<Rightarrow> cover_utxo list \<Rightarrow> 'k tx_builder" where
  "set_inflight_cover_utxos b utxos = b\<lparr>tb_inflight_cover_utxos := utxos\<rparr>"

definition clear_inflight_cover_utxos :: "'k tx_builder \<Rightarrow> 'k tx_builder" where
  "clear_inflight_cover_utxos b = b\<lparr>tb_inflight_cover_utxos := []\<rparr>"

type_synonym 'k build_outcome = "(tx_builder_error, build_receipt) result \<times> 'k tx_builder"

definition build_tx_inner_with_options ::
    "'k crates \<Rightarrow> 'k tx_builder \<Rightarrow> adaptor_params \<Rightarrow> rbf_fee_context option \<Rightarrow> build_options \<Rightarrow> 'k build_outcome" where
  "build_tx_inner_with_options cr b p rbf opts =
    (case try_bind (validate_params p) (\<lambda>_.
            validate_unique_mandatory_inputs p (tb_inflight_cover_utxos b) (bo_lineage_prevout opts)) of
       Inl e \<Rightarrow> (Inl e, b)
     | Inr _ \<Rightarrow>
         (let adaptor = with_rbf_context (adaptor_new (tb_wallet b) (tb_network b)) rbf;
              cover = cover_new (bw_address (tb_wallet b)) (tb_electrs b) (tb_inflight_cover_utxos b)
                        (bo_lineage_prevout opts) (bo_ignored_cover_outpoints opts);
              (r, cover') = build_with_min_change (btc_adaptor cr adaptor) (btc_provider (txid_from_str cr)) p cover
                        (bo_min_change_value opts);
              b' = (case bc_electrs cover' of None \<Rightarrow> b | Some el \<Rightarrow> b\<lparr>tb_electrs := el\<rparr>) in
          (try_bind r (\<lambda>res.
             Inr \<lparr>bt_tx = fr_tx res, bt_fee_paid_sats = fr_fee_paid_sats res,
                  bt_cover_utxos = selected_cover_utxos cover',
                  bt_lineage_prevout = selected_lineage_prevout cover'\<rparr>), b')))"

definition build_tx_inner ::
    "'k crates \<Rightarrow> 'k tx_builder \<Rightarrow> adaptor_params \<Rightarrow> rbf_fee_context option \<Rightarrow> 'k build_outcome" where
  "build_tx_inner cr b p rbf = build_tx_inner_with_options cr b p rbf default_build_options"

definition build_tx ::
    "'k crates \<Rightarrow> 'k tx_builder \<Rightarrow> spend_request list \<Rightarrow> spend_request list \<Rightarrow> send_request list \<Rightarrow> rat \<Rightarrow>
     'k build_outcome" where
  "build_tx cr b sacps spends sends fee_rate =
    build_tx_inner cr b \<lparr>ap_sacps = sacps, ap_spends = spends, ap_sends = sends, ap_fee_rate = fee_rate\<rparr> None"

definition build_tx_with_rbf ::
    "'k crates \<Rightarrow> 'k tx_builder \<Rightarrow> spend_request list \<Rightarrow> spend_request list \<Rightarrow> send_request list \<Rightarrow> rat \<Rightarrow>
     rbf_fee_context \<Rightarrow> 'k build_outcome" where
  "build_tx_with_rbf cr b sacps spends sends fee_rate rbf =
    build_tx_inner cr b \<lparr>ap_sacps = sacps, ap_spends = spends, ap_sends = sends, ap_fee_rate = fee_rate\<rparr> (Some rbf)"

definition build_wallet_tx :: "'k crates \<Rightarrow> 'k tx_builder \<Rightarrow> wallet_request list \<Rightarrow> rat \<Rightarrow> 'k build_outcome" where
  "build_wallet_tx cr b reqs fee_rate =
    (case params_from_requests reqs fee_rate of
       Inl e \<Rightarrow> (Inl e, b)
     | Inr p \<Rightarrow> build_tx_inner cr b p None)"

definition build_wallet_tx_with_options ::
    "'k crates \<Rightarrow> 'k tx_builder \<Rightarrow> wallet_request list \<Rightarrow> rat \<Rightarrow> build_options \<Rightarrow> 'k build_outcome" where
  "build_wallet_tx_with_options cr b reqs fee_rate opts =
    (case params_from_requests reqs fee_rate of
       Inl e \<Rightarrow> (Inl e, b)
     | Inr p \<Rightarrow> build_tx_inner_with_options cr b p None opts)"

definition build_wallet_tx_with_rbf ::
    "'k crates \<Rightarrow> 'k tx_builder \<Rightarrow> wallet_request list \<Rightarrow> rat \<Rightarrow> rbf_fee_context \<Rightarrow> 'k build_outcome" where
  "build_wallet_tx_with_rbf cr b reqs fee_rate rbf =
    (case params_from_requests reqs fee_rate of
       Inl e \<Rightarrow> (Inl e, b)
     | Inr p \<Rightarrow> build_tx_inner cr b p (Some rbf))"

definition build_wallet_tx_with_rbf_and_options ::
    "'k crates \<Rightarrow> 'k tx_builder \<Rightarrow> wallet_request list \<Rightarrow> rat \<Rightarrow> rbf_fee_context \<Rightarrow> build_options \<Rightarrow>
     'k build_outcome" where
  "build_wallet_tx_with_rbf_and_options cr b reqs fee_rate rbf opts =
    (case params_from_requests reqs fee_rate of
       Inl e \<Rightarrow> (Inl e, b)
     | Inr p \<Rightarrow> build_tx_inner_with_options cr b p (Some rbf) opts)"

section \<open>The shape of a built transaction\<close>

lemma same_skeleton_prevouts:
  assumes "same_skeleton tx tx'"
  shows "map in_previous_output (tx_input tx') = map in_previous_output (tx_input tx)" "tx_output tx' = tx_output tx"
proof -
  have "map in_previous_output xs = map in_previous_output (map (in_witness_update (\<lambda>_. [])) xs)" for xs
    by simp
  with assms show "map in_previous_output (tx_input tx') = map in_previous_output (tx_input tx)"
    unfolding same_skeleton_def by metis
qed (use assms in \<open>simp add: same_skeleton_def\<close>)

text \<open>The outputs a transaction for \<open>p\<close> must have: one per paired spend, at its index, then the sends.\<close>

definition paired_outputs :: "adaptor_params \<Rightarrow> tx_out list" where
  "paired_outputs p = [\<lparr>out_value = sr_amount r, out_script_pubkey = addr_script (sr_address r)\<rparr>.
     s \<leftarrow> ap_sacps p, r \<leftarrow> (case sp_recipient s of None \<Rightarrow> [] | Some r \<Rightarrow> [r])]"

definition change_outputs :: "'k tx_adaptor \<Rightarrow> u64 \<Rightarrow> tx_out list" where
  "change_outputs a change =
    (if DUST_LIMIT < change
     then [\<lparr>out_value = change, out_script_pubkey = addr_script (bw_address (ta_wallet a))\<rparr>] else [])"

lemma try_map_sacp_output:
  "try_map sacp_output ss = Inr outs \<Longrightarrow>
    outs = [\<lparr>out_value = sr_amount r, out_script_pubkey = addr_script (sr_address r)\<rparr>.
      s \<leftarrow> ss, r \<leftarrow> (case sp_recipient s of None \<Rightarrow> [] | Some r \<Rightarrow> [r])] \<and> length outs = length ss"
  by (induction ss arbitrary: outs) (auto simp: try_simps sacp_output_def split: option.splits)

lemma tx_build_shape:
  assumes "tx_build cr a p covers change = Inr tx"
  shows "map in_previous_output (tx_input tx) =
      map sp_outpoint (ap_sacps p) @ map sp_outpoint (ap_spends p) @ map cu_outpoint covers"
    and "tx_output tx = paired_outputs p @ map send_output (ap_sends p) @ change_outputs a change"
    and "length (paired_outputs p) = length (ap_sacps p)"
    and "tx_version tx = 2" "tx_lock_time tx = 0"
proof -
  obtain paired where m: "try_map sacp_output (ap_sacps p) = Inr paired"
    and s: "sign cr a \<lparr>tx_version = 2, tx_lock_time = 0,
        tx_input = map spend_input (ap_sacps p) @ map spend_input (ap_spends p) @ map cover_input covers,
        tx_output = paired @ map send_output (ap_sends p) @ change_outputs a change\<rparr> p covers = Inr tx"
    using assms by (auto simp: tx_build_def try_simps Let_def change_outputs_def)
  have paired: "paired = paired_outputs p" "length paired = length (ap_sacps p)"
    using try_map_sacp_output[OF m] unfolding paired_outputs_def by blast+
  note sk = sign_skeleton[OF s]
  show "map in_previous_output (tx_input tx) =
      map sp_outpoint (ap_sacps p) @ map sp_outpoint (ap_spends p) @ map cu_outpoint covers"
    using same_skeleton_prevouts(1)[OF sk] by (simp add: spend_input_def cover_input_def comp_def)
  show "tx_output tx = paired_outputs p @ map send_output (ap_sends p) @ change_outputs a change"
    "length (paired_outputs p) = length (ap_sacps p)" "tx_version tx = 2" "tx_lock_time tx = 0"
    using same_skeleton_prevouts(2)[OF sk] sk paired by (simp_all add: same_skeleton_def)
qed

section \<open>The provider keeps its mandatory inputs\<close>

text \<open>
  What the documentation of the crates and of Esplora promises: deserialising a serialised
  transaction gives it back, and one answer lists no output twice.
\<close>

definition codec_ok :: "'k crates \<Rightarrow> bool" where
  "codec_ok cr = (\<forall>tx. deserialize_tx cr (serialize_tx cr tx) = Inr tx)"

definition electrs_ok :: "'k crates \<Rightarrow> electrs_client \<Rightarrow> bool" where
  "electrs_ok cr el = (\<forall>n addr us. el_address_utxos el n addr = Inr us \<longrightarrow>
     distinct (map (\<lambda>u. (txid_from_str cr (eu_txid u), eu_vout u)) us))"

definition same_client :: "electrs_client \<Rightarrow> electrs_client \<Rightarrow> bool" where
  "same_client el el' = (el_address_utxos el' = el_address_utxos el \<and> el_block_height el' = el_block_height el
     \<and> el_clock el \<le> el_clock el')"

lemma electrs_ok_cong: "same_client el el' \<Longrightarrow> electrs_ok cr el' = electrs_ok cr el"
  by (simp add: same_client_def electrs_ok_def)

text \<open>
  The selection is the carried inputs, then inputs added for fees, then the lineage prevout; the
  added ones are new, and none of them is reserved.
\<close>

definition prevout_list :: "cover_utxo option \<Rightarrow> cover_utxo list" where
  "prevout_list prevout = (case prevout of None \<Rightarrow> [] | Some u \<Rightarrow> [u])"

definition cover_ok ::
    "'k crates \<Rightarrow> electrs_client \<Rightarrow> adaptor_params \<Rightarrow> cover_utxo list \<Rightarrow> cover_utxo option \<Rightarrow> outpoint list \<Rightarrow>
     btc_cover \<Rightarrow> bool" where
  "cover_ok cr el p carried prevout ignored c =
    (codec_ok cr
     \<and> bc_must_include c = carried @ prevout_list prevout
     \<and> bc_lineage_prevout c = map_option cu_outpoint prevout
     \<and> bc_ignored_outpoints c = ignored
     \<and> (\<exists>el'. bc_electrs c = Some el' \<and> same_client el el')
     \<and> (\<exists>extra. bc_selected c = carried @ extra @ prevout_list prevout
          \<and> cu_outpoint ` set extra \<inter> set ignored = {}
          \<and> cu_outpoint ` set extra \<inter> set (mandatory_outpoints p carried prevout) = {}
          \<and> (electrs_ok cr el \<longrightarrow> distinct (map cu_outpoint extra))))"

lemma distinct_subseq: "subseq xs ys \<Longrightarrow> distinct ys \<Longrightarrow> distinct xs"
  by (auto simp: subseq_conv_nths)

lemma electrs_cover_cases:
  "electrs_cover txid_of c all u = Inr mid \<Longrightarrow> mid = all \<or>
    (\<exists>v. mid = all @ [v] \<and> cu_outpoint v \<notin> set (bc_ignored_outpoints c)
      \<and> txid_of (eu_txid u) = Inr (op_txid (cu_outpoint v)) \<and> eu_vout u = op_vout (cu_outpoint v))"
  by (auto simp: electrs_cover_def Let_def split: sum.splits if_splits)

lemma electrs_cover_fold:
  assumes "try_fold (electrs_cover txid_of c) all us = Inr all'"
  shows "\<exists>vs ws. all' = all @ vs \<and> cu_outpoint ` set vs \<inter> set (bc_ignored_outpoints c) = {}
    \<and> subseq ws us \<and> list_all2 (\<lambda>v w. txid_of (eu_txid w) = Inr (op_txid (cu_outpoint v)) \<and> eu_vout w = op_vout (cu_outpoint v)) vs ws"
  using assms
proof (induction us arbitrary: all)
  case Nil
  then show ?case by (auto intro!: exI[of _ "[]"])
next
  case (Cons u us)
  then obtain mid where mid: "electrs_cover txid_of c all u = Inr mid" "try_fold (electrs_cover txid_of c) mid us = Inr all'"
    by (auto simp: try_simps)
  from Cons.IH[OF mid(2)] obtain vs ws where IH: "all' = mid @ vs"
      "cu_outpoint ` set vs \<inter> set (bc_ignored_outpoints c) = {}" "subseq ws us"
      "list_all2 (\<lambda>v w. txid_of (eu_txid w) = Inr (op_txid (cu_outpoint v)) \<and> eu_vout w = op_vout (cu_outpoint v)) vs ws"
    by blast
  consider "mid = all" | v where "mid = all @ [v]" "cu_outpoint v \<notin> set (bc_ignored_outpoints c)"
      "txid_of (eu_txid u) = Inr (op_txid (cu_outpoint v))" "eu_vout u = op_vout (cu_outpoint v)"
    using electrs_cover_cases[OF mid(1)] by blast
  then show ?case
  proof cases
    case 1
    with IH show ?thesis by (intro exI[of _ vs] exI[of _ ws]) auto
  next
    case 2
    with IH show ?thesis by (intro exI[of _ "v # vs"] exI[of _ "u # ws"]) auto
  qed
qed

lemma merge_must_include_fold:
  "\<exists>ms. foldl merge_must_include all us = all @ ms \<and> set ms \<subseteq> set us"
proof (induction us arbitrary: all)
  case (Cons u us)
  from Cons[of "merge_must_include all u"] obtain ms where
    "foldl merge_must_include (merge_must_include all u) us = merge_must_include all u @ ms" "set ms \<subseteq> set us" by blast
  moreover obtain ls where "merge_must_include all u = all @ ls" "set ls \<subseteq> {u}"
    using that[of "[]"] that[of "[u]"]
    by (cases "\<exists>a \<in> set all. cu_outpoint a = cu_outpoint u") (auto simp: merge_must_include_def)
  ultimately show ?case by (intro exI[of _ "ls @ ms"]) auto
qed simp

lemma distinct_outpoints:
  fixes txid_of :: "string \<Rightarrow> (string, txid) result"
  assumes "list_all2 (\<lambda>v w. txid_of (eu_txid w) = Inr (op_txid (cu_outpoint v)) \<and> eu_vout w = op_vout (cu_outpoint v)) vs ws"
    and "distinct (map (\<lambda>u. (txid_of (eu_txid u), eu_vout u)) ws)"
  shows "distinct (map cu_outpoint vs)"
proof -
  have "map (\<lambda>u. (txid_of (eu_txid u), eu_vout u)) ws = map (\<lambda>op. (Inr (op_txid op), op_vout op)) (map cu_outpoint vs)"
    using assms(1) by (induction rule: list_all2_induct) auto
  with assms(2) have "distinct (map (\<lambda>op. (Inr (op_txid op) :: (string, txid) result, op_vout op)) (map cu_outpoint vs))"
    by simp
  then show ?thesis unfolding distinct_map[of _ "map cu_outpoint vs"] by blast
qed

text \<open>What \<open>available\<close> offers: nothing selected, nothing the transaction spends, nothing reserved.\<close>

lemma cover_available_spec:
  assumes "cover_available txid_of c tx = (Inr us, c')" "set (bc_must_include c) \<subseteq> set (bc_selected c)"
  shows "cu_outpoint ` set us \<inter> set (bc_ignored_outpoints c) = {}
    \<and> cu_outpoint ` set us \<inter> cu_outpoint ` set (bc_selected c) = {}
    \<and> cu_outpoint ` set us \<inter> in_previous_output ` set (tx_input tx) = {}
    \<and> (\<exists>el utxos. bc_electrs c = Some el \<and> el_address_utxos el (el_clock el) (addr_text (bc_address c)) = Inr utxos
        \<and> (distinct (map (\<lambda>u. (txid_of (eu_txid u), eu_vout u)) utxos) \<longrightarrow> distinct (map cu_outpoint us)))"
proof -
  obtain el utxos height el1 el2 all where
    el: "bc_electrs c = Some el" "get_address_utxos el (addr_text (bc_address c)) = (Inr utxos, el1)"
      "get_block_height el1 = (Inr height, el2)"
    and f: "try_fold (electrs_cover txid_of c) [] (filter (\<lambda>u. is_confirmed_utxo u height) utxos) = Inr all"
    and us: "us = usable_covers c tx (foldl merge_must_include all (bc_must_include c))"
    using assms(1) by (auto simp: cover_available_def try_simps split: option.splits prod.splits sum.splits)
  obtain vs ws where vs: "all = vs" "cu_outpoint ` set vs \<inter> set (bc_ignored_outpoints c) = {}"
      "subseq ws (filter (\<lambda>u. is_confirmed_utxo u height) utxos)"
      "list_all2 (\<lambda>v w. txid_of (eu_txid w) = Inr (op_txid (cu_outpoint v)) \<and> eu_vout w = op_vout (cu_outpoint v)) vs ws"
    using electrs_cover_fold[OF f] by auto
  obtain ms where ms: "foldl merge_must_include all (bc_must_include c) = all @ ms" "set ms \<subseteq> set (bc_must_include c)"
    using merge_must_include_fold by blast
  have "usable_covers c tx ms = []"
    using ms(2) assms(2) by (auto simp: usable_covers_def filter_empty_conv)
  then have us': "us = usable_covers c tx vs"
    unfolding us using ms(1) unfolding vs(1) by (simp add: usable_covers_def)
  have "distinct (map cu_outpoint us)" if "distinct (map (\<lambda>u. (txid_of (eu_txid u), eu_vout u)) utxos)"
  proof -
    have "subseq ws utxos" using vs(3) by (metis subseq_filter_left subseq_order.order_trans)
    then have "distinct (map (\<lambda>u. (txid_of (eu_txid u), eu_vout u)) ws)"
      using distinct_subseq[OF subseq_map] that by blast
    then have "distinct (map cu_outpoint vs)" by (rule distinct_outpoints[OF vs(4)])
    then show ?thesis by (auto simp: us' usable_covers_def intro: distinct_map_filter)
  qed
  moreover have "set us \<subseteq> set vs" by (auto simp: us' usable_covers_def)
  ultimately show ?thesis
    using vs(2) el by (auto simp: us' usable_covers_def get_address_utxos_def image_iff)
qed

text \<open>\<open>available\<close> changes nothing of the provider but the client's clock.\<close>

lemma cover_available_clock:
  assumes "cover_available txid_of c tx = (r, c')"
  shows "(bc_electrs c = None \<and> c' = c) \<or>
    (\<exists>el n. c' = c\<lparr>bc_electrs := Some (el\<lparr>el_clock := n\<rparr>)\<rparr> \<and> bc_electrs c = Some el \<and> el_clock el \<le> n \<and> n \<le> el_clock el + 2)"
  using assms
  by (auto simp: cover_available_def get_address_utxos_def get_block_height_def
      split: option.splits sum.splits prod.splits)

lemma cover_available_state:
  assumes "cover_available txid_of c tx = (r, c')"
  shows "(bc_electrs c = None \<and> c' = c) \<or>
    (\<exists>el el'. bc_electrs c = Some el \<and> c' = c\<lparr>bc_electrs := Some el'\<rparr> \<and> same_client el el')"
proof -
  have "same_client el (el\<lparr>el_clock := n\<rparr>)" if "el_clock el \<le> n" for el n
    using that by (simp add: same_client_def)
  then show ?thesis using cover_available_clock[OF assms] by blast
qed

lemma cover_add_selected: "set (bc_selected (cover_add c us)) = set (bc_selected c) \<union> set us"
  using set_append[of "take (length (bc_selected c) - 1) (bc_selected c)" "drop (length (bc_selected c) - 1) (bc_selected c)"]
  by (auto simp: cover_add_def Let_def split: option.splits)

lemma cover_add_layout:
  assumes "bc_selected c = carried @ extra @ prevout_list prevout" "bc_lineage_prevout c = map_option cu_outpoint prevout"
  shows "cover_add c us = c\<lparr>bc_selected := carried @ (extra @ us) @ prevout_list prevout\<rparr>"
  using assms by (cases prevout) (simp_all add: cover_add_def prevout_list_def Let_def)

lemma cover_select_subset:
  assumes "cover_select c us needed = Inr vs"
  shows "set vs \<subseteq> set us" "distinct (map cu_outpoint us) \<Longrightarrow> distinct (map cu_outpoint vs)"
proof -
  obtain n where vs: "vs = take n (sort_key (\<lambda>u. - uint (cu_value u)) us)"
    using assms greedy_members[of needed 0 "[]"] by (fastforce simp: cover_select_def)
  show "set vs \<subseteq> set us" using set_take_subset[of n "sort_key (\<lambda>u. - uint (cu_value u)) us"] by (simp add: vs)
  assume "distinct (map cu_outpoint us)"
  then have "distinct (map cu_outpoint (sort_key (\<lambda>u. - uint (cu_value u)) us))"
    by (metis mset_eq_imp_distinct_iff mset_map mset_sort)
  then show "distinct (map cu_outpoint vs)" unfolding vs by (metis distinct_take take_map)
qed

lemma disjoint_mono: "A \<subseteq> A' \<Longrightarrow> B \<subseteq> B' \<Longrightarrow> A' \<inter> B' = {} \<Longrightarrow> A \<inter> B = {}"
  by blast

lemma cover_ok_add:
  assumes ok: "cover_ok cr el p carried prevout ignored c"
    and build: "tx_build cr a p (bc_selected c) change = Inr tx"
    and avail: "cover_available (txid_from_str cr) c tx = (Inr us, c')"
    and sel: "cover_select c' us needed = Inr vs"
  shows "cover_ok cr el p carried prevout ignored (cover_add c' vs)"
proof -
  from ok obtain extra el1 where c: "bc_selected c = carried @ extra @ prevout_list prevout"
      "cu_outpoint ` set extra \<inter> set ignored = {}"
      "cu_outpoint ` set extra \<inter> set (mandatory_outpoints p carried prevout) = {}"
      "electrs_ok cr el \<longrightarrow> distinct (map cu_outpoint extra)"
    and el1: "bc_electrs c = Some el1" "same_client el el1"
    by (auto simp: cover_ok_def)
  from ok have plain: "codec_ok cr" "bc_must_include c = carried @ prevout_list prevout"
      "bc_lineage_prevout c = map_option cu_outpoint prevout" "bc_ignored_outpoints c = ignored"
    by (simp_all add: cover_ok_def)
  from cover_available_state[OF avail] el1 obtain el2 where el2: "same_client el1 el2" "c' = c\<lparr>bc_electrs := Some el2\<rparr>"
    by auto
  have sub: "set (bc_must_include c) \<subseteq> set (bc_selected c)" by (auto simp: c(1) plain(2))
  note spec = cover_available_spec[OF avail sub]
  have inputs: "in_previous_output ` set (tx_input tx) =
      set (map sp_outpoint (ap_sacps p) @ map sp_outpoint (ap_spends p) @ map cu_outpoint (bc_selected c))"
    using tx_build_shape(1)[OF build] by (metis list.set_map)
  have "distinct (map cu_outpoint us)" if "electrs_ok cr el"
    using spec that el1 electrs_ok_cong[OF el1(2), of cr] by (auto simp: electrs_ok_def)
  then have d: "electrs_ok cr el \<longrightarrow> distinct (map cu_outpoint vs)" using cover_select_subset(2)[OF sel] by blast
  have mand: "set (mandatory_outpoints p carried prevout) \<union> cu_outpoint ` set extra \<subseteq> in_previous_output ` set (tx_input tx)"
    unfolding inputs c(1) by (auto simp: mandatory_outpoints_def prevout_list_def split: option.splits)
  have fresh: "cu_outpoint ` set us \<inter> set ignored = {}" "cu_outpoint ` set us \<inter> in_previous_output ` set (tx_input tx) = {}"
    using spec by (simp_all add: plain)
  have vs: "cu_outpoint ` set vs \<subseteq> cu_outpoint ` set us" using cover_select_subset(1)[OF sel] by blast
  have new: "cu_outpoint ` set vs \<inter> set ignored = {}"
      "cu_outpoint ` set vs \<inter> (set (mandatory_outpoints p carried prevout) \<union> cu_outpoint ` set extra) = {}"
    by (rule disjoint_mono[OF vs _ fresh(1)], simp, rule disjoint_mono[OF vs mand fresh(2)])
  have add: "cover_add c' vs = c'\<lparr>bc_selected := carried @ (extra @ vs) @ prevout_list prevout\<rparr>"
    by (rule cover_add_layout) (simp_all add: c(1) plain(3) el2(2))
  have client: "same_client el el2" using el1(2) el2(1) by (auto simp: same_client_def)
  show ?thesis
    unfolding add cover_ok_def using plain c(2-4) new d client el2(2)
    by (simp add: image_Un Int_Un_distrib2) blast
qed

lemma cover_ok_available:
  assumes "cover_ok cr el p carried prevout ignored c" "cover_available txid_of c tx = (r, c')"
  shows "cover_ok cr el p carried prevout ignored c' \<and> bc_selected c' = bc_selected c"
  using cover_available_state[OF assms(2)] assms(1) by (auto simp: cover_ok_def same_client_def)

text \<open>The Bitcoin adaptor and provider satisfy the contract of the fee loop.\<close>

interpretation btc: fee_builder "btc_adaptor cr a" "btc_provider (txid_from_str cr)" p
    "cover_ok cr el p carried prevout ignored"
  for cr a p el carried prevout ignored
proof (unfold_locales, goal_cases)
  case (1 c change tx bs)
  then show ?case by (auto simp: cover_ok_def codec_ok_def tx_encode_def tx_decode_def)
next
  case (2 c tx r c')
  then show ?case using cover_ok_available[of cr el p carried prevout ignored c] by simp
next
  case (3 c change tx us c' needed extra)
  then show ?case using cover_ok_add[of cr el p carried prevout ignored c a change tx us c' needed extra] by simp
next
  case (4 c us)
  then show ?case using cover_add_selected by simp
qed

end
