(* ===== verification/TxBuilderProps.thy ===== *)
theory TxBuilderProps
  imports TxBuilder "HOL-Library.Countable"
begin

text \<open>
  The theorems of the transaction builder: what a returned receipt guarantees of its
  transaction, how its fee was fixed, how often Electrs is asked, and the selection of inputs.
\<close>

section \<open>Receipts\<close>

definition builder_adaptor :: "'k tx_builder \<Rightarrow> rbf_fee_context option \<Rightarrow> 'k tx_adaptor" where
  "builder_adaptor b rbf = with_rbf_context (adaptor_new (tb_wallet b) (tb_network b)) rbf"

abbreviation builder_cover :: "'k tx_builder \<Rightarrow> build_options \<Rightarrow> btc_cover" where
  "builder_cover b opts \<equiv> cover_new (bw_address (tb_wallet b)) (tb_electrs b) (tb_inflight_cover_utxos b)
     (bo_lineage_prevout opts) (bo_ignored_cover_outpoints opts)"

lemma cover_new_ok:
  "codec_ok cr \<Longrightarrow> cover_ok cr (tb_electrs b) p (tb_inflight_cover_utxos b) (bo_lineage_prevout opts)
    (bo_ignored_cover_outpoints opts) (builder_cover b opts)"
  by (auto simp: cover_ok_def cover_new_def prevout_list_def same_client_def Let_def
      intro!: exI[of _ "[]"] split: option.splits)

lemma build_receipt_inv:
  assumes "build_tx_inner_with_options cr b p rbf opts = (Inr rc, b')"
  obtains res cover' where
    "distinct (mandatory_outpoints p (tb_inflight_cover_utxos b) (bo_lineage_prevout opts))"
    "build_with_fee_floor (btc_adaptor cr (builder_adaptor b rbf)) (btc_provider (txid_from_str cr)) p
       (builder_cover b opts) (bo_min_change_value opts) (bo_min_change_value opts) = (Inr res, cover')"
    "rc = \<lparr>bt_tx = fr_tx res, bt_fee_paid_sats = fr_fee_paid_sats res,
       bt_cover_utxos = selected_cover_utxos cover', bt_lineage_prevout = selected_lineage_prevout cover'\<rparr>"
  using assms
  by (auto simp: build_tx_inner_with_options_def build_with_min_change_def builder_adaptor_def try_simps
      Let_def validate_unique_iff split: sum.splits prod.splits)

lemma selected_parts:
  assumes "cover_ok cr el p carried prevout ignored c" "bc_selected c = carried @ extra @ prevout_list prevout"
  shows "selected_cover_utxos c = carried @ extra" "selected_lineage_prevout c = prevout"
  using assms
  by (auto simp: cover_ok_def selected_cover_utxos_def selected_lineage_prevout_def prevout_list_def split: option.splits)

text \<open>
  The covers \<open>extra\<close> a transaction took for its fee, beyond those it must carry: new, distinct,
  and none of them reserved.
\<close>

definition fee_covers :: "'k crates \<Rightarrow> 'k tx_builder \<Rightarrow> adaptor_params \<Rightarrow> build_options \<Rightarrow> cover_utxo list \<Rightarrow> bool" where
  "fee_covers cr b p opts extra =
    (cu_outpoint ` set extra \<inter> set (bo_ignored_cover_outpoints opts) = {}
     \<and> cu_outpoint ` set extra \<inter> set (mandatory_outpoints p (tb_inflight_cover_utxos b) (bo_lineage_prevout opts)) = {}
     \<and> (electrs_ok cr (tb_electrs b) \<longrightarrow> distinct (map cu_outpoint extra)))"

lemma receipt_facts:
  assumes "codec_ok cr" "build_tx_inner_with_options cr b p rbf opts = (Inr rc, b')"
  obtains extra extra' change target where
    "tx_build cr (builder_adaptor b rbf) p
       (tb_inflight_cover_utxos b @ extra @ prevout_list (bo_lineage_prevout opts)) change = Inr (bt_tx rc)"
    "bo_min_change_value opts \<le> change"
    "fee_covers cr b p opts extra" "set extra \<subseteq> set extra'" "fee_covers cr b p opts extra'"
    "bt_cover_utxos rc = tb_inflight_cover_utxos b @ extra'" "bt_lineage_prevout rc = bo_lineage_prevout opts"
    "\<And>c. bc_selected c = tb_inflight_cover_utxos b @ extra @ prevout_list (bo_lineage_prevout opts) \<Longrightarrow>
       tx_current p c (bt_tx rc) = Inr (bt_fee_paid_sats rc)"
    "0 \<le> sint (bt_fee_paid_sats rc)"
    "tx_target cr (builder_adaptor b rbf) p (bt_tx rc) = Inr target"
    "bt_fee_paid_sats rc = target \<or> 0 < sint (bt_fee_paid_sats rc - target)
      \<or> (\<exists>covers change' tx'. tx_build cr (builder_adaptor b rbf) p covers change' = Inr tx'
           \<and> length (serialize_tx cr tx') < length (serialize_tx cr (bt_tx rc))
           \<and> length (serialize_tx cr (bt_tx rc)) \<le> length (serialize_tx cr tx') + SIZE_TOLERANCE)"
proof -
  let ?carried = "tb_inflight_cover_utxos b" and ?prev = "bo_lineage_prevout opts"
  let ?ok = "cover_ok cr (tb_electrs b) p ?carried ?prev (bo_ignored_cover_outpoints opts)"
  obtain res c where res: "build_with_fee_floor (btc_adaptor cr (builder_adaptor b rbf)) (btc_provider (txid_from_str cr)) p
       (builder_cover b opts) (bo_min_change_value opts) (bo_min_change_value opts) = (Inr res, c)"
    and rc: "rc = \<lparr>bt_tx = fr_tx res, bt_fee_paid_sats = fr_fee_paid_sats res,
       bt_cover_utxos = selected_cover_utxos c, bt_lineage_prevout = selected_lineage_prevout c\<rparr>"
    using build_receipt_inv[OF assms(2)] by blast
  note good = btc.build_with_fee_floor_candidate[OF cover_new_ok[OF assms(1)] order_refl res]
  from good have okc: "?ok c" by blast
  from good obtain d where cand: "is_candidate (btc_adaptor cr (builder_adaptor b rbf)) (btc_provider (txid_from_str cr)) p d"
    and d5: "?ok (cd_cover d)" and d6: "bo_min_change_value opts \<le> cd_change d"
    and d7: "set (bc_selected (cd_cover d)) \<subseteq> set (bc_selected c)"
    and d8: "res = result_of d" and d9: "0 \<le> sint (cd_current d)"
    and how: "priced (btc_adaptor cr (builder_adaptor b rbf)) (btc_provider (txid_from_str cr)) p d"
    unfolding btc_provider_simps by blast
  note d = cand[unfolded is_candidate_def btc_adaptor_simps btc_provider_simps]
  from d5 obtain extra where extra: "bc_selected (cd_cover d) = ?carried @ extra @ prevout_list ?prev"
      "fee_covers cr b p opts extra" by (auto simp: cover_ok_def fee_covers_def)
  from okc obtain extra' where extra': "bc_selected c = ?carried @ extra' @ prevout_list ?prev"
      "fee_covers cr b p opts extra'" by (auto simp: cover_ok_def fee_covers_def)
  have sub: "set extra \<subseteq> set extra'"
  proof
    fix u assume u: "u \<in> set extra"
    then have "u \<in> set (?carried @ extra' @ prevout_list ?prev)" using d7 by (auto simp: extra(1) extra'(1))
    moreover have "cu_outpoint u \<notin> set (mandatory_outpoints p ?carried ?prev)" using extra(2) u by (auto simp: fee_covers_def)
    ultimately show "u \<in> set extra'" by (auto simp: mandatory_outpoints_def prevout_list_def split: option.splits)
  qed
  have rc': "bt_tx rc = cd_tx d" "bt_fee_paid_sats rc = cd_current d"
      "bt_cover_utxos rc = ?carried @ extra'" "bt_lineage_prevout rc = ?prev"
    using rc d8 selected_parts[OF okc extra'(1)] by (simp_all add: result_of_def)
  have current: "tx_current p c' (cd_tx d) = Inr (cd_current d)"
    if "bc_selected c' = ?carried @ extra @ prevout_list ?prev" for c'
    using d that by (simp add: tx_current_def extra(1))
  show thesis
  proof (rule that[of extra "cd_change d" extra' "cd_target d"])
    show "bt_fee_paid_sats rc = cd_target d \<or> 0 < sint (bt_fee_paid_sats rc - cd_target d)
      \<or> (\<exists>covers change' tx'. tx_build cr (builder_adaptor b rbf) p covers change' = Inr tx'
           \<and> length (serialize_tx cr tx') < length (serialize_tx cr (bt_tx rc))
           \<and> length (serialize_tx cr (bt_tx rc)) \<le> length (serialize_tx cr tx') + SIZE_TOLERANCE)"
      using how d unfolding rc' by (force simp: priced_def is_candidate_def tx_encode_def size_stable_def)
  qed (use d d6 d9 extra(1,2) extra'(2) sub current rc' in \<open>simp_all\<close>)
qed

section \<open>Balance\<close>

lemma mod_shift:
  fixes a b :: int
  shows "0 \<le> a \<Longrightarrow> a < 2 ^ 63 \<Longrightarrow> 0 \<le> b \<Longrightarrow> b < 2 ^ 63 \<Longrightarrow> (a - b + 2 ^ 63) mod 2 ^ 64 - 2 ^ 63 = a - b"
  by (subst mod_pos_pos_trivial) auto

lemma sint_diff:
  fixes x y :: u64
  assumes "unat x < 2 ^ 63" "unat y < 2 ^ 63"
  shows "sint (x - y) = int (unat x) - int (unat y)"
proof -
  have "int (unat x) < int (2 ^ 63)" "int (unat y) < int (2 ^ 63)" using assms by (simp_all only: of_nat_less_iff)
  then have b: "0 \<le> uint x" "uint x < 2 ^ 63" "0 \<le> uint y" "uint y < 2 ^ 63" by simp_all
  have "sint (x - y) = sint (word_of_int (uint x - uint y) :: u64)" by simp
  also have "\<dots> = (uint x - uint y + 2 ^ (LENGTH(64) - 1)) mod 2 ^ LENGTH(64) - 2 ^ (LENGTH(64) - 1)"
    by (rule int_word_sint)
  also have "\<dots> = uint x - uint y" using mod_shift[OF b] by simp
  finally show ?thesis by simp
qed

text \<open>What the mandatory inputs and some covers are worth, and what the outputs take.\<close>

definition inputs_value :: "adaptor_params \<Rightarrow> cover_utxo list \<Rightarrow> nat" where
  "inputs_value p covers = sum_list (map (unat \<circ> sp_value) (ap_sacps p)) + sum_list (map (unat \<circ> sp_value) (ap_spends p)) + total covers"

definition outputs_value :: "transaction \<Rightarrow> nat" where
  "outputs_value tx = sum_list (map (unat \<circ> out_value) (tx_output tx))"

lemma tx_current_balance:
  assumes "tx_current p c tx = Inr fee" "0 \<le> sint fee"
    "inputs_value p (bc_selected c) < 2 ^ 63" "outputs_value tx < 2 ^ 63"
  shows "inputs_value p (bc_selected c) = outputs_value tx + unat fee"
proof -
  let ?i = "sum_u64 (map sp_value (ap_sacps p)) + sum_u64 (map sp_value (ap_spends p)) + sum_u64 (map cu_value (bc_selected c))"
  let ?o = "sum_u64 (map out_value (tx_output tx))"
  have "unat (sum_u64 (map sp_value (ap_sacps p))) = sum_list (map (unat \<circ> sp_value) (ap_sacps p))"
    "unat (sum_u64 (map sp_value (ap_spends p))) = sum_list (map (unat \<circ> sp_value) (ap_spends p))"
    "unat (sum_u64 (map cu_value (bc_selected c))) = total (bc_selected c)"
    using assms(3) by (subst unat_sum_u64; simp add: inputs_value_def total_def comp_def)+
  moreover from this have "unat ?i = inputs_value p (bc_selected c)"
    using assms(3) by (simp add: unat_add_if_fits inputs_value_def)
  moreover have "unat ?o = outputs_value tx"
    using assms(4) by (subst unat_sum_u64; simp add: outputs_value_def comp_def)
  ultimately have "sint (?i - ?o) = int (inputs_value p (bc_selected c)) - int (outputs_value tx)"
    using assms(3,4) by (simp add: sint_diff)
  moreover have fee: "fee = ?i - ?o" using assms(1) by (simp add: tx_current_def Let_def)
  ultimately have le: "outputs_value tx \<le> inputs_value p (bc_selected c)" using assms(2) by simp
  then have "unat fee = inputs_value p (bc_selected c) - outputs_value tx"
    unfolding fee using \<open>unat ?i = _\<close> \<open>unat ?o = _\<close> by (simp add: unat_sub word_le_nat_alt)
  with le show ?thesis by simp
qed

section \<open>Fees of replacements and queries\<close>

lemma ceil_u64_ge: "unat (ceil_u64 x) = 2 ^ 64 - 1 \<or> x \<le> of_nat (unat (ceil_u64 x))"
proof (cases "\<lceil>x\<rceil> < 2 ^ 64 - 1")
  case True
  let ?c = "max 0 (min (2 ^ 64 - 1) \<lceil>x\<rceil>)"
  have "uint (ceil_u64 x) = ?c" using True by (simp add: ceil_u64_def uint_word_of_int)
  then have "int (unat (ceil_u64 x)) = max 0 \<lceil>x\<rceil>" using True by simp
  moreover have "x \<le> of_int (max 0 \<lceil>x\<rceil>)" by (metis ceiling_le_iff max.cobounded2)
  ultimately show ?thesis by (metis of_int_of_nat_eq)
next
  case False
  then have "ceil_u64 x = word_of_int (2 ^ 64 - 1)" by (simp add: ceil_u64_def)
  then show ?thesis by simp
qed

lemma max_word_cases: "max a b = a \<or> max a b = (b :: u64)"
  by (simp add: max_def)

lemma tx_target_rbf:
  assumes "ta_rbf_context a = Some rbf" "tx_target cr a p tx = Inr target" "unat target \<noteq> 2 ^ 64 - 1"
  defines "vs \<equiv> u64_rat (estimate_vsize cr tx + 1)"
  shows "(rc_previous_fee_rate rbf + 1 / 1000) * vs \<le> u64_rat target"
    "u64_rat (rc_previous_total_fee rbf) + u64_rat (rc_descendant_fee rbf) + vs \<le> u64_rat target"
    "ap_fee_rate p * vs \<le> u64_rat target"
proof -
  define f1 f2 f3 where "f1 = (rc_previous_fee_rate rbf + 1 / 1000) * vs"
    and "f2 = u64_rat (rc_previous_total_fee rbf) + u64_rat (rc_descendant_fee rbf) + vs"
    and "f3 = ap_fee_rate p * vs"
  have t: "target = max (max (ceil_u64 f1) (ceil_u64 f2)) (ceil_u64 f3)"
    using assms(1,2) by (simp add: tx_target_def Let_def f1_def f2_def f3_def vs_def)
  have le: "x \<le> u64_rat target" if "ceil_u64 x \<le> target" for x
  proof -
    have "unat target < 2 ^ 64" using unsigned_less[of target] by simp
    moreover have "unat (ceil_u64 x) \<le> unat target" using that by (simp add: word_le_nat_alt)
    ultimately have "x \<le> of_nat (unat (ceil_u64 x))" using ceil_u64_ge[of x] assms(3) by linarith
    also have "\<dots> \<le> u64_rat target" using \<open>unat (ceil_u64 x) \<le> unat target\<close> unfolding u64_rat_def by (simp only: of_nat_le_iff)
    finally show ?thesis .
  qed
  have "ceil_u64 f1 \<le> target" "ceil_u64 f2 \<le> target" "ceil_u64 f3 \<le> target" unfolding t by (simp_all add: le_max_iff_disj)
  from this[THEN le] show "(rc_previous_fee_rate rbf + 1 / 1000) * vs \<le> u64_rat target"
    "u64_rat (rc_previous_total_fee rbf) + u64_rat (rc_descendant_fee rbf) + vs \<le> u64_rat target"
    "ap_fee_rate p * vs \<le> u64_rat target"
    by (simp_all add: f1_def f2_def f3_def)
qed

lemma cost_of_build:
  assumes "build_with_fee_floor adaptor (btc_provider txid_of) p c ch lo = (r, c')" "bc_electrs c = Some el"
  shows "(case bc_electrs c' of None \<Rightarrow> 0 | Some el' \<Rightarrow> el_clock el') \<le> el_clock el + 2 * MAX_ITERATIONS"
proof -
  let ?cost = "\<lambda>c. case bc_electrs c of None \<Rightarrow> 0 | Some el \<Rightarrow> el_clock el"
  have "?cost (snd (fee_loop adaptor (btc_provider txid_of) p lo MAX_ITERATIONS s)) \<le> ?cost (fl_cover s) + 2 * MAX_ITERATIONS" for s
  proof (rule fee_loop_cost)
    show "?cost c' \<le> ?cost c + 2" if "available (btc_provider txid_of) c tx = (r, c')" for c tx r c'
      using cover_available_clock[of txid_of c tx r c'] that by auto
    show "?cost (add_utxos (btc_provider txid_of) c us) = ?cost c" for c us
      by (simp add: cover_add_def Let_def split: option.splits)
  qed
  from this[of "\<lparr>fl_change = ch, fl_last_size = None, fl_best_overpay = None,
       fl_best_overpay_delta = word_of_int (2 ^ 63 - 1), fl_cover = c\<rparr>"] show ?thesis
    using assms by (simp add: build_with_fee_floor_def)
qed

section \<open>A concrete builder\<close>

text \<open>A transaction as a tuple, and an injective code: its number in unary.\<close>

definition tx_tuple ::
    "transaction \<Rightarrow> (u32 \<times> u32 \<times> (txid \<times> u32 \<times> script \<times> u32 \<times> bytes list) list \<times> (u64 \<times> script) list)" where
  "tx_tuple tx =
    (tx_version tx, tx_lock_time tx,
     map (\<lambda>i. (op_txid (in_previous_output i), op_vout (in_previous_output i), in_script_sig i, in_sequence i, in_witness i)) (tx_input tx),
     map (\<lambda>out. (out_value out, out_script_pubkey out)) (tx_output tx))"

definition tx_of_tuple ::
    "(u32 \<times> u32 \<times> (txid \<times> u32 \<times> script \<times> u32 \<times> bytes list) list \<times> (u64 \<times> script) list) \<Rightarrow> transaction" where
  "tx_of_tuple = (\<lambda>(v, lt, ins, outs).
    \<lparr>tx_version = v, tx_lock_time = lt,
     tx_input = map (\<lambda>(tx, n, s, sq, w). \<lparr>in_previous_output = \<lparr>op_txid = tx, op_vout = n\<rparr>, in_script_sig = s,
       in_sequence = sq, in_witness = w\<rparr>) ins,
     tx_output = map (\<lambda>(v, s). \<lparr>out_value = v, out_script_pubkey = s\<rparr>) outs\<rparr>)"

lemma tx_of_tuple [simp]: "tx_of_tuple (tx_tuple tx) = tx"
proof -
  have a: "(\<lparr>op_txid = op_txid x, op_vout = op_vout x\<rparr> :: outpoint) = x" for x by (cases x) simp
  have b: "(\<lparr>in_previous_output = in_previous_output i, in_script_sig = in_script_sig i,
      in_sequence = in_sequence i, in_witness = in_witness i\<rparr> :: tx_in) = i" for i by (cases i) simp
  have c: "(\<lparr>out_value = out_value x, out_script_pubkey = out_script_pubkey x\<rparr> :: tx_out) = x" for x by (cases x) simp
  show ?thesis by (cases tx) (simp add: tx_of_tuple_def tx_tuple_def comp_def case_prod_unfold a b c)
qed

definition demo_crates :: "unit crates" where
  "demo_crates =
    \<lparr>hex_decode = \<lambda>s. Inr [], keypair_of_slice = \<lambda>bs. Inr (), x_only_public_key = \<lambda>_. [],
     p2tr = \<lambda>k net. \<lparr>addr_text = ''bcrt1demo'', addr_script = [81]\<rparr>, tap_tweak = id,
     sign_schnorr_raw = \<lambda>m k. [1], serialize_signature = \<lambda>s ty. s, txid_from_str = \<lambda>s. Inr (of_nat (length s)),
     serialize_tx = \<lambda>tx. replicate (to_nat (tx_tuple tx)) 0,
     deserialize_tx = \<lambda>bs. Inr (tx_of_tuple (from_nat (length bs))),
     weight_wu = \<lambda>tx. 400, script_spend_sighash = \<lambda>tx i ps leaf ty. Inr 1, key_spend_sighash = \<lambda>tx i ps ty. Inr 2\<rparr>"

lemma demo_codec_ok: "codec_ok demo_crates"
  by (simp add: codec_ok_def demo_crates_def)

definition demo_electrs :: electrs_client where
  "demo_electrs = \<lparr>el_clock = 0, el_address_utxos = \<lambda>n addr. Inr [], el_block_height = \<lambda>n. Inr 800000\<rparr>"

definition demo_wallet :: "unit bitcoin_wallet" where
  "demo_wallet = \<lparr>bw_keypair = (), bw_x_only_pubkey = [], bw_address = \<lparr>addr_text = ''bcrt1demo'', addr_script = [81]\<rparr>,
     bw_network = Regtest\<rparr>"

definition demo_carried :: cover_utxo where
  "demo_carried = \<lparr>cu_outpoint = \<lparr>op_txid = 7, op_vout = 0\<rparr>, cu_value = 10101, cu_script_pubkey = [81]\<rparr>"

definition demo_builder :: "unit tx_builder" where
  "demo_builder = \<lparr>tb_wallet = demo_wallet, tb_electrs = demo_electrs, tb_network = Regtest,
     tb_inflight_cover_utxos = [demo_carried]\<rparr>"

definition demo_send :: send_request where
  "demo_send = \<lparr>sr_address = \<lparr>addr_text = ''bcrt1payee'', addr_script = [82]\<rparr>, sr_amount = 10000\<rparr>"

definition demo_params :: adaptor_params where
  "demo_params = \<lparr>ap_sacps = [], ap_spends = [], ap_sends = [demo_send], ap_fee_rate = 1\<rparr>"

definition demo_tx :: transaction where
  "demo_tx = \<lparr>tx_version = 2, tx_lock_time = 0,
     tx_input = [\<lparr>in_previous_output = \<lparr>op_txid = 7, op_vout = 0\<rparr>, in_script_sig = [], in_sequence = 0xFFFFFFFD, in_witness = [[1]]\<rparr>],
     tx_output = [\<lparr>out_value = 10000, out_script_pubkey = [82]\<rparr>]\<rparr>"

definition demo_receipt :: build_receipt where
  "demo_receipt = \<lparr>bt_tx = demo_tx, bt_fee_paid_sats = 101, bt_cover_utxos = [demo_carried], bt_lineage_prevout = None\<rparr>"

lemmas demo_defs = demo_crates_def demo_electrs_def demo_wallet_def demo_carried_def demo_builder_def demo_send_def
  demo_params_def demo_tx_def demo_receipt_def

lemma demo_build:
  "tx_build demo_crates (builder_adaptor demo_builder None) demo_params [demo_carried] 546 = Inr demo_tx"
  by (simp add: demo_defs tx_build_def sign_def sign_sacp_inputs_def sign_spend_inputs_def sign_cover_inputs_def
      sign_cover_input_def tb_sighash_def tb_signing_def sign_taproot_key_spend_def set_witness_def cover_input_def
      send_output_def DUST_LIMIT_def ENABLE_RBF_NO_LOCKTIME_def builder_adaptor_def with_rbf_context_def adaptor_new_def)

lemma demo_probe:
  "probe (btc_adaptor demo_crates (builder_adaptor demo_builder None)) (btc_provider (txid_from_str demo_crates)) demo_params
    \<lparr>fl_change = 546, fl_last_size = None, fl_best_overpay = None, fl_best_overpay_delta = word_of_int (2 ^ 63 - 1),
     fl_cover = builder_cover demo_builder default_build_options\<rparr>
   = Inr (demo_tx, 101, 0, serialize_tx demo_crates demo_tx)"
proof -
  have "bc_selected (builder_cover demo_builder default_build_options) = [demo_carried]"
    by (simp add: cover_new_def Let_def demo_builder_def default_build_options_def)
  then show ?thesis
    using demo_build
    by (simp add: probe_def tx_current_def tx_target_def tx_encode_def estimate_vsize_def builder_adaptor_def
        with_rbf_context_def adaptor_new_def ceil_u64_def u64_rat_def demo_defs)
qed

lemma demo_run:
  "build_tx_inner_with_options demo_crates demo_builder demo_params None default_build_options = (Inr demo_receipt, demo_builder)"
proof -
  have valid: "validate_params demo_params = Inr ()" "validate_unique_mandatory_inputs demo_params
      (tb_inflight_cover_utxos demo_builder) (bo_lineage_prevout default_build_options) = Inr ()"
    by (simp_all add: validate_params_def validate_send_def validate_unique_iff mandatory_outpoints_def demo_defs
        default_build_options_def DUST_LIMIT_def)
  have "plan_fee_actions 0 546 546 = [Done]" by (simp add: plan_fee_actions_def)
  then have "build_with_fee_floor (btc_adaptor demo_crates (builder_adaptor demo_builder None)) (btc_provider (txid_from_str demo_crates))
      demo_params (builder_cover demo_builder default_build_options) 546 546
    = (Inr \<lparr>fr_tx = demo_tx, fr_change = 546, fr_fee_paid_sats = 101\<rparr>, builder_cover demo_builder default_build_options)"
    using demo_probe
    by (simp add: build_with_fee_floor_def MAX_ITERATIONS_def eval_nat_numeral fee_iteration_def size_stable_def record_best_def
        apply_action_def u64_try_from_def)
  then show ?thesis
    using valid
    by (simp add: build_tx_inner_with_options_def build_with_min_change_def Let_def default_build_options_def
        default_wallet_config_def DUST_LIMIT_def builder_adaptor_def cover_new_def selected_cover_utxos_def
        selected_lineage_prevout_def demo_receipt_def) (simp add: demo_builder_def)
qed

section \<open>Theorems\<close>

text \<open>C16: A built transaction spends, in this order, the paired spends, the regular spends, the
  carried cover inputs, the inputs added for the fee and the lineage prevout; its outputs are one per
  paired spend at the same index, the sends, and the change. The inputs added are new and none of
  them is reserved; if no answer of Electrs lists an output twice, no input is spent twice.\<close>

theorem built_transaction_layout:
  assumes "codec_ok cr" "build_tx_inner_with_options cr b p rbf opts = (Inr rc, b')"
  shows "\<exists>extra change.
    map in_previous_output (tx_input (bt_tx rc)) =
      map sp_outpoint (ap_sacps p) @ map sp_outpoint (ap_spends p)
      @ map cu_outpoint (tb_inflight_cover_utxos b @ extra @ prevout_list (bo_lineage_prevout opts))
    \<and> tx_output (bt_tx rc) = paired_outputs p @ map send_output (ap_sends p) @ change_outputs (builder_adaptor b rbf) change
    \<and> length (paired_outputs p) = length (ap_sacps p)
    \<and> bo_min_change_value opts \<le> change
    \<and> cu_outpoint ` set extra \<inter> set (bo_ignored_cover_outpoints opts) = {}
    \<and> (electrs_ok cr (tb_electrs b) \<longrightarrow> distinct (map in_previous_output (tx_input (bt_tx rc))))"
proof -
  obtain extra change where build: "tx_build cr (builder_adaptor b rbf) p
       (tb_inflight_cover_utxos b @ extra @ prevout_list (bo_lineage_prevout opts)) change = Inr (bt_tx rc)"
    and lo: "bo_min_change_value opts \<le> change" and fresh: "fee_covers cr b p opts extra"
    using receipt_facts[OF assms] by metis
  have "distinct (mandatory_outpoints p (tb_inflight_cover_utxos b) (bo_lineage_prevout opts))"
    using build_receipt_inv[OF assms(2)] by metis
  then have "electrs_ok cr (tb_electrs b) \<longrightarrow> distinct (map in_previous_output (tx_input (bt_tx rc)))"
    using fresh unfolding tx_build_shape(1)[OF build]
    by (auto simp: fee_covers_def mandatory_outpoints_def prevout_list_def split: option.splits)
  then show ?thesis
    using tx_build_shape[OF build] lo fresh by (auto simp: fee_covers_def intro!: exI[of _ extra] exI[of _ change])
qed

lemma built_transaction_layout_witness:
  "\<exists>extra change.
    map in_previous_output (tx_input demo_tx) = map cu_outpoint ([demo_carried] @ extra)
    \<and> tx_output demo_tx = [send_output demo_send] @ change_outputs (builder_adaptor demo_builder None) change"
  using built_transaction_layout[OF demo_codec_ok demo_run]
  by (auto simp: demo_params_def demo_builder_def demo_receipt_def paired_outputs_def prevout_list_def default_build_options_def)

text \<open>C17: No value is created or lost: what the inputs of a built transaction are worth is what its
  outputs take plus the fee of the receipt, whenever these sums stay below \<open>2^63\<close> (they wrap beyond).\<close>

theorem built_transaction_balances:
  assumes "codec_ok cr" "build_tx_inner_with_options cr b p rbf opts = (Inr rc, b')"
  shows "\<exists>covers. map in_previous_output (tx_input (bt_tx rc)) =
      map sp_outpoint (ap_sacps p) @ map sp_outpoint (ap_spends p) @ map cu_outpoint covers
    \<and> set covers \<subseteq> set (bt_cover_utxos rc) \<union> set (prevout_list (bt_lineage_prevout rc))
    \<and> (inputs_value p covers < 2 ^ 63 \<and> outputs_value (bt_tx rc) < 2 ^ 63 \<longrightarrow>
         inputs_value p covers = outputs_value (bt_tx rc) + unat (bt_fee_paid_sats rc))"
proof -
  obtain extra extra' change where build: "tx_build cr (builder_adaptor b rbf) p
       (tb_inflight_cover_utxos b @ extra @ prevout_list (bo_lineage_prevout opts)) change = Inr (bt_tx rc)"
    and sub: "set extra \<subseteq> set extra'" "bt_cover_utxos rc = tb_inflight_cover_utxos b @ extra'"
      "bt_lineage_prevout rc = bo_lineage_prevout opts"
    and current: "\<And>c. bc_selected c = tb_inflight_cover_utxos b @ extra @ prevout_list (bo_lineage_prevout opts) \<Longrightarrow>
       tx_current p c (bt_tx rc) = Inr (bt_fee_paid_sats rc)"
    and pos: "0 \<le> sint (bt_fee_paid_sats rc)"
    using receipt_facts[OF assms] by metis
  let ?covers = "tb_inflight_cover_utxos b @ extra @ prevout_list (bo_lineage_prevout opts)"
  have "inputs_value p ?covers = outputs_value (bt_tx rc) + unat (bt_fee_paid_sats rc)"
    if "inputs_value p ?covers < 2 ^ 63" "outputs_value (bt_tx rc) < 2 ^ 63"
    using tx_current_balance[OF current pos, of "builder_cover b opts\<lparr>bc_selected := ?covers\<rparr>"] that by simp
  then show ?thesis
    using tx_build_shape(1)[OF build] sub by (intro exI[of _ ?covers]) auto
qed

lemma built_transaction_balances_witness:
  "inputs_value demo_params [demo_carried] = outputs_value demo_tx + 101"
  using built_transaction_balances[OF demo_codec_ok demo_run]
  by (auto simp: demo_defs inputs_value_def outputs_value_def prevout_list_def total_def)

text \<open>C18: The fee a built transaction pays is its target fee or more, unless the loop accepted it
  because it is at most two bytes longer than an earlier candidate.\<close>

theorem built_fee_meets_target:
  assumes "codec_ok cr" "build_tx_inner_with_options cr b p rbf opts = (Inr rc, b')"
  shows "\<exists>target. tx_target cr (builder_adaptor b rbf) p (bt_tx rc) = Inr target
    \<and> (bt_fee_paid_sats rc = target \<or> 0 < sint (bt_fee_paid_sats rc - target)
      \<or> (\<exists>covers change tx. tx_build cr (builder_adaptor b rbf) p covers change = Inr tx
           \<and> length (serialize_tx cr tx) < length (serialize_tx cr (bt_tx rc))
           \<and> length (serialize_tx cr (bt_tx rc)) \<le> length (serialize_tx cr tx) + SIZE_TOLERANCE))"
  using receipt_facts[OF assms] by metis

lemma built_fee_meets_target_witness:
  "tx_target demo_crates (builder_adaptor demo_builder None) demo_params demo_tx = Inr 101 \<and>
   (\<exists>target. tx_target demo_crates (builder_adaptor demo_builder None) demo_params demo_tx = Inr target)"
  using built_fee_meets_target[OF demo_codec_ok demo_run]
  by (auto simp: demo_defs tx_target_def estimate_vsize_def builder_adaptor_def with_rbf_context_def adaptor_new_def
      ceil_u64_def u64_rat_def)

text \<open>The target of a replacement is at least the old fee plus the fees of the descendants plus
  one satoshi per virtual byte, at least the market rate, and above the old rate, unless the target
  saturates. (The virtual size has one byte added as a margin.)\<close>

theorem rbf_target_beats_previous:
  assumes "ta_rbf_context a = Some rbf" "tx_target cr a p tx = Inr target"
  shows "unat target = 2 ^ 64 - 1 \<or>
    (let vsize = u64_rat (estimate_vsize cr tx + 1) in
     u64_rat (rc_previous_total_fee rbf) + u64_rat (rc_descendant_fee rbf) + vsize \<le> u64_rat target
     \<and> ap_fee_rate p * vsize \<le> u64_rat target
     \<and> (rc_previous_fee_rate rbf + 1 / 1000) * vsize \<le> u64_rat target)"
  using tx_target_rbf[OF assms] by (simp add: Let_def) blast

lemma rbf_target_beats_previous_witness:
  "tx_target demo_crates (builder_adaptor demo_builder (Some \<lparr>rc_previous_fee_rate = 1999 / 1000, rc_previous_total_fee = 300, rc_descendant_fee = 50\<rparr>))
     demo_params demo_tx = Inr 451
   \<and> u64_rat 300 + u64_rat 50 + u64_rat 101 \<le> u64_rat 451"
proof -
  let ?a = "builder_adaptor demo_builder (Some \<lparr>rc_previous_fee_rate = 1999 / 1000, rc_previous_total_fee = 300, rc_descendant_fee = 50\<rparr>)"
  have r: "ta_rbf_context ?a = Some \<lparr>rc_previous_fee_rate = 1999 / 1000, rc_previous_total_fee = 300, rc_descendant_fee = 50\<rparr>"
    by (simp add: builder_adaptor_def with_rbf_context_def)
  have v: "estimate_vsize demo_crates demo_tx + 1 = 101" by (simp add: estimate_vsize_def demo_crates_def)
  have t: "tx_target demo_crates ?a demo_params demo_tx = Inr 451"
    by (simp add: tx_target_def r v ceil_u64_def u64_rat_def demo_params_def)
  show ?thesis using t rbf_target_beats_previous[OF r t] by (simp add: v u64_rat_def)
qed

text \<open>C19: However Electrs answers, one build makes at most 32 requests to it: \<open>el_clock\<close> counts the
  requests made, each answered by its number, and the answers are arbitrary.\<close>

theorem build_queries_bounded:
  "el_clock (tb_electrs (snd (build_tx_inner_with_options cr b p rbf opts))) \<le> el_clock (tb_electrs b) + 32"
proof -
  obtain r c where rc: "build_with_fee_floor (btc_adaptor cr (with_rbf_context (adaptor_new (tb_wallet b) (tb_network b)) rbf))
      (btc_provider (txid_from_str cr)) p (builder_cover b opts) (bo_min_change_value opts) (bo_min_change_value opts) = (r, c)"
    by fastforce
  have "bc_electrs (builder_cover b opts) = Some (tb_electrs b)" by (simp add: cover_new_def Let_def)
  from cost_of_build[OF rc this] show ?thesis
    using rc by (auto simp: build_tx_inner_with_options_def build_with_min_change_def MAX_ITERATIONS_def Let_def
        split: sum.splits option.splits)
qed

lemma build_queries_bounded_example:
  "el_clock (tb_electrs (snd (build_tx_inner_with_options demo_crates demo_builder demo_params None default_build_options))) = 0"
  by (simp add: demo_run) (simp add: demo_builder_def demo_electrs_def)

text \<open>With the default options the floor of the change is \<open>DUST_LIMIT\<close>, and a change of exactly
  \<open>DUST_LIMIT\<close> makes no output: there is a build that ends with a transaction paying nothing back to
  the wallet although the floor is positive.\<close>

theorem default_floor_leaves_no_change:
  "\<exists>cr (b :: unit tx_builder) p rc.
     fst (build_tx_inner_with_options cr b p None default_build_options) = Inr rc
     \<and> 0 < bo_min_change_value default_build_options
     \<and> \<not> (\<exists>out \<in> set (tx_output (bt_tx rc)). out_script_pubkey out = addr_script (bw_address (tb_wallet b)))"
  by (rule exI[of _ demo_crates], rule exI[of _ demo_builder], rule exI[of _ demo_params], rule exI[of _ demo_receipt])
    (simp add: demo_run, simp add: demo_receipt_def demo_tx_def demo_builder_def demo_wallet_def default_build_options_def
      default_wallet_config_def DUST_LIMIT_def)

section \<open>Selection of cover inputs\<close>

text \<open>The selection of cover inputs is one of the smallest sets of candidates that reaches the
  amount, and it fails only when all candidates together do not reach it. (The total of the candidates
  must fit 64 bits.)\<close>

theorem cover_select_minimal:
  assumes "total us < 2 ^ 64"
  shows "(cover_select c us needed = Inl (TbInsufficientFunds needed (word_of_nat (total us)))
      \<and> (us = [] \<or> total us < unat needed))
    \<or> (\<exists>vs. cover_select c us needed = Inr vs \<and> mset vs \<subseteq># mset us \<and> unat needed \<le> total vs
        \<and> (\<forall>ws. mset ws \<subseteq># mset us \<and> ws \<noteq> [] \<and> unat needed \<le> total ws \<longrightarrow> length vs \<le> length ws))"
proof -
  have "length vs \<le> length ws"
    if "\<forall>M. M \<subseteq># mset us \<and> M \<noteq> {#} \<and> unat needed \<le> mtotal M \<longrightarrow> length vs \<le> size M"
      "mset ws \<subseteq># mset us" "ws \<noteq> []" "unat needed \<le> total ws" for vs ws
    using that(1)[rule_format, of "mset ws"] that(2-4) by simp
  then show ?thesis using cover_select_cases[OF assms, of c needed] by blast
qed

lemma cover_select_minimal_witness:
  "\<exists>vs. cover_select (builder_cover demo_builder default_build_options) [demo_carried] 5000 = Inr vs \<and> 5000 \<le> total vs"
  using cover_select_minimal[of "[demo_carried]" "builder_cover demo_builder default_build_options" 5000]
  by (auto simp: demo_carried_def)

section \<open>Signatures\<close>

text \<open>What BIP-341 promises of a signature hash: it does not depend on the witnesses.\<close>

definition sighash_ok :: "'k crates \<Rightarrow> bool" where
  "sighash_ok cr = (\<forall>tx tx'. same_skeleton tx tx' \<longrightarrow>
     script_spend_sighash cr tx = script_spend_sighash cr tx' \<and> key_spend_sighash cr tx = key_spend_sighash cr tx')"

lemma set_witness_input [simp]:
  "i < length (tx_input tx) \<Longrightarrow> tx_input (set_witness tx i w) ! i = (tx_input tx ! i)\<lparr>in_witness := w\<rparr>"
  "i \<noteq> k \<Longrightarrow> tx_input (set_witness tx i w) ! k = tx_input tx ! k"
  "length (tx_input (set_witness tx i w)) = length (tx_input tx)"
  by (simp_all add: set_witness_def)

text \<open>A loop that signs the inputs of a list of items, one after the other.\<close>

lemma signing_loop:
  assumes "try_fold f tx items = Inr tx'"
    and step: "\<And>t it t'. f t it = Inr t' \<Longrightarrow> \<exists>w. t' = set_witness t (idx it) w \<and> W t it w"
    and stable: "\<And>t t' it w. same_skeleton t t' \<Longrightarrow> W t it w \<Longrightarrow> W t' it w"
    and "distinct (map idx items)" "\<forall>it \<in> set items. idx it < length (tx_input tx)"
  shows "same_skeleton tx tx' \<and> (\<forall>it \<in> set items. W tx' it (in_witness (tx_input tx' ! idx it)))
    \<and> (\<forall>k. k \<notin> idx ` set items \<longrightarrow> tx_input tx' ! k = tx_input tx ! k)"
  using assms(1,4,5)
proof (induction items arbitrary: tx)
  case (Cons it items)
  then obtain t1 where t1: "f tx it = Inr t1" "try_fold f t1 items = Inr tx'" by (auto simp: try_simps)
  obtain w where w: "t1 = set_witness tx (idx it) w" "W tx it w" using step[OF t1(1)] by blast
  have IH: "same_skeleton t1 tx'" "\<forall>it \<in> set items. W tx' it (in_witness (tx_input tx' ! idx it))"
      "\<forall>k. k \<notin> idx ` set items \<longrightarrow> tx_input tx' ! k = tx_input t1 ! k"
    using Cons.IH[OF t1(2)] Cons.prems w(1) by simp_all
  have sk: "same_skeleton tx tx'"
    using same_skeleton_trans[OF set_witness_skeleton_any IH(1)[unfolded w(1)]] .
  have "idx it \<notin> idx ` set items" using Cons.prems(2) by auto
  then have "tx_input tx' ! idx it = (tx_input tx ! idx it)\<lparr>in_witness := w\<rparr>"
    using IH(3) w(1) Cons.prems(3) by simp
  then have "W tx' it (in_witness (tx_input tx' ! idx it))" using stable[OF sk w(2)] by simp
  then show ?case using sk IH w(1) by auto
qed simp

text \<open>The witness an input must carry: the template with the signature of the final transaction.\<close>

definition signed_spend :: "'k crates \<Rightarrow> 'k tx_adaptor \<Rightarrow> tx_out list \<Rightarrow> tap_sighash_type \<Rightarrow> transaction \<Rightarrow> nat \<Rightarrow> spend_request \<Rightarrow> bytes list \<Rightarrow> bool" where
  "signed_spend cr a prevouts ty tx i spend w =
    (\<exists>h. script_spend_sighash cr tx i prevouts (sp_leaf_hash spend) ty = Inr h
       \<and> w = fill_signature (serialize_signature cr (sign_schnorr_raw cr h (bw_keypair (ta_wallet a))) ty) (sp_witness_template spend))"

definition signed_cover :: "'k crates \<Rightarrow> 'k tx_adaptor \<Rightarrow> tx_out list \<Rightarrow> transaction \<Rightarrow> nat \<Rightarrow> bytes list \<Rightarrow> bool" where
  "signed_cover cr a prevouts tx i w =
    (\<exists>h. key_spend_sighash cr tx i prevouts SighashAll = Inr h
       \<and> w = [serialize_signature cr (sign_schnorr_raw cr h (tap_tweak cr (bw_keypair (ta_wallet a)))) SighashAll])"

lemma tb_sighash_Inr [simp]: "tb_sighash r = Inr x \<longleftrightarrow> r = Inr x"
  by (auto simp: tb_sighash_def split: sum.splits)

lemma tb_signing_Inr [simp]: "tb_signing r = Inr x \<longleftrightarrow> r = Inr x"
  by (auto simp: tb_signing_def split: sum.splits)

lemma sign_steps:
  "sign_sacp_input cr a ps t it = Inr t' \<Longrightarrow>
    \<exists>w. t' = set_witness t (fst it) w \<and> signed_spend cr a ps SighashSinglePlusAnyoneCanPay t (fst it) (snd it) w"
  "sign_spend_input cr a ps t it = Inr t' \<Longrightarrow>
    \<exists>w. t' = set_witness t (fst it) w \<and> signed_spend cr a ps (sp_sighash_type (snd it)) t (fst it) (snd it) w"
  "sign_cover_input cr a ps t i = Inr t' \<Longrightarrow> \<exists>w. t' = set_witness t i w \<and> signed_cover cr a ps t i w"
  by (cases it, auto simp: sign_sacp_input_def sign_spend_input_def sign_cover_input_def try_simps
      sign_taproot_script_spend_def sign_taproot_key_spend_def signed_spend_def signed_cover_def)+

lemma signed_stable:
  assumes "sighash_ok cr" "same_skeleton t t'"
  shows "signed_spend cr a ps ty t i s w \<Longrightarrow> signed_spend cr a ps ty t' i s w"
    and "signed_cover cr a ps t i w \<Longrightarrow> signed_cover cr a ps t' i w"
proof -
  have "script_spend_sighash cr t = script_spend_sighash cr t'" "key_spend_sighash cr t = key_spend_sighash cr t'"
    using assms by (simp_all add: sighash_ok_def)
  then show "signed_spend cr a ps ty t i s w \<Longrightarrow> signed_spend cr a ps ty t' i s w"
    "signed_cover cr a ps t i w \<Longrightarrow> signed_cover cr a ps t' i w"
    by (simp_all add: signed_spend_def signed_cover_def)
qed

lemma skeleton_length: "same_skeleton t t' \<Longrightarrow> length (tx_input t') = length (tx_input t)"
  unfolding same_skeleton_def by (metis length_map)

lemma enumerate_fst: "fst ` set (enumerate n xs) = {n..<n + length xs}" "distinct (map fst (enumerate n xs))"
  by (simp_all flip: set_map add: map_fst_enumerate)

lemma sign_signs_all:
  assumes ok: "sighash_ok cr" and sign: "sign cr a tx p covers = Inr tx'"
    and len: "length (tx_input tx) = length (ap_sacps p) + length (ap_spends p) + length covers"
  defines "ps \<equiv> collect_all_prevouts p covers" and "n1 \<equiv> length (ap_sacps p)" and "n2 \<equiv> length (ap_spends p)"
  shows "(\<forall>i < n1. signed_spend cr a ps SighashSinglePlusAnyoneCanPay tx' i (ap_sacps p ! i) (in_witness (tx_input tx' ! i)))
    \<and> (\<forall>i < n2. signed_spend cr a ps (sp_sighash_type (ap_spends p ! i)) tx' (n1 + i) (ap_spends p ! i)
          (in_witness (tx_input tx' ! (n1 + i))))
    \<and> (\<forall>i < length covers. signed_cover cr a ps tx' (n1 + n2 + i) (in_witness (tx_input tx' ! (n1 + n2 + i))))"
proof -
  let ?covers = "map (\<lambda>i. n1 + n2 + i) [0..<length covers]"
  obtain t1 t2 where f: "try_fold (sign_sacp_input cr a ps) tx (enumerate 0 (ap_sacps p)) = Inr t1"
      "try_fold (sign_spend_input cr a ps) t1 (enumerate n1 (ap_spends p)) = Inr t2"
      "try_fold (sign_cover_input cr a ps) t2 ?covers = Inr tx'"
    using sign by (auto simp: sign_def sign_sacp_inputs_def sign_spend_inputs_def sign_cover_inputs_def Let_def
        ps_def n1_def n2_def try_simps)
  note len' = len[folded n1_def n2_def]
  have L1: "same_skeleton tx t1 \<and> (\<forall>it \<in> set (enumerate 0 (ap_sacps p)).
        signed_spend cr a ps SighashSinglePlusAnyoneCanPay t1 (fst it) (snd it) (in_witness (tx_input t1 ! fst it)))
    \<and> (\<forall>k. k \<notin> fst ` set (enumerate 0 (ap_sacps p)) \<longrightarrow> tx_input t1 ! k = tx_input tx ! k)"
    by (rule signing_loop[OF f(1) sign_steps(1) signed_stable(1)[OF ok] enumerate_fst(2)], assumption+)
      (auto simp: len' in_set_enumerate_eq n1_def)
  then have len1: "length (tx_input t1) = n1 + n2 + length covers" using skeleton_length len' by metis
  have L2: "same_skeleton t1 t2 \<and> (\<forall>it \<in> set (enumerate n1 (ap_spends p)).
        signed_spend cr a ps (sp_sighash_type (snd it)) t2 (fst it) (snd it) (in_witness (tx_input t2 ! fst it)))
    \<and> (\<forall>k. k \<notin> fst ` set (enumerate n1 (ap_spends p)) \<longrightarrow> tx_input t2 ! k = tx_input t1 ! k)"
    by (rule signing_loop[OF f(2) sign_steps(2) signed_stable(1)[OF ok] enumerate_fst(2)], assumption+)
      (auto simp: len1 in_set_enumerate_eq n2_def)
  then have len2: "length (tx_input t2) = n1 + n2 + length covers" using skeleton_length len1 by metis
  have L3: "same_skeleton t2 tx' \<and> (\<forall>i \<in> set ?covers. signed_cover cr a ps tx' i (in_witness (tx_input tx' ! i)))
    \<and> (\<forall>k. k \<notin> (\<lambda>i. i) ` set ?covers \<longrightarrow> tx_input tx' ! k = tx_input t2 ! k)"
    by (rule signing_loop[OF f(3) sign_steps(3) signed_stable(2)[OF ok]], assumption+)
      (auto simp: len2 distinct_map)
  have sk: "same_skeleton t1 tx'" "same_skeleton t2 tx'" using L2 L3 same_skeleton_trans by blast+
  have "signed_spend cr a ps SighashSinglePlusAnyoneCanPay tx' i (ap_sacps p ! i) (in_witness (tx_input tx' ! i))" if "i < n1" for i
  proof -
    have "(i, ap_sacps p ! i) \<in> set (enumerate 0 (ap_sacps p))" using that by (simp add: in_set_enumerate_eq n1_def)
    then have "signed_spend cr a ps SighashSinglePlusAnyoneCanPay t1 i (ap_sacps p ! i) (in_witness (tx_input t1 ! i))"
      using L1 by fastforce
    moreover have "tx_input tx' ! i = tx_input t1 ! i" using L2 L3 that by (auto simp: enumerate_fst)
    ultimately show ?thesis using signed_stable(1)[OF ok sk(1)] by simp
  qed
  moreover have "signed_spend cr a ps (sp_sighash_type (ap_spends p ! i)) tx' (n1 + i) (ap_spends p ! i) (in_witness (tx_input tx' ! (n1 + i)))"
    if "i < n2" for i
  proof -
    have "(n1 + i, ap_spends p ! i) \<in> set (enumerate n1 (ap_spends p))" using that by (simp add: in_set_enumerate_eq n2_def)
    then have "signed_spend cr a ps (sp_sighash_type (ap_spends p ! i)) t2 (n1 + i) (ap_spends p ! i) (in_witness (tx_input t2 ! (n1 + i)))"
      using L2 by fastforce
    moreover have "tx_input tx' ! (n1 + i) = tx_input t2 ! (n1 + i)" using L3 that by auto
    ultimately show ?thesis using signed_stable(1)[OF ok sk(2)] by simp
  qed
  ultimately show ?thesis using L3 by auto
qed

text \<open>Every input of a built transaction carries the signature of the finished transaction: paired
  and regular spends have their template with the signature in its first empty slot, cover inputs
  have the key-path signature alone.\<close>

theorem built_transaction_signed:
  assumes "sighash_ok cr" "tx_build cr a p covers change = Inr tx"
  shows "(\<forall>i < length (ap_sacps p). signed_spend cr a (collect_all_prevouts p covers) SighashSinglePlusAnyoneCanPay tx i
            (ap_sacps p ! i) (in_witness (tx_input tx ! i)))
    \<and> (\<forall>i < length (ap_spends p). signed_spend cr a (collect_all_prevouts p covers) (sp_sighash_type (ap_spends p ! i)) tx
            (length (ap_sacps p) + i) (ap_spends p ! i) (in_witness (tx_input tx ! (length (ap_sacps p) + i))))
    \<and> (\<forall>i < length covers. signed_cover cr a (collect_all_prevouts p covers) tx (length (ap_sacps p) + length (ap_spends p) + i)
            (in_witness (tx_input tx ! (length (ap_sacps p) + length (ap_spends p) + i))))"
proof -
  obtain paired where sign: "sign cr a \<lparr>tx_version = 2, tx_lock_time = 0,
        tx_input = map spend_input (ap_sacps p) @ map spend_input (ap_spends p) @ map cover_input covers,
        tx_output = paired @ map send_output (ap_sends p) @ change_outputs a change\<rparr> p covers = Inr tx"
    using assms(2) by (auto simp: tx_build_def try_simps Let_def change_outputs_def)
  show ?thesis by (rule sign_signs_all[OF assms(1) sign]) simp
qed

lemma built_transaction_signed_witness:
  "signed_cover demo_crates (builder_adaptor demo_builder None) (collect_all_prevouts demo_params [demo_carried]) demo_tx 0
     (in_witness (tx_input demo_tx ! 0))"
proof -
  have "sighash_ok demo_crates" by (simp add: sighash_ok_def demo_crates_def)
  from built_transaction_signed[OF this demo_build] show ?thesis by (simp add: demo_params_def)
qed

text \<open>A build is refused for its inputs exactly when a request input, a carried cover input and
  the lineage prevout are not all different.\<close>

theorem duplicate_inputs_refused:
  "(\<exists>u. validate_unique_mandatory_inputs p carried prevout = Inr u) \<longleftrightarrow>
    distinct (map sp_outpoint (ap_sacps p) @ map sp_outpoint (ap_spends p) @ map cu_outpoint (carried @ prevout_list prevout))"
  by (simp add: validate_unique_iff mandatory_outpoints_def prevout_list_def split: option.splits)

end
