(* ===== verification/WalletJournal.thy ===== *)
theory WalletJournal
  imports WalletContract
begin

text \<open>
  What the store promises about the rows of each request over its operations, as an extension of
  the ledger's contract: a history only grows, a broadcast records its transaction, a restore
  returns recorded lineages, and a waiting request is touched only by an operation on its key.
\<close>

section \<open>The contract\<close>

locale wallet_journal = wallet_ledger +
  fixes waiting :: "'a \<Rightarrow> string \<Rightarrow> string \<Rightarrow> bool"
    and leads :: "string \<Rightarrow> string list \<Rightarrow> 'a \<Rightarrow> 'a \<Rightarrow> bool"
  assumes leads_history: "leads scope keys s s' \<Longrightarrow> history s scope k = Some h \<Longrightarrow> \<exists>h'. history s' scope k = Some h' \<and> set h \<subseteq> set h'"
    and leads_waiting: "leads scope keys s s' \<Longrightarrow> k \<notin> set keys \<Longrightarrow> waiting s scope k \<Longrightarrow> waiting s' scope k"
    and leads_refl: "leads scope keys s s"
    and enqueue_leads: "inv s \<Longrightarrow> so_enqueue st scope req s = Inr (eres, s') \<Longrightarrow> leads scope [] s s'"
    and resolve_leads: "inv s \<Longrightarrow> so_resolve_pending st scope key s = Inr (rres, s') \<Longrightarrow> leads scope [key] s s'"
    and broadcast_leads: "inv s \<Longrightarrow> so_persist_broadcast st scope plan s = Inr (receipt, s') \<Longrightarrow>
      leads scope (bp_included plan @ bp_dropped plan) s s'"
    and confirmation_leads: "inv s \<Longrightarrow> so_persist_confirmation st scope cplan s = Inr (u, s') \<Longrightarrow>
      leads scope (cp_confirmed cplan @ cp_orphaned cplan) s s'"
    and reconciliation_leads: "inv s \<Longrightarrow> so_persist_reconciliation st scope rplan s = Inr (u, s') \<Longrightarrow>
      leads scope (rp_survivors rplan @ rp_requeued rplan) s s'"
    and broadcast_records: "inv s \<Longrightarrow> so_persist_broadcast st scope plan s = Inr (receipt, s') \<Longrightarrow>
      k \<in> set (bp_included plan) \<Longrightarrow> \<exists>h. history s' scope k = Some h \<and> bp_txid plan \<in> set h"
    and restore_recorded: "inv s \<Longrightarrow> so_restore st scope s = Inr rs \<Longrightarrow> snap \<in> set (rs_inflight rs) \<Longrightarrow>
      q \<in> set (ls_requests snap) \<Longrightarrow> history s scope (lr_key q) = Some (lr_txid_history q)"
    and restore_distinct: "inv s \<Longrightarrow> so_restore st scope s = Inr rs \<Longrightarrow> distinct (map ls_lineage_id (rs_inflight rs))"
    and waiting_enqueue: "inv s \<Longrightarrow> waiting s scope (dedupe_key req) \<Longrightarrow>
      so_enqueue st scope req s = Inr (AlreadyPending, s)"
begin

lemma mirrors_leads: "leads scope keys s s' \<Longrightarrow> mirrors s scope l \<Longrightarrow> mirrors s' scope l"
  unfolding mirrors_def by (meson leads_history order_trans)

end

section \<open>The Postgres store provides it\<close>

definition pg_waiting :: "wallet_table \<Rightarrow> string \<Rightarrow> string \<Rightarrow> bool" where
  "pg_waiting t scope k = (\<exists>r. load_wallet_request_row t scope k = Some r \<and> row_status r = ''pending'')"

definition pg_leads :: "string \<Rightarrow> string list \<Rightarrow> wallet_table \<Rightarrow> wallet_table \<Rightarrow> bool" where
  "pg_leads scope keys t t' = (\<forall>k r. load_wallet_request_row t scope k = Some r \<longrightarrow>
    (\<exists>r'. load_wallet_request_row t' scope k = Some r' \<and> set (row_txid_history r) \<subseteq> set (row_txid_history r')
      \<and> (k \<notin> set keys \<longrightarrow> r' = r)))"

lemma load_row_key: "load_wallet_request_row t scope k = Some r \<Longrightarrow> key_in scope [k] r"
  by (auto simp: load_wallet_request_row_def find_Some_iff)

lemma pg_leads_map:
  assumes "\<And>r. row_pk (f r) = row_pk r" "\<And>r. set (row_txid_history r) \<subseteq> set (row_txid_history (f r))"
    and "\<And>r. \<not> key_in scope keys r \<Longrightarrow> f r = r"
  shows "pg_leads scope keys t (map f t)"
  using assms by (auto simp: pg_leads_def load_row_map key_in_def dest: load_row_key)

lemma pg_leads_refl: "pg_leads scope keys t t"
  by (simp add: pg_leads_def)

lemma broadcast_row_other: "\<not> key_in scope (bp_included plan @ bp_dropped plan) r \<Longrightarrow> broadcast_row scope plan r = r"
  by (auto simp: broadcast_row_def key_in_def)

lemma broadcast_row_history: "set (row_txid_history r) \<subseteq> set (row_txid_history (broadcast_row scope plan r))"
  by (auto simp: broadcast_row_def written_row_defs)

lemma confirmation_row_other: "\<not> key_in scope (cp_confirmed plan @ cp_orphaned plan) r \<Longrightarrow> confirmation_row scope plan r = r"
  by (auto simp: confirmation_row_def key_in_def)

lemma confirmation_row_history: "row_txid_history (confirmation_row scope plan r) = row_txid_history r"
  by (simp add: confirmation_row_def written_row_defs)

lemma reconciliation_row_other: "\<not> key_in scope (rp_survivors plan @ rp_requeued plan) r \<Longrightarrow> reconciliation_row scope plan r = r"
  by (auto simp: reconciliation_row_def key_in_def)

lemma reconciliation_row_history: "row_txid_history (reconciliation_row scope plan r) = row_txid_history r"
  by (simp add: reconciliation_row_def survivor_row_def written_row_defs split: reconciliation_kind.splits)

lemma find_in_append: "find P xs = Some x \<Longrightarrow> find P (xs @ ys) = Some x"
  by (induction xs) (auto split: if_splits)

lemma pg_enqueue_leads:
  assumes "enqueue now t scope req = Inr (res, t')"
  shows "pg_leads scope [] t t'"
  using assms
proof (cases rule: enqueue_Inr_cases)
  case (2 r)
  then show ?thesis
    by (simp add: pg_leads_def load_wallet_request_row_def find_in_append)
qed (simp add: pg_leads_refl)

lemma pg_included_row:
  assumes ok: "table_ok t" and p: "persist_broadcast t scope plan = Inr (receipt, t')" and k: "k \<in> set (bp_included plan)"
  obtains r where "load_wallet_request_row t scope k = Some r"
    "load_wallet_request_row t' scope k = Some (inflight_row (bp_lineage_id plan) (bp_txid plan) r)"
proof -
  have wf: "table_wf t" using ok by (simp add: table_ok_def)
  obtain rows where t': "t' = map (broadcast_row scope plan) t" and v: "validate_persist_plan plan = Inr ()"
    and load: "load_wallet_request_rows_for_update t scope (collect_plan_keys plan) = Inr rows"
    by (rule persist_broadcast_Inr[OF wf p]) auto
  note K = collect_plan_keys_facts[OF v]
  have "k \<in> row_dedupe_key ` set rows" using load_rows_Inr(2)[OF wf load K(1)] K(2) k by auto
  then obtain r where r: "r \<in> set t" "row_scope r = scope" "row_dedupe_key r = k"
    using load_rows_Inr(3)[OF wf load K(1)] by (auto simp: key_in_def)
  then have l: "load_wallet_request_row t scope k = Some r" by (simp add: load_row_eq_Some[OF wf])
  with r k have "load_wallet_request_row t' scope k = Some (inflight_row (bp_lineage_id plan) (bp_txid plan) r)"
    unfolding t' load_row_map[OF row_pk_broadcast_row] by (simp add: broadcast_row_def key_in_def)
  with l show thesis by (rule that)
qed

lemma pg_broadcast_included:
  assumes "table_ok t" "persist_broadcast t scope plan = Inr (receipt, t')" "k \<in> set (bp_included plan)"
  shows "\<exists>h. pg_history t' scope k = Some h \<and> bp_txid plan \<in> set h"
proof -
  obtain r where "load_wallet_request_row t' scope k = Some (inflight_row (bp_lineage_id plan) (bp_txid plan) r)"
    by (rule pg_included_row[OF assms])
  then show ?thesis
    by (auto simp: pg_history_def inflight_row_def map_filter_def intro!: image_eqI[of _ _ "Parsed (bp_txid plan)"])
qed

lemma map_filter_parsed: "List.map_filter parsed_entry (map Parsed h) = h"
  by (induction h) (simp_all add: map_filter_simps)

lemma pg_restore_recorded:
  assumes ok: "table_ok t" and r: "restore t scope = Inr rs" and s: "snap \<in> set (rs_inflight rs)" and q: "q \<in> set (ls_requests snap)"
  shows "pg_history t scope (lr_key q) = Some (lr_txid_history q)"
proof -
  have wf: "table_wf t" using ok by (simp add: table_ok_def)
  let ?ms = "concat (map lineage_members (rs_inflight rs))"
  have m: "(ls_lineage_id snap, ls_head_txid snap, q) \<in> set ?ms" using s q by (auto simp: lineage_members_def)
  have "list_all2 (\<lambda>x r. restored_into r x) ?ms (inflight_rows t scope)"
    using restore_Inr(1)[OF r] by (simp add: list_all2_conv_all_nth)
  from list_all2_memberD[OF this m] obtain row where row: "row \<in> set (inflight_rows t scope)" "restored_request row q"
    by (auto simp: restored_into_def)
  then have "load_wallet_request_row t scope (lr_key q) = Some row"
    by (auto simp: load_row_eq_Some[OF wf] inflight_rows_def restored_request_def)
  with row(2) show ?thesis by (simp add: pg_history_def restored_request_def map_filter_parsed)
qed

interpretation pg: wallet_journal "pg_store now" table_ok pg_history pg_waiting pg_leads for now
proof (unfold_locales, goal_cases)
  case (1 scope keys s s' k h)
  then show ?case by (fastforce simp: pg_leads_def pg_history_def map_filter_def)
next
  case (2 scope keys s s' k)
  then show ?case by (fastforce simp: pg_leads_def pg_waiting_def)
next
  case (3 scope keys s) show ?case by (rule pg_leads_refl)
next
  case (4 s scope req eres s') then show ?case by (auto simp: pg_store_def intro: pg_enqueue_leads)
next
  case (5 s scope key rres s')
  then have wf: "table_wf s" and p: "resolve_pending s scope key = Inr (rres, s')" by (simp_all add: table_ok_def pg_store_def)
  from wf p show ?case
  proof (cases rule: resolve_pending_Inr)
    case (1 r)
    show ?thesis unfolding 1(6) by (rule pg_leads_map) (auto simp: dropped_row_def row_pk_def)
  qed (simp add: pg_leads_refl)
next
  case (6 s scope plan receipt s')
  then have wf: "table_wf s" and p: "persist_broadcast s scope plan = Inr (receipt, s')" by (simp_all add: table_ok_def pg_store_def)
  have "s' = map (broadcast_row scope plan) s" using persist_broadcast_Inr[OF wf p] by blast
  then show ?case
    using pg_leads_map[OF row_pk_broadcast_row broadcast_row_history broadcast_row_other] by simp
next
  case (7 s scope cplan u s')
  then have wf: "table_wf s" and p: "persist_confirmation s scope cplan = Inr (u, s')" by (simp_all add: table_ok_def pg_store_def)
  show ?case unfolding persist_confirmation_Inr(2)[OF wf p]
    by (rule pg_leads_map) (simp_all add: row_pk_written confirmation_row_history confirmation_row_other)
next
  case (8 s scope rplan u s')
  then have wf: "table_wf s" and p: "persist_reconciliation s scope rplan = Inr (u, s')" by (simp_all add: table_ok_def pg_store_def)
  show ?case unfolding persist_reconciliation_Inr(2)[OF wf p]
    by (rule pg_leads_map) (simp_all add: row_pk_written reconciliation_row_history reconciliation_row_other)
next
  case (9 s scope plan receipt s' k) then show ?case by (auto simp: pg_store_def intro: pg_broadcast_included)
next
  case (10 s scope rs snap q) then show ?case by (auto simp: pg_store_def intro: pg_restore_recorded)
next
  case (11 s scope rs)
  then have "sorted_wrt (<) (map ls_lineage_id (rs_inflight rs))" by (auto simp: pg_store_def dest: restore_Inr(3))
  then show ?case by (simp add: strict_sorted_iff)
next
  case (12 s scope req)
  then show ?case by (auto simp: pg_store_def pg_waiting_def enqueue_def try_from_status_def)
qed

end
