(* ===== verification/WalletClients.thy ===== *)
theory WalletClients
  imports WalletRuntime TxBuilder
begin

text \<open>
  The runner's clients: bitcoind's JSON-RPC (clients/bitcoind.rs), the fee estimator
  (fee_providers), the chain observer and the broadcaster of wallet/runner.rs, and the runner's
  helpers around them. A \<open>chain_view\<close> is what Electrs and bitcoind answer while one handler of the
  runner works; decoding JSON into the response types (serde) is part of it.
\<close>

section \<open>bitcoind\<close>

datatype json = JNull | JBool bool | JNumber rat | JString string | JArray "json list" | JObject "(string \<times> json) list"

fun as_str :: "json \<Rightarrow> string option" where
  "as_str (JString s) = Some s"
| "as_str _ = None"

record rpc_error =
  rpe_code :: int
  rpe_message :: string

record rpc_response =
  rsp_result :: "json option"
  rsp_error :: "rpc_error option"

record mempool_fees =
  mf_base :: rat
  mf_modified :: rat
  mf_ancestor :: rat
  mf_descendant :: rat

record mempool_entry =
  me_vsize :: u64
  me_weight :: u64
  me_fees :: mempool_fees
  me_depends :: "string list"
  me_spentby :: "string list"

record descendant_entry =
  de_vsize :: u64
  de_fees :: mempool_fees

record rbf_tx_fee_info =
  rfi_total_fee :: u64
  rfi_descendant_fee :: u64
  rfi_tx_fee_rate :: rat

record chain_view =
  cv_tx_status :: "string \<Rightarrow> (client_error, tx_status) result"
  cv_tx :: "string \<Rightarrow> (client_error, esplora_tx) result"
  cv_fee_estimates :: "(client_error, (string \<times> rat) list) result"
  cv_post :: "string \<Rightarrow> json list \<Rightarrow> (client_error, rpc_response) result"
  cv_decode_entry :: "json \<Rightarrow> (string, mempool_entry) result"
  cv_decode_descendants :: "json \<Rightarrow> (string, (string \<times> descendant_entry) list) result"

text \<open>The decimal text of an integer.\<close>

fun show_nat :: "nat \<Rightarrow> string" where
  "show_nat n = (if n < 10 then [char_of (48 + n)] else show_nat (n div 10) @ [char_of (48 + n mod 10)])"

definition show_int :: "int \<Rightarrow> string" where
  "show_int i = (if i < 0 then ''-'' @ show_nat (nat (- i)) else show_nat (nat i))"

definition call_optional :: "chain_view \<Rightarrow> string \<Rightarrow> json list \<Rightarrow> (client_error, json option) result" where
  "call_optional cv meth params =
    try_bind (cv_post cv meth params) (\<lambda>rsp.
      case rsp_error rsp of
        Some err \<Rightarrow> Inl (ClientRpc (''code '' @ show_int (rpe_code err) @ '': '' @ rpe_message err))
      | None \<Rightarrow> Inr (rsp_result rsp))"

definition rpc_call :: "chain_view \<Rightarrow> string \<Rightarrow> json list \<Rightarrow> (client_error, json) result" where
  "rpc_call cv meth params =
    try_bind (call_optional cv meth params) (\<lambda>r. ok_or r (ClientRpc ''null result with no error''))"

definition from_value :: "(json \<Rightarrow> (string, 'a) result) \<Rightarrow> json \<Rightarrow> (client_error, 'a) result" where
  "from_value dec v = (case dec v of Inl e \<Rightarrow> Inl (ClientJson e) | Inr x \<Rightarrow> Inr x)"

definition get_mempool_entry :: "chain_view \<Rightarrow> string \<Rightarrow> (client_error, mempool_entry) result" where
  "get_mempool_entry cv tx =
    try_bind (rpc_call cv ''getmempoolentry'' [JString tx]) (\<lambda>v. from_value (cv_decode_entry cv) v)"

definition send_raw_transaction :: "chain_view \<Rightarrow> string \<Rightarrow> (client_error, string) result" where
  "send_raw_transaction cv hex =
    try_bind (rpc_call cv ''sendrawtransaction'' [JString hex]) (\<lambda>v.
      ok_or (as_str v) (ClientParse ''sendrawtransaction did not return a string''))"

definition get_raw_transaction_hex :: "chain_view \<Rightarrow> string \<Rightarrow> (client_error, string) result" where
  "get_raw_transaction_hex cv tx =
    try_bind (rpc_call cv ''getrawtransaction'' [JString tx]) (\<lambda>v.
      ok_or (as_str v) (ClientParse ''getrawtransaction did not return a hex string''))"

definition get_mempool_descendants :: "chain_view \<Rightarrow> string \<Rightarrow> (client_error, (string \<times> descendant_entry) list) result" where
  "get_mempool_descendants cv tx =
    try_bind (rpc_call cv ''getmempooldescendants'' [JString tx, JBool True]) (\<lambda>v.
      from_value (cv_decode_descendants cv) v)"

text \<open>The sums over the direct descendants.\<close>

definition add_descendant ::
    "(string \<times> descendant_entry) list \<Rightarrow> rat \<times> rat \<Rightarrow> string \<Rightarrow> rat \<times> rat" where
  "add_descendant descendants acc child =
    (case map_of descendants child of
       None \<Rightarrow> acc
     | Some d \<Rightarrow> (fst acc + u64_rat (de_vsize d), snd acc + of_int \<lfloor>mf_base (de_fees d) * 10 ^ 8\<rfloor>))"

definition get_rbf_tx_fee_info :: "chain_view \<Rightarrow> string \<Rightarrow> (client_error, rbf_tx_fee_info) result" where
  "get_rbf_tx_fee_info cv tx =
    try_bind (get_mempool_descendants cv tx) (\<lambda>descendants.
    try_bind (get_mempool_entry cv tx) (\<lambda>entry.
      let total_fee = ceil_u64 (mf_descendant (me_fees entry) * 10 ^ 8);
          base_fee = ceil_u64 (mf_base (me_fees entry) * 10 ^ 8);
          descendant_fee = saturating_sub total_fee base_fee;
          rate = (if me_vsize entry = 0 then 0 else u64_rat total_fee / u64_rat (me_vsize entry));
          info = \<lparr>rfi_total_fee = total_fee, rfi_descendant_fee = descendant_fee, rfi_tx_fee_rate = rate\<rparr> in
      if descendants = [] then Inr info
      else
        let (direct_desc_vsize, direct_desc_fee) = foldl (add_descendant descendants) (0, 0) (me_spentby entry);
            combined_vsize = direct_desc_vsize + u64_rat (me_vsize entry) in
        Inr (if 0 < combined_vsize
             then info\<lparr>rfi_tx_fee_rate := max ((direct_desc_fee + u64_rat base_fee) / combined_vsize) rate\<rparr>
             else info)))"

section \<open>Fee rates\<close>

datatype fee_level = Fastest | HalfHour | Hour | Minimum | Economy

record fee_estimate =
  fastest_fee :: rat
  half_hour_fee :: rat
  hour_fee :: rat
  minimum_fee :: rat
  economy_fee :: rat

definition default_fee_estimate :: fee_estimate where
  "default_fee_estimate = \<lparr>fastest_fee = 2, half_hour_fee = 2, hour_fee = 2, minimum_fee = 2, economy_fee = 2\<rparr>"

fun from_estimate :: "fee_level \<Rightarrow> fee_estimate \<Rightarrow> rat" where
  "from_estimate Fastest e = fastest_fee e"
| "from_estimate HalfHour e = half_hour_fee e"
| "from_estimate Hour e = hour_fee e"
| "from_estimate Minimum e = minimum_fee e"
| "from_estimate Economy e = economy_fee e"

datatype fee_estimator_error = FeHttp | FeParse message | FeProvider message

definition unwrap_or :: "'a option \<Rightarrow> 'a \<Rightarrow> 'a" where
  "unwrap_or x d = (case x of None \<Rightarrow> d | Some y \<Rightarrow> y)"

definition electrs_fee_estimates :: "chain_view \<Rightarrow> (fee_estimator_error, fee_estimate) result" where
  "electrs_fee_estimates cv =
    (case cv_fee_estimates cv of
       Inl e \<Rightarrow> Inl (FeProvider (client_error_message e))
     | Inr estimates \<Rightarrow>
         if estimates = [] then Inr default_fee_estimate
         else Inr \<lparr>fastest_fee = unwrap_or (map_of estimates ''1'') 2,
                   half_hour_fee = unwrap_or (map_of estimates ''3'') 2,
                   hour_fee = unwrap_or (map_of estimates ''6'') 2,
                   minimum_fee = unwrap_or (map_of estimates ''144'') 2,
                   economy_fee = unwrap_or (map_of estimates ''504'') 2\<rparr>)"

text \<open>\<open>f64::clamp\<close>.\<close>

definition clamp :: "rat \<Rightarrow> rat \<Rightarrow> rat \<Rightarrow> rat" where
  "clamp x lo hi = (if x < lo then lo else if hi < x then hi else x)"

definition market_fee_rate :: "(fee_estimator_error, fee_estimate) result \<Rightarrow> wallet_config \<Rightarrow> rat" where
  "market_fee_rate estimates cfg =
    (case estimates of
       Inr estimate \<Rightarrow> clamp (from_estimate HalfHour estimate) (min_fee_rate cfg) (max_fee_rate cfg)
     | Inl _ \<Rightarrow> min_fee_rate cfg)"

definition fetch_rbf_context :: "(txid \<Rightarrow> string) \<Rightarrow> chain_view \<Rightarrow> txid \<Rightarrow> rbf_fee_context option" where
  "fetch_rbf_context txt cv tx =
    (case get_rbf_tx_fee_info cv (txt tx) of
       Inr info \<Rightarrow> Some \<lparr>rc_previous_fee_rate = rfi_tx_fee_rate info, rc_previous_total_fee = rfi_total_fee info,
           rc_descendant_fee = rfi_descendant_fee info\<rparr>
     | Inl _ \<Rightarrow> None)"

section \<open>Retrying\<close>

text \<open>\<open>for attempt in 0..attempts\<close>; the \<open>expect\<close> after the loop is the case without an error.\<close>

fun retry_loop ::
    "('s \<Rightarrow> (client_error, u64) result \<times> 's) \<Rightarrow> nat \<Rightarrow> client_error option \<Rightarrow> 's \<Rightarrow>
     (client_error option, u64) result \<times> 's" where
  "retry_loop fetch 0 last_error s = (Inl last_error, s)"
| "retry_loop fetch (Suc n) last_error s =
    (case fetch s of
       (Inr h, s') \<Rightarrow> (Inr h, s')
     | (Inl e, s') \<Rightarrow> retry_loop fetch n (Some e) s')"

definition retry_with_delay ::
    "('s \<Rightarrow> (client_error, u64) result \<times> 's) \<Rightarrow> nat \<Rightarrow> string \<Rightarrow> 's \<Rightarrow> (executor_error, u64) result \<times> 's" where
  "retry_with_delay fetch attempts error_message s =
    (let attempts = max attempts 1 in
     case retry_loop fetch attempts None s of
       (Inr h, s') \<Rightarrow> (Inr h, s')
     | (Inl None, s') \<Rightarrow> (Inl (Domain (Format ''retry loop must record at least one error'' [])), s')
     | (Inl (Some e), s') \<Rightarrow>
         (Inl (Chain (Rpc (Format ''{error_message} after {attempts} attempts: {error}''
            [ArgStr error_message, ArgNat attempts, ArgMessage (client_error_message e)]))), s'))"

definition RETRY_ATTEMPTS :: nat where
  "RETRY_ATTEMPTS = 3"

definition current_height :: "electrs_client \<Rightarrow> (executor_error, u64) result \<times> electrs_client" where
  "current_height el = retry_with_delay get_block_height RETRY_ATTEMPTS ''failed to fetch bitcoin block height'' el"

section \<open>Broadcasting\<close>

definition is_known_submission :: "string \<Rightarrow> bool" where
  "is_known_submission m =
    (contains ''already in block chain'' m \<or> contains ''txn-already-known'' m \<or> contains ''txn-already-in-mempool'' m)"

definition is_rejected_submission :: "string \<Rightarrow> bool" where
  "is_rejected_submission m =
    (contains ''insufficient fee'' m \<or> contains ''missing inputs'' m \<or> contains ''too-long-mempool-chain'' m
     \<or> contains ''non-BIP68-final'' m \<or> contains ''bad-txns'' m \<or> contains ''mandatory-script-verify-flag'' m)"

definition btc_broadcaster :: "chain_view \<Rightarrow> broadcaster" where
  "btc_broadcaster cv scope receipt =
    (case send_raw_transaction cv (br_raw_tx_hex receipt) of
       Inr _ \<Rightarrow> Inr BcAccepted
     | Inl (ClientRpc m) \<Rightarrow>
         if is_known_submission m then Inr BcAccepted
         else if is_rejected_submission m then Inr BcRejected
         else Inr BcRejected
     | Inl _ \<Rightarrow> Inr BcRejected)"

section \<open>Observing\<close>

definition rpc_failure :: "client_error \<Rightarrow> executor_error" where
  "rpc_failure e = Chain (Rpc (client_error_message e))"

definition btc_observe_tx ::
    "(txid \<Rightarrow> string) \<Rightarrow> chain_view \<Rightarrow> txid \<Rightarrow> (executor_error, observed_tx_state) result" where
  "btc_observe_tx txt cv tx =
    (case cv_tx_status cv (txt tx) of
       Inr status \<Rightarrow>
         if ts_confirmed status then Inr ObsConfirmed
         else (case get_mempool_entry cv (txt tx) of
                 Inr _ \<Rightarrow> Inr ObsInMempool
               | Inl err \<Rightarrow> if is_tx_not_found err then Inr ObsMissing else Inl (rpc_failure err))
     | Inl electrs_err \<Rightarrow>
         (case get_mempool_entry cv (txt tx) of
            Inr _ \<Rightarrow> Inr ObsInMempool
          | Inl bitcoind_err \<Rightarrow>
              if is_tx_not_found electrs_err \<and> is_tx_not_found bitcoind_err then Inr ObsMissing
              else Inl (rpc_failure bitcoind_err)))"

definition btc_load_tx :: "(txid \<Rightarrow> string) \<Rightarrow> chain_view \<Rightarrow> txid \<Rightarrow> (executor_error, esplora_tx) result" where
  "btc_load_tx txt cv tx =
    (case cv_tx cv (txt tx) of Inl e \<Rightarrow> Inl (rpc_failure e) | Inr t \<Rightarrow> Inr t)"

text \<open>The inputs of an Esplora transaction that the wallet owns, by script or by address.\<close>

definition wallet_owned :: "'k crates \<Rightarrow> script \<Rightarrow> string \<Rightarrow> tx_vout \<Rightarrow> bool" where
  "wallet_owned cr spk addr prevout =
    ((case hex_decode cr (vo_scriptpubkey prevout) of Inr bs \<Rightarrow> bs = spk | Inl _ \<Rightarrow> False)
     \<or> (case vo_scriptpubkey_address prevout of Some a \<Rightarrow> a = addr | None \<Rightarrow> False))"

definition funding_input :: "'k crates \<Rightarrow> tx_vin \<times> tx_vout \<Rightarrow> (executor_error, cover_utxo) result" where
  "funding_input cr = (\<lambda>(vin, prevout).
    case txid_from_str cr (vi_txid vin) of
      Inl e \<Rightarrow> Inl (Chain (DecodeFailed (Format ''invalid txid in electrs vin: {err}'' [ArgStr e])))
    | Inr tx \<Rightarrow>
        (case hex_decode cr (vo_scriptpubkey prevout) of
           Inl e \<Rightarrow> Inl (Chain (DecodeFailed (Format ''invalid prevout script hex: {err}'' [ArgStr e])))
         | Inr spk \<Rightarrow> Inr \<lparr>cu_outpoint = \<lparr>op_txid = tx, op_vout = vi_vout vin\<rparr>, cu_value = vo_value prevout,
             cu_script_pubkey = spk\<rparr>))"

definition extract_wallet_funding_inputs ::
    "'k crates \<Rightarrow> esplora_tx \<Rightarrow> script \<Rightarrow> string \<Rightarrow> (executor_error, cover_utxo list) result" where
  "extract_wallet_funding_inputs cr tx spk addr =
    try_map (funding_input cr)
      (filter (\<lambda>(vin, prevout). wallet_owned cr spk addr prevout)
        (List.map_filter (\<lambda>vin. map_option (Pair vin) (vi_prevout vin)) (et_vin tx)))"

text \<open>The fallback on bitcoind's raw transactions.\<close>

definition raw_transaction ::
    "'k crates \<Rightarrow> chain_view \<Rightarrow> string \<Rightarrow> string \<Rightarrow> string \<Rightarrow> (executor_error, transaction) result" where
  "raw_transaction cr cv tx bad_hex bad_bytes =
    (case get_raw_transaction_hex cv tx of
       Inl e \<Rightarrow> Inl (rpc_failure e)
     | Inr hex \<Rightarrow>
         (case hex_decode cr hex of
            Inl e \<Rightarrow> Inl (Chain (DecodeFailed (Format bad_hex [ArgStr e])))
          | Inr bs \<Rightarrow>
              (case deserialize_tx cr bs of
                 Inl e \<Rightarrow> Inl (Chain (DecodeFailed (Format bad_bytes [ArgStr e])))
               | Inr t \<Rightarrow> Inr t)))"

definition raw_funding_input ::
    "'k crates \<Rightarrow> (txid \<Rightarrow> string) \<Rightarrow> chain_view \<Rightarrow> script \<Rightarrow> cover_utxo list \<Rightarrow> tx_in \<Rightarrow>
     (executor_error, cover_utxo list) result" where
  "raw_funding_input cr txt cv spk found inp =
    (let prev = in_previous_output inp in
     try_bind (raw_transaction cr cv (txt (op_txid prev))
         ''invalid bitcoind prev tx hex: {err}'' ''invalid bitcoind prev tx bytes: {err}'') (\<lambda>prev_tx.
       if unat (op_vout prev) < length (tx_output prev_tx) then
         let out = tx_output prev_tx ! unat (op_vout prev) in
         Inr (if out_script_pubkey out = spk
              then found @ [\<lparr>cu_outpoint = prev, cu_value = out_value out, cu_script_pubkey = out_script_pubkey out\<rparr>]
              else found)
       else Inl (Chain (DecodeFailed (Format ''prev tx {} missing vout {}''
              [ArgTxid (op_txid prev), ArgNat (unat (op_vout prev))])))))"

definition load_wallet_funding_inputs_from_bitcoind ::
    "'k crates \<Rightarrow> (txid \<Rightarrow> string) \<Rightarrow> chain_view \<Rightarrow> txid \<Rightarrow> script \<Rightarrow> (executor_error, cover_utxo list) result" where
  "load_wallet_funding_inputs_from_bitcoind cr txt cv tx spk =
    try_bind (raw_transaction cr cv (txt tx)
        ''invalid bitcoind raw tx hex: {err}'' ''invalid bitcoind raw tx bytes: {err}'') (\<lambda>t.
      try_fold (raw_funding_input cr txt cv spk) [] (tx_input t))"

definition btc_load_wallet_funding_inputs ::
    "'k crates \<Rightarrow> (txid \<Rightarrow> string) \<Rightarrow> chain_view \<Rightarrow> address \<Rightarrow> txid \<Rightarrow> (executor_error, cover_utxo list) result" where
  "btc_load_wallet_funding_inputs cr txt cv addr tx =
    (case btc_load_tx txt cv tx of
       Inr t \<Rightarrow> extract_wallet_funding_inputs cr t (addr_script addr) (addr_text addr)
     | Inl _ \<Rightarrow> load_wallet_funding_inputs_from_bitcoind cr txt cv tx (addr_script addr))"

definition btc_observer :: "'k crates \<Rightarrow> (txid \<Rightarrow> string) \<Rightarrow> chain_view \<Rightarrow> address \<Rightarrow> tx_observer" where
  "btc_observer cr txt cv addr =
    \<lparr>observe_tx = btc_observe_tx txt cv,
     load_wallet_funding_inputs = btc_load_wallet_funding_inputs cr txt cv addr,
     load_tx = btc_load_tx txt cv\<rparr>"

end
