(* ===== verification/WalletRunner.thy ===== *)
theory WalletRunner
  imports WalletClients WalletContract
begin

text \<open>
  The wallet runner (wallet/runner.rs). Its state holds the store, the transaction builder with
  its Electrs client, the runtime, the confirmations still to handle, the callers waiting for a
  txid, and what it has sent to them. The record \<open>runner_env\<close> holds what does not change, and the
  answers of the outside world: handler number \<open>n\<close> (counted by \<open>rn_clock\<close>) sees the chain as
  \<open>ev_view n\<close>, reads the clock as \<open>ev_now n\<close> and draws the fresh lineage id \<open>ev_lineage_id n\<close>.
  A handler that fails keeps the state it has already changed.
\<close>

section \<open>State and environment\<close>

record submitted_batch =
  sb_lineage_id :: lineage_id
  sb_txid :: txid
  sb_request_keys :: "string list"
  sb_replaces :: "txid option"

datatype resolve_result = RCancelledPending | RAlreadySubmitted "txid option"

datatype runner_command = CSubmit wallet_request | CResolvePending string nat

record 'k runner_env =
  ev_crates :: "'k crates"
  ev_compute_txid :: "transaction \<Rightarrow> txid"
  ev_serialize_hex :: "transaction \<Rightarrow> string"
  ev_txid_text :: "txid \<Rightarrow> string"
  ev_config :: wallet_config
  ev_scope :: string
  ev_view :: "nat \<Rightarrow> chain_view"
  ev_now :: "nat \<Rightarrow> timestamp"
  ev_lineage_id :: "nat \<Rightarrow> lineage_id"

record ('s, 'k) runner =
  rn_store :: 's
  rn_builder :: "'k tx_builder"
  rn_runtime :: runtime_state
  rn_confirmations :: "pending_confirmation list"
  rn_queue :: "runner_command list"
  rn_incoming :: "pending_wallet_request list"
  rn_waiters :: "(string \<times> nat list) list"
  rn_notified :: "(nat \<times> txid) list"
  rn_answers :: "(nat \<times> (executor_error, resolve_result) result) list"
  rn_submitted :: "submitted_batch list option"
  rn_clock :: nat

type_synonym ('s, 'k, 'a) handler = "('s, 'k) runner \<Rightarrow> (executor_error, 'a) result \<times> ('s, 'k) runner"

definition runner_script :: "('s, 'k) runner \<Rightarrow> script" where
  "runner_script r = addr_script (bw_address (tb_wallet (rn_builder r)))"

definition runner_observer :: "'k runner_env \<Rightarrow> chain_view \<Rightarrow> ('s, 'k) runner \<Rightarrow> tx_observer" where
  "runner_observer env cv r = btc_observer (ev_crates env) (ev_txid_text env) cv (bw_address (tb_wallet (rn_builder r)))"

definition hex_opt :: "'k crates \<Rightarrow> string \<Rightarrow> bytes option" where
  "hex_opt cr s = (case hex_decode cr s of Inl _ \<Rightarrow> None | Inr bs \<Rightarrow> Some bs)"

text \<open>The start of a handler: its view of the world, and the clock moves on.\<close>

definition enter :: "'k runner_env \<Rightarrow> ('s, 'k) runner \<Rightarrow> chain_view \<times> timestamp \<times> lineage_id \<times> ('s, 'k) runner" where
  "enter env r = (ev_view env (rn_clock r), ev_now env (rn_clock r), ev_lineage_id env (rn_clock r), r\<lparr>rn_clock := rn_clock r + 1\<rparr>)"

section \<open>Helpers\<close>

definition wallet_scope :: "(network \<Rightarrow> string) \<Rightarrow> (bytes \<Rightarrow> string) \<Rightarrow> network \<Rightarrow> 'k bitcoin_wallet \<Rightarrow> string" where
  "wallet_scope core_arg key_text net w = ''bitcoin_'' @ core_arg net @ '':'' @ key_text (bw_x_only_pubkey w)"

definition pending_wallet_requests :: "pending_wallet_request list \<Rightarrow> wallet_request list" where
  "pending_wallet_requests reqs = map pr_request reqs"

fun join_bar :: "string list \<Rightarrow> string" where
  "join_bar [] = []"
| "join_bar [k] = k"
| "join_bar (k # ks) = k @ ''|'' @ join_bar ks"

definition sorted_request_key :: "pending_wallet_request list \<Rightarrow> string" where
  "sorted_request_key reqs = join_bar (sort (map pr_key reqs))"

fun push_to_group ::
    "(chain_anchor \<times> pending_wallet_request list) list \<Rightarrow> chain_anchor \<Rightarrow> pending_wallet_request \<Rightarrow>
     (chain_anchor \<times> pending_wallet_request list) option" where
  "push_to_group gs anchor r = map_option (\<lambda>(a, rs). (a, rs @ [r])) (find (\<lambda>(a, _). a = anchor) gs)"

definition runner_group_step ::
    "(chain_anchor \<times> pending_wallet_request list) list \<Rightarrow> pending_wallet_request \<Rightarrow>
     (chain_anchor \<times> pending_wallet_request list) list" where
  "runner_group_step gs r =
    (case pr_chain_anchor r of
       None \<Rightarrow> gs
     | Some anchor \<Rightarrow>
         (case push_to_group gs anchor r of
            Some g \<Rightarrow> AList.update anchor (snd g) gs
          | None \<Rightarrow> gs @ [(anchor, [r])]))"

definition runner_group_anchored_requests ::
    "pending_wallet_request list \<Rightarrow> (chain_anchor \<times> pending_wallet_request list) list" where
  "runner_group_anchored_requests reqs = foldl runner_group_step [] reqs"

definition remove_pending_request :: "runtime_state \<Rightarrow> string \<Rightarrow> runtime_state" where
  "remove_pending_request rt key =
    rt\<lparr>rt_pending :=
      \<lparr>ps_free = filter (\<lambda>p. pr_key p \<noteq> key) (ps_free (rt_pending rt)),
       ps_anchored = filter (\<lambda>p. pr_key p \<noteq> key) (ps_anchored (rt_pending rt))\<rparr>\<rparr>"

definition lineage_reserved :: "live_lineage \<Rightarrow> outpoint list" where
  "lineage_reserved l =
    map cu_outpoint (ll_cover_utxos l)
    @ (case ll_chain_anchor l of None \<Rightarrow> [] | Some a \<Rightarrow> [change_outpoint a])"

definition anchor_reserved :: "chain_anchor option \<Rightarrow> pending_wallet_request \<Rightarrow> outpoint list" where
  "anchor_reserved active p =
    (case pr_chain_anchor p of
       None \<Rightarrow> []
     | Some a \<Rightarrow> if active = Some a then [] else [change_outpoint a])"

definition ignored_cover_outpoints :: "runtime_state \<Rightarrow> lineage_id option \<Rightarrow> chain_anchor option \<Rightarrow> outpoint list" where
  "ignored_cover_outpoints rt current active =
    concat (map lineage_reserved (filter (\<lambda>l. Some (ll_lineage_id l) \<noteq> current) (map snd (rt_live_lineages rt))))
    @ concat (map (anchor_reserved active) (ps_anchored (rt_pending rt)))"

fun tx_builder_error_message :: "tx_builder_error \<Rightarrow> message" where
  "tx_builder_error_message (TbValidation m) = Format ''validation error: {0}'' [ArgMessage m]"
| "tx_builder_error_message (TbInsufficientFunds n m) =
    Format ''insufficient UTXOs: need {needed} sats, have {available} sats'' [ArgNat (unat n), ArgNat (unat m)]"
| "tx_builder_error_message TbMaxIterationsExceeded = Format ''fee builder exceeded max iterations'' []"
| "tx_builder_error_message (TbConsensus m) = Format ''bitcoin consensus error: {0}'' [ArgMessage m]"
| "tx_builder_error_message (TbSighash m) = Format ''sighash error: {0}'' [ArgMessage m]"
| "tx_builder_error_message (TbClient m) = Format ''client error: {0}'' [ArgMessage m]"

definition map_builder_error :: "tx_builder_error \<Rightarrow> executor_error" where
  "map_builder_error e = Chain (ChainOther (Format ''bitcoin wallet builder: {error}'' [ArgMessage (tx_builder_error_message e)]))"

definition planner_cost_from_build :: "build_receipt \<Rightarrow> u64 option \<Rightarrow> (tx_builder_error, u64) result" where
  "planner_cost_from_build receipt previous_total_fee =
    (case previous_total_fee of
       Some previous \<Rightarrow> Inr (saturating_sub (bt_fee_paid_sats receipt) previous)
     | None \<Rightarrow> Inr (bt_fee_paid_sats receipt))"

definition anchor_prevout :: "chain_anchor \<Rightarrow> cover_utxo" where
  "anchor_prevout a = \<lparr>cu_outpoint = change_outpoint a, cu_value = change_value a, cu_script_pubkey = change_script_pubkey a\<rparr>"

section \<open>Costs\<close>

definition cost_fresh ::
    "'k runner_env \<Rightarrow> 'k tx_builder \<Rightarrow> pending_wallet_request list \<Rightarrow> rat \<Rightarrow> runtime_state \<Rightarrow>
     (tx_builder_error, u64) result \<times> 'k tx_builder" where
  "cost_fresh env b reqs fee_rate rt =
    (let (r, b') = build_wallet_tx_with_options (ev_crates env) (clear_inflight_cover_utxos b) (pending_wallet_requests reqs) fee_rate
           \<lparr>bo_lineage_prevout = None, bo_min_change_value = min_change_value (ev_config env),
            bo_ignored_cover_outpoints = ignored_cover_outpoints rt None None\<rparr>
     in (try_bind r (\<lambda>receipt. planner_cost_from_build receipt None), b'))"

definition cost_chained ::
    "'k runner_env \<Rightarrow> chain_view \<Rightarrow> 'k tx_builder \<Rightarrow> live_lineage option \<Rightarrow> chain_anchor \<Rightarrow> pending_wallet_request list \<Rightarrow>
     rat \<Rightarrow> runtime_state \<Rightarrow> (tx_builder_error, u64) result \<times> 'k tx_builder" where
  "cost_chained env cv b existing anchor reqs fee_rate rt =
    (case existing of
       Some l \<Rightarrow>
         (case fetch_rbf_context (ev_txid_text env) cv (ll_head_txid l) of
            None \<Rightarrow> (Inl (TbClient (Format ''rbf context unavailable'' [])), b)
          | Some ctx \<Rightarrow>
              (let (r, b') = build_wallet_tx_with_rbf_and_options (ev_crates env)
                     (set_inflight_cover_utxos b (ll_cover_utxos l))
                     (wallet_requests l @ pending_wallet_requests reqs) fee_rate ctx
                     \<lparr>bo_lineage_prevout = Some (anchor_prevout anchor), bo_min_change_value = min_change_value (ev_config env),
                      bo_ignored_cover_outpoints = ignored_cover_outpoints rt (Some (ll_lineage_id l)) (Some anchor)\<rparr>
               in (try_bind r (\<lambda>receipt. planner_cost_from_build receipt (Some (rc_previous_total_fee ctx))), b')))
     | None \<Rightarrow>
         (let (r, b') = build_wallet_tx_with_options (ev_crates env) (clear_inflight_cover_utxos b)
                (pending_wallet_requests reqs) fee_rate
                \<lparr>bo_lineage_prevout = Some (anchor_prevout anchor), bo_min_change_value = min_change_value (ev_config env),
                 bo_ignored_cover_outpoints = ignored_cover_outpoints rt None (Some anchor)\<rparr>
          in (try_bind r (\<lambda>receipt. planner_cost_from_build receipt None), b')))"

text \<open>The prepared costs: maps keyed by the joined request keys.\<close>

record prepared_costs =
  pm_fresh :: "(string \<times> u64) list"
  pm_rbf :: "((lineage_id \<times> string) \<times> u64) list"
  pm_chained :: "((lineage_id option \<times> string) \<times> u64) list"

definition prepared_evaluator :: "prepared_costs \<Rightarrow> cost_evaluator" where
  "prepared_evaluator pm =
    \<lparr>ce_fresh = \<lambda>reqs. map_of (pm_fresh pm) (sorted_request_key reqs),
     ce_rbf = \<lambda>l reqs. map_of (pm_rbf pm) (ll_lineage_id l, sorted_request_key reqs),
     ce_chained = \<lambda>_ existing reqs. map_of (pm_chained pm) (map_option ll_lineage_id existing, sorted_request_key reqs)\<rparr>"

definition note_fresh :: "string \<Rightarrow> (tx_builder_error, u64) result \<Rightarrow> prepared_costs \<Rightarrow> prepared_costs" where
  "note_fresh key r pm = (case r of Inl _ \<Rightarrow> pm | Inr cost \<Rightarrow> pm\<lparr>pm_fresh := AList.update key cost (pm_fresh pm)\<rparr>)"

definition note_chained ::
    "lineage_id option \<times> string \<Rightarrow> (tx_builder_error, u64) result \<Rightarrow> prepared_costs \<Rightarrow> prepared_costs" where
  "note_chained key r pm = (case r of Inl _ \<Rightarrow> pm | Inr cost \<Rightarrow> pm\<lparr>pm_chained := AList.update key cost (pm_chained pm)\<rparr>)"

definition prepare_group ::
    "'k runner_env \<Rightarrow> chain_view \<Rightarrow> runtime_state \<Rightarrow> rat \<Rightarrow> prepared_costs \<times> 'k tx_builder \<Rightarrow>
     chain_anchor \<times> pending_wallet_request list \<Rightarrow> prepared_costs \<times> 'k tx_builder" where
  "prepare_group env cv preview fee_rate s g =
    (let (pm, b) = s; (anchor, reqs) = g;
         existing = existing_lineage_for preview anchor;
         owner = map_option ll_lineage_id existing;
         (r, b) = cost_chained env cv b existing anchor reqs fee_rate preview;
         pm = note_chained (owner, sorted_request_key reqs) r pm in
     if ps_free (rt_pending preview) = [] then (pm, b)
     else
       let mixed = reqs @ ps_free (rt_pending preview);
           (r, b) = cost_chained env cv b existing anchor mixed fee_rate preview in
       (note_chained (owner, sorted_request_key mixed) r pm, b))"

definition prepare_planner_evaluator ::
    "'k runner_env \<Rightarrow> chain_view \<Rightarrow> runtime_state \<Rightarrow> 'k tx_builder \<Rightarrow> prepared_costs \<times> 'k tx_builder" where
  "prepare_planner_evaluator env cv preview b =
    (let fee_rate = market_fee_rate (electrs_fee_estimates cv) (ev_config env);
         pm = \<lparr>pm_fresh = [], pm_rbf = [], pm_chained = []\<rparr>;
         free = ps_free (rt_pending preview);
         (pm, b) = (if free = [] then (pm, b)
           else let (r, b) = cost_fresh env b free fee_rate preview
                in (note_fresh (sorted_request_key free) r pm, b)) in
     foldl (prepare_group env cv preview fee_rate) (pm, b) (runner_group_anchored_requests (ps_anchored (rt_pending preview))))"

text \<open>The preview of the tick's housekeeping.\<close>

definition preview_step :: "u64 \<Rightarrow> u64 \<Rightarrow> pending_state \<Rightarrow> pending_wallet_request \<Rightarrow> pending_state" where
  "preview_step height required p r =
    (case pr_chain_anchor r of
       None \<Rightarrow> p\<lparr>ps_free := ps_free p @ [r\<lparr>pr_chain_anchor := None\<rparr>]\<rparr>
     | Some anchor \<Rightarrow>
         if saturating_add (saturating_sub height (confirmed_height anchor)) 1 \<ge> required
         then p\<lparr>ps_free := ps_free p @ [r\<lparr>pr_chain_anchor := None\<rparr>]\<rparr>
         else p\<lparr>ps_anchored := ps_anchored p @ [r]\<rparr>)"

definition preview_runtime_after_housekeeping ::
    "wallet_config \<Rightarrow> runtime_state \<Rightarrow> pending_wallet_request list \<Rightarrow> u64 \<Rightarrow> timestamp \<Rightarrow> runtime_state" where
  "preview_runtime_after_housekeeping cfg rt incoming height now =
    (let preview = foldl push_pending (rt\<lparr>rt_current_height := height\<rparr>) incoming;
         p = foldl (preview_step height (chain_anchor_confirmations cfg))
               ((rt_pending preview)\<lparr>ps_anchored := []\<rparr>) (ps_anchored (rt_pending preview));
         keep = (\<lambda>r. now \<le> pr_created_at r + sint (max_pending_ttl_secs cfg) * 1000000000) in
     preview\<lparr>rt_pending := \<lparr>ps_free = filter keep (ps_free p), ps_anchored = filter keep (ps_anchored p)\<rparr>\<rparr>)"

section \<open>Submitting a built lineage\<close>

text \<open>Resolve the waiters of one request with the txid of its batch.\<close>

definition notify_key :: "txid \<Rightarrow> ('s, 'k) runner \<Rightarrow> string \<Rightarrow> ('s, 'k) runner" where
  "notify_key tx r key =
    (case map_of (rn_waiters r) key of
       None \<Rightarrow> r
     | Some entries \<Rightarrow> r\<lparr>rn_waiters := AList.delete key (rn_waiters r),
         rn_notified := rn_notified r @ map (\<lambda>w. (w, tx)) entries\<rparr>)"

definition notify_submission :: "submitted_batch \<Rightarrow> ('s, 'k) runner \<Rightarrow> ('s, 'k) runner" where
  "notify_submission batch r =
    (let r = foldl (notify_key (sb_txid batch)) r (sb_request_keys batch) in
     r\<lparr>rn_submitted := map_option (\<lambda>bs. bs @ [batch]) (rn_submitted r)\<rparr>)"

definition append_head :: "txid \<Rightarrow> live_lineage_request \<Rightarrow> live_lineage_request" where
  "append_head tx q =
    (if lr_txid_history q \<noteq> [] \<and> last (lr_txid_history q) = tx then q
     else q\<lparr>lr_txid_history := lr_txid_history q @ [tx]\<rparr>)"

definition join_lineage :: "txid \<Rightarrow> pending_wallet_request \<Rightarrow> live_lineage_request" where
  "join_lineage tx p = \<lparr>lr_request = pr_request p, lr_txid_history = [tx], lr_created_at = pr_created_at p\<rparr>"

definition extended_txids :: "runtime_state \<Rightarrow> lineage_id \<Rightarrow> txid \<Rightarrow> txid list" where
  "extended_txids rt l tx =
    (case map_of (rt_live_lineages rt) l of
       None \<Rightarrow> [tx]
     | Some existing \<Rightarrow>
         if ll_all_txids existing \<noteq> [] \<and> last (ll_all_txids existing) = tx then ll_all_txids existing
         else ll_all_txids existing @ [tx])"

text \<open>The runtime after the network took the transaction, or may have taken it.\<close>

definition adopt_submission ::
    "lineage_id \<Rightarrow> txid \<Rightarrow> chain_anchor option \<Rightarrow> live_lineage_request list \<Rightarrow> pending_wallet_request list \<Rightarrow>
     cover_utxo list \<Rightarrow> runtime_state \<Rightarrow> runtime_state" where
  "adopt_submission l tx anchor existing new_requests covers rt =
    (let rt = foldl (\<lambda>rt p. remove_pending_request rt (pr_key p)) rt new_requests;
         live = \<lparr>ll_lineage_id = l, ll_head_txid = tx, ll_all_txids = extended_txids rt l tx,
           ll_requests = map (append_head tx) existing @ map (join_lineage tx) new_requests,
           ll_cover_utxos = covers, ll_chain_anchor = anchor\<rparr> in
     reset_missing_observations l (rt\<lparr>rt_live_lineages := AList.update l live (rt_live_lineages rt)\<rparr>))"

definition submit_built_lineage ::
    "'s wallet_store \<Rightarrow> 'k runner_env \<Rightarrow> chain_view \<Rightarrow> broadcast_kind \<Rightarrow> lineage_id \<Rightarrow> txid option \<Rightarrow> chain_anchor option \<Rightarrow>
     live_lineage_request list \<Rightarrow> pending_wallet_request list \<Rightarrow> transaction \<Rightarrow> cover_utxo list \<Rightarrow> ('s, 'k, unit) handler" where
  "submit_built_lineage st env cv knd l replaces anchor existing new_requests tx covers r =
    (let txid = ev_compute_txid env tx;
         included = map lr_key existing @ map pr_key new_requests;
         plan = \<lparr>bp_kind = knd, bp_lineage_id = l, bp_txid = txid, bp_raw_tx_hex = ev_serialize_hex env tx,
           bp_included = included, bp_dropped = []\<rparr>;
         (s', res) = persist_and_submit_broadcast st (btc_broadcaster cv) (ev_scope env) plan (rn_store r);
         r = r\<lparr>rn_store := s'\<rparr>;
         adopted = notify_submission
           \<lparr>sb_lineage_id = l, sb_txid = txid, sb_request_keys = included, sb_replaces = replaces\<rparr>
           (r\<lparr>rn_runtime := adopt_submission l txid anchor existing new_requests covers (rn_runtime r)\<rparr>) in
     case res of
       Inl e \<Rightarrow> (Inl e, r)
     | Inr (SubAccepted _) \<Rightarrow> (Inr (), adopted)
     | Inr (SubAmbiguous _) \<Rightarrow> (Inr (), adopted)
     | Inr (SubRejected _) \<Rightarrow> (Inr (), r))"

section \<open>Executing planned actions\<close>

definition with_builder :: "'k tx_builder \<Rightarrow> ('s, 'k) runner \<Rightarrow> ('s, 'k) runner" where
  "with_builder b r = r\<lparr>rn_builder := b\<rparr>"

text \<open>Build, then submit; a builder error ends the action.\<close>

definition submit_build ::
    "'k build_outcome \<Rightarrow> (build_receipt \<Rightarrow> ('s, 'k, unit) handler) \<Rightarrow> ('s, 'k, unit) handler" where
  "submit_build outcome k r =
    (case outcome of
       (Inl e, b) \<Rightarrow> (Inl (map_builder_error e), with_builder b r)
     | (Inr receipt, b) \<Rightarrow> k receipt (with_builder b r))"

definition execute_fresh ::
    "'s wallet_store \<Rightarrow> 'k runner_env \<Rightarrow> chain_view \<Rightarrow> lineage_id \<Rightarrow> rat \<Rightarrow> pending_wallet_request list \<Rightarrow> ('s, 'k, unit) handler" where
  "execute_fresh st env cv fresh fee_rate reqs r =
    submit_build
      (build_wallet_tx_with_options (ev_crates env) (clear_inflight_cover_utxos (rn_builder r))
        (pending_wallet_requests reqs) fee_rate
        \<lparr>bo_lineage_prevout = None, bo_min_change_value = min_change_value (ev_config env),
         bo_ignored_cover_outpoints = ignored_cover_outpoints (rn_runtime r) None None\<rparr>)
      (\<lambda>receipt. submit_built_lineage st env cv KFresh fresh None None [] reqs (bt_tx receipt) (bt_cover_utxos receipt)) r"

text \<open>A replacement inside a live lineage, for \<open>Rbf\<close> and for \<open>Chained\<close> with an existing lineage.\<close>

definition execute_replacement ::
    "'s wallet_store \<Rightarrow> 'k runner_env \<Rightarrow> chain_view \<Rightarrow> rat \<Rightarrow> broadcast_kind \<Rightarrow> executor_error \<Rightarrow> lineage_id \<Rightarrow>
     (live_lineage \<Rightarrow> cover_utxo option) \<Rightarrow> (live_lineage \<Rightarrow> chain_anchor option) \<Rightarrow>
     pending_wallet_request list \<Rightarrow> ('s, 'k, unit) handler" where
  "execute_replacement st env cv fee_rate knd missing lineage_id prevout anchor reqs r =
    (case map_of (rt_live_lineages (rn_runtime r)) lineage_id of
       None \<Rightarrow> (Inl missing, r)
     | Some l \<Rightarrow>
         (case fetch_rbf_context (ev_txid_text env) cv (ll_head_txid l) of
            None \<Rightarrow> (Inl (Chain (Rpc (Format ''rbf context unavailable for {}'' [ArgTxid (ll_head_txid l)]))), r)
          | Some ctx \<Rightarrow>
              submit_build
                (build_wallet_tx_with_rbf_and_options (ev_crates env)
                  (set_inflight_cover_utxos (rn_builder r) (ll_cover_utxos l))
                  (wallet_requests l @ pending_wallet_requests reqs) fee_rate ctx
                  \<lparr>bo_lineage_prevout = prevout l, bo_min_change_value = min_change_value (ev_config env),
                   bo_ignored_cover_outpoints = ignored_cover_outpoints (rn_runtime r) (Some (ll_lineage_id l)) (anchor l)\<rparr>)
                (\<lambda>receipt. submit_built_lineage st env cv knd lineage_id (Some (ll_head_txid l)) (anchor l) (ll_requests l)
                   reqs (bt_tx receipt) (bt_cover_utxos receipt)) r))"

definition execute_chained_new ::
    "'s wallet_store \<Rightarrow> 'k runner_env \<Rightarrow> chain_view \<Rightarrow> lineage_id \<Rightarrow> rat \<Rightarrow> chain_anchor \<Rightarrow> pending_wallet_request list \<Rightarrow>
     ('s, 'k, unit) handler" where
  "execute_chained_new st env cv fresh fee_rate anchor reqs r =
    submit_build
      (build_wallet_tx_with_options (ev_crates env) (clear_inflight_cover_utxos (rn_builder r))
        (pending_wallet_requests reqs) fee_rate
        \<lparr>bo_lineage_prevout = Some (anchor_prevout anchor), bo_min_change_value = min_change_value (ev_config env),
         bo_ignored_cover_outpoints = ignored_cover_outpoints (rn_runtime r) None (Some anchor)\<rparr>)
      (\<lambda>receipt. submit_built_lineage st env cv KChained fresh None (Some anchor) [] reqs (bt_tx receipt) (bt_cover_utxos receipt)) r"

definition execute_action ::
    "'s wallet_store \<Rightarrow> 'k runner_env \<Rightarrow> planned_action \<Rightarrow> ('s, 'k, unit) handler" where
  "execute_action st env action r =
    (let (cv, _, fresh, r) = enter env r;
         fee_rate = market_fee_rate (electrs_fee_estimates cv) (ev_config env) in
     case action of
       PFresh reqs \<Rightarrow> execute_fresh st env cv fresh fee_rate reqs r
     | PRbf l reqs \<Rightarrow>
         execute_replacement st env cv fee_rate KRbf (Domain (Format ''missing live lineage {lineage_id} for rbf'' [ArgLineage l])) l
           derived_lineage_prevout ll_chain_anchor reqs r
     | PChained (Some l) anchor reqs \<Rightarrow>
         execute_replacement st env cv fee_rate KChained (Domain (Format ''missing chained lineage {lineage_id} for rbf'' [ArgLineage l])) l
           (\<lambda>_. Some (anchor_prevout anchor)) (\<lambda>_. Some anchor) reqs r
     | PChained None anchor reqs \<Rightarrow> execute_chained_new st env cv fresh fee_rate anchor reqs r)"

section \<open>Confirmations and missing heads\<close>

text \<open>The \<open>expect\<close> on the orphan's creation time is the case \<open>None\<close>.\<close>

definition orphan_created_at :: "live_lineage \<Rightarrow> wallet_request \<Rightarrow> timestamp option" where
  "orphan_created_at l orphan =
    map_option lr_created_at (find (\<lambda>q. lr_key q = dedupe_key orphan) (ll_requests l))"

definition requeue_orphan ::
    "live_lineage \<Rightarrow> chain_anchor option \<Rightarrow> runtime_state \<Rightarrow> wallet_request \<Rightarrow> (executor_error, runtime_state) result" where
  "requeue_orphan l anchor rt orphan =
    try_bind (ok_or (orphan_created_at l orphan) (Domain (Format ''orphan request must exist'' []))) (\<lambda>created.
      Inr (push_pending rt \<lparr>pr_request = orphan, pr_chain_anchor = anchor, pr_created_at = created\<rparr>))"

definition confirmation_anchor ::
    "'k runner_env \<Rightarrow> u64 \<Rightarrow> u64 \<Rightarrow> txid \<Rightarrow> esplora_tx \<Rightarrow> script \<Rightarrow> wallet_request list \<Rightarrow>
     (executor_error, chain_anchor option) result" where
  "confirmation_anchor env height h tx confirmed_tx spk orphaned =
    (let confirmations = saturating_add (saturating_sub height h) 1 in
     if orphaned = [] \<or> confirmations \<ge> chain_anchor_confirmations (ev_config env) then Inr None
     else try_bind (extract_chain_anchor (hex_opt (ev_crates env)) tx h confirmed_tx spk) (\<lambda>a. Inr (Some a)))"

definition handle_confirmation ::
    "'s wallet_store \<Rightarrow> 'k runner_env \<Rightarrow> pending_confirmation \<Rightarrow> u64 \<Rightarrow> ('s, 'k, unit) handler" where
  "handle_confirmation st env conf height r =
    (let (cv, _, _, r) = enter env r;
         l = pc_lineage conf; tx = pc_confirmed_txid conf;
         part = partition_confirmed_lineage l tx in
     case try_bind (load_tx (runner_observer env cv r) tx) (\<lambda>confirmed_tx.
          try_bind (ok_or (ts_block_height (et_status confirmed_tx))
            (Domain (Format ''confirmed tx {} missing block height'' [ArgTxid tx]))) (\<lambda>h.
          try_bind (confirmation_anchor env height h tx confirmed_tx (runner_script r) (cf_orphaned part)) (\<lambda>anchor.
          try_bind (so_persist_confirmation st (ev_scope env)
            \<lparr>cp_lineage_id = ll_lineage_id l, cp_confirmed_txid = tx, cp_confirmed = map dedupe_key (cf_confirmed part),
             cp_orphaned = map dedupe_key (cf_orphaned part), cp_chain_anchor = anchor\<rparr> (rn_store r)) (\<lambda>(_, s').
            Inr (anchor, s'))))) of
       Inl e \<Rightarrow> (Inl e, r)
     | Inr (anchor, s') \<Rightarrow>
         (let r = r\<lparr>rn_store := s'\<rparr> in
          case try_fold (requeue_orphan l anchor) (rn_runtime r) (cf_orphaned part) of
            Inl e \<Rightarrow> (Inl e, r)
          | Inr rt \<Rightarrow> (Inr (), r\<lparr>rn_runtime := rt\<rparr>)))"

text \<open>
  The requeued requests are pushed before the inputs of the survivor are loaded, and stay when
  loading fails.
\<close>

definition handle_missing_lineage ::
    "'s wallet_store \<Rightarrow> 'k runner_env \<Rightarrow> live_lineage \<Rightarrow> u64 \<Rightarrow> ('s, 'k, unit) handler" where
  "handle_missing_lineage st env l height r =
    (let (cv, now, _, r) = enter env r;
         ob = runner_observer env cv r in
     case reconcile_missing_lineage (hex_opt (ev_crates env)) st ob (ev_scope env) now l height
            (chain_anchor_confirmations (ev_config env)) (runner_script r) (rn_store r) of
       Inl e \<Rightarrow> (Inl e, r)
     | Inr (result, s') \<Rightarrow>
         (let r = r\<lparr>rn_store := s', rn_runtime := foldl push_pending (rn_runtime r) (rr_requeued result)\<rparr> in
          case rr_state result of
            RsConfirmed _ \<Rightarrow> (Inr (), r)
          | RsNoSurvivor \<Rightarrow> (Inr (), r)
          | RsInMempool surviving \<Rightarrow>
              (let survivors = sort_key lr_key (filter (\<lambda>q. surviving \<in> set (lr_txid_history q)) (ll_requests l)) in
               case load_wallet_funding_inputs ob surviving of
                 Inl e \<Rightarrow> (Inl e, r)
               | Inr inputs \<Rightarrow>
                   (let covers = filter (\<lambda>u. case ll_chain_anchor l of None \<Rightarrow> True | Some a \<Rightarrow> change_outpoint a \<noteq> cu_outpoint u) inputs in
                    (Inr (), r\<lparr>rn_runtime := insert_lineage
                       \<lparr>ll_lineage_id = ll_lineage_id l, ll_head_txid = surviving, ll_all_txids = ll_all_txids l,
                        ll_requests = survivors, ll_cover_utxos = covers, ll_chain_anchor = ll_chain_anchor l\<rparr> (rn_runtime r)\<rparr>)))))"

section \<open>The cycle\<close>

definition confirm_step :: "'s wallet_store \<Rightarrow> 'k runner_env \<Rightarrow> u64 \<Rightarrow> ('s, 'k) runner \<Rightarrow> pending_confirmation \<Rightarrow> ('s, 'k) runner" where
  "confirm_step st env height r conf =
    (case handle_confirmation st env conf height r of
       (Inr _, r') \<Rightarrow> r'
     | (Inl _, r') \<Rightarrow> r'\<lparr>rn_confirmations := rn_confirmations r' @ [conf]\<rparr>)"

definition missing_step :: "'s wallet_store \<Rightarrow> 'k runner_env \<Rightarrow> u64 \<Rightarrow> ('s, 'k) runner \<Rightarrow> lineage_id \<Rightarrow> ('s, 'k) runner" where
  "missing_step st env height r k =
    (case map_of (rt_live_lineages (rn_runtime r)) k of
       None \<Rightarrow> r
     | Some l \<Rightarrow>
         (case handle_missing_lineage st env l height
              (r\<lparr>rn_runtime := reset_missing_observations k (remove_lineage k (rn_runtime r))\<rparr>) of
            (Inr _, r') \<Rightarrow> r'
          | (Inl _, r') \<Rightarrow> r'\<lparr>rn_runtime := (rn_runtime r')\<lparr>rt_live_lineages := AList.update k l (rt_live_lineages (rn_runtime r'))\<rparr>\<rparr>))"

definition collect_action :: "planned_action list \<Rightarrow> planned_action \<Rightarrow> planned_action list" where
  "collect_action actions a = actions @ [a]"

definition execute_step :: "'s wallet_store \<Rightarrow> 'k runner_env \<Rightarrow> ('s, 'k) runner \<Rightarrow> planned_action \<Rightarrow> ('s, 'k) runner" where
  "execute_step st env r action = snd (execute_action st env action r)"

definition runner_height :: "('s, 'k, u64) handler" where
  "runner_height r =
    (case current_height (tb_electrs (rn_builder r)) of
       (res, el) \<Rightarrow> (res, r\<lparr>rn_builder := (rn_builder r)\<lparr>tb_electrs := el\<rparr>\<rparr>))"

definition observe_phase :: "'k runner_env \<Rightarrow> ('s, 'k) runner \<Rightarrow> ('s, 'k) runner" where
  "observe_phase env r =
    (let (cv, _, _, r) = enter env r;
         (rt, out) = observe_live_lineages (runner_observer env cv r) (rn_runtime r) in
     r\<lparr>rn_runtime := rt, rn_confirmations := rn_confirmations r @ out\<rparr>)"

definition reconciliation_targets :: "wallet_config \<Rightarrow> runtime_state \<Rightarrow> lineage_id list" where
  "reconciliation_targets cfg rt =
    filter (\<lambda>k. missing_observations rt k \<ge> missing_batch_threshold cfg) (map fst (rt_live_lineages rt))"

definition plan_phase :: "'k runner_env \<Rightarrow> u64 \<Rightarrow> ('s, 'k) runner \<Rightarrow> planned_action list \<times> ('s, 'k) runner" where
  "plan_phase env height r =
    (let (cv, now, _, r) = enter env r;
         preview = preview_runtime_after_housekeeping (ev_config env) (rn_runtime r) (rn_incoming r) height now;
         (pm, b) = prepare_planner_evaluator env cv preview (rn_builder r);
         ((rt, actions), _) = tick (rn_incoming r) height now (ev_config env) (prepared_evaluator pm) collect_action
           (rn_runtime r, []) in
     (actions, r\<lparr>rn_builder := b, rn_runtime := rt, rn_incoming := []\<rparr>))"

definition process_tick :: "'s wallet_store \<Rightarrow> 'k runner_env \<Rightarrow> ('s, 'k, unit) handler" where
  "process_tick st env r =
    (case runner_height r of
       (Inl e, r) \<Rightarrow> (Inl e, r)
     | (Inr height, r) \<Rightarrow>
         (let pending = rn_confirmations r;
              r = foldl (confirm_step st env height) (r\<lparr>rn_confirmations := []\<rparr>) (rev pending);
              r = observe_phase env r;
              r = foldl (missing_step st env height) r (reconciliation_targets (ev_config env) (rn_runtime r));
              (actions, r) = plan_phase env height r in
          (Inr (), foldl (execute_step st env) r actions)))"

section \<open>Commands and callers\<close>

text \<open>
  The handle's operations run in the caller's task: they touch the store, the waiters and the
  command queue. A waiter is a number; the receiver of the queue lives as long as the runner.
\<close>

definition add_waiter :: "string \<Rightarrow> nat option \<Rightarrow> ('s, 'k) runner \<Rightarrow> ('s, 'k) runner" where
  "add_waiter key waiter r =
    (case waiter of
       None \<Rightarrow> r
     | Some w \<Rightarrow> r\<lparr>rn_waiters := AList.update key (unwrap_or (map_of (rn_waiters r) key) [] @ [w]) (rn_waiters r)\<rparr>)"

definition enqueue_request :: "'s wallet_store \<Rightarrow> 'k runner_env \<Rightarrow> wallet_request \<Rightarrow> nat option \<Rightarrow> ('s, 'k, txid option) handler" where
  "enqueue_request st env req waiter r =
    (case so_enqueue st (ev_scope env) req (rn_store r) of
       Inl e \<Rightarrow> (Inl e, r)
     | Inr (res, s') \<Rightarrow>
         (let r = r\<lparr>rn_store := s'\<rparr> in
          case res of
            EnqueuedPending \<Rightarrow>
              (let r = add_waiter (dedupe_key req) waiter r in (Inr None, r\<lparr>rn_queue := rn_queue r @ [CSubmit req]\<rparr>))
          | AlreadyPending \<Rightarrow> (Inr None, add_waiter (dedupe_key req) waiter r)
          | AlreadyInflight _ tx \<Rightarrow> (Inr (Some tx), r)
          | AlreadyConfirmed _ tx \<Rightarrow> (Inr (Some tx), r)
          | AlreadyDropped \<Rightarrow>
              (Inl (Domain (Format ''wallet request {} is already dropped'' [ArgStr (dedupe_key req)])), r)))"

definition submit :: "'s wallet_store \<Rightarrow> 'k runner_env \<Rightarrow> wallet_request \<Rightarrow> ('s, 'k, unit) handler" where
  "submit st env req r =
    (let (res, r) = enqueue_request st env req None r in (try_bind res (\<lambda>_. Inr ()), r))"

text \<open>The synchronous part of \<open>submit_and_wait\<close>: a txid at once, or a registered waiter.\<close>

definition submit_and_wait :: "'s wallet_store \<Rightarrow> 'k runner_env \<Rightarrow> wallet_request \<Rightarrow> nat \<Rightarrow> ('s, 'k, txid option) handler" where
  "submit_and_wait st env req waiter r = enqueue_request st env req (Some waiter) r"

definition resolve_pending_request :: "'s wallet_store \<Rightarrow> 'k runner_env \<Rightarrow> string \<Rightarrow> ('s, 'k, resolve_result) handler" where
  "resolve_pending_request st env key r =
    (let r = r\<lparr>rn_incoming := filter (\<lambda>p. pr_key p \<noteq> key) (rn_incoming r),
               rn_runtime := remove_pending_request (rn_runtime r) key\<rparr> in
     case so_resolve_pending st (ev_scope env) key (rn_store r) of
       Inl e \<Rightarrow> (Inl e, r)
     | Inr (res, s') \<Rightarrow>
         (Inr (case res of CancelledPending \<Rightarrow> RCancelledPending | AlreadySubmitted tx \<Rightarrow> RAlreadySubmitted (Some tx)),
          r\<lparr>rn_store := s', rn_waiters := AList.delete key (rn_waiters r)\<rparr>))"

text \<open>One message of the command channel.\<close>

definition receive_command :: "'s wallet_store \<Rightarrow> 'k runner_env \<Rightarrow> ('s, 'k) runner \<Rightarrow> ('s, 'k) runner" where
  "receive_command st env r =
    (case rn_queue r of
       [] \<Rightarrow> r
     | CSubmit req # q \<Rightarrow>
         (let (_, now, _, r) = enter env r in
          r\<lparr>rn_queue := q,
            rn_incoming := rn_incoming r @ [\<lparr>pr_request = req, pr_chain_anchor = None, pr_created_at = now\<rparr>]\<rparr>)
     | CResolvePending key w # q \<Rightarrow>
         (let (res, r) = resolve_pending_request st env key (r\<lparr>rn_queue := q\<rparr>) in
          r\<lparr>rn_answers := rn_answers r @ [(w, res)]\<rparr>))"

text \<open>What happens to a runner: callers enqueue or ask, and its task receives a command or ticks.\<close>

datatype runner_event =
    EvSubmit wallet_request
  | EvSubmitAndWait wallet_request nat
  | EvResolvePending string nat
  | EvReceive
  | EvTick

fun runner_step :: "'s wallet_store \<Rightarrow> 'k runner_env \<Rightarrow> ('s, 'k) runner \<Rightarrow> runner_event \<Rightarrow> ('s, 'k) runner" where
  "runner_step st env r (EvSubmit req) = snd (submit st env req r)"
| "runner_step st env r (EvSubmitAndWait req w) = snd (submit_and_wait st env req w r)"
| "runner_step st env r (EvResolvePending key w) = r\<lparr>rn_queue := rn_queue r @ [CResolvePending key w]\<rparr>"
| "runner_step st env r EvReceive = receive_command st env r"
| "runner_step st env r EvTick = snd (process_tick st env r)"

definition runner_run :: "'s wallet_store \<Rightarrow> 'k runner_env \<Rightarrow> ('s, 'k) runner \<Rightarrow> runner_event list \<Rightarrow> ('s, 'k) runner" where
  "runner_run st env r evs = foldl (runner_step st env) r evs"

definition runner_new ::
    "'s wallet_store \<Rightarrow> 'k runner_env \<Rightarrow> 'k bitcoin_wallet \<Rightarrow> electrs_client \<Rightarrow> network \<Rightarrow> bool \<Rightarrow> 's \<Rightarrow>
     (executor_error, ('s, 'k) runner) result" where
  "runner_new st env w el net notify s =
    (case current_height el of
       (Inl e, _) \<Rightarrow> Inl e
     | (Inr height, el) \<Rightarrow>
         try_bind (recover_wallet_runtime st (btc_observer (ev_crates env) (ev_txid_text env) (ev_view env 0) (bw_address w))
             (ev_scope env) height s) (\<lambda>rec.
           Inr \<lparr>rn_store = s, rn_builder = builder_new w el net, rn_runtime = rec_runtime rec,
                rn_confirmations = rec_confirmations rec, rn_queue = [], rn_incoming = [], rn_waiters = [],
                rn_notified = [], rn_answers = [], rn_submitted = (if notify then Some [] else None), rn_clock = 1\<rparr>))"

text \<open>
  The states a runner reaches from a store \<open>s\<close>. Every step may see the store at another time, so
  the store is one of a set. Requests come from the constructors of \<open>WalletRequest\<close>.
\<close>

definition event_wf :: "runner_event \<Rightarrow> bool" where
  "event_wf ev = (case ev of EvSubmit req \<Rightarrow> wf_request req | EvSubmitAndWait req _ \<Rightarrow> wf_request req | _ \<Rightarrow> True)"

inductive reaches :: "'s wallet_store set \<Rightarrow> 'k runner_env \<Rightarrow> 's \<Rightarrow> ('s, 'k) runner \<Rightarrow> bool"
  for S :: "'s wallet_store set" and env :: "'k runner_env" and s :: 's where
  started: "st \<in> S \<Longrightarrow> runner_new st env w el net notify s = Inr r \<Longrightarrow> reaches S env s r"
| stepped: "reaches S env s r \<Longrightarrow> st \<in> S \<Longrightarrow> event_wf ev \<Longrightarrow> reaches S env s (runner_step st env r ev)"

end
