(* ===== verification/WalletRunnerInv.thy ===== *)
theory WalletRunnerInv
  imports WalletRunner WalletJournal WalletRuntimeProps
begin

text \<open>
  The invariant of the runner, proved once over the journal's contract: the store is sound, the
  runtime state is well formed, and the store knows every transaction of every live or confirming
  lineage. A set \<open>K\<close> of keys rides along: requests that wait in the store while the runner does not
  carry them.
\<close>

section \<open>Frames\<close>

text \<open>What a handler leaves alone: the confirmations, the requests on their way in, the queue.\<close>

definition aside :: "('s, 'k) runner \<Rightarrow> pending_confirmation list \<times> pending_wallet_request list \<times> runner_command list" where
  "aside r = (rn_confirmations r, rn_incoming r, rn_queue r)"

lemma notify_key_frame [simp]:
  "rn_store (notify_key tx r key) = rn_store r" "rn_runtime (notify_key tx r key) = rn_runtime r"
  "aside (notify_key tx r key) = aside r"
  by (simp_all add: notify_key_def aside_def split: option.splits)

lemma notify_keys_frame [simp]:
  "rn_store (foldl (notify_key tx) r keys) = rn_store r" "rn_runtime (foldl (notify_key tx) r keys) = rn_runtime r"
  "aside (foldl (notify_key tx) r keys) = aside r"
  by (induction keys arbitrary: r) simp_all

lemma notify_submission_frame [simp]:
  "rn_store (notify_submission batch r) = rn_store r" "rn_runtime (notify_submission batch r) = rn_runtime r"
  "aside (notify_submission batch r) = aside r"
proof -
  have *: "aside (x\<lparr>rn_submitted := y\<rparr>) = aside x" for x :: "('s, 'k) runner" and y by (simp add: aside_def)
  show "rn_store (notify_submission batch r) = rn_store r" "rn_runtime (notify_submission batch r) = rn_runtime r"
    "aside (notify_submission batch r) = aside r"
    by (simp_all add: notify_submission_def Let_def *)
qed

lemma aside_update [simp]:
  "aside (r\<lparr>rn_store := s\<rparr>) = aside r" "aside (r\<lparr>rn_runtime := rt\<rparr>) = aside r" "aside (r\<lparr>rn_builder := b\<rparr>) = aside r"
  "aside (r\<lparr>rn_clock := n\<rparr>) = aside r" "aside (r\<lparr>rn_waiters := ws\<rparr>) = aside r"
  by (simp_all add: aside_def)

lemma enter_eq: "enter env r = (cv, now, l, r') \<Longrightarrow> r' = r\<lparr>rn_clock := rn_clock r + 1\<rparr>"
  by (simp add: enter_def)

section \<open>Keys of the runtime state\<close>

definition pending_keys :: "runtime_state \<Rightarrow> string set" where
  "pending_keys rt = pr_key ` set (all_pending rt)"

definition lineage_keys :: "live_lineage \<Rightarrow> string set" where
  "lineage_keys l = lr_key ` set (ll_requests l)"

lemma pending_keys_push: "pending_keys (push_pending rt p) = insert (pr_key p) (pending_keys rt)"
  by (auto simp: pending_keys_def push_pending_def Let_def)

lemma pending_keys_push_all: "pending_keys (foldl push_pending rt ps) = pr_key ` set ps \<union> pending_keys rt"
  by (induction ps arbitrary: rt) (auto simp: pending_keys_push)

lemma pending_keys_remove: "pending_keys (remove_pending_request rt key) = pending_keys rt - {key}"
  by (auto simp: pending_keys_def remove_pending_request_def)

lemma remove_pending_live [simp]: "rt_live_lineages (remove_pending_request rt key) = rt_live_lineages rt"
  by (simp add: remove_pending_request_def)

lemma remove_all_rest:
  "rt_live_lineages (foldl (\<lambda>rt p. remove_pending_request rt (pr_key p)) rt ps) = rt_live_lineages rt"
  "rt_missing (foldl (\<lambda>rt p. remove_pending_request rt (pr_key p)) rt ps) = rt_missing rt"
  "pending_keys (foldl (\<lambda>rt p. remove_pending_request rt (pr_key p)) rt ps) = pending_keys rt - pr_key ` set ps"
proof (induction ps arbitrary: rt)
  case (Cons p ps)
  { case 1 then show ?case using Cons(1)[of "remove_pending_request rt (pr_key p)"] by (simp add: remove_pending_request_def) }
  { case 2 then show ?case using Cons(2)[of "remove_pending_request rt (pr_key p)"] by (simp add: remove_pending_request_def) }
  { case 3 then show ?case using Cons(3)[of "remove_pending_request rt (pr_key p)"] by (auto simp: pending_keys_remove) }
qed simp_all

lemma wf_remove_pending: "wf_runtime rt \<Longrightarrow> wf_runtime (remove_pending_request rt key)"
  by (simp add: remove_pending_request_def wf_runtime_def wf_pending_def)

lemma wf_remove_all: "wf_runtime rt \<Longrightarrow> wf_runtime (foldl (\<lambda>rt p. remove_pending_request rt (pr_key p)) rt ps)"
  by (induction ps arbitrary: rt) (simp_all add: wf_remove_pending)

lemma observe_pending: "rt_pending (fst (foldl (observe_step ob) s ks)) = rt_pending (fst s)"
proof (induction ks arbitrary: s)
  case (Cons k ks)
  have "rt_pending (fst (observe_step ob s k)) = rt_pending (fst s)"
    by (auto simp: observe_step_def Let_def reset_missing_observations_def remove_lineage_def record_missing_observation_def
        adopt_head_def split: prod.splits option.splits sum.splits observed_tx_state.splits missing_head_resolution.splits)
  with Cons show ?case by simp
qed simp

lemma cores_requests:
  assumes "cores s = cores s'" "l \<in> snd ` set (rt_live_lineages (fst s)) \<union> pc_lineage ` set (snd s)"
  obtains l' where "l' \<in> snd ` set (rt_live_lineages (fst s')) \<union> pc_lineage ` set (snd s')" "ll_requests l' = ll_requests l"
proof -
  have "set_mset (cores x) = lineage_core ` (snd ` set (rt_live_lineages (fst x)) \<union> pc_lineage ` set (snd x))" for x
    by (simp add: cores_def image_Un image_comp)
  then have "lineage_core l \<in> lineage_core ` (snd ` set (rt_live_lineages (fst s')) \<union> pc_lineage ` set (snd s'))"
    using assms by (metis image_eqI)
  then obtain l' where "l' \<in> snd ` set (rt_live_lineages (fst s')) \<union> pc_lineage ` set (snd s')" "lineage_core l = lineage_core l'"
    by blast
  with that show thesis by (simp add: lineage_core_def)
qed

lemma cleaned_keys:
  assumes "wf_runtime rt"
  shows "pending_keys (cleaned_state cfg now (pushed_state new height rt)) \<subseteq> pending_keys rt \<union> pr_key ` set new"
proof -
  let ?t = "tick new height now cfg \<lparr>ce_fresh = \<lambda>_. None, ce_rbf = \<lambda>_ _. None, ce_chained = \<lambda>_ _ _. None\<rparr> (\<lambda>u _. u) (rt, ())"
  have "set_mset (mset (map unpinned (all_pending (fst (fst ?t))))) \<subseteq> set_mset (mset (map unpinned (all_pending rt)) + mset (map unpinned new))"
    using tick_mset[OF assms, of new height now cfg _ "\<lambda>u _. u" "()"] by (metis set_mset_mono mset_subset_eq_add_left)
  then have U: "unpinned ` set (all_pending (fst (fst ?t))) \<subseteq> unpinned ` set (all_pending rt) \<union> unpinned ` set new"
    by (simp add: image_Un)
  have k: "pr_key r = dedupe_key (fst (unpinned r))" for r by (simp add: unpinned_def)
  have "pr_key ` A = (dedupe_key \<circ> fst) ` unpinned ` A" for A by (simp add: image_image k)
  with image_mono[OF U, of "dedupe_key \<circ> fst"] show ?thesis unfolding pending_keys_def tick_state by (simp add: image_Un)
qed

lemma cleaned_live: "rt_live_lineages (cleaned_state cfg now (pushed_state new height rt)) = rt_live_lineages rt"
  by (simp add: cleaned_state_def drop_stale_pending_def expire_chain_anchors_def pushed_state_def Let_def split: prod.splits)

section \<open>Keys of commands and events\<close>

fun command_key :: "runner_command \<Rightarrow> string" where
  "command_key (CSubmit req) = dedupe_key req"
| "command_key (CResolvePending key w) = key"

text \<open>An event that does not ask about a key of \<open>K\<close>.\<close>

fun spares :: "string set \<Rightarrow> runner_event \<Rightarrow> bool" where
  "spares K (EvResolvePending key w) = (key \<notin> K)"
| "spares K ev = True"

section \<open>The invariant\<close>

context wallet_journal
begin

definition carried :: "string \<Rightarrow> string set \<Rightarrow> 'a \<Rightarrow> live_lineage \<Rightarrow> bool" where
  "carried scope K s l = (mirrors s scope l \<and> lineage_keys l \<inter> K = {})"

definition sound :: "string \<Rightarrow> string set \<Rightarrow> 'a \<Rightarrow> runtime_state \<Rightarrow> pending_confirmation list \<Rightarrow> bool" where
  "sound scope K s rt cs = (inv s \<and> wf_runtime rt \<and> pending_keys rt \<inter> K = {}
    \<and> (\<forall>l \<in> snd ` set (rt_live_lineages rt) \<union> pc_lineage ` set cs. carried scope K s l)
    \<and> (\<forall>k \<in> K. waiting s scope k))"

lemma carried_leads: "leads scope keys s s' \<Longrightarrow> carried scope K s l \<Longrightarrow> carried scope K s' l"
  by (auto simp: carried_def intro: mirrors_leads)

lemma carried_cong: "ll_requests l' = ll_requests l \<Longrightarrow> carried scope K s l' = carried scope K s l"
  by (simp add: carried_def mirrors_def lineage_keys_def)

lemma sound_leads:
  assumes "sound scope K s rt cs" "leads scope keys s s'" "inv s'" "set keys \<inter> K = {}"
  shows "sound scope K s' rt cs"
  using assms carried_leads[OF assms(2)] leads_waiting[OF assms(2)] by (fastforce simp: sound_def)

lemma sound_push: "sound scope K s rt cs \<Longrightarrow> pr_key p \<notin> K \<Longrightarrow> sound scope K s (push_pending rt p) cs"
  by (simp add: sound_def wf_push_pending pending_keys_push)

lemma sound_push_all: "sound scope K s rt cs \<Longrightarrow> pr_key ` set ps \<inter> K = {} \<Longrightarrow> sound scope K s (foldl push_pending rt ps) cs"
  by (induction ps arbitrary: rt) (simp_all add: sound_push)

lemma sound_update:
  assumes "sound scope K s rt cs" "carried scope K s l" "ll_lineage_id l = k"
  shows "sound scope K s (rt\<lparr>rt_live_lineages := AList.update k l (rt_live_lineages rt)\<rparr>) cs"
  using assms wf_update_lineage[of rt l k]
  by (auto simp: sound_def pending_keys_def dest!: alist_update_entry)

lemma sound_remove: "sound scope K s rt cs \<Longrightarrow> sound scope K s (remove_lineage k rt) cs"
  using wf_remove_lineage[of rt k]
  by (auto simp: sound_def pending_keys_def remove_lineage_def dest!: delete_entry)

lemma sound_reset: "sound scope K s rt cs \<Longrightarrow> sound scope K s (reset_missing_observations k rt) cs"
  using wf_reset[of rt k] by (simp add: sound_def pending_keys_def reset_missing_observations_def)

lemma sound_live:
  assumes "sound scope K s rt cs" "map_of (rt_live_lineages rt) k = Some l"
  shows "carried scope K s l" "ll_lineage_id l = k"
proof -
  have "l \<in> snd ` set (rt_live_lineages rt)" using assms(2) by (force dest: map_of_SomeD)
  with assms(1) show "carried scope K s l" by (simp add: sound_def)
  show "ll_lineage_id l = k" using assms live_lineage_id[of rt k l] by (simp add: sound_def)
qed

lemma sound_remove_pending:
  assumes "sound scope K s rt cs"
  shows "sound scope K s (foldl (\<lambda>rt p. remove_pending_request rt (pr_key p)) rt ps) cs"
  using assms by (auto simp: sound_def wf_remove_all remove_all_rest)

text \<open>A submission of requests of lineages and of pending requests.\<close>

definition recorded :: "string \<Rightarrow> string set \<Rightarrow> 'a \<Rightarrow> live_lineage_request list \<Rightarrow> bool" where
  "recorded scope K s qs = ((\<forall>q \<in> set qs. \<exists>h. history s scope (lr_key q) = Some h \<and> set (lr_txid_history q) \<subseteq> set h)
    \<and> lr_key ` set qs \<inter> K = {})"

lemma carried_recorded: "carried scope K s l = recorded scope K s (ll_requests l)"
  by (simp add: carried_def mirrors_def recorded_def lineage_keys_def)

lemma adopt_sound:
  assumes S: "sound scope K s rt cs" and "recorded scope K s existing" "pr_key ` set new \<inter> K = {}"
    and tx: "\<And>k. k \<in> lr_key ` set existing \<union> pr_key ` set new \<Longrightarrow> \<exists>h. history s scope k = Some h \<and> tx \<in> set h"
  shows "sound scope K s (adopt_submission l tx anchor existing new covers rt) cs"
proof -
  let ?qs = "map (append_head tx) existing @ map (join_lineage tx) new"
  have E: "lr_key (append_head tx q) = lr_key q"
    "set (lr_txid_history (append_head tx q)) \<subseteq> insert tx (set (lr_txid_history q))" for q
    by (auto simp: append_head_def)
  have H: "\<exists>h. history s scope (lr_key q') = Some h \<and> set (lr_txid_history q') \<subseteq> set h" if q': "q' \<in> set ?qs" for q'
  proof -
    consider q where "q \<in> set existing" "q' = append_head tx q" | p where "p \<in> set new" "q' = join_lineage tx p" using q' by auto
    then show ?thesis
    proof cases
      case (1 q)
      then obtain h h' where "history s scope (lr_key q) = Some h" "set (lr_txid_history q) \<subseteq> set h"
        "history s scope (lr_key q) = Some h'" "tx \<in> set h'" using assms(2) tx[of "lr_key q"] by (auto simp: recorded_def)
      with 1 E[of q] show ?thesis by auto
    next
      case (2 p)
      with tx[of "pr_key p"] show ?thesis by (auto simp: join_lineage_def)
    qed
  qed
  have "lr_key ` set ?qs = lr_key ` set existing \<union> pr_key ` set new"
    by (simp add: image_Un image_image E) (simp add: join_lineage_def)
  then have "lr_key ` set ?qs \<inter> K = {}" using assms(2,3) by (auto simp: recorded_def)
  with H have "recorded scope K s ?qs" unfolding recorded_def by blast
  then show ?thesis
    using sound_remove_pending[OF S, of new]
    unfolding adopt_submission_def Let_def by (intro sound_reset sound_update) (simp_all add: carried_recorded)
qed

section \<open>Submissions and actions\<close>

text \<open>The invariant of a runner whose confirmations are \<open>cs\<close>.\<close>

definition sound_at :: "'k runner_env \<Rightarrow> string set \<Rightarrow> pending_confirmation list \<Rightarrow> ('a, 'k) runner \<Rightarrow> bool" where
  "sound_at env K cs r = sound (ev_scope env) K (rn_store r) (rn_runtime r) cs"

lemma submit_built_sound:
  assumes S: "sound_at env K cs r" and E: "recorded (ev_scope env) K (rn_store r) existing" and N: "pr_key ` set new \<inter> K = {}"
    and eq: "submit_built_lineage st env cv knd l rep anchor existing new tx covers r = (res, r')"
  shows "sound_at env K cs r' \<and> aside r' = aside r"
proof -
  let ?plan = "\<lparr>bp_kind = knd, bp_lineage_id = l, bp_txid = ev_compute_txid env tx, bp_raw_tx_hex = ev_serialize_hex env tx,
     bp_included = map lr_key existing @ map pr_key new, bp_dropped = []\<rparr>"
  have I: "inv (rn_store r)" using S by (simp add: sound_at_def sound_def)
  have keys: "set (bp_included ?plan @ bp_dropped ?plan) \<inter> K = {}" using E N by (auto simp: recorded_def)
  obtain s' sub where sub: "persist_and_submit_broadcast st (btc_broadcaster cv) (ev_scope env) ?plan (rn_store r) = (s', sub)"
    by (cases "persist_and_submit_broadcast st (btc_broadcaster cv) (ev_scope env) ?plan (rn_store r)")
  have same: "sound_at env K cs r' \<and> aside r' = aside r" if "s' = rn_store r" "r' = r\<lparr>rn_store := s'\<rparr>"
    using S that by (simp add: sound_at_def)
  have moved: "sound (ev_scope env) K s' (rn_runtime r) cs \<and> recorded (ev_scope env) K s' existing
      \<and> (\<forall>k \<in> lr_key ` set existing \<union> pr_key ` set new. \<exists>h. history s' (ev_scope env) k = Some h \<and> ev_compute_txid env tx \<in> set h)"
    if p: "so_persist_broadcast st (ev_scope env) ?plan (rn_store r) = Inr (receipt, s')" for receipt
  proof -
    note L = broadcast_leads[OF I p] 
    have "sound (ev_scope env) K s' (rn_runtime r) cs"
      using sound_leads[OF S[unfolded sound_at_def] L broadcast_keeps[OF I p] keys] .
    moreover have "recorded (ev_scope env) K s' existing"
      using E leads_history[OF L] unfolding recorded_def by (meson order_trans)
    moreover have "\<exists>h. history s' (ev_scope env) k = Some h \<and> ev_compute_txid env tx \<in> set h"
      if "k \<in> lr_key ` set existing \<union> pr_key ` set new" for k
      using broadcast_records[OF I p, of k] that by auto
    ultimately show ?thesis by blast
  qed
  have adopted: "sound_at env K cs (notify_submission b (r\<lparr>rn_store := s',
      rn_runtime := adopt_submission l (ev_compute_txid env tx) anchor existing new covers (rn_runtime r)\<rparr>))"
    if "so_persist_broadcast st (ev_scope env) ?plan (rn_store r) = Inr (receipt, s')" for receipt b
    using adopt_sound[of "ev_scope env" K s' "rn_runtime r" cs existing new] moved[OF that] N by (simp add: sound_at_def)
  note eq' = eq[unfolded submit_built_lineage_def Let_def sub prod.case]
  from I sub show ?thesis
  proof (cases rule: submit_cases)
    case (1 e)
    have "r' = r\<lparr>rn_store := s'\<rparr>" using eq' by (simp add: 1)
    with same 1(2) show ?thesis by blast
  next
    case (2 receipt s1 e)
    have r': "r' = r\<lparr>rn_store := s'\<rparr>" using eq' by (simp add: 2)
    from moved 2(1,3) show ?thesis unfolding r' sound_at_def by simp
  next
    case (3 receipt s1)
    with adopted have "sound_at env K cs (notify_submission b (r\<lparr>rn_store := s',
      rn_runtime := adopt_submission l (ev_compute_txid env tx) anchor existing new covers (rn_runtime r)\<rparr>))" for b by blast
    with eq'[unfolded 3(4)] show ?thesis by auto
  next
    case (4 receipt s1)
    with adopted have "sound_at env K cs (notify_submission b (r\<lparr>rn_store := s',
      rn_runtime := adopt_submission l (ev_compute_txid env tx) anchor existing new covers (rn_runtime r)\<rparr>))" for b by blast
    with eq'[unfolded 4(4)] show ?thesis by auto
  next
    case (5 receipt s1)
    have "r' = r\<lparr>rn_store := s'\<rparr>" using eq' by (simp add: 5)
    with same 5(3) show ?thesis by blast
  qed
qed

lemma submit_build_sound:
  assumes S: "sound_at env K cs r" and eq: "submit_build outcome k r = (res, r')"
    and k: "\<And>receipt b r1 res1. k receipt (with_builder b r) = (res1, r1) \<Longrightarrow> sound_at env K cs r1 \<and> aside r1 = aside r"
  shows "sound_at env K cs r' \<and> aside r' = aside r"
proof (cases outcome)
  case (Pair o' b)
  then show ?thesis
    using assms by (cases o') (auto simp: submit_build_def with_builder_def sound_at_def)
qed

lemma with_builder_frame [simp]:
  "rn_store (with_builder b r) = rn_store r" "rn_runtime (with_builder b r) = rn_runtime r" "aside (with_builder b r) = aside r"
  by (simp_all add: with_builder_def)

lemma recorded_Nil: "recorded scope K s []"
  by (simp add: recorded_def)

lemma execute_replacement_sound:
  assumes S: "sound_at env K cs r" and N: "pr_key ` set reqs \<inter> K = {}"
    and eq: "execute_replacement st env cv fee_rate knd missing l prevout anchor reqs r = (res, r')"
  shows "sound_at env K cs r' \<and> aside r' = aside r"
proof (cases "map_of (rt_live_lineages (rn_runtime r)) l")
  case None
  with S eq show ?thesis by (auto simp: execute_replacement_def)
next
  case (Some lin)
  have E: "recorded (ev_scope env) K (rn_store r) (ll_requests lin)"
    using sound_live(1)[OF S[unfolded sound_at_def] Some] by (simp add: carried_recorded)
  show ?thesis
  proof (cases "fetch_rbf_context (ev_txid_text env) cv (ll_head_txid lin)")
    case None
    with S eq Some show ?thesis by (auto simp: execute_replacement_def)
  next
    case ctx: (Some ctx)
    show ?thesis
    proof (rule submit_build_sound[OF S eq[unfolded execute_replacement_def Some ctx option.case]])
      fix receipt b r1 res1
      assume "submit_built_lineage st env cv knd l (Some (ll_head_txid lin)) (anchor lin) (ll_requests lin) reqs
        (bt_tx receipt) (bt_cover_utxos receipt) (with_builder b r) = (res1, r1)"
      from submit_built_sound[OF _ _ N this, of cs] S E show "sound_at env K cs r1 \<and> aside r1 = aside r"
        by (simp add: sound_at_def)
    qed
  qed
qed

lemma sound_at_frame:
  "rn_store r' = rn_store r \<Longrightarrow> rn_runtime r' = rn_runtime r \<Longrightarrow> sound_at env K cs r' = sound_at env K cs r"
  by (simp add: sound_at_def)

lemma fresh_submission_sound:
  assumes "sound_at env K cs r" "pr_key ` set reqs \<inter> K = {}"
    and "submit_built_lineage st env cv knd l None anchor [] reqs (bt_tx receipt) (bt_cover_utxos receipt) (with_builder b r) = (res, r')"
  shows "sound_at env K cs r' \<and> aside r' = aside r"
  using submit_built_sound[OF _ recorded_Nil assms(2,3), of cs] assms(1) by (simp add: sound_at_def)

lemma execute_action_sound:
  assumes S: "sound_at env K cs r" and N: "pr_key ` set (action_requests act) \<inter> K = {}"
    and eq: "execute_action st env act r = (res, r')"
  shows "sound_at env K cs r' \<and> aside r' = aside r"
proof -
  obtain cv now fresh r1 where e: "enter env r = (cv, now, fresh, r1)" by (cases "enter env r") auto
  note r1 = enter_eq[OF e]
  have S1: "sound_at env K cs r1" "aside r1 = aside r" using S by (simp_all add: r1 sound_at_def)
  note eq' = eq[unfolded execute_action_def e prod.case Let_def]
  have "sound_at env K cs r' \<and> aside r' = aside r1"
  proof (cases act)
    case (PFresh reqs)
    from eq' show ?thesis unfolding PFresh planned_action.case execute_fresh_def
      by (rule submit_build_sound[OF S1(1)]) (rule fresh_submission_sound[OF S1(1)], use N PFresh in simp_all)
  next
    case (PRbf l reqs)
    from eq' show ?thesis unfolding PRbf planned_action.case
      by (rule execute_replacement_sound[OF S1(1), rotated]) (use N PRbf in simp)
  next
    case (PChained existing anchor reqs)
    show ?thesis
    proof (cases existing)
      case None
      from eq' show ?thesis unfolding PChained None planned_action.case option.case execute_chained_new_def
        by (rule submit_build_sound[OF S1(1)]) (rule fresh_submission_sound[OF S1(1)], use N PChained in simp_all)
    next
      case (Some l)
      from eq' show ?thesis unfolding PChained Some planned_action.case option.case
        by (rule execute_replacement_sound[OF S1(1), rotated]) (use N PChained in simp)
    qed
  qed
  with S1(2) show ?thesis by simp
qed

lemma execute_actions_sound:
  assumes "sound_at env K cs r" "\<And>a. a \<in> set acts \<Longrightarrow> pr_key ` set (action_requests a) \<inter> K = {}"
  shows "sound_at env K cs (foldl (execute_step st env) r acts) \<and> aside (foldl (execute_step st env) r acts) = aside r"
  using assms
proof (induction acts arbitrary: r)
  case (Cons a acts)
  obtain res r' where e: "execute_action st env a r = (res, r')" by (cases "execute_action st env a r")
  from execute_action_sound[OF Cons.prems(1) _ e] Cons.prems(2)[of a]
  have "sound_at env K cs r' \<and> aside r' = aside r" by simp
  with Cons.IH[of r'] Cons.prems(2) e show ?case by (simp add: execute_step_def)
qed simp

section \<open>Confirmations\<close>

lemma sound_carried: "sound scope K s rt cs \<Longrightarrow> c \<in> set cs \<Longrightarrow> carried scope K s (pc_lineage c)"
  by (simp add: sound_def)

lemma carried_key: "carried scope K s l \<Longrightarrow> q \<in> set (ll_requests l) \<Longrightarrow> lr_key q \<notin> K"
  by (auto simp: carried_def lineage_keys_def)

lemma carried_history:
  "carried scope K s l \<Longrightarrow> q \<in> set (ll_requests l) \<Longrightarrow> \<exists>h. history s scope (lr_key q) = Some h \<and> set (lr_txid_history q) \<subseteq> set h"
  by (auto simp: carried_def mirrors_def)

lemma requeue_orphans_sound:
  assumes "try_fold (requeue_orphan l anchor) rt orphans = Inr rt'" "sound scope K s rt cs" "dedupe_key ` set orphans \<inter> K = {}"
  shows "sound scope K s rt' cs"
  using assms(1,2)
proof (rule try_fold_invariant)
  fix rt x rt' assume "sound scope K s rt cs" "x \<in> set orphans" "requeue_orphan l anchor rt x = Inr rt'"
  then show "sound scope K s rt' cs"
    using assms(3) by (auto simp: requeue_orphan_def try_simps intro!: sound_push)
qed

lemma handle_confirmation_sound:
  assumes S: "sound_at env K cs r" and c: "conf \<in> set cs" and eq: "handle_confirmation st env conf height r = (res, r')"
  shows "sound_at env K cs r' \<and> aside r' = aside r"
proof -
  obtain cv now fresh r1 where e: "enter env r = (cv, now, fresh, r1)" by (cases "enter env r") auto
  note r1 = enter_eq[OF e]
  have S1: "sound_at env K cs r1" "aside r1 = aside r" using S by (simp_all add: r1 sound_at_def)
  let ?l = "pc_lineage conf" and ?tx = "pc_confirmed_txid conf" and ?scope = "ev_scope env"
  let ?part = "partition_confirmed_lineage ?l ?tx"
  have C: "carried ?scope K (rn_store r1) ?l" using sound_carried[OF _ c] S1(1) by (simp add: sound_at_def)
  let ?plan = "\<lambda>anchor. \<lparr>cp_lineage_id = ll_lineage_id ?l, cp_confirmed_txid = ?tx, cp_confirmed = map dedupe_key (cf_confirmed ?part),
     cp_orphaned = map dedupe_key (cf_orphaned ?part), cp_chain_anchor = anchor\<rparr>"
  have P: "sound_at env K cs (r1\<lparr>rn_store := s'\<rparr>)"
    if p: "so_persist_confirmation st ?scope (?plan anchor) (rn_store r1) = Inr (u, s')" for anchor u s'
  proof -
    have I: "inv (rn_store r1)" using S1(1) by (simp add: sound_at_def sound_def)
    have "inv s'"
      by (rule confirmation_keeps[OF I p]) (use carried_history[OF C] in \<open>fastforce simp: partition_confirmed_lineage_def\<close>)
    moreover have "set (cp_confirmed (?plan anchor) @ cp_orphaned (?plan anchor)) \<inter> K = {}"
      using carried_key[OF C] by (auto simp: partition_confirmed_lineage_def)
    ultimately show ?thesis using sound_leads[OF S1(1)[unfolded sound_at_def] confirmation_leads[OF I p]] by (simp add: sound_at_def)
  qed
  have O: "dedupe_key ` set (cf_orphaned ?part) \<inter> K = {}"
    using carried_key[OF C] by (auto simp: partition_confirmed_lineage_def)
  note eq' = eq[unfolded handle_confirmation_def e prod.case Let_def]
  show ?thesis
  proof (cases "try_bind (load_tx (runner_observer env cv r1) ?tx) (\<lambda>confirmed_tx.
          try_bind (ok_or (ts_block_height (et_status confirmed_tx))
            (Domain (Format ''confirmed tx {} missing block height'' [ArgTxid ?tx]))) (\<lambda>h.
          try_bind (confirmation_anchor env height h ?tx confirmed_tx (runner_script r1) (cf_orphaned ?part)) (\<lambda>anchor.
          try_bind (so_persist_confirmation st ?scope (?plan anchor) (rn_store r1)) (\<lambda>(_, s'). Inr (anchor, s')))))")
    case (Inl err)
    with eq' S1 show ?thesis by simp
  next
    case (Inr v)
    obtain anchor s' where v: "v = (anchor, s')" by (cases v)
    then obtain u where p: "so_persist_confirmation st ?scope (?plan anchor) (rn_store r1) = Inr (u, s')"
      using Inr by (auto simp: try_simps)
    note eq2 = eq'[unfolded Inr v sum.case prod.case]
    show ?thesis
    proof (cases "try_fold (requeue_orphan ?l anchor) (rn_runtime r1) (cf_orphaned ?part)")
      case (Inl err)
      with eq2 have "r' = r1\<lparr>rn_store := s'\<rparr>" by simp
      with S1(2) P[OF p] show ?thesis by simp
    next
      case (Inr rt)
      with eq2 have r': "r' = r1\<lparr>rn_store := s', rn_runtime := rt\<rparr>" by simp
      have "sound ?scope K s' (rn_runtime r1) cs" using P[OF p] by (simp add: sound_at_def)
      from requeue_orphans_sound[OF Inr this O] S1(2) show ?thesis by (simp add: r' sound_at_def)
    qed
  qed
qed

lemma confirm_step_sound:
  assumes "sound_at env K cs r" "conf \<in> set cs" "set (rn_confirmations r) \<subseteq> set cs"
  shows "sound_at env K cs (confirm_step st env height r conf)"
    "set (rn_confirmations (confirm_step st env height r conf)) \<subseteq> set cs"
    "rn_incoming (confirm_step st env height r conf) = rn_incoming r"
    "rn_queue (confirm_step st env height r conf) = rn_queue r"
proof -
  obtain res r' where e: "handle_confirmation st env conf height r = (res, r')" by (cases "handle_confirmation st env conf height r")
  from handle_confirmation_sound[OF assms(1,2) e] have "sound_at env K cs r'" "aside r' = aside r" by simp_all
  then show "sound_at env K cs (confirm_step st env height r conf)"
    "set (rn_confirmations (confirm_step st env height r conf)) \<subseteq> set cs"
    "rn_incoming (confirm_step st env height r conf) = rn_incoming r"
    "rn_queue (confirm_step st env height r conf) = rn_queue r"
    using assms(2,3) e by (cases res; simp add: confirm_step_def sound_at_def aside_def)+
qed

lemma confirm_all_sound:
  assumes "sound_at env K cs r" "set confs \<subseteq> set cs" "set (rn_confirmations r) \<subseteq> set cs"
  shows "sound_at env K cs (foldl (confirm_step st env height) r confs)
    \<and> set (rn_confirmations (foldl (confirm_step st env height) r confs)) \<subseteq> set cs
    \<and> rn_incoming (foldl (confirm_step st env height) r confs) = rn_incoming r
    \<and> rn_queue (foldl (confirm_step st env height) r confs) = rn_queue r"
  using assms
proof (induction confs arbitrary: r)
  case (Cons c confs)
  note step = confirm_step_sound[OF Cons.prems(1) _ Cons.prems(3), of c]
  with Cons.IH[of "confirm_step st env height r c"] Cons.prems(2) show ?case by simp
qed simp

lemma sound_subset: "sound scope K s rt cs \<Longrightarrow> set cs' \<subseteq> set cs \<Longrightarrow> sound scope K s rt cs'"
  by (auto simp: sound_def)

section \<open>Missing heads\<close>

lemma split_requeued: "set (rpt_survivors (split_by_history l tx sv)) \<subseteq> set (wallet_requests l)"
  "set (rpt_requeued (split_by_history l tx sv)) \<subseteq> set (wallet_requests l)"
  by (auto simp: split_by_history_def wallet_requests_def)

lemma settle_leads:
  assumes "inv s" "settle st scope now l knd state part anchor s = Inr (res, s')"
  shows "leads scope (map dedupe_key (rpt_survivors part) @ map dedupe_key (rpt_requeued part)) s s'"
    "pr_key ` set (rr_requeued res) = dedupe_key ` set (rpt_requeued part)"
proof -
  obtain u where p: "so_persist_reconciliation st scope (reconciliation_plan_of l knd part anchor) s = Inr (u, s')"
    and res: "rr_requeued res = map (requeue now l anchor) (rpt_requeued part)"
    using assms(2) by (auto simp: settle_def try_simps split: prod.splits)
  show "leads scope (map dedupe_key (rpt_survivors part) @ map dedupe_key (rpt_requeued part)) s s'"
    using reconciliation_leads[OF assms(1) p] by (simp add: reconciliation_plan_of_def)
  show "pr_key ` set (rr_requeued res) = dedupe_key ` set (rpt_requeued part)"
    by (simp add: res image_image requeue_def)
qed

lemma settle_sound:
  assumes S: "sound scope K s rt cs" and C: "carried scope K s l" and settled: "settle st scope now l knd state part anchor s = Inr (res, s')"
    and "inv s'" "set (rpt_survivors part) \<subseteq> set (wallet_requests l)" "set (rpt_requeued part) \<subseteq> set (wallet_requests l)"
  shows "sound scope K s' rt cs \<and> pr_key ` set (rr_requeued res) \<inter> K = {}"
proof -
  have "inv s" using S by (simp add: sound_def)
  note L = settle_leads[OF this settled]
  have W: "dedupe_key ` set (wallet_requests l) \<inter> K = {}" using carried_key[OF C] by (auto simp: wallet_requests_def)
  then have "set (map dedupe_key (rpt_survivors part) @ map dedupe_key (rpt_requeued part)) \<inter> K = {}"
    using assms(5,6) by auto
  from sound_leads[OF S L(1) assms(4) this] L(2) W assms(6) show ?thesis by blast
qed

lemma candidates_keep_sound:
  assumes S: "sound scope K s rt cs" and C: "carried scope K s l"
    and eq: "reconcile_candidates hex st ob scope now l height confs spk s txs = Inr (res, s')"
  shows "sound scope K s' rt cs \<and> pr_key ` set (rr_requeued res) \<inter> K = {}"
proof -
  have I: "inv s" and M: "mirrors s scope l" using S C by (simp_all add: sound_def carried_def)
  have "inv s'" by (rule reconcile_candidates_keeps[OF I M eq])
  with eq show ?thesis
  proof (induction txs)
    case Nil
    then have settled: "settle st scope now l RNoSurvivor RsNoSurvivor (partition_surviving_lineage l SvNoSurvivor) None s = Inr (res, s')"
      by simp
    show ?case using settle_sound[OF S C settled Nil(2)] by simp
  next
    case (Cons tx txs)
    then obtain state where "observe_tx ob tx = Inr state" by (auto simp: try_simps)
    then consider "reconcile_candidates hex st ob scope now l height confs spk s txs = Inr (res, s')"
      | knd st' sv anchor where "settle st scope now l knd st' (split_by_history l tx sv) anchor s = Inr (res, s')"
      using Cons.prems(1) by (cases state) (auto simp: try_simps Let_def)
    then show ?case
    proof cases
      case 1
      with Cons show ?thesis by blast
    next
      case 2
      show ?thesis by (rule settle_sound[OF S C 2 Cons.prems(2) split_requeued])
    qed
  qed
qed

lemma handle_missing_sound:
  assumes S: "sound_at env K cs r" and C: "carried (ev_scope env) K (rn_store r) l"
    and eq: "handle_missing_lineage st env l height r = (res, r')"
  shows "sound_at env K cs r' \<and> aside r' = aside r"
proof -
  obtain cv now fresh r1 where e: "enter env r = (cv, now, fresh, r1)" by (cases "enter env r") auto
  note r1 = enter_eq[OF e]
  have S1: "sound_at env K cs r1" "aside r1 = aside r" and C1: "carried (ev_scope env) K (rn_store r1) l"
    using S C by (simp_all add: r1 sound_at_def)
  let ?rec = "reconcile_missing_lineage (hex_opt (ev_crates env)) st (runner_observer env cv r1) (ev_scope env) now l height
     (chain_anchor_confirmations (ev_config env)) (runner_script r1) (rn_store r1)"
  note eq' = eq[unfolded handle_missing_lineage_def e prod.case Let_def]
  show ?thesis
  proof (cases ?rec)
    case (Inl err)
    with eq' S1 show ?thesis by simp
  next
    case (Inr v)
    obtain result s' where v: "v = (result, s')" by (cases v)
    have rec: "reconcile_candidates (hex_opt (ev_crates env)) st (runner_observer env cv r1) (ev_scope env) now l height
       (chain_anchor_confirmations (ev_config env)) (runner_script r1) (rn_store r1) (rev (ll_all_txids l)) = Inr (result, s')"
      using Inr v by (simp add: reconcile_missing_lineage_def)
    from C1 have keys: "carried (ev_scope env) K (rn_store r1) l" .
    note R = candidates_keep_sound[OF S1(1)[unfolded sound_at_def] C1 rec]
    have R2: "sound (ev_scope env) K s' (rn_runtime r1) (\<lparr>pc_lineage = l, pc_confirmed_txid = 0\<rparr> # cs)"
    proof -
      have "sound (ev_scope env) K (rn_store r1) (rn_runtime r1) (\<lparr>pc_lineage = l, pc_confirmed_txid = 0\<rparr> # cs)"
        using S1(1) C1 by (simp add: sound_at_def sound_def)
      from candidates_keep_sound[OF this C1 rec] show ?thesis by simp
    qed
    let ?rt = "foldl push_pending (rn_runtime r1) (rr_requeued result)"
    let ?r2 = "r1\<lparr>rn_store := s', rn_runtime := ?rt\<rparr>"
    have P: "sound (ev_scope env) K s' ?rt cs" using R by (simp add: sound_push_all)
    have C2: "carried (ev_scope env) K s' l" using sound_carried[OF R2, of "\<lparr>pc_lineage = l, pc_confirmed_txid = 0\<rparr>"] by simp
    have plain: "sound_at env K cs ?r2 \<and> aside ?r2 = aside r" using P S1(2) by (simp add: sound_at_def)
    note eq2 = eq'[unfolded Inr v sum.case prod.case]
    show ?thesis
    proof (cases "rr_state result")
      case (RsInMempool surviving)
      show ?thesis
      proof (cases "load_wallet_funding_inputs (runner_observer env cv r1) surviving")
        case (Inl err)
        with eq2 RsInMempool have "r' = ?r2" by (simp add: runner_observer_def)
        with plain show ?thesis by metis
      next
        case inputs: (Inr inputs)
        let ?survivors = "sort_key lr_key (filter (\<lambda>q. surviving \<in> set (lr_txid_history q)) (ll_requests l))"
        have "recorded (ev_scope env) K s' ?survivors"
          using C2 by (auto simp: carried_recorded recorded_def)
        then have "sound (ev_scope env) K s' (insert_lineage \<lparr>ll_lineage_id = ll_lineage_id l, ll_head_txid = surviving,
            ll_all_txids = ll_all_txids l, ll_requests = ?survivors, ll_cover_utxos = covers, ll_chain_anchor = ll_chain_anchor l\<rparr> ?rt) cs" for covers
          unfolding insert_lineage_def by (intro sound_update[OF P]) (simp_all add: carried_recorded)
        with eq2 RsInMempool inputs S1(2) show ?thesis by (auto simp: sound_at_def runner_observer_def)
      qed
    qed (use eq2 plain in simp_all)
  qed
qed

lemma missing_step_sound:
  assumes S: "sound_at env K cs r"
  shows "sound_at env K cs (missing_step st env height r k) \<and> aside (missing_step st env height r k) = aside r"
proof (cases "map_of (rt_live_lineages (rn_runtime r)) k")
  case None
  with S show ?thesis by (simp add: missing_step_def)
next
  case (Some l)
  let ?c = "\<lparr>pc_lineage = l, pc_confirmed_txid = 0\<rparr>"
  let ?r = "r\<lparr>rn_runtime := reset_missing_observations k (remove_lineage k (rn_runtime r))\<rparr>"
  have l: "carried (ev_scope env) K (rn_store r) l" "ll_lineage_id l = k"
    using sound_live[OF S[unfolded sound_at_def] Some] by simp_all
  have S1: "sound_at env K (?c # cs) ?r"
  proof -
    have "sound_at env K cs ?r" using S by (simp add: sound_at_def sound_remove sound_reset)
    with l show ?thesis by (simp add: sound_at_def sound_def)
  qed
  obtain res r' where e: "handle_missing_lineage st env l height ?r = (res, r')" by (cases "handle_missing_lineage st env l height ?r")
  from handle_missing_sound[OF S1 _ e] l have S2: "sound_at env K (?c # cs) r'" "aside r' = aside r" by simp_all
  then have S3: "sound_at env K cs r'" and C: "carried (ev_scope env) K (rn_store r') l"
    using sound_carried[of "ev_scope env" K "rn_store r'" "rn_runtime r'" "?c # cs" ?c]
    by (auto simp: sound_at_def intro: sound_subset)
  have "sound_at env K cs (r'\<lparr>rn_runtime := (rn_runtime r')\<lparr>rt_live_lineages := AList.update k l (rt_live_lineages (rn_runtime r'))\<rparr>\<rparr>)"
    using sound_update[OF S3[unfolded sound_at_def] C l(2)] by (simp add: sound_at_def)
  with S2(2) S3 Some e show ?thesis by (cases res) (simp_all add: missing_step_def)
qed

lemma missing_all_sound:
  "sound_at env K cs r \<Longrightarrow> sound_at env K cs (foldl (missing_step st env height) r ks)
    \<and> aside (foldl (missing_step st env height) r ks) = aside r"
  by (induction ks arbitrary: r) (simp_all add: missing_step_sound)

section \<open>The cycle\<close>

lemma observe_phase_sound:
  assumes S: "sound_at env K (rn_confirmations r) r"
  shows "sound_at env K (rn_confirmations (observe_phase env r)) (observe_phase env r)"
    "rn_incoming (observe_phase env r) = rn_incoming r" "rn_queue (observe_phase env r) = rn_queue r"
proof -
  obtain cv now fresh r1 where e: "enter env r = (cv, now, fresh, r1)" by (cases "enter env r") auto
  note r1 = enter_eq[OF e]
  let ?ob = "runner_observer env cv r1"
  obtain rt out where o: "observe_live_lineages ?ob (rn_runtime r1) = (rt, out)" by (cases "observe_live_lineages ?ob (rn_runtime r1)")
  have o': "foldl (observe_step ?ob) (rn_runtime r1, []) (map fst (rt_live_lineages (rn_runtime r1))) = (rt, out)"
    using o by (simp add: observe_live_lineages_def)
  have r': "observe_phase env r = r1\<lparr>rn_runtime := rt, rn_confirmations := rn_confirmations r1 @ out\<rparr>"
    by (simp add: observe_phase_def e o)
  show "rn_incoming (observe_phase env r) = rn_incoming r" "rn_queue (observe_phase env r) = rn_queue r" by (simp_all add: r' r1)
  have S1: "sound (ev_scope env) K (rn_store r) (rn_runtime r) (rn_confirmations r)" using S by (simp add: sound_at_def)
  then have wf: "wf_runtime (fst (rn_runtime r1, [] :: pending_confirmation list))" by (simp add: sound_def r1)
  have F: "wf_runtime rt" "cores (rt, out) = cores (rn_runtime r, [])"
    using observe_fold[OF wf, of ?ob "map fst (rt_live_lineages (rn_runtime r1))"] o' by (simp_all add: r1)
  have P: "rt_pending rt = rt_pending (rn_runtime r)"
    using observe_pending[of ?ob "(rn_runtime r1, [])" "map fst (rt_live_lineages (rn_runtime r1))"] o' by (simp add: r1)
  have C: "carried (ev_scope env) K (rn_store r) l" if l: "l \<in> snd ` set (rt_live_lineages rt) \<union> pc_lineage ` set out" for l
  proof -
    from l obtain l' where "l' \<in> snd ` set (rt_live_lineages (rn_runtime r))" "ll_requests l' = ll_requests l"
      using cores_requests[OF F(2), of l] by auto
    with S1 carried_cong[of l l'] show ?thesis by (simp add: sound_def)
  qed
  show "sound_at env K (rn_confirmations (observe_phase env r)) (observe_phase env r)"
    using S1 F(1) C by (auto simp: sound_at_def sound_def r' r1 pending_keys_def P)
qed

lemma plan_phase_sound:
  assumes S: "sound_at env K cs r" and N: "pr_key ` set (rn_incoming r) \<inter> K = {}"
    and eq: "plan_phase env height r = (actions, r')"
  shows "sound_at env K cs r'" "rn_incoming r' = []" "rn_queue r' = rn_queue r" "rn_confirmations r' = rn_confirmations r"
    "a \<in> set actions \<Longrightarrow> pr_key ` set (action_requests a) \<inter> K = {}"
proof -
  obtain cv now fresh r1 where e: "enter env r = (cv, now, fresh, r1)" by (cases "enter env r") auto
  note r1 = enter_eq[OF e]
  let ?cfg = "ev_config env"
  obtain pm b where pm: "prepare_planner_evaluator env cv
      (preview_runtime_after_housekeeping ?cfg (rn_runtime r1) (rn_incoming r1) height now) (rn_builder r1) = (pm, b)"
    by (cases "prepare_planner_evaluator env cv
      (preview_runtime_after_housekeeping ?cfg (rn_runtime r1) (rn_incoming r1) height now) (rn_builder r1)")
  let ?rt = "cleaned_state ?cfg now (pushed_state (rn_incoming r1) height (rn_runtime r1))"
  let ?t = "tick (rn_incoming r1) height now ?cfg (prepared_evaluator pm) collect_action (rn_runtime r1, [])"
  obtain rt x out where t: "?t = ((rt, x), out)" by (metis surj_pair)
  have rt: "rt = ?rt" using tick_state[of "rn_incoming r1" height now ?cfg "prepared_evaluator pm" collect_action "rn_runtime r1" "[]"]
    unfolding t by simp
  have x: "x = to_executed out"
  proof -
    have c: "foldl collect_action ys as = ys @ as" for ys as
      by (induction as arbitrary: ys) (simp_all add: collect_action_def)
    from t show ?thesis by (auto simp: tick_def Let_def c split: prod.splits)
  qed
  have acts: "x = plan_wallet_batches ?rt ?cfg (prepared_evaluator pm)"
    using tick_actions[of "rn_incoming r1" height now ?cfg "prepared_evaluator pm" collect_action "rn_runtime r1" "[]"] unfolding t x by simp
  have r': "actions = x" "r' = r1\<lparr>rn_builder := b, rn_runtime := rt, rn_incoming := []\<rparr>"
    using eq by (auto simp: plan_phase_def e pm t Let_def)
  show "rn_incoming r' = []" "rn_queue r' = rn_queue r" "rn_confirmations r' = rn_confirmations r" by (simp_all add: r' r1)
  have S1: "sound (ev_scope env) K (rn_store r) (rn_runtime r) cs" using S by (simp add: sound_at_def)
  then have wf: "wf_runtime ?rt" by (simp add: sound_def r1 wf_cleaned_state wf_pushed_state)
  have keys: "pending_keys ?rt \<inter> K = {}"
    using cleaned_keys[of "rn_runtime r" ?cfg now "rn_incoming r" height] S1 N by (auto simp: sound_def r1)
  show "sound_at env K cs r'"
    using S1 wf keys by (auto simp: sound_at_def sound_def r' rt r1 cleaned_live)
  show "pr_key ` set (action_requests a) \<inter> K = {}" if "a \<in> set actions"
    using plan_requests_pending[of ?rt a ?cfg "prepared_evaluator pm"] wf keys that
    unfolding r' acts wf_runtime_def pending_keys_def by fastforce
qed

definition runner_sound :: "'k runner_env \<Rightarrow> string set \<Rightarrow> ('a, 'k) runner \<Rightarrow> bool" where
  "runner_sound env K r = (sound_at env K (rn_confirmations r) r \<and> pr_key ` set (rn_incoming r) \<inter> K = {}
    \<and> command_key ` set (rn_queue r) \<inter> K = {})"

lemma process_tick_sound:
  assumes R: "runner_sound env K r" and eq: "process_tick st env r = (res, r')"
  shows "runner_sound env K r'"
proof -
  obtain h el where h: "runner_height r = (h, r\<lparr>rn_builder := el\<rparr>)" by (cases "current_height (tb_electrs (rn_builder r))") (simp add: runner_height_def)
  let ?r0 = "r\<lparr>rn_builder := el\<rparr>"
  have R0: "runner_sound env K ?r0" using R by (simp add: runner_sound_def sound_at_def)
  show ?thesis
  proof (cases h)
    case (Inl err)
    with eq h R0 show ?thesis by (simp add: process_tick_def)
  next
    case (Inr height)
    let ?cs = "rn_confirmations ?r0"
    let ?r1 = "foldl (confirm_step st env height) (?r0\<lparr>rn_confirmations := []\<rparr>) (rev ?cs)"
    let ?r2 = "observe_phase env ?r1"
    let ?r3 = "foldl (missing_step st env height) ?r2 (reconciliation_targets (ev_config env) (rn_runtime ?r2))"
    obtain actions r4 where p: "plan_phase env height ?r3 = (actions, r4)" by (cases "plan_phase env height ?r3")
    have r': "r' = foldl (execute_step st env) r4 actions"
      using eq h Inr p by (simp add: process_tick_def Let_def)
    have "sound_at env K ?cs (?r0\<lparr>rn_confirmations := []\<rparr>)" using R0 by (simp add: runner_sound_def sound_at_def)
    from confirm_all_sound[OF this, of "rev ?cs" height]
    have C: "sound_at env K ?cs ?r1" "set (rn_confirmations ?r1) \<subseteq> set ?cs" "rn_incoming ?r1 = rn_incoming r" "rn_queue ?r1 = rn_queue r"
      by simp_all
    then have "sound_at env K (rn_confirmations ?r1) ?r1" unfolding sound_at_def by (blast intro: sound_subset)
    note O = observe_phase_sound[OF this]
    note M = missing_all_sound[OF O(1), of height "reconciliation_targets (ev_config env) (rn_runtime ?r2)"]
    have A: "rn_confirmations ?r3 = rn_confirmations ?r2" "rn_incoming ?r3 = rn_incoming r" "rn_queue ?r3 = rn_queue r"
      using M O(2,3) C(3,4) by (simp_all add: aside_def)
    have I: "pr_key ` set (rn_incoming ?r3) \<inter> K = {}" unfolding A using R by (simp add: runner_sound_def)
    note P = plan_phase_sound[OF conjunct1[OF M] I p]
    note E = execute_actions_sound[OF P(1,5)]
    from E P A R show ?thesis by (simp add: r' runner_sound_def aside_def)
  qed
qed

section \<open>Commands and callers\<close>

lemma add_waiter_frame [simp]:
  "rn_store (add_waiter key w r) = rn_store r" "rn_runtime (add_waiter key w r) = rn_runtime r"
  "aside (add_waiter key w r) = aside r"
  by (simp_all add: add_waiter_def split: option.splits)

lemma runner_sound_frame:
  "rn_store r' = rn_store r \<Longrightarrow> rn_runtime r' = rn_runtime r \<Longrightarrow> aside r' = aside r \<Longrightarrow> runner_sound env K r' = runner_sound env K r"
  by (simp add: runner_sound_def sound_at_def aside_def)

lemma runner_sound_add_waiter [simp]: "runner_sound env K (add_waiter key w r) = runner_sound env K r"
  by (rule runner_sound_frame) simp_all

lemma enqueue_request_sound:
  assumes R: "runner_sound env K r" and wf: "wf_request req" and eq: "enqueue_request st env req w r = (res, r')"
  shows "runner_sound env K r'"
proof (cases "so_enqueue st (ev_scope env) req (rn_store r)")
  case (Inl e)
  with R eq show ?thesis by (simp add: enqueue_request_def)
next
  case (Inr v)
  obtain eres s' where v: "v = (eres, s')" by (cases v)
  note e = Inr[unfolded v]
  have S: "sound (ev_scope env) K (rn_store r) (rn_runtime r) (rn_confirmations r)" using R by (simp add: runner_sound_def sound_at_def)
  then have I: "inv (rn_store r)" by (simp add: sound_def)
  have "sound (ev_scope env) K s' (rn_runtime r) (rn_confirmations r)"
    by (rule sound_leads[OF S enqueue_leads[OF I e] enqueue_keeps[OF I wf e]]) simp
  then have S': "runner_sound env K (r\<lparr>rn_store := s'\<rparr>)" using R by (simp add: runner_sound_def sound_at_def)
  show ?thesis
  proof (cases eres)
    case EnqueuedPending
    have "dedupe_key req \<notin> K"
    proof
      assume "dedupe_key req \<in> K"
      then have "waiting (rn_store r) (ev_scope env) (dedupe_key req)" using S by (simp add: sound_def)
      from waiting_enqueue[OF I this] e EnqueuedPending show False by simp
    qed
    moreover have "runner_sound env K (add_waiter (dedupe_key req) w (r\<lparr>rn_store := s'\<rparr>))" using S' by simp
    ultimately have "runner_sound env K (add_waiter (dedupe_key req) w (r\<lparr>rn_store := s'\<rparr>)
        \<lparr>rn_queue := rn_queue (add_waiter (dedupe_key req) w (r\<lparr>rn_store := s'\<rparr>)) @ [CSubmit req]\<rparr>)"
      by (simp add: runner_sound_def sound_at_def)
    then show ?thesis using eq e EnqueuedPending by (auto simp: enqueue_request_def Let_def)
  qed (use eq e S' in \<open>auto simp: enqueue_request_def\<close>)
qed

lemma resolve_request_sound:
  assumes R: "runner_sound env K r" and k: "key \<notin> K" and eq: "resolve_pending_request st env key r = (res, r')"
  shows "runner_sound env K r'"
proof -
  let ?r = "r\<lparr>rn_incoming := filter (\<lambda>p. pr_key p \<noteq> key) (rn_incoming r), rn_runtime := remove_pending_request (rn_runtime r) key\<rparr>"
  have S: "sound (ev_scope env) K (rn_store r) (rn_runtime r) (rn_confirmations r)" using R by (simp add: runner_sound_def sound_at_def)
  then have S1: "sound (ev_scope env) K (rn_store r) (remove_pending_request (rn_runtime r) key) (rn_confirmations r)"
    unfolding sound_def by (simp add: wf_remove_pending) (simp add: pending_keys_remove Diff_Int_distrib2)
  then have R1: "runner_sound env K ?r" using R by (auto simp: runner_sound_def sound_at_def)
  show ?thesis
  proof (cases "so_resolve_pending st (ev_scope env) key (rn_store r)")
    case (Inl e)
    with R1 eq show ?thesis by (auto simp: resolve_pending_request_def)
  next
    case (Inr v)
    obtain rres s' where v: "v = (rres, s')" by (cases v)
    note p = Inr[unfolded v]
    have I: "inv (rn_store r)" using S by (simp add: sound_def)
    have "sound (ev_scope env) K s' (remove_pending_request (rn_runtime r) key) (rn_confirmations r)"
      by (rule sound_leads[OF S1 resolve_leads[OF I p] resolve_keeps[OF I p]]) (use k in simp)
    with R1 have "runner_sound env K (?r\<lparr>rn_store := s', rn_waiters := ws\<rparr>)" for ws
      by (simp add: runner_sound_def sound_at_def)
    with eq p show ?thesis by (auto simp: resolve_pending_request_def)
  qed
qed

lemma receive_command_sound:
  assumes R: "runner_sound env K r"
  shows "runner_sound env K (receive_command st env r)"
proof (cases "rn_queue r")
  case Nil
  with R show ?thesis by (simp add: receive_command_def)
next
  case (Cons c q)
  show ?thesis
  proof (cases c)
    case (CSubmit req)
    obtain cv now fresh r1 where e: "enter env r = (cv, now, fresh, r1)" by (cases "enter env r") auto
    show ?thesis using R Cons CSubmit enter_eq[OF e]
      by (auto simp: receive_command_def e runner_sound_def sound_at_def)
  next
    case (CResolvePending key w)
    obtain res r' where e: "resolve_pending_request st env key (r\<lparr>rn_queue := q\<rparr>) = (res, r')"
      by (cases "resolve_pending_request st env key (r\<lparr>rn_queue := q\<rparr>)")
    have "runner_sound env K (r\<lparr>rn_queue := q\<rparr>)" "key \<notin> K" using R Cons CResolvePending by (auto simp: runner_sound_def sound_at_def)
    from resolve_request_sound[OF this e] Cons CResolvePending e show ?thesis
      by (simp add: receive_command_def runner_sound_def sound_at_def)
  qed
qed

lemma runner_step_sound:
  assumes R: "runner_sound env K r" and "event_wf ev" "spares K ev"
  shows "runner_sound env K (runner_step st env r ev)"
proof (cases ev)
  case (EvSubmit req)
  obtain res r' where e: "enqueue_request st env req None r = (res, r')" by (cases "enqueue_request st env req None r")
  from enqueue_request_sound[OF R _ e] assms(2) EvSubmit e show ?thesis by (simp add: submit_def event_wf_def)
next
  case (EvSubmitAndWait req w)
  obtain res r' where e: "enqueue_request st env req (Some w) r = (res, r')" by (cases "enqueue_request st env req (Some w) r")
  from enqueue_request_sound[OF R _ e] assms(2) EvSubmitAndWait e show ?thesis by (simp add: submit_and_wait_def event_wf_def)
next
  case (EvResolvePending key w)
  with R assms(3) show ?thesis by (simp add: runner_sound_def sound_at_def)
next
  case EvReceive
  with receive_command_sound[OF R] show ?thesis by simp
next
  case EvTick
  obtain res r' where e: "process_tick st env r = (res, r')" by (cases "process_tick st env r")
  from process_tick_sound[OF R e] EvTick e show ?thesis by simp
qed

lemma runner_new_sound:
  assumes I: "inv s" and new: "runner_new st env w el net notify s = Inr r"
  shows "runner_sound env {} r"
proof -
  obtain h el' where h: "current_height el = (h, el')" by (cases "current_height el")
  then obtain height rec where c: "recover_wallet_runtime st (btc_observer (ev_crates env) (ev_txid_text env) (ev_view env 0) (bw_address w))
      (ev_scope env) height s = Inr rec" and r: "rn_store r = s" "rn_runtime r = rec_runtime rec" "rn_confirmations r = rec_confirmations rec"
    using new by (cases h) (fastforce simp: runner_new_def try_simps)+
  obtain restored rt out where rs: "so_restore st (ev_scope env) s = Inr restored"
    and f: "try_fold (recover_step (btc_observer (ev_crates env) (ev_txid_text env) (ev_view env 0) (bw_address w)))
      (\<lparr>rt_live_lineages = [], rt_pending = from_requests (rs_pending restored), rt_missing = [], rt_current_height = height\<rparr>, [])
      (rs_inflight restored) = Inr (rt, out)"
    and rec: "rec_runtime rec = rt" "rec_confirmations rec = out"
    using c by (auto simp: recover_wallet_runtime_def try_simps split: prod.splits)
  have wf: "wf_runtime rt" and C: "cores (rt, out) = mset (map (lineage_core \<circ> lineage_of_snapshot) (rs_inflight restored))"
    using recover_fold_ok[OF f _ restore_distinct[OF I rs]] by (simp_all add: wf_runtime_def wf_from_requests cores_def)
  have "mirrors s (ev_scope env) l" if l: "l \<in> snd ` set (rt_live_lineages rt) \<union> pc_lineage ` set out" for l
  proof -
    have "lineage_core l \<in># cores (rt, out)" using l by (auto simp: cores_def)
    then obtain snap where "snap \<in> set (rs_inflight restored)" "ll_requests l = ls_requests snap"
      unfolding C by (auto simp: lineage_core_def lineage_of_snapshot_def)
    then show ?thesis using restore_recorded[OF I rs] by (auto simp: mirrors_def)
  qed
  moreover have "rn_incoming r = []" "rn_queue r = []" using new h by (cases h; auto simp: runner_new_def try_simps)+
  ultimately show ?thesis using I wf by (simp add: runner_sound_def sound_at_def sound_def carried_def r rec)
qed

end

end
