(* ===== verification/WalletRunnerProps.thy ===== *)
theory WalletRunnerProps
  imports WalletRunnerInv WalletStoreProps TxBuilderProps
begin

text \<open>
  The theorems of the runner: the preview the planner is priced on, submissions, waiters,
  confirmations, broadcasting errors, the inputs a fresh batch may take, and the invariant of every
  reachable runner.
\<close>

section \<open>Preview and tick\<close>

lemma preview_step_expire:
  "expire_step height req (free, still, out) r = (f, s, out') \<Longrightarrow>
    preview_step height req \<lparr>ps_free = free, ps_anchored = still\<rparr> r = \<lparr>ps_free = f, ps_anchored = s\<rparr>"
  by (cases r; cases "pr_chain_anchor r")
    (auto simp: preview_step_def expire_step_def anchor_confirmations_def Let_def split: if_splits)

lemma preview_fold:
  "foldl (preview_step height req) \<lparr>ps_free = free, ps_anchored = still\<rparr> rs =
    (case foldl (expire_step height req) (free, still, out) rs of (f, s, _) \<Rightarrow> \<lparr>ps_free = f, ps_anchored = s\<rparr>)"
proof (induction rs arbitrary: free still out)
  case (Cons r rs)
  obtain f s out' where "expire_step height req (free, still, out) r = (f, s, out')"
    by (cases "expire_step height req (free, still, out) r")
  then show ?case using Cons[of f s out'] by (simp add: preview_step_expire)
qed simp

lemma not_stale: "(\<not> stale now ttl r) = (now \<le> pr_created_at r + sint ttl * 1000000000)"
  by (auto simp: stale_def)

lemma preview_cleaned:
  "preview_runtime_after_housekeeping cfg rt incoming height now = cleaned_state cfg now (pushed_state incoming height rt)"
proof -
  let ?p = "foldl push_pending (rt\<lparr>rt_current_height := height\<rparr>) incoming"
  let ?req = "chain_anchor_confirmations cfg"
  have p: "(rt_pending ?p)\<lparr>ps_anchored := []\<rparr> = \<lparr>ps_free = ps_free (rt_pending ?p), ps_anchored = []\<rparr>" by simp
  obtain f s out where f: "foldl (expire_step height ?req) (ps_free (rt_pending ?p), [], []) (ps_anchored (rt_pending ?p)) = (f, s, out)"
    by (cases "foldl (expire_step height ?req) (ps_free (rt_pending ?p), [], []) (ps_anchored (rt_pending ?p))")
  have "foldl (preview_step height ?req) ((rt_pending ?p)\<lparr>ps_anchored := []\<rparr>) (ps_anchored (rt_pending ?p))
      = \<lparr>ps_free = f, ps_anchored = s\<rparr>"
    unfolding p preview_fold[where out = "[]"] f by simp
  with f show ?thesis
    by (simp add: preview_runtime_after_housekeeping_def cleaned_state_def pushed_state_def expire_chain_anchors_def
        drop_stale_pending_def Let_def not_stale)
qed

text \<open>The preview that the planner's costs are computed on is the runtime state that the tick
  leaves, for any evaluator and executor.\<close>

theorem preview_is_the_tick:
  "preview_runtime_after_housekeeping cfg rt incoming height now = fst (fst (tick incoming height now cfg ev execute (rt, x)))"
  by (simp add: preview_cleaned tick_state)

section \<open>Groups\<close>

lemma update_group:
  "distinct (map fst gs) \<Longrightarrow> map_of gs a = Some rs \<Longrightarrow> AList.update a (rs @ [r]) gs = add_to_group gs a r"
  by (induction gs a r rule: add_to_group.induct) (auto split: if_splits)

lemma new_group: "a \<notin> fst ` set gs \<Longrightarrow> add_to_group gs a r = gs @ [(a, [r])]"
  by (induction gs a r rule: add_to_group.induct) auto

lemma find_group: "find (\<lambda>(a, _). a = anchor) gs = map_option (Pair anchor) (map_of gs anchor)"
  by (induction gs) auto

lemma runner_group_step_eq: "distinct (map fst gs) \<Longrightarrow> runner_group_step gs r = group_step gs r"
  by (auto simp: runner_group_step_def group_step_def find_group update_group new_group map_of_eq_None_iff
      split: option.splits)

lemma runner_groups_fold:
  "distinct (map fst gs) \<Longrightarrow> foldl runner_group_step gs rs = foldl group_step gs rs"
proof (induction rs arbitrary: gs)
  case (Cons r rs)
  have "distinct (map fst (group_step gs r))"
    using Cons.prems by (auto simp: group_step_def distinct_add_to_group split: option.splits)
  with Cons show ?case by (simp add: runner_group_step_eq)
qed simp

text \<open>The runner's own grouping of anchored requests gives the groups, in the order, of the planner's.\<close>

theorem runner_groups_are_the_planners: "runner_group_anchored_requests rs = group_anchored_requests rs"
  by (simp add: runner_group_anchored_requests_def group_anchored_requests_def runner_groups_fold)

section \<open>Keys of request sets\<close>

text \<open>Splitting at the separator.\<close>

fun split_bar :: "string \<Rightarrow> string list" where
  "split_bar [] = [[]]"
| "split_bar (c # cs) = (if c = CHR ''|'' then [] # split_bar cs
     else (case split_bar cs of [] \<Rightarrow> [[c]] | k # ks \<Rightarrow> (c # k) # ks))"

lemma split_bar_not_Nil [simp]: "split_bar s \<noteq> []"
  by (induction s) (auto split: list.splits)

lemma split_bar_key: "CHR ''|'' \<notin> set k \<Longrightarrow> split_bar k = [k]"
  by (induction k) auto

lemma split_bar_append: "CHR ''|'' \<notin> set k \<Longrightarrow> split_bar (k @ CHR ''|'' # s) = k # split_bar s"
  by (induction k) auto

lemma split_join: "ks \<noteq> [] \<Longrightarrow> (\<forall>k \<in> set ks. CHR ''|'' \<notin> set k) \<Longrightarrow> split_bar (join_bar ks) = ks"
  by (induction ks rule: join_bar.induct) (auto simp: split_bar_key split_bar_append)

lemma join_bar_inj:
  assumes "join_bar ks = join_bar ls" "ks \<noteq> []" "ls \<noteq> []" "\<forall>k \<in> set ks \<union> set ls. CHR ''|'' \<notin> set k"
  shows "ks = ls"
proof -
  have "\<forall>k \<in> set ks. CHR ''|'' \<notin> set k" "\<forall>k \<in> set ls. CHR ''|'' \<notin> set k" using assms(4) by blast+
  then have "split_bar (join_bar ks) = ks" "split_bar (join_bar ls) = ls" using split_join[OF assms(2)] split_join[OF assms(3)] by blast+
  then show ?thesis unfolding assms(1) by simp
qed

lemma sorted_request_key_inj:
  assumes "sorted_request_key rs = sorted_request_key qs" "rs \<noteq> []" "qs \<noteq> []"
    "\<forall>r \<in> set rs \<union> set qs. CHR ''|'' \<notin> set (pr_key r)"
  shows "mset (map pr_key rs) = mset (map pr_key qs)"
proof -
  have "sort (map pr_key rs) \<noteq> []" "sort (map pr_key qs) \<noteq> []"
    using assms(2,3) by (metis length_sort length_map length_0_conv)+
  then have "sort (map pr_key rs) = sort (map pr_key qs)"
    using assms(1,4) by (intro join_bar_inj) (auto simp: sorted_request_key_def)
  then show ?thesis by (metis mset_sort)
qed

section \<open>Waiters\<close>

lemma notify_keys_waiters:
  "map_of (rn_waiters (foldl (notify_key tx) r keys)) k = (if k \<in> set keys then None else map_of (rn_waiters r) k)"
proof (induction keys arbitrary: r)
  case (Cons key keys)
  have "map_of (rn_waiters (notify_key tx r key)) = (map_of (rn_waiters r))(key := None)"
    by (auto simp: notify_key_def map_of_delete fun_upd_idem_iff split: option.splits)
  with Cons show ?case by auto
qed simp

lemma notify_keys_notified:
  "set (rn_notified r) \<subseteq> set (rn_notified (foldl (notify_key tx) r keys))"
proof (induction keys arbitrary: r)
  case (Cons key keys)
  have "set (rn_notified r) \<subseteq> set (rn_notified (notify_key tx r key))"
    by (auto simp: notify_key_def split: option.splits)
  with Cons[of "notify_key tx r key"] show ?case by simp
qed simp

lemma notify_keys_answers:
  "k \<in> set keys \<Longrightarrow> map_of (rn_waiters r) k = Some ws \<Longrightarrow> w \<in> set ws \<Longrightarrow>
    (w, tx) \<in> set (rn_notified (foldl (notify_key tx) r keys))"
proof (induction keys arbitrary: r)
  case (Cons key keys)
  show ?case
  proof (cases "key = k")
    case True
    with Cons.prems have "(w, tx) \<in> set (rn_notified (notify_key tx r key))" by (simp add: notify_key_def)
    then show ?thesis using notify_keys_notified[of "notify_key tx r key" tx keys] by auto
  next
    case False
    have "map_of (rn_waiters (notify_key tx r key)) k = map_of (rn_waiters r) k"
      using False by (simp add: notify_key_def map_of_delete split: option.splits)
    with False Cons show ?thesis by simp
  qed
qed simp

lemma notify_submission_waiters:
  "rn_waiters (notify_submission b r) = rn_waiters (foldl (notify_key (sb_txid b)) r (sb_request_keys b))"
  "rn_notified (notify_submission b r) = rn_notified (foldl (notify_key (sb_txid b)) r (sb_request_keys b))"
  by (simp_all add: notify_submission_def Let_def)

section \<open>Submissions\<close>

lemma btc_broadcaster_answers: "btc_broadcaster cv scope receipt = Inr BcAccepted \<or> btc_broadcaster cv scope receipt = Inr BcRejected"
  by (simp add: btc_broadcaster_def split: sum.splits client_error.splits)

lemma accepted_not_rejected: "x = Inr BcAccepted \<Longrightarrow> x \<noteq> Inr BcRejected"
  by simp

text \<open>The runner after its network took the transaction.\<close>

abbreviation adopted_runner where
  "adopted_runner env s' l rep anchor existing new tx covers r \<equiv> notify_submission
     \<lparr>sb_lineage_id = l, sb_txid = ev_compute_txid env tx, sb_request_keys = map lr_key existing @ map pr_key new, sb_replaces = rep\<rparr>
     (r\<lparr>rn_store := s', rn_runtime := adopt_submission l (ev_compute_txid env tx) anchor existing new covers (rn_runtime r)\<rparr>)"

abbreviation lineage_plan where
  "lineage_plan env knd l existing new tx \<equiv> \<lparr>bp_kind = knd, bp_lineage_id = l, bp_txid = ev_compute_txid env tx,
     bp_raw_tx_hex = ev_serialize_hex env tx, bp_included = map lr_key existing @ map pr_key new, bp_dropped = []\<rparr>"

lemma submit_built_cases:
  assumes ok: "table_ok (rn_store r)"
    and eq: "submit_built_lineage (pg_store now) env cv knd l rep anchor existing new tx covers r = (res, r')"
  obtains (unwritten) e where "persist_broadcast (rn_store r) (ev_scope env) (lineage_plan env knd l existing new tx) = Inl e"
    "res = Inl e" "r' = r"
  | (refused) receipt s' where "persist_broadcast (rn_store r) (ev_scope env) (lineage_plan env knd l existing new tx) = Inr (receipt, s')"
    "btc_broadcaster cv (ev_scope env) receipt = Inr BcRejected" "res = Inr ()" "r' = r"
  | (taken) receipt s' where "persist_broadcast (rn_store r) (ev_scope env) (lineage_plan env knd l existing new tx) = Inr (receipt, s')"
    "btc_broadcaster cv (ev_scope env) receipt = Inr BcAccepted" "res = Inr ()"
    "r' = adopted_runner env s' l rep anchor existing new tx covers r"
proof -
  let ?plan = "lineage_plan env knd l existing new tx"
  have so: "so_persist_broadcast (pg_store now) scope plan t = persist_broadcast t scope plan" for scope plan t
    by (simp add: pg_store_def)
  obtain s' sub where sub: "persist_and_submit_broadcast (pg_store now) (btc_broadcaster cv) (ev_scope env) ?plan (rn_store r) = (s', sub)"
    by (cases "persist_and_submit_broadcast (pg_store now) (btc_broadcaster cv) (ev_scope env) ?plan (rn_store r)")
  note eq' = eq[unfolded submit_built_lineage_def Let_def sub prod.case]
  from ok sub show thesis
  proof (cases rule: pg.submit_cases)
    case (1 e)
    show thesis by (rule that(1)[of e]) (use eq' 1 in \<open>auto simp: so\<close>)
  next
    case (2 receipt s1 e)
    then show thesis using btc_broadcaster_answers[of cv "ev_scope env" receipt] by simp
  next
    case (3 receipt s1)
    show thesis by (rule that(3)[of receipt s']) (use eq' 3 in \<open>auto simp: so\<close>)
  next
    case (4 receipt s1)
    then show thesis using btc_broadcaster_answers[of cv "ev_scope env" receipt] by simp
  next
    case (5 receipt s1)
    show thesis by (rule that(2)[of receipt s1]) (use eq' 5 in \<open>auto simp: so\<close>)
  qed
qed

definition settled_lineage ::
    "lineage_id \<Rightarrow> txid \<Rightarrow> chain_anchor option \<Rightarrow> live_lineage_request list \<Rightarrow> pending_wallet_request list \<Rightarrow>
     cover_utxo list \<Rightarrow> live_lineage \<Rightarrow> bool" where
  "settled_lineage l tx anchor existing new covers lin =
    (ll_lineage_id lin = l \<and> ll_head_txid lin = tx \<and> ll_all_txids lin \<noteq> [] \<and> last (ll_all_txids lin) = tx
     \<and> wallet_requests lin = map lr_request existing @ map pr_request new
     \<and> (\<forall>q \<in> set (ll_requests lin). lr_txid_history q \<noteq> [] \<and> last (lr_txid_history q) = tx)
     \<and> ll_cover_utxos lin = covers \<and> ll_chain_anchor lin = anchor)"

lemma adopt_settles:
  "\<exists>lin. map_of (rt_live_lineages (adopt_submission l tx anchor existing new covers rt)) l = Some lin
    \<and> settled_lineage l tx anchor existing new covers lin"
  "k \<noteq> l \<Longrightarrow> map_of (rt_live_lineages (adopt_submission l tx anchor existing new covers rt)) k = map_of (rt_live_lineages rt) k"
  "pending_keys (adopt_submission l tx anchor existing new covers rt) = pending_keys rt - pr_key ` set new"
proof -
  let ?rt = "foldl (\<lambda>rt p. remove_pending_request rt (pr_key p)) rt new"
  have live: "map_of (rt_live_lineages (adopt_submission l tx anchor existing new covers rt)) = (map_of (rt_live_lineages rt))
    (l \<mapsto> \<lparr>ll_lineage_id = l, ll_head_txid = tx, ll_all_txids = extended_txids ?rt l tx,
       ll_requests = map (append_head tx) existing @ map (join_lineage tx) new, ll_cover_utxos = covers, ll_chain_anchor = anchor\<rparr>)"
    by (simp add: adopt_submission_def Let_def reset_missing_observations_def map_of_update remove_all_rest)
  have ext: "extended_txids rt' l tx \<noteq> [] \<and> last (extended_txids rt' l tx) = tx" for rt'
    by (simp add: extended_txids_def split: option.splits)
  show "\<exists>lin. map_of (rt_live_lineages (adopt_submission l tx anchor existing new covers rt)) l = Some lin
    \<and> settled_lineage l tx anchor existing new covers lin"
    unfolding live using ext by (auto simp: settled_lineage_def wallet_requests_def append_head_def join_lineage_def)
  show "map_of (rt_live_lineages (adopt_submission l tx anchor existing new covers rt)) k = map_of (rt_live_lineages rt) k" if "k \<noteq> l"
    unfolding live using that by simp
  have "pending_keys (adopt_submission l tx anchor existing new covers rt) = pending_keys ?rt"
    by (simp add: adopt_submission_def Let_def reset_missing_observations_def pending_keys_def)
  then show "pending_keys (adopt_submission l tx anchor existing new covers rt) = pending_keys rt - pr_key ` set new"
    by (simp add: remove_all_rest)
qed

section \<open>A concrete environment\<close>

definition demo_view :: "string \<Rightarrow> (client_error, rpc_response) result \<Rightarrow> chain_view" where
  "demo_view meth answer = \<lparr>cv_tx_status = \<lambda>_. Inl (Http (Some 404)), cv_tx = \<lambda>_. Inl (Http (Some 404)), cv_fee_estimates = Inr [],
     cv_post = \<lambda>m _. if m = meth then answer else Inl (ClientRpc ''not found''),
     cv_decode_entry = \<lambda>_. Inl ''json'', cv_decode_descendants = \<lambda>_. Inl ''json''\<rparr>"

definition demo_accepts :: chain_view where
  "demo_accepts = demo_view ''sendrawtransaction'' (Inr \<lparr>rsp_result = Some (JString ''63''), rsp_error = None\<rparr>)"

definition demo_timeout :: chain_view where
  "demo_timeout = demo_view ''sendrawtransaction'' (Inl (Http None))"

definition demo_env :: "unit runner_env" where
  "demo_env = \<lparr>ev_crates = demo_crates, ev_compute_txid = \<lambda>_. 99, ev_serialize_hex = \<lambda>_. ''00'', ev_txid_text = \<lambda>_. ''63'',
     ev_config = default_wallet_config, ev_scope = ''w'', ev_view = \<lambda>_. demo_accepts, ev_now = \<lambda>_. 10 ^ 18,
     ev_lineage_id = \<lambda>n. LineageId (of_nat n)\<rparr>"

definition demo_pending :: pending_wallet_request where
  "demo_pending = \<lparr>pr_request = req_send ''a'' 1000, pr_chain_anchor = None, pr_created_at = 1\<rparr>"

text \<open>A runner whose request \<open>a\<close> is pending, with a caller waiting for it.\<close>

definition demo_runner :: "(wallet_table, unit) runner" where
  "demo_runner = \<lparr>rn_store = [pending_row ''w'' ''a'' 1], rn_builder = demo_builder,
     rn_runtime = \<lparr>rt_live_lineages = [], rt_pending = \<lparr>ps_free = [demo_pending], ps_anchored = []\<rparr>, rt_missing = [], rt_current_height = 100\<rparr>,
     rn_confirmations = [], rn_queue = [], rn_incoming = [], rn_waiters = [(''a'', [5])], rn_notified = [], rn_answers = [],
     rn_submitted = Some [], rn_clock = 0\<rparr>"

lemma demo_table_ok: "table_ok [pending_row ''w'' ''a'' n]"
  by (simp add: table_ok_def table_wf_def row_ok_defs pending_row_def req_send_def row_pk_def wf_request_def trim_is_empty_def)

abbreviation demo_submit where
  "demo_submit cv \<equiv> submit_built_lineage (pg_store 0) demo_env cv KFresh (LineageId 3) None None [] [demo_pending] demo_tx
     [demo_carried] demo_runner"

section \<open>Properties of submissions\<close>

text \<open>C12: Submitting a built lineage does what the store and bitcoind answer. If the store refuses the
  plan, the error is returned and the runner is as it was. If the store accepts, the serialised
  transaction is handed to the broadcaster; when that rejects it, the runner, its store included, is
  as it was. When it accepts, all moves together: the lineage is live with the transaction as its head
  and the requests in order, every other lineage is as before, exactly the new requests stop pending,
  each included request is in flight in the store under the lineage and the transaction, and every
  caller that waited for one of them has been sent the txid.\<close>

theorem submission_is_atomic:
  assumes "table_ok (rn_store r)"
    and "submit_built_lineage (pg_store now) env cv knd l rep anchor existing new tx covers r = (res, r')"
  shows "case persist_broadcast (rn_store r) (ev_scope env)
        \<lparr>bp_kind = knd, bp_lineage_id = l, bp_txid = ev_compute_txid env tx, bp_raw_tx_hex = ev_serialize_hex env tx,
         bp_included = map lr_key existing @ map pr_key new, bp_dropped = []\<rparr> of
      Inl e \<Rightarrow> res = Inl e \<and> r' = r
    | Inr (receipt, s') \<Rightarrow> br_raw_tx_hex receipt = ev_serialize_hex env tx \<and> res = Inr ()
        \<and> (if btc_broadcaster cv (ev_scope env) receipt = Inr BcRejected then r' = r
           else rn_store r' = s'
             \<and> (\<exists>lin. map_of (rt_live_lineages (rn_runtime r')) l = Some lin
                  \<and> settled_lineage l (ev_compute_txid env tx) anchor existing new covers lin)
             \<and> (\<forall>k. k \<noteq> l \<longrightarrow> map_of (rt_live_lineages (rn_runtime r')) k = map_of (rt_live_lineages (rn_runtime r)) k)
             \<and> pending_keys (rn_runtime r') = pending_keys (rn_runtime r) - pr_key ` set new
             \<and> (\<forall>k \<in> lr_key ` set existing \<union> pr_key ` set new.
                  (\<exists>row. load_wallet_request_row s' (ev_scope env) k = Some row \<and> row_status row = ''inflight''
                     \<and> row_lineage_id row = Some (Parsed l) \<and> row_batch_txid row = Some (Parsed (ev_compute_txid env tx)))
                  \<and> map_of (rn_waiters r') k = None
                  \<and> (\<forall>ws. map_of (rn_waiters r) k = Some ws \<longrightarrow> (\<forall>w \<in> set ws. (w, ev_compute_txid env tx) \<in> set (rn_notified r')))))"
proof -
  let ?t = "ev_compute_txid env tx" and ?keys = "map lr_key existing @ map pr_key new"
  have raw: "br_raw_tx_hex receipt = ev_serialize_hex env tx"
    if "persist_broadcast (rn_store r) (ev_scope env) (lineage_plan env knd l existing new tx) = Inr (receipt, s')" for receipt s'
    using persist_broadcast_Inr[OF _ that] assms(1) by (force simp: table_ok_def)
  from assms show ?thesis
  proof (cases rule: submit_built_cases)
    case (unwritten e)
    then show ?thesis by simp
  next
    case (refused receipt s')
    with raw[OF refused(1)] show ?thesis by simp
  next
    case (taken receipt s')
    have rt: "rn_runtime r' = adopt_submission l ?t anchor existing new covers (rn_runtime r)" and st: "rn_store r' = s'"
      by (simp_all add: taken)
    have rows: "\<exists>row. load_wallet_request_row s' (ev_scope env) k = Some row \<and> row_status row = ''inflight''
        \<and> row_lineage_id row = Some (Parsed l) \<and> row_batch_txid row = Some (Parsed ?t)" if k: "k \<in> set ?keys" for k
      by (rule pg_included_row[OF assms(1) taken(1), of k]) (use k in \<open>auto simp: inflight_row_def\<close>)
    have waiters: "map_of (rn_waiters r') k = None" if "k \<in> set ?keys" for k
      using that by (auto simp: taken notify_submission_waiters notify_keys_waiters)
    have answers: "(w, ?t) \<in> set (rn_notified r')" if "k \<in> set ?keys" "map_of (rn_waiters r) k = Some ws" "w \<in> set ws" for k ws w
      unfolding taken(4) notify_submission_waiters submitted_batch.simps
      by (rule notify_keys_answers) (use that in simp_all)
    have keys: "lr_key ` set existing \<union> pr_key ` set new = set ?keys" by simp
    show ?thesis
      unfolding taken(1) sum.case prod.case if_not_P[OF accepted_not_rejected[OF taken(2)]] keys
    proof (intro conjI)
      show "br_raw_tx_hex receipt = ev_serialize_hex env tx" by (rule raw[OF taken(1)])
      show "res = Inr ()" "rn_store r' = s'" by (rule taken st)+
      show "\<exists>lin. map_of (rt_live_lineages (rn_runtime r')) l = Some lin \<and> settled_lineage l ?t anchor existing new covers lin"
        unfolding rt by (rule adopt_settles)
      show "\<forall>k. k \<noteq> l \<longrightarrow> map_of (rt_live_lineages (rn_runtime r')) k = map_of (rt_live_lineages (rn_runtime r)) k"
        unfolding rt by (intro allI impI adopt_settles)
      show "pending_keys (rn_runtime r') = pending_keys (rn_runtime r) - pr_key ` set new" unfolding rt by (rule adopt_settles)
      show "\<forall>k \<in> set ?keys. (\<exists>row. load_wallet_request_row s' (ev_scope env) k = Some row \<and> row_status row = ''inflight''
          \<and> row_lineage_id row = Some (Parsed l) \<and> row_batch_txid row = Some (Parsed ?t))
          \<and> map_of (rn_waiters r') k = None
          \<and> (\<forall>ws. map_of (rn_waiters r) k = Some ws \<longrightarrow> (\<forall>w \<in> set ws. (w, ?t) \<in> set (rn_notified r')))"
      proof (intro ballI conjI)
        fix k
        assume k: "k \<in> set ?keys"
        show "\<exists>row. load_wallet_request_row s' (ev_scope env) k = Some row \<and> row_status row = ''inflight''
            \<and> row_lineage_id row = Some (Parsed l) \<and> row_batch_txid row = Some (Parsed ?t)" by (rule rows[OF k])
        show "map_of (rn_waiters r') k = None" by (rule waiters[OF k])
        show "\<forall>ws. map_of (rn_waiters r) k = Some ws \<longrightarrow> (\<forall>w \<in> set ws. (w, ?t) \<in> set (rn_notified r'))"
          using answers[OF k] by simp
      qed
    qed
  qed
qed

lemma submission_is_atomic_witness:
  "\<exists>r'. demo_submit demo_accepts = (Inr (), r') \<and> (5, 99) \<in> set (rn_notified r') \<and> pending_keys (rn_runtime r') = {}"
proof -
  obtain res r' where e: "demo_submit demo_accepts = (res, r')" by (cases "demo_submit demo_accepts")
  have "list_all (\<lambda>w. w = (5, 99)) (rn_notified (snd (demo_submit demo_accepts))) \<and> rn_notified (snd (demo_submit demo_accepts)) \<noteq> []"
    by code_simp
  then have moved: "r' \<noteq> demo_runner" using e by (auto simp: demo_runner_def)
  have ok: "table_ok (rn_store demo_runner)" using demo_table_ok by (simp add: demo_runner_def)
  have start: "map_of (rn_waiters demo_runner) ''a'' = Some [5]" "pending_keys (rn_runtime demo_runner) = {''a''}" "pr_key demo_pending = ''a''"
    by (simp_all add: demo_runner_def pending_keys_def demo_pending_def req_send_def)
  have tx: "ev_compute_txid demo_env demo_tx = 99" by (simp add: demo_env_def)
  note A = submission_is_atomic[OF ok e]
  show ?thesis
  proof (cases "persist_broadcast (rn_store demo_runner) (ev_scope demo_env) (lineage_plan demo_env KFresh (LineageId 3) [] [demo_pending] demo_tx)")
    case (Inl err)
    with A moved show ?thesis by simp
  next
    case (Inr receipt)
    obtain rc s' where rc: "receipt = (rc, s')" by (cases receipt)
    show ?thesis
      using A[unfolded Inr rc sum.case prod.case] moved start tx e by (simp split: if_splits)
  qed
qed

lemma send_http_failure:
  "cv_post cv ''sendrawtransaction'' [JString hex] = Inl (Http status) \<Longrightarrow> br_raw_tx_hex receipt = hex \<Longrightarrow>
    btc_broadcaster cv scope receipt = Inr BcRejected"
  by (simp add: btc_broadcaster_def send_raw_transaction_def rpc_call_def call_optional_def)

text \<open>When the request that hands a transaction to bitcoind fails in transport (a timeout, a lost
  connection, a proxy error), the runner forgets the transaction altogether, though bitcoind may have
  taken it: the receipt is reverted, the requests are pending again and nothing records the txid, so
  the next cycle pays them in another transaction.\<close>

theorem transport_failure_forgets_broadcast:
  assumes "table_ok (rn_store r)"
    and "cv_post cv ''sendrawtransaction'' [JString (ev_serialize_hex env tx)] = Inl (Http status)"
  shows "snd (submit_built_lineage (pg_store now) env cv knd l rep anchor existing new tx covers r) = r"
proof -
  obtain res r' where e: "submit_built_lineage (pg_store now) env cv knd l rep anchor existing new tx covers r = (res, r')"
    by (cases "submit_built_lineage (pg_store now) env cv knd l rep anchor existing new tx covers r")
  from assms(1) e have "r' = r"
  proof (cases rule: submit_built_cases)
    case (taken receipt s')
    have "table_wf (rn_store r)" using assms(1) by (simp add: table_ok_def)
    from persist_broadcast_Inr[OF this taken(1)] have "br_raw_tx_hex receipt = ev_serialize_hex env tx" by force
    from send_http_failure[OF assms(2) this] taken(2) show ?thesis by simp
  qed
  with e show ?thesis by simp
qed

lemma transport_failure_forgets_broadcast_witness:
  "snd (demo_submit demo_timeout) = demo_runner \<and> snd (demo_submit demo_accepts) \<noteq> demo_runner"
proof -
  have "snd (demo_submit demo_timeout) = demo_runner"
    by (rule transport_failure_forgets_broadcast[where status = None])
      (use demo_table_ok in \<open>simp_all add: demo_runner_def demo_timeout_def demo_view_def demo_env_def\<close>)
  moreover have "rn_notified (snd (demo_submit demo_accepts)) \<noteq> []" by code_simp
  ultimately show ?thesis by (auto simp: demo_runner_def)
qed

text \<open>A chained batch can never take further requests: executing a chained action on a live
  lineage with a request in flight fails, whatever the builder and the network do, and leaves the
  store, the runtime and the waiters alone. The planner chooses this action for every anchored
  request while such a lineage lives.\<close>

theorem chained_extension_never_persists:
  assumes ok: "table_ok (rn_store r)"
    and lin: "map_of (rt_live_lineages (rn_runtime r)) l = Some lin" "q \<in> set (ll_requests lin)"
    and row: "load_wallet_request_row (rn_store r) (ev_scope env) (lr_key q) = Some row" "row_status row = ''inflight''"
    and eq: "execute_action (pg_store now) env (PChained (Some l) a reqs) r = (res, r')"
  shows "isl res \<and> rn_store r' = rn_store r \<and> rn_runtime r' = rn_runtime r \<and> rn_waiters r' = rn_waiters r"
proof -
  obtain cv t fresh r1 where e: "enter env r = (cv, t, fresh, r1)" by (cases "enter env r") auto
  note r1 = enter_eq[OF e]
  have never: "\<nexists>receipt s'. persist_broadcast (rn_store r) (ev_scope env) (lineage_plan env KChained l (ll_requests lin) reqs tx)
      = Inr (receipt, s')" for tx
  proof
    assume "\<exists>receipt s'. persist_broadcast (rn_store r) (ev_scope env) (lineage_plan env KChained l (ll_requests lin) reqs tx)
      = Inr (receipt, s')"
    then have "broadcast_accepted (rn_store r) (ev_scope env) (lineage_plan env KChained l (ll_requests lin) reqs tx)"
      by (simp only: persist_broadcast_accepted[OF ok])
    then have "\<exists>ra. load_wallet_request_row (rn_store r) (ev_scope env) (lr_key q) = Some ra \<and> row_status ra = ''pending''"
      using lin(2) by (auto simp: broadcast_accepted_def)
    with row show False by simp
  qed
  have sub: "isl res1 \<and> r2 = r0"
    if r0: "table_ok (rn_store r0)" "rn_store r0 = rn_store r"
      and s: "submit_built_lineage (pg_store now) env cv KChained l (Some (ll_head_txid lin)) (Some a) (ll_requests lin) reqs
        (bt_tx receipt) (bt_cover_utxos receipt) r0 = (res1, r2)" for receipt r0 r2 res1
    using r0(1) s by (cases rule: submit_built_cases) (use never r0(2) in auto)
  have look: "map_of (rt_live_lineages (rn_runtime r1)) l = Some lin" using lin(1) by (simp add: r1)
  note eq' = eq[unfolded execute_action_def e prod.case Let_def planned_action.case option.case execute_replacement_def look]
  show ?thesis
  proof (cases "fetch_rbf_context (ev_txid_text env) cv (ll_head_txid lin)")
    case None
    with eq' show ?thesis by (auto simp: r1)
  next
    case (Some ctx)
    note eq2 = eq'[unfolded Some option.case]
    show ?thesis
    proof (cases "build_wallet_tx_with_rbf_and_options (ev_crates env) (set_inflight_cover_utxos (rn_builder r1) (ll_cover_utxos lin))
        (wallet_requests lin @ pending_wallet_requests reqs) (market_fee_rate (electrs_fee_estimates cv) (ev_config env)) ctx
        \<lparr>bo_lineage_prevout = Some (anchor_prevout a), bo_min_change_value = min_change_value (ev_config env),
         bo_ignored_cover_outpoints = ignored_cover_outpoints (rn_runtime r1) (Some (ll_lineage_id lin)) (Some a)\<rparr>")
      case (Pair built b)
      show ?thesis
      proof (cases built)
        case (Inl err)
        with eq2 Pair show ?thesis by (auto simp: submit_build_def with_builder_def r1)
      next
        case (Inr receipt)
        with eq2 Pair have "submit_built_lineage (pg_store now) env cv KChained l (Some (ll_head_txid lin)) (Some a) (ll_requests lin)
            reqs (bt_tx receipt) (bt_cover_utxos receipt) (with_builder b r1) = (res, r')"
          by (simp add: submit_build_def)
        from sub[OF _ _ this] ok show ?thesis by (simp add: r1 with_builder_def)
      qed
    qed
  qed
qed

text \<open>A runner whose lineage 3 chains from an anchor, with the request \<open>c\<close> in flight.\<close>

definition demo_anchor :: chain_anchor where
  "demo_anchor = \<lparr>confirmed_txid = 8, change_outpoint = \<lparr>op_txid = 8, op_vout = 1\<rparr>, change_value = 5000,
     change_script_pubkey = [81], confirmed_height = 99\<rparr>"

definition demo_chained :: live_lineage where
  "demo_chained = \<lparr>ll_lineage_id = LineageId 7, ll_head_txid = 12, ll_all_txids = [12],
     ll_requests = [\<lparr>lr_request = req_send ''c'' 1000, lr_txid_history = [12], lr_created_at = 3\<rparr>],
     ll_cover_utxos = [], ll_chain_anchor = Some demo_anchor\<rparr>"

definition demo_chained_runner :: "(wallet_table, unit) runner" where
  "demo_chained_runner = demo_runner
    \<lparr>rn_store := [(pending_row ''w'' ''c'' 3)\<lparr>row_status := ''inflight'', row_lineage_id := Some (Parsed (LineageId 7)),
       row_batch_txid := Some (Parsed 12), row_txid_history := [Parsed 12]\<rparr>],
     rn_runtime := (rn_runtime demo_runner)\<lparr>rt_live_lineages := [(LineageId 7, demo_chained)]\<rparr>\<rparr>"

lemma demo_chained_table_ok: "table_ok (rn_store demo_chained_runner)"
proof -
  have *: "\<exists>h. [Parsed (12::txid)] = map Parsed h \<and> distinct h" by (rule exI[of _ "[12]"]) simp
  show ?thesis
    by (simp add: demo_chained_runner_def table_ok_def table_wf_def row_ok_defs pending_row_def req_send_def row_pk_def
        wf_request_def trim_is_empty_def *)
qed

lemma chained_extension_never_persists_witness:
  "\<exists>res r'. execute_action (pg_store 0) demo_env (PChained (Some (LineageId 7)) demo_anchor [demo_pending]) demo_chained_runner = (res, r')
    \<and> isl res \<and> rn_store r' = rn_store demo_chained_runner"
proof -
  let ?row = "(pending_row ''w'' ''c'' 3)\<lparr>row_status := ''inflight'', row_lineage_id := Some (Parsed (LineageId 7)),
       row_batch_txid := Some (Parsed 12), row_txid_history := [Parsed 12]\<rparr>"
  let ?q = "\<lparr>lr_request = req_send ''c'' 1000, lr_txid_history = [12], lr_created_at = 3\<rparr>"
  obtain res r' where e: "execute_action (pg_store 0) demo_env (PChained (Some (LineageId 7)) demo_anchor [demo_pending]) demo_chained_runner = (res, r')"
    by (cases "execute_action (pg_store 0) demo_env (PChained (Some (LineageId 7)) demo_anchor [demo_pending]) demo_chained_runner")
  have "map_of (rt_live_lineages (rn_runtime demo_chained_runner)) (LineageId 7) = Some demo_chained" "?q \<in> set (ll_requests demo_chained)"
    by (simp_all add: demo_chained_runner_def demo_chained_def)
  moreover have "load_wallet_request_row (rn_store demo_chained_runner) (ev_scope demo_env) (lr_key ?q) = Some ?row"
    by (simp add: demo_chained_runner_def demo_env_def load_wallet_request_row_def key_in_def pending_row_def req_send_def)
  moreover have "row_status ?row = ''inflight''" by simp
  ultimately have "isl res \<and> rn_store r' = rn_store demo_chained_runner"
    using chained_extension_never_persists[OF demo_chained_table_ok _ _ _ _ e] by blast
  with e show ?thesis by blast
qed

end
