(* ===== verification/WalletRunnerBatches.thy ===== *)
theory WalletRunnerBatches
  imports WalletRunnerProps
begin

text \<open>
  The batches of the runner: which inputs a new lineage may take, and a complete fresh batch from
  the request to the network on a concrete builder.
\<close>

section \<open>Inputs of a new lineage\<close>

text \<open>The outputs that the spend requests of a batch bring along.\<close>

definition request_outpoints :: "wallet_request list \<Rightarrow> outpoint set" where
  "request_outpoints reqs = {sp_outpoint sp | req sp. req \<in> set reqs \<and> wr_kind req = Spend sp}"

lemma request_outpoints_simps:
  "request_outpoints [] = {}"
  "request_outpoints (req # reqs) = (case wr_kind req of Send _ \<Rightarrow> {} | Spend sp \<Rightarrow> {sp_outpoint sp}) \<union> request_outpoints reqs"
  by (auto simp: request_outpoints_def split: wallet_request_kind.splits)

lemma params_outpoints:
  assumes "params_from_requests reqs rate = Inr p"
  shows "sp_outpoint ` set (ap_sacps p) \<union> sp_outpoint ` set (ap_spends p) = request_outpoints reqs"
proof -
  have "sp_outpoint ` set (ap_sacps p) \<union> sp_outpoint ` set (ap_spends p)
      = sp_outpoint ` set (ap_sacps q) \<union> sp_outpoint ` set (ap_spends q) \<union> request_outpoints reqs"
    if "try_fold sort_request q reqs = Inr p" for q
    using that
  proof (induction reqs arbitrary: q)
    case (Cons req reqs)
    then obtain q' where q': "sort_request q req = Inr q'" "try_fold sort_request q' reqs = Inr p" by (auto simp: try_simps)
    have "sp_outpoint ` set (ap_sacps q') \<union> sp_outpoint ` set (ap_spends q') = sp_outpoint ` set (ap_sacps q)
        \<union> sp_outpoint ` set (ap_spends q) \<union> (case wr_kind req of Send _ \<Rightarrow> {} | Spend sp \<Rightarrow> {sp_outpoint sp})"
      using q'(1) by (auto simp: sort_request_def split: wallet_request_kind.splits if_splits)
    with Cons.IH[OF q'(2)] show ?case by (simp only: request_outpoints_simps Un_assoc)
  qed (simp add: request_outpoints_simps)
  from this[OF assms[unfolded params_from_requests_def]] show ?thesis by simp
qed

lemma built_spends:
  assumes "codec_ok cr" "build_wallet_tx_with_options cr (clear_inflight_cover_utxos b) reqs fee_rate opts = (Inr rc, b')"
  shows "cu_outpoint ` set (bt_cover_utxos rc) \<inter> set (bo_ignored_cover_outpoints opts) = {}"
    "in_previous_output ` set (tx_input (bt_tx rc)) \<subseteq>
      request_outpoints reqs \<union> cu_outpoint ` set_option (bo_lineage_prevout opts) \<union> cu_outpoint ` set (bt_cover_utxos rc)"
proof -
  obtain p where p: "params_from_requests reqs fee_rate = Inr p"
    and built: "build_tx_inner_with_options cr (clear_inflight_cover_utxos b) p None opts = (Inr rc, b')"
    using assms(2) by (auto simp: build_wallet_tx_with_options_def split: sum.splits)
  have none: "tb_inflight_cover_utxos (clear_inflight_cover_utxos b) = []" by (simp add: clear_inflight_cover_utxos_def)
  obtain extra extra' change where build: "tx_build cr (builder_adaptor (clear_inflight_cover_utxos b) None) p
       (extra @ prevout_list (bo_lineage_prevout opts)) change = Inr (bt_tx rc)"
    and sub: "set extra \<subseteq> set extra'" "bt_cover_utxos rc = extra'" "fee_covers cr (clear_inflight_cover_utxos b) p opts extra'"
    using receipt_facts[OF assms(1) built, unfolded none append_Nil] by metis
  show "cu_outpoint ` set (bt_cover_utxos rc) \<inter> set (bo_ignored_cover_outpoints opts) = {}"
    using sub(2,3) by (simp add: fee_covers_def)
  have "in_previous_output ` set (tx_input (bt_tx rc)) = sp_outpoint ` set (ap_sacps p) \<union> sp_outpoint ` set (ap_spends p)
      \<union> cu_outpoint ` set extra \<union> cu_outpoint ` set (prevout_list (bo_lineage_prevout opts))"
    using arg_cong[OF tx_build_shape(1)[OF build], of set] by auto
  moreover have "set (prevout_list (bo_lineage_prevout opts)) = set_option (bo_lineage_prevout opts)"
    by (auto simp: prevout_list_def split: option.splits)
  ultimately show "in_previous_output ` set (tx_input (bt_tx rc)) \<subseteq>
      request_outpoints reqs \<union> cu_outpoint ` set_option (bo_lineage_prevout opts) \<union> cu_outpoint ` set (bt_cover_utxos rc)"
    using sub(1,2) params_outpoints[OF p] by auto
qed

text \<open>What a new lineage chaining from \<open>active\<close> must not take: what the live lineages spend or chain
  from, and the anchors of the other pending requests.\<close>

lemma set_anchor_reserved: "set (anchor_reserved active p) = {change_outpoint a | a. pr_chain_anchor p = Some a \<and> active \<noteq> Some a}"
  by (cases "pr_chain_anchor p") (auto simp: anchor_reserved_def)

lemma ignored_outpoints:
  "set (ignored_cover_outpoints rt None active) = (\<Union>l \<in> snd ` set (rt_live_lineages rt). set (lineage_reserved l))
    \<union> {change_outpoint a | a p. p \<in> set (ps_anchored (rt_pending rt)) \<and> pr_chain_anchor p = Some a \<and> active \<noteq> Some a}"
proof -
  have "set (concat (map lineage_reserved (filter (\<lambda>l. Some (ll_lineage_id l) \<noteq> None) (map snd (rt_live_lineages rt)))))
      = (\<Union>l \<in> snd ` set (rt_live_lineages rt). set (lineage_reserved l))" by simp
  moreover have "set (concat (map (anchor_reserved active) ps))
      = {change_outpoint a | a p. p \<in> set ps \<and> pr_chain_anchor p = Some a \<and> active \<noteq> Some a}" for ps
    by (induction ps) (auto simp: set_anchor_reserved)
  ultimately show ?thesis unfolding ignored_cover_outpoints_def set_append by simp
qed

lemma submit_build_new:
  assumes ok: "table_ok (rn_store r)"
    and eq: "submit_build outcome (\<lambda>rc. submit_built_lineage (pg_store now) env cv knd l0 None anchor [] reqs (bt_tx rc)
        (bt_cover_utxos rc)) r = (res, r')"
    and new: "map_of (rt_live_lineages (rn_runtime r')) l = Some lin" "map_of (rt_live_lineages (rn_runtime r)) l \<noteq> Some lin"
  shows "\<exists>rc b. outcome = (Inr rc, b) \<and> ll_cover_utxos lin = bt_cover_utxos rc \<and> ll_head_txid lin = ev_compute_txid env (bt_tx rc)"
proof -
  obtain built b where o: "outcome = (built, b)" by (cases outcome)
  have "built \<noteq> Inl e" for e using eq new by (auto simp: o submit_build_def with_builder_def)
  then obtain rc where rc: "built = Inr rc" by (cases built) auto
  let ?r = "with_builder b r"
  have s: "submit_built_lineage (pg_store now) env cv knd l0 None anchor [] reqs (bt_tx rc) (bt_cover_utxos rc) ?r = (res, r')"
    using eq by (simp add: o rc submit_build_def)
  have "table_ok (rn_store ?r)" using ok by (simp add: with_builder_def)
  from this s show ?thesis
  proof (cases rule: submit_built_cases)
    case (taken receipt s')
    then have rt: "rn_runtime r' = adopt_submission l0 (ev_compute_txid env (bt_tx rc)) anchor [] reqs (bt_cover_utxos rc) (rn_runtime r)"
      by (simp add: with_builder_def)
    have "l = l0" using new adopt_settles(2)[of l l0] unfolding rt by metis
    then have "ll_cover_utxos lin = bt_cover_utxos rc" "ll_head_txid lin = ev_compute_txid env (bt_tx rc)"
      using new(1) adopt_settles(1)[of l0 "ev_compute_txid env (bt_tx rc)" anchor "[]" reqs "bt_cover_utxos rc" "rn_runtime r"]
      unfolding rt by (auto simp: settled_lineage_def)
    with o rc show ?thesis by simp
  qed (use new in \<open>simp_all add: with_builder_def\<close>)
qed

text \<open>The outputs reserved against a new lineage that chains from \<open>active\<close>: the covers of the live
  lineages, the outputs they chain from, and those that other waiting requests are anchored to.\<close>

definition reserved_outpoints :: "runtime_state \<Rightarrow> chain_anchor option \<Rightarrow> outpoint set" where
  "reserved_outpoints rt active =
    {cu_outpoint u | l u. l \<in> snd ` set (rt_live_lineages rt) \<and> u \<in> set (ll_cover_utxos l)}
    \<union> {change_outpoint a | l a. l \<in> snd ` set (rt_live_lineages rt) \<and> ll_chain_anchor l = Some a}
    \<union> {change_outpoint a | a p. p \<in> set (ps_anchored (rt_pending rt)) \<and> pr_chain_anchor p = Some a \<and> active \<noteq> Some a}"

lemma reserved_ignored: "reserved_outpoints rt active = set (ignored_cover_outpoints rt None active)"
proof -
  have L: "set (lineage_reserved l) = cu_outpoint ` set (ll_cover_utxos l) \<union> {change_outpoint a | a. ll_chain_anchor l = Some a}" for l
    by (auto simp: lineage_reserved_def split: option.splits)
  have "(\<Union>l \<in> A. set (lineage_reserved l)) = {cu_outpoint u | l u. l \<in> A \<and> u \<in> set (ll_cover_utxos l)}
      \<union> {change_outpoint a | l a. l \<in> A \<and> ll_chain_anchor l = Some a}" for A
    unfolding L by auto
  then show ?thesis by (simp only: ignored_outpoints reserved_outpoints_def)
qed

text \<open>C13: When an executed fresh or new chained batch makes a lineage live, its head is a transaction
  that the builder made for the requests. Each input of it is brought by one of the requests, or is the
  change output of the anchor that the batch chains from, or is recorded among the covers of the
  lineage; and no cover is reserved: none is spent or chained from by a live lineage, and none is the
  change output that another waiting request is anchored to.\<close>

theorem new_lineage_spares_reserved:
  assumes "codec_ok (ev_crates env)" "table_ok (rn_store r)"
    and act: "act = PFresh reqs \<and> active = None \<or> act = PChained None a reqs \<and> active = Some a"
    and eq: "execute_action (pg_store now) env act r = (res, r')"
    and new: "map_of (rt_live_lineages (rn_runtime r')) l = Some lin" "map_of (rt_live_lineages (rn_runtime r)) l \<noteq> Some lin"
  shows "(\<exists>rate opts rc b'. build_wallet_tx_with_options (ev_crates env) (clear_inflight_cover_utxos (rn_builder r))
            (map pr_request reqs) rate opts = (Inr rc, b')
          \<and> ll_head_txid lin = ev_compute_txid env (bt_tx rc)
          \<and> in_previous_output ` set (tx_input (bt_tx rc)) \<subseteq>
              request_outpoints (map pr_request reqs) \<union> change_outpoint ` set_option active \<union> cu_outpoint ` set (ll_cover_utxos lin))
    \<and> cu_outpoint ` set (ll_cover_utxos lin) \<inter> reserved_outpoints (rn_runtime r) active = {}"
proof -
  obtain cv t fresh r1 where e: "enter env r = (cv, t, fresh, r1)" by (cases "enter env r") auto
  note r1 = enter_eq[OF e]
  have T: "table_ok (rn_store r1)" and N: "map_of (rt_live_lineages (rn_runtime r1)) l \<noteq> Some lin"
    and B: "rn_builder r1 = rn_builder r" "rn_runtime r1 = rn_runtime r" using assms(2) new(2) by (simp_all add: r1)
  note eq' = eq[unfolded execute_action_def e prod.case Let_def]
  let ?rate = "market_fee_rate (electrs_fee_estimates cv) (ev_config env)"
  let ?opts = "\<lparr>bo_lineage_prevout = map_option anchor_prevout active, bo_min_change_value = min_change_value (ev_config env),
         bo_ignored_cover_outpoints = ignored_cover_outpoints (rn_runtime r) None active\<rparr>"
  have "\<exists>rc b'. build_wallet_tx_with_options (ev_crates env) (clear_inflight_cover_utxos (rn_builder r))
        (pending_wallet_requests reqs) ?rate ?opts = (Inr rc, b')
      \<and> ll_cover_utxos lin = bt_cover_utxos rc \<and> ll_head_txid lin = ev_compute_txid env (bt_tx rc)"
    using act
  proof
    assume a: "act = PFresh reqs \<and> active = None"
    note eq2 = eq'[unfolded a[THEN conjunct1] planned_action.case execute_fresh_def]
    from submit_build_new[OF T eq2 new(1) N] show ?thesis by (simp add: a B)
  next
    assume a: "act = PChained None a reqs \<and> active = Some a"
    note eq2 = eq'[unfolded a[THEN conjunct1] planned_action.case option.case execute_chained_new_def]
    from submit_build_new[OF T eq2 new(1) N] show ?thesis by (simp add: a B)
  qed
  then obtain rc b' where rc: "build_wallet_tx_with_options (ev_crates env) (clear_inflight_cover_utxos (rn_builder r))
        (map pr_request reqs) ?rate ?opts = (Inr rc, b')"
      "ll_cover_utxos lin = bt_cover_utxos rc" "ll_head_txid lin = ev_compute_txid env (bt_tx rc)"
    by (auto simp: pending_wallet_requests_def)
  have "cu_outpoint ` set_option (bo_lineage_prevout ?opts) = change_outpoint ` set_option active"
    by (cases active) (simp_all add: anchor_prevout_def)
  with built_spends[OF assms(1) rc(1)] rc show ?thesis by (auto simp: reserved_ignored)
qed

section \<open>A fresh batch\<close>

text \<open>
  A wallet with one output of 10202 satoshis; a send of 10000 at two satoshis per virtual byte takes
  it in two rounds of the fee loop.
\<close>

definition demo_utxo :: esplora_utxo where
  "demo_utxo = \<lparr>eu_txid = ''utxo'', eu_vout = 0, eu_value = 10202,
     eu_status = \<lparr>ts_confirmed = True, ts_block_height = Some 10, ts_block_hash = None, ts_block_time = None\<rparr>\<rparr>"

definition demo_taken :: outpoint where
  "demo_taken = \<lparr>op_txid = 55, op_vout = 0\<rparr>"

definition demo_payer :: "unit tx_builder" where
  "demo_payer = demo_builder\<lparr>tb_electrs := demo_electrs\<lparr>el_address_utxos := \<lambda>_ _. Inr [demo_utxo]\<rparr>, tb_inflight_cover_utxos := []\<rparr>"

definition demo_cover :: cover_utxo where
  "demo_cover = \<lparr>cu_outpoint = \<lparr>op_txid = 4, op_vout = 0\<rparr>, cu_value = 10202, cu_script_pubkey = [81]\<rparr>"

definition demo_options :: build_options where
  "demo_options = \<lparr>bo_lineage_prevout = None, bo_min_change_value = 546, bo_ignored_cover_outpoints = [demo_taken]\<rparr>"

definition demo_market_params :: adaptor_params where
  "demo_market_params = demo_params\<lparr>ap_fee_rate := 2\<rparr>"

lemmas payer_defs = demo_defs demo_utxo_def demo_taken_def demo_payer_def demo_cover_def demo_options_def demo_market_params_def

definition demo_fresh_tx :: "cover_utxo list \<Rightarrow> transaction" where
  "demo_fresh_tx covers = \<lparr>tx_version = 2, tx_lock_time = 0,
     tx_input = map (\<lambda>u. (cover_input u)\<lparr>in_witness := [[1]]\<rparr>) covers,
     tx_output = [\<lparr>out_value = 10000, out_script_pubkey = [82]\<rparr>]\<rparr>"

abbreviation "demo_ad \<equiv> btc_adaptor demo_crates (builder_adaptor demo_payer None)"
abbreviation "demo_pr \<equiv> btc_provider (txid_from_str demo_crates)"
abbreviation "demo_c0 \<equiv> builder_cover demo_payer demo_options"

lemma demo_build0:
  "tx_build demo_crates (builder_adaptor demo_payer None) demo_market_params [] 546 = Inr (demo_fresh_tx [])"
  "tx_build demo_crates (builder_adaptor demo_payer None) demo_market_params [demo_cover] 546 = Inr (demo_fresh_tx [demo_cover])"
  by (simp_all add: payer_defs tx_build_def sign_def sign_sacp_inputs_def sign_spend_inputs_def sign_cover_inputs_def
      sign_cover_input_def tb_sighash_def tb_signing_def sign_taproot_key_spend_def set_witness_def cover_input_def
      send_output_def DUST_LIMIT_def ENABLE_RBF_NO_LOCKTIME_def builder_adaptor_def with_rbf_context_def adaptor_new_def
      demo_fresh_tx_def)

lemma demo_target: "tx_target demo_crates (builder_adaptor demo_payer None) demo_market_params tx = Inr 202"
  by (simp add: tx_target_def estimate_vsize_def builder_adaptor_def
        with_rbf_context_def adaptor_new_def ceil_u64_def u64_rat_def payer_defs)

lemma demo_probes:
  "bc_selected c = covers \<Longrightarrow> covers = [] \<or> covers = [demo_cover] \<Longrightarrow> 
   probe demo_ad demo_pr demo_market_params
    \<lparr>fl_change = 546, fl_last_size = sz, fl_best_overpay = bo, fl_best_overpay_delta = bd, fl_cover = c\<rparr>
   = Inr (demo_fresh_tx covers, (if covers = [] then - 10000 else 202), (if covers = [] then - 10202 else 0),
       serialize_tx demo_crates (demo_fresh_tx covers))"
  using demo_build0 demo_target
  by (elim disjE) (simp_all add: probe_def tx_current_def tx_encode_def, simp_all add: payer_defs demo_fresh_tx_def)

lemma demo_asked:
  "cover_available (txid_from_str demo_crates) demo_c0 (demo_fresh_tx []) = (Inr [demo_cover], demo_c0\<lparr>bc_electrs := Some ((tb_electrs demo_payer)\<lparr>el_clock := 2\<rparr>)\<rparr>)"
  by (simp add: cover_available_def cover_new_def get_address_utxos_def get_block_height_def electrs_cover_def usable_covers_def
    is_confirmed_utxo_def payer_defs demo_fresh_tx_def)

lemma demo_plan: "plan_fee_actions (- 10202) 546 546 = [AddUtxos 10202]" "plan_fee_actions 0 546 546 = [Done]"
  by (simp_all add: plan_fee_actions_def saturating_sub_def Let_def)

lemma demo_select: "cover_select c [demo_cover] 10202 = Inr [demo_cover]"
  by (simp add: cover_select_def demo_cover_def)

lemma demo_loop:
  "\<exists>c. bc_selected c = [demo_cover] \<and> bc_lineage_prevout c = None \<and> bc_electrs c = Some ((tb_electrs demo_payer)\<lparr>el_clock := 2\<rparr>)
   \<and> build_with_fee_floor demo_ad demo_pr demo_market_params demo_c0 546 546
     = (Inr \<lparr>fr_tx = demo_fresh_tx [demo_cover], fr_change = 546, fr_fee_paid_sats = 202\<rparr>, c)"
proof -
  let ?s0 = "\<lparr>fl_change = 546, fl_last_size = None, fl_best_overpay = None, fl_best_overpay_delta = word_of_int (2 ^ 63 - 1), fl_cover = demo_c0\<rparr>"
  let ?n = "length (serialize_tx demo_crates (demo_fresh_tx []))"
  let ?c = "cover_add (demo_c0\<lparr>bc_electrs := Some ((tb_electrs demo_payer)\<lparr>el_clock := 2\<rparr>)\<rparr>) [demo_cover]"
  let ?s1 = "\<lparr>fl_change = 546, fl_last_size = Some ?n, fl_best_overpay = None, fl_best_overpay_delta = word_of_int (2 ^ 63 - 1), fl_cover = ?c\<rparr>"
  have sel0: "bc_selected demo_c0 = []" by (simp add: cover_new_def payer_defs)
  have c: "bc_selected ?c = [demo_cover]" "bc_lineage_prevout ?c = None" "bc_electrs ?c = Some ((tb_electrs demo_payer)\<lparr>el_clock := 2\<rparr>)"
    by (simp_all add: cover_new_def cover_add_def payer_defs)
  have "fee_iteration demo_ad demo_pr demo_market_params 546 ?s0 = Next ?s1"
    by (simp add: fee_iteration_def demo_probes[OF sel0] size_stable_def record_best_def demo_plan apply_action_def demo_asked demo_select)
  moreover have "fee_iteration demo_ad demo_pr demo_market_params 546 ?s1
      = Return (Inr \<lparr>fr_tx = demo_fresh_tx [demo_cover], fr_change = 546, fr_fee_paid_sats = 202\<rparr>, ?c)"
    by (simp add: fee_iteration_def demo_probes[OF c(1)] record_best_def demo_plan apply_action_def u64_try_from_def)
  ultimately have "build_with_fee_floor demo_ad demo_pr demo_market_params demo_c0 546 546
     = (Inr \<lparr>fr_tx = demo_fresh_tx [demo_cover], fr_change = 546, fr_fee_paid_sats = 202\<rparr>, ?c)"
    by (simp add: build_with_fee_floor_def MAX_ITERATIONS_def eval_nat_numeral)
  with c show ?thesis by blast
qed

lemma demo_fresh_build:
  "\<exists>b'. build_tx_inner_with_options demo_crates demo_payer demo_market_params None demo_options =
    (Inr \<lparr>bt_tx = demo_fresh_tx [demo_cover], bt_fee_paid_sats = 202, bt_cover_utxos = [demo_cover], bt_lineage_prevout = None\<rparr>, b')"
proof -
  obtain c where c: "bc_selected c = [demo_cover]" "bc_lineage_prevout c = None" "bc_electrs c = Some ((tb_electrs demo_payer)\<lparr>el_clock := 2\<rparr>)"
   "build_with_fee_floor demo_ad demo_pr demo_market_params demo_c0 546 546
     = (Inr \<lparr>fr_tx = demo_fresh_tx [demo_cover], fr_change = 546, fr_fee_paid_sats = 202\<rparr>, c)"
    using demo_loop by blast
  have valid: "validate_params demo_market_params = Inr ()" "validate_unique_mandatory_inputs demo_market_params
      (tb_inflight_cover_utxos demo_payer) (bo_lineage_prevout demo_options) = Inr ()"
    by (simp_all add: validate_params_def validate_send_def validate_unique_iff mandatory_outpoints_def payer_defs DUST_LIMIT_def)
  have m: "bo_min_change_value demo_options = 546" by (simp add: demo_options_def)
  show ?thesis
    using valid c unfolding build_tx_inner_with_options_def build_with_min_change_def builder_adaptor_def[symmetric] m
    by (simp add: Let_def selected_cover_utxos_def selected_lineage_prevout_def)
qed

definition demo_payment :: pending_wallet_request where
  "demo_payment = \<lparr>pr_request = \<lparr>dedupe_key = ''a'', wr_kind = Send demo_send\<rparr>, pr_chain_anchor = None, pr_created_at = 1\<rparr>"

definition demo_other :: live_lineage where
  "demo_other = \<lparr>ll_lineage_id = LineageId 7, ll_head_txid = 12, ll_all_txids = [12], ll_requests = [],
     ll_cover_utxos = [\<lparr>cu_outpoint = demo_taken, cu_value = 1, cu_script_pubkey = [81]\<rparr>], ll_chain_anchor = None\<rparr>"

definition demo_paying :: "(wallet_table, unit) runner" where
  "demo_paying = demo_runner\<lparr>rn_store := [(pending_row ''w'' ''a'' 1)\<lparr>row_payload := Send demo_send\<rparr>], rn_builder := demo_payer,
     rn_runtime := \<lparr>rt_live_lineages = [(LineageId 7, demo_other)], rt_pending = \<lparr>ps_free = [demo_payment], ps_anchored = []\<rparr>,
       rt_missing = [], rt_current_height = 100\<rparr>\<rparr>"

lemma demo_paying_ok: "table_ok (rn_store demo_paying)"
  by (simp add: demo_paying_def table_ok_def table_wf_def row_ok_defs pending_row_def demo_send_def row_pk_def wf_request_def
      trim_is_empty_def)

lemma demo_accepts_all: "btc_broadcaster demo_accepts scope receipt = Inr BcAccepted"
  by (simp add: btc_broadcaster_def send_raw_transaction_def rpc_call_def call_optional_def demo_accepts_def demo_view_def)

lemma demo_market: "market_fee_rate (electrs_fee_estimates demo_accepts) (ev_config demo_env) = 2"
  by (simp add: market_fee_rate_def electrs_fee_estimates_def demo_accepts_def demo_view_def default_fee_estimate_def demo_env_def
      default_wallet_config_def clamp_def)

lemma demo_persists:
  "\<exists>receipt t'. persist_broadcast (rn_store demo_paying) ''w'' (lineage_plan demo_env KFresh l [] [demo_payment] tx) = Inr (receipt, t')"
  unfolding persist_broadcast_accepted[OF demo_paying_ok]
  by (simp add: broadcast_accepted_def demo_paying_def demo_payment_def demo_env_def load_wallet_request_row_def key_in_def
      pending_row_def can_append_def)

lemma demo_pays:
  "\<exists>r' lin. execute_action (pg_store 0) demo_env (PFresh [demo_payment]) demo_paying = (Inr (), r')
    \<and> map_of (rt_live_lineages (rn_runtime r')) (LineageId 0) = Some lin \<and> ll_cover_utxos lin = [demo_cover]"
proof -
  let ?r1 = "demo_paying\<lparr>rn_clock := 1\<rparr>"
  have e: "enter demo_env demo_paying = (demo_accepts, 10 ^ 18, LineageId 0, ?r1)"
    by (simp add: enter_def demo_env_def demo_paying_def demo_runner_def)
  have opts: "\<lparr>bo_lineage_prevout = None, bo_min_change_value = min_change_value (ev_config demo_env),
      bo_ignored_cover_outpoints = ignored_cover_outpoints (rn_runtime ?r1) None None\<rparr> = demo_options"
    by (simp add: demo_options_def demo_env_def default_wallet_config_def DUST_LIMIT_def ignored_cover_outpoints_def
        demo_paying_def lineage_reserved_def demo_other_def)
  have params: "params_from_requests (pending_wallet_requests [demo_payment]) 2 = Inr demo_market_params"
    by (simp add: params_from_requests_def sort_request_def pending_wallet_requests_def demo_payment_def demo_market_params_def demo_params_def)
  have cr: "ev_crates demo_env = demo_crates" by (simp add: demo_env_def)
  have b: "clear_inflight_cover_utxos (rn_builder ?r1) = demo_payer"
    by (simp add: demo_paying_def clear_inflight_cover_utxos_def demo_payer_def)
  obtain b' where built: "build_wallet_tx_with_options (ev_crates demo_env) (clear_inflight_cover_utxos (rn_builder ?r1))
      (pending_wallet_requests [demo_payment]) 2 demo_options
    = (Inr \<lparr>bt_tx = demo_fresh_tx [demo_cover], bt_fee_paid_sats = 202, bt_cover_utxos = [demo_cover], bt_lineage_prevout = None\<rparr>, b')"
    using demo_fresh_build unfolding build_wallet_tx_with_options_def params cr b by auto
  let ?r = "with_builder b' ?r1"
  obtain res r' where s: "submit_built_lineage (pg_store 0) demo_env demo_accepts KFresh (LineageId 0) None None [] [demo_payment]
      (demo_fresh_tx [demo_cover]) [demo_cover] ?r = (res, r')"
    by (cases "submit_built_lineage (pg_store 0) demo_env demo_accepts KFresh (LineageId 0) None None [] [demo_payment]
      (demo_fresh_tx [demo_cover]) [demo_cover] ?r")
  have act: "execute_action (pg_store 0) demo_env (PFresh [demo_payment]) demo_paying = (res, r')"
    using s unfolding execute_action_def e prod.case Let_def planned_action.case execute_fresh_def demo_market opts submit_build_def built
    by simp
  have st: "rn_store ?r = rn_store demo_paying" "ev_scope demo_env = ''w''" by (simp_all add: with_builder_def demo_env_def)
  have "table_ok (rn_store ?r)" using demo_paying_ok by (simp add: st)
  from this s show ?thesis
  proof (cases rule: submit_built_cases)
    case (unwritten e)
    then show ?thesis
      using demo_persists[of "LineageId 0" "demo_fresh_tx [demo_cover]"] unfolding st by simp
  next
    case (refused receipt s')
    then show ?thesis unfolding demo_accepts_all by simp
  next
    case (taken receipt s')
    then have "rn_runtime r' = adopt_submission (LineageId 0) 99 None [] [demo_payment] [demo_cover] (rn_runtime ?r)"
      by (simp add: demo_env_def)
    then obtain lin where "map_of (rt_live_lineages (rn_runtime r')) (LineageId 0) = Some lin" "ll_cover_utxos lin = [demo_cover]"
      using adopt_settles(1)[of "LineageId 0" 99 None "[]" "[demo_payment]" "[demo_cover]" "rn_runtime ?r"]
      by (auto simp: settled_lineage_def)
    with act taken(3) show ?thesis by blast
  qed
qed

lemma new_lineage_spares_reserved_witness:
  "\<exists>r' lin. execute_action (pg_store 0) demo_env (PFresh [demo_payment]) demo_paying = (Inr (), r')
    \<and> map_of (rt_live_lineages (rn_runtime r')) (LineageId 0) = Some lin \<and> ll_cover_utxos lin = [demo_cover]
    \<and> cu_outpoint demo_cover \<notin> reserved_outpoints (rn_runtime demo_paying) None
    \<and> demo_taken \<in> reserved_outpoints (rn_runtime demo_paying) None"
proof -
  obtain r' lin where p: "execute_action (pg_store 0) demo_env (PFresh [demo_payment]) demo_paying = (Inr (), r')"
    "map_of (rt_live_lineages (rn_runtime r')) (LineageId 0) = Some lin" "ll_cover_utxos lin = [demo_cover]"
    using demo_pays by blast
  have "codec_ok (ev_crates demo_env)" using demo_codec_ok by (simp add: demo_env_def)
  moreover have "map_of (rt_live_lineages (rn_runtime demo_paying)) (LineageId 0) \<noteq> Some lin"
    by (simp add: demo_paying_def)
  moreover have "demo_taken \<in> reserved_outpoints (rn_runtime demo_paying) None"
    by (simp add: reserved_outpoints_def demo_paying_def demo_other_def)
  ultimately show ?thesis
    using new_lineage_spares_reserved[OF _ demo_paying_ok _ p(1,2), of "[demo_payment]" None] p by auto
qed

end
