(* ===== verification/WalletRunnerLife.thy ===== *)
theory WalletRunnerLife
  imports WalletRunnerBatches
begin

text \<open>
  The runner over time: what holds of every runner that can be reached from a sound store, what a
  confirmation does, what happens to a request that was dropped, and how often the chain is asked.
\<close>

section \<open>Every reachable runner\<close>

lemma reaches_sound:
  assumes "reaches (range pg_store) env s r" "table_ok s"
  shows "pg.runner_sound env {} r"
  using assms(1)
proof (induction rule: reaches.induct)
  case (started st w el net notify r)
  then obtain now where "st = pg_store now" by blast
  with pg.runner_new_sound[OF assms(2)] started show ?case by blast
next
  case (stepped r st ev)
  then obtain now where "st = pg_store now" by blast
  moreover have "spares {} ev" by (cases ev) simp_all
  ultimately show ?case using pg.runner_step_sound[OF stepped.IH stepped.hyps(3)] by blast
qed

text \<open>C11: Whatever callers and the runner do, in any order, from a sound table: the table stays sound
  (\<open>table_ok\<close>), the runtime state stays well formed (\<open>wf_runtime\<close>), and for each request of a live
  lineage, and of a lineage whose confirmation is still to be handled, the store has a history of
  the request that contains every transaction the runner holds for it. Nothing is said of the status
  of that row: a request whose reconciliation failed stays with the runner after the store has settled it.\<close>

theorem runner_keeps_store_sound:
  assumes "reaches (range pg_store) env s r" "table_ok s"
  shows "table_ok (rn_store r) \<and> wf_runtime (rn_runtime r)
    \<and> (\<forall>l \<in> snd ` set (rt_live_lineages (rn_runtime r)) \<union> pc_lineage ` set (rn_confirmations r). \<forall>q \<in> set (ll_requests l).
         \<exists>h. pg_history (rn_store r) (ev_scope env) (lr_key q) = Some h \<and> set (lr_txid_history q) \<subseteq> set h)"
  using reaches_sound[OF assms]
  by (simp add: pg.runner_sound_def pg.sound_at_def pg.sound_def pg.carried_def pg.mirrors_def)

definition demo_start :: "(wallet_table, unit) runner" where
  "demo_start = \<lparr>rn_store = [pending_row ''w'' ''a'' 1], rn_builder = builder_new demo_wallet (demo_electrs\<lparr>el_clock := 1\<rparr>) Regtest,
     rn_runtime = \<lparr>rt_live_lineages = [], rt_pending = \<lparr>ps_free = [demo_pending], ps_anchored = []\<rparr>, rt_missing = [], rt_current_height = 800000\<rparr>,
     rn_confirmations = [], rn_queue = [], rn_incoming = [], rn_waiters = [], rn_notified = [], rn_answers = [],
     rn_submitted = Some [], rn_clock = 1\<rparr>"

lemma demo_height: "el_block_height el = (\<lambda>n. Inr 800000) \<Longrightarrow> current_height el = (Inr 800000, el\<lparr>el_clock := el_clock el + 1\<rparr>)"
  by (simp add: current_height_def retry_with_delay_def RETRY_ATTEMPTS_def get_block_height_def eval_nat_numeral)

lemma demo_restored: "restore [pending_row ''w'' ''a'' 1] ''w'' = Inr \<lparr>rs_pending = [demo_pending], rs_inflight = []\<rparr>"
  by code_simp

lemma demo_started: "runner_new (pg_store 0) demo_env demo_wallet demo_electrs Regtest True [pending_row ''w'' ''a'' 1] = Inr demo_start"
proof -
  have h: "current_height demo_electrs = (Inr 800000, demo_electrs\<lparr>el_clock := 1\<rparr>)" by (simp add: demo_height demo_electrs_def)
  have sc: "ev_scope demo_env = ''w''" by (simp add: demo_env_def)
  show ?thesis
    by (simp add: runner_new_def h recover_wallet_runtime_def sc pg_store_def demo_restored from_requests_def demo_start_def)
      (simp add: demo_pending_def)
qed

lemma demo_reached:
  "reaches (range pg_store) demo_env [pending_row ''w'' ''a'' 1]
    (runner_step (pg_store 9) demo_env (runner_step (pg_store 8) demo_env demo_start (EvSubmitAndWait (req_send ''b'' 1000) 1)) EvTick)"
proof -
  have wf: "event_wf (EvSubmitAndWait (req_send ''b'' 1000) 1)" "event_wf EvTick"
    by (simp_all add: event_wf_def wf_request_def req_send_def trim_is_empty_def)
  show ?thesis by (intro reaches.stepped[OF reaches.stepped[OF reaches.started[OF _ demo_started]]] wf) simp_all
qed

lemma runner_keeps_store_sound_witness:
  "\<exists>r. reaches (range pg_store) demo_env [pending_row ''w'' ''a'' 1] r \<and> table_ok (rn_store r) \<and> wf_runtime (rn_runtime r)"
  using runner_keeps_store_sound[OF demo_reached demo_table_ok] demo_reached by blast

section \<open>Dropped requests\<close>

text \<open>The runner does not hold the request \<open>k\<close> in any way.\<close>

definition out_of_hand :: "string \<Rightarrow> ('s, 'k) runner \<Rightarrow> bool" where
  "out_of_hand k r = (k \<notin> pending_keys (rn_runtime r)
    \<and> (\<forall>l \<in> snd ` set (rt_live_lineages (rn_runtime r)) \<union> pc_lineage ` set (rn_confirmations r). k \<notin> lineage_keys l)
    \<and> k \<notin> pr_key ` set (rn_incoming r) \<and> k \<notin> command_key ` set (rn_queue r))"

lemma stranded_sound:
  "pg.runner_sound env {} r \<and> pg_waiting (rn_store r) (ev_scope env) k \<and> out_of_hand k r \<longleftrightarrow> pg.runner_sound env {k} r"
  by (auto simp: pg.runner_sound_def pg.sound_at_def pg.sound_def pg.carried_def out_of_hand_def)

text \<open>C15: A request that waits in the store but that the runner does not hold is never sent: no
  submission of it, no other event and no number of cycles makes the runner take it up again (only a
  resolution of the request, or a restart). A tick puts a request into this state when it drops it
  as stale, since the store is not told.\<close>

theorem stranded_request_never_sent:
  assumes "reaches (range pg_store) env s r" "table_ok s"
    and "pg_waiting (rn_store r) (ev_scope env) k" "out_of_hand k r"
    and "\<forall>(now, ev) \<in> set evs. event_wf ev \<and> (\<forall>w. ev \<noteq> EvResolvePending k w)"
    and "r' = foldl (\<lambda>r (now, ev). runner_step (pg_store now) env r ev) r evs"
  shows "pg_waiting (rn_store r') (ev_scope env) k \<and> out_of_hand k r'"
proof -
  have "pg.runner_sound env {k} r" using stranded_sound reaches_sound[OF assms(1,2)] assms(3,4) by blast
  then have "pg.runner_sound env {k} r'"
    using assms(5) unfolding assms(6)
  proof (induction evs arbitrary: r)
    case (Cons e evs)
    obtain now ev where e: "e = (now, ev)" by (cases e)
    with Cons.prems have "event_wf ev" "spares {k} ev" by (cases ev; simp)+
    from pg.runner_step_sound[OF Cons.prems(1) this] Cons e show ?case by simp
  qed simp
  then show ?thesis using stranded_sound by blast
qed

text \<open>The request \<open>a\<close> is older than its time to live when the runner starts: the first cycle drops it.\<close>

definition demo_after :: "(wallet_table, unit) runner" where
  "demo_after = demo_start\<lparr>rn_builder := builder_new demo_wallet (demo_electrs\<lparr>el_clock := 2\<rparr>) Regtest,
     rn_runtime := (rn_runtime demo_start)\<lparr>rt_pending := \<lparr>ps_free = [], ps_anchored = []\<rparr>\<rparr>, rn_clock := 3\<rparr>"

lemma demo_ticked: "process_tick (pg_store now) demo_env demo_start = (Inr (), demo_after)"
proof -
  have h: "runner_height demo_start = (Inr 800000, demo_start\<lparr>rn_builder := builder_new demo_wallet (demo_electrs\<lparr>el_clock := 2\<rparr>) Regtest\<rparr>)"
    by (simp add: runner_height_def demo_start_def builder_new_def demo_height demo_electrs_def)
  let ?r1 = "demo_start\<lparr>rn_builder := builder_new demo_wallet (demo_electrs\<lparr>el_clock := 2\<rparr>) Regtest, rn_clock := 2\<rparr>"
  have o: "observe_phase demo_env (demo_start\<lparr>rn_builder := builder_new demo_wallet (demo_electrs\<lparr>el_clock := 2\<rparr>) Regtest\<rparr>) = ?r1"
    by (simp add: observe_phase_def enter_def observe_live_lineages_def demo_start_def)
  have c: "cleaned_state (ev_config demo_env) (10 ^ 18) (pushed_state [] 800000 (rn_runtime demo_start)) = rn_runtime demo_after"
    by (simp add: cleaned_state_def pushed_state_def expire_chain_anchors_def drop_stale_pending_def stale_def Let_def demo_start_def
        demo_after_def demo_env_def default_wallet_config_def demo_pending_def)
  have n: "ev_now demo_env k = 10 ^ 18" for k by (simp add: demo_env_def)
  have empty: "rt_pending (rn_runtime demo_after) = \<lparr>ps_free = [], ps_anchored = []\<rparr>" by (simp add: demo_after_def)
  have prep: "prepare_planner_evaluator demo_env cv (rn_runtime demo_after) b = (\<lparr>pm_fresh = [], pm_rbf = [], pm_chained = []\<rparr>, b)" for cv b
    by (simp add: prepare_planner_evaluator_def empty runner_group_anchored_requests_def)
  have tick: "fst (tick [] 800000 (10 ^ 18) (ev_config demo_env) ev collect_action (rn_runtime demo_start, [])) = (rn_runtime demo_after, [])" for ev
  proof -
    obtain rt x out where t: "tick [] 800000 (10 ^ 18) (ev_config demo_env) ev collect_action (rn_runtime demo_start, []) = ((rt, x), out)"
      by (metis surj_pair)
    have rt: "rt = rn_runtime demo_after"
      using tick_state[of "[]" 800000 "10 ^ 18" "ev_config demo_env" ev collect_action "rn_runtime demo_start" "[]"] unfolding t c by simp
    have "to_executed out = []"
      using tick_actions[of "[]" 800000 "10 ^ 18" "ev_config demo_env" ev collect_action "rn_runtime demo_start" "[]"] unfolding t c
      by (simp add: plan_wallet_batches_def pending_is_empty_def empty)
    then have "x = []" using t by (auto simp: tick_def Let_def split: prod.splits)
    with t rt show ?thesis by simp
  qed
  have parts: "rn_incoming ?r1 = []" "rn_runtime ?r1 = rn_runtime demo_start" "rn_builder ?r1 = rn_builder demo_after" "rn_clock ?r1 = 2"
    by (simp_all add: demo_start_def demo_after_def)
  let ?r2 = "?r1\<lparr>rn_clock := 3\<rparr>"
  have e: "enter demo_env ?r1 = (ev_view demo_env 2, 10 ^ 18, ev_lineage_id demo_env 2, ?r2)" by (simp add: enter_def n)
  have parts2: "rn_incoming ?r2 = []" "rn_runtime ?r2 = rn_runtime demo_start" "rn_builder ?r2 = rn_builder demo_after"
    by (simp_all add: demo_start_def demo_after_def)
  obtain out where t: "tick [] 800000 (10 ^ 18) (ev_config demo_env) (prepared_evaluator \<lparr>pm_fresh = [], pm_rbf = [], pm_chained = []\<rparr>)
      collect_action (rn_runtime demo_start, []) = ((rn_runtime demo_after, []), out)"
    using tick by (metis prod.collapse)
  have "plan_phase demo_env 800000 ?r1 = ([], ?r2\<lparr>rn_builder := rn_builder demo_after, rn_runtime := rn_runtime demo_after, rn_incoming := []\<rparr>)"
    unfolding plan_phase_def e Let_def prod.case parts2 preview_cleaned c prep t ..
  also have "?r2\<lparr>rn_builder := rn_builder demo_after, rn_runtime := rn_runtime demo_after, rn_incoming := []\<rparr> = demo_after"
    by (simp add: demo_start_def demo_after_def)
  finally have p: "plan_phase demo_env 800000 ?r1 = ([], demo_after)" .
  show ?thesis unfolding process_tick_def h prod.case sum.case Let_def
    using o p by (simp add: demo_start_def reconciliation_targets_def)
qed

lemma demo_dropped: "pg_waiting (rn_store demo_after) ''w'' ''a''" "out_of_hand ''a'' demo_after" "\<not> out_of_hand ''a'' demo_start"
  by (simp_all add: pg_waiting_def out_of_hand_def demo_after_def demo_start_def load_wallet_request_row_def key_in_def
      pending_row_def pending_keys_def demo_pending_def req_send_def)

lemma stranded_request_never_sent_witness:
  "runner_step (pg_store 0) demo_env demo_start EvTick = demo_after
   \<and> (let r' = foldl (\<lambda>r (now, ev). runner_step (pg_store now) demo_env r ev) demo_after
         [(1, EvSubmitAndWait (req_send ''a'' 1000) 4), (2, EvReceive), (3, EvTick)] in
      pg_waiting (rn_store r') ''w'' ''a'' \<and> out_of_hand ''a'' r')"
proof -
  let ?evs = "[(1, EvSubmitAndWait (req_send ''a'' 1000) 4), (2, EvReceive), (3, EvTick)]"
  have t: "runner_step (pg_store 0) demo_env demo_start EvTick = demo_after" by (simp add: demo_ticked)
  have "reaches (range pg_store) demo_env [pending_row ''w'' ''a'' 1] (runner_step (pg_store 0) demo_env demo_start EvTick)"
    by (intro reaches.stepped[OF reaches.started[OF _ demo_started]]) (simp_all add: event_wf_def)
  then have r: "reaches (range pg_store) demo_env [pending_row ''w'' ''a'' 1] demo_after" unfolding t .
  have w: "pg_waiting (rn_store demo_after) (ev_scope demo_env) ''a''" using demo_dropped by (simp add: demo_env_def)
  have e: "\<forall>(now, ev) \<in> set ?evs. event_wf ev \<and> (\<forall>w. ev \<noteq> EvResolvePending ''a'' w)"
    by (simp add: event_wf_def wf_request_def req_send_def trim_is_empty_def)
  have sc: "ev_scope demo_env = ''w''" by (simp add: demo_env_def)
  show ?thesis using stranded_request_never_sent[OF r demo_table_ok w demo_dropped(2) e refl] t unfolding sc Let_def by blast
qed

section \<open>Confirmations\<close>

definition orphans_of :: "live_lineage \<Rightarrow> txid \<Rightarrow> live_lineage_request list" where
  "orphans_of l tx = filter (\<lambda>q. tx \<notin> set (lr_txid_history q)) (ll_requests l)"

definition requeued_as :: "chain_anchor option \<Rightarrow> live_lineage_request \<Rightarrow> pending_wallet_request" where
  "requeued_as anchor q = \<lparr>pr_request = lr_request q, pr_chain_anchor = anchor, pr_created_at = lr_created_at q\<rparr>"

lemma orphan_time:
  assumes "distinct (map lr_key (ll_requests l))" "q \<in> set (ll_requests l)"
  shows "orphan_created_at l (lr_request q) = Some (lr_created_at q)"
proof -
  have "find (\<lambda>p. lr_key p = lr_key q) (ll_requests l) = Some q" using assms by (rule find_unique_key)
  then show ?thesis by (simp add: orphan_created_at_def)
qed

lemma requeue_all_orphans:
  assumes d: "distinct (map lr_key (ll_requests l))" and "set qs \<subseteq> set (ll_requests l)"
  shows "try_fold (requeue_orphan l anchor) rt (map lr_request qs) = Inr (foldl push_pending rt (map (requeued_as anchor) qs))"
  using assms(2) by (induction qs arbitrary: rt) (simp_all add: requeue_orphan_def orphan_time[OF d] requeued_as_def)

lemma confirmation_anchor_facts:
  assumes "confirmation_anchor env height h tx confirmed_tx spk orphaned = Inr anchor"
  shows "orphaned = [] \<Longrightarrow> anchor = None"
    "anchor = Some a \<Longrightarrow> confirmed_txid a = tx \<and> confirmed_height a = h
       \<and> anchor_confirmations height a < chain_anchor_confirmations (ev_config env)"
  using assms
  by (auto simp: confirmation_anchor_def try_simps Let_def extract_chain_anchor_def anchor_confirmations_def
      split: if_splits list.splits prod.splits)

text \<open>C14: Handling a confirmation either fails and changes nothing, or it settles the lineage: the
  decision is persisted, and exactly the requests that the confirmed transaction does not carry are
  pending again, each with its own creation time, pinned to the transaction's change output while it
  has too few confirmations and free otherwise. The panic of a missing orphan cannot happen.\<close>

theorem confirmation_settles_lineage:
  assumes "distinct (map lr_key (ll_requests (pc_lineage conf)))"
    and "handle_confirmation st env conf height r = (res, r')"
  shows "isl res \<and> r' = r\<lparr>rn_clock := rn_clock r + 1\<rparr>
    \<or> (\<exists>anchor u. res = Inr ()
        \<and> so_persist_confirmation st (ev_scope env)
            \<lparr>cp_lineage_id = ll_lineage_id (pc_lineage conf), cp_confirmed_txid = pc_confirmed_txid conf,
             cp_confirmed = map lr_key (filter (\<lambda>q. pc_confirmed_txid conf \<in> set (lr_txid_history q)) (ll_requests (pc_lineage conf))),
             cp_orphaned = map lr_key (orphans_of (pc_lineage conf) (pc_confirmed_txid conf)), cp_chain_anchor = anchor\<rparr>
            (rn_store r) = Inr (u, rn_store r')
        \<and> mset (all_pending (rn_runtime r')) = mset (all_pending (rn_runtime r))
            + mset (map (requeued_as anchor) (orphans_of (pc_lineage conf) (pc_confirmed_txid conf)))
        \<and> rt_live_lineages (rn_runtime r') = rt_live_lineages (rn_runtime r)
        \<and> (\<forall>a. anchor = Some a \<longrightarrow> confirmed_txid a = pc_confirmed_txid conf
            \<and> anchor_confirmations height a < chain_anchor_confirmations (ev_config env)))"
proof -
  let ?l = "pc_lineage conf" and ?tx = "pc_confirmed_txid conf"
  let ?part = "partition_confirmed_lineage ?l ?tx" and ?qs = "orphans_of (pc_lineage conf) (pc_confirmed_txid conf)"
  obtain cv now fresh r1 where e: "enter env r = (cv, now, fresh, r1)" by (cases "enter env r") auto
  note r1 = enter_eq[OF e]
  have P: "map dedupe_key (cf_confirmed ?part) = map lr_key (filter (\<lambda>q. ?tx \<in> set (lr_txid_history q)) (ll_requests ?l))"
    "cf_orphaned ?part = map lr_request ?qs" "map dedupe_key (map lr_request ?qs) = map lr_key ?qs"
    by (simp_all add: partition_confirmed_lineage_def orphans_of_def)
  note eq = assms(2)[unfolded handle_confirmation_def e prod.case Let_def P]
  let ?plan = "\<lambda>anchor. \<lparr>cp_lineage_id = ll_lineage_id ?l, cp_confirmed_txid = ?tx,
     cp_confirmed = map lr_key (filter (\<lambda>q. ?tx \<in> set (lr_txid_history q)) (ll_requests ?l)),
     cp_orphaned = map lr_key ?qs, cp_chain_anchor = anchor\<rparr>"
  show ?thesis
  proof (cases "try_bind (load_tx (runner_observer env cv r1) ?tx) (\<lambda>confirmed_tx.
      try_bind (ok_or (ts_block_height (et_status confirmed_tx)) (Domain (Format ''confirmed tx {} missing block height'' [ArgTxid ?tx]))) (\<lambda>h.
      try_bind (confirmation_anchor env height h ?tx confirmed_tx (runner_script r1) (map lr_request ?qs)) (\<lambda>anchor.
      try_bind (so_persist_confirmation st (ev_scope env) (?plan anchor) (rn_store r1)) (\<lambda>(_, s'). Inr (anchor, s')))))")
    case (Inl err)
    have "res = Inl err" "r' = r1" using eq unfolding Inl by simp_all
    then show ?thesis by (simp add: r1)
  next
    case (Inr v)
    obtain anchor s' where v: "v = (anchor, s')" by (cases v)
    then obtain u h ctx where p: "so_persist_confirmation st (ev_scope env) (?plan anchor) (rn_store r1) = Inr (u, s')"
      and a: "confirmation_anchor env height h ?tx ctx (runner_script r1) (map lr_request ?qs) = Inr anchor"
      using Inr by (auto simp: try_simps)
    have f: "try_fold (requeue_orphan ?l anchor) rt (map lr_request ?qs) = Inr (foldl push_pending rt (map (requeued_as anchor) ?qs))" for rt
      by (rule requeue_all_orphans[OF assms(1)]) (auto simp: orphans_of_def)
    have r': "res = Inr ()" "rn_store r' = s'" "rn_runtime r' = foldl push_pending (rn_runtime r) (map (requeued_as anchor) ?qs)"
      using eq unfolding Inr v by (auto simp: f r1)
    have "\<forall>a. anchor = Some a \<longrightarrow> confirmed_txid a = ?tx \<and> anchor_confirmations height a < chain_anchor_confirmations (ev_config env)"
      using confirmation_anchor_facts(2)[OF a] by blast
    with p r' show ?thesis by (simp only: r' mset_push_all push_all_rest) (simp add: r1 r'(1), blast)
  qed
qed

text \<open>A wallet with one lineage of two requests, \<open>c\<close> in transaction 12 and \<open>d\<close> in 11 and 12; the chain shows 11.\<close>

definition demo_status :: tx_status where
  "demo_status = \<lparr>ts_confirmed = True, ts_block_height = Some 100, ts_block_hash = None, ts_block_time = None\<rparr>"

definition demo_confirmed :: chain_view where
  "demo_confirmed = demo_accepts\<lparr>cv_tx := \<lambda>_. Inr \<lparr>et_txid = ''0b'', et_version = 2, et_locktime = 0, et_vin = [], et_vout = [],
     et_size = 100, et_weight = 400, et_fee = 101, et_status = demo_status\<rparr>\<rparr>"

definition demo_two :: "(wallet_table, unit) runner" where
  "demo_two = demo_runner\<lparr>rn_store := sample_two_members,
     rn_runtime := \<lparr>rt_live_lineages = [(LineageId 7, sample_lineage)], rt_pending = \<lparr>ps_free = [], ps_anchored = []\<rparr>,
       rt_missing = [], rt_current_height = 100\<rparr>\<rparr>"

lemma demo_confirmation_persists:
  "\<not> isl (persist_confirmation sample_two_members ''w'' \<lparr>cp_lineage_id = LineageId 7, cp_confirmed_txid = 11,
     cp_confirmed = [''d''], cp_orphaned = [''c''], cp_chain_anchor = None\<rparr>)"
  by code_simp

lemma demo_confirmation_succeeds:
  "fst (handle_confirmation (pg_store 0) (demo_env\<lparr>ev_view := \<lambda>_. demo_confirmed\<rparr>)
      \<lparr>pc_lineage = sample_lineage, pc_confirmed_txid = 11\<rparr> 200 demo_two) = Inr ()"
proof -
  let ?env = "demo_env\<lparr>ev_view := \<lambda>_. demo_confirmed\<rparr>"
  have part: "partition_confirmed_lineage sample_lineage 11
      = \<lparr>cf_confirmed_txid = 11, cf_confirmed = [req_send ''d'' 1000], cf_orphaned = [req_send ''c'' 1000]\<rparr>"
    by (simp add: partition_confirmed_lineage_def sample_lineage_def)
  have load: "load_tx (runner_observer ?env demo_confirmed r) 11 = Inr \<lparr>et_txid = ''0b'', et_version = 2, et_locktime = 0, et_vin = [], et_vout = [],
     et_size = 100, et_weight = 400, et_fee = 101, et_status = demo_status\<rparr>" for r :: "(wallet_table, unit) runner"
    by (simp add: runner_observer_def btc_observer_def btc_load_tx_def demo_confirmed_def)
  have anchor: "confirmation_anchor ?env 200 100 11 tx spk [req_send ''c'' 1000] = Inr None" for tx spk
    by (simp add: confirmation_anchor_def demo_env_def default_wallet_config_def saturating_sub_def saturating_add_def)
  obtain s' where p: "persist_confirmation sample_two_members ''w'' \<lparr>cp_lineage_id = LineageId 7, cp_confirmed_txid = 11,
     cp_confirmed = [''d''], cp_orphaned = [''c''], cp_chain_anchor = None\<rparr> = Inr ((), s')"
    using demo_confirmation_persists
    by (cases "persist_confirmation sample_two_members ''w'' \<lparr>cp_lineage_id = LineageId 7, cp_confirmed_txid = 11,
     cp_confirmed = [''d''], cp_orphaned = [''c''], cp_chain_anchor = None\<rparr>") auto
  have o: "orphan_created_at sample_lineage (req_send ''c'' 1000) = Some 3"
    by (simp add: orphan_created_at_def sample_lineage_def req_send_def)
  let ?r1 = "demo_two\<lparr>rn_clock := 1\<rparr>"
  have e: "enter ?env demo_two = (demo_confirmed, 10 ^ 18, LineageId 0, ?r1)"
    by (simp add: enter_def demo_env_def demo_two_def demo_runner_def)
  have parts: "ev_scope ?env = ''w''" "rn_store ?r1 = sample_two_members" "ll_lineage_id sample_lineage = LineageId 7"
    "dedupe_key (req_send k n) = k" for k n
    by (simp_all add: demo_env_def demo_two_def sample_lineage_def req_send_def)
  show ?thesis
    unfolding handle_confirmation_def e prod.case Let_def pending_confirmation.simps part confirmation_partition.simps load
      try_bind_Inr esplora_tx.simps demo_status_def tx_status.simps ok_or_simps anchor parts list.map
    by (simp add: pg_store_def p requeue_orphan_def o)
qed

lemma confirmation_settles_lineage_witness:
  "\<exists>r'. handle_confirmation (pg_store 0) (demo_env\<lparr>ev_view := \<lambda>_. demo_confirmed\<rparr>)
      \<lparr>pc_lineage = sample_lineage, pc_confirmed_txid = 11\<rparr> 200 demo_two = (Inr (), r')
    \<and> map pr_key (all_pending (rn_runtime r')) = [''c'']"
proof -
  let ?env = "demo_env\<lparr>ev_view := \<lambda>_. demo_confirmed\<rparr>" and ?c = "\<lparr>pc_lineage = sample_lineage, pc_confirmed_txid = 11\<rparr>"
  obtain res r' where h: "handle_confirmation (pg_store 0) ?env ?c 200 demo_two = (res, r')"
    by (cases "handle_confirmation (pg_store 0) ?env ?c 200 demo_two")
  have "distinct (map lr_key (ll_requests (pc_lineage ?c)))" by (simp add: sample_lineage_def req_send_def)
  note S = confirmation_settles_lineage[OF this h]
  have ok: "\<not> isl res" using demo_confirmation_succeeds by (simp add: h)
  let ?q = "\<lparr>lr_request = req_send ''c'' 1000, lr_txid_history = [12], lr_created_at = 3\<rparr>"
  have orphans: "orphans_of sample_lineage 11 = [?q]" by (simp add: orphans_of_def sample_lineage_def)
  obtain anchor where "res = Inr ()" and
    m: "mset (all_pending (rn_runtime r')) = mset (all_pending (rn_runtime demo_two)) + mset (map (requeued_as anchor) [?q])"
  proof (rule disjE[OF S[unfolded pending_confirmation.simps orphans]], goal_cases)
    case 1
    with ok show ?case by simp
  next
    case 2
    from 2(2) show ?case by (elim exE conjE) (rule 2(1))
  qed
  have none: "all_pending (rn_runtime demo_two) = []" by (simp add: demo_two_def)
  have "mset (all_pending (rn_runtime r')) = {#requeued_as anchor ?q#}" unfolding m none by simp
  then have "all_pending (rn_runtime r') = [requeued_as anchor ?q]" by (rule iffD1[OF mset_single_iff])
  then have keys: "map pr_key (all_pending (rn_runtime r')) = [''c'']" by (simp only: list.map) (simp add: requeued_as_def req_send_def)
  from h[unfolded \<open>res = Inr ()\<close>] keys show ?thesis by (intro exI conjI)
qed

section \<open>A reconciliation that cannot load its inputs\<close>

lemma settle_requeued:
  "settle st scope now l knd state part anchor s = Inr (res, s') \<Longrightarrow> rr_requeued res = map (requeue now l anchor) (rpt_requeued part)"
  by (auto simp: settle_def try_simps split: prod.splits)

lemma reconcile_requeued_keys:
  "reconcile_candidates hex st ob scope now l height confs spk s txs = Inr (res, s') \<Longrightarrow> pr_key ` set (rr_requeued res) \<subseteq> lineage_keys l"
proof (induction txs)
  case Nil
  then show ?case by (auto dest!: settle_requeued simp: requeue_def wallet_requests_def lineage_keys_def)
next
  case (Cons tx txs)
  have split: "pr_key ` set (rr_requeued res) \<subseteq> lineage_keys l"
    if "settle st scope now l knd st' (split_by_history l tx sv) anchor s = Inr (res, s')" for knd st' sv anchor
    using settle_requeued[OF that] by (auto simp: split_by_history_def requeue_def lineage_keys_def)
  from Cons.prems obtain state where "observe_tx ob tx = Inr state" by (auto simp: try_simps)
  with Cons show ?case by (cases state) (auto simp: try_simps Let_def dest!: split)
qed

text \<open>When a lineage is reconciled to a transaction in the mempool and the inputs of that
  transaction cannot be loaded, the runner holds the requeued requests twice: pending, and in the
  lineage, which is put back whole. The store has them pending.\<close>

theorem failed_reconciliation_duplicates:
  assumes "map_of (rt_live_lineages (rn_runtime r)) k = Some l"
    and "reconcile_missing_lineage (hex_opt (ev_crates env)) st (runner_observer env (ev_view env (rn_clock r)) r) (ev_scope env)
        (ev_now env (rn_clock r)) l height (chain_anchor_confirmations (ev_config env)) (runner_script r) (rn_store r) = Inr (result, s')"
    and "rr_state result = RsInMempool surviving"
    and "load_wallet_funding_inputs (runner_observer env (ev_view env (rn_clock r)) r) surviving = Inl err"
    and "p \<in> set (rr_requeued result)"
    and "r' = missing_step st env height r k"
  shows "p \<in> set (all_pending (rn_runtime r')) \<and> map_of (rt_live_lineages (rn_runtime r')) k = Some l \<and> pr_key p \<in> lineage_keys l"
proof -
  let ?r = "r\<lparr>rn_runtime := reset_missing_observations k (remove_lineage k (rn_runtime r))\<rparr>"
  have ob: "runner_observer env cv (?r\<lparr>rn_clock := n\<rparr>) = runner_observer env cv r" "runner_script (?r\<lparr>rn_clock := n\<rparr>) = runner_script r" for cv n
    by (simp_all add: runner_observer_def runner_script_def)
  have h: "handle_missing_lineage st env l height ?r = (Inl err, ?r\<lparr>rn_clock := rn_clock r + 1, rn_store := s',
      rn_runtime := foldl push_pending (rn_runtime ?r) (rr_requeued result)\<rparr>)"
    using assms(2-4) by (simp add: handle_missing_lineage_def enter_def ob[simplified])
  have rt: "rn_runtime r' = (foldl push_pending (rn_runtime ?r) (rr_requeued result))
      \<lparr>rt_live_lineages := AList.update k l (rt_live_lineages (rn_runtime ?r))\<rparr>"
    using assms(1,6) by (simp add: missing_step_def h)
  have "set (all_pending (foldl push_pending (rn_runtime ?r) (rr_requeued result))) = set (all_pending (rn_runtime ?r)) \<union> set (rr_requeued result)"
    using mset_push_all[of "rn_runtime ?r" "rr_requeued result"] by (metis set_mset_mset set_mset_union)
  then have "p \<in> set (all_pending (rn_runtime r'))" using assms(5) by (auto simp: rt)
  moreover have "map_of (rt_live_lineages (rn_runtime r')) k = Some l" by (simp add: rt map_of_update)
  moreover have "pr_key p \<in> lineage_keys l"
    using reconcile_requeued_keys[OF assms(2)[unfolded reconcile_missing_lineage_def]] assms(5) by blast
  ultimately show ?thesis by blast
qed

text \<open>bitcoind knows transaction 11 in its mempool but does not serve it.\<close>

definition demo_unserved :: chain_view where
  "demo_unserved = demo_accepts\<lparr>cv_post := \<lambda>m ps. if m = ''getmempoolentry'' \<and> ps = [JString ''0b'']
       then Inr \<lparr>rsp_result = Some JNull, rsp_error = None\<rparr> else Inl (ClientRpc ''not found''),
     cv_decode_entry := \<lambda>_. Inr \<lparr>me_vsize = 100, me_weight = 400,
       me_fees = \<lparr>mf_base = 1, mf_modified = 1, mf_ancestor = 1, mf_descendant = 1\<rparr>, me_depends = [], me_spentby = []\<rparr>\<rparr>"

definition demo_unserved_env :: "unit runner_env" where
  "demo_unserved_env = demo_env\<lparr>ev_view := \<lambda>_. demo_unserved, ev_txid_text := \<lambda>tx. if tx = 11 then ''0b'' else ''0c''\<rparr>"

lemma failed_reconciliation_duplicates_witness:
  "\<exists>p \<in> set (all_pending (rn_runtime (missing_step (pg_store 0) demo_unserved_env 200 demo_two (LineageId 7)))).
    map_of (rt_live_lineages (rn_runtime (missing_step (pg_store 0) demo_unserved_env 200 demo_two (LineageId 7)))) (LineageId 7)
      = Some sample_lineage
    \<and> pr_key p \<in> lineage_keys sample_lineage"
proof -
  let ?env = demo_unserved_env and ?ob = "runner_observer demo_unserved_env (ev_view demo_unserved_env (rn_clock demo_two)) demo_two"
  let ?rec = "reconcile_missing_lineage (hex_opt (ev_crates ?env)) (pg_store 0) ?ob (ev_scope ?env) (ev_now ?env (rn_clock demo_two))
    sample_lineage 200 (chain_anchor_confirmations (ev_config ?env)) (runner_script demo_two) (rn_store demo_two)"
  have live: "map_of (rt_live_lineages (rn_runtime demo_two)) (LineageId 7) = Some sample_lineage" by (simp add: demo_two_def)
  have ask: "observe_tx ?ob 12 = Inr ObsMissing" "observe_tx ?ob 11 = Inr ObsInMempool" "isl (load_wallet_funding_inputs ?ob 11)"
    by (simp_all add: runner_observer_def btc_observer_def btc_observe_tx_def get_mempool_entry_def rpc_call_def call_optional_def
        from_value_def btc_load_wallet_funding_inputs_def btc_load_tx_def load_wallet_funding_inputs_from_bitcoind_def raw_transaction_def
        get_raw_transaction_hex_def demo_unserved_env_def demo_unserved_def demo_accepts_def demo_view_def demo_env_def)
  have "rev (ll_all_txids sample_lineage) = [12, 11]" by (simp add: sample_lineage_def)
  then have settled: "?rec = settle (pg_store 0) ''w'' (10 ^ 18) sample_lineage (RInMempool 11) (RsInMempool 11)
      (split_by_history sample_lineage 11 (SvInMempool 11)) None sample_two_members"
    using ask by (simp add: reconcile_missing_lineage_def) (simp add: demo_two_def demo_unserved_env_def demo_env_def)
  have ok: "case settle (pg_store 0) ''w'' (10 ^ 18) sample_lineage (RInMempool 11) (RsInMempool 11)
      (split_by_history sample_lineage 11 (SvInMempool 11)) None sample_two_members of
      Inl _ \<Rightarrow> False | Inr (result, _) \<Rightarrow> rr_state result = RsInMempool 11 \<and> rr_requeued result \<noteq> []" by code_simp
  then obtain result s' where rec: "?rec = Inr (result, s')" and res: "rr_state result = RsInMempool 11" "rr_requeued result \<noteq> []"
    unfolding settled by (auto split: sum.splits)
  from ask(3) obtain err where l: "load_wallet_funding_inputs ?ob 11 = Inl err" by (auto simp: isl_def)
  obtain p where p: "p \<in> set (rr_requeued result)" using res(2) by (cases "rr_requeued result") auto
  from failed_reconciliation_duplicates[OF live rec res(1) l p refl] show ?thesis by blast
qed

section \<open>Asking the chain\<close>

text \<open>The chain height is asked for at most three times, and at least once: the answer is the first
  success among the three, and there is an error only if all three fail.\<close>

theorem height_retries_bounded:
  "case current_height el of (res, el') \<Rightarrow>
     (case (el_block_height el (el_clock el), el_block_height el (el_clock el + 1), el_block_height el (el_clock el + 2)) of
        (Inr h, _, _) \<Rightarrow> res = Inr h \<and> el' = el\<lparr>el_clock := el_clock el + 1\<rparr>
      | (Inl _, Inr h, _) \<Rightarrow> res = Inr h \<and> el' = el\<lparr>el_clock := el_clock el + 2\<rparr>
      | (Inl _, Inl _, Inr h) \<Rightarrow> res = Inr h \<and> el' = el\<lparr>el_clock := el_clock el + 3\<rparr>
      | (Inl _, Inl _, Inl _) \<Rightarrow> isl res \<and> el' = el\<lparr>el_clock := el_clock el + 3\<rparr>)"
  by (simp add: current_height_def retry_with_delay_def RETRY_ATTEMPTS_def get_block_height_def eval_nat_numeral
      split: sum.splits prod.splits)

text \<open>A replacement pays for the descendants of the replaced transaction twice: bitcoind's
  descendant fee, which the runner takes as the old fee, already contains them, and the builder adds
  them again, so that the target is the fees of the whole package plus those of the descendants once
  more, plus the relay fee.\<close>

theorem replacement_counts_descendants_twice:
  assumes "get_mempool_entry cv (txt tx) = Inr entry" "fetch_rbf_context txt cv tx = Some ctx"
    and "ta_rbf_context a = Some ctx" "tx_target cr a p t = Inr target" "unat target \<noteq> 2 ^ 64 - 1"
    and "package = ceil_u64 (mf_descendant (me_fees entry) * 10 ^ 8)" "own = ceil_u64 (mf_base (me_fees entry) * 10 ^ 8)"
    and "own \<le> package"
  shows "u64_rat package + (u64_rat package - u64_rat own) + u64_rat (estimate_vsize cr t + 1) \<le> u64_rat target"
proof -
  have total: "rc_previous_total_fee ctx = package" and desc: "rc_descendant_fee ctx = saturating_sub package own"
    using assms(1,2,6,7)
    by (auto simp: fetch_rbf_context_def get_rbf_tx_fee_info_def Let_def try_simps split: sum.splits if_splits prod.splits)
  have "u64_rat (saturating_sub package own) = u64_rat package - u64_rat own"
    using assms(8) by (simp add: u64_rat_def unat_saturating_sub of_nat_diff word_le_nat_alt)
  with tx_target_rbf(2)[OF assms(3-5)] show ?thesis by (simp add: total desc)
qed

text \<open>A transaction that pays 1000 satoshis, with a child that pays 2000.\<close>

definition demo_package :: mempool_entry where
  "demo_package = \<lparr>me_vsize = 100, me_weight = 400,
     me_fees = \<lparr>mf_base = 1 / 100000, mf_modified = 1 / 100000, mf_ancestor = 1 / 100000, mf_descendant = 3 / 100000\<rparr>,
     me_depends = [], me_spentby = []\<rparr>"

definition demo_mempool :: chain_view where
  "demo_mempool = demo_accepts\<lparr>cv_post := \<lambda>_ _. Inr \<lparr>rsp_result = Some JNull, rsp_error = None\<rparr>,
     cv_decode_entry := \<lambda>_. Inr demo_package, cv_decode_descendants := \<lambda>_. Inr []\<rparr>"

lemma replacement_counts_descendants_twice_witness:
  "\<exists>ctx target. fetch_rbf_context (\<lambda>_. ''t'') demo_mempool 12 = Some ctx
    \<and> tx_target demo_crates (builder_adaptor demo_builder (Some ctx)) demo_params demo_tx = Inr target
    \<and> u64_rat 3000 + (u64_rat 3000 - u64_rat 1000) + u64_rat 101 \<le> u64_rat target"
proof -
  let ?ctx = "\<lparr>rc_previous_fee_rate = 30, rc_previous_total_fee = 3000, rc_descendant_fee = 2000\<rparr>"
  have e: "get_mempool_entry demo_mempool ((\<lambda>_. ''t'') 12) = Inr demo_package"
    by (simp add: get_mempool_entry_def rpc_call_def call_optional_def from_value_def demo_mempool_def)
  have c: "ceil_u64 (mf_descendant (me_fees demo_package) * 10 ^ 8) = 3000" "ceil_u64 (mf_base (me_fees demo_package) * 10 ^ 8) = 1000"
    by (simp_all add: demo_package_def ceil_u64_def)
  have "get_mempool_descendants demo_mempool ''t'' = Inr []"
    by (simp add: get_mempool_descendants_def rpc_call_def call_optional_def from_value_def demo_mempool_def)
  then have f: "fetch_rbf_context (\<lambda>_. ''t'') demo_mempool 12 = Some ?ctx"
    using e by (simp add: fetch_rbf_context_def get_rbf_tx_fee_info_def c Let_def saturating_sub_def)
      (simp add: demo_package_def u64_rat_def ceil_u64_def)
  have r: "ta_rbf_context (builder_adaptor demo_builder (Some ?ctx)) = Some ?ctx"
    by (simp add: builder_adaptor_def with_rbf_context_def)
  have v: "estimate_vsize demo_crates demo_tx + 1 = 101" by (simp add: estimate_vsize_def demo_crates_def)
  have ceil: "\<lceil>3030101 / 1000 :: rat\<rceil> = 3031" by (rule ceiling_unique) simp_all
  have t: "tx_target demo_crates (builder_adaptor demo_builder (Some ?ctx)) demo_params demo_tx = Inr 5101"
    using ceil by (simp add: tx_target_def r v ceil_u64_def u64_rat_def demo_params_def)
  have n: "unat (5101 :: u64) \<noteq> 2 ^ 64 - 1" "(1000 :: u64) \<le> 3000" by simp_all
  have "u64_rat 3000 + (u64_rat 3000 - u64_rat 1000) + u64_rat 101 \<le> u64_rat 5101"
    using replacement_counts_descendants_twice [of demo_mempool "\<lambda>_. ''t''" 12, OF e f r t n(1) c(1) [symmetric] c(2) [symmetric] n(2)]
    unfolding v .
  with f t show ?thesis by blast
qed

end
