(* ===== verification/Orders.thy ===== *)
theory Orders
  imports WalletPorts
begin

text \<open>
  Orders and swaps as the executors read them (Tars-rs/crates/orderbook/src/primitives.rs and
  Tars-rs/crates/primitives/src/primitives.rs). A decimal of the \<open>bigdecimal\<close> crate is its digits
  and its scale; it compares by value. \<open>MaybeString\<close> is a string whose empty text means absence.
  Times are nanoseconds since the epoch. The columns that no
  operation of this library reads (update times, token addresses and the like) are left out of the records.
\<close>

section \<open>Decimals and text\<close>

type_synonym i32 = "32 word"

datatype big_decimal = BigDecimal (bd_digits: int) (bd_scale: int)

definition bd_value :: "big_decimal \<Rightarrow> rat" where
  "bd_value d = of_int (bd_digits d) * 10 powi (- bd_scale d)"

text \<open>\<open>str::split\<close> on one character: always at least one piece.\<close>

fun split_on :: "char \<Rightarrow> string \<Rightarrow> string list" where
  "split_on c [] = [[]]"
| "split_on c (x # xs) =
    (if x = c then [] # split_on c xs
     else (case split_on c xs of [] \<Rightarrow> [[x]] | p # ps \<Rightarrow> (x # p) # ps))"

text \<open>\<open>str::parse::<u64>\<close>: an optional plus, digits only, at least one, and no overflow.\<close>

definition is_digit :: "char \<Rightarrow> bool" where
  "is_digit c = (48 \<le> (of_char c :: nat) \<and> of_char c \<le> (57 :: nat))"

definition digits_value :: "string \<Rightarrow> nat" where
  "digits_value cs = foldl (\<lambda>n c. 10 * n + (of_char c - 48)) 0 cs"

definition parse_u64 :: "string \<Rightarrow> u64 option" where
  "parse_u64 s =
    (let ds = (case s of [] \<Rightarrow> [] | c # cs \<Rightarrow> if c = CHR ''+'' then cs else s) in
     if ds \<noteq> [] \<and> list_all is_digit ds \<and> digits_value ds < 2 ^ 64 then Some (of_nat (digits_value ds)) else None)"

text \<open>Its error message: the first bad digit or overflow from the left.\<close>

fun digits_error :: "nat \<Rightarrow> string \<Rightarrow> string" where
  "digits_error n [] = []"
| "digits_error n (c # cs) =
    (if \<not> is_digit c then ''invalid digit found in string''
     else
       let n = 10 * n + (of_char c - 48) in
       if n \<ge> 2 ^ 64 then ''number too large to fit in target type'' else digits_error n cs)"

definition parse_u64_error :: "string \<Rightarrow> string" where
  "parse_u64_error s =
    (case s of
       [] \<Rightarrow> ''cannot parse integer from empty string''
     | c # cs \<Rightarrow>
         if c = CHR ''+'' then (if cs = [] then ''invalid digit found in string'' else digits_error 0 cs)
         else digits_error 0 s)"

definition strip_0x :: "string \<Rightarrow> string" where
  "strip_0x s = (if take 2 s = ''0x'' then drop 2 s else s)"

text \<open>\<open>MaybeString\<close>.\<close>

type_synonym maybe_string = string

definition ms_is_some :: "maybe_string \<Rightarrow> bool" where
  "ms_is_some s = (s \<noteq> [])"

definition ms_is_none :: "maybe_string \<Rightarrow> bool" where
  "ms_is_none s = (s = [])"

section \<open>Actions\<close>

datatype htlc_action =
    AInitiate
  | AInitiateWithSignature
  | AInitiateWithUserSignature bytes
  | ARedeem bytes
  | ARefund
  | AInstantRefund
  | ANoOp

fun show_action :: "htlc_action \<Rightarrow> string" where
  "show_action AInitiate = ''Initiate''"
| "show_action AInitiateWithSignature = ''InitiateWithSignature''"
| "show_action (AInitiateWithUserSignature _) = ''InitiateWithUserSignature''"
| "show_action (ARedeem _) = ''Redeem''"
| "show_action ARefund = ''Refund''"
| "show_action AInstantRefund = ''InstantRefund''"
| "show_action ANoOp = ''NoOp''"

datatype action_type = TInitiate | TInitiateWithSignature | TRedeem | TRefund | TInstantRefund

datatype swap_chain = SourceSide | DestinationSide

fun show_action_type :: "action_type \<Rightarrow> string" where
  "show_action_type TInitiate = ''initiate''"
| "show_action_type TInitiateWithSignature = ''initiate-with-signature''"
| "show_action_type TRedeem = ''redeem''"
| "show_action_type TRefund = ''refund''"
| "show_action_type TInstantRefund = ''instant-refund''"

fun on_chain :: "action_type \<Rightarrow> swap_chain" where
  "on_chain TInitiate = SourceSide"
| "on_chain TInitiateWithSignature = SourceSide"
| "on_chain TInstantRefund = SourceSide"
| "on_chain TRefund = SourceSide"
| "on_chain TRedeem = DestinationSide"

section \<open>Swaps\<close>

record single_swap =
  sw_created_at :: timestamp
  sw_swap_id :: string
  sw_chain :: string
  sw_asset :: string
  sw_initiator :: string
  sw_redeemer :: string
  sw_timelock :: i32
  sw_filled_amount :: big_decimal
  sw_amount :: big_decimal
  sw_secret_hash :: string
  sw_secret :: maybe_string
  sw_initiate_tx_hash :: maybe_string
  sw_redeem_tx_hash :: maybe_string
  sw_refund_tx_hash :: maybe_string
  sw_initiate_block_number :: "big_decimal option"
  sw_redeem_block_number :: "big_decimal option"
  sw_refund_block_number :: "big_decimal option"
  sw_required_confirmations :: i32
  sw_current_confirmations :: i32
  sw_initiate_timestamp :: "timestamp option"
  sw_redeem_timestamp :: "timestamp option"
  sw_refund_timestamp :: "timestamp option"

definition has_multiple_inits :: "single_swap \<Rightarrow> bool" where
  "has_multiple_inits sw = (length (split_on CHR '','' (sw_initiate_tx_hash sw)) > 1)"

definition has_block_number :: "string \<Rightarrow> bool" where
  "has_block_number hash =
    (let parts = split_on CHR '':'' hash in
     length parts = 2 \<and> (case parse_u64 (parts ! 1) of Some num \<Rightarrow> num > 0 | None \<Rightarrow> False))"

definition get_init_tx_hash :: "single_swap \<Rightarrow> (message, string) result" where
  "get_init_tx_hash sw =
    (let compound = sw_initiate_tx_hash sw;
         pieces = split_on CHR '','' compound;
         bad = Format ''Invalid transaction hash format: {}'' [ArgStr compound] in
     try_bind (ok_or (case find has_block_number pieces of
                 Some h \<Rightarrow> Some h
               | None \<Rightarrow> if pieces = [] then None else Some (last pieces)) bad) (\<lambda>selected.
     case split_on CHR '':'' selected of
       [] \<Rightarrow> Inl bad
     | h # _ \<Rightarrow> Inr h))"

text \<open>\<open>to_lowercase\<close> on the ASCII chain names.\<close>

definition to_lower :: "char \<Rightarrow> char" where
  "to_lower c = (if 65 \<le> (of_char c :: nat) \<and> of_char c \<le> (90 :: nat) then char_of ((of_char c :: nat) + 32) else c)"

definition is_bitcoin :: "single_swap \<Rightarrow> bool" where
  "is_bitcoin sw = (map to_lower (sw_chain sw) \<in> {''bitcoin'', ''bitcoin_regtest'', ''bitcoin_testnet''})"

section \<open>Orders\<close>

record additional_data =
  ad_strategy_id :: string
  ad_bitcoin_optional_recipient :: "string option"
  ad_input_token_price :: rat
  ad_output_token_price :: rat
  ad_deadline :: int
  ad_instant_refund_tx_bytes :: "string option"
  ad_is_blacklisted :: bool

record create_order =
  co_create_id :: string
  co_source_chain :: string
  co_destination_chain :: string
  co_additional_data :: additional_data

record matched_order =
  mo_created_at :: timestamp
  mo_source_swap :: single_swap
  mo_destination_swap :: single_swap
  mo_create_order :: create_order

record action_with_info =
  ai_action :: htlc_action
  ai_swap :: "single_swap option"

definition get_order_pair :: "matched_order \<Rightarrow> string" where
  "get_order_pair ord =
    sw_chain (mo_source_swap ord) @ '':'' @ sw_asset (mo_source_swap ord) @ ''::''
    @ sw_chain (mo_destination_swap ord) @ '':'' @ sw_asset (mo_destination_swap ord)"

definition get_bitcoin_recipient_address :: "matched_order \<Rightarrow> (message, string) result" where
  "get_bitcoin_recipient_address ord =
    ok_or (ad_bitcoin_optional_recipient (co_additional_data (mo_create_order ord)))
      (Format ''bitcoin_optional_recipient is not set'' [])"

section \<open>Laws\<close>

lemma split_on_not_Nil [simp]: "split_on c s \<noteq> []"
  by (cases "(c, s)" rule: split_on.cases) (auto split: list.splits)

lemma split_on_whole: "c \<notin> set s \<Longrightarrow> split_on c s = [s]"
  by (induction s) auto

text \<open>A piece of a split does not contain the separator, and the pieces join to the text.\<close>

lemma split_on_pieces: "p \<in> set (split_on c s) \<Longrightarrow> c \<notin> set p"
  by (induction s arbitrary: p) (auto split: if_splits list.splits)

lemma get_init_tx_hash_total: "\<exists>h. get_init_tx_hash sw = Inr h"
  by (auto simp: get_init_tx_hash_def Let_def try_bind_def split: list.splits option.splits)

end
