(* ===== verification/OrderMapper.thy ===== *)
theory OrderMapper
  imports Orders
begin

text \<open>
  The order mapper (Tars-rs/crates/orderbook/src/order_mapper.rs): which HTLC action an executor
  takes for an order. What it asks while it decides is an \<open>order_view\<close>: the clock, the price
  service, and the functions of chrono and alloy it calls. One call of \<open>map\<close> looks at the
  destination chain and then at the source chain, each with a view of its own.
\<close>

record order_view =
  ov_now :: timestamp
  ov_price :: "string \<Rightarrow> (message, rat \<times> rat) result"
  ov_from_timestamp :: "int \<Rightarrow> timestamp option"
  ov_bytes_from_hex :: "string \<Rightarrow> (string, bytes) result"

definition DEFAULT_PRICE_DROP_THRESHOLD :: rat where
  "DEFAULT_PRICE_DROP_THRESHOLD = 1 / 100"

definition DEFAULT_MIN_REFUNDABLE_DURATION :: int where
  "DEFAULT_MIN_REFUNDABLE_DURATION = 90"

section \<open>Construction\<close>

record order_mapper =
  om_price_drop_threshold :: rat
  om_supported_chains :: "string list"
  om_additional_checks :: "(action_type \<times> (matched_order \<Rightarrow> bool)) list"

record order_mapper_builder =
  ob_price_drop_threshold :: "rat option"
  ob_supported_chains :: "string list"
  ob_additional_checks :: "(action_type \<times> (matched_order \<Rightarrow> bool)) list"

definition mapper_builder_new :: order_mapper_builder where
  "mapper_builder_new = \<lparr>ob_price_drop_threshold = None, ob_supported_chains = [], ob_additional_checks = []\<rparr>"

definition with_price_drop_threshold :: "rat \<Rightarrow> order_mapper_builder \<Rightarrow> order_mapper_builder" where
  "with_price_drop_threshold t b = b\<lparr>ob_price_drop_threshold := Some t\<rparr>"

definition add_supported_chain :: "string \<Rightarrow> order_mapper_builder \<Rightarrow> order_mapper_builder" where
  "add_supported_chain c b = b\<lparr>ob_supported_chains := ob_supported_chains b @ [c]\<rparr>"

definition with_supported_chains :: "string list \<Rightarrow> order_mapper_builder \<Rightarrow> order_mapper_builder" where
  "with_supported_chains cs b = b\<lparr>ob_supported_chains := cs\<rparr>"

definition add_check :: "action_type \<Rightarrow> (matched_order \<Rightarrow> bool) \<Rightarrow> order_mapper_builder \<Rightarrow> order_mapper_builder" where
  "add_check t f b = b\<lparr>ob_additional_checks := AList.update t f (ob_additional_checks b)\<rparr>"

definition with_additional_checks ::
    "(action_type \<times> (matched_order \<Rightarrow> bool)) list \<Rightarrow> order_mapper_builder \<Rightarrow> order_mapper_builder" where
  "with_additional_checks fs b = b\<lparr>ob_additional_checks := fs\<rparr>"

definition mapper_new ::
    "rat option \<Rightarrow> string list \<Rightarrow> (action_type \<times> (matched_order \<Rightarrow> bool)) list \<Rightarrow> order_mapper" where
  "mapper_new threshold supported checks =
    \<lparr>om_price_drop_threshold = (case threshold of None \<Rightarrow> DEFAULT_PRICE_DROP_THRESHOLD | Some t \<Rightarrow> t),
     om_supported_chains = supported, om_additional_checks = checks\<rparr>"

definition mapper_build :: "order_mapper_builder \<Rightarrow> order_mapper" where
  "mapper_build b = mapper_new (ob_price_drop_threshold b) (ob_supported_chains b) (ob_additional_checks b)"

section \<open>Conditions on swaps\<close>

definition is_chain_supported :: "order_mapper \<Rightarrow> string \<Rightarrow> bool" where
  "is_chain_supported m c = (c \<in> set (om_supported_chains m))"

definition has_redeem :: "single_swap \<Rightarrow> bool" where
  "has_redeem sw = (ms_is_some (sw_redeem_tx_hash sw) \<and> ms_is_some (sw_secret sw))"

definition has_refund :: "single_swap \<Rightarrow> bool" where
  "has_refund sw = ms_is_some (sw_refund_tx_hash sw)"

definition is_swap_completed :: "single_swap \<Rightarrow> bool" where
  "is_swap_completed sw = (has_refund sw \<or> has_redeem sw)"

definition is_valid_block_number :: "big_decimal option \<Rightarrow> bool" where
  "is_valid_block_number b = (case b of None \<Rightarrow> False | Some n \<Rightarrow> bd_value n > 0)"

definition has_valid_initiate :: "single_swap \<Rightarrow> bool" where
  "has_valid_initiate sw =
    (ms_is_some (sw_initiate_tx_hash sw)
     \<and> (case sw_initiate_block_number sw of None \<Rightarrow> False | Some n \<Rightarrow> bd_value n > 0))"

definition has_destination_refund_only :: "matched_order \<Rightarrow> bool" where
  "has_destination_refund_only ord =
    (ms_is_some (sw_refund_tx_hash (mo_destination_swap ord))
     \<and> is_valid_block_number (sw_refund_block_number (mo_destination_swap ord))
     \<and> ms_is_none (sw_refund_tx_hash (mo_source_swap ord)))"

definition passes_additional_check :: "order_mapper \<Rightarrow> action_type \<Rightarrow> matched_order \<Rightarrow> bool" where
  "passes_additional_check m t ord =
    (case map_of (om_additional_checks m) t of None \<Rightarrow> True | Some check \<Rightarrow> check ord)"

definition is_deadline_expired :: "order_view \<Rightarrow> matched_order \<Rightarrow> bool" where
  "is_deadline_expired v ord =
    (let deadline = (case ov_from_timestamp v (ad_deadline (co_additional_data (mo_create_order ord))) of
           Some t \<Rightarrow> t
         | None \<Rightarrow> mo_created_at ord + 60 * 60 * 1000000000) in
     ov_now v > deadline)"

section \<open>Prices\<close>

definition validate_price_threshold :: "rat \<Rightarrow> rat \<Rightarrow> rat \<Rightarrow> rat \<Rightarrow> rat \<Rightarrow> bool" where
  "validate_price_threshold original_input original_output current_input current_output threshold =
    (if original_input \<le> 0 \<or> original_output \<le> 0 then False
     else
       let input_price_decrease = (original_input - current_input) / original_input;
           output_price_increase = (current_output - original_output) / original_output;
           combined_system_loss = input_price_decrease + output_price_increase;
           user_value_protection = (current_output \<ge> original_output * (1 - threshold));
           system_value_protection = (combined_system_loss \<le> threshold) in
       user_value_protection \<and> system_value_protection)"

definition check_price_threshold :: "order_mapper \<Rightarrow> order_view \<Rightarrow> matched_order \<Rightarrow> (message, bool) result" where
  "check_price_threshold m v ord =
    try_bind (ov_price v (get_order_pair ord)) (\<lambda>(input_price, output_price).
      let ad = co_additional_data (mo_create_order ord) in
      Inr (validate_price_threshold (ad_input_token_price ad) (ad_output_token_price ad) input_price output_price
        (om_price_drop_threshold m)))"

section \<open>What may be done\<close>

definition can_instant_refund :: "order_mapper \<Rightarrow> order_view \<Rightarrow> matched_order \<Rightarrow> (message, bool) result" where
  "can_instant_refund m v ord =
    (let src = mo_source_swap ord; dst = mo_destination_swap ord in
     if \<not> passes_additional_check m TInstantRefund ord then Inr False
     else if \<not> has_valid_initiate src \<or> has_refund src then Inr False
     else if ms_is_some (sw_initiate_tx_hash dst) \<and> \<not> is_swap_completed dst then Inr False
     else if bd_value (sw_amount src) \<noteq> bd_value (sw_filled_amount src) then Inr True
     else if has_redeem dst then Inr False
     else if has_destination_refund_only ord then Inr True
     else if is_deadline_expired v ord then Inr True
     else try_bind (check_price_threshold m v ord) (\<lambda>fine. Inr (\<not> fine)))"

definition can_initiate :: "order_mapper \<Rightarrow> order_view \<Rightarrow> matched_order \<Rightarrow> (message, bool) result" where
  "can_initiate m v ord =
    (let src = mo_source_swap ord in
     if ad_is_blacklisted (co_additional_data (mo_create_order ord)) then Inr False
     else if contains ''bitcoin'' (sw_chain src) \<and> \<not> ms_is_some (sw_initiate_tx_hash src) then Inr False
     else if \<not> contains ''bitcoin'' (sw_chain src) \<and> \<not> has_valid_initiate src then Inr False
     else if \<not> contains ''bitcoin'' (sw_chain src)
       \<and> sint (sw_current_confirmations src) < sint (sw_required_confirmations src) then Inr False
     else if ms_is_some (sw_initiate_tx_hash (mo_destination_swap ord)) then Inr False
     else if bd_value (sw_filled_amount src) \<noteq> bd_value (sw_amount src) then Inr False
     else if \<not> passes_additional_check m TInitiate ord then Inr False
     else try_bind (can_instant_refund m v ord) (\<lambda>refund. Inr (\<not> refund)))"

text \<open>\<open>BigDecimal::from_i32\<close> of the timelock always succeeds.\<close>

definition can_refund :: "order_mapper \<Rightarrow> matched_order \<Rightarrow> big_decimal \<Rightarrow> bool" where
  "can_refund m ord latest =
    (let dst = mo_destination_swap ord in
     if is_swap_completed dst then False
     else if \<not> is_valid_block_number (sw_initiate_block_number dst) then False
     else if \<not> passes_additional_check m TRefund ord then False
     else (case sw_initiate_block_number dst of
             None \<Rightarrow> False
           | Some n \<Rightarrow> bd_value latest \<ge> bd_value n + of_int (sint (sw_timelock dst))))"

definition can_redeem :: "order_mapper \<Rightarrow> matched_order \<Rightarrow> bool" where
  "can_redeem m ord =
    (let src = mo_source_swap ord in
     if is_swap_completed src then False
     else if \<not> has_valid_initiate src then False
     else if \<not> passes_additional_check m TRedeem ord then False
     else ms_is_some (sw_secret (mo_destination_swap ord)))"

section \<open>The mapping\<close>

text \<open>\<open>hex_to_bytes\<close> of the utils crate.\<close>

definition hex_to_bytes :: "order_view \<Rightarrow> string \<Rightarrow> (message, bytes) result" where
  "hex_to_bytes v s =
    (case ov_bytes_from_hex v (strip_0x s) of
       Inl e \<Rightarrow> Inl (Format ''Failed to convert hex to bytes: {}'' [ArgStr e])
     | Inr bs \<Rightarrow> Inr bs)"

definition check_destination_chain_actions ::
    "order_mapper \<Rightarrow> order_view \<Rightarrow> matched_order \<Rightarrow> big_decimal option \<Rightarrow> (message, action_with_info option) result" where
  "check_destination_chain_actions m v ord latest =
    (let swap = mo_destination_swap ord in
     if \<not> is_chain_supported m (sw_chain swap) then Inr None
     else if (case latest of None \<Rightarrow> False | Some n \<Rightarrow> can_refund m ord n)
     then Inr (Some \<lparr>ai_action = ARefund, ai_swap = Some swap\<rparr>)
     else try_bind (can_initiate m v ord) (\<lambda>ok.
       Inr (if ok then Some \<lparr>ai_action = AInitiate, ai_swap = Some swap\<rparr> else None)))"

definition check_source_chain_actions ::
    "order_mapper \<Rightarrow> order_view \<Rightarrow> matched_order \<Rightarrow> (message, action_with_info option) result" where
  "check_source_chain_actions m v ord =
    (let swap = mo_source_swap ord in
     if \<not> is_chain_supported m (sw_chain swap) then Inr None
     else if can_redeem m ord
     then try_bind (hex_to_bytes v (sw_secret (mo_destination_swap ord))) (\<lambda>secret.
       Inr (Some \<lparr>ai_action = ARedeem secret, ai_swap = Some swap\<rparr>))
     else try_bind (can_instant_refund m v ord) (\<lambda>ok.
       Inr (if ok then Some \<lparr>ai_action = AInstantRefund, ai_swap = Some swap\<rparr> else None)))"

definition map_order ::
    "order_mapper \<Rightarrow> order_view \<Rightarrow> order_view \<Rightarrow> matched_order \<Rightarrow> big_decimal option \<Rightarrow> (message, action_with_info) result" where
  "map_order m v w ord latest =
    try_bind (check_destination_chain_actions m v ord latest) (\<lambda>a.
    case a of
      Some act \<Rightarrow> Inr act
    | None \<Rightarrow>
        try_bind (check_source_chain_actions m w ord) (\<lambda>a.
        case a of
          Some act \<Rightarrow> Inr act
        | None \<Rightarrow> Inr \<lparr>ai_action = ANoOp, ai_swap = None\<rparr>))"

definition has_refundable_swaps :: "order_mapper \<Rightarrow> timestamp \<Rightarrow> matched_order list \<Rightarrow> bool" where
  "has_refundable_swaps m now ords =
    list_ex (\<lambda>ord.
      let dst = mo_destination_swap ord in
      is_chain_supported m (sw_chain dst) \<and> has_valid_initiate dst \<and> \<not> is_swap_completed dst
      \<and> passes_additional_check m TRefund ord
      \<and> sw_created_at dst + DEFAULT_MIN_REFUNDABLE_DURATION * 60 * 1000000000 \<le> now) ords"

end
