(* ===== verification/OrderFeed.thy ===== *)
theory OrderFeed
  imports Orders
begin

text \<open>
  How executors get their orders: the queries of pending orders
  (Tars-rs/crates/orderbook/src/orderbook.rs) and the cache of the solver-orders service
  (solver-orders/src/cache.rs and server/handlers.rs). The joined rows of a query are a list of
  orders; an absent block number (SQL NULL) is not positive. Text is ASCII, so \<open>to_lowercase\<close> is
  the ASCII one. Hash maps are association lists.
\<close>

section \<open>The queries\<close>

definition block_positive :: "big_decimal option \<Rightarrow> bool" where
  "block_positive b = (case b of None \<Rightarrow> False | Some n \<Rightarrow> bd_value n > 0)"

text \<open>The WHERE clause of \<open>get_solver_pending_orders\<close>.\<close>

definition solver_pending :: "matched_order \<Rightarrow> bool" where
  "solver_pending ord =
    (let ss = mo_source_swap ord; ds = mo_destination_swap ord in
     (sw_initiate_tx_hash ss \<noteq> [] \<and> sw_refund_tx_hash ss = [] \<and> sw_initiate_tx_hash ds = [])
     \<or> (sw_secret ds \<noteq> [] \<and> sw_redeem_tx_hash ss = [] \<and> sw_refund_tx_hash ss = [])
     \<or> (sw_initiate_tx_hash ds \<noteq> [] \<and> sw_refund_tx_hash ds = [] \<and> sw_redeem_tx_hash ds = [])
     \<or> (sw_refund_tx_hash ss = [] \<and> sw_redeem_tx_hash ss = [] \<and> block_positive (sw_refund_block_number ds)))"

definition get_solver_pending_orders :: "matched_order list \<Rightarrow> matched_order list" where
  "get_solver_pending_orders rows = take 5000 (sort_key mo_created_at (filter solver_pending rows))"

definition filler_pending :: "string \<Rightarrow> string \<Rightarrow> matched_order \<Rightarrow> bool" where
  "filler_pending chain filler ord =
    (let ss = mo_source_swap ord; ds = mo_destination_swap ord in
     (sw_chain ds = chain \<or> sw_chain ss = chain)
     \<and> (map to_lower (sw_redeemer ss) = map to_lower filler \<or> map to_lower (sw_initiator ds) = map to_lower filler)
     \<and> ((sw_initiate_tx_hash ss \<noteq> [] \<and> sw_refund_tx_hash ss = [] \<and> sw_initiate_tx_hash ds = [])
        \<or> (sw_secret ds \<noteq> [] \<and> sw_redeem_tx_hash ss = [])
        \<or> (sw_initiate_tx_hash ds \<noteq> [] \<and> sw_refund_tx_hash ds = [] \<and> sw_redeem_tx_hash ds = [])
        \<or> (sw_refund_tx_hash ss = [] \<and> sw_redeem_tx_hash ss = [] \<and> block_positive (sw_refund_block_number ds))))"

definition get_filler_pending_orders :: "string \<Rightarrow> string \<Rightarrow> matched_order list \<Rightarrow> matched_order list" where
  "get_filler_pending_orders chain filler rows =
    take 1000 (sort_key mo_created_at (filter (filler_pending chain filler) rows))"

section \<open>The cache\<close>

type_synonym solver_orders = "(string \<times> matched_order list) list"
type_synonym orders_cache = "(string \<times> solver_orders) list"

definition MAX_SOLVER_ORDERS_PER_CHAIN :: nat where
  "MAX_SOLVER_ORDERS_PER_CHAIN = 1000"

definition normalize_solver_id :: "string \<Rightarrow> string \<Rightarrow> string" where
  "normalize_solver_id addr chain =
    (if contains ''bitcoin'' chain \<or> contains ''solana'' chain then addr else map to_lower addr)"

text \<open>\<open>map.entry(chain).or_default().entry(solver).or_default().push(order)\<close>.\<close>

definition entry_or :: "'v \<Rightarrow> (string \<times> 'v) list \<Rightarrow> string \<Rightarrow> 'v" where
  "entry_or d m k = (case map_of m k of None \<Rightarrow> d | Some v \<Rightarrow> v)"

definition push_order :: "string \<Rightarrow> string \<Rightarrow> matched_order \<Rightarrow> orders_cache \<Rightarrow> orders_cache" where
  "push_order chain solver ord m =
    (let solvers = entry_or [] m chain in
     AList.update chain (AList.update solver (entry_or [] solvers solver @ [ord]) solvers) m)"

definition file_order :: "orders_cache \<Rightarrow> matched_order \<Rightarrow> orders_cache" where
  "file_order m ord =
    (let source_chain = co_source_chain (mo_create_order ord);
         dest_chain = co_destination_chain (mo_create_order ord);
         ss = mo_source_swap ord; ds = mo_destination_swap ord;
         source_solver_id = normalize_solver_id (sw_redeemer ss) (sw_chain ss);
         dest_solver_id = normalize_solver_id (sw_initiator ds) (sw_chain ds);
         m = push_order source_chain source_solver_id ord m in
     if source_chain \<noteq> dest_chain then push_order dest_chain dest_solver_id ord m else m)"

definition limit_orders :: "solver_orders \<Rightarrow> solver_orders" where
  "limit_orders solvers = map (\<lambda>(k, ords). (k, take MAX_SOLVER_ORDERS_PER_CHAIN ords)) solvers"

definition process_orders :: "orders_cache \<Rightarrow> matched_order list \<Rightarrow> orders_cache" where
  "process_orders cache ords =
    (let new = foldl file_order [] ords;
         existing_keys = map fst cache;
         inserted = foldl (\<lambda>c (chain, solvers). AList.update chain (limit_orders solvers) c) cache new;
         stale = filter (\<lambda>k. k \<notin> set (map fst new)) existing_keys in
     foldl (\<lambda>c k. AList.delete k c) inserted stale)"

section \<open>The handlers\<close>

definition get_pending_orders_by_chain :: "orders_cache \<Rightarrow> string \<Rightarrow> string option \<Rightarrow> matched_order list" where
  "get_pending_orders_by_chain cache chain solver =
    (case map_of cache chain of
       None \<Rightarrow> []
     | Some m \<Rightarrow>
         (case solver of
            Some s \<Rightarrow> entry_or [] m (normalize_solver_id s chain)
          | None \<Rightarrow> concat (map snd m)))"

text \<open>Keep the first order of each id.\<close>

definition keep_new :: "matched_order list \<times> string list \<Rightarrow> matched_order \<Rightarrow> matched_order list \<times> string list" where
  "keep_new acc ord =
    (let (out, seen) = acc; oid = co_create_id (mo_create_order ord) in
     if oid \<in> set seen then acc else (out @ [ord], seen @ [oid]))"

definition orders_of_entry :: "string option \<Rightarrow> string \<times> solver_orders \<Rightarrow> matched_order list" where
  "orders_of_entry solver e =
    (case solver of
       Some s \<Rightarrow> entry_or [] (snd e) (normalize_solver_id s (fst e))
     | None \<Rightarrow> concat (map snd (snd e)))"

definition get_all_pending_orders :: "orders_cache \<Rightarrow> string option \<Rightarrow> matched_order list" where
  "get_all_pending_orders cache solver = fst (foldl keep_new ([], []) (concat (map (orders_of_entry solver) cache)))"

datatype health = Online | Stale | Starting

definition get_health :: "int \<Rightarrow> u64 \<Rightarrow> int \<Rightarrow> health" where
  "get_health last_sync polling_interval_ms now =
    (if last_sync = 0 then Starting
     else
       let staleness = max (now - last_sync) 0;
           threshold = min (unat polling_interval_ms * 3) (2 ^ 64 - 1) in
       if staleness > int threshold then Stale else Online)"

section \<open>What is served\<close>

definition concerns :: "string \<Rightarrow> string \<Rightarrow> matched_order \<Rightarrow> bool" where
  "concerns chain solver ord =
    (let ss = mo_source_swap ord; ds = mo_destination_swap ord;
         source_chain = co_source_chain (mo_create_order ord);
         dest_chain = co_destination_chain (mo_create_order ord) in
     source_chain = chain \<and> normalize_solver_id (sw_redeemer ss) (sw_chain ss) = solver
     \<or> dest_chain \<noteq> source_chain \<and> dest_chain = chain \<and> normalize_solver_id (sw_initiator ds) (sw_chain ds) = solver)"

definition filed :: "orders_cache \<Rightarrow> string \<Rightarrow> string \<Rightarrow> matched_order list" where
  "filed m chain solver = entry_or [] (entry_or [] m chain) solver"

lemma filed_push_order:
  "filed (push_order c i ord m) chain solver = filed m chain solver @ (if c = chain \<and> i = solver then [ord] else [])"
  by (auto simp: filed_def push_order_def entry_or_def Let_def map_of_update split: option.splits)

lemma filed_file_order:
  "filed (file_order m ord) chain solver = filed m chain solver @ (if concerns chain solver ord then [ord] else [])"
  by (auto simp: file_order_def filed_push_order concerns_def Let_def)

lemma filed_fold: "filed (foldl file_order m ords) chain solver = filed m chain solver @ filter (concerns chain solver) ords"
  by (induction ords arbitrary: m) (auto simp: filed_file_order)

lemma hm_wf_file_order: "hm_wf m \<Longrightarrow> hm_wf (file_order m ord)"
  by (simp add: file_order_def push_order_def Let_def)

lemma hm_wf_filed: "hm_wf m \<Longrightarrow> hm_wf (foldl file_order m ords)"
  by (induction ords arbitrary: m) (simp_all add: hm_wf_file_order)

lemma entry_limit_orders: "entry_or [] (limit_orders s) k = take MAX_SOLVER_ORDERS_PER_CHAIN (entry_or [] s k)"
  by (induction s) (auto simp: limit_orders_def entry_or_def)

lemma map_of_inserts:
  "hm_wf new \<Longrightarrow>
    map_of (foldl (\<lambda>c (k, v). AList.update k (f v) c) m new) k =
    (case map_of new k of None \<Rightarrow> map_of m k | Some v \<Rightarrow> Some (f v))"
proof (induction new arbitrary: m)
  case (Cons e new)
  obtain k0 v0 where e: "e = (k0, v0)" by (cases e)
  from Cons.prems have "hm_wf new" "k0 \<notin> set (map fst new)" by (auto simp: hm_wf_def e)
  moreover from this(2) have "map_of new k0 = None" by (simp add: map_of_eq_None_iff)
  ultimately show ?case
    using Cons.IH by (cases "k = k0") (auto simp: e map_of_update split: option.splits)
qed simp

lemma map_of_deletes:
  "map_of (foldl (\<lambda>c k. AList.delete k c) m ks) k = (if k \<in> set ks then None else map_of m k)"
  by (induction ks arbitrary: m) (auto simp: map_of_delete)

lemma process_orders_entry:
  "map_of (process_orders cache ords) chain = map_option limit_orders (map_of (foldl file_order [] ords) chain)"
proof -
  let ?new = "foldl file_order [] ords"
  have "hm_wf ?new" by (simp add: hm_wf_filed)
  note inserted = map_of_inserts[OF this, of limit_orders cache chain]
  show ?thesis
  proof (cases "map_of ?new chain")
    case None
    then have "chain \<notin> fst ` set ?new" by (simp add: map_of_eq_None_iff)
    then have "map_of cache chain = None \<or> chain \<in> set (filter (\<lambda>k. k \<notin> set (map fst ?new)) (map fst cache))"
      by (auto simp: map_of_eq_None_iff)
    with None inserted show ?thesis by (auto simp: process_orders_def Let_def map_of_deletes)
  next
    case (Some s)
    then have "chain \<in> fst ` set ?new" by (auto dest: map_of_SomeD intro: rev_image_eqI)
    with Some inserted show ?thesis by (simp add: process_orders_def Let_def map_of_deletes)
  qed
qed

lemma feed_serves:
  "get_pending_orders_by_chain (process_orders cache ords) chain (Some solver) =
    take 1000 (filter (concerns chain (normalize_solver_id solver chain)) ords)"
  using filed_fold[of "[]" ords chain "normalize_solver_id solver chain"]
  by (cases "map_of (foldl file_order [] ords) chain")
    (simp_all add: get_pending_orders_by_chain_def process_orders_entry entry_limit_orders filed_def
      MAX_SOLVER_ORDERS_PER_CHAIN_def, simp_all add: entry_or_def)

text \<open>After a sync, the service answers a solver on a chain with exactly the pending orders that
  concern that solver on that chain, in their order, the first thousand of them.\<close>

theorem feed_serves_exactly:
  "get_pending_orders_by_chain (process_orders cache ords) chain (Some solver) =
    take 1000 (filter (concerns chain (normalize_solver_id solver chain)) ords)"
  by (rule feed_serves)

lemma served_orders_pending:
  assumes "ord \<in> set (get_pending_orders_by_chain (process_orders cache (get_solver_pending_orders rows)) chain (Some solver))"
  shows "ord \<in> set rows" "solver_pending ord" "concerns chain (normalize_solver_id solver chain) ord"
  using assms by (auto simp: feed_serves get_solver_pending_orders_def dest!: in_set_takeD)

end
