(* ===== verification/OrderMapperProps.thy ===== *)
theory OrderMapperProps
  imports OrderMapper OrderFeed
begin

text \<open>
  What the order mapper may decide, on its own and on the orders that the feed serves: when it
  funds, redeems, refunds, and where its protections have holes.
\<close>

section \<open>The decisions\<close>

lemma can_instant_refund_True:
  assumes "can_instant_refund m v ord = Inr True"
  shows "has_valid_initiate (mo_source_swap ord)" "\<not> has_refund (mo_source_swap ord)"
    "sw_initiate_tx_hash (mo_destination_swap ord) \<noteq> [] \<Longrightarrow> is_swap_completed (mo_destination_swap ord)"
  using assms by (auto simp: can_instant_refund_def Let_def ms_is_some_def split: if_splits)

lemma can_initiate_True:
  assumes "can_initiate m v ord = Inr True"
  shows "\<not> ad_is_blacklisted (co_additional_data (mo_create_order ord))"
    "sw_initiate_tx_hash (mo_source_swap ord) \<noteq> []" "sw_initiate_tx_hash (mo_destination_swap ord) = []"
    "bd_value (sw_filled_amount (mo_source_swap ord)) = bd_value (sw_amount (mo_source_swap ord))"
    "\<not> contains ''bitcoin'' (sw_chain (mo_source_swap ord)) \<Longrightarrow>
      has_valid_initiate (mo_source_swap ord)
      \<and> sint (sw_required_confirmations (mo_source_swap ord)) \<le> sint (sw_current_confirmations (mo_source_swap ord))"
    "passes_additional_check m TInitiate ord" "can_instant_refund m v ord = Inr False"
  using assms
  by (auto simp: can_initiate_def Let_def ms_is_some_def has_valid_initiate_def try_simps split: if_splits)

lemma can_refund_True:
  assumes "can_refund m ord latest"
  shows "\<not> is_swap_completed (mo_destination_swap ord)"
    "\<exists>n. sw_initiate_block_number (mo_destination_swap ord) = Some n \<and> bd_value n > 0
      \<and> bd_value n + of_int (sint (sw_timelock (mo_destination_swap ord))) \<le> bd_value latest"
  using assms by (auto simp: can_refund_def Let_def is_valid_block_number_def split: if_splits option.splits)

lemma can_redeem_True:
  assumes "can_redeem m ord"
  shows "\<not> is_swap_completed (mo_source_swap ord)" "has_valid_initiate (mo_source_swap ord)"
    "sw_secret (mo_destination_swap ord) \<noteq> []"
  using assms by (auto simp: can_redeem_def Let_def ms_is_some_def split: if_splits)

text \<open>Which check an action comes from.\<close>

lemma map_order_cases:
  assumes "map_order m v w ord latest = Inr a"
  obtains (refund) n where "a = \<lparr>ai_action = ARefund, ai_swap = Some (mo_destination_swap ord)\<rparr>"
      "is_chain_supported m (sw_chain (mo_destination_swap ord))" "latest = Some n" "can_refund m ord n"
  | (initiate) "a = \<lparr>ai_action = AInitiate, ai_swap = Some (mo_destination_swap ord)\<rparr>"
      "is_chain_supported m (sw_chain (mo_destination_swap ord))" "can_initiate m v ord = Inr True"
  | (redeem) secret where "a = \<lparr>ai_action = ARedeem secret, ai_swap = Some (mo_source_swap ord)\<rparr>"
      "is_chain_supported m (sw_chain (mo_source_swap ord))" "can_redeem m ord"
      "hex_to_bytes w (sw_secret (mo_destination_swap ord)) = Inr secret"
  | (instant) "a = \<lparr>ai_action = AInstantRefund, ai_swap = Some (mo_source_swap ord)\<rparr>"
      "is_chain_supported m (sw_chain (mo_source_swap ord))" "\<not> can_redeem m ord" "can_instant_refund m w ord = Inr True"
  | (noop) "a = \<lparr>ai_action = ANoOp, ai_swap = None\<rparr>"
  using assms
  by (auto simp: map_order_def check_destination_chain_actions_def check_source_chain_actions_def Let_def try_simps
      split: if_splits option.splits)

section \<open>The protections\<close>

lemma served_source_unrefunded:
  assumes "solver_pending ord" "sw_initiate_tx_hash (mo_destination_swap ord) = []"
  shows "sw_refund_tx_hash (mo_source_swap ord) = []"
  using assms by (auto simp: solver_pending_def Let_def)

lemma served_completed_unredeemed:
  assumes "solver_pending ord" "sw_initiate_tx_hash (mo_destination_swap ord) \<noteq> []" "is_swap_completed (mo_destination_swap ord)"
  shows "sw_redeem_tx_hash (mo_source_swap ord) = []"
  using assms by (auto simp: solver_pending_def Let_def is_swap_completed_def has_refund_def has_redeem_def ms_is_some_def)

text \<open>C20: What the mapper of an executor without extra checks chooses on an order that the service serves.
  It funds the destination, never funded before, only against a source deposit that is recorded in
  full, not refunded, and confirmed as required unless the source is on Bitcoin (\<open>mempool_deposit_pays_out\<close>
  in WatchProps shows what the exception costs). It refunds the source at once only while the
  destination was never funded, or when it is refunded and no secret is known. It redeems a source
  that is not completed, with the secret revealed on the destination. It takes back the destination
  only while that is not completed and its timelock has passed since it was funded. Otherwise it does
  nothing; it chooses no other action.\<close>

theorem served_order_actions_guarded:
  assumes "ord \<in> set (get_pending_orders_by_chain (process_orders cache (get_solver_pending_orders rows)) chain (Some solver))"
    and "om_additional_checks m = []" and "map_order m v w ord latest = Inr a"
  shows "case ai_action a of
      AInitiate \<Rightarrow>
        ai_swap a = Some (mo_destination_swap ord) \<and> sw_initiate_tx_hash (mo_destination_swap ord) = []
        \<and> sw_initiate_tx_hash (mo_source_swap ord) \<noteq> [] \<and> sw_refund_tx_hash (mo_source_swap ord) = []
        \<and> bd_value (sw_filled_amount (mo_source_swap ord)) = bd_value (sw_amount (mo_source_swap ord))
        \<and> (\<not> contains ''bitcoin'' (sw_chain (mo_source_swap ord)) \<longrightarrow>
            sint (sw_required_confirmations (mo_source_swap ord)) \<le> sint (sw_current_confirmations (mo_source_swap ord)))
    | AInstantRefund \<Rightarrow>
        ai_swap a = Some (mo_source_swap ord)
        \<and> (sw_initiate_tx_hash (mo_destination_swap ord) = []
           \<or> sw_refund_tx_hash (mo_destination_swap ord) \<noteq> [] \<and> sw_secret (mo_destination_swap ord) = [])
    | ARedeem secret \<Rightarrow>
        ai_swap a = Some (mo_source_swap ord) \<and> \<not> is_swap_completed (mo_source_swap ord)
        \<and> sw_secret (mo_destination_swap ord) \<noteq> []
        \<and> hex_to_bytes w (sw_secret (mo_destination_swap ord)) = Inr secret
    | ARefund \<Rightarrow>
        ai_swap a = Some (mo_destination_swap ord) \<and> \<not> is_swap_completed (mo_destination_swap ord)
        \<and> (\<exists>n b. latest = Some n \<and> sw_initiate_block_number (mo_destination_swap ord) = Some b
             \<and> bd_value b + of_int (sint (sw_timelock (mo_destination_swap ord))) \<le> bd_value n)
    | ANoOp \<Rightarrow> ai_swap a = None
    | _ \<Rightarrow> False"
  using assms(3)
proof (cases rule: map_order_cases)
  case (refund n)
  with can_refund_True[OF refund(4)] show ?thesis by auto
next
  case initiate
  note I = can_initiate_True[OF initiate(3)]
  have "sw_refund_tx_hash (mo_source_swap ord) = []"
    using served_source_unrefunded served_orders_pending(2)[OF assms(1)] I(3) by blast
  with initiate I show ?thesis by auto
next
  case (redeem secret)
  with can_redeem_True[OF redeem(3)] show ?thesis by simp
next
  case instant
  note I = can_instant_refund_True[OF instant(4)]
  show ?thesis
  proof (cases "sw_initiate_tx_hash (mo_destination_swap ord) = []")
    case False
    have "sw_redeem_tx_hash (mo_source_swap ord) = []"
      using served_completed_unredeemed[OF served_orders_pending(2)[OF assms(1)] False I(3)[OF False]] .
    then have "\<not> is_swap_completed (mo_source_swap ord)"
      using I(2) by (simp add: is_swap_completed_def has_redeem_def ms_is_some_def)
    with instant(3) I(1) have "sw_secret (mo_destination_swap ord) = []"
      by (simp add: can_redeem_def Let_def passes_additional_check_def assms(2) ms_is_some_def)
    with I(3)[OF False] instant(1) show ?thesis
      by (simp add: is_swap_completed_def has_redeem_def has_refund_def ms_is_some_def)
  qed (simp add: instant(1))
qed simp

section \<open>The holes\<close>

lemma not_starting_refund:
  assumes "\<not> is_valid_block_number (sw_initiate_block_number (mo_destination_swap ord))"
  shows "\<not> can_refund m ord n"
  using assms by (auto simp: can_refund_def Let_def)

text \<open>The deadline and the prices protect an initiate only if the source is validly initiated and not
  refunded. Otherwise they are not consulted: a Bitcoin source whose transaction is in no block
  yet, and a source that has been refunded, make the mapper fund the destination at any time and
  at any prices.\<close>

theorem unprotected_initiate:
  assumes "is_chain_supported m (sw_chain (mo_destination_swap ord))"
    and "\<not> ad_is_blacklisted (co_additional_data (mo_create_order ord))"
    and "passes_additional_check m TInitiate ord"
    and "sw_initiate_tx_hash (mo_destination_swap ord) = []"
    and "\<not> is_valid_block_number (sw_initiate_block_number (mo_destination_swap ord))"
    and "sw_initiate_tx_hash (mo_source_swap ord) \<noteq> []"
    and "bd_value (sw_filled_amount (mo_source_swap ord)) = bd_value (sw_amount (mo_source_swap ord))"
    and "contains ''bitcoin'' (sw_chain (mo_source_swap ord)) \<and> \<not> has_valid_initiate (mo_source_swap ord)
      \<or> has_refund (mo_source_swap ord) \<and> (contains ''bitcoin'' (sw_chain (mo_source_swap ord))
          \<or> has_valid_initiate (mo_source_swap ord)
            \<and> sint (sw_required_confirmations (mo_source_swap ord)) \<le> sint (sw_current_confirmations (mo_source_swap ord)))"
  shows "\<forall>v w. map_order m v w ord latest = Inr \<lparr>ai_action = AInitiate, ai_swap = Some (mo_destination_swap ord)\<rparr>"
proof (intro allI)
  fix v w
  have "can_instant_refund m v ord = Inr False"
    using assms(8) by (auto simp: can_instant_refund_def Let_def)
  then have "can_initiate m v ord = Inr True"
    using assms(2-4,6-8) by (auto simp: can_initiate_def Let_def ms_is_some_def)
  then show "map_order m v w ord latest = Inr \<lparr>ai_action = AInitiate, ai_swap = Some (mo_destination_swap ord)\<rparr>"
    using assms(1) not_starting_refund[OF assms(5)]
    by (simp add: map_order_def check_destination_chain_actions_def Let_def split: option.splits)
qed

text \<open>The price check in plain terms: the price of what is paid out may fall by the threshold at
  most, and may exceed the price of what comes in, both relative to the agreed prices, by the
  threshold at most.\<close>

theorem price_threshold_bounds:
  assumes "0 < p" "0 < q"
  shows "validate_price_threshold p q p' q' t \<longleftrightarrow> 1 - t \<le> q' / q \<and> q' / q \<le> p' / p + t"
proof -
  have "q * (1 - t) \<le> q' \<longleftrightarrow> 1 - t \<le> q' / q" using assms by (simp add: pos_le_divide_eq mult.commute)
  moreover have "(p - p') / p + (q' - q) / q = q' / q - p' / p" using assms by (simp add: diff_divide_distrib)
  ultimately show ?thesis using assms by (auto simp: validate_price_threshold_def Let_def)
qed

text \<open>Once the counterparty has revealed the secret, the source is redeemed whatever the clock and the
  prices say, unless the secret is not hexadecimal.\<close>

theorem revealed_secret_is_redeemed:
  assumes "is_chain_supported m (sw_chain (mo_source_swap ord))" "\<not> is_chain_supported m (sw_chain (mo_destination_swap ord))"
    and "has_valid_initiate (mo_source_swap ord)" "\<not> is_swap_completed (mo_source_swap ord)"
    and "sw_secret (mo_destination_swap ord) \<noteq> []" "passes_additional_check m TRedeem ord"
  shows "map_order m v w ord latest =
    try_bind (hex_to_bytes w (sw_secret (mo_destination_swap ord))) (\<lambda>secret.
      Inr \<lparr>ai_action = ARedeem secret, ai_swap = Some (mo_source_swap ord)\<rparr>)"
proof -
  have "can_redeem m ord" using assms by (simp add: can_redeem_def Let_def ms_is_some_def)
  with assms(1,2) show ?thesis
    by (auto simp: map_order_def check_destination_chain_actions_def check_source_chain_actions_def Let_def try_bind_def
        split: sum.splits)
qed

section \<open>Examples\<close>

definition demo_swap :: "string \<Rightarrow> string \<Rightarrow> string \<Rightarrow> big_decimal option \<Rightarrow> single_swap" where
  "demo_swap swap_id chain tx block =
    \<lparr>sw_created_at = 0, sw_swap_id = swap_id, sw_chain = chain, sw_asset = ''asset'', sw_initiator = ''aa'', sw_redeemer = ''bb'',
     sw_timelock = 144, sw_filled_amount = BigDecimal 1000 0, sw_amount = BigDecimal 10000 1, sw_secret_hash = ''cc'',
     sw_secret = [], sw_initiate_tx_hash = tx, sw_redeem_tx_hash = [], sw_refund_tx_hash = [],
     sw_initiate_block_number = block, sw_redeem_block_number = None, sw_refund_block_number = None,
     sw_required_confirmations = 1, sw_current_confirmations = 2,
     sw_initiate_timestamp = None, sw_redeem_timestamp = None, sw_refund_timestamp = None\<rparr>"

definition demo_order :: "single_swap \<Rightarrow> single_swap \<Rightarrow> matched_order" where
  "demo_order src dst =
    \<lparr>mo_created_at = 0, mo_source_swap = src, mo_destination_swap = dst,
     mo_create_order = \<lparr>co_create_id = ''order'', co_source_chain = sw_chain src, co_destination_chain = sw_chain dst,
       co_additional_data = \<lparr>ad_strategy_id = ''s'', ad_bitcoin_optional_recipient = None, ad_input_token_price = 2,
         ad_output_token_price = 4, ad_deadline = 1000, ad_instant_refund_tx_bytes = None, ad_is_blacklisted = False\<rparr>\<rparr>\<rparr>"

definition demo_order_view :: "timestamp \<Rightarrow> rat \<Rightarrow> order_view" where
  "demo_order_view now out =
    \<lparr>ov_now = now, ov_price = \<lambda>_. Inr (2, out), ov_from_timestamp = \<lambda>s. Some (s * 1000000000),
     ov_bytes_from_hex = \<lambda>s. Inr (map of_char s)\<rparr>"

definition demo_mapper :: order_mapper where
  "demo_mapper = mapper_build (add_supported_chain ''bitcoin'' mapper_builder_new)"

definition funded_order :: matched_order where
  "funded_order = demo_order (demo_swap ''s1'' ''evm'' ''tx1'' (Some (BigDecimal 7 0))) (demo_swap ''s2'' ''bitcoin'' [] None)"

lemmas demo_order_defs = demo_order_def demo_swap_def demo_order_view_def demo_mapper_def mapper_build_def mapper_new_def
  add_supported_chain_def mapper_builder_new_def funded_order_def

lemma funded_order_served:
  "funded_order \<in> set (get_pending_orders_by_chain (process_orders [] (get_solver_pending_orders [funded_order])) ''bitcoin'' (Some ''aa''))"
  by (simp add: feed_serves get_solver_pending_orders_def solver_pending_def concerns_def normalize_solver_id_def Let_def
      demo_order_defs contains.simps starts_with.simps)

lemma funded_order_initiates:
  "map_order demo_mapper (demo_order_view 0 4) v funded_order None = Inr \<lparr>ai_action = AInitiate, ai_swap = Some (mo_destination_swap funded_order)\<rparr>"
  by (simp add: demo_order_defs map_order_def check_destination_chain_actions_def is_chain_supported_def can_initiate_def
      can_instant_refund_def Let_def passes_additional_check_def has_valid_initiate_def has_refund_def ms_is_some_def
      bd_value_def is_swap_completed_def has_redeem_def has_destination_refund_only_def is_deadline_expired_def
      check_price_threshold_def validate_price_threshold_def DEFAULT_PRICE_DROP_THRESHOLD_def power_int_def)

lemma served_order_actions_guarded_witness:
  "\<exists>a. map_order demo_mapper (demo_order_view 0 4) (demo_order_view 0 4) funded_order None = Inr a
    \<and> ai_action a = AInitiate \<and> sw_refund_tx_hash (mo_source_swap funded_order) = []"
proof -
  have "om_additional_checks demo_mapper = []" by (simp add: demo_order_defs)
  from served_order_actions_guarded[OF funded_order_served this funded_order_initiates]
  show ?thesis using funded_order_initiates by simp
qed

text \<open>The same order from Bitcoin with an unconfirmed source, long after the deadline and at ten times the price.\<close>

definition unconfirmed_order :: matched_order where
  "unconfirmed_order = demo_order (demo_swap ''s1'' ''bitcoin'' ''tx1'' None) (demo_swap ''s2'' ''evm'' [] None)"

lemma unprotected_initiate_witness:
  "map_order (mapper_build (add_supported_chain ''evm'' mapper_builder_new)) (demo_order_view (10 ^ 18) 40) (demo_order_view (10 ^ 18) 40)
     unconfirmed_order None = Inr \<lparr>ai_action = AInitiate, ai_swap = Some (mo_destination_swap unconfirmed_order)\<rparr>"
proof -
  have "\<forall>v w. map_order (mapper_build (add_supported_chain ''evm'' mapper_builder_new)) v w unconfirmed_order None =
      Inr \<lparr>ai_action = AInitiate, ai_swap = Some (mo_destination_swap unconfirmed_order)\<rparr>"
    by (rule unprotected_initiate)
      (simp_all add: demo_order_defs unconfirmed_order_def is_chain_supported_def passes_additional_check_def
        is_valid_block_number_def bd_value_def power_int_def has_valid_initiate_def contains.simps starts_with.simps)
  then show ?thesis by blast
qed

lemma price_threshold_bounds_witness: "validate_price_threshold 2 4 2 4 (1 / 100) \<and> \<not> validate_price_threshold 2 4 1 4 (1 / 100)"
  using price_threshold_bounds[of 2 4 2 4 "1 / 100"] price_threshold_bounds[of 2 4 1 4 "1 / 100"] by simp

definition revealed_order :: matched_order where
  "revealed_order = demo_order (demo_swap ''s1'' ''bitcoin'' ''tx1'' (Some (BigDecimal 7 0)))
    ((demo_swap ''s2'' ''evm'' ''tx2'' (Some (BigDecimal 8 0)))\<lparr>sw_secret := ''0xab''\<rparr>)"

lemma revealed_secret_is_redeemed_witness:
  "map_order demo_mapper (demo_order_view (10 ^ 18) 40) (demo_order_view (10 ^ 18) 40) revealed_order None =
    Inr \<lparr>ai_action = ARedeem [97, 98], ai_swap = Some (mo_source_swap revealed_order)\<rparr>"
proof -
  have "hex_to_bytes (demo_order_view (10 ^ 18) 40) (sw_secret (mo_destination_swap revealed_order)) = Inr [97, 98]"
    by (simp add: hex_to_bytes_def strip_0x_def demo_order_defs revealed_order_def)
  then show ?thesis
    by (subst revealed_secret_is_redeemed)
      (simp_all add: demo_order_defs revealed_order_def is_chain_supported_def has_valid_initiate_def is_swap_completed_def
        has_redeem_def has_refund_def passes_additional_check_def ms_is_some_def bd_value_def)
qed

end
