(* ===== verification/HtlcScripts.thy ===== *)
theory HtlcScripts
  imports OrderMapper TxAdaptor
begin

text \<open>
  Hash time locked contracts on Bitcoin (btc-executor/src/infrastructure/chain/bitcoin/primitives,
  which repeats Tars-rs/crates/bitcoin/src/htlc): the leaf scripts, the Taproot tree, the address
  and the witnesses. What the code calls of the bitcoin, secp256k1 and sha2 crates is the record
  \<open>htlc_crates\<close>. A script under construction is the list of the builder's calls; a Taproot builder is
  the list of the leaves added so far, and the spend info of a finished tree is its internal key
  with its leaves.
\<close>

datatype opcode = OP_SHA256 | OP_EQUALVERIFY | OP_CHECKSIG | OP_CSV | OP_DROP | OP_CHECKSIGADD | OP_NUMEQUAL

datatype script_item = PushOpcode opcode | PushSlice bytes | PushInt int

type_synonym taproot_leaves = "(nat \<times> script) list"

record spend_info =
  si_internal_key :: bytes
  si_leaves :: taproot_leaves

record htlc_crates =
  hc_into_script :: "script_item list \<Rightarrow> script"
  hc_leaf_hash :: "script \<Rightarrow> 256 word"
  hc_add_leaf_error :: "taproot_leaves \<Rightarrow> nat \<times> script \<Rightarrow> string option"
  hc_is_finalizable :: "taproot_leaves \<Rightarrow> bool"
  hc_finalizes :: "bytes \<Rightarrow> taproot_leaves \<Rightarrow> bool"
  hc_merkle_root :: "spend_info \<Rightarrow> 256 word option"
  hc_control_block :: "spend_info \<Rightarrow> script \<Rightarrow> bytes option"
  hc_p2tr :: "bytes \<Rightarrow> 256 word option \<Rightarrow> network \<Rightarrow> address"
  hc_internal_key :: bytes
  hc_alloy_hex_decode :: "string \<Rightarrow> (string, bytes) result"
  hc_hex_encode :: "bytes \<Rightarrow> string"
  hc_sha256 :: "bytes \<Rightarrow> bytes"
  hc_xonly_from_str :: "string \<Rightarrow> (string, bytes) result"
  hc_address_from_str :: "string \<Rightarrow> (string, address) result"
  hc_require_network :: "address \<Rightarrow> network \<Rightarrow> (string, address) result"
  hc_address_from_script :: "script \<Rightarrow> network \<Rightarrow> (string, address) result"
  hc_big_decimal_text :: "big_decimal \<Rightarrow> string"
  hc_txid_text :: "txid \<Rightarrow> string"
  hc_signature_from_slice :: "bytes \<Rightarrow> (string, bytes \<times> tap_sighash_type) result"
  hc_verify_schnorr :: "bytes \<Rightarrow> 256 word \<Rightarrow> bytes \<Rightarrow> (string, unit) result"
  hc_sighash :: "transaction \<Rightarrow> nat \<Rightarrow> tx_out list \<Rightarrow> bool \<Rightarrow> 256 word \<Rightarrow> tap_sighash_type \<Rightarrow> (string, 256 word) result"

section \<open>Parameters and leaves\<close>

datatype htlc_leaf = LeafRedeem | LeafRefund | LeafInstantRefund

record htlc_params =
  hp_initiator_pubkey :: bytes
  hp_redeemer_pubkey :: bytes
  hp_amount :: u64
  hp_secret_hash :: bytes
  hp_timelock :: u64

text \<open>\<open>push_int(timelock as i64)\<close> is signed.\<close>

definition redeem_leaf :: "htlc_crates \<Rightarrow> bytes \<Rightarrow> bytes \<Rightarrow> script" where
  "redeem_leaf hc secret_hash redeemer =
    hc_into_script hc [PushOpcode OP_SHA256, PushSlice secret_hash, PushOpcode OP_EQUALVERIFY, PushSlice redeemer,
      PushOpcode OP_CHECKSIG]"

definition refund_leaf :: "htlc_crates \<Rightarrow> u64 \<Rightarrow> bytes \<Rightarrow> script" where
  "refund_leaf hc timelock initiator =
    hc_into_script hc [PushInt (sint timelock), PushOpcode OP_CSV, PushOpcode OP_DROP, PushSlice initiator,
      PushOpcode OP_CHECKSIG]"

definition instant_refund_leaf :: "htlc_crates \<Rightarrow> bytes \<Rightarrow> bytes \<Rightarrow> script" where
  "instant_refund_leaf hc initiator redeemer =
    hc_into_script hc [PushSlice initiator, PushOpcode OP_CHECKSIG, PushSlice redeemer, PushOpcode OP_CHECKSIGADD,
      PushInt 2, PushOpcode OP_NUMEQUAL]"

fun get_htlc_leaf_script :: "htlc_crates \<Rightarrow> htlc_params \<Rightarrow> htlc_leaf \<Rightarrow> script" where
  "get_htlc_leaf_script hc p LeafRedeem = redeem_leaf hc (hp_secret_hash p) (hp_redeemer_pubkey p)"
| "get_htlc_leaf_script hc p LeafRefund = refund_leaf hc (hp_timelock p) (hp_initiator_pubkey p)"
| "get_htlc_leaf_script hc p LeafInstantRefund = instant_refund_leaf hc (hp_initiator_pubkey p) (hp_redeemer_pubkey p)"

definition get_htlc_leaf_hash :: "htlc_crates \<Rightarrow> htlc_params \<Rightarrow> htlc_leaf \<Rightarrow> 256 word" where
  "get_htlc_leaf_hash hc p leaf = hc_leaf_hash hc (get_htlc_leaf_script hc p leaf)"

section \<open>The Taproot tree\<close>

datatype primitives_error =
    PrSecp message
  | PrSighash message
  | PrHex message
  | PrInvalidParam message
  | PrSigning message
  | PrTaproot message

definition REDEEM_LEAF_WEIGHT :: nat where "REDEEM_LEAF_WEIGHT = 1"
definition OTHER_LEAF_WEIGHT :: nat where "OTHER_LEAF_WEIGHT = 2"

definition add_leaf ::
    "htlc_crates \<Rightarrow> string \<Rightarrow> nat \<Rightarrow> script \<Rightarrow> taproot_leaves \<Rightarrow> (message, taproot_leaves) result" where
  "add_leaf hc fmt weight leaf b =
    (case hc_add_leaf_error hc b (weight, leaf) of
       Some e \<Rightarrow> Inl (Format fmt [ArgStr e])
     | None \<Rightarrow> Inr (b @ [(weight, leaf)]))"

definition construct_tree :: "htlc_crates \<Rightarrow> htlc_params \<Rightarrow> (message, spend_info) result" where
  "construct_tree hc p =
    try_bind (add_leaf hc ''Unable to add redeem leaf to Taproot tree: {e}'' REDEEM_LEAF_WEIGHT
        (redeem_leaf hc (hp_secret_hash p) (hp_redeemer_pubkey p)) []) (\<lambda>b.
    try_bind (add_leaf hc ''Unable to add refund leaf to Taproot tree: {e}'' OTHER_LEAF_WEIGHT
        (refund_leaf hc (hp_timelock p) (hp_initiator_pubkey p)) b) (\<lambda>b.
    try_bind (add_leaf hc ''Unable to add instant refund leaf to Taproot tree: {e}'' OTHER_LEAF_WEIGHT
        (instant_refund_leaf hc (hp_initiator_pubkey p) (hp_redeemer_pubkey p)) b) (\<lambda>b.
      if \<not> hc_is_finalizable hc b then Inl (Format ''Taproot builder is not in a finalizable state'' [])
      else if \<not> hc_finalizes hc (hc_internal_key hc) b then Inl (Format ''Failed to finalize Taproot spend info'' [])
      else Inr \<lparr>si_internal_key = hc_internal_key hc, si_leaves = b\<rparr>)))"

definition htlc_address :: "htlc_crates \<Rightarrow> htlc_params \<Rightarrow> network \<Rightarrow> (message, address) result" where
  "htlc_address hc p net =
    try_bind (construct_tree hc p) (\<lambda>info. Inr (hc_p2tr hc (hc_internal_key hc) (hc_merkle_root hc info) net))"

text \<open>The executor's versions wrap the message in its own error type.\<close>

definition taproot_error :: "(message, 'a) result \<Rightarrow> (primitives_error, 'a) result" where
  "taproot_error r = (case r of Inl m \<Rightarrow> Inl (PrTaproot m) | Inr x \<Rightarrow> Inr x)"

definition construct_taproot_spend_info :: "htlc_crates \<Rightarrow> htlc_params \<Rightarrow> (primitives_error, spend_info) result" where
  "construct_taproot_spend_info hc p = taproot_error (construct_tree hc p)"

definition get_htlc_address :: "htlc_crates \<Rightarrow> htlc_params \<Rightarrow> network \<Rightarrow> (primitives_error, address) result" where
  "get_htlc_address hc p net =
    try_bind (construct_taproot_spend_info hc p) (\<lambda>info.
      Inr (hc_p2tr hc (hc_internal_key hc) (hc_merkle_root hc info) net))"

definition compute_bitcoin_htlc_id :: "htlc_crates \<Rightarrow> htlc_params \<Rightarrow> network \<Rightarrow> (primitives_error, string) result" where
  "compute_bitcoin_htlc_id hc p net = try_bind (get_htlc_address hc p net) (\<lambda>a. Inr (addr_text a))"

fun show_leaf :: "htlc_leaf \<Rightarrow> string" where
  "show_leaf LeafRedeem = ''Redeem''"
| "show_leaf LeafRefund = ''Refund''"
| "show_leaf LeafInstantRefund = ''InstantRefund''"

definition get_control_block :: "htlc_crates \<Rightarrow> htlc_params \<Rightarrow> htlc_leaf \<Rightarrow> (primitives_error, bytes) result" where
  "get_control_block hc p leaf =
    try_bind (construct_taproot_spend_info hc p) (\<lambda>info.
      ok_or (hc_control_block hc info (get_htlc_leaf_script hc p leaf))
        (PrTaproot (Format ''Failed to get control block for {}'' [ArgStr (show_leaf leaf)])))"

section \<open>Witnesses\<close>

definition SCHNORR_SIG_PLACEHOLDER :: bytes where
  "SCHNORR_SIG_PLACEHOLDER = replicate 65 0"

definition get_redeem_witness :: "htlc_crates \<Rightarrow> htlc_params \<Rightarrow> bytes \<Rightarrow> (primitives_error, bytes list) result" where
  "get_redeem_witness hc p secret =
    try_bind (get_control_block hc p LeafRedeem) (\<lambda>cb.
      Inr [SCHNORR_SIG_PLACEHOLDER, secret, redeem_leaf hc (hp_secret_hash p) (hp_redeemer_pubkey p), cb])"

definition get_refund_witness :: "htlc_crates \<Rightarrow> htlc_params \<Rightarrow> (primitives_error, bytes list) result" where
  "get_refund_witness hc p =
    try_bind (get_control_block hc p LeafRefund) (\<lambda>cb.
      Inr [SCHNORR_SIG_PLACEHOLDER, refund_leaf hc (hp_timelock p) (hp_initiator_pubkey p), cb])"

definition get_instant_refund_witness ::
    "htlc_crates \<Rightarrow> htlc_params \<Rightarrow> bytes \<Rightarrow> bytes \<Rightarrow> (primitives_error, bytes list) result" where
  "get_instant_refund_witness hc p initiator_sig redeemer_sig =
    try_bind (get_control_block hc p LeafInstantRefund) (\<lambda>cb.
      Inr [redeemer_sig, initiator_sig, instant_refund_leaf hc (hp_initiator_pubkey p) (hp_redeemer_pubkey p), cb])"

definition validate_secret :: "htlc_crates \<Rightarrow> bytes \<Rightarrow> bytes \<Rightarrow> bool" where
  "validate_secret hc secret expected_hash = (hc_sha256 hc secret = expected_hash)"

text \<open>\<open>add_signature_to_witness\<close>: the first placeholder becomes the signature.\<close>

fun key_error_text :: "key_error \<Rightarrow> message" where
  "key_error_text (InvalidBtcKey m) = Format ''invalid Bitcoin private key: {0}'' [ArgMessage m]"
| "key_error_text (WalletInit m) = Format ''wallet initialization failed: {0}'' [ArgMessage m]"
| "key_error_text (Signing m) = Format ''signing failed: {0}'' [ArgMessage m]"

definition add_signature_to_witness ::
    "'k crates \<Rightarrow> bytes list \<Rightarrow> 'k bitcoin_wallet \<Rightarrow> 256 word \<Rightarrow> tap_sighash_type \<Rightarrow> (primitives_error, bytes list) result" where
  "add_signature_to_witness cr wit w h ty =
    (case sign_taproot_script_spend cr w h ty of
       Inl e \<Rightarrow> Inl (PrSigning (key_error_text e))
     | Inr (s, t) \<Rightarrow>
         if SCHNORR_SIG_PLACEHOLDER \<in> set wit
         then Inr (takeWhile (\<lambda>e. e \<noteq> SCHNORR_SIG_PLACEHOLDER) wit @ [serialize_signature cr s t]
           @ drop 1 (dropWhile (\<lambda>e. e \<noteq> SCHNORR_SIG_PLACEHOLDER) wit))
         else Inl (PrInvalidParam (Format ''No signature placeholder found in witness'' [])))"

end
