(* ===== verification/InstantRefund.thy ===== *)
theory InstantRefund
  imports HtlcScripts
begin

text \<open>
  Validation of a user's instant refund (Tars-rs/crates/bitcoin/src/htlc: tx.rs, hash.rs,
  validate.rs). The user signs, for each HTLC output, a transaction with one input and one output per
  output (SIGHASH_SINGLE with ANYONECANPAY). The validation rebuilds that transaction from the
  unspent outputs and checks the signatures of the submitted one against it. Errors are messages.
\<close>

record tars_utxo =
  tu_txid :: txid
  tu_vout :: u32
  tu_value :: u64

section \<open>Building\<close>

definition is_above_dust_limit :: "u64 \<Rightarrow> bool" where
  "is_above_dust_limit v = (v \<ge> DUST_LIMIT)"

text \<open>
  \<open>Txid\<close> compares its bytes from the first in memory; the order is a parameter, as the map \<open>rank\<close>
  of txids to integers.
\<close>

definition sort_utxos :: "(txid \<Rightarrow> nat) \<Rightarrow> tars_utxo list \<Rightarrow> tars_utxo list" where
  "sort_utxos rank us = sort_key (\<lambda>u. (rank (tu_txid u), unat (tu_vout u))) us"

definition create_inputs_from_utxos :: "tars_utxo list \<Rightarrow> bytes list \<Rightarrow> u32 \<Rightarrow> tx_in list" where
  "create_inputs_from_utxos us wit sq =
    map (\<lambda>u. \<lparr>in_previous_output = \<lparr>op_txid = tu_txid u, op_vout = tu_vout u\<rparr>, in_script_sig = [],
      in_sequence = sq, in_witness = wit\<rparr>) us"

text \<open>\<open>max_by_key\<close> returns the last maximum.\<close>

definition max_index :: "u64 list \<Rightarrow> nat option" where
  "max_index vs = (if vs = [] then None else Some (last (filter (\<lambda>i. \<forall>v \<in> set vs. v \<le> vs ! i) [0..<length vs])))"

definition output_after_fee :: "address \<Rightarrow> u64 \<Rightarrow> nat \<Rightarrow> nat \<times> u64 \<Rightarrow> (message, tx_out) result" where
  "output_after_fee recipient fee mx = (\<lambda>(i, value).
    if i = mx \<and> value < fee
    then Inl (Format ''Fee ({}) exceeds output value ({})'' [ArgNat (unat fee), ArgNat (unat value)])
    else
      let v = (if i = mx then value - fee else value) in
      if \<not> is_above_dust_limit v
      then Inl (Format ''Output value {} below dust limit ({})'' [ArgNat (unat v), ArgNat (unat DUST_LIMIT)])
      else Inr \<lparr>out_value = v, out_script_pubkey = addr_script recipient\<rparr>)"

definition create_outputs :: "u64 list \<Rightarrow> address \<Rightarrow> u64 option \<Rightarrow> (message, tx_out list) result" where
  "create_outputs vs recipient fee =
    try_bind (ok_or (max_index vs) (Format ''Output values are empty'' [])) (\<lambda>mx.
      try_map (output_after_fee recipient (case fee of None \<Rightarrow> 0 | Some f \<Rightarrow> f) mx) (enumerate 0 vs))"

definition create_previous_outputs :: "tars_utxo list \<Rightarrow> address \<Rightarrow> tx_out list" where
  "create_previous_outputs us addr = map (\<lambda>u. \<lparr>out_value = tu_value u, out_script_pubkey = addr_script addr\<rparr>) us"

definition get_output_values :: "tars_utxo list \<Rightarrow> tap_sighash_type \<Rightarrow> (message, u64 list) result" where
  "get_output_values us ty =
    (case ty of
       SighashSinglePlusAnyoneCanPay \<Rightarrow> Inr (map tu_value us)
     | SighashAll \<Rightarrow> Inr [sum_list (map tu_value us)]
     | _ \<Rightarrow> Inl (Format ''Unsupported sighash type: {:?}. Only SinglePlusAnyoneCanPay and All are supported.'' []))"

definition validate_utxos :: "tars_utxo list \<Rightarrow> (message, unit) result" where
  "validate_utxos us =
    (if us = [] then Inl (Format ''No UTXOs provided'' [])
     else try_each (\<lambda>u. if tu_value u = 0
       then Inl (Format ''UTXO with txid {} and vout {} has zero value'' [ArgTxid (tu_txid u), ArgNat (unat (tu_vout u))])
       else Inr ()) us)"

definition tars_build_tx ::
    "tars_utxo list \<Rightarrow> address \<Rightarrow> bytes list \<Rightarrow> u32 \<Rightarrow> tap_sighash_type \<Rightarrow> u64 option \<Rightarrow> (message, transaction) result" where
  "tars_build_tx us recipient wit sq ty fee =
    try_bind (validate_utxos us) (\<lambda>_.
    try_bind (get_output_values us ty) (\<lambda>vs.
    try_bind (create_outputs vs recipient fee) (\<lambda>outs.
      Inr \<lparr>tx_version = 2, tx_lock_time = 0, tx_input = create_inputs_from_utxos us wit sq, tx_output = outs\<rparr>)))"

section \<open>Signature hashes\<close>

definition generate_sighash ::
    "htlc_crates \<Rightarrow> transaction \<Rightarrow> 256 word \<Rightarrow> nat \<Rightarrow> tx_out list \<Rightarrow> bool \<Rightarrow> tap_sighash_type \<Rightarrow> (message, 256 word) result" where
  "generate_sighash hc tx leaf i prevouts all_prevouts ty =
    (case hc_sighash hc tx i prevouts all_prevouts leaf ty of
       Inl e \<Rightarrow> Inl (Format ''Failed to generate signature hash for input {}: {e}'' [ArgNat i, ArgStr e])
     | Inr h \<Rightarrow> Inr h)"

definition with_prevout ::
    "htlc_crates \<Rightarrow> transaction \<Rightarrow> 256 word \<Rightarrow> nat \<Rightarrow> tx_out \<Rightarrow> tap_sighash_type \<Rightarrow> (message, 256 word) result" where
  "with_prevout hc tx leaf i prevout ty = generate_sighash hc tx leaf i [prevout] False ty"

definition with_all_prevouts ::
    "htlc_crates \<Rightarrow> transaction \<Rightarrow> 256 word \<Rightarrow> tx_out list \<Rightarrow> tap_sighash_type \<Rightarrow> (message, 256 word list) result" where
  "with_all_prevouts hc tx leaf prevouts ty =
    (if length (tx_input tx) \<noteq> length prevouts
     then Inl (Format ''Number of transaction inputs ({}) does not match number of previous outputs ({})''
       [ArgNat (length (tx_input tx)), ArgNat (length prevouts)])
     else try_map (\<lambda>i. generate_sighash hc tx leaf i prevouts True ty) [0..<length (tx_input tx)])"

text \<open>Every network of the enumeration is accepted.\<close>

definition validate_hash_generation_params :: "htlc_params \<Rightarrow> tars_utxo list \<Rightarrow> network \<Rightarrow> (message, unit) result" where
  "validate_hash_generation_params p us net =
    (if us = [] then Inl (Format ''No UTXOs provided'' [])
     else if hp_amount p = 0 then Inl (Format ''Invalid swap amount: must be greater than zero'' [])
     else if hp_timelock p = 0 then Inl (Format ''Invalid HTLC timelock: must be greater than zero'' [])
     else try_each (\<lambda>u. if tu_value u = 0 then Inl (Format ''UTXO has zero value'' []) else Inr ()) us)"

definition SEQUENCE_MAX :: u32 where "SEQUENCE_MAX = - 1"

definition generate_instant_refund_hash ::
    "htlc_crates \<Rightarrow> (txid \<Rightarrow> nat) \<Rightarrow> htlc_params \<Rightarrow> tars_utxo list \<Rightarrow> address \<Rightarrow> network \<Rightarrow> u64 option \<Rightarrow>
     (message, 256 word list) result" where
  "generate_instant_refund_hash hc rank p us recipient net fee =
    try_bind (validate_hash_generation_params p us net) (\<lambda>_.
    let us = sort_utxos rank us in
    try_bind (htlc_address hc p net) (\<lambda>addr.
    let prevouts = create_previous_outputs us addr in
    try_bind (tars_build_tx us recipient [] SEQUENCE_MAX SighashSinglePlusAnyoneCanPay fee) (\<lambda>tx.
    let leaf = hc_leaf_hash hc (instant_refund_leaf hc (hp_initiator_pubkey p) (hp_redeemer_pubkey p)) in
    try_map (\<lambda>i. with_prevout hc tx leaf i (prevouts ! i) SighashSinglePlusAnyoneCanPay) [0..<length us])))"

section \<open>Validation\<close>

definition validate_schnorr_signature ::
    "htlc_crates \<Rightarrow> bytes \<Rightarrow> bytes \<Rightarrow> 256 word \<Rightarrow> tap_sighash_type \<Rightarrow> (message, unit) result" where
  "validate_schnorr_signature hc key signature h ty =
    (case hc_signature_from_slice hc signature of
       Inl e \<Rightarrow> Inl (Format ''Invalid Schnorr signature format: {}'' [ArgStr e])
     | Inr (sig, sig_ty) \<Rightarrow>
         if ty \<noteq> sig_ty then Inl (Format ''Invalid signature hash type: expected {}, got {}'' [])
         else (case hc_verify_schnorr hc sig h key of
                 Inl e \<Rightarrow> Inl (Format ''Signature verification failed: {}'' [ArgStr e])
               | Inr _ \<Rightarrow> Inr ()))"

text \<open>One input of the submitted transaction against one rebuilt hash.\<close>

definition check_sacp_input ::
    "htlc_crates \<Rightarrow> htlc_params \<Rightarrow> string \<Rightarrow> bool \<Rightarrow> tx_in \<times> 256 word \<Rightarrow> (message, bool) result" where
  "check_sacp_input hc p initiate_tx_hash found = (\<lambda>(inp, h).
    if length (in_witness inp) \<noteq> 4
    then Inl (Format ''Instant refund SACP transaction input witness must have exactly 4 elements'' [])
    else
      (case validate_schnorr_signature hc (hp_initiator_pubkey p) (in_witness inp ! 1) h SighashSinglePlusAnyoneCanPay of
         Inl e \<Rightarrow> Inl (Format ''Invalid Schnorr signature : {:?}'' [ArgMessage e])
       | Inr _ \<Rightarrow> Inr (found \<or> initiate_tx_hash = hc_txid_text hc (op_txid (in_previous_output inp)))))"

definition validate_instant_refund_sacp_tx ::
    "'k crates \<Rightarrow> htlc_crates \<Rightarrow> (txid \<Rightarrow> nat) \<Rightarrow> string \<Rightarrow> string \<Rightarrow> htlc_params \<Rightarrow> tars_utxo list \<Rightarrow> address \<Rightarrow> network \<Rightarrow>
     (message, unit) result" where
  "validate_instant_refund_sacp_tx cr hc rank sacp_hex initiate_tx_hash p us recipient net =
    (let initiate_tx_hash = map to_lower initiate_tx_hash in
     case hc_alloy_hex_decode hc sacp_hex of
       Inl e \<Rightarrow> Inl (Format ''Failed to decode instant refund SACP transaction bytes: {:?}'' [ArgStr e])
     | Inr bs \<Rightarrow>
     (case deserialize_tx cr bs of
       Inl e \<Rightarrow> Inl (Format ''Failed to deserialize instant refund SACP transaction: {:?}'' [ArgStr e])
     | Inr sacp \<Rightarrow>
         (let input_total = sum_list (map tu_value us);
              output_total = sum_list (map out_value (tx_output sacp)) in
          if output_total > input_total
          then Inl (Format ''Total output value ({}) exceeds input total ({}) in HTLC params''
                 [ArgNat (unat output_total), ArgNat (unat input_total)])
          else
            (case generate_instant_refund_hash hc rank p us recipient net (Some (input_total - output_total)) of
               Inl e \<Rightarrow> Inl (Format ''Failed to generate instant refund hash : {:?}'' [ArgMessage e])
             | Inr hashes \<Rightarrow>
                 if length (tx_input sacp) \<noteq> length hashes
                 then Inl (Format ''Mismatch between transaction inputs and expected hashes'' [])
                 else try_bind (try_fold (check_sacp_input hc p initiate_tx_hash) False (zip (tx_input sacp) hashes)) (\<lambda>found.
                   if \<not> found then Inl (Format ''Input txid does not match expected transaction hash'' [])
                   else Inr ())))))"

text \<open>\<open>validate_tx\<close>: all inputs of one transaction, all outputs to one recipient.\<close>

definition validate_tx :: "'k crates \<Rightarrow> htlc_crates \<Rightarrow> bytes \<Rightarrow> string \<Rightarrow> address \<Rightarrow> (message, transaction) result" where
  "validate_tx cr hc bs input_tx_hash recipient =
    (case deserialize_tx cr bs of
       Inl e \<Rightarrow> Inl (Format ''Failed to deserialie tx : {:#?}'' [ArgStr e])
     | Inr tx \<Rightarrow>
         if list_ex (\<lambda>i. hc_txid_text hc (op_txid (in_previous_output i)) \<noteq> input_tx_hash) (tx_input tx)
         then Inl (Format ''Tx has invalid inputs'' [])
         else if list_ex (\<lambda>out. out_script_pubkey out \<noteq> addr_script recipient) (tx_output tx)
         then Inl (Format ''Tx has invalid outputs'' [])
         else Inr tx)"

end
