(* ===== verification/HtlcAdapter.thy ===== *)
theory HtlcAdapter
  imports InstantRefund WalletClients
begin

text \<open>
  The adapter that turns HTLC actions into wallet requests (wallet/htlc_adapter.rs). Electrs is the
  sequence of its answers (\<open>electrs_client\<close>); the delays between retries leave no trace.
\<close>

datatype htlc_adapter_error =
    HaPrimitives primitives_error
  | HaWalletRequest wallet_request_error
  | HaClient message
  | HaInvalidTxid message
  | HaMissingHtlcUtxo address u64
  | HaAmbiguousHtlcUtxo address u64
  | HaMissingInstantRefundUtxo outpoint
  | HaUnauthorizedRole string
  | HaInvalidInstantRefundTx message
  | HaInvalidInstantRefundShape
  | HaMissingWitnessElement nat nat
  | HaInvalidInstantRefundRecipient message

fun primitives_error_message :: "primitives_error \<Rightarrow> message" where
  "primitives_error_message (PrSecp m) = Format ''secp256k1 error: {0}'' [ArgMessage m]"
| "primitives_error_message (PrSighash m) = Format ''sighash error: {0}'' [ArgMessage m]"
| "primitives_error_message (PrHex m) = Format ''hex decode error: {0}'' [ArgMessage m]"
| "primitives_error_message (PrInvalidParam m) = Format ''invalid parameter: {0}'' [ArgMessage m]"
| "primitives_error_message (PrSigning m) = Format ''signing error: {0}'' [ArgMessage m]"
| "primitives_error_message (PrTaproot m) = Format ''taproot error: {0}'' [ArgMessage m]"

fun wallet_request_error_message :: "wallet_request_error \<Rightarrow> message" where
  "wallet_request_error_message EmptyDedupeKey = Format ''dedupe_key must not be empty'' []"
| "wallet_request_error_message InvalidSendAmount = Format ''send amount must be > 0'' []"
| "wallet_request_error_message InvalidSpendValue = Format ''spend value must be > 0'' []"
| "wallet_request_error_message MissingSacpRecipient = Format ''SACP spend must have a recipient'' []"

fun htlc_adapter_error_message :: "htlc_adapter_error \<Rightarrow> message" where
  "htlc_adapter_error_message (HaPrimitives e) = primitives_error_message e"
| "htlc_adapter_error_message (HaWalletRequest e) = wallet_request_error_message e"
| "htlc_adapter_error_message (HaClient m) = Format ''electrs request failed: {0}'' [ArgMessage m]"
| "htlc_adapter_error_message (HaInvalidTxid m) = Format ''invalid txid in electrs response: {0}'' [ArgMessage m]"
| "htlc_adapter_error_message (HaMissingHtlcUtxo a v) =
    Format ''missing HTLC UTXO for {address} with value {expected_value}'' [ArgStr (addr_text a), ArgNat (unat v)]"
| "htlc_adapter_error_message (HaAmbiguousHtlcUtxo a v) =
    Format ''ambiguous HTLC UTXO for {address} with value {expected_value}'' [ArgStr (addr_text a), ArgNat (unat v)]"
| "htlc_adapter_error_message (HaMissingInstantRefundUtxo op) = Format ''missing HTLC UTXO for outpoint {0}'' [ArgOutpoint op]"
| "htlc_adapter_error_message (HaUnauthorizedRole r) = Format ''executor signer is not authorized for {0}'' [ArgStr r]"
| "htlc_adapter_error_message (HaInvalidInstantRefundTx m) = Format ''failed to decode instant refund tx bytes: {0}'' [ArgMessage m]"
| "htlc_adapter_error_message HaInvalidInstantRefundShape =
    Format ''instant refund tx must have the same number of inputs and paired outputs'' []"
| "htlc_adapter_error_message (HaMissingWitnessElement i w) =
    Format ''instant refund tx input {index} is missing witness element {witness_index}'' [ArgNat i, ArgNat w]"
| "htlc_adapter_error_message (HaInvalidInstantRefundRecipient m) =
    Format ''failed to parse instant refund recipient address: {0}'' [ArgMessage m]"

datatype adapter_action =
    DoInitiate string address u64
  | DoRedeem string address htlc_params bytes
  | DoRefund string address htlc_params
  | DoInstantRefund string address htlc_params address string

record htlc_adapter =
  ha_executor_pubkey :: bytes
  ha_network :: network

definition map_client_error :: "client_error \<Rightarrow> htlc_adapter_error" where
  "map_client_error e = HaClient (client_error_message e)"

definition wallet_request_result :: "(wallet_request_error, 'a) result \<Rightarrow> (htlc_adapter_error, 'a) result" where
  "wallet_request_result r = (case r of Inl e \<Rightarrow> Inl (HaWalletRequest e) | Inr x \<Rightarrow> Inr x)"

definition primitives_result :: "(primitives_error, 'a) result \<Rightarrow> (htlc_adapter_error, 'a) result" where
  "primitives_result r = (case r of Inl e \<Rightarrow> Inl (HaPrimitives e) | Inr x \<Rightarrow> Inr x)"

section \<open>Finding the funded output\<close>

definition RESOLVE_MAX_RETRIES :: nat where
  "RESOLVE_MAX_RETRIES = 5"

text \<open>The choice among the outputs of one answer: \<open>None\<close> asks for a retry.\<close>

definition choose_htlc_utxo ::
    "address \<Rightarrow> u64 \<Rightarrow> esplora_utxo list \<Rightarrow> (htlc_adapter_error, esplora_utxo option) result" where
  "choose_htlc_utxo addr expected us =
    (let matches = filter (\<lambda>u. eu_value u = expected) us in
     if length matches = 1 then Inr (Some (hd matches))
     else if length matches > 1 then Inl (HaAmbiguousHtlcUtxo addr expected)
     else if length us = 1 then Inr (Some (hd us))
     else Inr None)"

fun resolve_loop ::
    "'k crates \<Rightarrow> address \<Rightarrow> u64 \<Rightarrow> nat \<Rightarrow> electrs_client \<Rightarrow> (htlc_adapter_error, outpoint \<times> u64 \<times> script) result \<times> electrs_client" where
  "resolve_loop cr addr expected retries el =
    (case get_address_utxos el (addr_text addr) of
       (Inl e, el) \<Rightarrow> (Inl (map_client_error e), el)
     | (Inr us, el) \<Rightarrow>
         (case choose_htlc_utxo addr expected us of
            Inl e \<Rightarrow> (Inl e, el)
          | Inr (Some u) \<Rightarrow>
              ((case txid_from_str cr (eu_txid u) of
                  Inl e \<Rightarrow> Inl (HaInvalidTxid (Format ''{}'' [ArgStr e]))
                | Inr tx \<Rightarrow> Inr (\<lparr>op_txid = tx, op_vout = eu_vout u\<rparr>, eu_value u, addr_script addr)), el)
          | Inr None \<Rightarrow>
              (case retries of
                 0 \<Rightarrow> (Inl (HaMissingHtlcUtxo addr expected), el)
               | Suc n \<Rightarrow> resolve_loop cr addr expected n el)))"

definition resolve_htlc_utxo ::
    "'k crates \<Rightarrow> address \<Rightarrow> u64 \<Rightarrow> electrs_client \<Rightarrow> (htlc_adapter_error, outpoint \<times> u64 \<times> script) result \<times> electrs_client" where
  "resolve_htlc_utxo cr addr expected el = resolve_loop cr addr expected RESOLVE_MAX_RETRIES el"

section \<open>Instant refunds\<close>

definition blank_witness_signature :: "bytes list \<Rightarrow> nat \<Rightarrow> nat \<Rightarrow> (htlc_adapter_error, bytes list) result" where
  "blank_witness_signature wit input_index witness_index =
    (if witness_index < length wit then Inr (wit[witness_index := replicate 65 0])
     else Inl (HaMissingWitnessElement input_index witness_index))"

definition recipient_from_output ::
    "htlc_crates \<Rightarrow> tx_out \<Rightarrow> network \<Rightarrow> address \<Rightarrow> (message, send_request) result" where
  "recipient_from_output hc out net expected =
    (case hc_address_from_script hc (out_script_pubkey out) net of
       Inl e \<Rightarrow> Inl (Format ''{}'' [ArgStr e])
     | Inr a \<Rightarrow>
         if a \<noteq> expected
         then Inl (Format ''expected recipient {expected_recipient}, got {address}'' [ArgStr (addr_text expected), ArgStr (addr_text a)])
         else Inr \<lparr>sr_address = a, sr_amount = out_value out\<rparr>)"

definition utxo_entry :: "'k crates \<Rightarrow> esplora_utxo \<Rightarrow> (htlc_adapter_error, outpoint \<times> u64) result" where
  "utxo_entry cr u =
    (case txid_from_str cr (eu_txid u) of
       Inl e \<Rightarrow> Inl (HaInvalidTxid (Format ''{}'' [ArgStr e]))
     | Inr tx \<Rightarrow> Inr (\<lparr>op_txid = tx, op_vout = eu_vout u\<rparr>, eu_value u))"

text \<open>Collecting pairs into a \<open>HashMap\<close>: a later pair replaces an earlier one.\<close>

definition instant_refund_key :: "htlc_crates \<Rightarrow> string \<Rightarrow> outpoint \<Rightarrow> string" where
  "instant_refund_key hc pfx op = pfx @ '':'' @ hc_txid_text hc (op_txid op) @ '':'' @ show_nat (unat (op_vout op))"

definition instant_refund_request ::
    "htlc_crates \<Rightarrow> htlc_adapter \<Rightarrow> string \<Rightarrow> address \<Rightarrow> htlc_params \<Rightarrow> address \<Rightarrow> nat \<Rightarrow> (outpoint \<times> u64) list \<Rightarrow> tx_out list \<Rightarrow>
     nat \<times> tx_in \<Rightarrow> (htlc_adapter_error, wallet_request) result" where
  "instant_refund_request hc ad pfx addr p recipient our_index values outs = (\<lambda>(i, inp).
    let op = in_previous_output inp in
    try_bind (ok_or (map_of (rev values) op) (HaMissingInstantRefundUtxo op)) (\<lambda>value.
    try_bind (if i < length outs then Inr (outs ! i) else Inl HaInvalidInstantRefundShape) (\<lambda>out.
    try_bind (case recipient_from_output hc out (ha_network ad) recipient of
                Inl e \<Rightarrow> Inl (HaInvalidInstantRefundRecipient e) | Inr s \<Rightarrow> Inr s) (\<lambda>send.
    try_bind (blank_witness_signature (in_witness inp) i our_index) (\<lambda>wit.
      wallet_request_result (wr_spend (instant_refund_key hc pfx op) op value (addr_script addr) wit
        (get_htlc_leaf_script hc p LeafInstantRefund) (get_htlc_leaf_hash hc p LeafInstantRefund)
        (in_sequence inp) SighashSinglePlusAnyoneCanPay (Some send)))))))"

definition prepare_instant_refund_requests ::
    "'k crates \<Rightarrow> htlc_crates \<Rightarrow> htlc_adapter \<Rightarrow> string \<Rightarrow> address \<Rightarrow> htlc_params \<Rightarrow> address \<Rightarrow> string \<Rightarrow> electrs_client \<Rightarrow>
     (htlc_adapter_error, wallet_request list) result \<times> electrs_client" where
  "prepare_instant_refund_requests cr hc ad pfx addr p recipient tx_hex el =
    (case (if ha_executor_pubkey ad = hp_initiator_pubkey p then Some 1
           else if ha_executor_pubkey ad = hp_redeemer_pubkey p then Some 0 else None) of
       None \<Rightarrow> (Inl (HaUnauthorizedRole ''instant_refund''), el)
     | Some our_index \<Rightarrow>
     (case hex_decode cr (trim_0x tx_hex) of
       Inl e \<Rightarrow> (Inl (HaInvalidInstantRefundTx (Format ''{}'' [ArgStr e])), el)
     | Inr bs \<Rightarrow>
     (case deserialize_tx cr bs of
       Inl e \<Rightarrow> (Inl (HaInvalidInstantRefundTx (Format ''{}'' [ArgStr e])), el)
     | Inr tx \<Rightarrow>
         if length (tx_input tx) \<noteq> length (tx_output tx) then (Inl HaInvalidInstantRefundShape, el)
         else
           (case get_address_utxos el (addr_text addr) of
              (Inl e, el) \<Rightarrow> (Inl (map_client_error e), el)
            | (Inr us, el) \<Rightarrow>
                (try_bind (try_map (utxo_entry cr) us) (\<lambda>values.
                   try_map (instant_refund_request hc ad pfx addr p recipient our_index values (tx_output tx))
                     (enumerate 0 (tx_input tx))), el)))))"

section \<open>Preparing an action\<close>

definition prepare_redeem ::
    "'k crates \<Rightarrow> htlc_crates \<Rightarrow> htlc_adapter \<Rightarrow> string \<Rightarrow> address \<Rightarrow> htlc_params \<Rightarrow> bytes \<Rightarrow> electrs_client \<Rightarrow>
     (htlc_adapter_error, wallet_request list) result \<times> electrs_client" where
  "prepare_redeem cr hc ad key addr p secret el =
    (if ha_executor_pubkey ad \<noteq> hp_redeemer_pubkey p then (Inl (HaUnauthorizedRole ''redeem''), el)
     else
       (case resolve_htlc_utxo cr addr (hp_amount p) el of
          (Inl e, el) \<Rightarrow> (Inl e, el)
        | (Inr (op, value, spk), el) \<Rightarrow>
            (try_bind (primitives_result (get_redeem_witness hc p secret)) (\<lambda>wit.
             try_bind (wallet_request_result (wr_spend key op value spk wit (get_htlc_leaf_script hc p LeafRedeem)
               (get_htlc_leaf_hash hc p LeafRedeem) ENABLE_RBF_NO_LOCKTIME SighashAll None)) (\<lambda>req. Inr [req])), el)))"

text \<open>\<open>params.timelock as u32\<close> truncates.\<close>

definition prepare_refund ::
    "'k crates \<Rightarrow> htlc_crates \<Rightarrow> htlc_adapter \<Rightarrow> string \<Rightarrow> address \<Rightarrow> htlc_params \<Rightarrow> electrs_client \<Rightarrow>
     (htlc_adapter_error, wallet_request list) result \<times> electrs_client" where
  "prepare_refund cr hc ad key addr p el =
    (if ha_executor_pubkey ad \<noteq> hp_initiator_pubkey p then (Inl (HaUnauthorizedRole ''refund''), el)
     else
       (case resolve_htlc_utxo cr addr (hp_amount p) el of
          (Inl e, el) \<Rightarrow> (Inl e, el)
        | (Inr (op, value, spk), el) \<Rightarrow>
            (try_bind (primitives_result (get_refund_witness hc p)) (\<lambda>wit.
             try_bind (wallet_request_result (wr_spend key op value spk wit (get_htlc_leaf_script hc p LeafRefund)
               (get_htlc_leaf_hash hc p LeafRefund) (ucast (hp_timelock p)) SighashAll None)) (\<lambda>req. Inr [req])), el)))"

definition prepare_action ::
    "'k crates \<Rightarrow> htlc_crates \<Rightarrow> htlc_adapter \<Rightarrow> adapter_action \<Rightarrow> electrs_client \<Rightarrow>
     (htlc_adapter_error, wallet_request list) result \<times> electrs_client" where
  "prepare_action cr hc ad action el =
    (case action of
       DoInitiate key addr amt \<Rightarrow>
         (try_bind (wallet_request_result (wr_send key addr amt)) (\<lambda>req. Inr [req]), el)
     | DoRedeem key addr p secret \<Rightarrow> prepare_redeem cr hc ad key addr p secret el
     | DoRefund key addr p \<Rightarrow> prepare_refund cr hc ad key addr p el
     | DoInstantRefund pfx addr p recipient tx_hex \<Rightarrow>
         prepare_instant_refund_requests cr hc ad pfx addr p recipient tx_hex el)"

end
