(* ===== verification/BtcExecutor.thy ===== *)
theory BtcExecutor
  imports HtlcAdapter
begin

text \<open>
  The executor (executor/mod.rs, executor/execution_request.rs) and its action executor
  (chain/bitcoin/action_executor.rs): one poll fetches the pending orders, maps each to an action,
  and submits the wallet requests of the actions it has not executed recently. The submitter is a
  parameter, a function on its own state \<open>'s\<close>; the runner's \<open>submit\<close> is one. Answers of a poll are
  a \<open>poll_view\<close>; which keys the cache still holds is part of it, as the cache evicts by age and size.
\<close>

section \<open>The action executor\<close>

type_synonym 's submitter = "wallet_request \<Rightarrow> 's \<Rightarrow> (executor_error, unit) result \<times> 's"

record 'k action_executor =
  ae_wallet :: "'k bitcoin_wallet"
  ae_adapter :: htlc_adapter
  ae_network :: network

definition action_executor_new :: "'k bitcoin_wallet \<Rightarrow> network \<Rightarrow> 'k action_executor" where
  "action_executor_new w net =
    \<lparr>ae_wallet = w, ae_adapter = \<lparr>ha_executor_pubkey = bw_x_only_pubkey w, ha_network = net\<rparr>, ae_network = net\<rparr>"

definition solver_id :: "htlc_crates \<Rightarrow> 'k action_executor \<Rightarrow> string" where
  "solver_id hc ae = hc_hex_encode hc (bw_x_only_pubkey (ae_wallet ae))"

definition solver_address :: "'k action_executor \<Rightarrow> string" where
  "solver_address ae = addr_text (bw_address (ae_wallet ae))"

definition current_block_height :: "electrs_client \<Rightarrow> (executor_error, u64) result \<times> electrs_client" where
  "current_block_height el =
    (case get_block_height el of
       (Inl e, el) \<Rightarrow> (Inl (Chain (Rpc (client_error_message e))), el)
     | (Inr h, el) \<Rightarrow> (Inr h, el))"

definition parse_address :: "htlc_crates \<Rightarrow> network \<Rightarrow> string \<Rightarrow> (executor_error, address) result" where
  "parse_address hc net s =
    (case hc_address_from_str hc s of
       Inl e \<Rightarrow> Inl (Chain (ValidationFailed (Format ''invalid bitcoin address {address}: {err}'' [ArgStr s, ArgStr e])))
     | Inr a \<Rightarrow>
         (case hc_require_network hc a net of
            Inl e \<Rightarrow> Inl (Chain (ValidationFailed
              (Format ''bitcoin address {address} does not match network {:?}: {err}'' [ArgStr s, ArgStr e])))
          | Inr a \<Rightarrow> Inr a))"

definition resolve_htlc_address :: "htlc_crates \<Rightarrow> network \<Rightarrow> single_swap \<Rightarrow> (executor_error, address) result" where
  "resolve_htlc_address hc net sw = parse_address hc net (sw_swap_id sw)"

definition swap_failed :: "string \<Rightarrow> single_swap \<Rightarrow> string \<Rightarrow> executor_error" where
  "swap_failed fmt sw e = Chain (ValidationFailed (Format fmt [ArgStr (sw_swap_id sw), ArgStr e]))"

text \<open>\<open>swap.timelock as u64\<close> extends the sign of the \<open>i32\<close>.\<close>

definition swap_to_htlc_params :: "'k crates \<Rightarrow> htlc_crates \<Rightarrow> single_swap \<Rightarrow> (executor_error, htlc_params) result" where
  "swap_to_htlc_params cr hc sw =
    (case hc_xonly_from_str hc (sw_initiator sw) of
       Inl e \<Rightarrow> Inl (swap_failed ''invalid initiator pubkey for swap {}: {err}'' sw e)
     | Inr initiator \<Rightarrow>
     (case hc_xonly_from_str hc (sw_redeemer sw) of
       Inl e \<Rightarrow> Inl (swap_failed ''invalid redeemer pubkey for swap {}: {err}'' sw e)
     | Inr redeemer \<Rightarrow>
     (case hex_decode cr (sw_secret_hash sw) of
       Inl e \<Rightarrow> Inl (swap_failed ''invalid secret hash for swap {}: {err}'' sw e)
     | Inr h \<Rightarrow>
         if length h \<noteq> 32 then Inl (Chain (ValidationFailed (Format ''secret hash has invalid length for swap {}'' [ArgStr (sw_swap_id sw)])))
         else
           (case parse_u64 (hc_big_decimal_text hc (sw_amount sw)) of
              None \<Rightarrow> Inl (swap_failed ''invalid bitcoin amount for swap {}: {err}'' sw (parse_u64_error (hc_big_decimal_text hc (sw_amount sw))))
            | Some amt \<Rightarrow>
                Inr \<lparr>hp_initiator_pubkey = initiator, hp_redeemer_pubkey = redeemer, hp_amount = amt,
                     hp_secret_hash = h, hp_timelock = scast (sw_timelock sw)\<rparr>))))"

definition adapter_result :: "(htlc_adapter_error, 'a) result \<times> 'b \<Rightarrow> (executor_error, 'a) result \<times> 'b" where
  "adapter_result r =
    (case r of
       (Inl e, el) \<Rightarrow> (Inl (Chain (ChainOther (htlc_adapter_error_message e))), el)
     | (Inr x, el) \<Rightarrow> (Inr x, el))"

definition tars_utxo_of :: "'k crates \<Rightarrow> esplora_utxo \<Rightarrow> (executor_error, tars_utxo) result" where
  "tars_utxo_of cr u =
    (case txid_from_str cr (eu_txid u) of
       Inl e \<Rightarrow> Inl (Chain (DecodeFailed (Format ''invalid electrs txid for instant refund: {err}'' [ArgStr e])))
     | Inr tx \<Rightarrow> Inr \<lparr>tu_txid = tx, tu_vout = eu_vout u, tu_value = eu_value u\<rparr>)"

definition validate_instant_refund_tx ::
    "'k crates \<Rightarrow> htlc_crates \<Rightarrow> (txid \<Rightarrow> nat) \<Rightarrow> 'k action_executor \<Rightarrow> string \<Rightarrow> single_swap \<Rightarrow> htlc_params \<Rightarrow> address \<Rightarrow>
     electrs_client \<Rightarrow> (executor_error, unit) result \<times> electrs_client" where
  "validate_instant_refund_tx cr hc rank ae tx_hex sw p recipient el =
    (case resolve_htlc_address hc (ae_network ae) sw of
       Inl e \<Rightarrow> (Inl e, el)
     | Inr addr \<Rightarrow>
         (case get_address_utxos el (addr_text addr) of
            (Inl e, el) \<Rightarrow> (Inl (Chain (Rpc (client_error_message e))), el)
          | (Inr us, el) \<Rightarrow>
              (try_bind (try_map (tars_utxo_of cr) us) (\<lambda>us.
                 case get_init_tx_hash sw of
                   Inl m \<Rightarrow> Inl (Chain (ValidationFailed (Format ''invalid initiate tx hash on swap {}: {err}''
                     [ArgStr (sw_swap_id sw), ArgMessage m])))
                 | Inr h \<Rightarrow>
                     (case validate_instant_refund_sacp_tx cr hc rank tx_hex h p us recipient (ae_network ae) of
                        Inl m \<Rightarrow> Inl (Chain (ValidationFailed (Format ''invalid instant refund tx for order {}: {err}''
                          [ArgStr (sw_swap_id sw), ArgMessage m])))
                      | Inr _ \<Rightarrow> Inr ())), el)))"

definition prepare_instant_refund ::
    "'k crates \<Rightarrow> htlc_crates \<Rightarrow> (txid \<Rightarrow> nat) \<Rightarrow> 'k action_executor \<Rightarrow> matched_order \<Rightarrow> single_swap \<Rightarrow> htlc_params \<Rightarrow>
     address \<Rightarrow> electrs_client \<Rightarrow> (executor_error, wallet_request list) result \<times> electrs_client" where
  "prepare_instant_refund cr hc rank ae ord sw p addr el =
    (let oid = co_create_id (mo_create_order ord) in
     case ad_instant_refund_tx_bytes (co_additional_data (mo_create_order ord)) of
       None \<Rightarrow> (Inl (Chain (ValidationFailed (Format ''order {} missing instant_refund_tx_bytes'' [ArgStr oid]))), el)
     | Some tx_hex \<Rightarrow>
     (case get_bitcoin_recipient_address ord of
       Inl m \<Rightarrow> (Inl (Chain (ValidationFailed (Format ''order {} missing bitcoin recipient: {err}'' [ArgStr oid, ArgMessage m]))), el)
     | Inr recipient_text \<Rightarrow>
     (case parse_address hc (ae_network ae) recipient_text of
       Inl e \<Rightarrow> (Inl e, el)
     | Inr recipient \<Rightarrow>
     (case validate_instant_refund_tx cr hc rank ae tx_hex sw p recipient el of
       (Inl e, el) \<Rightarrow> (Inl e, el)
     | (Inr _, el) \<Rightarrow>
         adapter_result (prepare_action cr hc (ae_adapter ae)
           (DoInstantRefund (''instant_refund:'' @ sw_swap_id sw) addr p recipient tx_hex) el)))))"

definition prepare_wallet_requests ::
    "'k crates \<Rightarrow> htlc_crates \<Rightarrow> (txid \<Rightarrow> nat) \<Rightarrow> 'k action_executor \<Rightarrow> matched_order \<Rightarrow> htlc_action \<Rightarrow> single_swap \<Rightarrow>
     electrs_client \<Rightarrow> (executor_error, wallet_request list) result \<times> electrs_client" where
  "prepare_wallet_requests cr hc rank ae ord action sw el =
    (case swap_to_htlc_params cr hc sw of
       Inl e \<Rightarrow> (Inl e, el)
     | Inr p \<Rightarrow>
     (case resolve_htlc_address hc (ae_network ae) sw of
       Inl e \<Rightarrow> (Inl e, el)
     | Inr addr \<Rightarrow>
         (case action of
            AInitiate \<Rightarrow>
              adapter_result (prepare_action cr hc (ae_adapter ae) (DoInitiate (''initiate:'' @ sw_swap_id sw) addr (hp_amount p)) el)
          | ARedeem secret \<Rightarrow>
              adapter_result (prepare_action cr hc (ae_adapter ae) (DoRedeem (''redeem:'' @ sw_swap_id sw) addr p secret) el)
          | ARefund \<Rightarrow>
              adapter_result (prepare_action cr hc (ae_adapter ae) (DoRefund (''refund:'' @ sw_swap_id sw) addr p) el)
          | AInstantRefund \<Rightarrow> prepare_instant_refund cr hc rank ae ord sw p addr el
          | other \<Rightarrow>
              (Inl (Chain (Unsupported (Format ''bitcoin executor does not support action {other}'' [ArgStr (show_action other)]))), el))))"

fun submit_all :: "'s submitter \<Rightarrow> wallet_request list \<Rightarrow> 's \<Rightarrow> (executor_error, unit) result \<times> 's" where
  "submit_all sub [] s = (Inr (), s)"
| "submit_all sub (req # reqs) s =
    (case sub req s of
       (Inl e, s') \<Rightarrow> (Inl e, s')
     | (Inr _, s') \<Rightarrow> submit_all sub reqs s')"

definition run_action ::
    "'k crates \<Rightarrow> htlc_crates \<Rightarrow> (txid \<Rightarrow> nat) \<Rightarrow> 's submitter \<Rightarrow> 'k action_executor \<Rightarrow> matched_order \<Rightarrow> htlc_action \<Rightarrow>
     single_swap \<Rightarrow> electrs_client \<times> 's \<Rightarrow> (executor_error, nat) result \<times> electrs_client \<times> 's" where
  "run_action cr hc rank sub ae ord action sw = (\<lambda>(el, s).
    case prepare_wallet_requests cr hc rank ae ord action sw el of
      (Inl e, el) \<Rightarrow> (Inl e, el, s)
    | (Inr reqs, el) \<Rightarrow>
        (case submit_all sub reqs s of
           (Inl e, s) \<Rightarrow> (Inl e, el, s)
         | (Inr _, s) \<Rightarrow> (Inr (length reqs), el, s)))"

section \<open>The executor\<close>

record execution_request =
  er_cache_key :: string
  er_order_id :: string
  er_action :: htlc_action
  er_order :: matched_order
  er_swap :: single_swap

definition execution_request_new :: "matched_order \<Rightarrow> single_swap \<Rightarrow> htlc_action \<Rightarrow> execution_request" where
  "execution_request_new ord sw action =
    (let oid = co_create_id (mo_create_order ord) in
     \<lparr>er_cache_key = oid @ '':'' @ sw_swap_id sw @ '':'' @ show_action action, er_order_id = oid, er_action = action,
      er_order = ord, er_swap = sw\<rparr>)"

record 'k executor =
  ex_chain_identifier :: string
  ex_order_mapper :: order_mapper
  ex_action_executor :: "'k action_executor"

record poll_view =
  pv_orders :: "(message, matched_order list) result"
  pv_now :: timestamp
  pv_destination :: "nat \<Rightarrow> order_view"
  pv_source :: "nat \<Rightarrow> order_view"
  pv_retained :: "string \<Rightarrow> bool"

record 's executor_state =
  es_electrs :: electrs_client
  es_wallet :: 's
  es_cache :: "string list"

definition latest_block_number ::
    "'k executor \<Rightarrow> poll_view \<Rightarrow> matched_order list \<Rightarrow> electrs_client \<Rightarrow> (executor_error, big_decimal option) result \<times> electrs_client" where
  "latest_block_number ex pv ords el =
    (if \<not> has_refundable_swaps (ex_order_mapper ex) (pv_now pv) ords then (Inr None, el)
     else
       (case current_block_height el of
          (Inl e, el) \<Rightarrow> (Inl e, el)
        | (Inr h, el) \<Rightarrow> (Inr (Some (BigDecimal (uint h) 0)), el)))"

definition try_force_source_redeem :: "'k crates \<Rightarrow> 'k executor \<Rightarrow> matched_order \<Rightarrow> action_with_info option" where
  "try_force_source_redeem cr ex ord =
    (let src = mo_source_swap ord; dst = mo_destination_swap ord in
     if \<not> contains (ex_chain_identifier ex) (sw_chain src) then None
     else if ms_is_some (sw_redeem_tx_hash src) \<or> ms_is_some (sw_refund_tx_hash src) then None
     else if \<not> ms_is_some (sw_initiate_tx_hash src) then None
     else if \<not> ms_is_some (sw_secret dst) then None
     else (case hex_decode cr (strip_0x (sw_secret dst)) of
             Inl _ \<Rightarrow> None
           | Inr secret \<Rightarrow> Some \<lparr>ai_action = ARedeem secret, ai_swap = Some src\<rparr>))"

definition request_for_order ::
    "'k crates \<Rightarrow> 'k executor \<Rightarrow> poll_view \<Rightarrow> big_decimal option \<Rightarrow> nat \<times> matched_order \<Rightarrow> execution_request option" where
  "request_for_order cr ex pv latest = (\<lambda>(i, ord).
    case map_order (ex_order_mapper ex) (pv_destination pv i) (pv_source pv i) ord latest of
      Inl _ \<Rightarrow> None
    | Inr info \<Rightarrow>
        (case (if ai_action info = ANoOp then try_force_source_redeem cr ex ord else Some info) of
           None \<Rightarrow> None
         | Some info \<Rightarrow> map_option (\<lambda>sw. execution_request_new ord sw (ai_action info)) (ai_swap info)))"

definition filter_cached_requests :: "poll_view \<Rightarrow> string list \<Rightarrow> execution_request list \<Rightarrow> execution_request list" where
  "filter_cached_requests pv cache reqs = filter (\<lambda>r. \<not> (er_cache_key r \<in> set cache \<and> pv_retained pv (er_cache_key r))) reqs"

definition prepare_execution_requests ::
    "'k crates \<Rightarrow> 'k executor \<Rightarrow> poll_view \<Rightarrow> matched_order list \<Rightarrow> electrs_client \<Rightarrow> string list \<Rightarrow>
     execution_request list \<times> electrs_client" where
  "prepare_execution_requests cr ex pv ords el cache =
    (case latest_block_number ex pv ords el of
       (Inl _, el) \<Rightarrow> ([], el)
     | (Inr latest, el) \<Rightarrow>
         (filter_cached_requests pv cache (List.map_filter (request_for_order cr ex pv latest) (enumerate 0 ords)), el))"

definition execute_request ::
    "'k crates \<Rightarrow> htlc_crates \<Rightarrow> (txid \<Rightarrow> nat) \<Rightarrow> 's submitter \<Rightarrow> 'k executor \<Rightarrow> 's executor_state \<Rightarrow> execution_request \<Rightarrow>
     's executor_state" where
  "execute_request cr hc rank sub ex st r =
    (case run_action cr hc rank sub (ex_action_executor ex) (er_order r) (er_action r) (er_swap r) (es_electrs st, es_wallet st) of
       (Inl _, el, s) \<Rightarrow> st\<lparr>es_electrs := el, es_wallet := s\<rparr>
     | (Inr _, el, s) \<Rightarrow> st\<lparr>es_electrs := el, es_wallet := s, es_cache := er_cache_key r # es_cache st\<rparr>)"

definition executor_poll ::
    "'k crates \<Rightarrow> htlc_crates \<Rightarrow> (txid \<Rightarrow> nat) \<Rightarrow> 's submitter \<Rightarrow> 'k executor \<Rightarrow> poll_view \<Rightarrow> 's executor_state \<Rightarrow> 's executor_state" where
  "executor_poll cr hc rank sub ex pv st =
    (case pv_orders pv of
       Inl _ \<Rightarrow> st
     | Inr ords \<Rightarrow>
         if ords = [] then st
         else
           (let (reqs, el) = prepare_execution_requests cr ex pv ords (es_electrs st) (es_cache st) in
            foldl (execute_request cr hc rank sub ex) (st\<lparr>es_electrs := el\<rparr>) reqs))"

section \<open>Diagnosis of idle orders\<close>

definition source_redeem_block_reason :: "single_swap \<Rightarrow> single_swap \<Rightarrow> string" where
  "source_redeem_block_reason src dst =
    (if ms_is_some (sw_redeem_tx_hash src) then ''source already redeemed''
     else if ms_is_some (sw_refund_tx_hash src) then ''source already refunded''
     else if \<not> ms_is_some (sw_initiate_tx_hash src) then ''source has no initiate tx''
     else if \<not> has_valid_initiate src then ''source initiate has no/zero block number''
     else if \<not> ms_is_some (sw_secret dst) then ''destination secret not yet revealed (waiting for counterparty redeem)''
     else ''redeem preconditions met but additional_check rejected (price/policy)'')"

definition destination_action_block_reason :: "matched_order \<Rightarrow> big_decimal option \<Rightarrow> string" where
  "destination_action_block_reason ord latest =
    (let src = mo_source_swap ord; dst = mo_destination_swap ord in
     if ms_is_some (sw_refund_tx_hash dst) then ''destination already refunded''
     else if ms_is_some (sw_redeem_tx_hash dst) \<and> ms_is_some (sw_secret dst) then ''destination already redeemed''
     else if ms_is_some (sw_initiate_tx_hash dst) then
       (case (latest, sw_initiate_block_number dst) of
          (Some n, Some b) \<Rightarrow>
            if bd_value n \<ge> bd_value b + of_int (sint (sw_timelock dst))
            then ''destination initiated and timelock expired but refund declined (additional_check)''
            else ''destination initiated, waiting for timelock to expire before refund''
        | _ \<Rightarrow> ''destination already initiated, waiting for redeem/refund'')
     else if ad_is_blacklisted (co_additional_data (mo_create_order ord)) then ''order blacklisted; will not initiate''
     else if contains ''bitcoin'' (sw_chain src) \<and> \<not> ms_is_some (sw_initiate_tx_hash src)
     then ''source not yet initiated; cannot initiate destination''
     else if \<not> contains ''bitcoin'' (sw_chain src) \<and> \<not> has_valid_initiate src
     then ''source initiate not valid (no tx or no block number)''
     else if \<not> contains ''bitcoin'' (sw_chain src) \<and> sint (sw_current_confirmations src) < sint (sw_required_confirmations src)
     then ''source initiate awaiting confirmations''
     else if bd_value (sw_filled_amount src) \<noteq> bd_value (sw_amount src)
     then ''source not fully filled; cannot initiate destination''
     else ''initiate preconditions met but additional_check rejected (likely price threshold or instant-refund preferred)'')"

end
