(* ===== verification/HtlcAdapterProps.thy ===== *)
theory HtlcAdapterProps
  imports BtcExecutor OrderMapperProps TxBuilderProps
begin

text \<open>
  What the preparation of wallet requests guarantees: every request is one that the wallet's own
  constructors accept, the output that funds an HTLC is looked up a bounded number of times, and what
  the validation of an instant refund checks is what its wallet requests carry.
\<close>

section \<open>Prepared requests\<close>

lemma wallet_request_result_Inr [try_simps]: "wallet_request_result r = Inr x \<longleftrightarrow> r = Inr x"
  by (simp add: wallet_request_result_def split: sum.splits)

lemma primitives_result_Inr [try_simps]: "primitives_result r = Inr x \<longleftrightarrow> r = Inr x"
  by (simp add: primitives_result_def split: sum.splits)

lemma adapter_result_Inr: "adapter_result r = (Inr x, el) \<longleftrightarrow> r = (Inr x, el)"
  by (cases r) (auto simp: adapter_result_def split: sum.splits)

lemma wr_send_Inr: "wr_send key a v = Inr req \<Longrightarrow> wf_request req \<and> dedupe_key req = key"
  by (auto simp: wr_send_def from_parts_Inr_iff)

lemma wr_spend_Inr:
  "wr_spend key op v spk wit scr leaf sq ty rcp = Inr req \<Longrightarrow>
    wf_request req \<and> req = \<lparr>dedupe_key = key, wr_kind = Spend \<lparr>sp_outpoint = op, sp_value = v, sp_script_pubkey = spk,
      sp_witness_template = wit, sp_script = scr, sp_leaf_hash = leaf, sp_sequence = sq, sp_sighash_type = ty, sp_recipient = rcp\<rparr>\<rparr>"
  by (auto simp: wr_spend_def from_parts_Inr_iff)

text \<open>The action that has one request per swap, and the key of that request.\<close>

definition action_key :: "htlc_action \<Rightarrow> single_swap \<Rightarrow> string option" where
  "action_key a sw =
    (case a of
       AInitiate \<Rightarrow> Some (''initiate:'' @ sw_swap_id sw)
     | ARedeem _ \<Rightarrow> Some (''redeem:'' @ sw_swap_id sw)
     | ARefund \<Rightarrow> Some (''refund:'' @ sw_swap_id sw)
     | _ \<Rightarrow> None)"

lemma single_requests:
  "prepare_redeem cr hc ad key addr p secret el = (Inr reqs, el') \<Longrightarrow> \<exists>req. reqs = [req] \<and> wf_request req \<and> dedupe_key req = key"
  "prepare_refund cr hc ad key addr p el = (Inr reqs, el') \<Longrightarrow> \<exists>req. reqs = [req] \<and> wf_request req \<and> dedupe_key req = key"
  by (auto simp: prepare_redeem_def prepare_refund_def try_simps dest!: wr_spend_Inr split: if_splits sum.splits prod.splits)

lemma instant_refund_request_Inr:
  assumes "instant_refund_request hc ad pfx addr p recipient our values outs (i, inp) = Inr req"
  shows "wf_request req"
    "\<exists>sp. wr_kind req = Spend sp \<and> i < length outs \<and> sp_outpoint sp = in_previous_output inp
       \<and> map_of (rev values) (in_previous_output inp) = Some (sp_value sp)
       \<and> our < length (in_witness inp) \<and> sp_witness_template sp = (in_witness inp)[our := replicate 65 0]
       \<and> sp_script sp = instant_refund_leaf hc (hp_initiator_pubkey p) (hp_redeemer_pubkey p)
       \<and> sp_sighash_type sp = SighashSinglePlusAnyoneCanPay \<and> sp_sequence sp = in_sequence inp
       \<and> sp_recipient sp = Some \<lparr>sr_address = recipient, sr_amount = out_value (outs ! i)\<rparr>
       \<and> hc_address_from_script hc (out_script_pubkey (outs ! i)) (ha_network ad) = Inr recipient"
  using assms
  by (auto simp: instant_refund_request_def Let_def try_simps blank_witness_signature_def recipient_from_output_def
      dest!: wr_spend_Inr split: if_splits sum.splits)

lemma instant_refund_requests_Inr:
  assumes "prepare_instant_refund_requests cr hc ad pfx addr p recipient tx_hex el = (Inr reqs, el')"
  obtains our bs tx vals where
    "our = (if ha_executor_pubkey ad = hp_initiator_pubkey p then 1 else 0)"
    "ha_executor_pubkey ad \<in> {hp_initiator_pubkey p, hp_redeemer_pubkey p}"
    "hex_decode cr (trim_0x tx_hex) = Inr bs" "deserialize_tx cr bs = Inr tx" "length (tx_input tx) = length (tx_output tx)"
    "list_all2 (\<lambda>x req. instant_refund_request hc ad pfx addr p recipient our vals (tx_output tx) x = Inr req)
       (enumerate 0 (tx_input tx)) reqs"
  using assms
  by (force simp: prepare_instant_refund_requests_def try_simps try_map_eq_Inr split: if_splits sum.splits prod.splits)

lemma instant_refund_requests_wf:
  assumes "prepare_instant_refund_requests cr hc ad pfx addr p recipient tx_hex el = (Inr reqs, el')"
  shows "\<forall>req \<in> set reqs. wf_request req"
  using assms
proof (rule instant_refund_requests_Inr)
  fix our bs tx vals
  assume l: "list_all2 (\<lambda>x req. instant_refund_request hc ad pfx addr p recipient our vals (tx_output tx) x = Inr req)
    (enumerate 0 (tx_input tx)) reqs"
  show ?thesis
  proof
    fix req assume "req \<in> set reqs"
    then obtain i where "i < length reqs" "req = reqs ! i" by (auto simp: in_set_conv_nth)
    with l have "instant_refund_request hc ad pfx addr p recipient our vals (tx_output tx) (enumerate 0 (tx_input tx) ! i) = Inr req"
      by (simp add: list_all2_conv_all_nth)
    then show "wf_request req" by (cases "enumerate 0 (tx_input tx) ! i") (auto intro: instant_refund_request_Inr(1))
  qed
qed

lemma prepare_instant_refund_Inr:
  assumes "prepare_instant_refund cr hc rank ae ord sw p addr el = (Inr reqs, el')"
  obtains tx_hex dst recipient el1 where
    "ad_instant_refund_tx_bytes (co_additional_data (mo_create_order ord)) = Some tx_hex"
    "get_bitcoin_recipient_address ord = Inr dst" "parse_address hc (ae_network ae) dst = Inr recipient"
    "validate_instant_refund_tx cr hc rank ae tx_hex sw p recipient el = (Inr (), el1)"
    "prepare_instant_refund_requests cr hc (ae_adapter ae) (''instant_refund:'' @ sw_swap_id sw) addr p recipient tx_hex el1 = (Inr reqs, el')"
  using assms
  by (auto simp: prepare_instant_refund_def Let_def prepare_action_def adapter_result_Inr split: option.splits sum.splits prod.splits)

lemma prepare_wallet_requests_Inr:
  assumes "prepare_wallet_requests cr hc rank ae ord action sw el = (Inr reqs, el')"
  obtains p addr where "swap_to_htlc_params cr hc sw = Inr p" "resolve_htlc_address hc (ae_network ae) sw = Inr addr"
    "action = AInitiate \<Longrightarrow> \<exists>req. reqs = [req] \<and> wr_send (''initiate:'' @ sw_swap_id sw) addr (hp_amount p) = Inr req"
    "\<And>secret. action = ARedeem secret \<Longrightarrow> prepare_redeem cr hc (ae_adapter ae) (''redeem:'' @ sw_swap_id sw) addr p secret el = (Inr reqs, el')"
    "action = ARefund \<Longrightarrow> prepare_refund cr hc (ae_adapter ae) (''refund:'' @ sw_swap_id sw) addr p el = (Inr reqs, el')"
    "action = AInstantRefund \<Longrightarrow> prepare_instant_refund cr hc rank ae ord sw p addr el = (Inr reqs, el')"
    "action \<noteq> ANoOp"
proof -
  obtain p where p: "swap_to_htlc_params cr hc sw = Inr p"
    using assms by (auto simp: prepare_wallet_requests_def split: sum.splits)
  obtain addr where a: "resolve_htlc_address hc (ae_network ae) sw = Inr addr"
    using assms p by (auto simp: prepare_wallet_requests_def split: sum.splits)
  show thesis
    by (rule that[OF p a]) (use assms p a in \<open>auto simp: prepare_wallet_requests_def prepare_action_def adapter_result_Inr try_simps\<close>)
qed

lemma prepared_requests_wf:
  assumes "prepare_wallet_requests cr hc rank ae ord action sw el = (Inr reqs, el')"
  shows "\<forall>req \<in> set reqs. wf_request req"
    and "action_key action sw = Some k \<Longrightarrow> \<exists>req. reqs = [req] \<and> dedupe_key req = k"
proof -
  have "(\<forall>req \<in> set reqs. wf_request req) \<and> (\<forall>k. action_key action sw = Some k \<longrightarrow> (\<exists>req. reqs = [req] \<and> dedupe_key req = k))"
  proof (rule prepare_wallet_requests_Inr[OF assms])
  fix p addr
  assume P: "action = AInitiate \<Longrightarrow> \<exists>req. reqs = [req] \<and> wr_send (''initiate:'' @ sw_swap_id sw) addr (hp_amount p) = Inr req"
    "\<And>secret. action = ARedeem secret \<Longrightarrow> prepare_redeem cr hc (ae_adapter ae) (''redeem:'' @ sw_swap_id sw) addr p secret el = (Inr reqs, el')"
    "action = ARefund \<Longrightarrow> prepare_refund cr hc (ae_adapter ae) (''refund:'' @ sw_swap_id sw) addr p el = (Inr reqs, el')"
    "action = AInstantRefund \<Longrightarrow> prepare_instant_refund cr hc rank ae ord sw p addr el = (Inr reqs, el')"
    "action \<noteq> ANoOp"
  show "(\<forall>req \<in> set reqs. wf_request req) \<and> (\<forall>k. action_key action sw = Some k \<longrightarrow> (\<exists>req. reqs = [req] \<and> dedupe_key req = k))"
  proof (cases action)
    case AInitiate
    with P(1) show ?thesis by (auto simp: action_key_def dest: wr_send_Inr)
  next
    case (ARedeem secret)
    from single_requests(1)[OF P(2)[OF this]] ARedeem show ?thesis by (auto simp: action_key_def)
  next
    case ARefund
    from single_requests(2)[OF P(3)[OF this]] ARefund show ?thesis by (auto simp: action_key_def)
  next
    case AInstantRefund
    have "\<forall>req \<in> set reqs. wf_request req"
      by (rule prepare_instant_refund_Inr[OF P(4)[OF AInstantRefund]]) (rule instant_refund_requests_wf)
    with AInstantRefund show ?thesis by (simp add: action_key_def)
  qed (use P(5) assms in \<open>auto simp: prepare_wallet_requests_def split: sum.splits\<close>)
  qed
  then show "\<forall>req \<in> set reqs. wf_request req"
    and "action_key action sw = Some k \<Longrightarrow> \<exists>req. reqs = [req] \<and> dedupe_key req = k" by blast+
qed

section \<open>Finding the funded output\<close>

text \<open>What the lookup makes of the answer to its \<open>j\<close>-th question.\<close>

definition resolve_answer :: "electrs_client \<Rightarrow> address \<Rightarrow> nat \<Rightarrow> (client_error, esplora_utxo list) result" where
  "resolve_answer el addr j = el_address_utxos el (el_clock el + j) (addr_text addr)"

text \<open>An answer that makes the lookup ask again.\<close>

definition inconclusive :: "address \<Rightarrow> u64 \<Rightarrow> (client_error, esplora_utxo list) result \<Rightarrow> bool" where
  "inconclusive addr expected ans = (\<exists>us. ans = Inr us \<and> length us \<noteq> 1 \<and> (\<forall>u \<in> set us. eu_value u \<noteq> expected))"

lemma choose_cases:
  obtains "choose_htlc_utxo addr expected us = Inr None" "inconclusive addr expected (Inr us)"
  | u where "choose_htlc_utxo addr expected us = Inr (Some u)" "\<not> inconclusive addr expected (Inr us)" "u \<in> set us"
      "filter (\<lambda>v. eu_value v = expected) us = [u] \<or> eu_value u \<noteq> expected \<and> us = [u]"
  | "choose_htlc_utxo addr expected us = Inl (HaAmbiguousHtlcUtxo addr expected)" "\<not> inconclusive addr expected (Inr us)"
proof -
  let ?ms = "filter (\<lambda>v. eu_value v = expected) us"
  have i: "inconclusive addr expected (Inr us) \<longleftrightarrow> length us \<noteq> 1 \<and> ?ms = []" by (auto simp: inconclusive_def filter_empty_conv)
  consider "?ms = []" | u where "?ms = [u]" | u w ws where "?ms = u # w # ws" by (metis neq_Nil_conv)
  then show thesis
  proof cases
    case 1
    consider u where "us = [u]" | "length us \<noteq> 1" by (auto simp: length_Suc_conv)
    then show thesis
    proof cases
      case (1 u)
      with that(2)[of u] \<open>?ms = []\<close> i show thesis by (auto simp: choose_htlc_utxo_def split: if_splits)
    next
      case 2
      with that(1) 1 i show thesis by (simp add: choose_htlc_utxo_def)
    qed
  next
    case (2 u)
    then have "u \<in> set ?ms" by simp
    then have "u \<in> set us" by (simp only: set_filter mem_Collect_eq)
    with that(2)[of u] 2 i show thesis by (simp add: choose_htlc_utxo_def)
  next
    case 3
    with that(3) i show thesis by (simp add: choose_htlc_utxo_def)
  qed
qed

text \<open>What the last answer says about the result.\<close>

definition concludes :: "'k crates \<Rightarrow> address \<Rightarrow> u64 \<Rightarrow> (client_error, esplora_utxo list) result \<Rightarrow>
    (htlc_adapter_error, outpoint \<times> u64 \<times> script) result \<Rightarrow> bool" where
  "concludes cr addr expected ans res =
    ((\<forall>a v. res = Inl (HaMissingHtlcUtxo a v) \<longrightarrow> inconclusive addr expected ans)
     \<and> (\<forall>op v spk. res = Inr (op, v, spk) \<longrightarrow>
        (\<exists>us u. ans = Inr us \<and> u \<in> set us \<and> v = eu_value u \<and> op_vout op = eu_vout u
          \<and> txid_from_str cr (eu_txid u) = Inr (op_txid op) \<and> spk = addr_script addr
          \<and> (filter (\<lambda>v. eu_value v = expected) us = [u] \<or> eu_value u \<noteq> expected \<and> us = [u]))))"

lemma resolve_conclusive:
  assumes "\<not> inconclusive addr expected (resolve_answer el addr 0)" "resolve_loop cr addr expected n el = (res, el')"
  shows "el' = el\<lparr>el_clock := el_clock el + 1\<rparr>" "\<nexists>a v. res = Inl (HaMissingHtlcUtxo a v)"
    "concludes cr addr expected (resolve_answer el addr 0) res"
proof -
  have "el' = el\<lparr>el_clock := el_clock el + 1\<rparr> \<and> (\<nexists>a v. res = Inl (HaMissingHtlcUtxo a v))
    \<and> concludes cr addr expected (resolve_answer el addr 0) res"
  proof (cases "el_address_utxos el (el_clock el) (addr_text addr)")
    case (Inl e)
    with assms(2) show ?thesis
      by (subst (asm) resolve_loop.simps) (auto simp: get_address_utxos_def map_client_error_def concludes_def)
  next
    case (Inr us)
    then have ans: "resolve_answer el addr 0 = Inr us" by (simp add: resolve_answer_def)
    show ?thesis
    proof (cases rule: choose_cases[of addr expected us])
      case 1
      with assms(1) ans show ?thesis by simp
    next
      case (2 u)
      with assms(2) Inr ans show ?thesis
        by (subst (asm) resolve_loop.simps) (auto simp: get_address_utxos_def concludes_def split: sum.splits)
    next
      case 3
      with assms(2) Inr ans show ?thesis
        by (subst (asm) resolve_loop.simps) (auto simp: get_address_utxos_def concludes_def)
    qed
  qed
  then show "el' = el\<lparr>el_clock := el_clock el + 1\<rparr>" "\<nexists>a v. res = Inl (HaMissingHtlcUtxo a v)"
    "concludes cr addr expected (resolve_answer el addr 0) res" by blast+
qed

lemma resolve_inconclusive:
  assumes "inconclusive addr expected (resolve_answer el addr 0)"
  shows "resolve_loop cr addr expected n el =
    (case n of 0 \<Rightarrow> (Inl (HaMissingHtlcUtxo addr expected), el\<lparr>el_clock := el_clock el + 1\<rparr>)
     | Suc m \<Rightarrow> resolve_loop cr addr expected m (el\<lparr>el_clock := el_clock el + 1\<rparr>))"
proof -
  obtain us where us: "el_address_utxos el (el_clock el) (addr_text addr) = Inr us"
    using assms by (auto simp: inconclusive_def resolve_answer_def)
  then have i: "inconclusive addr expected (Inr us)" using assms by (simp add: resolve_answer_def)
  have "choose_htlc_utxo addr expected us = Inr None"
    by (cases rule: choose_cases[of addr expected us]) (use i in simp_all)
  with us show ?thesis by (subst resolve_loop.simps) (simp add: get_address_utxos_def split: nat.splits)
qed

lemma resolve_loop_outcome:
  assumes "resolve_loop cr addr expected n el = (res, el')"
  shows "\<exists>k \<le> n. el_clock el' = el_clock el + Suc k \<and> (\<forall>j < k. inconclusive addr expected (resolve_answer el addr j))
    \<and> concludes cr addr expected (resolve_answer el addr k) res
    \<and> (\<forall>a v. res = Inl (HaMissingHtlcUtxo a v) \<longrightarrow> k = n)"
  using assms
proof (induction n arbitrary: el)
  case 0
  then show ?case
    by (cases "inconclusive addr expected (resolve_answer el addr 0)")
      (auto simp: resolve_inconclusive concludes_def simp del: resolve_loop.simps dest: resolve_conclusive)
next
  case (Suc n)
  show ?case
  proof (cases "inconclusive addr expected (resolve_answer el addr 0)")
    case True
    let ?el = "el\<lparr>el_clock := el_clock el + 1\<rparr>"
    have "resolve_loop cr addr expected n ?el = (res, el')"
      using Suc.prems by (simp add: resolve_inconclusive[OF True] del: resolve_loop.simps)
    from Suc.IH[OF this] obtain k where k: "k \<le> n" "el_clock el' = el_clock ?el + Suc k"
      "\<forall>j < k. inconclusive addr expected (resolve_answer ?el addr j)"
      "concludes cr addr expected (resolve_answer ?el addr k) res" "\<forall>a v. res = Inl (HaMissingHtlcUtxo a v) \<longrightarrow> k = n"
      by blast
    have a: "resolve_answer ?el addr j = resolve_answer el addr (Suc j)" for j by (simp add: resolve_answer_def)
    have "\<forall>j < Suc k. inconclusive addr expected (resolve_answer el addr j)"
      using k(3) True unfolding a by (metis less_Suc_eq_0_disj)
    with k show ?thesis unfolding a by (intro exI[of _ "Suc k"]) simp
  next
    case False
    from resolve_conclusive[OF False Suc.prems] show ?thesis by (intro exI[of _ 0]) simp
  qed
qed

text \<open>The lookup of the funded output asks at most six times, and reports the output missing only if all
  six answers held neither an output of the expected value nor exactly one output. The output it
  returns is the only one of the expected value, or else the only one at all, whose value is then
  not the expected one.\<close>

theorem htlc_lookup_outcome:
  assumes "resolve_htlc_utxo cr addr expected el = (res, el')"
  shows "\<exists>k \<le> 5. el_clock el' = el_clock el + Suc k \<and> (\<forall>j < k. inconclusive addr expected (resolve_answer el addr j))
    \<and> (\<forall>a v. res = Inl (HaMissingHtlcUtxo a v) \<longrightarrow> k = 5 \<and> inconclusive addr expected (resolve_answer el addr 5))
    \<and> (\<forall>op v spk. res = Inr (op, v, spk) \<longrightarrow>
        (\<exists>us u. resolve_answer el addr k = Inr us \<and> u \<in> set us \<and> v = eu_value u \<and> op_vout op = eu_vout u
          \<and> (v = expected \<and> filter (\<lambda>v. eu_value v = expected) us = [u] \<or> v \<noteq> expected \<and> us = [u])))"
proof -
  obtain k where k: "k \<le> 5" "el_clock el' = el_clock el + Suc k" "\<forall>j < k. inconclusive addr expected (resolve_answer el addr j)"
    and c: "concludes cr addr expected (resolve_answer el addr k) res" and m: "\<forall>a v. res = Inl (HaMissingHtlcUtxo a v) \<longrightarrow> k = 5"
    using resolve_loop_outcome[OF assms[unfolded resolve_htlc_utxo_def RESOLVE_MAX_RETRIES_def]] by blast
  have "\<exists>us u. resolve_answer el addr k = Inr us \<and> u \<in> set us \<and> v = eu_value u \<and> op_vout op = eu_vout u
          \<and> (v = expected \<and> filter (\<lambda>v. eu_value v = expected) us = [u] \<or> v \<noteq> expected \<and> us = [u])"
    if e: "res = Inr (op, v, spk)" for op v spk
  proof -
    obtain us u where u: "resolve_answer el addr k = Inr us" "u \<in> set us" "v = eu_value u" "op_vout op = eu_vout u"
      and f: "filter (\<lambda>v. eu_value v = expected) us = [u] \<or> eu_value u \<noteq> expected \<and> us = [u]"
      using c e unfolding concludes_def by blast
    have "eu_value u = expected" if "filter (\<lambda>v. eu_value v = expected) us = [u]"
      using that by (metis (mono_tags, lifting) filter_eq_Cons_iff)
    with u f show ?thesis by auto
  qed
  with k m c show ?thesis by (intro exI[of _ k]) (auto simp: concludes_def)
qed

section \<open>Instant refunds\<close>






text \<open>The validation does not look at how the submitted transaction distributes its outputs, nor at the
  output indices and sequence numbers of its inputs: two transactions with the same witnesses, the
  same transaction identifiers of their inputs and the same total of their outputs are accepted
  alike, although the user's signatures commit to all of these and at most one of the two can be valid.\<close>

theorem sacp_validation_ignores_shape:
  assumes "hc_alloy_hex_decode hc hex1 = Inr bs1" "deserialize_tx cr bs1 = Inr tx1"
    and "hc_alloy_hex_decode hc hex2 = Inr bs2" "deserialize_tx cr bs2 = Inr tx2"
    and "map in_witness (tx_input tx1) = map in_witness (tx_input tx2)"
    and "map (\<lambda>i. op_txid (in_previous_output i)) (tx_input tx1) = map (\<lambda>i. op_txid (in_previous_output i)) (tx_input tx2)"
    and "sum_list (map out_value (tx_output tx1)) = sum_list (map out_value (tx_output tx2))"
  shows "validate_instant_refund_sacp_tx cr hc rank hex1 h p us recipient net =
    validate_instant_refund_sacp_tx cr hc rank hex2 h p us recipient net"
proof -
  have l: "length (tx_input tx1) = length (tx_input tx2)" using assms(5) by (metis length_map)
  have "try_fold (check_sacp_input hc p t) found (zip ins1 hashes) = try_fold (check_sacp_input hc p t) found (zip ins2 hashes)"
    if "map in_witness ins1 = map in_witness ins2" "map (\<lambda>i. op_txid (in_previous_output i)) ins1 = map (\<lambda>i. op_txid (in_previous_output i)) ins2"
    for t found ins1 ins2 hashes
    using that
  proof (induction ins1 arbitrary: ins2 hashes found)
    case (Cons i ins1)
    then obtain i' ins2' where e: "ins2 = i' # ins2'" by (cases ins2) auto
    note IH = Cons.IH and P = Cons.prems
    show ?case
    proof (cases hashes)
      case (Cons hash hashes')
      have "check_sacp_input hc p t found (i, hash) = check_sacp_input hc p t found (i', hash)"
        using P e by (auto simp: check_sacp_input_def split: sum.splits)
      with IH[of ins2' _ hashes'] P e Cons show ?thesis by (simp add: try_bind_def split: sum.splits)
    qed simp
  qed simp
  from this[OF assms(5,6)] show ?thesis
    by (simp add: validate_instant_refund_sacp_tx_def assms(1-4,7) l Let_def split: sum.splits)
qed


section \<open>Examples\<close>

definition demo_hc :: htlc_crates where
  "demo_hc =
    \<lparr>hc_into_script = \<lambda>_. [], hc_leaf_hash = \<lambda>_. 0, hc_add_leaf_error = \<lambda>_ _. None, hc_is_finalizable = \<lambda>_. True,
     hc_finalizes = \<lambda>_ _. True, hc_merkle_root = \<lambda>_. None, hc_control_block = \<lambda>_ _. Some [],
     hc_p2tr = \<lambda>_ _ _. \<lparr>addr_text = ''htlc'', addr_script = [83]\<rparr>, hc_internal_key = [],
     hc_alloy_hex_decode = \<lambda>s. Inr (map of_char (trim_0x s)), hc_hex_encode = \<lambda>_. [], hc_sha256 = id,
     hc_xonly_from_str = \<lambda>s. Inr (map of_char s), hc_address_from_str = \<lambda>s. Inr \<lparr>addr_text = s, addr_script = [84]\<rparr>,
     hc_require_network = \<lambda>a _. Inr a, hc_address_from_script = \<lambda>_ _. Inr \<lparr>addr_text = ''user'', addr_script = [84]\<rparr>,
     hc_big_decimal_text = \<lambda>_. ''1000'', hc_txid_text = \<lambda>_. ''tx1'',
     hc_signature_from_slice = \<lambda>bs. Inr (bs, SighashSinglePlusAnyoneCanPay), hc_verify_schnorr = \<lambda>_ _ _. Inr (),
     hc_sighash = \<lambda>_ _ _ _ _ _. Inr 0\<rparr>"

text \<open>The instant refund of a source: one input with the user's signature, one output of 900.\<close>

definition demo_refund_tx :: transaction where
  "demo_refund_tx = \<lparr>tx_version = 2, tx_lock_time = 0,
     tx_input = [\<lparr>in_previous_output = \<lparr>op_txid = 3, op_vout = 0\<rparr>, in_script_sig = [], in_sequence = SEQUENCE_MAX,
       in_witness = [[], [9], [], []]\<rparr>],
     tx_output = [\<lparr>out_value = 900, out_script_pubkey = [84]\<rparr>]\<rparr>"

definition demo_refund_crates :: "unit crates" where
  "demo_refund_crates = demo_crates\<lparr>hex_decode := \<lambda>s. Inr (map of_char s), deserialize_tx := \<lambda>_. Inr demo_refund_tx,
     txid_from_str := \<lambda>_. Inr 3\<rparr>"

definition demo_utxo :: "nat \<Rightarrow> esplora_utxo" where
  "demo_utxo v = \<lparr>eu_txid = ''tx1'', eu_vout = 0, eu_value = of_nat v,
     eu_status = \<lparr>ts_confirmed = True, ts_block_height = Some 7, ts_block_hash = None, ts_block_time = None\<rparr>\<rparr>"

definition demo_utxos :: "nat list \<Rightarrow> electrs_client" where
  "demo_utxos vs = \<lparr>el_clock = 0, el_address_utxos = \<lambda>n addr. Inr (map demo_utxo vs), el_block_height = \<lambda>n. Inr 800000\<rparr>"

definition demo_solver :: "unit action_executor" where
  "demo_solver = \<lparr>ae_wallet = demo_wallet, ae_adapter = \<lparr>ha_executor_pubkey = [98], ha_network = Regtest\<rparr>, ae_network = Regtest\<rparr>"

definition demo_htlc :: htlc_params where
  "demo_htlc = \<lparr>hp_initiator_pubkey = [97], hp_redeemer_pubkey = [98], hp_amount = 1000, hp_secret_hash = [], hp_timelock = 144\<rparr>"

definition refundable_order :: matched_order where
  "refundable_order = funded_order\<lparr>mo_create_order := (mo_create_order funded_order)\<lparr>co_additional_data :=
     (co_additional_data (mo_create_order funded_order))\<lparr>ad_bitcoin_optional_recipient := Some ''user'',
       ad_instant_refund_tx_bytes := Some ''aa''\<rparr>\<rparr>\<rparr>"

lemmas demo_adapter_defs = demo_hc_def demo_refund_tx_def demo_refund_crates_def demo_utxo_def demo_utxos_def demo_solver_def
  demo_htlc_def refundable_order_def

lemma demo_lookup:
  "resolve_htlc_utxo demo_refund_crates \<lparr>addr_text = ''s1'', addr_script = [84]\<rparr> 1000 (demo_utxos [900]) =
    (Inr (\<lparr>op_txid = 3, op_vout = 0\<rparr>, 900, [84]), (demo_utxos [900])\<lparr>el_clock := 1\<rparr>)"
  by (subst resolve_htlc_utxo_def, subst resolve_loop.simps)
    (simp add: get_address_utxos_def choose_htlc_utxo_def demo_adapter_defs)

text \<open>A sole output of another value is taken although 1000 was expected.\<close>

lemma htlc_lookup_outcome_witness:
  "(\<exists>el. resolve_htlc_utxo demo_refund_crates \<lparr>addr_text = ''s1'', addr_script = [84]\<rparr> 1000 (demo_utxos [900]) =
      (Inr (\<lparr>op_txid = 3, op_vout = 0\<rparr>, 900, [84]), el))
   \<and> (\<exists>k \<le> 5. \<exists>us u. resolve_answer (demo_utxos [900]) \<lparr>addr_text = ''s1'', addr_script = [84]\<rparr> k = Inr us \<and> us = [u])"
proof -
  have f: "filter P xs = [u] \<Longrightarrow> u \<in> set xs" for P :: "esplora_utxo \<Rightarrow> bool" and xs u
    by (metis filter_is_subset list.set_intros(1) subset_iff)
  from htlc_lookup_outcome[OF demo_lookup] demo_lookup show ?thesis by fastforce
qed

lemma demo_lower: "map to_lower ''tx1'' = ''tx1''"
  by code_simp




text \<open>Two transactions with two inputs and the same total, split 900 to 900 and 1000 to 800.\<close>

definition demo_shape :: "u64 \<Rightarrow> u64 \<Rightarrow> transaction" where
  "demo_shape v w = \<lparr>tx_version = 2, tx_lock_time = 0,
     tx_input = map (\<lambda>n. \<lparr>in_previous_output = \<lparr>op_txid = 3, op_vout = n\<rparr>, in_script_sig = [], in_sequence = SEQUENCE_MAX,
       in_witness = [[], [9], [], []]\<rparr>) [0, 1],
     tx_output = map (\<lambda>v. \<lparr>out_value = v, out_script_pubkey = [84]\<rparr>) [v, w]\<rparr>"

definition demo_shape_crates :: "unit crates" where
  "demo_shape_crates = demo_crates\<lparr>deserialize_tx := \<lambda>bs. Inr (if bs = [] then demo_shape 900 900 else demo_shape 1000 800)\<rparr>"

lemma sacp_validation_ignores_shape_witness:
  "validate_instant_refund_sacp_tx demo_shape_crates demo_hc (\<lambda>_. 0) '''' ''tx1'' demo_htlc
     [\<lparr>tu_txid = 3, tu_vout = 0, tu_value = 1000\<rparr>, \<lparr>tu_txid = 3, tu_vout = 1, tu_value = 1000\<rparr>]
     \<lparr>addr_text = ''user'', addr_script = [84]\<rparr> Regtest = Inr ()
   \<and> validate_instant_refund_sacp_tx demo_shape_crates demo_hc (\<lambda>_. 0) ''a'' ''tx1'' demo_htlc
     [\<lparr>tu_txid = 3, tu_vout = 0, tu_value = 1000\<rparr>, \<lparr>tu_txid = 3, tu_vout = 1, tu_value = 1000\<rparr>]
     \<lparr>addr_text = ''user'', addr_script = [84]\<rparr> Regtest = Inr ()"
proof -
  have "validate_instant_refund_sacp_tx demo_shape_crates demo_hc (\<lambda>_. 0) '''' ''tx1'' demo_htlc
     [\<lparr>tu_txid = 3, tu_vout = 0, tu_value = 1000\<rparr>, \<lparr>tu_txid = 3, tu_vout = 1, tu_value = 1000\<rparr>]
     \<lparr>addr_text = ''user'', addr_script = [84]\<rparr> Regtest = Inr ()"
    by (simp add: validate_instant_refund_sacp_tx_def generate_instant_refund_hash_def
      validate_hash_generation_params_def sort_utxos_def htlc_address_def construct_tree_def add_leaf_def create_previous_outputs_def
      tars_build_tx_def validate_utxos_def get_output_values_def create_outputs_def max_index_def output_after_fee_def
      is_above_dust_limit_def DUST_LIMIT_def create_inputs_from_utxos_def with_prevout_def generate_sighash_def
      check_sacp_input_def validate_schnorr_signature_def demo_lower[simplified] demo_adapter_defs demo_shape_def demo_shape_crates_def Let_def)
  moreover have "validate_instant_refund_sacp_tx demo_shape_crates demo_hc (\<lambda>_. 0) '''' ''tx1'' demo_htlc us rc Regtest =
     validate_instant_refund_sacp_tx demo_shape_crates demo_hc (\<lambda>_. 0) ''a'' ''tx1'' demo_htlc us rc Regtest" for us rc
    by (rule sacp_validation_ignores_shape[where ?bs1.0 = "[]" and ?bs2.0 = "[97]" and ?tx1.0 = "demo_shape 900 900" and ?tx2.0 = "demo_shape 1000 800"])
      (simp_all add: demo_shape_crates_def demo_hc_def demo_shape_def)
  ultimately show ?thesis by simp
qed

end
