(* ===== verification/BtcExecutorProps.thy ===== *)
theory BtcExecutorProps
  imports HtlcAdapterProps WalletRunnerLife
begin

text \<open>
  What the executor achieves through a submitter of wallet requests, as a locale, and the wallet
  runner as its provider; what a failing height request does to a poll.
\<close>

section \<open>A submitter of wallet requests\<close>

locale request_submitter =
  fixes sub :: "'s submitter" and inv :: "'s \<Rightarrow> bool" and recorded handed :: "'s \<Rightarrow> string \<Rightarrow> bool"
  assumes keeps: "inv s \<Longrightarrow> wf_request req \<Longrightarrow> sub req s = (res, s') \<Longrightarrow> inv s'"
    and records: "inv s \<Longrightarrow> sub req s = (Inr u, s') \<Longrightarrow> recorded s' (dedupe_key req)"
    and hands_over: "inv s \<Longrightarrow> sub req s = (Inr u, s') \<Longrightarrow> \<not> recorded s (dedupe_key req) \<Longrightarrow> handed s' (dedupe_key req)"
    and remembers: "inv s \<Longrightarrow> recorded s k \<Longrightarrow> sub req s = (res, s') \<Longrightarrow> recorded s' k"
    and still_handed: "inv s \<Longrightarrow> handed s k \<Longrightarrow> sub req s = (res, s') \<Longrightarrow> handed s' k"
    and fresh_only: "inv s \<Longrightarrow> sub req s = (res, s') \<Longrightarrow> recorded s' k \<Longrightarrow> recorded s k \<or> handed s' k"
    and again: "inv s \<Longrightarrow> recorded s (dedupe_key req) \<Longrightarrow> sub req s = (res, s') \<Longrightarrow> s' = s"
begin

lemma submit_all_keeps:
  assumes "submit_all sub reqs s = (res, s')" "inv s" "\<forall>req \<in> set reqs. wf_request req"
  shows "inv s'" "recorded s k \<Longrightarrow> recorded s' k" "handed s k \<Longrightarrow> handed s' k"
    and "recorded s' k \<Longrightarrow> recorded s k \<or> handed s' k"
proof -
  have "inv s' \<and> (recorded s k \<longrightarrow> recorded s' k) \<and> (handed s k \<longrightarrow> handed s' k) \<and> (recorded s' k \<longrightarrow> recorded s k \<or> handed s' k)"
    using assms
  proof (induction reqs arbitrary: s)
    case (Cons req reqs)
    obtain r1 s1 where e: "sub req s = (r1, s1)" by (cases "sub req s")
    have i: "inv s1" using keeps[OF Cons.prems(2) _ e] Cons.prems(3) by simp
    show ?case
    proof (cases r1)
      case (Inl err)
      with Cons.prems(1) e have "s' = s1" by simp
      with remembers[OF Cons.prems(2) _ e] still_handed[OF Cons.prems(2) _ e] fresh_only[OF Cons.prems(2) e] i
      show ?thesis by simp
    next
      case (Inr u)
      with Cons.prems(1) e have "submit_all sub reqs s1 = (res, s')" by simp
      with Cons.IH[OF this i] Cons.prems(3)
        remembers[OF Cons.prems(2) _ e] still_handed[OF Cons.prems(2) _ e] fresh_only[OF Cons.prems(2) e]
      show ?thesis by auto
    qed
  qed simp
  then show "inv s'" "recorded s k \<Longrightarrow> recorded s' k" "handed s k \<Longrightarrow> handed s' k"
    "recorded s' k \<Longrightarrow> recorded s k \<or> handed s' k" by blast+
qed

lemma submit_all_records:
  assumes "submit_all sub reqs s = (Inr u, s')" "inv s" "\<forall>req \<in> set reqs. wf_request req" "req \<in> set reqs"
  shows "recorded s' (dedupe_key req)"
  using assms
proof (induction reqs arbitrary: s)
  case (Cons r reqs)
  then obtain s1 where e: "sub r s = (Inr (), s1)" "submit_all sub reqs s1 = (Inr u, s')"
    by (auto split: prod.splits sum.splits)
  have i: "inv s1" using keeps[OF Cons.prems(2) _ e(1)] Cons.prems(3) by simp
  show ?case
  proof (cases "req = r")
    case True
    then show ?thesis using records[OF Cons.prems(2) e(1)] submit_all_keeps(2)[OF e(2) i] Cons.prems(3) by simp
  next
    case False
    then show ?thesis using Cons.IH[OF e(2) i] Cons.prems by simp
  qed
qed simp

text \<open>One action.\<close>

lemma run_action_keeps:
  assumes "run_action cr hc rank sub ae ord action sw (el, s) = (res, el', s')" "inv s"
  shows "inv s'" "recorded s k \<Longrightarrow> recorded s' k"
proof -
  obtain r el1 where p: "prepare_wallet_requests cr hc rank ae ord action sw el = (r, el1)"
    by (cases "prepare_wallet_requests cr hc rank ae ord action sw el")
  have "inv s' \<and> (recorded s k \<longrightarrow> recorded s' k)"
  proof (cases r)
    case (Inr reqs)
    obtain r2 where "submit_all sub reqs s = (r2, s')"
      using assms(1) p Inr by (auto simp: run_action_def split: sum.splits prod.splits)
    from submit_all_keeps(1,2)[OF this assms(2) prepared_requests_wf(1)[OF p[unfolded Inr]]] show ?thesis by blast
  qed (use assms p in \<open>auto simp: run_action_def\<close>)
  then show "inv s'" "recorded s k \<Longrightarrow> recorded s' k" by blast+
qed

lemma run_action_records:
  assumes "run_action cr hc rank sub ae ord action sw (el, s) = (Inr n, el', s')" "inv s"
  shows "\<exists>reqs. prepare_wallet_requests cr hc rank ae ord action sw el = (Inr reqs, el') \<and> n = length reqs
    \<and> (\<forall>req \<in> set reqs. recorded s' (dedupe_key req) \<and> (\<not> recorded s (dedupe_key req) \<longrightarrow> handed s' (dedupe_key req)))"
proof -
  obtain reqs where p: "prepare_wallet_requests cr hc rank ae ord action sw el = (Inr reqs, el')" "n = length reqs"
    and s: "submit_all sub reqs s = (Inr (), s')"
    using assms(1) by (auto simp: run_action_def split: sum.splits prod.splits)
  note wf = prepared_requests_wf(1)[OF p(1)]
  show ?thesis using p submit_all_records[OF s assms(2) wf] submit_all_keeps(4)[OF s assms(2) wf] by blast
qed

lemma run_action_again:
  assumes "run_action cr hc rank sub ae ord action sw (el, s) = (res, el', s')" "inv s"
    and "action_key action sw = Some k" "recorded s k"
  shows "s' = s"
  using assms prepared_requests_wf(2)[of cr hc rank ae ord action sw el _ _ k]
  by (fastforce simp: run_action_def split: sum.splits prod.splits dest: again)

text \<open>A poll.\<close>

lemma execute_request_keeps: "inv (es_wallet st) \<Longrightarrow> inv (es_wallet (execute_request cr hc rank sub ex st r))"
  using run_action_keeps(1) by (auto simp: execute_request_def split: sum.splits prod.splits)

lemma poll_keeps:
  assumes "inv (es_wallet st)"
  shows "inv (es_wallet (executor_poll cr hc rank sub ex pv st))"
proof -
  have "inv (es_wallet st) \<Longrightarrow> inv (es_wallet (foldl (execute_request cr hc rank sub ex) st rs))" for rs st
    by (induction rs arbitrary: st) (simp_all add: execute_request_keeps)
  then show ?thesis using assms by (simp add: executor_poll_def split: sum.splits prod.splits)
qed

end

section \<open>The wallet runner provides it\<close>

text \<open>Rows are never deleted: no operation of the store removes a key.\<close>

lemma row_pks_kept:
  assumes "table_wf t"
  shows "enqueue now t scope req = Inr (eres, t') \<Longrightarrow> row_pk ` set t \<subseteq> row_pk ` set t'"
    and "resolve_pending t scope key = Inr (rres, t') \<Longrightarrow> row_pk ` set t \<subseteq> row_pk ` set t'"
    and "persist_broadcast t scope bplan = Inr (receipt, t') \<Longrightarrow> row_pk ` set t \<subseteq> row_pk ` set t'"
    and "persist_confirmation t scope cplan = Inr (u, t') \<Longrightarrow> row_pk ` set t \<subseteq> row_pk ` set t'"
    and "persist_reconciliation t scope rplan = Inr (u, t') \<Longrightarrow> row_pk ` set t \<subseteq> row_pk ` set t'"
proof -
  have M: "row_pk ` set t \<subseteq> row_pk ` set (map f t)" if "\<And>r. row_pk (f r) = row_pk r" for f
    using that by (force simp: image_image)
  show "enqueue now t scope req = Inr (eres, t') \<Longrightarrow> row_pk ` set t \<subseteq> row_pk ` set t'"
    by (erule enqueue_Inr_cases) auto
  show "resolve_pending t scope key = Inr (rres, t') \<Longrightarrow> row_pk ` set t \<subseteq> row_pk ` set t'"
  proof -
    assume "resolve_pending t scope key = Inr (rres, t')"
    with assms show ?thesis
    proof (cases rule: resolve_pending_Inr)
      case (1 r)
      show ?thesis unfolding 1(6) by (rule M) (simp add: dropped_row_def row_pk_def)
    qed simp_all
  qed
  show "persist_broadcast t scope bplan = Inr (receipt, t') \<Longrightarrow> row_pk ` set t \<subseteq> row_pk ` set t'"
    by (erule persist_broadcast_Inr[OF assms]) (simp add: M[OF row_pk_broadcast_row] del: set_map)
  show "persist_confirmation t scope cplan = Inr (u, t') \<Longrightarrow> row_pk ` set t \<subseteq> row_pk ` set t'"
    by (drule persist_confirmation_Inr(2)[OF assms]) (simp only: M[OF row_pk_written(1)])
  show "persist_reconciliation t scope rplan = Inr (u, t') \<Longrightarrow> row_pk ` set t \<subseteq> row_pk ` set t'"
    by (drule persist_reconciliation_Inr(2)[OF assms]) (simp only: M[OF row_pk_written(2)])
qed

text \<open>So a sound table that has rows for the keys \<open>P\<close> is an invariant of the journal as well.\<close>

definition keeps_rows :: "(string \<times> string) set \<Rightarrow> wallet_table \<Rightarrow> bool" where
  "keeps_rows P t = (table_ok t \<and> P \<subseteq> row_pk ` set t)"

lemma keeps_rows_step: "keeps_rows P t \<Longrightarrow> table_ok t' \<Longrightarrow> row_pk ` set t \<subseteq> row_pk ` set t' \<Longrightarrow> keeps_rows P t'"
  by (auto simp: keeps_rows_def)

lemma keeps_rows_wf: "keeps_rows P t \<Longrightarrow> table_ok t" "keeps_rows P t \<Longrightarrow> table_wf t"
  by (simp_all add: keeps_rows_def table_ok_def)

interpretation rows: wallet_journal "pg_store now" "keeps_rows P" pg_history pg_waiting pg_leads for now P
proof (unfold_locales, goal_cases)
  case (1 s req scope res s')
  show ?case
    by (rule keeps_rows_step[OF 1(1) pg.enqueue_keeps[OF keeps_rows_wf(1)[OF 1(1)] 1(2,3)] row_pks_kept(1)[OF keeps_rows_wf(2)[OF 1(1)]]])
      (use 1(3) in \<open>simp add: pg_store_def\<close>)
next
  case (2 s scope req res s') then show ?case using pg.enqueue_again[OF keeps_rows_wf(1)] by blast
next
  case (3 s scope key rres s')
  show ?case
    by (rule keeps_rows_step[OF 3(1) pg.resolve_keeps[OF keeps_rows_wf(1)[OF 3(1)] 3(2)] row_pks_kept(2)[OF keeps_rows_wf(2)[OF 3(1)]]])
      (use 3(2) in \<open>simp add: pg_store_def\<close>)
next
  case (4 s scope plan receipt s')
  show ?case
    by (rule keeps_rows_step[OF 4(1) pg.broadcast_keeps[OF keeps_rows_wf(1)[OF 4(1)] 4(2)] row_pks_kept(3)[OF keeps_rows_wf(2)[OF 4(1)]]])
      (use 4(2) in \<open>simp add: pg_store_def\<close>)
next
  case (5 s scope plan receipt s') then show ?case using pg.revert_undoes[OF keeps_rows_wf(1)] by blast
next
  case (6 s scope cplan u s')
  show ?case
    by (rule keeps_rows_step[OF 6(1) pg.confirmation_keeps[OF keeps_rows_wf(1)[OF 6(1)] 6(2,3)] row_pks_kept(4)[OF keeps_rows_wf(2)[OF 6(1)] 6(2)[unfolded pg_store_def wallet_store.simps]]])
next
  case (7 s scope rplan u s')
  show ?case
    by (rule keeps_rows_step[OF 7(1) pg.reconciliation_keeps[OF keeps_rows_wf(1)[OF 7(1)] 7(2,3)] row_pks_kept(5)[OF keeps_rows_wf(2)[OF 7(1)] 7(2)[unfolded pg_store_def wallet_store.simps]]])
next
  case (8 scope keys s s' k h) then show ?case by (rule pg.leads_history)
next
  case (9 scope keys s s' k) then show ?case by (rule pg.leads_waiting)
next
  case (10 scope keys s) show ?case by (rule pg.leads_refl)
next
  case (11 s scope req eres s') then show ?case using pg.enqueue_leads[OF keeps_rows_wf(1)] by blast
next
  case (12 s scope key rres s') then show ?case using pg.resolve_leads[OF keeps_rows_wf(1)] by blast
next
  case (13 s scope plan receipt s') then show ?case using pg.broadcast_leads[OF keeps_rows_wf(1)] by blast
next
  case (14 s scope cplan u s') then show ?case using pg.confirmation_leads[OF keeps_rows_wf(1)] by blast
next
  case (15 s scope rplan u s') then show ?case using pg.reconciliation_leads[OF keeps_rows_wf(1)] by blast
next
  case (16 s scope plan receipt s' k) then show ?case using pg.broadcast_records[OF keeps_rows_wf(1)] by blast
next
  case (17 s scope rs snap q) then show ?case using pg.restore_recorded[OF keeps_rows_wf(1)] by blast
next
  case (18 s scope rs) then show ?case using pg.restore_distinct[OF keeps_rows_wf(1)] by blast
next
  case (19 s scope req) then show ?case using pg.waiting_enqueue[OF keeps_rows_wf(1)] by blast
qed

text \<open>The runner as a submitter: each submission may see the store at another time.\<close>

definition runner_submitter :: "((wallet_table, 'k) runner \<Rightarrow> timestamp) \<Rightarrow> 'k runner_env \<Rightarrow> (wallet_table, 'k) runner submitter" where
  "runner_submitter now env = (\<lambda>req r. submit (pg_store (now r)) env req r)"

definition has_row :: "'k runner_env \<Rightarrow> (wallet_table, 'k) runner \<Rightarrow> string \<Rightarrow> bool" where
  "has_row env r k = (load_wallet_request_row (rn_store r) (ev_scope env) k \<noteq> None)"

definition queued :: "('s, 'k) runner \<Rightarrow> string \<Rightarrow> bool" where
  "queued r k = (\<exists>req. dedupe_key req = k \<and> CSubmit req \<in> set (rn_queue r))"

lemma pg_submit_cases:
  assumes "submit (pg_store now) env req r = (res, r')"
  obtains "r' = r" "res = Inr () \<Longrightarrow> has_row env r (dedupe_key req)"
  | row where "\<not> has_row env r (dedupe_key req)" "res = Inr ()" "rn_store r' = rn_store r @ [row]"
      "row_scope row = ev_scope env" "row_dedupe_key row = dedupe_key req" "rn_queue r' = rn_queue r @ [CSubmit req]"
proof (cases "enqueue now (rn_store r) (ev_scope env) req")
  case (Inl e)
  with assms show thesis
    by (intro that(1)) (auto simp: submit_def enqueue_request_def pg_store_def)
next
  case (Inr p)
  obtain eres t' where e: "enqueue now (rn_store r) (ev_scope env) req = Inr (eres, t')" using Inr by (cases p) auto
  have u: "r\<lparr>rn_store := rn_store r\<rparr> = r" by (cases r) simp
  from e show thesis
  proof (cases rule: enqueue_Inr_cases)
    case 1
    with assms e u show thesis
      by (intro that(1)) (cases eres; simp add: submit_def enqueue_request_def pg_store_def add_waiter_def has_row_def)+
  next
    case (2 row)
    show thesis
      by (rule that(2)[of row])
        (use assms e 2 in \<open>auto simp: submit_def enqueue_request_def pg_store_def add_waiter_def has_row_def Let_def\<close>)
  qed
qed

lemma load_appended: "load_wallet_request_row (t @ [row]) scope k \<noteq> None \<longleftrightarrow>
    load_wallet_request_row t scope k \<noteq> None \<or> row_scope row = scope \<and> row_dedupe_key row = k"
  by (auto simp: load_wallet_request_row_def find_None_iff key_in_def)

lemma reaches_table: "reaches (range pg_store) env t r \<and> table_ok t \<Longrightarrow> table_ok (rn_store r)"
  using reaches_sound[of env t r] by (simp add: pg.runner_sound_def pg.sound_at_def pg.sound_def)

interpretation runner: request_submitter "runner_submitter now env" "\<lambda>r. reaches (range pg_store) env t r \<and> table_ok t"
    "has_row env" queued for now env t
proof (unfold_locales, unfold runner_submitter_def, goal_cases)
  case (1 s req res s')
  have "reaches (range pg_store) env t (runner_step (pg_store (now s)) env s (EvSubmit req))"
    by (rule reaches.stepped) (use 1 in \<open>simp_all add: event_wf_def\<close>)
  with 1 show ?case by simp
next
  case (2 s req u s')
  from 2(2) show ?case
  proof (cases rule: pg_submit_cases)
    case (2 row)
    then show ?thesis unfolding has_row_def 2(3) load_appended by simp
  qed simp
next
  case (3 s req u s')
  from 3(2) show ?case by (cases rule: pg_submit_cases) (use 3(3) in \<open>auto simp: queued_def\<close>)
next
  case (4 s k req res s')
  from 4(3) show ?case
  proof (cases rule: pg_submit_cases)
    case (2 row)
    with 4(2) show ?thesis unfolding has_row_def 2(3) load_appended by simp
  qed (use 4(2) in simp)
next
  case (5 s k req res s')
  from 5(3) show ?case by (cases rule: pg_submit_cases) (use 5(2) in \<open>auto simp: queued_def\<close>)
next
  case (6 s req res s' k)
  from 6(2) show ?case
  proof (cases rule: pg_submit_cases)
    case (2 row)
    with 6(3) show ?thesis unfolding has_row_def queued_def 2(3) load_appended by auto
  qed (use 6(3) in simp)
next
  case (7 s req res s')
  from 7(3) show ?case by (cases rule: pg_submit_cases) (use 7(2) in simp_all)
qed

section \<open>Actions and polls on the runner\<close>

text \<open>C23: An executed action is not lost. Each wallet request that the action prepared has its row in the
  store, and if it had none before then the request is in the queue of the runner's task.\<close>

theorem executed_action_is_recorded:
  assumes "reaches (range pg_store) env t r" "table_ok t"
    and "run_action cr hc rank (runner_submitter now env) ae ord action sw (el, r) = (Inr n, el', r')"
  shows "\<exists>reqs. prepare_wallet_requests cr hc rank ae ord action sw el = (Inr reqs, el') \<and> n = length reqs
    \<and> (\<forall>req \<in> set reqs. load_wallet_request_row (rn_store r') (ev_scope env) (dedupe_key req) \<noteq> None
        \<and> (load_wallet_request_row (rn_store r) (ev_scope env) (dedupe_key req) = None \<longrightarrow>
            (\<exists>req'. dedupe_key req' = dedupe_key req \<and> CSubmit req' \<in> set (rn_queue r'))))"
  using runner.run_action_records[OF assms(3) conjI[OF assms(1,2)]] by (simp add: has_row_def queued_def)

text \<open>C24: A poll of the executor only ever submits well-formed wallet requests: whatever the orders, the
  chain and the cache answer, the runner stays in a state that callers can bring it to, and its store
  and its runtime state stay sound.\<close>

theorem executor_drives_reachable_runner:
  assumes "reaches (range pg_store) env t (es_wallet st)" "table_ok t"
    and "st' = foldl (\<lambda>st pv. executor_poll cr hc rank (runner_submitter now env) ex pv st) st polls"
  shows "reaches (range pg_store) env t (es_wallet st')
    \<and> table_ok (rn_store (es_wallet st')) \<and> wf_runtime (rn_runtime (es_wallet st'))"
proof -
  have "reaches (range pg_store) env t (es_wallet st')"
    using assms
  proof (induction polls arbitrary: st)
    case (Cons pv polls)
    from runner.poll_keeps[OF conjI[OF Cons.prems(1,2)]] Cons show ?case by (simp only: foldl_Cons) blast
  qed simp
  with reaches_sound[OF this assms(2)] show ?thesis
    by (simp add: pg.runner_sound_def pg.sound_at_def pg.sound_def)
qed

lemma kept_rows_step:
  assumes "rows.runner_sound P env {} r" "event_wf ev"
  shows "rows.runner_sound P env {} (runner_step (pg_store now) env r ev)"
  by (rule rows.runner_step_sound[OF assms]) (cases ev; simp)

lemma has_row_pk: "has_row env r k \<longleftrightarrow> (ev_scope env, k) \<in> row_pk ` set (rn_store r)"
  by (force simp: has_row_def load_row_eq_None row_pk_def)

lemma kept_rows_steps:
  assumes "rows.runner_sound P env {} r" "\<forall>(now, ev) \<in> set evs. event_wf ev"
  shows "rows.runner_sound P env {} (foldl (\<lambda>r (now, ev). runner_step (pg_store now) env r ev) r evs)"
  using assms by (induction evs arbitrary: r) (auto intro: kept_rows_step)

text \<open>C21: A swap is initiated, redeemed and refunded by at most one wallet request each. Once such an action
  of a swap has been executed, then after any further life of the runner, executing the same action
  for the same swap identifier leaves the runner as it is, whatever order, amount or secret it then
  comes with.\<close>

theorem repeated_action_pays_once:
  assumes "reaches (range pg_store) env t r" "table_ok t"
    and "run_action cr hc rank (runner_submitter now env) ae ord action sw (el, r) = (Inr n, el1, r1)"
    and "\<forall>(now, ev) \<in> set evs. event_wf ev" "r2 = foldl (\<lambda>r (now, ev). runner_step (pg_store now) env r ev) r1 evs"
    and "action_key action sw = Some k" "action_key action' sw' = Some k"
    and "run_action cr hc rank (runner_submitter now env) ae ord' action' sw' (el2, r2) = (res, el3, r3)"
  shows "r3 = r2"
proof -
  obtain reqs where p: "prepare_wallet_requests cr hc rank ae ord action sw el = (Inr reqs, el1)"
    and h: "\<forall>req \<in> set reqs. has_row env r1 (dedupe_key req)"
    using runner.run_action_records[OF assms(3) conjI[OF assms(1,2)]] by blast
  have h1: "has_row env r1 k" using prepared_requests_wf(2)[OF p assms(6)] h by auto
  have R1: "reaches (range pg_store) env t r1" using runner.run_action_keeps(1)[OF assms(3)] assms(1,2) by blast
  have R2: "reaches (range pg_store) env t r2"
    using R1 assms(4) unfolding assms(5) by (induction evs arbitrary: r1) (auto intro: reaches.stepped)
  have "rows.runner_sound {(ev_scope env, k)} env {} r1"
    using reaches_sound[OF R1 assms(2)] h1
    by (simp add: has_row_pk rows.runner_sound_def rows.sound_at_def rows.sound_def pg.runner_sound_def pg.sound_at_def pg.sound_def
        keeps_rows_def rows.carried_def pg.carried_def rows.mirrors_def pg.mirrors_def)
  from kept_rows_steps[OF this assms(4)] have "has_row env r2 k"
    by (simp add: assms(5) has_row_pk rows.runner_sound_def rows.sound_at_def rows.sound_def keeps_rows_def)
  with runner.run_action_again[OF assms(8) _ assms(7)] R2 assms(2) show ?thesis by blast
qed

section \<open>A poll without a block height\<close>

text \<open>When some order may have to be refunded and the request for the block height fails, the poll
  executes nothing at all: neither the redeems with revealed secrets, which need no height, nor the
  initiates.\<close>

theorem height_failure_stalls_poll:
  assumes "pv_orders pv = Inr ords" "has_refundable_swaps (ex_order_mapper ex) (pv_now pv) ords"
    and "el_block_height (es_electrs st) (el_clock (es_electrs st)) = Inl e"
  shows "executor_poll cr hc rank sub ex pv st =
    st\<lparr>es_electrs := (es_electrs st)\<lparr>el_clock := el_clock (es_electrs st) + 1\<rparr>\<rparr>"
proof -
  have "ords \<noteq> []" using assms(2) by (auto simp: has_refundable_swaps_def)
  then show ?thesis
    using assms by (simp add: executor_poll_def prepare_execution_requests_def latest_block_number_def current_block_height_def get_block_height_def)
qed

section \<open>Examples\<close>

text \<open>The runner of the demo starts, and the solver initiates the destination of an order twice.\<close>

definition demo_action_crates :: "unit crates" where
  "demo_action_crates = demo_crates\<lparr>hex_decode := \<lambda>s. Inr (replicate 32 0)\<rparr>"

definition demo_request :: wallet_request where
  "demo_request = \<lparr>dedupe_key = ''initiate:s2'', wr_kind = Send \<lparr>sr_address = \<lparr>addr_text = ''s2'', addr_script = [84]\<rparr>, sr_amount = 1000\<rparr>\<rparr>"

definition demo_initiated :: "(wallet_table, unit) runner" where
  "demo_initiated = demo_start\<lparr>rn_store := rn_store demo_start @
      [\<lparr>row_scope = ''w'', row_dedupe_key = ''initiate:s2'', row_kind = ''send'', row_status = ''pending'', row_lineage_id = None,
        row_batch_txid = None, row_txid_history = [], row_chain_anchor = None, row_payload = wr_kind demo_request, row_created_at = 5\<rparr>],
     rn_queue := [CSubmit demo_request]\<rparr>"

lemma demo_prepared:
  "prepare_wallet_requests demo_action_crates demo_hc rank demo_solver ord AInitiate (mo_destination_swap funded_order) el = (Inr [demo_request], el)"
proof -
  have p: "parse_u64 ''1000'' = Some 1000" by (simp add: parse_u64_def digits_value_def is_digit_def of_char_def)
  have h: "swap_to_htlc_params demo_action_crates demo_hc (mo_destination_swap funded_order) =
      Inr \<lparr>hp_initiator_pubkey = [97, 97], hp_redeemer_pubkey = [98, 98], hp_amount = 1000, hp_secret_hash = replicate 32 0, hp_timelock = 144\<rparr>"
    by (simp add: swap_to_htlc_params_def demo_action_crates_def demo_hc_def demo_order_defs p)
  have a: "resolve_htlc_address demo_hc (ae_network demo_solver) (mo_destination_swap funded_order) = Inr \<lparr>addr_text = ''s2'', addr_script = [84]\<rparr>"
    and i: "sw_swap_id (mo_destination_swap funded_order) = ''s2''"
    by (simp_all add: resolve_htlc_address_def parse_address_def demo_hc_def demo_order_defs)
  show ?thesis
    by (simp add: prepare_wallet_requests_def h a i prepare_action_def adapter_result_def wallet_request_result_def wr_send_def
        from_parts_def validate_dedupe_key_def trim_is_empty_def demo_request_def)
qed

lemma demo_initiates:
  "run_action demo_action_crates demo_hc rank (runner_submitter (\<lambda>_. 5) demo_env) demo_solver ord AInitiate
     (mo_destination_swap funded_order) (el, demo_start) = (Inr 1, el, demo_initiated)"
proof -
  have e: "enqueue 5 [pending_row ''w'' ''a'' 1] ''w'' demo_request =
    Inr (EnqueuedPending, rn_store demo_initiated)"
    by (simp add: enqueue_def load_wallet_request_row_def key_in_def pending_row_def demo_request_def demo_initiated_def demo_start_def)
  have "submit (pg_store 5) demo_env demo_request demo_start = (Inr (), demo_initiated)"
    by (simp add: submit_def enqueue_request_def pg_store_def e demo_env_def demo_start_def add_waiter_def demo_initiated_def)
  then show ?thesis by (simp add: run_action_def demo_prepared runner_submitter_def)
qed

lemma demo_start_reached: "reaches (range pg_store) demo_env [pending_row ''w'' ''a'' 1] demo_start"
  by (rule reaches.started[OF _ demo_started]) simp

lemma executed_action_is_recorded_witness:
  "run_action demo_action_crates demo_hc (\<lambda>_. 0) (runner_submitter (\<lambda>_. 5) demo_env) demo_solver funded_order AInitiate
     (mo_destination_swap funded_order) (demo_electrs, demo_start) = (Inr 1, demo_electrs, demo_initiated)
   \<and> load_wallet_request_row (rn_store demo_initiated) ''w'' ''initiate:s2'' \<noteq> None"
proof -
  obtain reqs where "prepare_wallet_requests demo_action_crates demo_hc (\<lambda>_. 0) demo_solver funded_order AInitiate
      (mo_destination_swap funded_order) demo_electrs = (Inr reqs, demo_electrs)"
    and "\<forall>req \<in> set reqs. load_wallet_request_row (rn_store demo_initiated) (ev_scope demo_env) (dedupe_key req) \<noteq> None"
    using executed_action_is_recorded[OF demo_start_reached demo_table_ok demo_initiates] by blast
  moreover from this(1) have "reqs = [demo_request]" by (simp add: demo_prepared)
  ultimately have "load_wallet_request_row (rn_store demo_initiated) ''w'' ''initiate:s2'' \<noteq> None"
    by (simp add: demo_env_def demo_request_def)
  with demo_initiates show ?thesis by blast
qed

text \<open>The same action with another order after the runner has received the request.\<close>

lemma repeated_action_pays_once_witness:
  "\<exists>r2. r2 = runner_step (pg_store 6) demo_env demo_initiated EvReceive
   \<and> snd (snd (run_action demo_action_crates demo_hc (\<lambda>_. 0) (runner_submitter (\<lambda>_. 5) demo_env) demo_solver unconfirmed_order AInitiate
        (mo_destination_swap funded_order) (demo_electrs, r2))) = r2"
proof -
  let ?r2 = "runner_step (pg_store 6) demo_env demo_initiated EvReceive"
  obtain res el3 r3 where again: "run_action demo_action_crates demo_hc (\<lambda>_. 0) (runner_submitter (\<lambda>_. 5) demo_env) demo_solver
      unconfirmed_order AInitiate (mo_destination_swap funded_order) (demo_electrs, ?r2) = (res, el3, r3)"
    by (metis prod_cases3)
  have "r3 = ?r2"
    by (rule repeated_action_pays_once[OF demo_start_reached demo_table_ok demo_initiates[where rank = "\<lambda>_. 0" and ord = funded_order],
          where evs = "[(6, EvReceive)]" and k = "''initiate:s2''", OF _ _ _ _ again])
      (simp_all add: event_wf_def action_key_def demo_order_defs)
  with again show ?thesis by auto
qed

definition demo_executor :: "unit executor" where
  "demo_executor = \<lparr>ex_chain_identifier = ''bitcoin'', ex_order_mapper = demo_mapper, ex_action_executor = demo_solver\<rparr>"

definition demo_poll :: "matched_order list \<Rightarrow> poll_view" where
  "demo_poll ords = \<lparr>pv_orders = Inr ords, pv_now = 10 ^ 18, pv_destination = \<lambda>_. demo_order_view 0 4, pv_source = \<lambda>_. demo_order_view 0 4,
     pv_retained = \<lambda>_. True\<rparr>"

definition demo_state :: "'s \<Rightarrow> electrs_client \<Rightarrow> 's executor_state" where
  "demo_state s el = \<lparr>es_electrs = el, es_wallet = s, es_cache = []\<rparr>"

lemma executor_drives_reachable_runner_witness:
  "\<exists>st'. st' = executor_poll demo_action_crates demo_hc (\<lambda>_. 0) (runner_submitter (\<lambda>_. 5) demo_env) demo_executor
      (demo_poll [funded_order]) (demo_state demo_start demo_electrs)
    \<and> table_ok (rn_store (es_wallet st'))"
proof -
  have r: "reaches (range pg_store) demo_env [pending_row ''w'' ''a'' 1] (es_wallet (demo_state demo_start demo_electrs))"
    by (simp add: demo_state_def demo_start_reached)
  from executor_drives_reachable_runner[OF r demo_table_ok refl, of demo_action_crates demo_hc "\<lambda>_. 0" "\<lambda>_. 5" demo_executor
      "[demo_poll [funded_order]]"] show ?thesis by simp
qed

text \<open>One order with a revealed secret and one refundable order, while Electrs gives no height.\<close>

definition stuck_order :: matched_order where
  "stuck_order = demo_order (demo_swap ''s1'' ''evm'' ''tx1'' (Some (BigDecimal 7 0))) (demo_swap ''s2'' ''bitcoin'' ''tx2'' (Some (BigDecimal 7 0)))"

lemma height_failure_stalls_poll_witness:
  "executor_poll demo_action_crates demo_hc (\<lambda>_. 0) (\<lambda>req log. (Inr (), log @ [req])) demo_executor
     (demo_poll [revealed_order, stuck_order]) (demo_state [] (demo_electrs\<lparr>el_block_height := \<lambda>_. Inl (Http None)\<rparr>))
   = demo_state [] (demo_electrs\<lparr>el_block_height := \<lambda>_. Inl (Http None), el_clock := 1\<rparr>)"
proof -
  have "has_refundable_swaps demo_mapper (10 ^ 18) [revealed_order, stuck_order]"
    by (simp add: has_refundable_swaps_def stuck_order_def demo_order_defs is_chain_supported_def has_valid_initiate_def
        is_swap_completed_def has_redeem_def has_refund_def passes_additional_check_def ms_is_some_def bd_value_def
        DEFAULT_MIN_REFUNDABLE_DURATION_def Let_def)
  then show ?thesis
    by (subst height_failure_stalls_poll[of _ "[revealed_order, stuck_order]" _ _ "Http None"])
      (simp_all add: demo_poll_def demo_executor_def demo_state_def demo_electrs_def)
qed

end
