(* ===== verification/WatchEvents.thy ===== *)
theory WatchEvents
  imports HtlcScripts WalletClients
begin

text \<open>
  The Bitcoin watcher's view of the chain (btc-watcher/src/core: deps/events.rs, types.rs,
  watcher/tx_event.rs, watcher/address_poller.rs; adapters/screener.rs, zmq_events.rs): which swap
  events a transaction contains. Functions of the bitcoin crate are the record \<open>watch_crates\<close> and
  \<open>htlc_crates\<close>; the indexer and the screener are the sequences of their answers.
\<close>

section \<open>Events\<close>

text \<open>\<open>OrderSecret\<close> is its text.\<close>

datatype swap_event_type = SeInitiate | SeRedeem string | SeRefund

definition order_secret_new :: "string \<Rightarrow> (message, string) result" where
  "order_secret_new secret =
    (let s = strip_0x secret in
     if length s \<noteq> 64 then Inl (Format ''Invalid secret length, expected 64, got {}'' [ArgNat (length s)]) else Inr s)"

record tx_info =
  ti_tx_hash :: string
  ti_block_number :: i64
  ti_block_timestamp :: "timestamp option"
  ti_detected_timestamp :: "timestamp option"

record swap_event =
  se_type :: swap_event_type
  se_swap_id :: string
  se_amount :: i64
  se_tx_info :: tx_info
  se_is_blacklisted :: bool

text \<open>\<open>Swap\<close>: an address and the amount it waits for.\<close>

record watched_swap =
  ws_swap_id :: string
  ws_amount :: i64

section \<open>Witnesses\<close>

record control_block =
  cb_leaf_version :: u8
  cb_internal_key :: bytes
  cb_merkle_branch :: "256 word list"

record watch_crates =
  wc_compute_txid :: "transaction \<Rightarrow> string"
  wc_is_coinbase :: "transaction \<Rightarrow> bool"
  wc_taproot_control_block :: "bytes list \<Rightarrow> bytes option"
  wc_taproot_leaf_script :: "bytes list \<Rightarrow> script option"
  wc_decode_control_block :: "bytes \<Rightarrow> control_block option"
  wc_node_from_script :: "script \<Rightarrow> u8 \<Rightarrow> 256 word"
  wc_node_from_nodes :: "256 word \<Rightarrow> 256 word \<Rightarrow> 256 word"
  wc_tap_tweak :: "bytes \<Rightarrow> 256 word option \<Rightarrow> bytes"
  wc_p2tr_tweaked :: "bytes \<Rightarrow> network \<Rightarrow> address"
  wc_from_timestamp :: "i64 \<Rightarrow> timestamp option"

definition get_taproot_address :: "watch_crates \<Rightarrow> tx_in \<Rightarrow> network \<Rightarrow> address option" where
  "get_taproot_address wc inp net =
    (case wc_taproot_control_block wc (in_witness inp) of
       None \<Rightarrow> None
     | Some cblock \<Rightarrow>
     (case wc_taproot_leaf_script wc (in_witness inp) of
       None \<Rightarrow> None
     | Some leaf_script \<Rightarrow>
     (case wc_decode_control_block wc cblock of
       None \<Rightarrow> None
     | Some cb \<Rightarrow>
         let leaf = wc_node_from_script wc leaf_script (cb_leaf_version cb);
             address = (\<lambda>root. Some (wc_p2tr_tweaked wc (wc_tap_tweak wc (cb_internal_key cb) (Some root)) net)) in
         (case cb_merkle_branch cb of
            [b0] \<Rightarrow> address (wc_node_from_nodes wc leaf b0)
          | [b0, b1] \<Rightarrow> address (wc_node_from_nodes wc b1 (wc_node_from_nodes wc leaf b0))
          | _ \<Rightarrow> None))))"

definition get_htlc_spend_type :: "htlc_crates \<Rightarrow> tx_in \<Rightarrow> swap_event_type option" where
  "get_htlc_spend_type hc inp =
    (let w = in_witness inp in
     if length w = 4 then
       (if length (w ! 0) \<noteq> length (w ! 1)
        then (case order_secret_new (hc_hex_encode hc (w ! 1)) of Inl _ \<Rightarrow> None | Inr s \<Rightarrow> Some (SeRedeem s))
        else Some SeRefund)
     else if length w = 3 then Some SeRefund
     else None)"

definition remove_duplicates :: "swap_event list \<Rightarrow> swap_event list" where
  "remove_duplicates events = foldl (\<lambda>out e. if e \<in> set out then out else out @ [e]) [] events"

section \<open>Screening\<close>

text \<open>
  The screening service with the client's cache: cached addresses are not asked for. The answers carry
  the address and the verdict; which cached entries have not expired is \<open>sc_retained\<close>.
\<close>

record screener =
  sc_clock :: nat
  sc_screen :: "nat \<Rightarrow> string list \<Rightarrow> (message, (string \<times> bool) list) result"
  sc_cache :: "(string \<times> bool) list"
  sc_retained :: "nat \<Rightarrow> string \<Rightarrow> bool"

definition cached_verdict :: "screener \<Rightarrow> string \<Rightarrow> bool option" where
  "cached_verdict sc addr = (if sc_retained sc (sc_clock sc) addr then map_of (sc_cache sc) addr else None)"

definition is_blacklisted :: "screener \<Rightarrow> string list \<Rightarrow> (message, (string \<times> bool) list) result \<times> screener" where
  "is_blacklisted sc addrs =
    (let cached = List.map_filter (\<lambda>a. map_option (Pair a) (cached_verdict sc a)) addrs;
         uncached = filter (\<lambda>a. cached_verdict sc a = None) addrs in
     if uncached = [] then (Inr cached, sc)
     else
       (case sc_screen sc (sc_clock sc) uncached of
          Inl e \<Rightarrow> (Inl (Format ''Failed to screen addresses: {}'' [ArgMessage e]), sc\<lparr>sc_clock := sc_clock sc + 1\<rparr>)
        | Inr responses \<Rightarrow>
            (Inr (cached @ responses),
             sc\<lparr>sc_clock := sc_clock sc + 1, sc_cache := foldl (\<lambda>c (a, b). AList.update a b c) (sc_cache sc) responses\<rparr>)))"

definition fixed_status :: "bool \<Rightarrow> string list \<Rightarrow> (string \<times> bool) list" where
  "fixed_status b addrs = map (\<lambda>a. (a, b)) addrs"

section \<open>Transactions from the indexer\<close>

record tx_metadata =
  tm_txid :: string
  tm_input_addresses :: "string list"
  tm_outputs :: "(string \<times> u64) list"
  tm_confirmed :: bool
  tm_block_height :: "u64 option"

record watch_indexer =
  wi_clock :: nat
  wi_get_tx :: "nat \<Rightarrow> string \<Rightarrow> (string, tx_metadata) result"
  wi_block_height :: "nat \<Rightarrow> (string, u64) result"
  wi_cache :: "(string \<times> tx_metadata) list"
  wi_retained :: "nat \<Rightarrow> string \<Rightarrow> bool"

definition GET_TX_MAX_RETRIES :: nat where "GET_TX_MAX_RETRIES = 32"

definition ask_tx :: "watch_indexer \<Rightarrow> string \<Rightarrow> (string, tx_metadata) result \<times> watch_indexer" where
  "ask_tx ix tx = (wi_get_tx ix (wi_clock ix) tx, ix\<lparr>wi_clock := wi_clock ix + 1\<rparr>)"

fun get_tx_loop :: "string \<Rightarrow> nat \<Rightarrow> watch_indexer \<Rightarrow> (message, tx_metadata) result \<times> watch_indexer" where
  "get_tx_loop tx 0 ix =
    (Inl (Format ''Transaction {tx_id} not found after {GET_TX_MAX_RETRIES} retries'' [ArgStr tx, ArgNat GET_TX_MAX_RETRIES]), ix)"
| "get_tx_loop tx (Suc n) ix =
    (case ask_tx ix tx of
       (Inr m, ix) \<Rightarrow> (Inr m, ix\<lparr>wi_cache := AList.update tx m (wi_cache ix)\<rparr>)
     | (Inl e, ix) \<Rightarrow>
         if contains ''Transaction not found'' e then get_tx_loop tx n ix
         else (Inl (Format ''{}'' [ArgStr e]), ix))"

definition get_tx_with_retry :: "string \<Rightarrow> watch_indexer \<Rightarrow> (message, tx_metadata) result \<times> watch_indexer" where
  "get_tx_with_retry tx ix =
    (case (if wi_retained ix (wi_clock ix) tx then map_of (wi_cache ix) tx else None) of
       Some m \<Rightarrow> (Inr m, ix)
     | None \<Rightarrow> get_tx_loop tx GET_TX_MAX_RETRIES ix)"

section \<open>The parser\<close>

record parser_deps =
  pd_screener :: screener
  pd_indexer :: watch_indexer

type_synonym swap_cache = "string \<Rightarrow> watched_swap option"

definition collect_htlc_deposits ::
    "htlc_crates \<Rightarrow> network \<Rightarrow> swap_cache \<Rightarrow> transaction \<Rightarrow> (watched_swap \<times> tx_out) list" where
  "collect_htlc_deposits hc net cache tx =
    List.map_filter (\<lambda>out.
      case hc_address_from_script hc (out_script_pubkey out) net of
        Inl _ \<Rightarrow> None
      | Inr a \<Rightarrow>
          (case cache (addr_text a) of
             Some s \<Rightarrow> if ws_amount s = out_value out then Some (s, out) else None
           | None \<Rightarrow> None)) (tx_output tx)"

definition has_blacklisted_inputs :: "string \<Rightarrow> parser_deps \<Rightarrow> (message, bool) result \<times> parser_deps" where
  "has_blacklisted_inputs tx d =
    (case get_tx_with_retry tx (pd_indexer d) of
       (Inl e, ix) \<Rightarrow> (Inl e, d\<lparr>pd_indexer := ix\<rparr>)
     | (Inr m, ix) \<Rightarrow>
         (case is_blacklisted (pd_screener d) (tm_input_addresses m) of
            (Inl e, sc) \<Rightarrow> (Inl e, d\<lparr>pd_indexer := ix, pd_screener := sc\<rparr>)
          | (Inr rs, sc) \<Rightarrow> (Inr (list_ex snd rs), d\<lparr>pd_indexer := ix, pd_screener := sc\<rparr>)))"

definition tx_hash_at :: "string \<Rightarrow> u64 \<Rightarrow> string" where
  "tx_hash_at tx height = tx @ '':'' @ show_nat (unat height)"

definition process_deposits_in_tx ::
    "htlc_crates \<Rightarrow> watch_crates \<Rightarrow> network \<Rightarrow> swap_cache \<Rightarrow> transaction \<Rightarrow> u64 \<Rightarrow> timestamp option \<Rightarrow> timestamp option \<Rightarrow>
     parser_deps \<Rightarrow> swap_event list \<times> parser_deps" where
  "process_deposits_in_tx hc wc net cache tx height block_ts detected_ts d =
    (let tx_id = wc_compute_txid wc tx;
         deposits = collect_htlc_deposits hc net cache tx;
         info = (\<lambda>hash. \<lparr>ti_tx_hash = hash, ti_block_number = height, ti_block_timestamp = block_ts, ti_detected_timestamp = detected_ts\<rparr>) in
     if deposits = [] then ([], d)
     else
       (case has_blacklisted_inputs tx_id d of
          (Inr True, d) \<Rightarrow>
            (map (\<lambda>(s, _). \<lparr>se_type = SeInitiate, se_swap_id = ws_swap_id s, se_amount = ws_amount s, se_tx_info = info tx_id,
                se_is_blacklisted = True\<rparr>) deposits, d)
        | (Inl _, d) \<Rightarrow> ([], d)
        | (Inr False, d) \<Rightarrow>
            (map (\<lambda>(s, out). \<lparr>se_type = SeInitiate, se_swap_id = ws_swap_id s,
                se_amount = (if height > 0 then out_value out else 0), se_tx_info = info (tx_hash_at tx_id height),
                se_is_blacklisted = False\<rparr>) deposits, d)))"

definition withdraw_event ::
    "htlc_crates \<Rightarrow> watch_crates \<Rightarrow> network \<Rightarrow> swap_cache \<Rightarrow> string \<Rightarrow> u64 \<Rightarrow> timestamp option \<Rightarrow> timestamp option \<Rightarrow> tx_in \<Rightarrow>
     swap_event option" where
  "withdraw_event hc wc net cache tx_id height block_ts detected_ts inp =
    (if op_txid (in_previous_output inp) = 0 then None
     else
       (case get_taproot_address wc inp net of
          None \<Rightarrow> None
        | Some a \<Rightarrow>
        (case cache (addr_text a) of
          None \<Rightarrow> None
        | Some s \<Rightarrow>
        (case get_htlc_spend_type hc inp of
          None \<Rightarrow> None
        | Some ty \<Rightarrow>
            Some \<lparr>se_type = ty, se_swap_id = ws_swap_id s, se_amount = ws_amount s,
              se_tx_info = \<lparr>ti_tx_hash = tx_hash_at tx_id height, ti_block_number = height, ti_block_timestamp = block_ts,
                ti_detected_timestamp = detected_ts\<rparr>, se_is_blacklisted = False\<rparr>))))"

definition process_withdraws_in_tx ::
    "htlc_crates \<Rightarrow> watch_crates \<Rightarrow> network \<Rightarrow> swap_cache \<Rightarrow> transaction \<Rightarrow> u64 \<Rightarrow> timestamp option \<Rightarrow> timestamp option \<Rightarrow>
     swap_event list" where
  "process_withdraws_in_tx hc wc net cache tx height block_ts detected_ts =
    List.map_filter (withdraw_event hc wc net cache (wc_compute_txid wc tx) height block_ts detected_ts) (tx_input tx)"

definition parse_swap_events ::
    "htlc_crates \<Rightarrow> watch_crates \<Rightarrow> network \<Rightarrow> swap_cache \<Rightarrow> u64 \<Rightarrow> timestamp option \<Rightarrow> timestamp option \<Rightarrow> transaction \<Rightarrow>
     parser_deps \<Rightarrow> swap_event list \<times> parser_deps" where
  "parse_swap_events hc wc net cache height block_ts detected_ts tx d =
    (if wc_is_coinbase wc tx then ([], d)
     else
       (let (deposits, d) = process_deposits_in_tx hc wc net cache tx height block_ts detected_ts d in
        (deposits @ process_withdraws_in_tx hc wc net cache tx height block_ts detected_ts, d)))"

text \<open>\<open>for tx in txs { events.extend(parse_swap_events(tx, ..)) }\<close>.\<close>

fun parse_all ::
    "(transaction \<Rightarrow> parser_deps \<Rightarrow> swap_event list \<times> parser_deps) \<Rightarrow> transaction list \<Rightarrow> parser_deps \<Rightarrow> swap_event list \<times> parser_deps" where
  "parse_all f [] d = ([], d)"
| "parse_all f (tx # txs) d =
    (let (es, d) = f tx d; (rest, d) = parse_all f txs d in (es @ rest, d))"

section \<open>Polling addresses\<close>

record polled_output =
  po_address :: "string option"
  po_value :: u64

record polled_input =
  pi_prevout :: "polled_output option"
  pi_witness :: "string list option"

record polled_tx =
  pt_txid :: string
  pt_block_height :: "i64 option"
  pt_block_time :: "i64 option"
  pt_vin :: "polled_input list"
  pt_vout :: "polled_output list"

definition classify_spend :: "string list \<Rightarrow> swap_event_type option" where
  "classify_spend w =
    (if length w = 4 then
       (if length (w ! 0) \<noteq> length (w ! 1)
        then (case order_secret_new (w ! 1) of Inl _ \<Rightarrow> None | Inr s \<Rightarrow> Some (SeRedeem s))
        else Some SeRefund)
     else if length w = 3 then Some SeRefund
     else None)"

definition polled_deposit :: "watched_swap \<Rightarrow> tx_info \<Rightarrow> polled_tx \<Rightarrow> swap_event list" where
  "polled_deposit s info tx =
    (case find (\<lambda>out. po_address out = Some (ws_swap_id s) \<and> po_value out = ws_amount s) (pt_vout tx) of
       None \<Rightarrow> []
     | Some _ \<Rightarrow>
         [\<lparr>se_type = SeInitiate, se_swap_id = ws_swap_id s, se_amount = (if 0 <s ti_block_number info then ws_amount s else 0),
           se_tx_info = info, se_is_blacklisted = False\<rparr>])"

text \<open>The first input that spends the address and has a known witness.\<close>

definition polled_spend_type :: "watched_swap \<Rightarrow> polled_input \<Rightarrow> swap_event_type option" where
  "polled_spend_type s inp =
    (if (case pi_prevout inp of None \<Rightarrow> False | Some p \<Rightarrow> po_address p = Some (ws_swap_id s))
     then (case pi_witness inp of None \<Rightarrow> None | Some w \<Rightarrow> classify_spend w)
     else None)"

definition polled_spend :: "watched_swap \<Rightarrow> tx_info \<Rightarrow> polled_tx \<Rightarrow> swap_event list" where
  "polled_spend s info tx =
    (case List.map_filter (polled_spend_type s) (pt_vin tx) of
       [] \<Rightarrow> []
     | ty # _ \<Rightarrow>
         [\<lparr>se_type = ty, se_swap_id = ws_swap_id s, se_amount = ws_amount s, se_tx_info = info, se_is_blacklisted = False\<rparr>])"

text \<open>A negative block number prints with its sign.\<close>

definition polled_events :: "watch_crates \<Rightarrow> timestamp \<Rightarrow> watched_swap \<Rightarrow> polled_tx \<Rightarrow> swap_event list" where
  "polled_events wc now s tx =
    (let block_number = (case pt_block_height tx of None \<Rightarrow> 0 | Some n \<Rightarrow> n);
         info = \<lparr>ti_tx_hash = pt_txid tx @ '':'' @ show_int (sint block_number), ti_block_number = block_number,
           ti_block_timestamp = (case pt_block_time tx of None \<Rightarrow> None | Some t \<Rightarrow> wc_from_timestamp wc t),
           ti_detected_timestamp = Some now\<rparr> in
     polled_deposit s info tx @ polled_spend s info tx)"

definition query_swap_events ::
    "watch_crates \<Rightarrow> timestamp \<Rightarrow> (string, polled_tx list) result \<Rightarrow> watched_swap \<Rightarrow> (string, swap_event list) result" where
  "query_swap_events wc now answer s =
    (case answer of Inl e \<Rightarrow> Inl e | Inr txs \<Rightarrow> Inr (concat (map (polled_events wc now s) txs)))"

section \<open>ZMQ messages\<close>

record sequence_tracker =
  sq_tx :: "u32 option"
  sq_block :: "u32 option"

definition is_sequence_valid :: "u32 \<Rightarrow> u32 option \<Rightarrow> bool" where
  "is_sequence_valid new_sequence last_sequence =
    (case last_sequence of
       None \<Rightarrow> True
     | Some last_seq \<Rightarrow>
         if new_sequence > last_seq then True
         else if last_seq > 1000 \<and> new_sequence < 1000 then True
         else if last_seq > - 1 - 10000 \<and> new_sequence < 1000 then True
         else False)"

definition is_new :: "string \<Rightarrow> u32 \<Rightarrow> sequence_tracker \<Rightarrow> bool \<times> sequence_tracker" where
  "is_new topic n t =
    (if topic = ''rawtx'' then
       (if is_sequence_valid n (sq_tx t) then (True, t\<lparr>sq_tx := Some n\<rparr>) else (False, t))
     else if topic = ''rawblock'' then
       (if is_sequence_valid n (sq_block t) then (True, t\<lparr>sq_block := Some n\<rparr>) else (False, t))
     else (False, t))"

text \<open>The frames of a message: topic, payload, and a little-endian sequence number.\<close>

definition u32_from_le :: "bytes \<Rightarrow> u32" where
  "u32_from_le bs = foldr (\<lambda>b n. ucast b + 256 * n) bs 0"

record zmq_message =
  zm_topic :: string
  zm_payload :: bytes
  zm_sequence :: u32

definition parse_zmq_message :: "(bytes \<Rightarrow> string option) \<Rightarrow> bytes list \<Rightarrow> zmq_message option" where
  "parse_zmq_message from_utf8 frames =
    (if length frames < 3 then None
     else
       (case from_utf8 (frames ! 0) of
          None \<Rightarrow> None
        | Some topic \<Rightarrow>
            if length (frames ! 2) < 4 then None
            else Some \<lparr>zm_topic = topic, zm_payload = frames ! 1, zm_sequence = u32_from_le (take 4 (frames ! 2))\<rparr>))"

text \<open>What a message adds to the channels of transactions and blocks.\<close>

datatype 'b zmq_item = ZmqTx transaction | ZmqBlock 'b

definition handle_zmq_message ::
    "(bytes \<Rightarrow> string option) \<Rightarrow> (bytes \<Rightarrow> (string, transaction) result) \<Rightarrow> (bytes \<Rightarrow> (string, 'b) result) \<Rightarrow> bytes list \<Rightarrow>
     sequence_tracker \<Rightarrow> 'b zmq_item list \<times> sequence_tracker" where
  "handle_zmq_message from_utf8 decode_tx decode_block frames t =
    (case parse_zmq_message from_utf8 frames of
       None \<Rightarrow> ([], t)
     | Some m \<Rightarrow>
         (case is_new (zm_topic m) (zm_sequence m) t of
            (False, t) \<Rightarrow> ([], t)
          | (True, t) \<Rightarrow>
              if zm_topic m = ''rawtx''
              then ((case decode_tx (zm_payload m) of Inl _ \<Rightarrow> [] | Inr tx \<Rightarrow> [ZmqTx tx]), t)
              else ((case decode_block (zm_payload m) of Inl _ \<Rightarrow> [] | Inr b \<Rightarrow> [ZmqBlock b]), t)))"

end
