(* ===== verification/WatchStore.thy ===== *)
theory WatchStore
  imports WatchEvents
begin

text \<open>
  The swap store of the Bitcoin watcher (btc-watcher/src/adapters/swap_store.rs) as functions on the
  tables it updates: the swaps, and of the orders the columns it writes. An UPDATE that joins a row
  with several events uses one of them, and the database does not say which: the choice is a
  parameter. Timestamps are nanoseconds, detected timestamps seconds.
\<close>

record watched_order =
  wo_create_id :: string
  wo_source_swap_id :: string
  wo_destination_swap_id :: string
  wo_is_blacklisted :: bool
  wo_detected :: "(string \<times> int) list"

record swap_db =
  db_swaps :: "single_swap list"
  db_orders :: "watched_order list"

datatype store_statement =
  StPending | StInits | StRedeems | StRefunds | StDetected string | StDetectedTransaction string | StConfirmations | StMissing | StBackfill string | StBlacklist

record store_view =
  sv_now :: timestamp
  sv_pick :: "swap_event list \<Rightarrow> swap_event"
  sv_pick_time :: "int list \<Rightarrow> int"
  sv_fails :: "store_statement \<Rightarrow> bool"

definition lower :: "string \<Rightarrow> string" where
  "lower s = map to_lower s"

text \<open>\<open>BigDecimal::to_i64\<close> truncates and fails out of range.\<close>

definition big_decimal_to_i64 :: "big_decimal \<Rightarrow> i64 option" where
  "big_decimal_to_i64 d =
    (let n = (if bd_value d < 0 then - \<lfloor>- bd_value d\<rfloor> else \<lfloor>bd_value d\<rfloor>) in
     if - (2 ^ 63) \<le> n \<and> n < 2 ^ 63 then Some (word_of_int n) else None)"

definition swap_of_row :: "single_swap \<Rightarrow> watched_swap" where
  "swap_of_row sw =
    \<lparr>ws_swap_id = sw_swap_id sw, ws_amount = (case big_decimal_to_i64 (sw_amount sw) of None \<Rightarrow> 0 | Some n \<Rightarrow> n)\<rparr>"

section \<open>Queries\<close>

definition coalesce_zero :: "big_decimal option \<Rightarrow> rat" where
  "coalesce_zero b = (case b of None \<Rightarrow> 0 | Some d \<Rightarrow> bd_value d)"

definition is_watched :: "string \<Rightarrow> int \<Rightarrow> timestamp \<Rightarrow> single_swap \<Rightarrow> bool" where
  "is_watched chain buffer now sw =
    (sw_chain sw = chain
     \<and> (sw_initiate_tx_hash sw = [] \<and> sw_created_at sw + buffer * 1000000000 > now
        \<or> sw_initiate_tx_hash sw \<noteq> [] \<and> coalesce_zero (sw_redeem_block_number sw) = 0
            \<and> coalesce_zero (sw_refund_block_number sw) = 0))"

definition get_swaps :: "store_view \<Rightarrow> int \<Rightarrow> string \<Rightarrow> swap_db \<Rightarrow> (message, watched_swap list) result" where
  "get_swaps sv buffer chain db =
    (if sv_fails sv StPending then Inl (Format ''Failed to fetch pending swaps: {e}'' [])
     else Inr (map swap_of_row (filter (is_watched chain buffer (sv_now sv)) (db_swaps db))))"

definition get_swaps_missing_initiate_block ::
    "store_view \<Rightarrow> string \<Rightarrow> swap_db \<Rightarrow> (message, (string \<times> string) list) result" where
  "get_swaps_missing_initiate_block sv chain db =
    (if sv_fails sv StMissing then Inl (Format ''Failed to fetch swaps missing initiate_block_number: {e}'' [])
     else Inr (map (\<lambda>sw. (sw_swap_id sw, sw_initiate_tx_hash sw))
       (filter (\<lambda>sw. sw_chain sw = chain \<and> sw_initiate_tx_hash sw \<noteq> []
          \<and> (coalesce_zero (sw_initiate_block_number sw) = 0 \<or> bd_value (sw_filled_amount sw) = 0)) (db_swaps db))))"

section \<open>Updates from events\<close>

definition events_of :: "swap_event list \<Rightarrow> single_swap \<Rightarrow> swap_event list" where
  "events_of events sw = filter (\<lambda>e. lower (se_swap_id e) = lower (sw_swap_id sw)) events"

definition update_from :: "store_view \<Rightarrow> (swap_event \<Rightarrow> single_swap \<Rightarrow> single_swap) \<Rightarrow> swap_event list \<Rightarrow> single_swap list \<Rightarrow> single_swap list" where
  "update_from sv f events rows =
    map (\<lambda>sw. case events_of events sw of [] \<Rightarrow> sw | es \<Rightarrow> f (sv_pick sv es) sw) rows"

definition block_column :: "swap_event \<Rightarrow> big_decimal option" where
  "block_column e = Some (BigDecimal (sint (ti_block_number (se_tx_info e))) 0)"

definition init_row :: "swap_event \<Rightarrow> single_swap \<Rightarrow> single_swap" where
  "init_row e sw =
    sw\<lparr>sw_filled_amount := sw_amount sw, sw_initiate_tx_hash := ti_tx_hash (se_tx_info e),
       sw_initiate_block_number := block_column e, sw_initiate_timestamp := ti_block_timestamp (se_tx_info e)\<rparr>"

definition event_secret :: "swap_event \<Rightarrow> string" where
  "event_secret e = (case se_type e of SeRedeem s \<Rightarrow> s | _ \<Rightarrow> [])"

definition redeem_row :: "swap_event \<Rightarrow> single_swap \<Rightarrow> single_swap" where
  "redeem_row e sw =
    sw\<lparr>sw_redeem_tx_hash := ti_tx_hash (se_tx_info e), sw_redeem_block_number := block_column e,
       sw_redeem_timestamp := ti_block_timestamp (se_tx_info e), sw_secret := event_secret e\<rparr>"

definition refund_row :: "swap_event \<Rightarrow> single_swap \<Rightarrow> single_swap" where
  "refund_row e sw =
    sw\<lparr>sw_refund_tx_hash := ti_tx_hash (se_tx_info e), sw_refund_block_number := block_column e,
       sw_refund_timestamp := ti_block_timestamp (se_tx_info e)\<rparr>"

text \<open>A detected timestamp is written once.\<close>

definition handle_detected_timestamps :: "store_view \<Rightarrow> (string \<times> int) list \<Rightarrow> string \<Rightarrow> watched_order list \<Rightarrow> watched_order list" where
  "handle_detected_timestamps sv data key orders =
    map (\<lambda>ord.
      let times = map snd (filter (\<lambda>(k, _). lower k = lower (wo_source_swap_id ord) \<or> lower k = lower (wo_destination_swap_id ord)) data) in
      if times = [] \<or> map_of (wo_detected ord) key \<noteq> None then ord
      else ord\<lparr>wo_detected := wo_detected ord @ [(key, sv_pick_time sv times)]\<rparr>) orders"

text \<open>
  The timestamps have a transaction of their own. A failing statement is only logged, and the commit
  that follows then rolls back; a transaction that cannot begin or commit is an error.
\<close>

definition update_detected_timestamps :: "store_view \<Rightarrow> swap_event list \<Rightarrow> string \<Rightarrow> swap_db \<Rightarrow> (message, unit) result \<times> swap_db" where
  "update_detected_timestamps sv events key db =
    (let data = List.map_filter (\<lambda>e. map_option (\<lambda>ts. (se_swap_id e, ts div 1000000000)) (ti_detected_timestamp (se_tx_info e))) events in
     if data = [] then (Inr (), db)
     else if sv_fails sv (StDetectedTransaction key) then (Inl (Format ''{sqlx error}'' []), db)
     else if sv_fails sv (StDetected key) then (Inr (), db)
     else (Inr (), db\<lparr>db_orders := handle_detected_timestamps sv data key (db_orders db)\<rparr>))"

text \<open>
  The update of the swaps is committed before the timestamps are written: an error of the latter
  leaves the former in place. A statement here stands for its transaction too.
\<close>

definition handle_events ::
    "store_view \<Rightarrow> store_statement \<Rightarrow> string \<Rightarrow> (swap_event \<Rightarrow> single_swap \<Rightarrow> single_swap) \<Rightarrow> string \<Rightarrow> swap_event list \<Rightarrow> swap_db \<Rightarrow>
     (message, unit) result \<times> swap_db" where
  "handle_events sv statement fmt f key events db =
    (if events = [] then (Inr (), db)
     else if sv_fails sv statement then (Inl (Format fmt []), db)
     else update_detected_timestamps sv events key (db\<lparr>db_swaps := update_from sv f events (db_swaps db)\<rparr>))"

definition handle_inits :: "store_view \<Rightarrow> swap_event list \<Rightarrow> swap_db \<Rightarrow> (message, unit) result \<times> swap_db" where
  "handle_inits sv = handle_events sv StInits ''Failed to update inits: {}'' init_row ''initiate_detected_timestamp''"

definition handle_redeems :: "store_view \<Rightarrow> swap_event list \<Rightarrow> swap_db \<Rightarrow> (message, unit) result \<times> swap_db" where
  "handle_redeems sv = handle_events sv StRedeems ''Failed to update redeems: {}'' redeem_row ''redeem_detected_timestamp''"

definition handle_refunds :: "store_view \<Rightarrow> swap_event list \<Rightarrow> swap_db \<Rightarrow> (message, unit) result \<times> swap_db" where
  "handle_refunds sv = handle_events sv StRefunds ''Failed to update refunds: {}'' refund_row ''refund_detected_timestamp''"

definition is_redeem :: "swap_event \<Rightarrow> bool" where
  "is_redeem e = (case se_type e of SeRedeem _ \<Rightarrow> True | _ \<Rightarrow> False)"

definition update_swaps :: "store_view \<Rightarrow> swap_event list \<Rightarrow> swap_db \<Rightarrow> (message, unit) result \<times> swap_db" where
  "update_swaps sv events db =
    (case handle_inits sv (filter (\<lambda>e. se_type e = SeInitiate) events) db of
       (Inl e, db) \<Rightarrow> (Inl e, db)
     | (Inr _, db) \<Rightarrow>
         (case handle_redeems sv (filter is_redeem events) db of
            (Inl e, db) \<Rightarrow> (Inl e, db)
          | (Inr _, db) \<Rightarrow> handle_refunds sv (filter (\<lambda>e. se_type e = SeRefund) events) db))"

section \<open>Other updates\<close>

text \<open>GREATEST ignores NULL; the assignment to an integer column rounds.\<close>

definition confirmations_column :: "int \<Rightarrow> single_swap \<Rightarrow> i32" where
  "confirmations_column current sw =
    (let depth = (case sw_initiate_block_number sw of None \<Rightarrow> 0 | Some b \<Rightarrow> max (of_int current - bd_value b + 1) 0) in
     word_of_int (round (min (of_int (sint (sw_required_confirmations sw))) depth)))"

definition update_confirmations :: "store_view \<Rightarrow> string \<Rightarrow> i64 \<Rightarrow> swap_db \<Rightarrow> (message, unit) result \<times> swap_db" where
  "update_confirmations sv chain current db =
    (if sv_fails sv StConfirmations then (Inl (Format ''Failed to update confirmations: {}'' []), db)
     else
       (Inr (), db\<lparr>db_swaps := map (\<lambda>sw.
          if sw_chain sw = chain \<and> sw_required_confirmations sw \<noteq> sw_current_confirmations sw \<and> sw_initiate_tx_hash sw \<noteq> []
          then sw\<lparr>sw_current_confirmations := confirmations_column (sint current) sw\<rparr> else sw) (db_swaps db)\<rparr>))"

definition backfilled_row :: "i64 \<Rightarrow> i64 \<Rightarrow> single_swap \<Rightarrow> single_swap" where
  "backfilled_row block filled sw =
    sw\<lparr>sw_initiate_block_number :=
         (if coalesce_zero (sw_initiate_block_number sw) = 0 then Some (BigDecimal (sint block) 0) else sw_initiate_block_number sw),
       sw_filled_amount := (if bd_value (sw_filled_amount sw) = 0 then BigDecimal (sint filled) 0 else sw_filled_amount sw),
       sw_amount := BigDecimal (sint filled) 0\<rparr>"

definition backfill_initiate :: "store_view \<Rightarrow> string \<Rightarrow> i64 \<Rightarrow> i64 \<Rightarrow> swap_db \<Rightarrow> (message, unit) result \<times> swap_db" where
  "backfill_initiate sv swap_id block filled db =
    (if sv_fails sv (StBackfill swap_id) then (Inl (Format ''Failed to backfill initiate: {e}'' []), db)
     else (Inr (), db\<lparr>db_swaps := map (\<lambda>sw. if sw_swap_id sw = swap_id then backfilled_row block filled sw else sw) (db_swaps db)\<rparr>))"

definition mark_blacklisted :: "store_view \<Rightarrow> string list \<Rightarrow> swap_db \<Rightarrow> (message, unit) result \<times> swap_db" where
  "mark_blacklisted sv ids db =
    (if sv_fails sv StBlacklist then (Inl (Format ''Failed to mark as blacklisted: {}'' []), db)
     else
       (Inr (), db\<lparr>db_orders := map (\<lambda>ord.
          if wo_source_swap_id ord \<in> set ids \<or> wo_destination_swap_id ord \<in> set ids then ord\<lparr>wo_is_blacklisted := True\<rparr> else ord)
          (db_orders db)\<rparr>))"

end
