(* ===== verification/Watcher.thy ===== *)
theory Watcher
  imports WatchStore
begin

text \<open>
  The tasks of the Bitcoin watcher (btc-watcher/src/core/watcher): they keep a cache of the awaited
  swaps, turn mempool transactions, blocks and polled addresses into events, and write events,
  confirmations and missing block numbers to the swap store. A view holds what one round of a
  task sees of clock, database, indexer answers and node; one round is one step of the watcher.
\<close>

section \<open>Storing events\<close>

definition mempool_entry_present :: "(string, unit) result \<Rightarrow> (string, bool) result" where
  "mempool_entry_present answer =
    (case answer of
       Inr _ \<Rightarrow> Inr True
     | Inl e \<Rightarrow> if contains ''Transaction not in mempool'' e then Inr False else Inl e)"

text \<open>Errors of the store are logged.\<close>

definition store_swap_events :: "store_view \<Rightarrow> swap_event list \<Rightarrow> swap_db \<Rightarrow> swap_db" where
  "store_swap_events sv events db =
    (let blacklisted_ids = map se_swap_id (filter se_is_blacklisted events);
         validated = filter (\<lambda>e. \<not> se_is_blacklisted e) events;
         db = (if validated = [] then db else snd (update_swaps sv validated db)) in
     if blacklisted_ids = [] then db else snd (mark_blacklisted sv blacklisted_ids db))"

section \<open>Mempool transactions\<close>

type_synonym event_key = "string \<times> string \<times> i64"

definition event_key :: "swap_event \<Rightarrow> event_key" where
  "event_key e = (se_swap_id e, ti_tx_hash (se_tx_info e), ti_block_number (se_tx_info e))"

definition REVALIDATE_TX_BUFFER :: int where "REVALIDATE_TX_BUFFER = 3 * 60"

text \<open>\<open>rsplit_once(':')\<close>, or the whole text.\<close>

definition before_last_colon :: "string \<Rightarrow> string" where
  "before_last_colon s =
    (if CHR '':'' \<in> set s then rev (drop 1 (dropWhile (\<lambda>c. c \<noteq> CHR '':'') (rev s))) else s)"

record batch_view =
  bv_now :: timestamp
  bv_store :: store_view
  bv_mempool :: "string \<Rightarrow> (string, unit) result"
  bv_retained :: "event_key \<Rightarrow> bool"
  bv_height :: "(string, u64) result"
  bv_address_txs :: "string \<Rightarrow> (string, polled_tx list) result"

type_synonym processed = "(event_key \<times> int) list"

definition dedup_step :: "batch_view \<Rightarrow> swap_event list \<times> processed \<Rightarrow> swap_event \<Rightarrow> swap_event list \<times> processed" where
  "dedup_step bv acc e =
    (let (new_events, seen) = acc; key = event_key e; now = bv_now bv div 1000000000 in
     case (if bv_retained bv key then map_of seen key else None) of
       None \<Rightarrow> (new_events @ [e], AList.update key now seen)
     | Some ts \<Rightarrow>
         if ts + REVALIDATE_TX_BUFFER > now then acc
         else
           (case mempool_entry_present (bv_mempool bv (before_last_colon (ti_tx_hash (se_tx_info e)))) of
              Inl _ \<Rightarrow> acc
            | Inr present \<Rightarrow> ((if present then new_events @ [e] else new_events), AList.update key now seen)))"

definition dedup_processed_events :: "batch_view \<Rightarrow> swap_event list \<Rightarrow> processed \<Rightarrow> swap_event list \<times> processed" where
  "dedup_processed_events bv events seen = foldl (dedup_step bv) ([], seen) events"

section \<open>The watcher\<close>

record watch_config =
  wf_chain :: string
  wf_network :: network
  wf_buffer :: int

record watcher =
  wt_db :: swap_db
  wt_cache :: swap_cache
  wt_deps :: parser_deps
  wt_processed :: processed

definition process_batch ::
    "htlc_crates \<Rightarrow> watch_crates \<Rightarrow> watch_config \<Rightarrow> batch_view \<Rightarrow> transaction list \<Rightarrow> watcher \<Rightarrow> watcher" where
  "process_batch hc wc cf bv txs w =
    (let (events, deps) = parse_all (parse_swap_events hc wc (wf_network cf) (wt_cache w) 0 None (Some (bv_now bv))) txs (wt_deps w);
         (new_events, seen) = dedup_processed_events bv (remove_duplicates events) (wt_processed w) in
     w\<lparr>wt_deps := deps, wt_processed := seen, wt_db := store_swap_events (bv_store bv) new_events (wt_db w)\<rparr>)"

record watch_block =
  bk_time :: u32
  bk_height :: "(string, u64) result"
  bk_txdata :: "transaction list"

definition process_block ::
    "htlc_crates \<Rightarrow> watch_crates \<Rightarrow> watch_config \<Rightarrow> batch_view \<Rightarrow> watch_block \<Rightarrow> watcher \<Rightarrow> watcher" where
  "process_block hc wc cf bv b w =
    (case wc_from_timestamp wc (ucast (bk_time b)) of
       None \<Rightarrow> w
     | Some block_ts \<Rightarrow>
     (case bk_height b of
       Inl _ \<Rightarrow> w
     | Inr height \<Rightarrow>
         (let (events, deps) = parse_all (parse_swap_events hc wc (wf_network cf) (wt_cache w) height (Some block_ts) None) (bk_txdata b) (wt_deps w) in
          w\<lparr>wt_deps := deps, wt_db := store_swap_events (bv_store bv) (remove_duplicates events) (wt_db w)\<rparr>)))"

definition refresh_cache :: "watch_config \<Rightarrow> batch_view \<Rightarrow> watcher \<Rightarrow> watcher" where
  "refresh_cache cf bv w =
    (case get_swaps (bv_store bv) (wf_buffer cf) (wf_chain cf) (wt_db w) of
       Inl _ \<Rightarrow> w
     | Inr swaps \<Rightarrow> w\<lparr>wt_cache := map_of (rev (map (\<lambda>s. (ws_swap_id s, s)) swaps))\<rparr>)"

definition trim_text :: "string \<Rightarrow> string" where
  "trim_text s = rev (dropWhile (\<lambda>c. all_whitespace [of_char c]) (rev (dropWhile (\<lambda>c. all_whitespace [of_char c]) s)))"

text \<open>The first transaction of a compound hash.\<close>

definition first_txid :: "string \<Rightarrow> string" where
  "first_txid hash = hd (split_on CHR '':'' (trim_text (hd (split_on CHR '','' hash))))"

definition backfill_step :: "batch_view \<Rightarrow> watch_indexer \<times> swap_db \<Rightarrow> string \<times> string \<Rightarrow> watch_indexer \<times> swap_db" where
  "backfill_step bv acc row =
    (let (ix, db) = acc; (swap_id, hash) = row; tx = first_txid hash in
     if tx = [] then acc
     else
       (case ask_tx ix tx of
          (Inl _, ix) \<Rightarrow> (ix, db)
        | (Inr m, ix) \<Rightarrow>
            (case (if tm_confirmed m then tm_block_height m else None) of
               None \<Rightarrow> (ix, db)
             | Some h \<Rightarrow>
                 (let filled = sum_list (map snd (filter (\<lambda>(a, _). a = swap_id) (tm_outputs m))) in
                  (ix, snd (backfill_initiate (bv_store bv) swap_id h filled db))))))"

definition backfill_initiate_block_numbers :: "watch_config \<Rightarrow> batch_view \<Rightarrow> watch_indexer \<times> swap_db \<Rightarrow> watch_indexer \<times> swap_db" where
  "backfill_initiate_block_numbers cf bv acc =
    (case get_swaps_missing_initiate_block (bv_store bv) (wf_chain cf) (snd acc) of
       Inl _ \<Rightarrow> acc
     | Inr rows \<Rightarrow> foldl (backfill_step bv) acc rows)"

definition update_confirmations_tick :: "watch_config \<Rightarrow> batch_view \<Rightarrow> watcher \<Rightarrow> watcher" where
  "update_confirmations_tick cf bv w =
    (case bv_height bv of
       Inl _ \<Rightarrow> w
     | Inr current \<Rightarrow>
         (let (ix, db) = backfill_initiate_block_numbers cf bv (pd_indexer (wt_deps w), wt_db w) in
          w\<lparr>wt_deps := (wt_deps w)\<lparr>pd_indexer := ix\<rparr>, wt_db := snd (update_confirmations (bv_store bv) (wf_chain cf) current db)\<rparr>))"

definition poll_once :: "watch_crates \<Rightarrow> watch_config \<Rightarrow> batch_view \<Rightarrow> watcher \<Rightarrow> watcher" where
  "poll_once wc cf bv w =
    (case get_swaps (bv_store bv) (wf_buffer cf) (wf_chain cf) (wt_db w) of
       Inl _ \<Rightarrow> w
     | Inr swaps \<Rightarrow>
         (let events = concat (map (\<lambda>s.
                case query_swap_events wc (bv_now bv) (bv_address_txs bv (ws_swap_id s)) s of Inl _ \<Rightarrow> [] | Inr es \<Rightarrow> es) swaps) in
          if events = [] then w else w\<lparr>wt_db := snd (update_swaps (bv_store bv) events (wt_db w))\<rparr>))"

datatype watch_event = WRefresh | WTxs "transaction list" | WBlock watch_block | WConfirmations | WPoll

fun watcher_step ::
    "htlc_crates \<Rightarrow> watch_crates \<Rightarrow> watch_config \<Rightarrow> watcher \<Rightarrow> batch_view \<times> watch_event \<Rightarrow> watcher" where
  "watcher_step hc wc cf w (bv, WRefresh) = refresh_cache cf bv w"
| "watcher_step hc wc cf w (bv, WTxs txs) = process_batch hc wc cf bv txs w"
| "watcher_step hc wc cf w (bv, WBlock b) = process_block hc wc cf bv b w"
| "watcher_step hc wc cf w (bv, WConfirmations) = update_confirmations_tick cf bv w"
| "watcher_step hc wc cf w (bv, WPoll) = poll_once wc cf bv w"

definition watcher_run ::
    "htlc_crates \<Rightarrow> watch_crates \<Rightarrow> watch_config \<Rightarrow> watcher \<Rightarrow> (batch_view \<times> watch_event) list \<Rightarrow> watcher" where
  "watcher_run hc wc cf w evs = foldl (watcher_step hc wc cf) w evs"

end
