(* ===== verification/WatchProps.thy ===== *)
theory WatchProps
  imports Watcher OrderMapperProps
begin

text \<open>
  Properties of the Bitcoin watcher: it recognises what the executor's witnesses do, it never takes
  a recorded fact back, and together with the order mapper it lets a solver pay for a deposit that
  is in no block.
\<close>

section \<open>Recognising spends\<close>

text \<open>\<open>hex::encode\<close> writes two lower-case digits for each byte.\<close>

definition hex_ok :: "htlc_crates \<Rightarrow> bool" where
  "hex_ok hc = (\<forall>bs. length (hc_hex_encode hc bs) = 2 * length bs \<and> CHR ''x'' \<notin> set (hc_hex_encode hc bs))"

lemma order_secret_hex:
  assumes "hex_ok hc" "length secret = 32"
  shows "order_secret_new (hc_hex_encode hc secret) = Inr (hc_hex_encode hc secret)"
proof -
  have l: "length (hc_hex_encode hc secret) = 64" and x: "CHR ''x'' \<notin> set (hc_hex_encode hc secret)"
    using assms by (auto simp: hex_ok_def)
  have "take 2 (hc_hex_encode hc secret) \<noteq> ''0x''"
    using x in_set_takeD[of "CHR ''x''" 2 "hc_hex_encode hc secret"] by auto
  with l show ?thesis by (simp add: order_secret_new_def strip_0x_def)
qed

text \<open>C27: The watcher recognises the spends that the executor makes, and reads the secret back: a finished
  redeem witness is reported as a redeem with the secret in hexadecimal, finished refund and instant
  refund witnesses as refunds, and the address poller, which sees the witness in hexadecimal, reports
  exactly what the transaction parser reports.\<close>

theorem spend_witness_roundtrip:
  assumes "hex_ok hc" "length sig = 65" "length user_sig = 65" "length secret = 32"
  shows "(get_redeem_witness hc p secret = Inr wit \<longrightarrow>
        get_htlc_spend_type hc (inp\<lparr>in_witness := fill_signature sig wit\<rparr>) = Some (SeRedeem (hc_hex_encode hc secret)))
    \<and> (get_refund_witness hc p = Inr wit \<longrightarrow> get_htlc_spend_type hc (inp\<lparr>in_witness := fill_signature sig wit\<rparr>) = Some SeRefund)
    \<and> (get_instant_refund_witness hc p user_sig sig = Inr wit \<longrightarrow>
        get_htlc_spend_type hc (inp\<lparr>in_witness := wit\<rparr>) = Some SeRefund)
    \<and> classify_spend (map (hc_hex_encode hc) (in_witness inp)) = get_htlc_spend_type hc inp"
proof (intro conjI impI)
  show "get_htlc_spend_type hc (inp\<lparr>in_witness := fill_signature sig wit\<rparr>) = Some (SeRedeem (hc_hex_encode hc secret))"
    if "get_redeem_witness hc p secret = Inr wit"
    using that assms(2,4) order_secret_hex[OF assms(1,4)]
    by (auto simp: get_redeem_witness_def try_simps SCHNORR_SIG_PLACEHOLDER_def get_htlc_spend_type_def)
  show "get_htlc_spend_type hc (inp\<lparr>in_witness := fill_signature sig wit\<rparr>) = Some SeRefund"
    if "get_refund_witness hc p = Inr wit"
    using that by (auto simp: get_refund_witness_def try_simps SCHNORR_SIG_PLACEHOLDER_def get_htlc_spend_type_def)
  show "get_htlc_spend_type hc (inp\<lparr>in_witness := wit\<rparr>) = Some SeRefund"
    if "get_instant_refund_witness hc p user_sig sig = Inr wit"
    using that assms(2,3) by (auto simp: get_instant_refund_witness_def try_simps get_htlc_spend_type_def)
  have "length (hc_hex_encode hc a) = length (hc_hex_encode hc b) \<longleftrightarrow> length a = length b" for a b
    using assms(1) by (simp add: hex_ok_def)
  then show "classify_spend (map (hc_hex_encode hc) (in_witness inp)) = get_htlc_spend_type hc inp"
    by (simp add: classify_spend_def get_htlc_spend_type_def Let_def)
qed

section \<open>Recorded facts stay\<close>

text \<open>
  A row after another. The terms of the swap are the same; it is still marked initiated, redeemed or
  refunded, and still has a secret, if it was or had. Another event of the swap may replace a
  recorded hash, block or secret: only that it is recorded is kept.
\<close>

definition swap_terms :: "single_swap \<Rightarrow> _" where
  "swap_terms sw = (sw_created_at sw, sw_swap_id sw, sw_chain sw, sw_asset sw, sw_initiator sw, sw_redeemer sw, sw_timelock sw,
     sw_secret_hash sw, sw_required_confirmations sw)"

definition row_grows :: "single_swap \<Rightarrow> single_swap \<Rightarrow> bool" where
  "row_grows sw sw' =
    (swap_terms sw' = swap_terms sw
     \<and> (sw_initiate_tx_hash sw \<noteq> [] \<longrightarrow> sw_initiate_tx_hash sw' \<noteq> [])
     \<and> (sw_redeem_tx_hash sw \<noteq> [] \<longrightarrow> sw_redeem_tx_hash sw' \<noteq> [])
     \<and> (sw_refund_tx_hash sw \<noteq> [] \<longrightarrow> sw_refund_tx_hash sw' \<noteq> [])
     \<and> (sw_secret sw \<noteq> [] \<longrightarrow> sw_secret sw' \<noteq> []))"

lemma row_grows_refl: "row_grows sw sw"
  by (simp add: row_grows_def)

lemma row_grows_trans: "row_grows a b \<Longrightarrow> row_grows b c \<Longrightarrow> row_grows a c"
  by (simp add: row_grows_def)

definition order_grows :: "watched_order \<Rightarrow> watched_order \<Rightarrow> bool" where
  "order_grows ord ord' = (wo_create_id ord' = wo_create_id ord \<and> wo_source_swap_id ord' = wo_source_swap_id ord
     \<and> wo_destination_swap_id ord' = wo_destination_swap_id ord \<and> (wo_is_blacklisted ord \<longrightarrow> wo_is_blacklisted ord')
     \<and> map_of (wo_detected ord) \<subseteq>\<^sub>m map_of (wo_detected ord'))"

lemma order_grows_refl: "order_grows ord ord"
  by (simp add: order_grows_def)

lemma order_grows_trans: "order_grows a b \<Longrightarrow> order_grows b c \<Longrightarrow> order_grows a c"
  by (auto simp: order_grows_def intro: map_le_trans)

definition db_grows :: "swap_db \<Rightarrow> swap_db \<Rightarrow> bool" where
  "db_grows db db' = (list_all2 row_grows (db_swaps db) (db_swaps db') \<and> list_all2 order_grows (db_orders db) (db_orders db'))"

lemma db_grows_refl: "db_grows db db"
  by (simp add: db_grows_def row_grows_refl order_grows_refl list_all2_refl)

lemma db_grows_trans:
  assumes "db_grows a b" "db_grows b c"
  shows "db_grows a c"
proof -
  have "list_all2 row_grows (db_swaps a) (db_swaps c)"
    using list_all2_trans[of row_grows row_grows row_grows, OF row_grows_trans] assms by (auto simp: db_grows_def)
  moreover have "list_all2 order_grows (db_orders a) (db_orders c)"
    using list_all2_trans[of order_grows order_grows order_grows, OF order_grows_trans] assms by (auto simp: db_grows_def)
  ultimately show ?thesis by (simp add: db_grows_def)
qed

lemma list_all2_map_growth: "(\<And>x. x \<in> set xs \<Longrightarrow> R x (f x)) \<Longrightarrow> list_all2 R xs (map f xs)"
  by (induction xs) auto

text \<open>The events that the watcher makes name a transaction, and redeems carry a secret.\<close>

definition event_ok :: "swap_event \<Rightarrow> bool" where
  "event_ok e = (ti_tx_hash (se_tx_info e) \<noteq> [] \<and> se_type e \<noteq> SeRedeem [])"

lemma secret_not_empty: "order_secret_new s = Inr t \<Longrightarrow> t \<noteq> []"
  by (auto simp: order_secret_new_def Let_def split: if_splits)

lemma spend_type_ok:
  assumes "get_htlc_spend_type hc inp = Some ty"
  shows "ty \<noteq> SeRedeem []"
proof (cases "order_secret_new (hc_hex_encode hc (in_witness inp ! 1))")
  case (Inl e)
  with assms show ?thesis by (auto simp: get_htlc_spend_type_def Let_def split: if_splits)
next
  case (Inr s)
  then have "s \<noteq> []" by (rule secret_not_empty)
  with assms Inr show ?thesis by (auto simp: get_htlc_spend_type_def Let_def split: if_splits)
qed

lemma polled_type_ok:
  assumes "classify_spend ws = Some ty"
  shows "ty \<noteq> SeRedeem []"
proof (cases "order_secret_new (ws ! 1)")
  case (Inl e)
  with assms show ?thesis by (auto simp: classify_spend_def split: if_splits)
next
  case (Inr s)
  then have "s \<noteq> []" by (rule secret_not_empty)
  with assms Inr show ?thesis by (auto simp: classify_spend_def split: if_splits)
qed

lemma in_map_filterD: "y \<in> set (List.map_filter f xs) \<Longrightarrow> \<exists>x \<in> set xs. f x = Some y"
  by (auto simp: map_filter_def)

lemma deposit_events_ok:
  assumes "process_deposits_in_tx hc wc net cache tx h b dt d = (es, d')"
  shows "\<forall>e \<in> set es. se_is_blacklisted e \<or> event_ok e"
proof -
  obtain r d1 where r: "has_blacklisted_inputs (wc_compute_txid wc tx) d = (r, d1)"
    by (cases "has_blacklisted_inputs (wc_compute_txid wc tx) d")
  consider (no) "es = []" | (bad) "r = Inr True" | (good) "r = Inr False"
  proof (cases r)
    case (Inl m)
    with assms r that(1) show thesis by (simp add: process_deposits_in_tx_def Let_def split: if_splits)
  next
    case (Inr x)
    with that(2,3) show thesis by (cases x) auto
  qed
  then show ?thesis
  proof cases
    case no
    then show ?thesis by simp
  next
    case bad
    with assms r show ?thesis by (auto simp: process_deposits_in_tx_def Let_def split: if_splits)
  next
    case good
    show ?thesis
    proof (intro ballI disjI2)
      fix e
      assume "e \<in> set es"
      moreover from this assms have "collect_htlc_deposits hc net cache tx \<noteq> []"
        by (cases "collect_htlc_deposits hc net cache tx") (simp_all add: process_deposits_in_tx_def)
      ultimately have "se_type e = SeInitiate" "ti_tx_hash (se_tx_info e) = tx_hash_at (wc_compute_txid wc tx) h"
        using assms r good by (auto simp: process_deposits_in_tx_def Let_def)
      then show "event_ok e" by (simp add: event_ok_def tx_hash_at_def)
    qed
  qed
qed

lemma withdraw_event_ok:
  assumes "withdraw_event hc wc net cache tx h b dt inp = Some e"
  shows "event_ok e"
proof -
  obtain s ty where ty: "get_htlc_spend_type hc inp = Some ty" and
      e: "se_type e = ty" "ti_tx_hash (se_tx_info e) = tx_hash_at tx h"
    using assms by (auto simp: withdraw_event_def split: if_splits option.splits)
  with spend_type_ok[OF ty] show ?thesis by (simp add: event_ok_def tx_hash_at_def)
qed

lemma withdraw_events_ok: "e \<in> set (process_withdraws_in_tx hc wc net cache tx h b dt) \<Longrightarrow> event_ok e"
  by (auto simp: process_withdraws_in_tx_def dest!: in_map_filterD dest: withdraw_event_ok)

lemma parsed_events_ok:
  assumes "parse_all (parse_swap_events hc wc net cache h b dt) txs d = (es, d')"
  shows "\<forall>e \<in> set es. se_is_blacklisted e \<or> event_ok e"
  using assms
proof (induction txs arbitrary: d es d')
  case (Cons tx txs)
  obtain es1 d1 where p: "parse_swap_events hc wc net cache h b dt tx d = (es1, d1)" by (cases "parse_swap_events hc wc net cache h b dt tx d")
  obtain es2 d2 where r: "parse_all (parse_swap_events hc wc net cache h b dt) txs d1 = (es2, d2)"
    by (cases "parse_all (parse_swap_events hc wc net cache h b dt) txs d1")
  have "\<forall>e \<in> set es1. se_is_blacklisted e \<or> event_ok e"
    using p deposit_events_ok[of hc wc net cache tx h b dt d] withdraw_events_ok
    by (auto simp: parse_swap_events_def split: if_splits prod.splits)
  with Cons.IH[OF r] Cons.prems p r show ?case by auto
qed simp

lemma polled_spend_ok:
  assumes "e \<in> set (polled_spend s info tx)" "ti_tx_hash info \<noteq> []"
  shows "event_ok e"
proof (cases "List.map_filter (polled_spend_type s) (pt_vin tx)")
  case (Cons ty tys)
  then have "ty \<in> set (List.map_filter (polled_spend_type s) (pt_vin tx))" by simp
  then obtain inp where "polled_spend_type s inp = Some ty" by (blast dest: in_map_filterD)
  then obtain w where "classify_spend w = Some ty" by (auto simp: polled_spend_type_def split: if_splits option.splits)
  then have "ty \<noteq> SeRedeem []" by (rule polled_type_ok)
  with assms Cons show ?thesis by (auto simp: polled_spend_def event_ok_def)
qed (use assms in \<open>simp add: polled_spend_def\<close>)

lemma polled_deposit_ok: "e \<in> set (polled_deposit s info tx) \<Longrightarrow> ti_tx_hash info \<noteq> [] \<Longrightarrow> event_ok e"
  by (auto simp: polled_deposit_def event_ok_def split: option.splits)

lemma polled_events_ok: "e \<in> set (polled_events wc now s tx) \<Longrightarrow> event_ok e"
  by (simp only: polled_events_def Let_def set_append Un_iff) (erule disjE; erule polled_deposit_ok polled_spend_ok; simp)

lemma set_remove_duplicates: "set (remove_duplicates es) = set es"
proof -
  have "set (foldl (\<lambda>out e. if e \<in> set out then out else out @ [e]) out es) = set out \<union> set es" for out
    by (induction es arbitrary: out) auto
  then show ?thesis by (simp add: remove_duplicates_def)
qed

lemma dedup_subset: "fst (dedup_processed_events bv es seen) = out \<Longrightarrow> set out \<subseteq> set es"
proof -
  have "set (fst (foldl (dedup_step bv) acc es)) \<subseteq> set (fst acc) \<union> set es" for acc
  proof (induction es arbitrary: acc)
    case (Cons e es)
    have "set (fst (dedup_step bv acc e)) \<subseteq> set (fst acc) \<union> {e}"
      by (auto simp: dedup_step_def Let_def split: prod.splits option.splits if_splits sum.splits)
    with Cons.IH[of "dedup_step bv acc e"] show ?case by auto
  qed simp
  from this[of "([], seen)"] show "fst (dedup_processed_events bv es seen) = out \<Longrightarrow> set out \<subseteq> set es"
    by (auto simp: dedup_processed_events_def)
qed
text \<open>The database picks one of the joined events.\<close>

definition view_ok :: "store_view \<Rightarrow> bool" where
  "view_ok sv = (\<forall>es. es \<noteq> [] \<longrightarrow> sv_pick sv es \<in> set es)"

lemma init_row_grows: "event_ok e \<Longrightarrow> row_grows sw (init_row e sw)"
  by (simp add: row_grows_def swap_terms_def init_row_def event_ok_def)

lemma refund_row_grows: "event_ok e \<Longrightarrow> row_grows sw (refund_row e sw)"
  by (simp add: row_grows_def swap_terms_def refund_row_def event_ok_def)

lemma redeem_row_grows: "event_ok e \<and> is_redeem e \<Longrightarrow> row_grows sw (redeem_row e sw)"
  by (cases "se_type e") (simp_all add: row_grows_def swap_terms_def redeem_row_def event_ok_def is_redeem_def event_secret_def)

lemma update_from_grows:
  assumes "view_ok sv" "\<forall>e \<in> set events. P e" "\<And>e sw. P e \<Longrightarrow> row_grows sw (f e sw)"
  shows "list_all2 row_grows rows (update_from sv f events rows)"
  unfolding update_from_def
proof (rule list_all2_map_growth)
  fix sw
  show "row_grows sw (case events_of events sw of [] \<Rightarrow> sw | es \<Rightarrow> f (sv_pick sv es) sw)"
  proof (cases "events_of events sw")
    case (Cons e es)
    then have "sv_pick sv (events_of events sw) \<in> set (events_of events sw)"
      using assms(1) unfolding view_ok_def by (metis list.distinct(1))
    then have "P (sv_pick sv (events_of events sw))"
      using assms(2) by (auto simp: events_of_def)
    with assms(3) Cons show ?thesis by simp
  qed (simp add: row_grows_refl)
qed

lemma detected_grows: "list_all2 order_grows ords (handle_detected_timestamps sv data key ords)"
  unfolding handle_detected_timestamps_def
  by (rule list_all2_map_growth) (auto simp: order_grows_def Let_def map_le_def map_add_def)

lemma update_detected_grows: "db_grows db (snd (update_detected_timestamps sv events key db))"
  using detected_grows by (auto simp: update_detected_timestamps_def Let_def db_grows_def row_grows_refl order_grows_refl list_all2_refl)

lemma handle_events_grows:
  assumes "view_ok sv" "\<forall>e \<in> set events. P e" "\<And>e sw. P e \<Longrightarrow> row_grows sw (f e sw)"
  shows "db_grows db (snd (handle_events sv st fmt f key events db))"
proof -
  have "db_grows db (db\<lparr>db_swaps := update_from sv f events (db_swaps db)\<rparr>)"
    using update_from_grows[OF assms] by (simp add: db_grows_def order_grows_refl list_all2_refl)
  then have "db_grows db (snd (update_detected_timestamps sv events key (db\<lparr>db_swaps := update_from sv f events (db_swaps db)\<rparr>)))"
    using update_detected_grows by (rule db_grows_trans)
  then show ?thesis by (simp add: handle_events_def db_grows_refl)
qed

lemma update_swaps_grows:
  assumes "view_ok sv" "\<forall>e \<in> set events. event_ok e"
  shows "db_grows db (snd (update_swaps sv events db))"
proof -
  have i: "db_grows db (snd (handle_inits sv (filter (\<lambda>e. se_type e = SeInitiate) events) db))" for db
    unfolding handle_inits_def using assms init_row_grows by (intro handle_events_grows[where P = event_ok]) auto
  have d: "db_grows db (snd (handle_redeems sv (filter is_redeem events) db))" for db
    unfolding handle_redeems_def using assms redeem_row_grows
    by (intro handle_events_grows[where P = "\<lambda>e. event_ok e \<and> is_redeem e"]) auto
  have f: "db_grows db (snd (handle_refunds sv (filter (\<lambda>e. se_type e = SeRefund) events) db))" for db
    unfolding handle_refunds_def using assms refund_row_grows by (intro handle_events_grows[where P = event_ok]) auto
  obtain r1 db1 where 1: "handle_inits sv (filter (\<lambda>e. se_type e = SeInitiate) events) db = (r1, db1)"
    by (cases "handle_inits sv (filter (\<lambda>e. se_type e = SeInitiate) events) db")
  obtain r2 db2 where 2: "handle_redeems sv (filter is_redeem events) db1 = (r2, db2)"
    by (cases "handle_redeems sv (filter is_redeem events) db1")
  have "db_grows db db1" "db_grows db1 db2" using i[of db] d[of db1] 1 2 by simp_all
  then show ?thesis
    using 1 2 f[of db2] by (cases r1; cases r2) (auto simp: update_swaps_def intro: db_grows_trans)
qed

lemma update_confirmations_grows: "db_grows db (snd (update_confirmations sv chain n db))"
proof -
  have "row_grows sw (sw\<lparr>sw_current_confirmations := c\<rparr>)" for sw c by (simp add: row_grows_def swap_terms_def)
  then show ?thesis
    by (auto simp: update_confirmations_def db_grows_def order_grows_refl list_all2_refl row_grows_refl intro!: list_all2_map_growth)
qed

lemma backfill_grows: "db_grows db (snd (backfill_initiate sv i b n db))"
proof -
  have "row_grows sw (backfilled_row b n sw)" for sw by (simp add: row_grows_def swap_terms_def backfilled_row_def)
  then show ?thesis
    by (auto simp: backfill_initiate_def db_grows_def order_grows_refl list_all2_refl row_grows_refl intro!: list_all2_map_growth)
qed

lemma mark_blacklisted_grows: "db_grows db (snd (mark_blacklisted sv is db))"
  by (auto simp: mark_blacklisted_def db_grows_def order_grows_def row_grows_refl list_all2_refl intro!: list_all2_map_growth)

lemma store_swap_events_grows:
  assumes "view_ok sv" "\<forall>e \<in> set events. se_is_blacklisted e \<or> event_ok e"
  shows "db_grows db (store_swap_events sv events db)"
proof -
  define validated where "validated = filter (\<lambda>e. \<not> se_is_blacklisted e) events"
  define db1 where "db1 = (if validated = [] then db else snd (update_swaps sv validated db))"
  have "db_grows db db1"
    using update_swaps_grows[OF assms(1), of validated db] assms(2) by (auto simp: db1_def validated_def db_grows_refl)
  then have "db_grows db (if ids = [] then db1 else snd (mark_blacklisted sv ids db1))" for ids
    by (simp add: db_grows_trans[OF _ mark_blacklisted_grows])
  then show ?thesis unfolding store_swap_events_def Let_def db1_def validated_def .
qed

lemma process_batch_grows:
  assumes "view_ok (bv_store bv)"
  shows "db_grows (wt_db w) (wt_db (process_batch hc wc cf bv txs w))"
proof -
  obtain events deps where p: "parse_all (parse_swap_events hc wc (wf_network cf) (wt_cache w) 0 None (Some (bv_now bv))) txs (wt_deps w) = (events, deps)"
    by (cases "parse_all (parse_swap_events hc wc (wf_network cf) (wt_cache w) 0 None (Some (bv_now bv))) txs (wt_deps w)")
  obtain new_events seen where d: "dedup_processed_events bv (remove_duplicates events) (wt_processed w) = (new_events, seen)"
    by (cases "dedup_processed_events bv (remove_duplicates events) (wt_processed w)")
  have "set new_events \<subseteq> set events"
    using dedup_subset[of bv "remove_duplicates events" "wt_processed w" new_events] d by (simp add: set_remove_duplicates)
  with parsed_events_ok[OF p] have "\<forall>e \<in> set new_events. se_is_blacklisted e \<or> event_ok e" by blast
  from store_swap_events_grows[OF assms this] show ?thesis by (simp add: process_batch_def p d)
qed

lemma process_block_grows:
  assumes "view_ok (bv_store bv)"
  shows "db_grows (wt_db w) (wt_db (process_block hc wc cf bv b w))"
proof -
  have "db_grows (wt_db w) (store_swap_events (bv_store bv) (remove_duplicates events) (wt_db w))"
    if "parse_all (parse_swap_events hc wc net cache h ts dt) txs d = (events, d')" for net cache h ts dt txs d events d'
    using parsed_events_ok[OF that] by (intro store_swap_events_grows[OF assms]) (simp add: set_remove_duplicates)
  then show ?thesis
    by (simp add: process_block_def db_grows_refl split: option.split sum.split prod.split)
qed

lemma backfill_step_grows: "db_grows (snd acc) (snd (backfill_step bv acc row))"
proof -
  obtain ix db where acc: "acc = (ix, db)" by (cases acc)
  obtain i h where row: "row = (i, h)" by (cases row)
  show ?thesis
    by (simp add: backfill_step_def acc row Let_def db_grows_refl backfill_grows split: prod.split sum.split option.split)
qed

lemma backfill_all_grows: "db_grows (snd acc) (snd (foldl (backfill_step bv) acc rows))"
proof (induction rows arbitrary: acc)
  case (Cons row rows)
  have "db_grows (snd acc) (snd (backfill_step bv acc row))" by (rule backfill_step_grows)
  with Cons.IH[of "backfill_step bv acc row"] show ?case by (auto intro: db_grows_trans)
qed (simp add: db_grows_refl)

lemma confirmations_tick_grows: "db_grows (wt_db w) (wt_db (update_confirmations_tick cf bv w))"
proof (cases "bv_height bv")
  case (Inr current)
  obtain ix db where b: "backfill_initiate_block_numbers cf bv (pd_indexer (wt_deps w), wt_db w) = (ix, db)"
    by (cases "backfill_initiate_block_numbers cf bv (pd_indexer (wt_deps w), wt_db w)")
  have "db_grows (snd acc) (snd (backfill_initiate_block_numbers cf bv acc))" for acc
    by (simp add: backfill_initiate_block_numbers_def db_grows_refl backfill_all_grows split: sum.split)
  from this[of "(pd_indexer (wt_deps w), wt_db w)"] have "db_grows (wt_db w) db" by (simp add: b)
  then have "db_grows (wt_db w) (snd (update_confirmations (bv_store bv) (wf_chain cf) current db))"
    by (rule db_grows_trans[OF _ update_confirmations_grows])
  with Inr b show ?thesis by (simp add: update_confirmations_tick_def)
qed (simp add: update_confirmations_tick_def db_grows_refl)

lemma queried_events_ok:
  assumes "query_swap_events wc now answer s = Inr es" "e \<in> set es"
  shows "event_ok e"
proof (cases answer)
  case (Inr txs)
  with assms polled_events_ok show ?thesis by (auto simp: query_swap_events_def)
qed (use assms in \<open>simp add: query_swap_events_def\<close>)

definition polled_all :: "watch_crates \<Rightarrow> batch_view \<Rightarrow> watched_swap \<Rightarrow> swap_event list" where
  "polled_all wc bv s =
    (case query_swap_events wc (bv_now bv) (bv_address_txs bv (ws_swap_id s)) s of Inl _ \<Rightarrow> [] | Inr es \<Rightarrow> es)"

lemma polled_all_ok: "e \<in> set (polled_all wc bv s) \<Longrightarrow> event_ok e"
  using queried_events_ok[of wc "bv_now bv" "bv_address_txs bv (ws_swap_id s)" s]
  by (cases "query_swap_events wc (bv_now bv) (bv_address_txs bv (ws_swap_id s)) s") (simp_all add: polled_all_def)

lemma poll_once_grows:
  assumes "view_ok (bv_store bv)"
  shows "db_grows (wt_db w) (wt_db (poll_once wc cf bv w))"
proof -
  have "\<forall>e \<in> set (concat (map (polled_all wc bv) swaps)). event_ok e" for swaps
    using polled_all_ok by auto
  from update_swaps_grows[OF assms this] show ?thesis
    by (simp add: poll_once_def Let_def db_grows_refl flip: polled_all_def split: sum.split)
qed

lemma refresh_keeps_db: "wt_db (refresh_cache cf bv w) = wt_db w"
  by (simp add: refresh_cache_def split: sum.split)

lemma watcher_step_grows:
  assumes "view_ok (bv_store (fst ev))"
  shows "db_grows (wt_db w) (wt_db (watcher_step hc wc cf w ev))"
proof -
  obtain bv e where ev: "ev = (bv, e)" by (cases ev)
  show ?thesis
    using assms by (cases e) (simp_all add: ev process_batch_grows process_block_grows confirmations_tick_grows
      poll_once_grows refresh_keeps_db db_grows_refl)
qed

text \<open>C25: Whatever tasks run, in whatever order and with whatever database failures, indexer answers and
  screening verdicts: no swap row disappears and none changes its terms (id, chain, asset, parties,
  timelock, secret hash, required confirmations, creation time); a row once marked initiated, redeemed
  or refunded, or once with a secret, stays so, though another event may replace the recorded value;
  no order is unflagged, and each detected timestamp keeps its first value.\<close>

theorem recorded_facts_stay:
  assumes "\<forall>(bv, ev) \<in> set evs. view_ok (bv_store bv)"
  shows "db_grows (wt_db w) (wt_db (watcher_run hc wc cf w evs))"
  using assms
proof (induction evs arbitrary: w)
  case (Cons ev evs)
  have "db_grows (wt_db w) (wt_db (watcher_step hc wc cf w ev))" using Cons.prems by (intro watcher_step_grows) auto
  with Cons.IH[of "watcher_step hc wc cf w ev"] Cons.prems show ?case
    by (auto simp: watcher_run_def intro: db_grows_trans)
qed (simp add: watcher_run_def db_grows_refl)

section \<open>Deposits in no block\<close>

text \<open>What every event of a mempool transaction with clean inputs looks like.\<close>

definition mempool_event :: "swap_event \<Rightarrow> bool" where
  "mempool_event e = (\<not> se_is_blacklisted e \<and> ti_tx_hash (se_tx_info e) \<noteq> [] \<and> ti_block_number (se_tx_info e) = 0)"

lemma mempool_withdraw: "withdraw_event hc wc net cache tx 0 b dt inp = Some e \<Longrightarrow> mempool_event e"
  by (auto simp: withdraw_event_def mempool_event_def tx_hash_at_def split: if_splits option.splits)

lemma mempool_deposits:
  assumes "collect_htlc_deposits hc net cache tx = (s, out) # rest" "fst (has_blacklisted_inputs (wc_compute_txid wc tx) d) = Inr False"
  obtains e es d' where "process_deposits_in_tx hc wc net cache tx 0 b dt d = (e # es, d')"
    "se_type e = SeInitiate" "se_swap_id e = ws_swap_id s" "event_key e = (ws_swap_id s, tx_hash_at (wc_compute_txid wc tx) 0, 0)"
    "\<forall>x \<in> set (e # es). mempool_event x"
proof -
  obtain d' where r: "has_blacklisted_inputs (wc_compute_txid wc tx) d = (Inr False, d')"
    using assms(2) by (metis prod.collapse)
  define ev where "ev = (\<lambda>(s :: watched_swap, out :: tx_out). \<lparr>se_type = SeInitiate, se_swap_id = ws_swap_id s, se_amount = 0,
    se_tx_info = \<lparr>ti_tx_hash = tx_hash_at (wc_compute_txid wc tx) 0, ti_block_number = 0, ti_block_timestamp = b, ti_detected_timestamp = dt\<rparr>,
    se_is_blacklisted = False\<rparr>)"
  show ?thesis
  proof (rule that)
    show "process_deposits_in_tx hc wc net cache tx 0 b dt d = (ev (s, out) # map ev rest, d')"
      using assms(1) r by (simp add: process_deposits_in_tx_def ev_def case_prod_unfold Let_def)
    show "\<forall>x \<in> set (ev (s, out) # map ev rest). mempool_event x"
      by (auto simp: ev_def mempool_event_def tx_hash_at_def)
  qed (simp_all add: ev_def event_key_def)
qed

lemma remove_duplicates_Cons: "\<exists>es'. remove_duplicates (e # es) = e # es'"
proof -
  have "\<exists>es'. foldl (\<lambda>out e. if e \<in> set out then out else out @ [e]) (e # acc) es = e # es'" for acc
  proof (induction es arbitrary: acc)
    case (Cons x xs)
    then show ?case by (cases "x \<in> set (e # acc)") auto
  qed simp
  from this[of "[]"] show ?thesis by (simp add: remove_duplicates_def)
qed

lemma dedup_keeps_first:
  assumes "map_of seen (event_key e) = None"
  shows "e \<in> set (fst (dedup_processed_events bv (e # es) seen))"
proof -
  have keep: "e \<in> set (fst (foldl (dedup_step bv) acc es))" if "e \<in> set (fst acc)" for acc
    using that
  proof (induction es arbitrary: acc)
    case (Cons x xs)
    have "set (fst acc) \<subseteq> set (fst (dedup_step bv acc x))"
      by (auto simp: dedup_step_def Let_def split: prod.splits option.splits sum.splits)
    with Cons.IH[of "dedup_step bv acc x"] Cons.prems show ?case by auto
  qed simp
  have "dedup_step bv ([], seen) e = ([e], AList.update (event_key e) (bv_now bv div 1000000000) seen)"
    using assms by (simp add: dedup_step_def Let_def split: option.split)
  with keep[of "dedup_step bv ([], seen) e"] show ?thesis by (simp add: dedup_processed_events_def)
qed

text \<open>The columns that an initiate writes, at a row for which it has a mempool event.\<close>

definition funded_unmined :: "single_swap \<Rightarrow> single_swap \<Rightarrow> bool" where
  "funded_unmined sw sw' =
    (sw_chain sw' = sw_chain sw \<and> sw_required_confirmations sw' = sw_required_confirmations sw \<and> sw_amount sw' = sw_amount sw
     \<and> sw_filled_amount sw' = sw_amount sw
     \<and> sw_initiate_tx_hash sw' \<noteq> [] \<and> sw_initiate_block_number sw' = Some (BigDecimal 0 0))"

lemma handle_events_swaps:
  "db_swaps (snd (handle_events sv st fmt f key events db)) =
    (if events = [] \<or> sv_fails sv st then db_swaps db else update_from sv f events (db_swaps db))"
  by (simp add: handle_events_def update_detected_timestamps_def Let_def)

lemma init_reaches_row:
  assumes "view_ok sv" "i < length rows" "e \<in> set events" "lower (se_swap_id e) = lower (sw_swap_id (rows ! i))"
    "\<forall>x \<in> set events. mempool_event x"
  shows "funded_unmined (rows ! i) (update_from sv init_row events rows ! i)"
proof -
  have "e \<in> set (events_of events (rows ! i))" using assms(3,4) by (simp add: events_of_def)
  then obtain x xs where es: "events_of events (rows ! i) = x # xs" by (cases "events_of events (rows ! i)") auto
  then have "sv_pick sv (events_of events (rows ! i)) \<in> set (events_of events (rows ! i))"
    using assms(1) unfolding view_ok_def by (metis list.distinct(1))
  then have "mempool_event (sv_pick sv (x # xs))" using assms(5) es by (auto simp: events_of_def)
  then show ?thesis
    using es assms(2) by (simp add: update_from_def funded_unmined_def init_row_def mempool_event_def block_column_def)
qed

lemma other_columns_keep:
  assumes "funded_unmined sw (rows ! i)" "i < length rows" "\<And>e r. funded_unmined sw r \<Longrightarrow> funded_unmined sw (f e r)"
  shows "funded_unmined sw (update_from sv f events rows ! i)"
  using assms by (simp add: update_from_def split: list.split)

lemma redeem_keeps_funded: "funded_unmined sw r \<Longrightarrow> funded_unmined sw (redeem_row e r)"
  by (simp add: funded_unmined_def redeem_row_def)

lemma refund_keeps_funded: "funded_unmined sw r \<Longrightarrow> funded_unmined sw (refund_row e r)"
  by (simp add: funded_unmined_def refund_row_def)

lemma length_update_from: "length (update_from sv f events rows) = length rows"
  by (simp add: update_from_def)

lemma mempool_events_reach_row:
  assumes "view_ok sv" "\<not> sv_fails sv StInits" "i < length (db_swaps db)"
    and "e \<in> set events" "se_type e = SeInitiate" "lower (se_swap_id e) = lower (sw_swap_id (db_swaps db ! i))"
    and "\<forall>x \<in> set events. mempool_event x"
  shows "funded_unmined (db_swaps db ! i) (db_swaps (store_swap_events sv events db) ! i)
    \<and> length (db_swaps (store_swap_events sv events db)) = length (db_swaps db)"
proof -
  let ?sw = "db_swaps db ! i"
  let ?ok = "\<lambda>db'. funded_unmined ?sw (db_swaps db' ! i) \<and> length (db_swaps db') = length (db_swaps db)"
  define inits where "inits = filter (\<lambda>e. se_type e = SeInitiate) events"
  have e: "e \<in> set inits" and m: "\<forall>x \<in> set inits. mempool_event x" using assms(4,5,7) by (auto simp: inits_def)
  define db1 where "db1 = snd (handle_inits sv inits db)"
  obtain r1 where 1: "handle_inits sv inits db = (r1, db1)" by (cases "handle_inits sv inits db") (simp add: db1_def)
  have d1: "db_swaps db1 = update_from sv init_row inits (db_swaps db)"
    using e assms(2) by (auto simp: db1_def handle_inits_def handle_events_swaps)
  have ok1: "?ok db1"
    using init_reaches_row[OF assms(1,3) e assms(6) m] by (simp add: d1 length_update_from)
  have red: "?ok (snd (handle_redeems sv es db'))" if "?ok db'" for es db'
    using that assms(3) by (auto simp: handle_redeems_def handle_events_swaps length_update_from redeem_keeps_funded intro!: other_columns_keep)
  have ref: "?ok (snd (handle_refunds sv es db'))" if "?ok db'" for es db'
    using that assms(3) by (auto simp: handle_refunds_def handle_events_swaps length_update_from refund_keeps_funded intro!: other_columns_keep)
  have "?ok (snd (update_swaps sv events db))"
  proof (cases "handle_redeems sv (filter is_redeem events) db1")
    case (Pair r db2)
    with red[OF ok1] have "?ok db2" by (metis snd_conv)
    with ref[OF this] Pair 1 ok1 show ?thesis by (cases r1; cases r) (auto simp: update_swaps_def inits_def)
  qed
  moreover have "filter (\<lambda>e. \<not> se_is_blacklisted e) events = events" "map se_swap_id (filter se_is_blacklisted events) = []" "events \<noteq> []"
    using assms(4,7) by (auto simp: mempool_event_def filter_id_conv)
  ultimately show ?thesis by (simp add: store_swap_events_def)
qed

lemma mempool_batch_reaches_row:
  assumes "view_ok (bv_store bv)" "\<not> sv_fails (bv_store bv) StInits"
    and "i < length (db_swaps (wt_db w))" "lower (ws_swap_id s) = lower (sw_swap_id (db_swaps (wt_db w) ! i))"
    and "\<not> wc_is_coinbase wc tx" "collect_htlc_deposits hc (wf_network cf) (wt_cache w) tx = (s, out) # rest"
    and "fst (has_blacklisted_inputs (wc_compute_txid wc tx) (wt_deps w)) = Inr False"
    and "map_of (wt_processed w) (ws_swap_id s, tx_hash_at (wc_compute_txid wc tx) 0, 0) = None"
  shows "funded_unmined (db_swaps (wt_db w) ! i) (db_swaps (wt_db (process_batch hc wc cf bv [tx] w)) ! i)
    \<and> length (db_swaps (wt_db (process_batch hc wc cf bv [tx] w))) = length (db_swaps (wt_db w))"
proof -
  let ?wd = "process_withdraws_in_tx hc wc (wf_network cf) (wt_cache w) tx 0 None (Some (bv_now bv))"
  obtain e es d' where p: "process_deposits_in_tx hc wc (wf_network cf) (wt_cache w) tx 0 None (Some (bv_now bv)) (wt_deps w) = (e # es, d')"
    and e: "se_type e = SeInitiate" "se_swap_id e = ws_swap_id s" "event_key e = (ws_swap_id s, tx_hash_at (wc_compute_txid wc tx) 0, 0)"
    and m: "\<forall>x \<in> set (e # es). mempool_event x"
    using mempool_deposits[OF assms(6,7)] by blast
  have parsed: "parse_all (parse_swap_events hc wc (wf_network cf) (wt_cache w) 0 None (Some (bv_now bv))) [tx] (wt_deps w) = (e # es @ ?wd, d')"
    using assms(5) p by (simp add: parse_swap_events_def)
  have "\<forall>x \<in> set ?wd. mempool_event x"
    by (auto simp: process_withdraws_in_tx_def dest!: in_map_filterD dest: mempool_withdraw)
  with m have m': "\<forall>x \<in> set (e # es @ ?wd). mempool_event x" by auto
  obtain es' where r: "remove_duplicates (e # es @ ?wd) = e # es'" using remove_duplicates_Cons by blast
  obtain new_events seen where d: "dedup_processed_events bv (e # es') (wt_processed w) = (new_events, seen)"
    by (cases "dedup_processed_events bv (e # es') (wt_processed w)")
  have "e \<in> set new_events"
    using dedup_keeps_first[of "wt_processed w" e bv es'] assms(8) e(3) d by simp
  moreover have "set new_events \<subseteq> set (e # es @ ?wd)"
    using dedup_subset[of bv "e # es'" "wt_processed w" new_events] d set_remove_duplicates[of "e # es @ ?wd"] r by simp
  ultimately have "funded_unmined (db_swaps (wt_db w) ! i) (db_swaps (store_swap_events (bv_store bv) new_events (wt_db w)) ! i)
    \<and> length (db_swaps (store_swap_events (bv_store bv) new_events (wt_db w))) = length (db_swaps (wt_db w))"
    using m' e(1,2) assms(4) by (intro mempool_events_reach_row[OF assms(1-3)]) auto
  moreover have "wt_db (process_batch hc wc cf bv [tx] w) = store_swap_events (bv_store bv) new_events (wt_db w)"
    unfolding process_batch_def parsed by (simp add: r d)
  ultimately show ?thesis by simp
qed

text \<open>With block number 0 the depth of a deposit is the height of the chain.\<close>

lemma unmined_confirmations:
  assumes "funded_unmined sw r" "0 \<le> sint (sw_required_confirmations sw)" "sint (sw_required_confirmations sw) \<le> current"
  shows "confirmations_column current r = sw_required_confirmations r"
proof -
  define n where "n = sint (sw_required_confirmations sw)"
  have n: "word_of_int n = sw_required_confirmations sw" by (simp add: n_def)
  have "(of_int n :: rat) \<le> of_int current" using assms(3) by (simp only: n_def of_int_le_iff)
  then have "min (of_int n) (max (of_int current + 1) 0) = (of_int n :: rat)" by simp
  then show ?thesis
    using assms(1) n by (simp add: confirmations_column_def funded_unmined_def bd_value_def flip: n_def)
qed

lemma unmined_after_update:
  assumes "funded_unmined sw (db_swaps db ! i)" "i < length (db_swaps db)" "sw_chain sw = chain" "\<not> sv_fails sv StConfirmations"
    and "0 \<le> sint (sw_required_confirmations sw)" "sint (sw_required_confirmations sw) \<le> sint current"
  shows "funded_unmined sw (db_swaps (snd (update_confirmations sv chain current db)) ! i)
    \<and> sw_current_confirmations (db_swaps (snd (update_confirmations sv chain current db)) ! i) = sw_required_confirmations sw"
  using assms unmined_confirmations[OF assms(1,5,6)] by (simp add: update_confirmations_def funded_unmined_def)

text \<open>C26: The watcher and the order mapper together pay for a deposit that is in no block. A Bitcoin
  transaction in the mempool, with clean inputs, that pays a watched address is written as an
  initiate with block number 0 and the full amount (its event has amount 0). Once the confirmations
  are refreshed, the row counts as fully confirmed, because the depth is taken from block 0; and for any order with
  this source row the mapper funds the destination, at any time and at any prices.\<close>

theorem mempool_deposit_pays_out:
  assumes "view_ok (bv_store bv)" "\<not> sv_fails (bv_store bv) StInits"
    and "i < length (db_swaps (wt_db w))" "sw = db_swaps (wt_db w) ! i" "lower (ws_swap_id s) = lower (sw_swap_id sw)"
    and "\<not> wc_is_coinbase wc tx" "collect_htlc_deposits hc (wf_network cf) (wt_cache w) tx = (s, out) # rest"
    and "fst (has_blacklisted_inputs (wc_compute_txid wc tx) (wt_deps w)) = Inr False"
    and "map_of (wt_processed w) (ws_swap_id s, tx_hash_at (wc_compute_txid wc tx) 0, 0) = None"
    and "\<not> sv_fails sv StConfirmations" "sw_chain sw = wf_chain cf" "contains ''bitcoin'' (wf_chain cf)"
    and "0 \<le> sint (sw_required_confirmations sw)" "sint (sw_required_confirmations sw) \<le> sint current"
    and "db = snd (update_confirmations sv (wf_chain cf) current (wt_db (process_batch hc wc cf bv [tx] w)))"
    and "mo_source_swap ord = db_swaps db ! i" "is_chain_supported m (sw_chain (mo_destination_swap ord))"
    and "\<not> ad_is_blacklisted (co_additional_data (mo_create_order ord))" "passes_additional_check m TInitiate ord"
    and "sw_initiate_tx_hash (mo_destination_swap ord) = []" "sw_initiate_block_number (mo_destination_swap ord) = None"
  shows "sw_initiate_block_number (db_swaps db ! i) = Some (BigDecimal 0 0)
    \<and> sw_current_confirmations (db_swaps db ! i) = sw_required_confirmations sw
    \<and> sw_filled_amount (db_swaps db ! i) = sw_amount sw
    \<and> map_order m v v' ord latest = Inr \<lparr>ai_action = AInitiate, ai_swap = Some (mo_destination_swap ord)\<rparr>"
proof -
  let ?w = "process_batch hc wc cf bv [tx] w"
  have reach: "funded_unmined sw (db_swaps (wt_db ?w) ! i) \<and> length (db_swaps (wt_db ?w)) = length (db_swaps (wt_db w))"
    using mempool_batch_reaches_row[OF assms(1-3) _ assms(6-9)] assms(4,5) by simp
  then have f: "funded_unmined sw (db_swaps db ! i)" "sw_current_confirmations (db_swaps db ! i) = sw_required_confirmations sw"
    using unmined_after_update[of sw "wt_db ?w" i "wf_chain cf" sv current] assms(3,10,11,13,14,15) by auto
  have "\<not> has_valid_initiate (db_swaps db ! i)"
    using f(1) by (simp add: has_valid_initiate_def funded_unmined_def bd_value_def)
  moreover have "\<not> is_valid_block_number (sw_initiate_block_number (mo_destination_swap ord))"
    using assms(21) by (simp add: is_valid_block_number_def)
  ultimately have "\<forall>v v'. map_order m v v' ord latest = Inr \<lparr>ai_action = AInitiate, ai_swap = Some (mo_destination_swap ord)\<rparr>"
    using f(1) assms(11,12,16-20) by (intro unprotected_initiate) (auto simp: funded_unmined_def)
  with f show ?thesis by (simp add: funded_unmined_def)
qed

section \<open>Two ways to see a deposit\<close>

lemma spend_not_initiate: "get_htlc_spend_type hc inp \<noteq> Some SeInitiate"
proof (cases "order_secret_new (hc_hex_encode hc (in_witness inp ! 1))")
  case (Inl e)
  then show ?thesis by (auto simp: get_htlc_spend_type_def Let_def)
next
  case (Inr s)
  then show ?thesis by (auto simp: get_htlc_spend_type_def Let_def)
qed

lemma withdraw_not_initiate: "withdraw_event hc wc net cache tx h b dt inp = Some e \<Longrightarrow> se_type e \<noteq> SeInitiate"
  using spend_not_initiate[of hc inp] by (auto simp: withdraw_event_def split: if_splits option.splits)

lemma blacklisted_deposits:
  assumes "collect_htlc_deposits hc net cache tx = (s, out) # rest" "fst (has_blacklisted_inputs (wc_compute_txid wc tx) d) = Inr True"
  obtains e es d' where "process_deposits_in_tx hc wc net cache tx h b dt d = (e # es, d')"
    "se_swap_id e = ws_swap_id s" "event_key e = (ws_swap_id s, wc_compute_txid wc tx, h)" "\<forall>x \<in> set (e # es). se_is_blacklisted x"
proof -
  obtain d' where r: "has_blacklisted_inputs (wc_compute_txid wc tx) d = (Inr True, d')"
    using assms(2) by (metis prod.collapse)
  define ev where "ev = (\<lambda>(s :: watched_swap, out :: tx_out). \<lparr>se_type = SeInitiate, se_swap_id = ws_swap_id s, se_amount = ws_amount s,
    se_tx_info = \<lparr>ti_tx_hash = wc_compute_txid wc tx, ti_block_number = h, ti_block_timestamp = b, ti_detected_timestamp = dt\<rparr>,
    se_is_blacklisted = True\<rparr>)"
  show ?thesis
  proof (rule that)
    show "process_deposits_in_tx hc wc net cache tx h b dt d = (ev (s, out) # map ev rest, d')"
      using assms(1) r by (simp add: process_deposits_in_tx_def ev_def case_prod_unfold Let_def)
  qed (auto simp: ev_def event_key_def)
qed

text \<open>Without initiates among its valid events the store keeps what it knew about initiates.\<close>

definition same_initiate :: "single_swap \<Rightarrow> single_swap \<Rightarrow> bool" where
  "same_initiate sw sw' = (sw_initiate_tx_hash sw' = sw_initiate_tx_hash sw \<and> sw_filled_amount sw' = sw_filled_amount sw)"

lemma same_initiate_refl: "list_all2 same_initiate rows rows"
  by (simp add: same_initiate_def list_all2_refl)

lemma update_from_same_initiate:
  assumes "list_all2 same_initiate rows rows'" "\<And>e r. same_initiate r (f e r)"
  shows "list_all2 same_initiate rows (update_from sv f events rows')"
proof -
  have "list_all2 same_initiate rows' (update_from sv f events rows')"
    unfolding update_from_def
  proof (rule list_all2_map_growth)
    fix sw
    show "same_initiate sw (case events_of events sw of [] \<Rightarrow> sw | es \<Rightarrow> f (sv_pick sv es) sw)"
      using assms(2) by (cases "events_of events sw") (simp_all add: same_initiate_def)
  qed
  moreover have "same_initiate a c" if "same_initiate a b" "same_initiate b c" for a b c using that by (simp add: same_initiate_def)
  ultimately show ?thesis using assms(1) list_all2_trans[of same_initiate same_initiate same_initiate] by blast
qed

lemma other_handlers_same_initiate:
  assumes "list_all2 same_initiate rows (db_swaps db)"
  shows "list_all2 same_initiate rows (db_swaps (snd (handle_redeems sv es db)))"
    and "list_all2 same_initiate rows (db_swaps (snd (handle_refunds sv es db)))"
  using assms update_from_same_initiate[OF assms]
  by (simp_all add: handle_redeems_def handle_refunds_def handle_events_swaps same_initiate_def redeem_row_def refund_row_def)

lemma update_swaps_same_initiate:
  assumes "\<forall>e \<in> set events. se_type e \<noteq> SeInitiate"
  shows "list_all2 same_initiate (db_swaps db) (db_swaps (snd (update_swaps sv events db)))"
proof -
  have no: "filter (\<lambda>e. se_type e = SeInitiate) events = []" using assms by (simp add: filter_empty_conv)
  have 1: "handle_inits sv [] db = (Inr (), db)" by (simp add: handle_inits_def handle_events_def)
  obtain r db2 where 2: "handle_redeems sv (filter is_redeem events) db = (r, db2)" by (cases "handle_redeems sv (filter is_redeem events) db")
  have "list_all2 same_initiate (db_swaps db) (db_swaps db2)"
    using other_handlers_same_initiate(1)[OF same_initiate_refl, of db sv "filter is_redeem events"] 2 by simp
  with other_handlers_same_initiate(2)[OF this] 1 2 no show ?thesis by (cases r) (simp_all add: update_swaps_def)
qed

lemma store_orders_flagged:
  assumes "view_ok sv" "\<forall>e \<in> set events. se_is_blacklisted e \<or> event_ok e"
    and "e \<in> set events" "se_is_blacklisted e" "\<not> sv_fails sv StBlacklist" "k < length (db_orders db)"
    and "wo_source_swap_id (db_orders db ! k) = se_swap_id e"
  shows "wo_is_blacklisted (db_orders (store_swap_events sv events db) ! k)"
proof -
  define validated where "validated = filter (\<lambda>e. \<not> se_is_blacklisted e) events"
  define db1 where "db1 = (if validated = [] then db else snd (update_swaps sv validated db))"
  have "db_grows db db1"
    using update_swaps_grows[OF assms(1), of validated db] assms(2) by (auto simp: db1_def validated_def db_grows_refl)
  then have k: "k < length (db_orders db1)" "wo_source_swap_id (db_orders db1 ! k) = se_swap_id e"
    using assms(6,7) by (auto simp: db_grows_def order_grows_def list_all2_conv_all_nth)
  define ids where "ids = map se_swap_id (filter se_is_blacklisted events)"
  have "store_swap_events sv events db = (if ids = [] then db1 else snd (mark_blacklisted sv ids db1))"
    unfolding store_swap_events_def Let_def ids_def db1_def validated_def ..
  moreover have "se_swap_id e \<in> set ids" using assms(3,4) by (auto simp: ids_def)
  ultimately show ?thesis using k assms(5) by (cases ids) (auto simp: mark_blacklisted_def)
qed

lemma store_same_initiate:
  assumes "\<forall>e \<in> set events. se_is_blacklisted e \<or> se_type e \<noteq> SeInitiate"
  shows "list_all2 same_initiate (db_swaps db) (db_swaps (store_swap_events sv events db))"
proof -
  define validated where "validated = filter (\<lambda>e. \<not> se_is_blacklisted e) events"
  define db1 where "db1 = (if validated = [] then db else snd (update_swaps sv validated db))"
  have "list_all2 same_initiate (db_swaps db) (db_swaps db1)"
    using update_swaps_same_initiate[of validated db sv] assms by (auto simp: db1_def validated_def same_initiate_refl)
  moreover have "db_swaps (snd (mark_blacklisted sv ids db1)) = db_swaps db1" for ids by (simp add: mark_blacklisted_def)
  ultimately have "list_all2 same_initiate (db_swaps db) (db_swaps (if ids = [] then db1 else snd (mark_blacklisted sv ids db1)))" for ids
    by simp
  then show ?thesis unfolding store_swap_events_def Let_def db1_def validated_def .
qed

lemma blacklisted_batch:
  assumes "view_ok (bv_store bv)" "\<not> sv_fails (bv_store bv) StBlacklist"
    and "k < length (db_orders (wt_db w))" "wo_source_swap_id (db_orders (wt_db w) ! k) = ws_swap_id s"
    and "\<not> wc_is_coinbase wc tx" "collect_htlc_deposits hc (wf_network cf) (wt_cache w) tx = (s, out) # rest"
    and "fst (has_blacklisted_inputs (wc_compute_txid wc tx) (wt_deps w)) = Inr True"
    and "map_of (wt_processed w) (ws_swap_id s, wc_compute_txid wc tx, 0) = None"
  shows "list_all2 same_initiate (db_swaps (wt_db w)) (db_swaps (wt_db (process_batch hc wc cf bv [tx] w)))
    \<and> wo_is_blacklisted (db_orders (wt_db (process_batch hc wc cf bv [tx] w)) ! k)"
proof -
  let ?wd = "process_withdraws_in_tx hc wc (wf_network cf) (wt_cache w) tx 0 None (Some (bv_now bv))"
  obtain e es d' where p: "process_deposits_in_tx hc wc (wf_network cf) (wt_cache w) tx 0 None (Some (bv_now bv)) (wt_deps w) = (e # es, d')"
    and e: "se_swap_id e = ws_swap_id s" "event_key e = (ws_swap_id s, wc_compute_txid wc tx, 0)"
    and m: "\<forall>x \<in> set (e # es). se_is_blacklisted x"
    using blacklisted_deposits[OF assms(6,7)] by blast
  have parsed: "parse_all (parse_swap_events hc wc (wf_network cf) (wt_cache w) 0 None (Some (bv_now bv))) [tx] (wt_deps w) = (e # es @ ?wd, d')"
    using assms(5) p by (simp add: parse_swap_events_def)
  have "\<forall>x \<in> set ?wd. se_type x \<noteq> SeInitiate"
    by (auto simp: process_withdraws_in_tx_def dest!: in_map_filterD dest: withdraw_not_initiate)
  with m have m': "\<forall>x \<in> set (e # es @ ?wd). se_is_blacklisted x \<or> se_type x \<noteq> SeInitiate" by auto
  obtain es' where r: "remove_duplicates (e # es @ ?wd) = e # es'" using remove_duplicates_Cons by blast
  obtain new_events seen where d: "dedup_processed_events bv (e # es') (wt_processed w) = (new_events, seen)"
    by (cases "dedup_processed_events bv (e # es') (wt_processed w)")
  have new: "e \<in> set new_events"
    using dedup_keeps_first[of "wt_processed w" e bv es'] assms(8) e(2) d by simp
  have sub: "set new_events \<subseteq> set (e # es @ ?wd)"
    using dedup_subset[of bv "e # es'" "wt_processed w" new_events] d set_remove_duplicates[of "e # es @ ?wd"] r by simp
  have "list_all2 same_initiate (db_swaps (wt_db w)) (db_swaps (store_swap_events (bv_store bv) new_events (wt_db w)))"
    using m' sub by (intro store_same_initiate) blast
  moreover have "wo_is_blacklisted (db_orders (store_swap_events (bv_store bv) new_events (wt_db w)) ! k)"
    using parsed_events_ok[OF parsed] sub new m e(1) assms(3,4)
    by (intro store_orders_flagged[OF assms(1) _ new _ assms(2)]) auto
  moreover have "wt_db (process_batch hc wc cf bv [tx] w) = store_swap_events (bv_store bv) new_events (wt_db w)"
    unfolding process_batch_def parsed by (simp add: r d)
  ultimately show ?thesis by simp
qed
definition initiated :: "single_swap \<Rightarrow> single_swap \<Rightarrow> bool" where
  "initiated sw sw' = (sw_initiate_tx_hash sw' \<noteq> [] \<and> sw_filled_amount sw' = sw_amount sw)"

lemma polled_init_reaches_row:
  assumes "view_ok sv" "\<not> sv_fails sv StInits" "i < length (db_swaps db)"
    and "e \<in> set events" "se_type e = SeInitiate" "se_swap_id e = sw_swap_id (db_swaps db ! i)"
    and "\<forall>x \<in> set events. event_ok x"
  shows "initiated (db_swaps db ! i) (db_swaps (snd (update_swaps sv events db)) ! i)"
proof -
  let ?sw = "db_swaps db ! i"
  define inits where "inits = filter (\<lambda>e. se_type e = SeInitiate) events"
  have e: "e \<in> set inits" and m: "\<forall>x \<in> set inits. event_ok x" using assms(4,5,7) by (auto simp: inits_def)
  define db1 where "db1 = snd (handle_inits sv inits db)"
  obtain r1 where 1: "handle_inits sv inits db = (r1, db1)" by (cases "handle_inits sv inits db") (simp add: db1_def)
  have d1: "db_swaps db1 = update_from sv init_row inits (db_swaps db)"
    using e assms(2) by (auto simp: db1_def handle_inits_def handle_events_swaps)
  have "e \<in> set (events_of inits ?sw)" using e assms(6) by (simp add: events_of_def)
  then obtain x xs where es: "events_of inits ?sw = x # xs" by (cases "events_of inits ?sw") auto
  then have "sv_pick sv (events_of inits ?sw) \<in> set (events_of inits ?sw)"
    using assms(1) unfolding view_ok_def by (metis list.distinct(1))
  then have "event_ok (sv_pick sv (x # xs))" using m es by (auto simp: events_of_def)
  then have "initiated ?sw (db_swaps db1 ! i)"
    using es assms(3) by (simp add: d1 update_from_def initiated_def init_row_def event_ok_def)
  moreover obtain r db2 where 2: "handle_redeems sv (filter is_redeem events) db1 = (r, db2)"
    by (cases "handle_redeems sv (filter is_redeem events) db1")
  have a: "list_all2 same_initiate (db_swaps db1) (db_swaps db2)"
    using other_handlers_same_initiate(1)[OF same_initiate_refl, of db1 sv "filter is_redeem events"] 2 by simp
  have "list_all2 same_initiate (db_swaps db1) (db_swaps (snd (update_swaps sv events db)))"
    using a other_handlers_same_initiate(2)[OF a, of sv "filter (\<lambda>e. se_type e = SeRefund) events"] 1 2
    by (cases r1; cases r) (simp_all add: update_swaps_def inits_def list_all2_refl same_initiate_refl)
  moreover have "i < length (db_swaps db1)" using assms(3) by (simp add: d1 length_update_from)
  ultimately show ?thesis by (auto simp: initiated_def same_initiate_def list_all2_conv_all_nth)
qed

lemma handle_events_flags: "map wo_is_blacklisted (db_orders (snd (handle_events sv st fmt f key events db))) = map wo_is_blacklisted (db_orders db)"
  by (simp add: handle_events_def update_detected_timestamps_def Let_def handle_detected_timestamps_def comp_def)

lemma update_swaps_flags: "map wo_is_blacklisted (db_orders (snd (update_swaps sv events db))) = map wo_is_blacklisted (db_orders db)"
proof -
  obtain r1 db1 where 1: "handle_inits sv (filter (\<lambda>e. se_type e = SeInitiate) events) db = (r1, db1)"
    by (cases "handle_inits sv (filter (\<lambda>e. se_type e = SeInitiate) events) db")
  obtain r2 db2 where 2: "handle_redeems sv (filter is_redeem events) db1 = (r2, db2)"
    by (cases "handle_redeems sv (filter is_redeem events) db1")
  have "map wo_is_blacklisted (db_orders db1) = map wo_is_blacklisted (db_orders db)"
    "map wo_is_blacklisted (db_orders db2) = map wo_is_blacklisted (db_orders db1)"
    using 1 2 handle_events_flags unfolding handle_inits_def handle_redeems_def by (metis snd_conv)+
  with 1 2 show ?thesis by (cases r1; cases r2) (simp_all add: update_swaps_def handle_refunds_def handle_events_flags)
qed

lemma polled_deposit_event:
  assumes "tx \<in> set txs" "\<exists>out \<in> set (pt_vout tx). po_address out = Some (ws_swap_id s) \<and> po_value out = ws_amount s"
    and "bv_address_txs bv (ws_swap_id s) = Inr txs"
  shows "\<exists>e \<in> set (polled_all wc bv s). se_type e = SeInitiate \<and> se_swap_id e = ws_swap_id s"
proof -
  have "find (\<lambda>out. po_address out = Some (ws_swap_id s) \<and> po_value out = ws_amount s) (pt_vout tx) \<noteq> None"
    using assms(2) by (auto simp: find_None_iff)
  then have "\<exists>e \<in> set (polled_events wc (bv_now bv) s tx). se_type e = SeInitiate \<and> se_swap_id e = ws_swap_id s"
    by (auto simp: polled_events_def Let_def polled_deposit_def)
  with assms(1,3) show ?thesis by (auto simp: polled_all_def query_swap_events_def)
qed

text \<open>C28: Screening depends on the route by which a deposit is seen. If a mempool transaction pays a
  watched address and one of its inputs is blacklisted, no swap row is initiated and the order is
  flagged. The address poller asks no screener: when the address shows a deposit, the same row is
  written as initiated with its full amount and no order is flagged, whatever the screener would
  say.\<close>

theorem polled_deposits_unscreened:
  assumes "view_ok (bv_store bv)" "\<not> sv_fails (bv_store bv) StBlacklist" "\<not> sv_fails (bv_store bv) StInits" "\<not> sv_fails (bv_store bv) StPending"
    and "k < length (db_orders (wt_db w))" "wo_source_swap_id (db_orders (wt_db w) ! k) = ws_swap_id s"
    and "\<not> wc_is_coinbase wc tx" "collect_htlc_deposits hc (wf_network cf) (wt_cache w) tx = (s, out) # rest"
    and "fst (has_blacklisted_inputs (wc_compute_txid wc tx) (wt_deps w)) = Inr True"
    and "map_of (wt_processed w) (ws_swap_id s, wc_compute_txid wc tx, 0) = None"
    and "i < length (db_swaps (wt_db w))" "swap_of_row (db_swaps (wt_db w) ! i) = s"
    and "is_watched (wf_chain cf) (wf_buffer cf) (sv_now (bv_store bv)) (db_swaps (wt_db w) ! i)"
    and "bv_address_txs bv (ws_swap_id s) = Inr txs" "ptx \<in> set txs"
    and "\<exists>out \<in> set (pt_vout ptx). po_address out = Some (ws_swap_id s) \<and> po_value out = ws_amount s"
  shows "list_all2 same_initiate (db_swaps (wt_db w)) (db_swaps (wt_db (process_batch hc wc cf bv [tx] w)))
    \<and> wo_is_blacklisted (db_orders (wt_db (process_batch hc wc cf bv [tx] w)) ! k)
    \<and> initiated (db_swaps (wt_db w) ! i) (db_swaps (wt_db (poll_once wc cf bv w)) ! i)
    \<and> map wo_is_blacklisted (db_orders (wt_db (poll_once wc cf bv w))) = map wo_is_blacklisted (db_orders (wt_db w))"
proof -
  let ?sw = "db_swaps (wt_db w) ! i"
  define swaps where "swaps = map swap_of_row (filter (is_watched (wf_chain cf) (wf_buffer cf) (sv_now (bv_store bv))) (db_swaps (wt_db w)))"
  define events where "events = concat (map (polled_all wc bv) swaps)"
  have "get_swaps (bv_store bv) (wf_buffer cf) (wf_chain cf) (wt_db w) = Inr swaps"
    using assms(4) by (simp add: get_swaps_def swaps_def)
  then have db: "wt_db (poll_once wc cf bv w) = (if events = [] then wt_db w else snd (update_swaps (bv_store bv) events (wt_db w)))"
    by (simp add: poll_once_def Let_def events_def flip: polled_all_def)
  have "s \<in> set swaps" using assms(11,12,13) by (force simp: swaps_def)
  then obtain e where e: "e \<in> set events" "se_type e = SeInitiate" "se_swap_id e = ws_swap_id s"
    using polled_deposit_event[OF assms(15,16,14), of wc] by (auto simp: events_def)
  have "ws_swap_id s = sw_swap_id ?sw" using assms(12) by (auto simp: swap_of_row_def)
  moreover have "\<forall>x \<in> set events. event_ok x" using polled_all_ok by (auto simp: events_def)
  ultimately have "initiated ?sw (db_swaps (snd (update_swaps (bv_store bv) events (wt_db w))) ! i)"
    using e by (intro polled_init_reaches_row[OF assms(1,3,11) e(1,2)]) simp_all
  moreover have "events \<noteq> []" using e(1) by auto
  ultimately show ?thesis
    using blacklisted_batch[OF assms(1,2,5-10)] db update_swaps_flags[of "bv_store bv" events "wt_db w"] by simp
qed

section \<open>Examples\<close>

definition demo_hex_digit :: "nat \<Rightarrow> char" where
  "demo_hex_digit n = char_of (if n < 10 then 48 + n else 87 + n)"

definition demo_hex :: "bytes \<Rightarrow> string" where
  "demo_hex bs = concat (map (\<lambda>b. [demo_hex_digit (unat b div 16), demo_hex_digit (unat b mod 16)]) bs)"

definition watch_hc :: htlc_crates where
  "watch_hc =
    \<lparr>hc_into_script = \<lambda>_. [], hc_leaf_hash = \<lambda>_. 0, hc_add_leaf_error = \<lambda>_ _. None, hc_is_finalizable = \<lambda>_. True,
     hc_finalizes = \<lambda>_ _. True, hc_merkle_root = \<lambda>_. None, hc_control_block = \<lambda>_ _. Some [],
     hc_p2tr = \<lambda>_ _ _. \<lparr>addr_text = ''s1'', addr_script = [83]\<rparr>, hc_internal_key = [],
     hc_alloy_hex_decode = \<lambda>s. Inr (map of_char s), hc_hex_encode = demo_hex, hc_sha256 = id,
     hc_xonly_from_str = \<lambda>s. Inr (map of_char s), hc_address_from_str = \<lambda>s. Inr \<lparr>addr_text = s, addr_script = [84]\<rparr>,
     hc_require_network = \<lambda>a _. Inr a, hc_address_from_script = \<lambda>s _. Inr \<lparr>addr_text = ''s1'', addr_script = s\<rparr>,
     hc_big_decimal_text = \<lambda>_. ''1000'', hc_txid_text = \<lambda>_. ''tx1'',
     hc_signature_from_slice = \<lambda>bs. Inr (bs, SighashSinglePlusAnyoneCanPay), hc_verify_schnorr = \<lambda>_ _ _. Inr (),
     hc_sighash = \<lambda>_ _ _ _ _ _. Inr 0\<rparr>"

lemma demo_hex_digit_no_x: "n < 16 \<Longrightarrow> demo_hex_digit n \<noteq> CHR ''x''"
proof
  assume n: "n < 16" and "demo_hex_digit n = CHR ''x''"
  then have "(of_char (demo_hex_digit n) :: nat) = of_char (CHR ''x'')" by simp
  with n show False by (simp add: demo_hex_digit_def split: if_splits)
qed

lemma watch_hc_hex_ok: "hex_ok watch_hc"
proof -
  have "length (demo_hex bs) = 2 * length bs" for bs by (induction bs) (simp_all add: demo_hex_def)
  moreover have "CHR ''x'' \<notin> set (demo_hex bs)" for bs
  proof -
    have "demo_hex_digit (unat b div 16) \<noteq> CHR ''x''" "demo_hex_digit (unat b mod 16) \<noteq> CHR ''x''" for b :: u8
    proof -
      have "unat b < 2 ^ LENGTH(8)" by (rule unsigned_less)
      then have "unat b div 16 < 16" by simp
      then show "demo_hex_digit (unat b div 16) \<noteq> CHR ''x''" by (rule demo_hex_digit_no_x)
    qed (simp add: demo_hex_digit_no_x)
    then show ?thesis by (simp add: demo_hex_def) metis
  qed
  ultimately show ?thesis by (simp add: hex_ok_def watch_hc_def)
qed

definition demo_watch_htlc :: htlc_params where
  "demo_watch_htlc = \<lparr>hp_initiator_pubkey = [97], hp_redeemer_pubkey = [98], hp_amount = 1000, hp_secret_hash = [], hp_timelock = 144\<rparr>"

definition demo_input :: "bytes list \<Rightarrow> tx_in" where
  "demo_input wit = \<lparr>in_previous_output = \<lparr>op_txid = 3, op_vout = 0\<rparr>, in_script_sig = [], in_sequence = 0, in_witness = wit\<rparr>"

lemma spend_witness_roundtrip_witness:
  "\<exists>wit. get_redeem_witness watch_hc demo_watch_htlc (replicate 32 7) = Inr wit
    \<and> get_htlc_spend_type watch_hc ((demo_input [])\<lparr>in_witness := fill_signature (replicate 65 1) wit\<rparr>)
      = Some (SeRedeem (concat (replicate 32 ''07'')))"
proof -
  obtain wit where w: "get_redeem_witness watch_hc demo_watch_htlc (replicate 32 7) = Inr wit"
    by (auto simp: get_redeem_witness_def get_control_block_def construct_taproot_spend_info_def construct_tree_def add_leaf_def taproot_error_def
        watch_hc_def demo_watch_htlc_def try_simps)
  have h: "demo_hex (replicate 32 7) = concat (replicate 32 ''07'')"
    by code_simp
  from spend_witness_roundtrip[OF watch_hc_hex_ok, of "replicate 65 1" "replicate 65 1" "replicate 32 7" demo_watch_htlc wit "demo_input []"] w h
  show ?thesis by (auto simp: watch_hc_def)
qed

definition demo_watch_crates :: watch_crates where
  "demo_watch_crates =
    \<lparr>wc_compute_txid = \<lambda>_. ''tx9'', wc_is_coinbase = \<lambda>_. False, wc_taproot_control_block = \<lambda>_. None, wc_taproot_leaf_script = \<lambda>_. None,
     wc_decode_control_block = \<lambda>_. None, wc_node_from_script = \<lambda>_ _. 0, wc_node_from_nodes = \<lambda>_ _. 0, wc_tap_tweak = \<lambda>k _. k,
     wc_p2tr_tweaked = \<lambda>_ _. \<lparr>addr_text = ''s1'', addr_script = [83]\<rparr>, wc_from_timestamp = \<lambda>t. Some (sint t * 1000000000)\<rparr>"

definition demo_deps :: "string \<Rightarrow> parser_deps" where
  "demo_deps payer =
    \<lparr>pd_screener = \<lparr>sc_clock = 0, sc_screen = \<lambda>_ addrs. Inr (map (\<lambda>a. (a, a = ''bad'')) addrs), sc_cache = [], sc_retained = \<lambda>_ _. True\<rparr>,
     pd_indexer = \<lparr>wi_clock = 0, wi_get_tx = \<lambda>_ t. Inr \<lparr>tm_txid = t, tm_input_addresses = [payer], tm_outputs = [(''s1'', 1000)],
       tm_confirmed = False, tm_block_height = None\<rparr>, wi_block_height = \<lambda>_. Inr 800000, wi_cache = [], wi_retained = \<lambda>_ _. True\<rparr>\<rparr>"

definition demo_store_view :: store_view where
  "demo_store_view = \<lparr>sv_now = 10, sv_pick = hd, sv_pick_time = hd, sv_fails = \<lambda>_. False\<rparr>"

definition demo_batch_view :: batch_view where
  "demo_batch_view = \<lparr>bv_now = 10, bv_store = demo_store_view, bv_mempool = \<lambda>_. Inr (), bv_retained = \<lambda>_. True, bv_height = Inr 800000,
     bv_address_txs = \<lambda>_. Inr [\<lparr>pt_txid = ''tx9'', pt_block_height = None, pt_block_time = None, pt_vin = [],
       pt_vout = [\<lparr>po_address = Some ''s1'', po_value = 1000\<rparr>]\<rparr>]\<rparr>"

definition demo_watch_config :: watch_config where
  "demo_watch_config = \<lparr>wf_chain = ''bitcoin'', wf_network = Regtest, wf_buffer = 100\<rparr>"

definition demo_watcher :: "string \<Rightarrow> watcher" where
  "demo_watcher payer =
    \<lparr>wt_db = \<lparr>db_swaps = [demo_swap ''s1'' ''bitcoin'' [] None],
       db_orders = [\<lparr>wo_create_id = ''order'', wo_source_swap_id = ''s1'', wo_destination_swap_id = ''s2'', wo_is_blacklisted = False, wo_detected = []\<rparr>]\<rparr>,
     wt_cache = [''s1'' \<mapsto> \<lparr>ws_swap_id = ''s1'', ws_amount = 1000\<rparr>], wt_deps = demo_deps payer, wt_processed = []\<rparr>"

definition demo_deposit_tx :: transaction where
  "demo_deposit_tx = \<lparr>tx_version = 2, tx_lock_time = 0, tx_input = [demo_input []],
     tx_output = [\<lparr>out_value = 1000, out_script_pubkey = [83]\<rparr>]\<rparr>"

lemmas demo_watch_defs = demo_watch_crates_def demo_deps_def demo_store_view_def demo_batch_view_def demo_watch_config_def
  demo_watcher_def demo_deposit_tx_def demo_input_def

lemma demo_view_ok: "view_ok demo_store_view"
  by (simp add: view_ok_def demo_store_view_def)

lemma demo_verdict:
  "fst (has_blacklisted_inputs (wc_compute_txid demo_watch_crates demo_deposit_tx) (demo_deps payer)) = Inr (payer = ''bad'')"
  by (simp add: has_blacklisted_inputs_def get_tx_with_retry_def GET_TX_MAX_RETRIES_def numeral_eq_Suc ask_tx_def is_blacklisted_def
      cached_verdict_def demo_watch_defs Let_def)

lemma demo_collect: "collect_htlc_deposits watch_hc Regtest [''s1'' \<mapsto> \<lparr>ws_swap_id = ''s1'', ws_amount = 1000\<rparr>] demo_deposit_tx =
    [(\<lparr>ws_swap_id = ''s1'', ws_amount = 1000\<rparr>, \<lparr>out_value = 1000, out_script_pubkey = [83]\<rparr>)]"
  by (simp add: collect_htlc_deposits_def watch_hc_def demo_watch_defs map_filter_simps)

lemma recorded_facts_stay_witness:
  "db_grows (wt_db (demo_watcher ''good''))
    (wt_db (watcher_run watch_hc demo_watch_crates demo_watch_config (demo_watcher ''good'')
      [(demo_batch_view, WTxs [demo_deposit_tx]), (demo_batch_view, WPoll), (demo_batch_view, WConfirmations)]))"
  by (rule recorded_facts_stay) (simp add: demo_batch_view_def demo_view_ok)

definition demo_mined_db :: swap_db where
  "demo_mined_db = snd (update_confirmations demo_store_view (wf_chain demo_watch_config) 800000
    (wt_db (process_batch watch_hc demo_watch_crates demo_watch_config demo_batch_view [demo_deposit_tx] (demo_watcher ''good''))))"

lemma mempool_deposit_pays_out_witness:
  "map_order (mapper_build (add_supported_chain ''evm'' mapper_builder_new)) (demo_order_view (10 ^ 18) 40) (demo_order_view (10 ^ 18) 40)
     (demo_order (db_swaps demo_mined_db ! 0) (demo_swap ''s2'' ''evm'' [] None)) None
     = Inr \<lparr>ai_action = AInitiate, ai_swap = Some (demo_swap ''s2'' ''evm'' [] None)\<rparr>
   \<and> sw_initiate_block_number (db_swaps demo_mined_db ! 0) = Some (BigDecimal 0 0)"
  using mempool_deposit_pays_out[of demo_batch_view 0 "demo_watcher ''good''" "demo_swap ''s1'' ''bitcoin'' [] None"
      "\<lparr>ws_swap_id = ''s1'', ws_amount = 1000\<rparr>" demo_watch_crates demo_deposit_tx watch_hc demo_watch_config
      "\<lparr>out_value = 1000, out_script_pubkey = [83]\<rparr>" "[]" demo_store_view 800000 demo_mined_db
      "demo_order (db_swaps demo_mined_db ! 0) (demo_swap ''s2'' ''evm'' [] None)"
      "mapper_build (add_supported_chain ''evm'' mapper_builder_new)" "demo_order_view (10 ^ 18) 40" "demo_order_view (10 ^ 18) 40" None]
    demo_view_ok demo_verdict[of "''good''"] demo_collect
  by (simp add: demo_watch_defs(3-6) demo_mined_db_def demo_watch_crates_def demo_swap_def demo_order_def mapper_build_def mapper_new_def
      add_supported_chain_def mapper_builder_new_def is_chain_supported_def passes_additional_check_def contains.simps starts_with.simps)

lemma polled_deposits_unscreened_witness:
  "wo_is_blacklisted (db_orders (wt_db (process_batch watch_hc demo_watch_crates demo_watch_config demo_batch_view [demo_deposit_tx]
      (demo_watcher ''bad''))) ! 0)
   \<and> initiated (demo_swap ''s1'' ''bitcoin'' [] None)
      (db_swaps (wt_db (poll_once demo_watch_crates demo_watch_config demo_batch_view (demo_watcher ''bad''))) ! 0)"
  using polled_deposits_unscreened[of demo_batch_view 0 "demo_watcher ''bad''"
      "\<lparr>ws_swap_id = ''s1'', ws_amount = 1000\<rparr>" demo_watch_crates demo_deposit_tx watch_hc demo_watch_config
      "\<lparr>out_value = 1000, out_script_pubkey = [83]\<rparr>" "[]" 0]
    demo_view_ok demo_verdict[of "''bad''"] demo_collect
  by (simp add: demo_watch_defs(3-6) demo_watch_crates_def demo_swap_def is_watched_def swap_of_row_def big_decimal_to_i64_def
      bd_value_def power_int_def)

end
