(* ===== verification/Policy.thy ===== *)
theory Policy
  imports Orders
begin

text \<open>
  Assets, pairs of assets and a solver's trading policy (Tars-rs/crates/primitives/src/primitives.rs,
  Tars-rs/crates/policy/src). A hash map is an association list and a hash set a list. Fees in
  floating point are rationals.
\<close>

section \<open>Assets and pairs\<close>

record asset_id =
  aid_chain :: string
  aid_token :: string

definition show_asset :: "asset_id \<Rightarrow> string" where
  "show_asset a = aid_chain a @ '':'' @ aid_token a"

definition is_space :: "char \<Rightarrow> bool" where
  "is_space c = all_whitespace [of_char c]"

definition trim :: "string \<Rightarrow> string" where
  "trim s = rev (dropWhile is_space (rev (dropWhile is_space s)))"

definition asset_id_from_str :: "string \<Rightarrow> (message, asset_id) result" where
  "asset_id_from_str s =
    (let parts = split_on CHR '':'' s in
     if length parts \<noteq> 2 then Inl (Format (''Invalid asset ID format: '{}'. Expected 'chain:token'' @ [CHR 0x27]) [ArgStr s])
     else
       let c = trim (parts ! 0); t = trim (parts ! 1) in
       if c = [] \<or> t = [] then Inl (Format ''Invalid asset ID: chain and token cannot be empty'' [])
       else Inr \<lparr>aid_chain = c, aid_token = t\<rparr>)"

datatype pair_direction = Forward | Both

fun show_direction :: "pair_direction \<Rightarrow> string" where
  "show_direction Forward = ''->''"
| "show_direction Both = ''<->''"

definition pair_direction_from_str :: "string \<Rightarrow> (message, pair_direction) result" where
  "pair_direction_from_str s =
    (if trim s = ''->'' then Inr Forward
     else if trim s = ''<->'' then Inr Both
     else Inl (Format (''Invalid pair direction: '{}'. Expected '->' or '<->'' @ [CHR 0x27]) [ArgStr s]))"

record asset_pair =
  ap_from :: asset_id
  ap_direction :: pair_direction
  ap_to :: asset_id

definition show_asset_pair :: "asset_pair \<Rightarrow> string" where
  "show_asset_pair p = show_asset (ap_from p) @ '' '' @ show_direction (ap_direction p) @ '' '' @ show_asset (ap_to p)"

text \<open>\<open>split_whitespace\<close>: the pieces between runs of white space.\<close>

fun split_spaces :: "string \<Rightarrow> string list" where
  "split_spaces [] = [[]]"
| "split_spaces (x # xs) =
    (if is_space x then [] # split_spaces xs
     else (case split_spaces xs of [] \<Rightarrow> [[x]] | p # ps \<Rightarrow> (x # p) # ps))"

definition split_whitespace :: "string \<Rightarrow> string list" where
  "split_whitespace s = filter (\<lambda>p. p \<noteq> []) (split_spaces s)"

definition asset_pair_from_str :: "string \<Rightarrow> (message, asset_pair) result" where
  "asset_pair_from_str s =
    (let parts = split_whitespace s in
     if length parts \<noteq> 3 then Inl (Format (''Invalid asset pair format: '{}'. Expected 'from_asset <direction> to_asset'' @ [CHR 0x27]) [ArgStr s])
     else
       try_bind (asset_id_from_str (parts ! 0)) (\<lambda>src.
       try_bind (pair_direction_from_str (parts ! 1)) (\<lambda>dir.
       try_bind (asset_id_from_str (parts ! 2)) (\<lambda>dst.
         Inr \<lparr>ap_from = src, ap_direction = dir, ap_to = dst\<rparr>))))"

section \<open>Matching\<close>

definition is_asset_id_match :: "asset_id \<Rightarrow> asset_id \<Rightarrow> bool" where
  "is_asset_id_match a b =
    ((aid_chain a = ''*'' \<or> aid_chain b = ''*'' \<or> aid_chain a = aid_chain b)
     \<and> (aid_token a = ''*'' \<or> aid_token b = ''*'' \<or> aid_token a = aid_token b))"

definition is_asset_pair_match :: "asset_pair \<Rightarrow> asset_pair \<Rightarrow> bool" where
  "is_asset_pair_match p q =
    (is_asset_id_match (ap_from p) (ap_from q) \<and> is_asset_id_match (ap_to p) (ap_to q)
     \<and> (ap_direction p = Both \<or> ap_direction q = Both \<or> ap_direction p = Forward \<and> ap_direction q = Forward))"

section \<open>Specificity\<close>

datatype ordering = OLess | OEqual | OGreater

fun reverse_ordering :: "ordering \<Rightarrow> ordering" where
  "reverse_ordering OLess = OGreater"
| "reverse_ordering OEqual = OEqual"
| "reverse_ordering OGreater = OLess"

definition cmp :: "'a::linorder \<Rightarrow> 'a \<Rightarrow> ordering" where
  "cmp a b = (if a < b then OLess else if a = b then OEqual else OGreater)"

definition asset_specificity :: "asset_id \<Rightarrow> nat" where
  "asset_specificity a = (if aid_chain a \<noteq> ''*'' then 1 else 0) + (if aid_token a \<noteq> ''*'' then 1 else 0)"

definition compare_asset_pair_specificity :: "asset_pair \<Rightarrow> asset_pair \<Rightarrow> ordering" where
  "compare_asset_pair_specificity a b =
    (case cmp (asset_specificity (ap_from a)) (asset_specificity (ap_from b)) of
       OEqual \<Rightarrow>
         (case cmp (asset_specificity (ap_to a)) (asset_specificity (ap_to b)) of
            OEqual \<Rightarrow> cmp (show_asset (ap_from a), show_asset (ap_to a)) (show_asset (ap_from b), show_asset (ap_to b))
          | dest_order \<Rightarrow> reverse_ordering dest_order)
     | source_order \<Rightarrow> reverse_ordering source_order)"

definition compare_asset_specificity :: "asset_id \<Rightarrow> asset_id \<Rightarrow> ordering" where
  "compare_asset_specificity a b =
    (case cmp (asset_specificity a) (asset_specificity b) of
       OEqual \<Rightarrow> cmp (aid_chain a, aid_token a) (aid_chain b, aid_token b)
     | other \<Rightarrow> reverse_ordering other)"

section \<open>Rule maps\<close>

text \<open>
  \<open>slice::binary_search_by\<close> as the standard library has it: \<open>Inl\<close> an insertion position
  (its \<open>Err\<close>), \<open>Inr\<close> the index of an equal element (its \<open>Ok\<close>).
\<close>

function search_step :: "('a \<Rightarrow> ordering) \<Rightarrow> 'a list \<Rightarrow> nat \<Rightarrow> nat \<Rightarrow> nat" where
  "search_step f xs base n =
    (if n \<le> 1 then base
     else
       let half = n div 2; mid = base + half in
       search_step f xs (if f (xs ! mid) = OGreater then base else mid) (n - half))"
  by pat_completeness auto
termination
  by (relation "measure (\<lambda>(f, xs, base, n). n)") auto

declare search_step.simps [simp del]

definition binary_search_by :: "('a \<Rightarrow> ordering) \<Rightarrow> 'a list \<Rightarrow> nat + nat" where
  "binary_search_by f xs =
    (if xs = [] then Inl 0
     else
       let base = search_step f xs 0 (length xs) in
       case f (xs ! base) of
         OEqual \<Rightarrow> Inr base
       | OLess \<Rightarrow> Inl (base + 1)
       | OGreater \<Rightarrow> Inl base)"

type_synonym 'a policy_map = "(asset_pair \<times> 'a) list"

definition policy_insert :: "asset_pair \<Rightarrow> 'a \<Rightarrow> 'a policy_map \<Rightarrow> 'a policy_map" where
  "policy_insert pair v m =
    (if list_ex (\<lambda>(p, _). p = pair) m then m
     else
       let pos = (case binary_search_by (\<lambda>(p, _). compare_asset_pair_specificity p pair) m of Inl n \<Rightarrow> n | Inr n \<Rightarrow> n) in
       take pos m @ (pair, v) # drop pos m)"

text \<open>A rule applies to a query forwards, and a rule for both directions also backwards.\<close>

definition forward_query :: "asset_id \<Rightarrow> asset_id \<Rightarrow> asset_pair" where
  "forward_query a b = \<lparr>ap_from = a, ap_direction = Forward, ap_to = b\<rparr>"

fun policy_get :: "asset_id \<Rightarrow> asset_id \<Rightarrow> 'a policy_map \<Rightarrow> 'a option" where
  "policy_get src dst [] = None"
| "policy_get src dst ((stored, v) # m) =
    (if is_asset_pair_match (forward_query src dst) stored then Some v
     else if ap_direction stored = Both \<and> is_asset_pair_match (forward_query dst src) stored then Some v
     else policy_get src dst m)"

definition policy_contains :: "asset_id \<Rightarrow> asset_id \<Rightarrow> 'a policy_map \<Rightarrow> bool" where
  "policy_contains src dst m = (policy_get src dst m \<noteq> None)"

fun policy_find_map :: "asset_id \<Rightarrow> asset_id \<Rightarrow> ('a \<Rightarrow> 'b option) \<Rightarrow> 'a policy_map \<Rightarrow> 'b option" where
  "policy_find_map src dst f [] = None"
| "policy_find_map src dst f ((stored, v) # m) =
    (case (if is_asset_pair_match (forward_query src dst) stored then f v else None) of
       Some r \<Rightarrow> Some r
     | None \<Rightarrow>
         (case (if ap_direction stored = Both \<and> is_asset_pair_match (forward_query dst src) stored then f v else None) of
            Some r \<Rightarrow> Some r
          | None \<Rightarrow> policy_find_map src dst f m))"

section \<open>Solver policies\<close>

record fee =
  fee_fixed :: rat
  fee_percent_bips :: u32

record source_amount =
  sa_min :: big_decimal
  sa_max :: big_decimal

datatype default_policy = OpenPolicy | ClosedPolicy

record overrides =
  ov_fee :: "fee option"
  ov_max_slippage :: "u64 option"
  ov_confirmation_target :: "u64 option"
  ov_source_amount :: "source_amount option"

record policy_config =
  pc_default :: default_policy
  pc_isolation_groups :: "string list"
  pc_blacklist_pairs :: "string list"
  pc_whitelist_overrides :: "string list"
  pc_default_fee :: fee
  pc_default_max_slippage :: u64
  pc_default_confirmation_target :: u64
  pc_overrides :: "(string \<times> overrides) list"
  pc_max_limits :: "(asset_id \<times> big_decimal) list"

type_synonym isolation_rules = "(asset_id \<times> asset_id list) list"

record solver_policy =
  sp_default :: default_policy
  sp_source_to_destination :: isolation_rules
  sp_destination_to_source :: isolation_rules
  sp_blacklist :: "unit policy_map"
  sp_whitelist :: "unit policy_map"
  sp_default_fee :: fee
  sp_default_max_slippage :: u64
  sp_default_confirmation_target :: u64
  sp_overrides :: "overrides policy_map"
  sp_supported :: "asset_id list"
  sp_max_limits :: "(asset_id \<times> big_decimal) list"

datatype policy_error = InvalidAssetId string message | InvalidAssetPair string message

definition parse_pair :: "string \<Rightarrow> (policy_error, asset_pair) result" where
  "parse_pair s = (case asset_pair_from_str s of Inl e \<Rightarrow> Inl (InvalidAssetPair s e) | Inr p \<Rightarrow> Inr p)"

definition parse_asset :: "string \<Rightarrow> (policy_error, asset_id) result" where
  "parse_asset s = (case asset_id_from_str s of Inl e \<Rightarrow> Inl (InvalidAssetId s e) | Inr a \<Rightarrow> Inr a)"

text \<open>\<open>entry(k).or_insert(vec![]).push(v)\<close>.\<close>

definition push_entry :: "'k \<Rightarrow> 'v \<Rightarrow> ('k \<times> 'v list) list \<Rightarrow> ('k \<times> 'v list) list" where
  "push_entry k v m = AList.update k ((case map_of m k of None \<Rightarrow> [] | Some vs \<Rightarrow> vs) @ [v]) m"

definition add_isolation :: "isolation_rules \<times> isolation_rules \<Rightarrow> asset_pair \<Rightarrow> isolation_rules \<times> isolation_rules" where
  "add_isolation acc p =
    (let (out, inc) = acc; src = ap_from p; dst = ap_to p;
         out = push_entry src dst out;
         inc = push_entry dst src inc in
     if ap_direction p = Both then (push_entry dst src out, push_entry src dst inc) else (out, inc))"

text \<open>The sort is stable; the keys of a hash map are distinct, so its result does not depend on their order.\<close>

fun insert_rule :: "asset_id \<times> 'v \<Rightarrow> (asset_id \<times> 'v) list \<Rightarrow> (asset_id \<times> 'v) list" where
  "insert_rule r [] = [r]"
| "insert_rule r (s # rs) =
    (if compare_asset_specificity (fst r) (fst s) = OGreater then s # insert_rule r rs else r # s # rs)"

definition sort_rules :: "(asset_id \<times> 'v) list \<Rightarrow> (asset_id \<times> 'v) list" where
  "sort_rules rs = foldr insert_rule rs []"

definition solver_policy_new :: "policy_config \<Rightarrow> string list \<Rightarrow> (policy_error, solver_policy) result" where
  "solver_policy_new cfg supported =
    try_bind (try_map parse_asset supported) (\<lambda>assets.
    try_bind (try_map parse_pair (pc_isolation_groups cfg)) (\<lambda>groups.
    try_bind (try_map parse_pair (pc_blacklist_pairs cfg)) (\<lambda>blacklist.
    try_bind (try_map parse_pair (pc_whitelist_overrides cfg)) (\<lambda>whitelist.
    try_bind (try_map (\<lambda>(route, ov). try_bind (parse_pair route) (\<lambda>p. Inr (p, ov))) (pc_overrides cfg)) (\<lambda>routes.
      let (out, inc) = foldl add_isolation ([], []) groups in
      Inr \<lparr>sp_default = pc_default cfg,
        sp_source_to_destination = sort_rules out, sp_destination_to_source = sort_rules inc,
        sp_blacklist = foldl (\<lambda>m p. policy_insert p () m) [] blacklist,
        sp_whitelist = foldl (\<lambda>m p. policy_insert p () m) [] whitelist,
        sp_default_fee = pc_default_fee cfg, sp_default_max_slippage = pc_default_max_slippage cfg,
        sp_default_confirmation_target = pc_default_confirmation_target cfg,
        sp_overrides = foldl (\<lambda>m (p, ov). policy_insert p ov m) [] routes,
        sp_supported = assets, sp_max_limits = pc_max_limits cfg\<rparr>)))))"

section \<open>Decisions\<close>

definition join :: "string list \<Rightarrow> string" where
  "join xs = (case xs of [] \<Rightarrow> [] | x # xs \<Rightarrow> foldl (\<lambda>s y. s @ '', '' @ y) x xs)"

definition are_assets_supported :: "solver_policy \<Rightarrow> asset_id \<Rightarrow> asset_id \<Rightarrow> (message, unit) result" where
  "are_assets_supported sp src dst =
    (let unsupported = filter (\<lambda>a. a \<notin> set (sp_supported sp)) [src, dst] in
     ensure (unsupported = [])
       (Format ''Unsupported assets: [{}]. Supported assets: [{}]''
         [ArgStr (join (map show_asset unsupported)), ArgStr (join (map show_asset (sp_supported sp)))]))"

text \<open>The first rule whose asset matches decides.\<close>

definition isolation_rule :: "asset_id \<Rightarrow> isolation_rules \<Rightarrow> asset_id list option" where
  "isolation_rule a rules = map_option snd (find (\<lambda>(k, _). is_asset_id_match a k) rules)"

definition is_not_isolated :: "solver_policy \<Rightarrow> asset_id \<Rightarrow> asset_id \<Rightarrow> (message, unit) result" where
  "is_not_isolated sp src dst =
    (case isolation_rule src (sp_source_to_destination sp) of
       Some allowed \<Rightarrow>
         ensure (list_ex (\<lambda>r. is_asset_id_match r dst) allowed)
           (Format ''Source {} is isolated and can only trade with: [{}], but trying to trade to {}''
             [ArgStr (show_asset src), ArgStr (join (map show_asset allowed)), ArgStr (show_asset dst)])
     | None \<Rightarrow>
         (case isolation_rule dst (sp_destination_to_source sp) of
            Some allowed \<Rightarrow>
              ensure (list_ex (\<lambda>r. is_asset_id_match r src) allowed)
                (Format ''Destination {} is isolated and can only receive from: [{}], but trying to receive from {}''
                  [ArgStr (show_asset dst), ArgStr (join (map show_asset allowed)), ArgStr (show_asset src)])
          | None \<Rightarrow> Inr ()))"

definition is_not_blacklisted :: "solver_policy \<Rightarrow> asset_id \<Rightarrow> asset_id \<Rightarrow> (message, unit) result" where
  "is_not_blacklisted sp src dst =
    ensure (\<not> (policy_contains src dst (sp_blacklist sp) \<and> \<not> policy_contains src dst (sp_whitelist sp)))
      (Format ''Pair {} to {} is blacklisted'' [ArgStr (show_asset src), ArgStr (show_asset dst)])"

definition validate_asset_pair :: "solver_policy \<Rightarrow> asset_id \<Rightarrow> asset_id \<Rightarrow> (message, unit) result" where
  "validate_asset_pair sp src dst =
    (if src = dst
     then Inl (Format ''Source and destination assets must be different (got both: {})'' [ArgStr (show_asset src)])
     else
       try_bind (are_assets_supported sp src dst) (\<lambda>_.
       try_bind (is_not_isolated sp src dst) (\<lambda>_.
         is_not_blacklisted sp src dst)))"

definition get_fee :: "solver_policy \<Rightarrow> asset_id \<Rightarrow> asset_id \<Rightarrow> fee" where
  "get_fee sp src dst = (case policy_find_map src dst ov_fee (sp_overrides sp) of Some f \<Rightarrow> f | None \<Rightarrow> sp_default_fee sp)"

definition validate_and_get_fee :: "solver_policy \<Rightarrow> asset_id \<Rightarrow> asset_id \<Rightarrow> (message, fee) result" where
  "validate_and_get_fee sp src dst = try_bind (validate_asset_pair sp src dst) (\<lambda>_. Inr (get_fee sp src dst))"

definition get_max_slippage :: "solver_policy \<Rightarrow> asset_id \<Rightarrow> asset_id \<Rightarrow> u64" where
  "get_max_slippage sp src dst =
    (case policy_find_map src dst ov_max_slippage (sp_overrides sp) of Some n \<Rightarrow> n | None \<Rightarrow> sp_default_max_slippage sp)"

definition get_confirmation_target :: "solver_policy \<Rightarrow> asset_id \<Rightarrow> asset_id \<Rightarrow> u64" where
  "get_confirmation_target sp src dst =
    (case policy_find_map src dst ov_confirmation_target (sp_overrides sp) of
       Some n \<Rightarrow> n | None \<Rightarrow> sp_default_confirmation_target sp)"

definition get_max_source_liquidity_limit :: "solver_policy \<Rightarrow> asset_id \<Rightarrow> big_decimal option" where
  "get_max_source_liquidity_limit sp a = map_of (sp_max_limits sp) a"

section \<open>Policies of several solvers\<close>

text \<open>A solver whose configuration is invalid is skipped.\<close>

definition get_solver_policies :: "(string \<times> policy_config \<times> string list list) list \<Rightarrow> (string \<times> solver_policy) list" where
  "get_solver_policies infos =
    foldl (\<lambda>m (solver, cfg, chain_assets).
      case solver_policy_new cfg (concat chain_assets) of Inl _ \<Rightarrow> m | Inr sp \<Rightarrow> AList.update solver sp m) [] infos"

definition get_solvers_for_pair :: "(string \<times> solver_policy) list \<Rightarrow> asset_id \<Rightarrow> asset_id \<Rightarrow> (string \<times> fee) list" where
  "get_solvers_for_pair solvers src dst =
    List.map_filter (\<lambda>(solver, sp). case validate_and_get_fee sp src dst of Inl _ \<Rightarrow> None | Inr f \<Rightarrow> Some (solver, f)) solvers"

definition validate_route_and_get_fee ::
    "(string \<times> solver_policy) list \<Rightarrow> asset_id \<Rightarrow> asset_id \<Rightarrow> string \<Rightarrow> (message, fee) result" where
  "validate_route_and_get_fee solvers src dst solver =
    try_bind (ok_or (map_of solvers solver) (Format ''Solver with ID '{}' not found'' [ArgStr solver]))
      (\<lambda>sp. validate_and_get_fee sp src dst)"

end
