(* ===== verification/PolicyProps.thy ===== *)
theory PolicyProps
  imports Policy
begin

text \<open>
  The policy's rule maps: binary search finds the place that keeps the rules ordered from the most
  specific to the least, so that the first rule that applies is a most specific one; and pairs
  survive printing and parsing.
\<close>

section \<open>The order of rules\<close>

text \<open>The comparison is the order of a key: fewer wildcards first, the source before the destination.\<close>

definition rule_key :: "asset_pair \<Rightarrow> nat \<times> nat \<times> string \<times> string" where
  "rule_key p = (2 - asset_specificity (ap_from p), 2 - asset_specificity (ap_to p), show_asset (ap_from p), show_asset (ap_to p))"

lemma asset_specificity_le: "asset_specificity a \<le> 2"
  by (simp add: asset_specificity_def)

lemma reverse_cmp_minus:
  fixes m n :: nat
  assumes "m \<le> 2" "n \<le> 2"
  shows "reverse_ordering (cmp m n) = cmp (2 - m) (2 - n)"
  using assms by (auto simp: cmp_def)

lemma compare_is_key_order: "compare_asset_pair_specificity a b = cmp (rule_key a) (rule_key b)"
proof -
  have "cmp (asset_specificity (ap_from a)) (asset_specificity (ap_from b)) = reverse_ordering (cmp (2 - asset_specificity (ap_from a)) (2 - asset_specificity (ap_from b)))"
    "cmp (asset_specificity (ap_to a)) (asset_specificity (ap_to b)) = reverse_ordering (cmp (2 - asset_specificity (ap_to a)) (2 - asset_specificity (ap_to b)))"
    using asset_specificity_le by (auto simp: cmp_def) (metis diff_is_0_eq' diff_less_mono2 le_antisym not_less_iff_gr_or_eq zero_less_diff)+
  then show ?thesis
    by (auto simp: compare_asset_pair_specificity_def rule_key_def cmp_def less_prod_def less_prod_def split: if_splits)
qed

section \<open>Binary search\<close>

text \<open>
  What the halving keeps: the position is in range, everything beyond the range is greater than the
  target, and the position itself is not, unless it is still the first.
\<close>

lemma search_step_inv:
  fixes key :: "'a \<Rightarrow> 'k::linorder"
  assumes "sorted (map key xs)" "0 < n" "base + n \<le> length xs"
    and "\<forall>i. base + n \<le> i \<longrightarrow> i < length xs \<longrightarrow> k < key (xs ! i)" "base = 0 \<or> key (xs ! base) \<le> k"
  shows "search_step (\<lambda>x. cmp (key x) k) xs base n < length xs
    \<and> (\<forall>i. search_step (\<lambda>x. cmp (key x) k) xs base n < i \<longrightarrow> i < length xs \<longrightarrow> k < key (xs ! i))
    \<and> (search_step (\<lambda>x. cmp (key x) k) xs base n = 0 \<or> key (xs ! search_step (\<lambda>x. cmp (key x) k) xs base n) \<le> k)"
  using assms(2-5)
proof (induction n arbitrary: base rule: less_induct)
  case (less n)
  show ?case
  proof (cases "n \<le> 1")
    case True
    with less.prems have "n = 1" by simp
    then have "search_step (\<lambda>x. cmp (key x) k) xs base n = base" by (subst search_step.simps) simp
    with less.prems \<open>n = 1\<close> show ?thesis by simp
  next
    case False
    define h where "h = n div 2"
    define mid where "mid = base + h"
    have h: "0 < h" "h < n" "n - h < n" "0 < n - h" using False by (auto simp: h_def)
    have mid: "mid < length xs" using h less.prems(2) by (simp add: mid_def)
    have step: "search_step (\<lambda>x. cmp (key x) k) xs base n
      = search_step (\<lambda>x. cmp (key x) k) xs (if k < key (xs ! mid) then base else mid) (n - h)"
    proof -
      have "(cmp (key (xs ! mid)) k = OGreater) = (k < key (xs ! mid))" by (auto simp: cmp_def)
      then show ?thesis
        using False by (subst search_step.simps) (simp only: Let_def h_def[symmetric] mid_def[symmetric] if_False)
    qed
    show ?thesis
    proof (cases "k < key (xs ! mid)")
      case True
      have "k < key (xs ! i)" if "base + (n - h) \<le> i" "i < length xs" for i
      proof -
        have "mid \<le> i" using that(1) by (simp add: mid_def h_def)
        then have "key (xs ! mid) \<le> key (xs ! i)"
          using assms(1) that(2) mid sorted_nth_mono[of "map key xs" mid i] by simp
        with True show ?thesis by simp
      qed
      moreover have "base + (n - h) \<le> length xs" using less.prems(2) by simp
      ultimately show ?thesis using less.IH[of "n - h" base] h less.prems(4) True step by simp
    next
      case False
      have "mid + (n - h) = base + n" using h by (simp add: mid_def)
      moreover have "key (xs ! mid) \<le> k" using False by simp
      ultimately show ?thesis
        using less.IH[OF h(3), of mid] h(4) less.prems(2,3) step by (simp only: if_False not_le False) simp
    qed
  qed
qed

lemma binary_search_position:
  fixes key :: "'a \<Rightarrow> 'k::linorder"
  assumes "sorted (map key xs)" "pos = (case binary_search_by (\<lambda>x. cmp (key x) k) xs of Inl n \<Rightarrow> n | Inr n \<Rightarrow> n)"
  shows "pos \<le> length xs \<and> (\<forall>x \<in> set (take pos xs). key x \<le> k) \<and> (\<forall>x \<in> set (drop pos xs). k \<le> key x)"
proof (cases "xs = []")
  case False
  define b where "b = search_step (\<lambda>x. cmp (key x) k) xs 0 (length xs)"
  have b: "b < length xs" "\<forall>i. b < i \<longrightarrow> i < length xs \<longrightarrow> k < key (xs ! i)" "b = 0 \<or> key (xs ! b) \<le> k"
    using search_step_inv[OF assms(1), of "length xs" 0 k] False by (auto simp: b_def)
  have below: "key (xs ! i) \<le> key (xs ! b)" if "i \<le> b" for i
    using that b(1) assms(1) sorted_nth_mono[of "map key xs" i b] by simp
  have pos: "pos = (if key (xs ! b) < k then b + 1 else b)"
  proof -
    have "binary_search_by (\<lambda>x. cmp (key x) k) xs = (case cmp (key (xs ! b)) k of OEqual \<Rightarrow> Inr b | OLess \<Rightarrow> Inl (b + 1) | OGreater \<Rightarrow> Inl b)"
      unfolding binary_search_by_def Let_def b_def[symmetric] using False by simp
    then show ?thesis using assms(2) by (simp add: cmp_def)
  qed
  have "key x \<le> k" if "x \<in> set (take pos xs)" for x
  proof -
    obtain i where "i < pos" "i < length xs" "x = xs ! i" using \<open>x \<in> set (take pos xs)\<close> by (auto simp: in_set_conv_nth)
    moreover from this have "i \<le> b" using pos by (simp split: if_splits)
    ultimately show ?thesis using below[of i] b(3) pos by (auto split: if_splits)
  qed
  moreover have "k \<le> key x" if "x \<in> set (drop pos xs)" for x
  proof -
    obtain i where i: "pos \<le> i" "i < length xs" "x = xs ! i"
      using \<open>x \<in> set (drop pos xs)\<close> by (auto simp: in_set_conv_nth) (metis add.commute le_add2 less_diff_conv)
    show ?thesis
    proof (cases "b < i")
      case True
      with b(2) i show ?thesis by (simp add: less_imp_le)
    next
      case False
      with i(1) pos have "i = b" "\<not> key (xs ! b) < k" by (auto split: if_splits)
      with i show ?thesis by simp
    qed
  qed
  moreover have "pos \<le> length xs" using pos b(1) by simp
  ultimately show ?thesis by blast
qed (use assms(2) in \<open>simp add: binary_search_by_def\<close>)

section \<open>Rule maps\<close>

definition rules_sorted :: "'a policy_map \<Rightarrow> bool" where
  "rules_sorted m = sorted (map (rule_key \<circ> fst) m)"

lemma sorted_insert_at:
  fixes key :: "'a \<Rightarrow> 'k::linorder"
  assumes "sorted (map key xs)" "\<forall>x \<in> set (take pos xs). key x \<le> key y" "\<forall>x \<in> set (drop pos xs). key y \<le> key x"
  shows "sorted (map key (take pos xs @ y # drop pos xs))"
proof -
  have "sorted (map key (take pos xs @ drop pos xs))" using assms(1) by simp
  then have "sorted (map key (take pos xs))" "sorted (map key (drop pos xs))"
      "\<forall>a \<in> set (take pos xs). \<forall>b \<in> set (drop pos xs). key a \<le> key b"
    unfolding map_append sorted_append by auto
  with assms(2,3) show ?thesis by (auto simp: sorted_append simp del: append_take_drop_id)
qed

definition insert_position :: "asset_pair \<Rightarrow> 'a policy_map \<Rightarrow> nat" where
  "insert_position pair m =
    (case binary_search_by (\<lambda>(p, _). compare_asset_pair_specificity p pair) m of Inl n \<Rightarrow> n | Inr n \<Rightarrow> n)"

lemma policy_insert_at:
  "policy_insert pair v m =
    (if pair \<in> fst ` set m then m else take (insert_position pair m) m @ (pair, v) # drop (insert_position pair m) m)"
proof -
  have "list_ex (\<lambda>(p, _). p = pair) m = (pair \<in> fst ` set m)" by (force simp: list_ex_iff)
  then show ?thesis unfolding policy_insert_def insert_position_def Let_def by simp
qed

lemma policy_insert_sorted:
  assumes "rules_sorted m"
  shows "rules_sorted (policy_insert pair v m)"
proof -
  have eq: "(\<lambda>(p, _ :: 'a). compare_asset_pair_specificity p pair) = (\<lambda>x. cmp ((rule_key \<circ> fst) x) (rule_key pair))"
    by (auto simp: compare_is_key_order)
  have "\<forall>x \<in> set (take (insert_position pair m) m). (rule_key \<circ> fst) x \<le> (rule_key \<circ> fst) (pair, v)"
    "\<forall>x \<in> set (drop (insert_position pair m) m). (rule_key \<circ> fst) (pair, v) \<le> (rule_key \<circ> fst) x"
    using binary_search_position[of "rule_key \<circ> fst" m "insert_position pair m" "rule_key pair"] assms
    by (auto simp: rules_sorted_def insert_position_def eq)
  from sorted_insert_at[OF _ this] assms show ?thesis
    unfolding policy_insert_at rules_sorted_def by (cases "pair \<in> fst ` set m") (simp_all only: if_True if_False)
qed

lemma set_policy_insert: "set (policy_insert pair v m) = (if pair \<in> fst ` set m then set m else insert (pair, v) (set m))"
proof -
  have "set (take n m) \<union> set (drop n m) = set m" for n :: nat
    by (metis append_take_drop_id set_append)
  then show ?thesis by (auto simp: policy_insert_at)
qed

definition build_rules :: "(asset_pair \<times> 'a) list \<Rightarrow> 'a policy_map" where
  "build_rules rules = foldl (\<lambda>m (p, v). policy_insert p v m) [] rules"

lemma build_rules_append: "build_rules (rules @ [(p, v)]) = policy_insert p v (build_rules rules)"
  by (simp add: build_rules_def)

lemma build_rules_sorted: "rules_sorted (build_rules rules)"
proof (induction rules rule: rev_induct)
  case (snoc r rules)
  then show ?case by (cases r) (simp add: build_rules_append policy_insert_sorted)
qed (simp add: build_rules_def rules_sorted_def)

text \<open>Of rules for the same pair the first one written counts.\<close>

lemma set_build_rules: "set (build_rules rules) = {(p, v). map_of rules p = Some v}"
proof (induction rules rule: rev_induct)
  case (snoc r rules)
  obtain p v where r: "r = (p, v)" by (cases r)
  have "p \<in> fst ` set (build_rules rules) \<longleftrightarrow> map_of rules p \<noteq> None"
    using snoc.IH by (auto simp: image_iff)
  then show ?case
    by (auto simp: r build_rules_append set_policy_insert snoc.IH map_add_def split: option.splits if_splits)
qed (simp add: build_rules_def)

text \<open>When a rule applies to a trade.\<close>

definition rule_applies :: "asset_id \<Rightarrow> asset_id \<Rightarrow> asset_pair \<Rightarrow> bool" where
  "rule_applies src dst p =
    (is_asset_id_match src (ap_from p) \<and> is_asset_id_match dst (ap_to p)
     \<or> ap_direction p = Both \<and> is_asset_id_match dst (ap_from p) \<and> is_asset_id_match src (ap_to p))"

lemma policy_get_find: "policy_get src dst m = map_option snd (find (\<lambda>(p, _). rule_applies src dst p) m)"
proof -
  have applies: "rule_applies src dst p = (is_asset_pair_match (forward_query src dst) p
      \<or> ap_direction p = Both \<and> is_asset_pair_match (forward_query dst src) p)" for p
    by (cases "ap_direction p") (simp_all add: rule_applies_def is_asset_pair_match_def forward_query_def)
  show ?thesis
    by (induction m) (auto simp: applies split: if_splits)
qed

text \<open>C33: A rule map serves the most specific rule. However the rules of a policy are written down, a lookup
  finds a rule exactly when one applies to the trade, and the rule it finds is one that no other
  applicable rule precedes in the order of specificity: fewer wildcards on the source side first,
  then on the destination side.\<close>

theorem policy_get_most_specific:
  "(policy_get src dst (build_rules rules) = None \<longleftrightarrow> (\<forall>(p, v) \<in> set rules. \<not> rule_applies src dst p))
   \<and> (\<forall>v. policy_get src dst (build_rules rules) = Some v \<longrightarrow>
       (\<exists>p. map_of rules p = Some v \<and> rule_applies src dst p
         \<and> (\<forall>(q, w) \<in> set rules. rule_applies src dst q \<longrightarrow> compare_asset_pair_specificity q p \<noteq> OLess)))"
proof (intro conjI allI impI)
  let ?m = "build_rules rules"
  have keys: "fst ` set ?m = fst ` set rules"
    by (auto simp: set_build_rules image_iff dest: map_of_SomeD) (metis map_of_eq_None_iff not_None_eq fst_conv image_eqI)
  have "policy_get src dst ?m = None \<longleftrightarrow> (\<forall>p \<in> fst ` set ?m. \<not> rule_applies src dst p)"
    by (auto simp: policy_get_find find_None_iff split: prod.splits)
  then show "policy_get src dst ?m = None \<longleftrightarrow> (\<forall>(p, v) \<in> set rules. \<not> rule_applies src dst p)"
    by (auto simp: keys)
  fix v
  assume "policy_get src dst ?m = Some v"
  then obtain p where "find (\<lambda>(p, _). rule_applies src dst p) ?m = Some (p, v)"
    by (auto simp: policy_get_find)
  then obtain i where i: "i < length ?m" "?m ! i = (p, v)" "rule_applies src dst p"
      "\<forall>j < i. \<not> rule_applies src dst (fst (?m ! j))"
    by (metis (no_types, lifting) case_prod_unfold find_Some_iff fst_conv)
  have "compare_asset_pair_specificity q p \<noteq> OLess" if "(q, w) \<in> set rules" "rule_applies src dst q" for q w
  proof -
    have "q \<in> fst ` set ?m" using that(1) keys by force
    then obtain j where j: "j < length ?m" "fst (?m ! j) = q" by (auto simp: in_set_conv_nth)
    with i(4) that(2) have "i \<le> j" by (metis not_less)
    then have "rule_key (fst (?m ! i)) \<le> rule_key (fst (?m ! j))"
      using build_rules_sorted[of rules] j(1) sorted_nth_mono[of "map (rule_key \<circ> fst) ?m" i j] by (simp add: rules_sorted_def)
    with i(2) j(2) have "rule_key p \<le> rule_key q" by simp
    then have "\<not> rule_key q < rule_key p" by (simp only: not_less)
    then show ?thesis by (simp add: compare_is_key_order cmp_def)
  qed
  moreover have "map_of rules p = Some v"
    using i(1,2) set_build_rules[of rules] nth_mem[OF i(1)] by auto
  ultimately show "\<exists>p. map_of rules p = Some v \<and> rule_applies src dst p
      \<and> (\<forall>(q, w) \<in> set rules. rule_applies src dst q \<longrightarrow> compare_asset_pair_specificity q p \<noteq> OLess)"
    using i(3) by blast
qed

section \<open>An example\<close>

definition btc_id :: asset_id where
  "btc_id = \<lparr>aid_chain = ''bitcoin'', aid_token = ''btc''\<rparr>"

definition any_id :: asset_id where
  "any_id = \<lparr>aid_chain = ''*'', aid_token = ''*''\<rparr>"

definition two_rules :: "(asset_pair \<times> nat) list" where
  "two_rules = [(\<lparr>ap_from = any_id, ap_direction = Forward, ap_to = any_id\<rparr>, 1),
     (\<lparr>ap_from = btc_id, ap_direction = Forward, ap_to = any_id\<rparr>, 2)]"

lemma policy_get_most_specific_witness:
  "policy_get btc_id any_id (build_rules two_rules) = Some 2 \<and> (\<exists>p. map_of two_rules p = Some 2 \<and> rule_applies btc_id any_id p)"
proof -
  have found: "policy_get btc_id any_id (build_rules two_rules) = Some 2" by code_simp
  with policy_get_most_specific[of btc_id any_id two_rules] show ?thesis by blast
qed

text \<open>The default of a policy is stored and never read: a closed policy allows every pair that the same
  policy with an open default allows.\<close>

lemma closed_default_not_enforced:
  assumes "solver_policy_new (cfg\<lparr>pc_default := ClosedPolicy\<rparr>) assets = Inr shut"
  obtains op where "solver_policy_new (cfg\<lparr>pc_default := OpenPolicy\<rparr>) assets = Inr op"
    "validate_asset_pair shut src dst = validate_asset_pair op src dst" "get_fee shut src dst = get_fee op src dst"
proof -
  have "solver_policy_new (cfg\<lparr>pc_default := OpenPolicy\<rparr>) assets = Inr (shut\<lparr>sp_default := OpenPolicy\<rparr>)"
    using assms by (auto simp: solver_policy_new_def try_simps case_prod_unfold Let_def)
  then show thesis
    by (rule that) (simp_all add: validate_asset_pair_def are_assets_supported_def is_not_isolated_def is_not_blacklisted_def get_fee_def
      cong: option.case_cong)
qed

end
