(* ===== verification/Orderbook.thy ===== *)
theory Orderbook
  imports OrderFeed Policy TxFeeBuilder
begin

text \<open>
  The orderbook database (Tars-rs/crates/orderbook/src/orderbook.rs, primitives.rs, errors.rs): every
  query and update of \<open>OrderbookProvider\<close> as a function on the tables, the rows in the order of
  insertion. The pending-order queries are in OrderFeed. The schema is not in the repository, so the
  conflicts that an \<open>ON CONFLICT DO NOTHING\<close> skips are a parameter (\<open>conflicts\<close>); which statement
  the database fails, the time and the order in which it comes upon the rows are the view. A NULL
  makes a comparison not true. Text is ASCII.
\<close>

section \<open>Rows\<close>

datatype htlc_version = V1 | V2 | V3

record swap_row = single_swap +
  sr_updated_at :: timestamp
  sr_deleted_at :: "timestamp option"
  sr_htlc_address :: "string option"
  sr_token_address :: "string option"

record affiliate_fee =
  af_address :: string
  af_chain :: string
  af_asset :: string
  af_fee :: u64
  af_amount :: big_decimal

record bitcoin_timestamps =
  bt_initiate_detected :: "timestamp option"
  bt_redeem_detected :: "timestamp option"
  bt_refund_detected :: "timestamp option"

record order_data = additional_data +
  ad_source_delegator :: "string option"
  ad_sig :: string
  ad_redeem_tx_bytes :: "string option"
  ad_tx_hash :: "string option"
  ad_integrator :: "string option"
  ad_version :: htlc_version
  ad_bitcoin :: "bitcoin_timestamps option"

record create_row =
  cr_created_at :: timestamp
  cr_updated_at :: timestamp
  cr_deleted_at :: "timestamp option"
  cr_create_id :: string
  cr_block_number :: big_decimal
  cr_source_chain :: string
  cr_destination_chain :: string
  cr_source_asset :: string
  cr_destination_asset :: string
  cr_initiator_source_address :: string
  cr_initiator_destination_address :: string
  cr_source_amount :: big_decimal
  cr_destination_amount :: big_decimal
  cr_fee :: big_decimal
  cr_nonce :: big_decimal
  cr_min_destination_confirmations :: i32
  cr_timelock :: i32
  cr_secret_hash :: string
  cr_user_id :: "string option"
  cr_affiliate_fees :: "affiliate_fee list option"
  cr_additional_data :: order_data

record match_row =
  mr_create_order_id :: string
  mr_source_swap_id :: string
  mr_destination_swap_id :: string
  mr_created_at :: timestamp
  mr_updated_at :: timestamp
  mr_deleted_at :: "timestamp option"

record claim =
  cl_integrator_name :: string
  cl_address :: string
  cl_chain :: string
  cl_token_address :: string
  cl_total_earnings :: big_decimal
  cl_claim_signature :: string
  cl_claim_contract :: string

record orderbook_db =
  ob_swaps :: "swap_row list"
  ob_creates :: "create_row list"
  ob_matches :: "match_row list"
  ob_claims :: "claim list"

text \<open>\<open>MatchedOrderVerbose\<close>, and what executors and watchers read of it.\<close>

record verbose_order =
  vo_created_at :: timestamp
  vo_updated_at :: timestamp
  vo_deleted_at :: "timestamp option"
  vo_source_swap :: swap_row
  vo_destination_swap :: swap_row
  vo_create_order :: create_row

definition matched_view :: "verbose_order \<Rightarrow> matched_order" where
  "matched_view v =
    \<lparr>mo_created_at = vo_created_at v, mo_source_swap = single_swap.truncate (vo_source_swap v),
     mo_destination_swap = single_swap.truncate (vo_destination_swap v),
     mo_create_order =
       \<lparr>co_create_id = cr_create_id (vo_create_order v), co_source_chain = cr_source_chain (vo_create_order v),
        co_destination_chain = cr_destination_chain (vo_create_order v),
        co_additional_data = additional_data.truncate (cr_additional_data (vo_create_order v))\<rparr>\<rparr>"

section \<open>Errors and the view\<close>

datatype orderbook_error =
    OrderNotFound string
  | SwapNotFound string
  | DatabaseError message
  | InternalError message
  | InvalidParams message
  | InvalidTimestamp string
  | OrderAlreadyExists string

datatype statement =
    QSwap | QCommitted | QExists | QOrders | QCount | QOrder | QOrderData | QRedeemData | QDestination | QUpdate
  | QConfirmations | QVolume | QClaims | QBegin | QInsertSwaps | QInsertCreate | QInsertMatch | QCommit

text \<open>
  \<open>dv_scan\<close> is the order in which the database comes upon the rows that a statement sorts, any
  permutation of them: rows that compare equal under \<open>ORDER BY\<close> come back in that order, which
  the next statement need not share.
\<close>

record db_view =
  dv_now :: timestamp
  dv_fails :: "statement \<Rightarrow> bool"
  dv_scan :: "verbose_order list \<Rightarrow> verbose_order list"

definition run_statement :: "db_view \<Rightarrow> statement \<Rightarrow> (orderbook_error, unit) result" where
  "run_statement v st = ensure (\<not> dv_fails v st) (DatabaseError (Format ''{sqlx error}'' []))"

section \<open>Joins\<close>

definition lower_text :: "string \<Rightarrow> string" where
  "lower_text s = map to_lower s"

text \<open>\<open>matched_orders mo JOIN create_orders co JOIN swaps s1 JOIN swaps s2\<close>.\<close>

definition joined :: "orderbook_db \<Rightarrow> verbose_order list" where
  "joined db = concat (map (\<lambda>m.
    concat (map (\<lambda>c.
      concat (map (\<lambda>s1.
        map (\<lambda>s2.
          \<lparr>vo_created_at = mr_created_at m, vo_updated_at = mr_updated_at m, vo_deleted_at = mr_deleted_at m,
           vo_source_swap = s1, vo_destination_swap = s2, vo_create_order = c\<rparr>)
        (filter (\<lambda>s. sw_swap_id s = mr_destination_swap_id m) (ob_swaps db)))
      (filter (\<lambda>s. sw_swap_id s = mr_source_swap_id m) (ob_swaps db))))
    (filter (\<lambda>c. cr_create_id c = mr_create_order_id m) (ob_creates db)))) (ob_matches db))"

definition first_row :: "'a list \<Rightarrow> 'a option" where
  "first_row rows = (case rows of [] \<Rightarrow> None | r # _ \<Rightarrow> Some r)"

text \<open>\<open>EXTRACT(EPOCH FROM t)::bigint\<close>.\<close>

definition epoch_seconds :: "timestamp \<Rightarrow> int" where
  "epoch_seconds t = round (of_int t / 1000000000 :: rat)"

section \<open>Queries\<close>

definition get_swap :: "db_view \<Rightarrow> string \<Rightarrow> swap_chain \<Rightarrow> orderbook_db \<Rightarrow> (orderbook_error, swap_row option) result" where
  "get_swap v oid side db =
    try_bind (run_statement v QSwap) (\<lambda>_.
      Inr (first_row (concat (map (\<lambda>m.
        filter (\<lambda>s. sw_swap_id s = (case side of SourceSide \<Rightarrow> mr_source_swap_id m | DestinationSide \<Rightarrow> mr_destination_swap_id m))
          (ob_swaps db)) (filter (\<lambda>m. mr_create_order_id m = oid) (ob_matches db))))))"

text \<open>The WHERE clause: a block number that is NULL is not 0. The current time is in whole seconds.\<close>

definition block_is_zero :: "big_decimal option \<Rightarrow> bool" where
  "block_is_zero b = (case b of None \<Rightarrow> False | Some n \<Rightarrow> bd_value n = 0)"

definition is_committed :: "timestamp \<Rightarrow> string \<Rightarrow> string \<Rightarrow> string \<Rightarrow> verbose_order \<Rightarrow> bool" where
  "is_committed now addr chain asset v =
    (let s1 = vo_source_swap v; s2 = vo_destination_swap v in
     ad_deadline (cr_additional_data (vo_create_order v)) > now div 1000000000
     \<and> sw_chain s2 = chain \<and> block_is_zero (sw_initiate_block_number s2) \<and> sw_initiate_tx_hash s1 \<noteq> []
     \<and> lower_text (sw_initiator s2) = addr \<and> lower_text (sw_asset s2) = asset)"

definition get_solver_committed_funds ::
    "db_view \<Rightarrow> string \<Rightarrow> string \<Rightarrow> string \<Rightarrow> orderbook_db \<Rightarrow> (orderbook_error, rat) result" where
  "get_solver_committed_funds v addr chain asset db =
    try_bind (run_statement v QCommitted) (\<lambda>_.
      Inr (sum_list (map (\<lambda>row. bd_value (sw_amount (vo_destination_swap row)))
        (filter (is_committed (dv_now v) (lower_text addr) chain (lower_text asset)) (joined db)))))"

definition secret_hash_exists :: "db_view \<Rightarrow> string \<Rightarrow> orderbook_db \<Rightarrow> (orderbook_error, bool) result" where
  "secret_hash_exists v secret_hash db =
    try_bind (run_statement v QExists) (\<lambda>_. Inr (list_ex (\<lambda>c. cr_secret_hash c = secret_hash) (ob_creates db)))"

definition get_matched_order :: "db_view \<Rightarrow> string \<Rightarrow> orderbook_db \<Rightarrow> (orderbook_error, verbose_order option) result" where
  "get_matched_order v create_id db =
    try_bind (run_statement v QOrder) (\<lambda>_.
      Inr (first_row (filter (\<lambda>row. cr_create_id (vo_create_order row) = create_id) (joined db))))"

definition get_integrator_fees :: "db_view \<Rightarrow> string \<Rightarrow> orderbook_db \<Rightarrow> (orderbook_error, claim list) result" where
  "get_integrator_fees v integrator db =
    try_bind (run_statement v QClaims) (\<lambda>_. Inr (filter (\<lambda>c. cl_integrator_name c = integrator) (ob_claims db)))"

section \<open>Filters\<close>

datatype order_status = NotInitiated | InProgress | Completed | Expired | Refunded

definition order_status_from_str :: "string \<Rightarrow> (orderbook_error, order_status) result" where
  "order_status_from_str s =
    (if s = ''not-initiated'' then Inr NotInitiated
     else if s = ''in-progress'' \<or> s = ''pending'' then Inr InProgress
     else if s = ''completed'' \<or> s = ''fulfilled'' then Inr Completed
     else if s = ''expired'' then Inr Expired
     else if s = ''refunded'' then Inr Refunded
     else Inl (InvalidParams (Format ''Invalid order status: {}'' [ArgStr s])))"

record order_filters =
  of_page :: i64
  of_per_page :: i64
  of_address :: "string option"
  of_tx_hash :: "string option"
  of_from_chain :: "string option"
  of_to_chain :: "string option"
  of_from_owner :: "string option"
  of_to_owner :: "string option"
  of_status :: "order_status list option"

definition default_filters :: order_filters where
  "default_filters =
    \<lparr>of_page = 1, of_per_page = 10, of_address = None, of_tx_hash = None, of_from_chain = None, of_to_chain = None,
     of_from_owner = None, of_to_owner = None, of_status = None\<rparr>"

definition PAGE_LIMIT :: i64 where
  "PAGE_LIMIT = 500"

definition order_filters_new ::
    "i64 \<Rightarrow> i64 \<Rightarrow> string option \<Rightarrow> string option \<Rightarrow> string option \<Rightarrow> string option \<Rightarrow> order_status list option
      \<Rightarrow> string option \<Rightarrow> string option \<Rightarrow> (orderbook_error, order_filters) result" where
  "order_filters_new page_no limit address tx_hash from_chain to_chain status from_owner to_owner =
    (if \<not> (0 \<le>s limit \<and> limit \<le>s PAGE_LIMIT)
     then Inl (InvalidParams (Format ''Invalid page limit. Must be between 0 and {}'' [ArgNat (unat PAGE_LIMIT)]))
     else
       Inr \<lparr>of_page = page_no, of_per_page = limit, of_address = address, of_tx_hash = tx_hash, of_from_chain = from_chain,
         of_to_chain = to_chain, of_from_owner = from_owner, of_to_owner = to_owner, of_status = status\<rparr>)"

definition filter_offset :: "order_filters \<Rightarrow> i64" where
  "filter_offset f = (of_page f - 1) * of_per_page f"

text \<open>
  \<open>deserialize_csv_field\<close>: how the status parameter of a request is read. The collected set is the
  list without repetitions.
\<close>

definition deserialize_status :: "string option \<Rightarrow> (orderbook_error, order_status list option) result" where
  "deserialize_status opt =
    (case opt of
       None \<Rightarrow> Inr None
     | Some s \<Rightarrow>
         try_bind (try_map order_status_from_str (filter (\<lambda>p. p \<noteq> []) (map trim (split_on CHR '','' s))))
           (\<lambda>items. Inr (Some (remdups items))))"

text \<open>SQL's \<open>LIKE\<close>.\<close>

fun like :: "string \<Rightarrow> string \<Rightarrow> bool" where
  "like [] s = (s = [])"
| "like (c # p) [] = (c = CHR ''%'' \<and> like p [])"
| "like (c # p) (x # s) =
    (if c = CHR ''%'' then like p (x # s) \<or> like (c # p) s
     else if c = CHR 0x5C then (case p of [] \<Rightarrow> False | d # p \<Rightarrow> d = x \<and> like p s)
     else (c = CHR ''_'' \<or> c = x) \<and> like p s)"

definition address_filter :: "string \<Rightarrow> verbose_order \<Rightarrow> bool" where
  "address_filter address row =
    (let a = lower_text address; s1 = vo_source_swap row; s2 = vo_destination_swap row; co = vo_create_order row in
     lower_text (sw_initiator s1) = a \<or> lower_text (sw_initiator s2) = a
     \<or> lower_text (sw_redeemer s1) = a \<or> lower_text (sw_redeemer s2) = a
     \<or> map_option lower_text (cr_user_id co) = Some a
     \<or> map_option lower_text (ad_bitcoin_optional_recipient (cr_additional_data co)) = Some a)"

definition from_owner_filter :: "string \<Rightarrow> verbose_order \<Rightarrow> bool" where
  "from_owner_filter address row = (lower_text (cr_initiator_source_address (vo_create_order row)) = lower_text address)"

definition to_owner_filter :: "string \<Rightarrow> verbose_order \<Rightarrow> bool" where
  "to_owner_filter address row = (lower_text (cr_initiator_destination_address (vo_create_order row)) = lower_text address)"

definition tx_hash_filter :: "string \<Rightarrow> verbose_order \<Rightarrow> bool" where
  "tx_hash_filter tx_hash row =
    (let pat = ''%'' @ lower_text tx_hash @ ''%''; s1 = vo_source_swap row; s2 = vo_destination_swap row in
     like pat (lower_text (sw_initiate_tx_hash s1)) \<or> like pat (lower_text (sw_initiate_tx_hash s2))
     \<or> like pat (lower_text (sw_refund_tx_hash s1)) \<or> like pat (lower_text (sw_refund_tx_hash s2))
     \<or> like pat (lower_text (sw_redeem_tx_hash s1)) \<or> like pat (lower_text (sw_redeem_tx_hash s2)))"

definition time_range_filter :: "timestamp option \<Rightarrow> timestamp \<Rightarrow> verbose_order \<Rightarrow> bool" where
  "time_range_filter start until row =
    ((case start of None \<Rightarrow> True | Some t \<Rightarrow> t \<le> cr_created_at (vo_create_order row))
     \<and> cr_created_at (vo_create_order row) \<le> until)"

fun status_clause :: "timestamp \<Rightarrow> order_status \<Rightarrow> verbose_order \<Rightarrow> bool" where
  "status_clause now NotInitiated row =
    (ad_deadline (cr_additional_data (vo_create_order row)) > epoch_seconds now \<and> sw_initiate_tx_hash (vo_source_swap row) = [])"
| "status_clause now InProgress row =
    (block_positive (sw_initiate_block_number (vo_source_swap row))
     \<and> (case sw_initiate_timestamp (vo_source_swap row) of
          None \<Rightarrow> False
        | Some t \<Rightarrow> ad_deadline (cr_additional_data (vo_create_order row)) > epoch_seconds t)
     \<and> sw_redeem_tx_hash (vo_source_swap row) = [] \<and> sw_refund_tx_hash (vo_source_swap row) = [])"
| "status_clause now Completed row =
    (sw_redeem_tx_hash (vo_source_swap row) \<noteq> [] \<or> sw_refund_tx_hash (vo_source_swap row) \<noteq> [])"
| "status_clause now Expired row =
    (ad_deadline (cr_additional_data (vo_create_order row)) < epoch_seconds now \<and> sw_initiate_tx_hash (vo_source_swap row) = [])"
| "status_clause now Refunded row = (sw_refund_tx_hash (vo_source_swap row) \<noteq> [])"

definition opt_filter :: "('a \<Rightarrow> verbose_order \<Rightarrow> bool) \<Rightarrow> 'a option \<Rightarrow> verbose_order \<Rightarrow> bool" where
  "opt_filter f x row = (case x of None \<Rightarrow> True | Some a \<Rightarrow> f a row)"

text \<open>The conditions other than the status.\<close>

definition base_filter :: "order_filters \<Rightarrow> verbose_order \<Rightarrow> bool" where
  "base_filter f row =
    ((case of_address f of
        Some a \<Rightarrow> address_filter a row
      | None \<Rightarrow> opt_filter from_owner_filter (of_from_owner f) row \<and> opt_filter to_owner_filter (of_to_owner f) row)
     \<and> opt_filter tx_hash_filter (of_tx_hash f) row
     \<and> opt_filter (\<lambda>c row. sw_chain (vo_source_swap row) = c) (of_from_chain f) row
     \<and> opt_filter (\<lambda>c row. sw_chain (vo_destination_swap row) = c) (of_to_chain f) row)"

section \<open>Pages\<close>

record 'a paginated =
  pg_data :: "'a list"
  pg_page :: i64
  pg_total_pages :: i64
  pg_total_items :: i64
  pg_per_page :: i64

text \<open>A division by zero panics, which is no result (\<open>None\<close>); so does the overflow of the least number by -1.\<close>

definition signed_div :: "i64 \<Rightarrow> i64 \<Rightarrow> i64 option" where
  "signed_div a b =
    (if b = 0 \<or> (a = - (2 ^ 63) \<and> b = - 1) then None
     else Some (word_of_int (let q = \<bar>sint a\<bar> div \<bar>sint b\<bar> in if (sint a < 0) = (sint b < 0) then q else - q)))"

definition paginated_new :: "'a list \<Rightarrow> i64 \<Rightarrow> i64 \<Rightarrow> i64 \<Rightarrow> 'a paginated option" where
  "paginated_new data page total_items per_page =
    map_option (\<lambda>total_pages.
      \<lparr>pg_data = data, pg_page = page, pg_total_pages = total_pages, pg_total_items = total_items, pg_per_page = per_page\<rparr>)
      (signed_div (total_items + per_page - 1) per_page)"

text \<open>\<open>ORDER BY created_at DESC LIMIT .. OFFSET ..\<close>: the database refuses negative bounds.\<close>

definition page_of :: "db_view \<Rightarrow> order_filters \<Rightarrow> verbose_order list \<Rightarrow> (orderbook_error, verbose_order list) result" where
  "page_of v f rows =
    (if of_per_page f <s 0 \<or> filter_offset f <s 0 then Inl (DatabaseError (Format ''{sqlx error}'' []))
     else
       Inr (take (nat (sint (of_per_page f))) (drop (nat (sint (filter_offset f))) 
         (sort_key (\<lambda>row. - vo_created_at row) (dv_scan v rows)))))"

text \<open>The outer option is \<open>None\<close> on a panic. An empty set of statuses makes an empty group, a syntax error.\<close>

definition get_all_matched_orders ::
    "db_view \<Rightarrow> order_filters \<Rightarrow> orderbook_db \<Rightarrow> (orderbook_error, verbose_order paginated) result option" where
  "get_all_matched_orders v f db =
    (let rows = filter (\<lambda>row. base_filter f row
           \<and> opt_filter (\<lambda>sts row. list_ex (\<lambda>st. status_clause (dv_now v) st row) sts) (of_status f) row) (joined db);
         page = try_bind (run_statement v QOrders) (\<lambda>_.
           if of_status f = Some [] then Inl (DatabaseError (Format ''{sqlx error}'' []))
           else page_of v f rows);
         count = try_bind (run_statement v QCount) (\<lambda>_. Inr (length rows)) in
     case try_bind page (\<lambda>data. try_bind count (\<lambda>n. Inr (data, n))) of
       Inl e \<Rightarrow> Some (Inl e)
     | Inr (data, n) \<Rightarrow> map_option Inr (paginated_new data (of_page f) (of_nat n) (of_per_page f)))"

text \<open>The orders of a user. Statuses other than these two add no condition.\<close>

definition init_pending :: "int \<Rightarrow> verbose_order \<Rightarrow> bool" where
  "init_pending now row =
    (sw_initiate_tx_hash (vo_source_swap row) = [] \<and> ad_deadline (cr_additional_data (vo_create_order row)) > now)"

definition redeem_pending :: "verbose_order \<Rightarrow> bool" where
  "redeem_pending row =
    (let s1 = vo_source_swap row; s2 = vo_destination_swap row in
     sw_initiate_tx_hash s1 \<noteq> [] \<and> sw_refund_tx_hash s2 = [] \<and> block_is_zero (sw_redeem_block_number s2)
     \<and> sw_initiate_tx_hash s2 \<noteq> [] \<and> block_is_zero (sw_refund_block_number s1))"

definition refund_pending :: "verbose_order \<Rightarrow> bool" where
  "refund_pending row =
    (let s1 = vo_source_swap row; s2 = vo_destination_swap row in
     sw_initiate_tx_hash s1 \<noteq> [] \<and> sw_redeem_tx_hash s1 = [] \<and> block_is_zero (sw_refund_block_number s1)
     \<and> sw_redeem_tx_hash s2 = [])"

fun user_status_clause :: "int \<Rightarrow> order_status \<Rightarrow> verbose_order \<Rightarrow> bool" where
  "user_status_clause now InProgress row = (init_pending now row \<or> redeem_pending row \<or> refund_pending row)"
| "user_status_clause now Completed row =
    (block_positive (sw_redeem_block_number (vo_destination_swap row)) \<or> block_positive (sw_refund_block_number (vo_source_swap row)))"
| "user_status_clause now _ row = True"

definition get_matched_orders ::
    "db_view \<Rightarrow> string \<Rightarrow> order_filters \<Rightarrow> orderbook_db \<Rightarrow> (orderbook_error, verbose_order paginated) result option" where
  "get_matched_orders v user f db =
    (let u = lower_text user; now = dv_now v div 1000000000;
         rows = filter (\<lambda>row.
           (lower_text (cr_initiator_source_address (vo_create_order row)) = u \<or> map_option lower_text (cr_user_id (vo_create_order row)) = Some u)
           \<and> (case of_status f of None \<Rightarrow> True | Some sts \<Rightarrow> list_all (\<lambda>st. user_status_clause now st row) sts)) (joined db);
         page = try_bind (run_statement v QOrders) (\<lambda>_. page_of v f rows);
         count = try_bind (run_statement v QCount) (\<lambda>_. Inr (length rows)) in
     case try_bind page (\<lambda>data. try_bind count (\<lambda>n. Inr (data, n))) of
       Inl e \<Rightarrow> Some (Inl e)
     | Inr (data, n) \<Rightarrow> map_option Inr (paginated_new data (of_page f) (of_nat n) (of_per_page f)))"

end
