(* ===== verification/OrderbookWrites.thy ===== *)
theory OrderbookWrites
  imports Orderbook
begin

text \<open>
  The writes of the orderbook (Tars-rs/crates/orderbook/src/orderbook.rs) and its statistics. An
  operation returns its result and the tables after it.
\<close>

type_synonym 'a db_op = "orderbook_db \<Rightarrow> (orderbook_error, 'a) result \<times> orderbook_db"

text \<open>An UPDATE with its number of affected rows.\<close>

definition update_rows :: "('r \<Rightarrow> bool) \<Rightarrow> ('r \<Rightarrow> 'r) \<Rightarrow> 'r list \<Rightarrow> 'r list" where
  "update_rows P f rows = map (\<lambda>r. if P r then f r else r) rows"

definition affected :: "('r \<Rightarrow> bool) \<Rightarrow> 'r list \<Rightarrow> nat" where
  "affected P rows = length (filter P rows)"

section \<open>Transactions of the user\<close>

text \<open>\<open>additional_data || \<dots>\<close> sets one key of the JSON object.\<close>

definition add_instant_refund_sacp :: "db_view \<Rightarrow> string \<Rightarrow> string \<Rightarrow> unit db_op" where
  "add_instant_refund_sacp v oid tx_bytes db =
    (let P = (\<lambda>c. cr_create_id c = oid) in
     case run_statement v QOrderData of
       Inl e \<Rightarrow> (Inl e, db)
     | Inr _ \<Rightarrow>
         if affected P (ob_creates db) = 0 then (Inl (OrderNotFound oid), db)
         else
           (Inr (), db\<lparr>ob_creates := update_rows P (\<lambda>c. c\<lparr>cr_additional_data :=
              (cr_additional_data c)\<lparr>ad_instant_refund_tx_bytes := Some tx_bytes\<rparr>\<rparr>) (ob_creates db)\<rparr>))"

text \<open>
  Two statements without a transaction. The subquery of the second must give at most one row, or the
  database fails; without a row no swap matches.
\<close>

definition add_redeem_sacp :: "db_view \<Rightarrow> string \<Rightarrow> string \<Rightarrow> string \<Rightarrow> string \<Rightarrow> unit db_op" where
  "add_redeem_sacp v oid tx_bytes tx_id secret db =
    (let P = (\<lambda>c. cr_create_id c = oid) in
     case run_statement v QRedeemData of
       Inl e \<Rightarrow> (Inl e, db)
     | Inr _ \<Rightarrow>
         if affected P (ob_creates db) = 0 then (Inl (OrderNotFound oid), db)
         else
           let db = db\<lparr>ob_creates := update_rows P (\<lambda>c. c\<lparr>cr_additional_data :=
                 (cr_additional_data c)\<lparr>ad_redeem_tx_bytes := Some tx_bytes\<rparr>\<rparr>) (ob_creates db)\<rparr> in
           case run_statement v QDestination of
             Inl e \<Rightarrow> (Inl e, db)
           | Inr _ \<Rightarrow>
               (case map mr_destination_swap_id (filter (\<lambda>m. mr_create_order_id m = oid) (ob_matches db)) of
                  [] \<Rightarrow> (Inl (SwapNotFound oid), db)
                | [sid] \<Rightarrow>
                    (let Q = (\<lambda>s. sw_swap_id s = sid) in
                     if affected Q (ob_swaps db) = 0 then (Inl (SwapNotFound oid), db)
                     else
                       (Inr (), db\<lparr>ob_swaps := update_rows Q (\<lambda>s. s\<lparr>sw_redeem_tx_hash := tx_id, sw_secret := secret\<rparr>) (ob_swaps db)\<rparr>))
                | _ \<Rightarrow> (Inl (DatabaseError (Format ''{sqlx error}'' [])), db)))"

section \<open>Progress of a swap\<close>

definition update_swap :: "db_view \<Rightarrow> string \<Rightarrow> (swap_row \<Rightarrow> swap_row) \<Rightarrow> unit db_op" where
  "update_swap v sid f db =
    (let Q = (\<lambda>s. sw_swap_id s = sid) in
     case run_statement v QUpdate of
       Inl e \<Rightarrow> (Inl e, db)
     | Inr _ \<Rightarrow>
         if affected Q (ob_swaps db) = 0 then (Inl (SwapNotFound sid), db)
         else (Inr (), db\<lparr>ob_swaps := update_rows Q f (ob_swaps db)\<rparr>))"

definition update_swap_initiate :: "db_view \<Rightarrow> string \<Rightarrow> big_decimal \<Rightarrow> string \<Rightarrow> i64 \<Rightarrow> timestamp \<Rightarrow> unit db_op" where
  "update_swap_initiate v sid filled tx_hash block time =
    update_swap v sid (\<lambda>s. s\<lparr>sw_filled_amount := filled, sw_initiate_tx_hash := tx_hash,
      sw_initiate_block_number := Some (BigDecimal (sint block) 0), sw_initiate_timestamp := Some time\<rparr>)"

definition update_swap_redeem :: "db_view \<Rightarrow> string \<Rightarrow> string \<Rightarrow> string \<Rightarrow> i64 \<Rightarrow> timestamp \<Rightarrow> unit db_op" where
  "update_swap_redeem v sid tx_hash secret block time =
    update_swap v sid (\<lambda>s. s\<lparr>sw_redeem_tx_hash := tx_hash, sw_secret := secret,
      sw_redeem_block_number := Some (BigDecimal (sint block) 0), sw_redeem_timestamp := Some time\<rparr>)"

definition update_swap_refund :: "db_view \<Rightarrow> string \<Rightarrow> string \<Rightarrow> i64 \<Rightarrow> timestamp \<Rightarrow> unit db_op" where
  "update_swap_refund v sid tx_hash block time =
    update_swap v sid (\<lambda>s. s\<lparr>sw_refund_tx_hash := tx_hash,
      sw_refund_block_number := Some (BigDecimal (sint block) 0), sw_refund_timestamp := Some time\<rparr>)"

text \<open>
  \<open>LEAST\<close> ignores a NULL: without a block number the swap counts as fully confirmed. The height is
  bound as \<open>latest_block as i64\<close>; the column is an integer, so the value is rounded.
\<close>

definition least_confirmations :: "u64 \<Rightarrow> swap_row \<Rightarrow> i32" where
  "least_confirmations latest s =
    word_of_int (round
      (case sw_initiate_block_number s of
         None \<Rightarrow> of_int (sint (sw_required_confirmations s)) :: rat
       | Some b \<Rightarrow> min (of_int (sint (sw_required_confirmations s))) (of_int (sint latest) - bd_value b + 1)))"

definition update_chain_confirmations :: "db_view \<Rightarrow> string \<Rightarrow> u64 \<Rightarrow> unit db_op" where
  "update_chain_confirmations v chain latest db =
    (case run_statement v QConfirmations of
       Inl e \<Rightarrow> (Inl e, db)
     | Inr _ \<Rightarrow>
         (Inr (), db\<lparr>ob_swaps := update_rows
            (\<lambda>s. sw_chain s = chain \<and> sint (sw_required_confirmations s) > sint (sw_current_confirmations s) \<and> sw_initiate_tx_hash s \<noteq> [])
            (\<lambda>s. s\<lparr>sw_current_confirmations := least_confirmations latest s\<rparr>) (ob_swaps db)\<rparr>))"

section \<open>New orders\<close>

text \<open>
  The conflicts of the three tables, a new row against one that is there. An insertion that skips
  conflicting rows reports how many it made; later rows of a statement see the earlier ones.
\<close>

record conflicts =
  cn_swap :: "swap_row \<Rightarrow> swap_row \<Rightarrow> bool"
  cn_create :: "create_row \<Rightarrow> create_row \<Rightarrow> bool"
  cn_match :: "match_row \<Rightarrow> match_row \<Rightarrow> bool"

fun insert_rows :: "('r \<Rightarrow> 'r \<Rightarrow> bool) \<Rightarrow> 'r list \<Rightarrow> 'r list \<Rightarrow> nat \<times> 'r list" where
  "insert_rows conflict [] rows = (0, rows)"
| "insert_rows conflict (r # new) rows =
    (if list_ex (conflict r) rows then insert_rows conflict new rows
     else (case insert_rows conflict new (rows @ [r]) of (n, rows) \<Rightarrow> (Suc n, rows)))"

definition case_sensitive :: "string \<Rightarrow> bool" where
  "case_sensitive chain = (contains ''bitcoin'' chain \<or> contains ''solana'' chain)"

definition normalize_if :: "bool \<Rightarrow> string \<Rightarrow> string" where
  "normalize_if sensitive addr = (if sensitive then addr else lower_text addr)"

text \<open>The columns that the statement does not name stay NULL.\<close>

definition stored_swap :: "swap_row \<Rightarrow> swap_row" where
  "stored_swap s =
    (let norm = normalize_if (case_sensitive (sw_chain s)) in
     s\<lparr>sw_asset := lower_text (sw_asset s), sw_initiator := norm (sw_initiator s), sw_redeemer := norm (sw_redeemer s),
       sr_htlc_address := Some (norm (case sr_htlc_address s of None \<Rightarrow> [] | Some a \<Rightarrow> a)),
       sr_token_address := Some (norm (case sr_token_address s of None \<Rightarrow> [] | Some a \<Rightarrow> a)),
       sw_initiate_timestamp := None, sw_redeem_timestamp := None, sw_refund_timestamp := None\<rparr>)"

definition stored_create :: "verbose_order \<Rightarrow> create_row" where
  "stored_create ord =
    (let src = normalize_if (case_sensitive (sw_chain (vo_source_swap ord)));
         dst = normalize_if (case_sensitive (sw_chain (vo_destination_swap ord)));
         c = vo_create_order ord in
     c\<lparr>cr_source_asset := src (cr_source_asset c), cr_destination_asset := dst (cr_destination_asset c),
       cr_initiator_source_address := src (cr_initiator_source_address c),
       cr_initiator_destination_address := dst (cr_initiator_destination_address c)\<rparr>)"

definition stored_match :: "verbose_order \<Rightarrow> match_row" where
  "stored_match ord =
    \<lparr>mr_create_order_id = cr_create_id (vo_create_order ord), mr_source_swap_id = sw_swap_id (vo_source_swap ord),
     mr_destination_swap_id = sw_swap_id (vo_destination_swap ord), mr_created_at = cr_created_at (vo_create_order ord),
     mr_updated_at = cr_updated_at (vo_create_order ord), mr_deleted_at = cr_deleted_at (vo_create_order ord)\<rparr>"

text \<open>One transaction: it keeps its changes only when every step succeeds and it commits.\<close>

definition create_in_transaction :: "db_view \<Rightarrow> conflicts \<Rightarrow> verbose_order \<Rightarrow> orderbook_db \<Rightarrow> (orderbook_error, orderbook_db) result" where
  "create_in_transaction v cn ord db =
    (let exists = Inl (OrderAlreadyExists (cr_create_id (vo_create_order ord))) in
     try_bind (run_statement v QBegin) (\<lambda>_.
     try_bind (run_statement v QInsertSwaps) (\<lambda>_.
       let (n, swaps) = insert_rows (cn_swap cn) [stored_swap (vo_source_swap ord), stored_swap (vo_destination_swap ord)] (ob_swaps db) in
       if n < 2 then exists
       else
         try_bind (run_statement v QInsertCreate) (\<lambda>_.
           let (n, creates) = insert_rows (cn_create cn) [stored_create ord] (ob_creates db) in
           if n = 0 then exists
           else
             try_bind (run_statement v QInsertMatch) (\<lambda>_.
               let (n, matches) = insert_rows (cn_match cn) [stored_match ord] (ob_matches db) in
               if n = 0 then exists
               else
                 try_bind (run_statement v QCommit) (\<lambda>_.
                   Inr (db\<lparr>ob_swaps := swaps, ob_creates := creates, ob_matches := matches\<rparr>)))))))"

definition create_matched_order :: "db_view \<Rightarrow> conflicts \<Rightarrow> verbose_order \<Rightarrow> unit db_op" where
  "create_matched_order v cn ord db =
    (case create_in_transaction v cn ord db of
       Inl e \<Rightarrow> (Inl e, db)
     | Inr db' \<Rightarrow> (Inr (), db'))"

section \<open>Statistics\<close>

text \<open>
  Decimals of the crate: a quotient is rounded to its precision and a number of type \<open>f64\<close> may have no decimal
  (\<open>dc_div\<close>, \<open>dc_from_f64\<close>); sums and products are exact. A division by zero panics.
\<close>

record decimal_crate =
  dc_div :: "rat \<Rightarrow> rat \<Rightarrow> rat"
  dc_from_f64 :: "rat \<Rightarrow> rat option"

definition truncate_int :: "rat \<Rightarrow> int" where
  "truncate_int x = (if x < 0 then - \<lfloor>- x\<rfloor> else \<lfloor>x\<rfloor>)"

text \<open>\<open>10_u64.pow(decimals)\<close> wraps around.\<close>

definition u64_pow10 :: "nat \<Rightarrow> u64" where
  "u64_pow10 n = 10 ^ n"

record stats_filters =
  sf_source_chain :: "string option"
  sf_destination_chain :: "string option"
  sf_address :: "string option"
  sf_from :: "int option"
  sf_to :: "int option"

text \<open>\<open>DateTime::from_timestamp\<close> is the parameter \<open>ts\<close>.\<close>

definition parse_time :: "(int \<Rightarrow> timestamp option) \<Rightarrow> string \<Rightarrow> int \<Rightarrow> (orderbook_error, timestamp) result" where
  "parse_time ts what t = ok_or (ts t) (InvalidTimestamp what)"

definition is_settled :: "verbose_order \<Rightarrow> bool" where
  "is_settled row = (sw_redeem_tx_hash (vo_source_swap row) \<noteq> [] \<and> sw_redeem_tx_hash (vo_destination_swap row) \<noteq> [])"

definition stats_filter :: "stats_filters \<Rightarrow> timestamp option \<Rightarrow> timestamp \<Rightarrow> verbose_order \<Rightarrow> bool" where
  "stats_filter q start until row =
    (is_settled row \<and> time_range_filter start until row
     \<and> opt_filter (\<lambda>c row. sw_chain (vo_source_swap row) = c) (sf_source_chain q) row
     \<and> opt_filter (\<lambda>c row. sw_chain (vo_destination_swap row) = c) (sf_destination_chain q) row
     \<and> opt_filter address_filter (sf_address q) row)"

definition swap_decimals :: "((string \<times> string) \<times> nat) list \<Rightarrow> swap_row \<Rightarrow> nat" where
  "swap_decimals decimals s = (case map_of decimals (sw_chain s, lower_text (sw_asset s)) of Some d \<Rightarrow> d | None \<Rightarrow> 8)"

text \<open>The value of one side in dollars; no result when the divisor is zero.\<close>

definition side_value ::
    "decimal_crate \<Rightarrow> ((string \<times> string) \<times> nat) list \<Rightarrow> swap_row \<Rightarrow> rat \<Rightarrow> (orderbook_error, rat) result option" where
  "side_value dc decimals s price =
    (let divisor = u64_pow10 (swap_decimals decimals s) in
     if divisor = 0 then None
     else
       Some (try_bind (ok_or (dc_from_f64 dc price) (InternalError (Format ''Failed to parse token price: {}'' [])))
         (\<lambda>p. Inr (dc_div dc (bd_value (sw_amount s)) (of_nat (unat divisor)) * p))))"

definition add_volume ::
    "decimal_crate \<Rightarrow> ((string \<times> string) \<times> nat) list \<Rightarrow> stats_filters \<Rightarrow> rat \<times> rat \<Rightarrow> verbose_order
      \<Rightarrow> (orderbook_error, rat \<times> rat) result option" where
  "add_volume dc decimals q acc row =
    (let (volume, fees) = acc; ad = cr_additional_data (vo_create_order row) in
     case (side_value dc decimals (vo_source_swap row) (ad_input_token_price ad),
           side_value dc decimals (vo_destination_swap row) (ad_output_token_price ad)) of
       (Some src, Some dst) \<Rightarrow>
         Some (try_bind src (\<lambda>source_value. try_bind dst (\<lambda>dest_value.
           Inr (volume + (if sf_source_chain q \<noteq> None then source_value else 0)
                  + (if sf_destination_chain q \<noteq> None then dest_value else 0)
                  + (if sf_source_chain q = None \<and> sf_destination_chain q = None then source_value + dest_value else 0),
                fees + (source_value - dest_value)))))
     | _ \<Rightarrow> None)"

fun add_volumes ::
    "decimal_crate \<Rightarrow> ((string \<times> string) \<times> nat) list \<Rightarrow> stats_filters \<Rightarrow> rat \<times> rat \<Rightarrow> verbose_order list
      \<Rightarrow> (orderbook_error, rat \<times> rat) result option" where
  "add_volumes dc decimals q acc [] = Some (Inr acc)"
| "add_volumes dc decimals q acc (row # rows) =
    (case add_volume dc decimals q acc row of
       None \<Rightarrow> None
     | Some (Inl e) \<Rightarrow> Some (Inl e)
     | Some (Inr acc) \<Rightarrow> add_volumes dc decimals q acc rows)"

definition get_volume_and_fees ::
    "db_view \<Rightarrow> (int \<Rightarrow> timestamp option) \<Rightarrow> decimal_crate \<Rightarrow> stats_filters \<Rightarrow> ((string \<times> string) \<times> nat) list \<Rightarrow> orderbook_db
      \<Rightarrow> (orderbook_error, int \<times> int) result option" where
  "get_volume_and_fees v ts dc q decimals db =
    (let rows =
       try_bind (case sf_from q of Some t \<Rightarrow> try_bind (parse_time ts ''Failed to parse from timestamp'' t) (\<lambda>t. Inr (Some t)) | None \<Rightarrow> Inr None) (\<lambda>start.
       try_bind (case sf_to q of Some t \<Rightarrow> parse_time ts ''Failed to parse to timestamp'' t | None \<Rightarrow> Inr (dv_now v)) (\<lambda>until.
       try_bind (run_statement v QVolume) (\<lambda>_. Inr (filter (stats_filter q start until) (joined db))))) in
     case rows of
       Inl e \<Rightarrow> Some (Inl e)
     | Inr rows \<Rightarrow>
         map_option (\<lambda>r. try_bind r (\<lambda>(volume, fees). Inr (truncate_int volume, truncate_int fees)))
           (add_volumes dc decimals q (0, 0) rows))"

definition get_volume where
  "get_volume v ts dc q decimals db = map_option (\<lambda>r. try_bind r (\<lambda>(volume, _). Inr volume)) (get_volume_and_fees v ts dc q decimals db)"

definition get_fees where
  "get_fees v ts dc q decimals db = map_option (\<lambda>r. try_bind r (\<lambda>(_, fees). Inr fees)) (get_volume_and_fees v ts dc q decimals db)"

end
