(* ===== verification/OrderbookProps.thy ===== *)
theory OrderbookProps
  imports OrderbookWrites
begin

text \<open>
  The tables of the orderbook stay linked and keyed under every write; a created order is found again
  as it was stored; the pages of a listing are its consecutive parts.
\<close>

section \<open>Linked tables\<close>

text \<open>The keys that the schema is taken to have: conflicting ids are refused.\<close>

definition keyed :: "conflicts \<Rightarrow> bool" where
  "keyed cn =
    ((\<forall>s t. sw_swap_id s = sw_swap_id t \<longrightarrow> cn_swap cn s t)
     \<and> (\<forall>c d. cr_create_id c = cr_create_id d \<longrightarrow> cn_create cn c d)
     \<and> (\<forall>m n. mr_create_order_id m = mr_create_order_id n \<longrightarrow> cn_match cn m n))"

definition db_ok :: "orderbook_db \<Rightarrow> bool" where
  "db_ok db =
    (distinct (map sw_swap_id (ob_swaps db)) \<and> distinct (map cr_create_id (ob_creates db))
     \<and> distinct (map mr_create_order_id (ob_matches db))
     \<and> (\<forall>m \<in> set (ob_matches db). mr_create_order_id m \<in> set (map cr_create_id (ob_creates db))
          \<and> {mr_source_swap_id m, mr_destination_swap_id m} \<subseteq> set (map sw_swap_id (ob_swaps db))))"

lemma map_update_rows: "(\<And>r. g (f r) = g r) \<Longrightarrow> map g (update_rows P f rows) = map g rows"
  by (induction rows) (auto simp: update_rows_def)

lemma db_ok_update_swaps:
  "db_ok db \<Longrightarrow> (\<And>s. sw_swap_id (f s) = sw_swap_id s) \<Longrightarrow> db_ok (db\<lparr>ob_swaps := update_rows P f (ob_swaps db)\<rparr>)"
  using map_update_rows[of sw_swap_id f P "ob_swaps db"] by (simp add: db_ok_def)

lemma db_ok_update_creates:
  "db_ok db \<Longrightarrow> (\<And>c. cr_create_id (f c) = cr_create_id c) \<Longrightarrow> db_ok (db\<lparr>ob_creates := update_rows P f (ob_creates db)\<rparr>)"
  using map_update_rows[of cr_create_id f P "ob_creates db"] by (simp add: db_ok_def)

text \<open>What a successful creation has done.\<close>

definition stored_order :: "verbose_order \<Rightarrow> verbose_order" where
  "stored_order ord =
    \<lparr>vo_created_at = cr_created_at (vo_create_order ord), vo_updated_at = cr_updated_at (vo_create_order ord),
     vo_deleted_at = cr_deleted_at (vo_create_order ord), vo_source_swap = stored_swap (vo_source_swap ord),
     vo_destination_swap = stored_swap (vo_destination_swap ord), vo_create_order = stored_create ord\<rparr>"

lemma stored_ids [simp]:
  "sw_swap_id (stored_swap s) = sw_swap_id s"
  "cr_create_id (stored_create ord) = cr_create_id (vo_create_order ord)"
  "mr_create_order_id (stored_match ord) = cr_create_id (vo_create_order ord)"
  "mr_source_swap_id (stored_match ord) = sw_swap_id (vo_source_swap ord)"
  "mr_destination_swap_id (stored_match ord) = sw_swap_id (vo_destination_swap ord)"
  by (simp_all add: stored_swap_def stored_create_def stored_match_def Let_def)

lemma create_matched_order_rows:
  assumes "create_matched_order v cn ord db = (Inr (), db')"
  shows "ob_swaps db' = ob_swaps db @ [stored_swap (vo_source_swap ord), stored_swap (vo_destination_swap ord)]
    \<and> ob_creates db' = ob_creates db @ [stored_create ord] \<and> ob_matches db' = ob_matches db @ [stored_match ord]
    \<and> (\<forall>s \<in> set (ob_swaps db). \<not> cn_swap cn (stored_swap (vo_source_swap ord)) s \<and> \<not> cn_swap cn (stored_swap (vo_destination_swap ord)) s)
    \<and> \<not> cn_swap cn (stored_swap (vo_destination_swap ord)) (stored_swap (vo_source_swap ord))
    \<and> (\<forall>c \<in> set (ob_creates db). \<not> cn_create cn (stored_create ord) c)
    \<and> (\<forall>m \<in> set (ob_matches db). \<not> cn_match cn (stored_match ord) m)
    \<and> ob_claims db' = ob_claims db"
  using assms
  unfolding create_matched_order_def create_in_transaction_def run_statement_def
  by (auto simp: ensure_def list_ex_iff try_simps split: if_splits sum.splits prod.splits)

lemma create_matched_order_error: "create_matched_order v cn ord db = (Inl e, db') \<Longrightarrow> db' = db"
  by (auto simp: create_matched_order_def split: sum.splits)

lemma db_ok_create:
  assumes "db_ok db" "keyed cn" "create_matched_order v cn ord db = (r, db')"
  shows "db_ok db'"
proof (cases r)
  case (Inl e)
  with assms create_matched_order_error show ?thesis by blast
next
  case (Inr u)
  with assms(3) have "create_matched_order v cn ord db = (Inr (), db')" by simp
  from create_matched_order_rows[OF this] assms(1,2) show ?thesis
    unfolding db_ok_def keyed_def by (fastforce simp: image_iff)
qed

section \<open>Joined rows\<close>

text \<open>In linked tables a match row joins to exactly one order.\<close>

definition row_of :: "orderbook_db \<Rightarrow> match_row \<Rightarrow> verbose_order" where
  "row_of db m =
    \<lparr>vo_created_at = mr_created_at m, vo_updated_at = mr_updated_at m, vo_deleted_at = mr_deleted_at m,
     vo_source_swap = hd (filter (\<lambda>s. sw_swap_id s = mr_source_swap_id m) (ob_swaps db)),
     vo_destination_swap = hd (filter (\<lambda>s. sw_swap_id s = mr_destination_swap_id m) (ob_swaps db)),
     vo_create_order = hd (filter (\<lambda>c. cr_create_id c = mr_create_order_id m) (ob_creates db))\<rparr>"

lemma filter_key:
  assumes "distinct (map key xs)" "k \<in> set (map key xs)"
  shows "filter (\<lambda>x. key x = k) xs = [hd (filter (\<lambda>x. key x = k) xs)]"
  using assms
proof (induction xs)
  case (Cons x xs)
  show ?case
  proof (cases "key x = k")
    case True
    with Cons.prems(1) have "filter (\<lambda>x. key x = k) xs = []" by (auto simp: filter_empty_conv image_iff)
    with True show ?thesis by simp
  qed (use Cons in auto)
qed simp

lemma joined_rows:
  assumes "db_ok db"
  shows "joined db = map (row_of db) (ob_matches db)"
proof -
  have row: "concat (map (\<lambda>c.
      concat (map (\<lambda>s1.
        map (\<lambda>s2.
          \<lparr>vo_created_at = mr_created_at m, vo_updated_at = mr_updated_at m, vo_deleted_at = mr_deleted_at m,
           vo_source_swap = s1, vo_destination_swap = s2, vo_create_order = c\<rparr>)
        (filter (\<lambda>s. sw_swap_id s = mr_destination_swap_id m) (ob_swaps db)))
      (filter (\<lambda>s. sw_swap_id s = mr_source_swap_id m) (ob_swaps db))))
    (filter (\<lambda>c. cr_create_id c = mr_create_order_id m) (ob_creates db))) = [row_of db m]"
    if "m \<in> set (ob_matches db)" for m
  proof -
    from assms that have "mr_create_order_id m \<in> set (map cr_create_id (ob_creates db))"
        "mr_source_swap_id m \<in> set (map sw_swap_id (ob_swaps db))" "mr_destination_swap_id m \<in> set (map sw_swap_id (ob_swaps db))"
      by (auto simp: db_ok_def)
    moreover from assms have "distinct (map sw_swap_id (ob_swaps db))" "distinct (map cr_create_id (ob_creates db))"
      by (auto simp: db_ok_def)
    ultimately obtain s1 s2 c where
        eqs: "filter (\<lambda>s. sw_swap_id s = mr_destination_swap_id m) (ob_swaps db) = [s2]"
        "filter (\<lambda>s. sw_swap_id s = mr_source_swap_id m) (ob_swaps db) = [s1]"
        "filter (\<lambda>c. cr_create_id c = mr_create_order_id m) (ob_creates db) = [c]"
      by (metis filter_key)
    then show ?thesis by (simp add: row_of_def)
  qed
  have "map (\<lambda>m. concat (map (\<lambda>c.
      concat (map (\<lambda>s1.
        map (\<lambda>s2.
          \<lparr>vo_created_at = mr_created_at m, vo_updated_at = mr_updated_at m, vo_deleted_at = mr_deleted_at m,
           vo_source_swap = s1, vo_destination_swap = s2, vo_create_order = c\<rparr>)
        (filter (\<lambda>s. sw_swap_id s = mr_destination_swap_id m) (ob_swaps db)))
      (filter (\<lambda>s. sw_swap_id s = mr_source_swap_id m) (ob_swaps db))))
    (filter (\<lambda>c. cr_create_id c = mr_create_order_id m) (ob_creates db)))) (ob_matches db) = map (\<lambda>m. [row_of db m]) (ob_matches db)"
    using row by (intro map_cong refl) auto
  then show ?thesis unfolding joined_def by (simp only: concat_map_singleton)
qed

lemma joined_create:
  assumes "db_ok db" "keyed cn" "create_matched_order v cn ord db = (Inr (), db')"
  shows "joined db' = joined db @ [stored_order ord]"
proof -
  note rows = create_matched_order_rows[OF assms(3)]
  have ok: "db_ok db'" using db_ok_create[OF assms(1,2,3)] .
  have "row_of db' m = row_of db m" if "m \<in> set (ob_matches db)" for m
  proof -
    from assms(1) that have "mr_create_order_id m \<in> set (map cr_create_id (ob_creates db))"
        "mr_source_swap_id m \<in> set (map sw_swap_id (ob_swaps db))" "mr_destination_swap_id m \<in> set (map sw_swap_id (ob_swaps db))"
      by (auto simp: db_ok_def)
    then have "filter (\<lambda>s. sw_swap_id s = mr_destination_swap_id m) (ob_swaps db) \<noteq> []"
        "filter (\<lambda>s. sw_swap_id s = mr_source_swap_id m) (ob_swaps db) \<noteq> []"
        "filter (\<lambda>c. cr_create_id c = mr_create_order_id m) (ob_creates db) \<noteq> []"
      by (auto simp: filter_empty_conv)
    with rows show ?thesis by (simp add: row_of_def)
  qed
  moreover have "row_of db' (stored_match ord) = stored_order ord"
  proof -
    from rows assms(2) have "filter (\<lambda>s. sw_swap_id s = sw_swap_id (vo_source_swap ord)) (ob_swaps db) = []"
        "filter (\<lambda>s. sw_swap_id s = sw_swap_id (vo_destination_swap ord)) (ob_swaps db) = []"
        "filter (\<lambda>c. cr_create_id c = cr_create_id (vo_create_order ord)) (ob_creates db) = []"
        "sw_swap_id (vo_source_swap ord) \<noteq> sw_swap_id (vo_destination_swap ord)"
      unfolding keyed_def filter_empty_conv by (metis stored_ids(1,2))+
    with rows show ?thesis by (simp add: row_of_def stored_order_def stored_match_def)
  qed
  ultimately show ?thesis using rows joined_rows[OF assms(1)] joined_rows[OF ok] by simp
qed

section \<open>What a creation stores\<close>

text \<open>
  What a reader of an order expects of its columns, said without the statements that write them. An
  address is the given one up to the case of its letters: the very one on the chains whose addresses
  distinguish case, in lower case elsewhere.
\<close>

definition address_kept :: "string \<Rightarrow> string \<Rightarrow> string \<Rightarrow> bool" where
  "address_kept chain given found =
    (lower_text found = lower_text given
     \<and> (if contains ''bitcoin'' chain \<or> contains ''solana'' chain then found = given else lower_text found = found))"

definition optional_kept :: "string \<Rightarrow> string option \<Rightarrow> string option \<Rightarrow> bool" where
  "optional_kept chain given found =
    (\<exists>a. found = Some a \<and> (case given of None \<Rightarrow> a = [] | Some g \<Rightarrow> address_kept chain g a))"

definition swap_kept :: "swap_row \<Rightarrow> swap_row \<Rightarrow> bool" where
  "swap_kept g s =
    ((sw_swap_id s, sw_chain s, sw_created_at s, sr_updated_at s, sr_deleted_at s)
       = (sw_swap_id g, sw_chain g, sw_created_at g, sr_updated_at g, sr_deleted_at g)
     \<and> (sw_amount s, sw_filled_amount s, sw_timelock s, sw_secret_hash s, sw_secret s)
       = (sw_amount g, sw_filled_amount g, sw_timelock g, sw_secret_hash g, sw_secret g)
     \<and> (sw_initiate_tx_hash s, sw_redeem_tx_hash s, sw_refund_tx_hash s)
       = (sw_initiate_tx_hash g, sw_redeem_tx_hash g, sw_refund_tx_hash g)
     \<and> (sw_initiate_block_number s, sw_redeem_block_number s, sw_refund_block_number s)
       = (sw_initiate_block_number g, sw_redeem_block_number g, sw_refund_block_number g)
     \<and> (sw_required_confirmations s, sw_current_confirmations s) = (sw_required_confirmations g, sw_current_confirmations g)
     \<and> sw_asset s = lower_text (sw_asset g)
     \<and> address_kept (sw_chain g) (sw_initiator g) (sw_initiator s)
     \<and> address_kept (sw_chain g) (sw_redeemer g) (sw_redeemer s)
     \<and> optional_kept (sw_chain g) (sr_htlc_address g) (sr_htlc_address s)
     \<and> optional_kept (sw_chain g) (sr_token_address g) (sr_token_address s)
     \<and> (sw_initiate_timestamp s, sw_redeem_timestamp s, sw_refund_timestamp s) = (None, None, None))"

text \<open>The addresses of the order itself go by the chains of its swaps.\<close>

definition create_kept :: "string \<Rightarrow> string \<Rightarrow> create_row \<Rightarrow> create_row \<Rightarrow> bool" where
  "create_kept source destination g c =
    ((cr_create_id c, cr_created_at c, cr_updated_at c, cr_deleted_at c, cr_block_number c)
       = (cr_create_id g, cr_created_at g, cr_updated_at g, cr_deleted_at g, cr_block_number g)
     \<and> (cr_source_chain c, cr_destination_chain c, cr_source_amount c, cr_destination_amount c)
       = (cr_source_chain g, cr_destination_chain g, cr_source_amount g, cr_destination_amount g)
     \<and> (cr_fee c, cr_nonce c, cr_min_destination_confirmations c, cr_timelock c, cr_secret_hash c)
       = (cr_fee g, cr_nonce g, cr_min_destination_confirmations g, cr_timelock g, cr_secret_hash g)
     \<and> (cr_user_id c, cr_affiliate_fees c, cr_additional_data c) = (cr_user_id g, cr_affiliate_fees g, cr_additional_data g)
     \<and> address_kept source (cr_source_asset g) (cr_source_asset c)
     \<and> address_kept destination (cr_destination_asset g) (cr_destination_asset c)
     \<and> address_kept source (cr_initiator_source_address g) (cr_initiator_source_address c)
     \<and> address_kept destination (cr_initiator_destination_address g) (cr_initiator_destination_address c))"

lemma to_lower_lower: "to_lower (to_lower c) = to_lower c"
proof (cases "65 \<le> (of_char c :: nat) \<and> of_char c \<le> (90 :: nat)")
  case True
  then have "(of_char (to_lower c) :: nat) = of_char c + 32" by (simp add: to_lower_def)
  with True show ?thesis by (simp add: to_lower_def)
next
  case False
  then show ?thesis by (auto simp: to_lower_def)
qed

lemma lower_lower [simp]: "lower_text (lower_text s) = lower_text s"
  by (simp add: lower_text_def to_lower_lower)

lemma address_kept_stored: "address_kept chain a (normalize_if (case_sensitive chain) a)"
  by (simp add: address_kept_def normalize_if_def case_sensitive_def)

lemma optional_kept_stored:
  "optional_kept chain a (Some (normalize_if (case_sensitive chain) (case a of None \<Rightarrow> [] | Some b \<Rightarrow> b)))"
  by (cases a) (simp_all add: optional_kept_def address_kept_stored, simp add: normalize_if_def lower_text_def)

lemma swap_kept_stored: "swap_kept s (stored_swap s)"
  unfolding swap_kept_def by (simp add: stored_swap_def Let_def address_kept_stored optional_kept_stored)

lemma create_kept_stored:
  "create_kept (sw_chain (vo_source_swap ord)) (sw_chain (vo_destination_swap ord)) (vo_create_order ord) (stored_create ord)"
  unfolding create_kept_def by (simp add: stored_create_def Let_def address_kept_stored)

text \<open>C38: A created order is stored and found. When \<open>create_matched_order\<close> succeeds, an order is
  found under its id, and each of its swaps, whose columns are the given ones, with these exceptions:
  addresses are in lower case off Bitcoin and Solana, the assets of the two swaps on every chain (the order's own
  assets go with the addresses), an HTLC or token address that was not given is the empty text, and the
  timestamps of the swaps, which the statement does not write, are absent. It is joined after the
  orders that were there. When the creation fails, the tables are as before.\<close>

theorem created_order_is_stored:
  assumes "db_ok db" "keyed cn" "create_matched_order v cn ord db = (r, db')" "\<not> dv_fails v' QOrder" "\<not> dv_fails v' QSwap"
  shows "case r of
      Inl _ \<Rightarrow> db' = db
    | Inr _ \<Rightarrow> \<exists>row. let id = cr_create_id (vo_create_order ord); src = vo_source_swap ord; dst = vo_destination_swap ord in
        get_matched_order v' id db' = Inr (Some row)
        \<and> get_swap v' id SourceSide db' = Inr (Some (vo_source_swap row))
        \<and> get_swap v' id DestinationSide db' = Inr (Some (vo_destination_swap row))
        \<and> swap_kept src (vo_source_swap row) \<and> swap_kept dst (vo_destination_swap row)
        \<and> create_kept (sw_chain src) (sw_chain dst) (vo_create_order ord) (vo_create_order row)
        \<and> joined db' = joined db @ [row]"
proof (cases r)
  case (Inl e)
  with assms(3) create_matched_order_error show ?thesis by fastforce
next
  case (Inr u)
  with assms(3) have ok: "create_matched_order v cn ord db = (Inr (), db')" by simp
  note rows = create_matched_order_rows[OF ok] and joined = joined_create[OF assms(1,2) ok]
  let ?id = "cr_create_id (vo_create_order ord)"
  have fresh: "?id \<notin> set (map cr_create_id (ob_creates db))" "?id \<notin> set (map mr_create_order_id (ob_matches db))"
    using rows assms(2) unfolding keyed_def by (auto simp: image_iff)
  have swaps: "\<forall>s \<in> set (ob_swaps db). sw_swap_id s \<noteq> sw_swap_id (vo_source_swap ord) \<and> sw_swap_id s \<noteq> sw_swap_id (vo_destination_swap ord)"
      "sw_swap_id (vo_destination_swap ord) \<noteq> sw_swap_id (vo_source_swap ord)"
    using rows assms(2) unfolding keyed_def by (metis stored_ids(1))+
  have no_match: "filter (\<lambda>m. mr_create_order_id m = ?id) (ob_matches db) = []"
    using fresh(2) by (auto simp: filter_empty_conv image_iff)
  have no_swap: "filter (\<lambda>s. sw_swap_id s = sw_swap_id (vo_source_swap ord)) (ob_swaps db) = []"
      "filter (\<lambda>s. sw_swap_id s = sw_swap_id (vo_destination_swap ord)) (ob_swaps db) = []"
    using swaps(1) by (auto simp: filter_empty_conv)
  have "filter (\<lambda>row. cr_create_id (vo_create_order row) = ?id) (joined db) = []"
    using fresh(1) by (auto simp: joined_def filter_empty_conv image_iff)
  then have "get_matched_order v' ?id db' = Inr (Some (stored_order ord))"
    using assms(4) joined by (simp add: get_matched_order_def run_statement_def first_row_def stored_order_def)
  moreover have "get_swap v' ?id SourceSide db' = Inr (Some (stored_swap (vo_source_swap ord)))"
      "get_swap v' ?id DestinationSide db' = Inr (Some (stored_swap (vo_destination_swap ord)))"
    using assms(5) rows no_match no_swap swaps(2)
    by (simp_all add: get_swap_def run_statement_def first_row_def)
  moreover have "vo_source_swap (stored_order ord) = stored_swap (vo_source_swap ord)"
      "vo_destination_swap (stored_order ord) = stored_swap (vo_destination_swap ord)"
      "vo_create_order (stored_order ord) = stored_create ord"
    by (simp_all add: stored_order_def)
  ultimately have "\<exists>row. get_matched_order v' ?id db' = Inr (Some row)
      \<and> get_swap v' ?id SourceSide db' = Inr (Some (vo_source_swap row))
      \<and> get_swap v' ?id DestinationSide db' = Inr (Some (vo_destination_swap row))
      \<and> swap_kept (vo_source_swap ord) (vo_source_swap row) \<and> swap_kept (vo_destination_swap ord) (vo_destination_swap row)
      \<and> create_kept (sw_chain (vo_source_swap ord)) (sw_chain (vo_destination_swap ord)) (vo_create_order ord) (vo_create_order row)
      \<and> joined db' = joined db @ [row]"
    using joined by (intro exI[of _ "stored_order ord"]) (simp add: swap_kept_stored create_kept_stored)
  with Inr show ?thesis by (simp add: Let_def)
qed

section \<open>Writes\<close>

inductive ob_step :: "conflicts \<Rightarrow> orderbook_db \<Rightarrow> orderbook_db \<Rightarrow> bool" for cn where
  Create: "create_matched_order v cn ord db = (r, db') \<Longrightarrow> ob_step cn db db'"
| InstantRefund: "add_instant_refund_sacp v oid tx db = (r, db') \<Longrightarrow> ob_step cn db db'"
| RedeemSacp: "add_redeem_sacp v oid tx txid secret db = (r, db') \<Longrightarrow> ob_step cn db db'"
| Initiate: "update_swap_initiate v sid filled tx block time db = (r, db') \<Longrightarrow> ob_step cn db db'"
| Redeem: "update_swap_redeem v sid tx secret block time db = (r, db') \<Longrightarrow> ob_step cn db db'"
| Refund: "update_swap_refund v sid tx block time db = (r, db') \<Longrightarrow> ob_step cn db db'"
| Confirm: "update_chain_confirmations v chain latest db = (r, db') \<Longrightarrow> ob_step cn db db'"

text \<open>What the parties agreed on.\<close>

definition swap_terms where
  "swap_terms s = ((sw_swap_id s, sw_chain s, sw_asset s, sw_initiator s, sw_redeemer s), sw_timelock s, sw_amount s,
     sw_secret_hash s, sw_required_confirmations s, sr_htlc_address s, sr_token_address s)"

definition create_terms where
  "create_terms c = ((cr_create_id c, cr_secret_hash c, cr_timelock c, cr_nonce c), cr_source_chain c, cr_destination_chain c,
     cr_source_amount c, cr_destination_amount c, ad_strategy_id (cr_additional_data c), ad_deadline (cr_additional_data c))"

definition order_terms where
  "order_terms row = (create_terms (vo_create_order row), swap_terms (vo_source_swap row), swap_terms (vo_destination_swap row))"

lemma swap_terms_id: "swap_terms s = swap_terms t \<Longrightarrow> sw_swap_id s = sw_swap_id t"
  by (simp add: swap_terms_def)

lemma create_terms_id: "create_terms c = create_terms d \<Longrightarrow> cr_create_id c = cr_create_id d"
  by (simp add: create_terms_def)

lemma filter_update_rows:
  assumes "\<And>r. key (f r) = key r"
  shows "filter (\<lambda>r. key r = k) (update_rows P f rows) = update_rows P f (filter (\<lambda>r. key r = k) rows)"
  using assms by (induction rows) (auto simp: update_rows_def)

lemma hd_update_rows: "rows \<noteq> [] \<Longrightarrow> hd (update_rows P f rows) = (if P (hd rows) then f (hd rows) else hd rows)"
  by (cases rows) (auto simp: update_rows_def)

lemma filter_linked:
  assumes "db_ok db" "m \<in> set (ob_matches db)"
  shows "filter (\<lambda>s. sw_swap_id s = mr_source_swap_id m) (ob_swaps db) \<noteq> []"
    and "filter (\<lambda>s. sw_swap_id s = mr_destination_swap_id m) (ob_swaps db) \<noteq> []"
    and "filter (\<lambda>c. cr_create_id c = mr_create_order_id m) (ob_creates db) \<noteq> []"
  using assms by (auto simp: db_ok_def filter_empty_conv image_iff dest!: bspec)

lemma joined_update_swaps:
  assumes "db_ok db" "\<And>s. swap_terms (f s) = swap_terms s"
  shows "joined (db\<lparr>ob_swaps := update_rows P f (ob_swaps db)\<rparr>) = map (\<lambda>row. row
      \<lparr>vo_source_swap := (if P (vo_source_swap row) then f (vo_source_swap row) else vo_source_swap row),
       vo_destination_swap := (if P (vo_destination_swap row) then f (vo_destination_swap row) else vo_destination_swap row)\<rparr>) (joined db)"
proof -
  have key: "sw_swap_id (f s) = sw_swap_id s" for s using assms(2) swap_terms_id by blast
  show ?thesis
    using filter_linked[OF assms(1)]
    by (simp add: joined_rows[OF assms(1)] joined_rows[OF db_ok_update_swaps[OF assms(1) key]] row_of_def
      filter_update_rows[of sw_swap_id f, OF key] hd_update_rows)
qed

lemma joined_update_creates:
  assumes "db_ok db" "\<And>c. create_terms (f c) = create_terms c"
  shows "joined (db\<lparr>ob_creates := update_rows P f (ob_creates db)\<rparr>) = map (\<lambda>row. row
      \<lparr>vo_create_order := (if P (vo_create_order row) then f (vo_create_order row) else vo_create_order row)\<rparr>) (joined db)"
proof -
  have key: "cr_create_id (f c) = cr_create_id c" for c using assms(2) create_terms_id by blast
  show ?thesis
    using filter_linked[OF assms(1)]
    by (simp add: joined_rows[OF assms(1)] joined_rows[OF db_ok_update_creates[OF assms(1) key]] row_of_def
      filter_update_rows[of cr_create_id f, OF key] hd_update_rows)
qed

lemma step_keeps_terms:
  assumes "ob_step cn db db'" "keyed cn" "db_ok db"
  shows "db_ok db' \<and> (\<exists>new. map order_terms (joined db') = map order_terms (joined db) @ new)"
proof -
  have swaps: "db_ok (db\<lparr>ob_swaps := update_rows P f (ob_swaps db)\<rparr>)
      \<and> map order_terms (joined (db\<lparr>ob_swaps := update_rows P f (ob_swaps db)\<rparr>)) = map order_terms (joined db)"
    if "db_ok db" "\<And>s. swap_terms (f s) = swap_terms s" for P f and db :: orderbook_db
  proof -
    have "sw_swap_id (f s) = sw_swap_id s" for s using that(2) swap_terms_id by blast
    with that show ?thesis by (auto simp: db_ok_update_swaps joined_update_swaps order_terms_def)
  qed
  have creates: "db_ok (db\<lparr>ob_creates := update_rows P f (ob_creates db)\<rparr>)
      \<and> map order_terms (joined (db\<lparr>ob_creates := update_rows P f (ob_creates db)\<rparr>)) = map order_terms (joined db)"
    if "db_ok db" "\<And>c. create_terms (f c) = create_terms c" for P f and db :: orderbook_db
  proof -
    have "cr_create_id (f c) = cr_create_id c" for c using that(2) create_terms_id by blast
    with that show ?thesis by (auto simp: db_ok_update_creates joined_update_creates order_terms_def)
  qed
  have update: "db_ok db' \<and> map order_terms (joined db') = map order_terms (joined db)"
    if "update_swap v sid f db = (r, db')" "\<And>s. swap_terms (f s) = swap_terms s" for v sid f r
    using that(1) swaps[OF assms(3) that(2)] assms(3) by (auto simp: update_swap_def Let_def split: sum.splits if_splits)
  from assms(1) show ?thesis
  proof cases
    case (Create v ord r)
    show ?thesis
    proof (cases r)
      case (Inl e)
      with Create create_matched_order_error assms(3) show ?thesis by fastforce
    next
      case (Inr u)
      with Create joined_create[OF assms(3,2)] db_ok_create[OF assms(3,2)] show ?thesis by fastforce
    qed
  next
    case (InstantRefund v oid tx r)
    define db1 where "db1 = db\<lparr>ob_creates := update_rows (\<lambda>c. cr_create_id c = oid)
      (\<lambda>c. c\<lparr>cr_additional_data := (cr_additional_data c)\<lparr>ad_instant_refund_tx_bytes := Some tx\<rparr>\<rparr>) (ob_creates db)\<rparr>"
    have "db_ok db1 \<and> map order_terms (joined db1) = map order_terms (joined db)"
      unfolding db1_def by (rule creates[OF assms(3)]) (simp add: create_terms_def)
    moreover have "db' = db \<or> db' = db1"
      using InstantRefund unfolding add_instant_refund_sacp_def Let_def db1_def[symmetric] by (auto split: sum.splits if_splits)
    ultimately show ?thesis using assms(3) by auto
  next
    case (RedeemSacp v oid tx txid secret r)
    define db1 where "db1 = db\<lparr>ob_creates := update_rows (\<lambda>c. cr_create_id c = oid)
      (\<lambda>c. c\<lparr>cr_additional_data := (cr_additional_data c)\<lparr>ad_redeem_tx_bytes := Some tx\<rparr>\<rparr>) (ob_creates db)\<rparr>"
    have db1: "db_ok db1 \<and> map order_terms (joined db1) = map order_terms (joined db)"
      unfolding db1_def by (rule creates[OF assms(3)]) (simp add: create_terms_def)
    have "db' = db \<or> db' = db1 \<or> (\<exists>sid. db' = db1\<lparr>ob_swaps := update_rows (\<lambda>s. sw_swap_id s = sid)
        (\<lambda>s. s\<lparr>sw_redeem_tx_hash := txid, sw_secret := secret\<rparr>) (ob_swaps db1)\<rparr>)"
      using RedeemSacp unfolding add_redeem_sacp_def Let_def db1_def[symmetric]
      by (auto split: sum.splits if_splits list.splits)
    then show ?thesis
    proof (elim disjE exE)
      fix sid
      assume "db' = db1\<lparr>ob_swaps := update_rows (\<lambda>s. sw_swap_id s = sid)
        (\<lambda>s. s\<lparr>sw_redeem_tx_hash := txid, sw_secret := secret\<rparr>) (ob_swaps db1)\<rparr>"
      then show ?thesis using swaps[of db1 "\<lambda>s. s\<lparr>sw_redeem_tx_hash := txid, sw_secret := secret\<rparr>" "\<lambda>s. sw_swap_id s = sid"] db1
        by (simp add: swap_terms_def)
    qed (use assms(3) db1 in auto)
  next
    case (Initiate v sid filled tx block time r)
    then show ?thesis using update unfolding update_swap_initiate_def by (fastforce simp: swap_terms_def)
  next
    case (Redeem v sid tx secret block time r)
    then show ?thesis using update unfolding update_swap_redeem_def by (fastforce simp: swap_terms_def)
  next
    case (Refund v sid tx block time r)
    then show ?thesis using update unfolding update_swap_refund_def by (fastforce simp: swap_terms_def)
  next
    case (Confirm v chain latest r)
    then show ?thesis using swaps[OF assms(3)] assms(3)
      by (auto simp: update_chain_confirmations_def swap_terms_def split: sum.splits)
  qed
qed

text \<open>C39: However orders are created, funded, redeemed and refunded, the tables stay linked (every match
  refers to one order and two swaps, no id is used twice), no order disappears, and no write ever changes
  the terms of an order: parties, amounts, secret hash, timelocks, contracts, deadline.\<close>

theorem orderbook_terms_never_change:
  assumes "(ob_step cn)\<^sup>*\<^sup>* db db'" "keyed cn" "db_ok db"
  shows "db_ok db' \<and> (\<exists>new. map order_terms (joined db') = map order_terms (joined db) @ new)"
  using assms(1)
proof (induction rule: rtranclp_induct)
  case (step db1 db2)
  then show ?case using step_keeps_terms[OF step.hyps(2) assms(2)] by fastforce
qed (use assms(3) in auto)

section \<open>Committed funds\<close>

text \<open>An order reserves nothing of the solver's liquidity while it is open. The committed funds count
  swaps whose initiate block is 0, and a new order has none: whatever the solver, chain and asset,
  creating the order and recording the user's deposit leave the committed funds as they were.\<close>

lemma open_order_reserves_nothing:
  assumes "db_ok db" "keyed cn" "create_matched_order v cn ord db = (Inr (), db1)"
    and "sw_initiate_block_number (vo_destination_swap ord) = None"
    and "update_swap_initiate v1 (sw_swap_id (vo_source_swap ord)) filled tx block time db1 = (Inr (), db2)"
  shows "get_solver_committed_funds v2 addr chain asset db1 = get_solver_committed_funds v2 addr chain asset db
    \<and> get_solver_committed_funds v2 addr chain asset db2 = get_solver_committed_funds v2 addr chain asset db"
proof -
  let ?P = "\<lambda>s. sw_swap_id s = sw_swap_id (vo_source_swap ord)"
  let ?f = "\<lambda>s. s\<lparr>sw_filled_amount := filled, sw_initiate_tx_hash := tx,
      sw_initiate_block_number := Some (BigDecimal (sint block) 0), sw_initiate_timestamp := Some time\<rparr>"
  note joined1 = joined_create[OF assms(1-3)] and rows = create_matched_order_rows[OF assms(3)]
  have ok1: "db_ok db1" using db_ok_create[OF assms(1-3)] .
  have "db2 = db1\<lparr>ob_swaps := update_rows ?P ?f (ob_swaps db1)\<rparr>"
    using assms(5) by (auto simp: update_swap_initiate_def update_swap_def Let_def split: sum.splits if_splits)
  then have joined2: "joined db2 = map (\<lambda>row. row
      \<lparr>vo_source_swap := (if ?P (vo_source_swap row) then ?f (vo_source_swap row) else vo_source_swap row),
       vo_destination_swap := (if ?P (vo_destination_swap row) then ?f (vo_destination_swap row) else vo_destination_swap row)\<rparr>) (joined db1)"
    using joined_update_swaps[OF ok1, of ?f ?P] by (simp add: swap_terms_def)
  have fresh: "sw_swap_id (vo_source_swap row) \<noteq> sw_swap_id (vo_source_swap ord) \<and> sw_swap_id (vo_destination_swap row) \<noteq> sw_swap_id (vo_source_swap ord)"
    if "row \<in> set (joined db)" for row
  proof -
    from that have "vo_source_swap row \<in> set (ob_swaps db)" "vo_destination_swap row \<in> set (ob_swaps db)"
      by (auto simp: joined_def)
    with rows assms(2) show ?thesis unfolding keyed_def by (metis stored_ids(1))
  qed
  have diff: "sw_swap_id (vo_destination_swap ord) \<noteq> sw_swap_id (vo_source_swap ord)"
    using rows assms(2) unfolding keyed_def by (metis stored_ids(1))
  have block: "sw_initiate_block_number (stored_swap (vo_destination_swap ord)) = None"
    using assms(4) by (simp add: stored_swap_def Let_def)
  have old: "map (\<lambda>row. row
      \<lparr>vo_source_swap := (if ?P (vo_source_swap row) then ?f (vo_source_swap row) else vo_source_swap row),
       vo_destination_swap := (if ?P (vo_destination_swap row) then ?f (vo_destination_swap row) else vo_destination_swap row)\<rparr>) (joined db) = joined db"
    using fresh by (intro map_idI) simp
  have "joined db2 = joined db @ [(stored_order ord)\<lparr>vo_source_swap := ?f (stored_swap (vo_source_swap ord))\<rparr>]"
    unfolding joined2 joined1 map_append old using diff by (simp add: stored_order_def)
  moreover have "\<not> is_committed now a c t (stored_order ord)"
      "\<not> is_committed now a c t ((stored_order ord)\<lparr>vo_source_swap := ?f (stored_swap (vo_source_swap ord))\<rparr>)" for now a c t
    using block by (simp_all add: is_committed_def stored_order_def block_is_zero_def)
  ultimately show ?thesis using joined1 by (simp add: get_solver_committed_funds_def)
qed

section \<open>Pages\<close>

lemma sint_of_nat_small: "m < 2 ^ 63 \<Longrightarrow> sint (of_nat m :: i64) = int m"
  by (simp add: signed_of_nat signed_take_bit_int_eq_self)

text \<open>The orders that the filters select, from the newest on, and as one statement sorts them.\<close>

definition selected :: "timestamp \<Rightarrow> order_filters \<Rightarrow> orderbook_db \<Rightarrow> verbose_order list" where
  "selected now f db = filter (\<lambda>row. base_filter f row
     \<and> opt_filter (\<lambda>sts row. list_ex (\<lambda>st. status_clause now st row) sts) (of_status f) row) (joined db)"

definition listing :: "timestamp \<Rightarrow> order_filters \<Rightarrow> orderbook_db \<Rightarrow> verbose_order list" where
  "listing now f db = sort_key (\<lambda>row. - vo_created_at row) (selected now f db)"

definition scanned :: "db_view \<Rightarrow> order_filters \<Rightarrow> orderbook_db \<Rightarrow> verbose_order list" where
  "scanned v f db = sort_key (\<lambda>row. - vo_created_at row) (dv_scan v (selected (dv_now v) f db))"

lemma scanned_listing:
  assumes "\<And>rows. mset (dv_scan v rows) = mset rows" "distinct (map vo_created_at (selected (dv_now v) f db))"
  shows "scanned v f db = listing (dv_now v) f db"
proof -
  have "set (dv_scan v (selected (dv_now v) f db)) = set (selected (dv_now v) f db)"
    using assms(1) by (metis set_mset_mset)
  with assms(2) have "inj_on (\<lambda>row. - vo_created_at row) (set (dv_scan v (selected (dv_now v) f db)))"
    by (auto simp: distinct_map inj_on_def)
  then show ?thesis unfolding scanned_def listing_def
    by (intro sort_key_inj_key_eq) (simp_all add: assms(1))
qed

lemma length_listing [simp]: "length (listing now f db) = length (selected now f db)"
  by (simp add: listing_def)

definition nth_page :: "order_filters \<Rightarrow> nat \<Rightarrow> nat \<Rightarrow> order_filters" where
  "nth_page f n p = f\<lparr>of_page := of_nat (Suc p), of_per_page := of_nat n\<rparr>"

lemma base_filter_nth_page [simp]: "base_filter (nth_page f n p) = base_filter f" "of_status (nth_page f n p) = of_status f"
  by (auto simp: nth_page_def base_filter_def fun_eq_iff split: option.splits)

lemma signed_div_nat:
  assumes "a < 2 ^ 63" "0 < b" "b < 2 ^ 63"
  shows "signed_div (of_nat a) (of_nat b) = Some (of_nat (a div b))"
proof -
  have "sint (of_nat b :: i64) = int b" "sint (of_nat a :: i64) = int a" using assms by (simp_all add: sint_of_nat_small)
  moreover from this assms(2) have "(of_nat b :: i64) \<noteq> 0" by auto
  moreover have "(of_nat b :: i64) \<noteq> - 1"
  proof
    assume "(of_nat b :: i64) = - 1"
    then have "sint (of_nat b :: i64) = - 1" by simp
    with calculation(1) show False by simp
  qed
  ultimately show ?thesis by (simp add: signed_div_def zdiv_int[symmetric])
qed

lemma get_page:
  assumes "0 < n" "Suc p * n < 2 ^ 63" "length (selected (dv_now v) f db) + n < 2 ^ 63"
    and "\<not> dv_fails v QOrders" "\<not> dv_fails v QCount" "of_status f \<noteq> Some []"
  shows "get_all_matched_orders v (nth_page f n p) db = Some (Inr
    \<lparr>pg_data = take n (drop (p * n) (scanned v f db)), pg_page = of_nat (Suc p),
     pg_total_pages = of_nat ((length (selected (dv_now v) f db) + n - 1) div n),
     pg_total_items = of_nat (length (selected (dv_now v) f db)), pg_per_page = of_nat n\<rparr>)"
proof -
  let ?total = "length (selected (dv_now v) f db)"
  have n: "n < 2 ^ 63" using assms(1,2) by simp
  have "filter_offset (nth_page f n p) = of_nat (p * n)" by (simp add: filter_offset_def nth_page_def)
  moreover have "p * n < 2 ^ 63" using assms(2) by simp
  ultimately have offset: "sint (filter_offset (nth_page f n p)) = int (p * n)" by (simp only: sint_of_nat_small)
  have per_page: "sint (of_per_page (nth_page f n p)) = int n" using n by (simp add: nth_page_def sint_of_nat_small)
  have page: "page_of v (nth_page f n p) rows = Inr (take n (drop (p * n) (sort_key (\<lambda>row. - vo_created_at row) (dv_scan v rows))))" for rows
    using offset per_page by (simp add: page_of_def word_sless_alt del: of_nat_mult)
  have "(of_nat ?total :: i64) + of_nat n - 1 = of_nat (?total + n - 1)" using assms(1) by (simp add: of_nat_diff)
  moreover have "signed_div (of_nat (?total + n - 1)) (of_nat n) = Some (of_nat ((?total + n - 1) div n))"
    using assms(1,3) n by (intro signed_div_nat) auto
  ultimately have "paginated_new data (of_nat (Suc p)) (of_nat ?total) (of_nat n) = Some
      \<lparr>pg_data = data, pg_page = of_nat (Suc p), pg_total_pages = of_nat ((?total + n - 1) div n),
       pg_total_items = of_nat ?total, pg_per_page = of_nat n\<rparr>" for data :: "verbose_order list"
    by (simp only: paginated_new_def option.map)
  moreover have "of_page (nth_page f n p) = of_nat (Suc p)" "of_per_page (nth_page f n p) = of_nat n"
    by (simp_all add: nth_page_def)
  ultimately show ?thesis
    using assms(4-6) by (simp add: get_all_matched_orders_def Let_def run_statement_def page selected_def scanned_def del: of_nat_Suc)
qed

lemma concat_pages: "concat (map (\<lambda>p. take n (drop (p * n) xs)) [0..<k]) = take (k * n) xs"
proof (induction k)
  case (Suc k)
  have "take (k * n) xs @ take n (drop (k * n) xs) = take (k * n + n) xs" by (simp add: take_add)
  with Suc show ?case by (simp add: add.commute)
qed simp

text \<open>C40: Turning the pages lists every order once when the creation times are distinct. For any filters
  and any positive page size, when no two selected orders have the same creation time, then, in whatever order
  the database comes upon the rows from page to page, each of the first pages is answered, they are
  the consecutive parts of one listing of the selected orders from the newest on, and together
  they are that listing up to their number times their size; the reported number of pages is just
  enough to hold the listing. The pages are asked for at the same time on the same tables. The
  creation time is the only key of the sort: see \<open>ties_repeat\<close> below for orders of the same time.\<close>

theorem listing_pages:
  assumes "0 < n" "Suc k * n < 2 ^ 63" "length (selected now f db) + n < 2 ^ 63"
    and "distinct (map vo_created_at (selected now f db))"
    and "\<And>p. p < k \<Longrightarrow> dv_now (vs p) = now \<and> \<not> dv_fails (vs p) QOrders \<and> \<not> dv_fails (vs p) QCount"
    and "\<And>p rows. p < k \<Longrightarrow> mset (dv_scan (vs p) rows) = mset rows"
    and "of_status f \<noteq> Some []"
  shows "\<exists>pages. (\<forall>p < k. get_all_matched_orders (vs p) (nth_page f n p) db = Some (Inr (pages p)))
    \<and> concat (map (\<lambda>p. pg_data (pages p)) [0..<k]) = take (k * n) (listing now f db)
    \<and> (\<forall>p < k. unat (pg_total_pages (pages p)) * n \<ge> length (selected now f db)
          \<and> (unat (pg_total_pages (pages p)) - 1) * n < max 1 (length (selected now f db)))
    \<and> mset (listing now f db) = mset (selected now f db)"
proof -
  let ?total = "length (selected now f db)"
  let ?pages = "\<lambda>p. \<lparr>pg_data = take n (drop (p * n) (listing now f db)), pg_page = of_nat (Suc p),
     pg_total_pages = of_nat ((?total + n - 1) div n), pg_total_items = of_nat ?total, pg_per_page = of_nat n\<rparr>"
  have "get_all_matched_orders (vs p) (nth_page f n p) db = Some (Inr (?pages p))" if "p < k" for p
  proof -
    have now: "dv_now (vs p) = now" using assms(5) that by blast
    have "Suc p * n \<le> Suc k * n" using that by (intro mult_le_mono1) simp
    then have "Suc p * n < 2 ^ 63" using assms(2) by (rule le_less_trans)
    from get_page[OF assms(1) this, of "vs p" f db] assms(3,5,7) that
    have "get_all_matched_orders (vs p) (nth_page f n p) db
        = Some (Inr ((?pages p)\<lparr>pg_data := take n (drop (p * n) (scanned (vs p) f db))\<rparr>))"
      by (simp add: now)
    moreover have "scanned (vs p) f db = listing now f db"
      using scanned_listing[of "vs p" f db] assms(4,6) that by (simp add: now)
    ultimately show ?thesis by simp
  qed
  moreover have "concat (map (\<lambda>p. pg_data (?pages p)) [0..<k]) = take (k * n) (listing now f db)"
    by (simp add: concat_pages)
  moreover have "unat (of_nat ((?total + n - 1) div n) :: i64) = (?total + n - 1) div n"
  proof -
    have "(?total + n - 1) div n \<le> ?total + n - 1" by (rule div_le_dividend)
    also have "?total + n - 1 \<le> ?total + n" by simp
    also note assms(3)
    also have "(2 :: nat) ^ 63 < 2 ^ 64" by simp
    finally have "(?total + n - 1) div n < 2 ^ 64" .
    then show ?thesis by (simp add: unsigned_of_nat take_bit_nat_eq_self)
  qed
  moreover have "?total \<le> (?total + n - 1) div n * n \<and> ((?total + n - 1) div n - 1) * n < max 1 ?total"
  proof -
    define q where "q = (?total + n - 1) div n"
    have "q * n + (?total + n - 1) mod n = ?total + n - 1" by (simp add: q_def)
    moreover have "(?total + n - 1) mod n \<le> n - 1" using assms(1) by (simp add: less_Suc_eq_le[symmetric])
    ultimately have "?total \<le> q * n" "q * n \<le> ?total + n - 1" using assms(1) by linarith+
    moreover have "(q - 1) * n = q * n - n" by (simp add: diff_mult_distrib)
    ultimately show ?thesis using assms(1) unfolding q_def[symmetric] by linarith
  qed
  moreover have "mset (listing now f db) = mset (selected now f db)"
    by (simp add: listing_def)
  ultimately show ?thesis by (intro exI[of _ ?pages]) simp
qed

text \<open>Two requests that the listing does not survive. A page size of 0, which the limits allow,
  divides by zero, and a status parameter without a status (as in \<open>status=\<close>) is read as the
  empty set, for which the query is malformed: the request fails in the database, whatever it holds.\<close>

theorem listing_edge_requests:
  assumes "\<not> dv_fails v QOrders" "\<not> dv_fails v QCount" "of_status f \<noteq> Some []"
  shows "get_all_matched_orders v (f\<lparr>of_per_page := 0\<rparr>) db = None
    \<and> deserialize_status (Some '''') = Inr (Some [])
    \<and> get_all_matched_orders v (f\<lparr>of_status := Some []\<rparr>) db = Some (Inl (DatabaseError (Format ''{sqlx error}'' [])))"
proof -
  have "page_of v (f\<lparr>of_per_page := 0\<rparr>) rows = Inr []" for rows by (simp add: page_of_def filter_offset_def)
  then have "get_all_matched_orders v (f\<lparr>of_per_page := 0\<rparr>) db = None"
    using assms by (simp add: get_all_matched_orders_def Let_def run_statement_def paginated_new_def signed_div_def)
  moreover have "deserialize_status (Some '''') = Inr (Some [])" by code_simp
  ultimately show ?thesis
    using assms(1) by (simp add: get_all_matched_orders_def Let_def run_statement_def)
qed

section \<open>Examples\<close>

definition key_conflicts :: conflicts where
  "key_conflicts =
    \<lparr>cn_swap = (\<lambda>s t. sw_swap_id s = sw_swap_id t), cn_create = (\<lambda>c d. cr_create_id c = cr_create_id d),
     cn_match = (\<lambda>m n. mr_create_order_id m = mr_create_order_id n)\<rparr>"

definition empty_db :: orderbook_db where
  "empty_db = \<lparr>ob_swaps = [], ob_creates = [], ob_matches = [], ob_claims = []\<rparr>"

definition calm_view :: db_view where
  "calm_view = \<lparr>dv_now = 1000000000, dv_fails = (\<lambda>_. False), dv_scan = (\<lambda>rows. rows)\<rparr>"

definition sample_swap :: "string \<Rightarrow> string \<Rightarrow> swap_row" where
  "sample_swap sid chain =
    \<lparr>sw_created_at = 0, sw_swap_id = sid, sw_chain = chain, sw_asset = ''0xAA'', sw_initiator = ''0xBB'', sw_redeemer = ''0xCC'',
     sw_timelock = 12, sw_filled_amount = BigDecimal 0 0, sw_amount = BigDecimal 5 0, sw_secret_hash = ''h'', sw_secret = [],
     sw_initiate_tx_hash = [], sw_redeem_tx_hash = [], sw_refund_tx_hash = [], sw_initiate_block_number = None,
     sw_redeem_block_number = None, sw_refund_block_number = None, sw_required_confirmations = 1, sw_current_confirmations = 0,
     sw_initiate_timestamp = None, sw_redeem_timestamp = None, sw_refund_timestamp = None,
     sr_updated_at = 0, sr_deleted_at = None, sr_htlc_address = Some ''0xAA'', sr_token_address = None\<rparr>"

definition sample_data :: order_data where
  "sample_data =
    \<lparr>ad_strategy_id = ''s'', ad_bitcoin_optional_recipient = None, ad_input_token_price = 1, ad_output_token_price = 1, ad_deadline = 100,
     ad_instant_refund_tx_bytes = None, ad_is_blacklisted = False, ad_source_delegator = None, ad_sig = [], ad_redeem_tx_bytes = None,
     ad_tx_hash = None, ad_integrator = None, ad_version = V1, ad_bitcoin = None\<rparr>"

definition sample_create :: create_row where
  "sample_create =
    \<lparr>cr_created_at = 0, cr_updated_at = 0, cr_deleted_at = None, cr_create_id = ''c'', cr_block_number = BigDecimal 0 0,
     cr_source_chain = ''base'', cr_destination_chain = ''bitcoin'', cr_source_asset = ''0xAA'', cr_destination_asset = ''primary'',
     cr_initiator_source_address = ''0xBB'', cr_initiator_destination_address = ''bc1'', cr_source_amount = BigDecimal 5 0,
     cr_destination_amount = BigDecimal 5 0, cr_fee = BigDecimal 1 0, cr_nonce = BigDecimal 7 0, cr_min_destination_confirmations = 0,
     cr_timelock = 12, cr_secret_hash = ''h'', cr_user_id = None, cr_affiliate_fees = Some [], cr_additional_data = sample_data\<rparr>"

definition sample_order :: verbose_order where
  "sample_order =
    \<lparr>vo_created_at = 0, vo_updated_at = 0, vo_deleted_at = None, vo_source_swap = sample_swap ''s1'' ''base'',
     vo_destination_swap = sample_swap ''s2'' ''bitcoin'', vo_create_order = sample_create\<rparr>"

lemma keyed_key_conflicts: "keyed key_conflicts"
  by (simp add: keyed_def key_conflicts_def)

lemma db_ok_empty: "db_ok empty_db"
  by (simp add: db_ok_def empty_db_def)

definition sample_db :: orderbook_db where
  "sample_db = snd (create_matched_order calm_view key_conflicts sample_order empty_db)"

lemma create_sample: "create_matched_order calm_view key_conflicts sample_order empty_db = (Inr (), sample_db)"
proof -
  have "fst (create_matched_order calm_view key_conflicts sample_order empty_db) = Inr ()" by code_simp
  then show ?thesis by (metis prod.collapse sample_db_def)
qed

lemma calm_fails [simp]: "\<not> dv_fails calm_view st"
  by (simp add: calm_view_def)

lemma created_order_is_stored_witness:
  "\<exists>row. get_matched_order calm_view ''c'' sample_db = Inr (Some row)
    \<and> swap_kept (sample_swap ''s1'' ''base'') (vo_source_swap row) \<and> swap_kept (sample_swap ''s2'' ''bitcoin'') (vo_destination_swap row)
    \<and> joined sample_db = [row]"
proof -
  have "joined empty_db = []" by code_simp
  with created_order_is_stored[OF db_ok_empty keyed_key_conflicts create_sample calm_fails calm_fails]
  show ?thesis by (auto simp: sample_order_def sample_create_def Let_def)
qed

lemma orderbook_terms_never_change_witness: "db_ok sample_db"
  using orderbook_terms_never_change[OF r_into_rtranclp[where r = "ob_step key_conflicts", OF Create[OF create_sample]] keyed_key_conflicts db_ok_empty]
  by blast

text \<open>A second order of the same creation time, and a view that comes upon the rows the other way round.\<close>

definition twin_order :: verbose_order where
  "twin_order = sample_order
    \<lparr>vo_source_swap := sample_swap ''s3'' ''base'', vo_destination_swap := sample_swap ''s4'' ''bitcoin'',
     vo_create_order := sample_create\<lparr>cr_create_id := ''d''\<rparr>\<rparr>"

definition twin_db :: orderbook_db where
  "twin_db = snd (create_matched_order calm_view key_conflicts twin_order sample_db)"

definition other_view :: db_view where
  "other_view = calm_view\<lparr>dv_scan := rev\<rparr>"

lemma other_fails [simp]: "\<not> dv_fails other_view st" "dv_now other_view = dv_now calm_view"
  by (simp_all add: other_view_def)

lemma listing_pages_witness:
  "\<exists>pages. (\<forall>p < 3. get_all_matched_orders (if even p then calm_view else other_view) (nth_page default_filters 2 p) sample_db
        = Some (Inr (pages p)))
    \<and> concat (map (\<lambda>p. pg_data (pages p)) [0..<3]) = take (3 * 2) (listing (dv_now calm_view) default_filters sample_db)"
proof -
  let ?vs = "\<lambda>p :: nat. if even p then calm_view else other_view"
  have one: "length (selected (dv_now calm_view) default_filters sample_db) = 1" by code_simp
  then have small: "length (selected (dv_now calm_view) default_filters sample_db) + 2 < 2 ^ 63" by simp
  have once: "distinct (map vo_created_at (selected (dv_now calm_view) default_filters sample_db))"
    using one by (auto simp: length_Suc_conv)
  have views: "dv_now (?vs p) = dv_now calm_view \<and> \<not> dv_fails (?vs p) QOrders \<and> \<not> dv_fails (?vs p) QCount" for p
    by simp
  have scans: "mset (dv_scan (?vs p) rows) = mset rows" for p rows
    by (simp add: calm_view_def other_view_def)
  have "of_status default_filters \<noteq> Some []" by (simp add: default_filters_def)
  moreover have "(0 :: nat) < 2" "Suc 3 * 2 < (2 ^ 63 :: nat)" by simp_all
  ultimately show ?thesis
    using listing_pages[where vs = ?vs and k = 3, OF _ _ small once views scans] by blast
qed

text \<open>Orders of the same creation time can be listed twice or not at all: the first page of one order
  and the second one show the same order, when the database comes upon the two rows in another order.\<close>

lemma ties_repeat:
  "\<exists>x y pages. joined twin_db = [x, y] \<and> x \<noteq> y
    \<and> get_all_matched_orders calm_view (nth_page default_filters 1 0) twin_db = Some (Inr (pages 0))
    \<and> get_all_matched_orders other_view (nth_page default_filters 1 1) twin_db = Some (Inr (pages (1 :: nat)))
    \<and> pg_data (pages 0) = [x] \<and> pg_data (pages 1) = [x]"
proof -
  have two: "length (joined twin_db) = 2" by code_simp
  then obtain x y where rows: "joined twin_db = [x, y]" by (auto simp: length_Suc_conv numeral_2_eq_2)
  have "selected (dv_now calm_view) default_filters twin_db = joined twin_db"
    by (simp add: selected_def default_filters_def base_filter_def opt_filter_def)
  moreover have "map vo_created_at (joined twin_db) = [0, 0]" by code_simp
  moreover have "map (\<lambda>r. cr_create_id (vo_create_order r)) (joined twin_db) = [''c'', ''d'']" by code_simp
  ultimately show ?thesis
    using get_page[of 1 0 calm_view default_filters twin_db] get_page[of 1 1 other_view default_filters twin_db]
    by (intro exI[of _ x] exI[of _ y] exI[of _ "\<lambda>p. if p = 0 then _ else _"])
      (auto simp: rows scanned_def default_filters_def calm_view_def other_view_def)
qed

lemma listing_edge_requests_witness: "get_all_matched_orders calm_view (default_filters\<lparr>of_per_page := 0\<rparr>) sample_db = None"
  using listing_edge_requests[of calm_view default_filters sample_db] by (simp add: default_filters_def)

end
