(* ===== verification/QuoteRegistry.thy ===== *)
theory QuoteRegistry
  imports OrderbookWrites
begin

text \<open>
  What the orderbook server knows when it quotes (orderbook/src/metadata, registry, config): the
  assets of \<open>chain.json\<close> with their indexes, and the strategies built from the solver's policy. Hash
  maps are association lists, whose order stands for the order of iteration. Icons, links and the
  other fields that no decision reads are left out. Decimals read from text or from an \<open>f64\<close> are
  parameters (\<open>quote_crate\<close>).
\<close>

record quote_crate = decimal_crate +
  qc_parse :: "string \<Rightarrow> big_decimal option"
  qc_parse_f64 :: "rat \<Rightarrow> big_decimal option"

section \<open>Assets\<close>

record contract_info =
  ct_address :: string
  ct_schema :: "string option"

definition is_primary :: "contract_info \<Rightarrow> bool" where
  "is_primary c = (ct_address c = ''primary'' \<and> (ct_schema c = None \<or> ct_schema c = Some ''primary''))"

definition primary_contract :: contract_info where
  "primary_contract = \<lparr>ct_address = ''primary'', ct_schema = Some ''primary''\<rparr>"

record raw_token_ids =
  rt_coingecko :: "string option"
  rt_aggregate :: "string option"
  rt_cmc :: "string option"

record raw_asset =
  ra_id :: string
  ra_name :: string
  ra_chain :: string
  ra_htlc :: "contract_info option"
  ra_token :: "contract_info option"
  ra_decimals :: u8
  ra_min_amount :: string
  ra_max_amount :: string
  ra_chain_type :: string
  ra_version :: "htlc_version option"
  ra_min_timelock :: u64
  ra_token_ids :: "raw_token_ids option"
  ra_solver :: string

record raw_chain =
  rc_chain :: string
  rc_assets :: "raw_asset list"

datatype chain_type = CtBitcoin | CtSolana | CtStarknet | CtSui | CtEvm

record asset =
  as_id :: asset_id
  as_chain :: string
  as_htlc :: contract_info
  as_token :: contract_info
  as_decimals :: u8
  as_min_amount :: string
  as_max_amount :: string
  as_chain_type :: chain_type
  as_version :: htlc_version
  as_min_timelock :: u64
  as_token_id :: string
  as_solver :: string

record asset_metadata =
  am_asset :: asset
  am_name :: string
  am_coingecko_id :: "string option"
  am_aggregate_symbol :: "string option"
  am_cmc_id :: "string option"

record metadata_index =
  mi_chains :: "(string \<times> asset list) list"
  mi_raw_chains :: "raw_chain list"
  mi_assets :: "asset_metadata list"
  mi_by_id :: "(string \<times> asset_metadata) list"
  mi_by_htlc :: "((string \<times> string) \<times> asset_metadata) list"

definition or_else :: "'a option \<Rightarrow> 'a option \<Rightarrow> 'a option" where
  "or_else x y = (case x of None \<Rightarrow> y | Some _ \<Rightarrow> x)"

definition unwrap_or :: "'a option \<Rightarrow> 'a \<Rightarrow> 'a" where
  "unwrap_or x d = (case x of None \<Rightarrow> d | Some y \<Rightarrow> y)"

definition chain_type_of :: "string \<Rightarrow> chain_type" where
  "chain_type_of s =
    (let t = lower_text s in
     if t = ''bitcoin'' then CtBitcoin else if t = ''solana'' then CtSolana else if t = ''starknet'' then CtStarknet
     else if t = ''sui'' then CtSui else CtEvm)"

definition convert_raw_asset :: "raw_asset \<Rightarrow> (message, asset_metadata) result" where
  "convert_raw_asset raw =
    try_bind (asset_id_from_str (ra_id raw)) (\<lambda>aid.
      let ids = ra_token_ids raw;
          coingecko = Option.bind ids rt_coingecko; aggregate = Option.bind ids rt_aggregate in
      Inr \<lparr>am_asset =
          \<lparr>as_id = aid, as_chain = ra_chain raw, as_htlc = unwrap_or (ra_htlc raw) primary_contract,
           as_token = unwrap_or (ra_token raw) primary_contract, as_decimals = ra_decimals raw,
           as_min_amount = ra_min_amount raw, as_max_amount = ra_max_amount raw, as_chain_type = chain_type_of (ra_chain_type raw),
           as_version = unwrap_or (ra_version raw) V1, as_min_timelock = ra_min_timelock raw,
           as_token_id = unwrap_or (or_else coingecko aggregate) (ra_id raw), as_solver = ra_solver raw\<rparr>,
        am_name = ra_name raw, am_coingecko_id = coingecko, am_aggregate_symbol = aggregate,
        am_cmc_id = Option.bind ids rt_cmc\<rparr>)"

definition normalize_htlc_key :: "asset \<Rightarrow> string \<times> string" where
  "normalize_htlc_key a =
    (as_chain a, lower_text
      (if contains ''solana'' (as_chain a) \<and> ct_address (as_token a) \<noteq> ''primary''
       then ct_address (as_htlc a) @ ''_'' @ ct_address (as_token a) else ct_address (as_htlc a)))"

definition add_asset :: "metadata_index \<times> asset list \<Rightarrow> raw_asset \<Rightarrow> (message, metadata_index \<times> asset list) result" where
  "add_asset acc raw =
    (let (mi, chain_assets) = acc in
     try_bind (convert_raw_asset raw) (\<lambda>m.
       Inr (mi\<lparr>mi_by_id := AList.update (lower_text (show_asset (as_id (am_asset m)))) m (mi_by_id mi),
              mi_by_htlc := AList.update (normalize_htlc_key (am_asset m)) m (mi_by_htlc mi),
              mi_assets := mi_assets mi @ [m]\<rparr>, chain_assets @ [am_asset m])))"

definition add_chain :: "metadata_index \<Rightarrow> raw_chain \<Rightarrow> (message, metadata_index) result" where
  "add_chain mi raw =
    try_bind (try_fold add_asset (mi, []) (rc_assets raw)) (\<lambda>(mi, chain_assets).
      Inr (mi\<lparr>mi_chains := mi_chains mi @ [(rc_chain raw, chain_assets)]\<rparr>))"

definition load_metadata :: "raw_chain list \<Rightarrow> (message, metadata_index) result" where
  "load_metadata raw_chains =
    try_fold add_chain \<lparr>mi_chains = [], mi_raw_chains = raw_chains, mi_assets = [], mi_by_id = [], mi_by_htlc = []\<rparr> raw_chains"

definition get_asset_by_id :: "metadata_index \<Rightarrow> string \<Rightarrow> asset_metadata option" where
  "get_asset_by_id mi i = map_of (mi_by_id mi) (lower_text i)"

definition get_asset_by_chain_and_htlc :: "metadata_index \<Rightarrow> string \<Rightarrow> string \<Rightarrow> asset_metadata option" where
  "get_asset_by_chain_and_htlc mi chain htlc = map_of (mi_by_htlc mi) (chain, lower_text htlc)"

section \<open>Strategies\<close>

text \<open>\<open>StrategyConfig\<close> and \<open>Strategy\<close> have the same fields, and so have their assets.\<close>

record strategy_asset =
  sa_asset :: string
  sa_htlc_address :: string
  sa_token_address :: string
  sa_token_id :: string
  sa_display_symbol :: "string option"
  sa_decimals :: u8
  sa_version :: htlc_version

record strategy =
  st_id :: string
  st_source_chain_address :: string
  st_dest_chain_address :: string
  st_source_chain :: string
  st_dest_chain :: string
  st_source_asset :: strategy_asset
  st_dest_asset :: strategy_asset
  st_makers :: "string list"
  st_min_amount :: big_decimal
  st_max_amount :: big_decimal
  st_min_source_timelock :: u64
  st_destination_timelock :: u64
  st_min_source_confirmations :: u64
  st_fee :: u64
  st_fixed_fee :: big_decimal
  st_max_slippage :: u64

record solver_chain =
  sc_address :: string
  sc_solver_account :: "string option"
  sc_supported_assets :: "string list"

definition liquidity_account :: "solver_chain \<Rightarrow> string" where
  "liquidity_account c = sc_address c"

definition order_identity :: "solver_chain \<Rightarrow> string" where
  "order_identity c = unwrap_or (sc_solver_account c) (sc_address c)"

record policy_settings =
  ps_solver_id :: string
  ps_chains :: "(string \<times> solver_chain) list"
  ps_policy :: policy_config

definition default_source_amount :: "quote_crate \<Rightarrow> asset \<Rightarrow> (message, source_amount) result" where
  "default_source_amount qc a =
    try_bind (ok_or (qc_parse qc (as_min_amount a)) (Format ''Invalid min amount: {}'' [])) (\<lambda>lo.
    try_bind (ok_or (qc_parse qc (as_max_amount a)) (Format ''Invalid max amount: {}'' [])) (\<lambda>hi.
      Inr \<lparr>sa_min = lo, sa_max = hi\<rparr>))"

definition get_source_amount :: "quote_crate \<Rightarrow> solver_policy \<Rightarrow> asset \<Rightarrow> asset \<Rightarrow> (message, source_amount) result" where
  "get_source_amount qc sp src dst =
    (case policy_find_map (as_id src) (as_id dst) ov_source_amount (sp_overrides sp) of
       Some a \<Rightarrow> Inr a | None \<Rightarrow> default_source_amount qc src)"

definition strategy_asset_of :: "asset_metadata \<Rightarrow> strategy_asset" where
  "strategy_asset_of m =
    \<lparr>sa_asset = snd (normalize_htlc_key (am_asset m)), sa_htlc_address = ct_address (as_htlc (am_asset m)),
     sa_token_address = ct_address (as_token (am_asset m)), sa_token_id = as_token_id (am_asset m),
     sa_display_symbol = am_aggregate_symbol m, sa_decimals = as_decimals (am_asset m), sa_version = as_version (am_asset m)\<rparr>"

definition show_policy_error :: "policy_error \<Rightarrow> message" where
  "show_policy_error e =
    (case e of
       InvalidAssetId s m \<Rightarrow> Format ''Invalid asset id: {}, {}'' [ArgStr s, ArgMessage m]
     | InvalidAssetPair s m \<Rightarrow> Format ''Invalid asset pair: {}, {}'' [ArgStr s, ArgMessage m])"

text \<open>No strategy for a pair that the policy refuses.\<close>

definition build_strategy ::
    "quote_crate \<Rightarrow> string \<Rightarrow> solver_policy \<Rightarrow> string \<times> solver_chain \<Rightarrow> string \<times> solver_chain \<Rightarrow> asset_metadata \<Rightarrow> asset_metadata
      \<Rightarrow> (message, strategy list) result" where
  "build_strategy qc solver_id sp src_chain dst_chain s d =
    (let sid = as_id (am_asset s); did = as_id (am_asset d) in
     case validate_asset_pair sp sid did of
       Inl _ \<Rightarrow> Inr []
     | Inr _ \<Rightarrow>
         try_bind (get_source_amount qc sp (am_asset s) (am_asset d)) (\<lambda>amount.
           let f = get_fee sp sid did in
           try_bind (ok_or (qc_parse_f64 qc (fee_fixed f)) (Format ''{decimal error}'' [])) (\<lambda>fixed.
             Inr [\<lparr>st_id = lower_text (solver_id @ '':'' @ show_asset sid @ ''->'' @ show_asset did),
                  st_source_chain_address = order_identity (snd src_chain), st_dest_chain_address = order_identity (snd dst_chain),
                  st_source_chain = fst src_chain, st_dest_chain = fst dst_chain,
                  st_source_asset = strategy_asset_of s, st_dest_asset = strategy_asset_of d, st_makers = [solver_id],
                  st_min_amount = sa_min amount, st_max_amount = sa_max amount,
                  st_min_source_timelock = as_min_timelock (am_asset s), st_destination_timelock = as_min_timelock (am_asset d),
                  st_min_source_confirmations = get_confirmation_target sp sid did, st_fee = ucast (fee_percent_bips f),
                  st_fixed_fee = fixed, st_max_slippage = get_max_slippage sp sid did\<rparr>])))"

text \<open>A loop that appends what each round gives, and stops at an error.\<close>

definition try_concat :: "('a \<Rightarrow> ('e, 'b list) result) \<Rightarrow> 'a list \<Rightarrow> ('e, 'b list) result" where
  "try_concat f xs = try_bind (try_map f xs) (\<lambda>ys. Inr (concat ys))"

lemma try_concat_mem: "try_concat f xs = Inr zs \<Longrightarrow> z \<in> set zs \<Longrightarrow> \<exists>x \<in> set xs. \<exists>ys. f x = Inr ys \<and> z \<in> set ys"
  by (auto simp: try_concat_def try_bind_eq_Inr try_map_eq_Inr list_all2_conv_all_nth in_set_conv_nth[of _ "_ :: 'b list list"]) (metis nth_mem)

definition strategies_between ::
    "quote_crate \<Rightarrow> string \<Rightarrow> solver_policy \<Rightarrow> (string \<times> solver_chain) \<times> asset_metadata list \<Rightarrow> (string \<times> solver_chain) \<times> asset_metadata list
      \<Rightarrow> (message, strategy list) result" where
  "strategies_between qc solver_id sp src dst =
    (if lower_text (fst (fst src)) = lower_text (fst (fst dst)) then Inr []
     else try_concat (\<lambda>s. try_concat (\<lambda>d. build_strategy qc solver_id sp (fst src) (fst dst) s d) (snd dst)) (snd src))"

definition chain_assets :: "metadata_index \<Rightarrow> policy_settings \<Rightarrow> ((string \<times> solver_chain) \<times> asset_metadata list) list" where
  "chain_assets mi ps = filter (\<lambda>(_, assets). assets \<noteq> [])
    (map (\<lambda>c. (c, List.map_filter (get_asset_by_id mi) (sc_supported_assets (snd c)))) (ps_chains ps))"

definition build_strategy_configs :: "quote_crate \<Rightarrow> policy_settings \<Rightarrow> metadata_index \<Rightarrow> (message, strategy list) result" where
  "build_strategy_configs qc ps mi =
    (case solver_policy_new (ps_policy ps) (concat (map (\<lambda>(_, c). sc_supported_assets c) (ps_chains ps))) of
       Inl e \<Rightarrow> Inl (show_policy_error e)
     | Inr sp \<Rightarrow>
         try_concat (\<lambda>src. try_concat (strategies_between qc (ps_solver_id ps) sp src) (chain_assets mi ps)) (chain_assets mi ps))"

section \<open>The registry\<close>

definition order_pair :: "strategy \<Rightarrow> string" where
  "order_pair st =
    lower_text (st_source_chain st @ '':'' @ sa_asset (st_source_asset st) @ ''::'' @ st_dest_chain st @ '':'' @ sa_asset (st_dest_asset st))"

record strategy_registry =
  sg_by_pair :: "(string \<times> (string \<times> strategy) list) list"
  sg_by_id :: "(string \<times> strategy) list"

definition convert_strategy_asset :: "metadata_index \<Rightarrow> string \<Rightarrow> strategy_asset \<Rightarrow> strategy_asset" where
  "convert_strategy_asset mi chain a =
    a\<lparr>sa_display_symbol := (case sa_display_symbol a of
        None \<Rightarrow> Option.bind (get_asset_by_chain_and_htlc mi chain (sa_asset a)) am_aggregate_symbol
      | Some d \<Rightarrow> Some d)\<rparr>"

definition convert_strategy :: "metadata_index \<Rightarrow> strategy \<Rightarrow> strategy" where
  "convert_strategy mi c =
    c\<lparr>st_source_asset := convert_strategy_asset mi (st_source_chain c) (st_source_asset c),
      st_dest_asset := convert_strategy_asset mi (st_dest_chain c) (st_dest_asset c)\<rparr>"

definition register_strategy :: "metadata_index \<Rightarrow> strategy_registry \<Rightarrow> strategy \<Rightarrow> strategy_registry" where
  "register_strategy mi sg config =
    (let st = convert_strategy mi config; key = lower_text (st_id st); pair = order_pair st in
     sg\<lparr>sg_by_pair := AList.update pair (AList.update key st (unwrap_or (map_of (sg_by_pair sg) pair) [])) (sg_by_pair sg),
        sg_by_id := AList.update key st (sg_by_id sg)\<rparr>)"

definition registry_from_configs :: "metadata_index \<Rightarrow> strategy list \<Rightarrow> strategy_registry" where
  "registry_from_configs mi configs = foldl (register_strategy mi) \<lparr>sg_by_pair = [], sg_by_id = []\<rparr> configs"

definition strategies_for_pair :: "strategy_registry \<Rightarrow> string \<Rightarrow> (string \<times> strategy) list option" where
  "strategies_for_pair sg pair = map_of (sg_by_pair sg) (lower_text pair)"

definition find_strategy :: "strategy_registry \<Rightarrow> string \<Rightarrow> strategy option" where
  "find_strategy sg i = map_of (sg_by_id sg) (lower_text i)"

text \<open>\<open>/pairs\<close>: the keys are distinct, so the sorted list does not depend on their order.\<close>

definition derive_pairs :: "strategy_registry \<Rightarrow> (string \<times> string list) list" where
  "derive_pairs sg = sort_key fst (map (\<lambda>(pair, sts). (pair, map fst sts)) (sg_by_pair sg))"

end
