(* ===== verification/Quotes.thy ===== *)
theory Quotes
  imports QuoteRegistry
begin

text \<open>
  Quotes (orderbook/src/quote, liquidity/watcher.rs, server/handlers.rs, error.rs). A reply is \<open>None\<close>
  when the code panics. Integers of type \<open>u64\<close> wrap around, as in a release build. Prices of type \<open>f64\<close> are
  exact rationals (a price that is not a number has no decimal, which \<open>dc_from_f64\<close> covers);
  the market's answer and the balances on the chains are parameters.
\<close>

section \<open>Errors\<close>

datatype app_error =
    AppBadRequest message
  | AppNotFound message
  | AppConflict message
  | AppUpstream message
  | AppInternal message

definition bad_request :: "string \<Rightarrow> app_error" where
  "bad_request s = AppBadRequest (Format s [])"

definition http_status :: "app_error \<Rightarrow> nat" where
  "http_status e =
    (case e of AppBadRequest _ \<Rightarrow> 400 | AppNotFound _ \<Rightarrow> 404 | AppConflict _ \<Rightarrow> 409 | AppUpstream _ \<Rightarrow> 502 | AppInternal _ \<Rightarrow> 500)"

definition app_error_of_orderbook :: "orderbook_error \<Rightarrow> app_error" where
  "app_error_of_orderbook e =
    (case e of
       OrderAlreadyExists m \<Rightarrow> AppConflict (Format m [])
     | _ \<Rightarrow> AppInternal (Format ''{orderbook error}'' []))"

type_synonym 'a reply = "(app_error, 'a) result option"

definition reply_bind :: "'a reply \<Rightarrow> ('a \<Rightarrow> 'b reply) \<Rightarrow> 'b reply" where
  "reply_bind r f = (case r of None \<Rightarrow> None | Some (Inl e) \<Rightarrow> Some (Inl e) | Some (Inr x) \<Rightarrow> f x)"

lemma reply_bind_simps [simp]:
  "reply_bind None f = None" "reply_bind (Some (Inl e)) f = Some (Inl e)" "reply_bind (Some (Inr x)) f = f x"
  by (simp_all add: reply_bind_def)

lemma reply_bind_eq_Inr [try_simps]:
  "reply_bind r f = Some (Inr y) \<longleftrightarrow> (\<exists>x. r = Some (Inr x) \<and> f x = Some (Inr y))"
  by (auto simp: reply_bind_def split: option.splits sum.splits)

section \<open>Decimal arithmetic\<close>

text \<open>Division panics on zero.\<close>

definition checked_div :: "'a decimal_crate_scheme \<Rightarrow> rat \<Rightarrow> rat \<Rightarrow> rat reply" where
  "checked_div dc a b = (if b = 0 then None else Some (Inr (dc_div dc a b)))"

text \<open>\<open>with_scale\<close> cuts off digits, \<open>RoundingMode::Up\<close> rounds away from zero.\<close>

definition with_scale :: "nat \<Rightarrow> rat \<Rightarrow> rat" where
  "with_scale n x = of_int (truncate_int (x * 10 ^ n)) / 10 ^ n"

definition round_up :: "rat \<Rightarrow> int" where
  "round_up x = (if x < 0 then \<lfloor>x\<rfloor> else \<lceil>x\<rceil>)"

definition divide_by_decimals :: "'a decimal_crate_scheme \<Rightarrow> rat \<Rightarrow> u8 \<Rightarrow> rat reply" where
  "divide_by_decimals dc amount decimals = checked_div dc amount (of_nat (unat (u64_pow10 (unat decimals))))"

definition multiply_by_decimals :: "rat \<Rightarrow> u8 \<Rightarrow> rat" where
  "multiply_by_decimals amount decimals = amount * of_nat (unat (u64_pow10 (unat decimals)))"

section \<open>The matcher\<close>

record quote_asset_view =
  qa_asset :: string
  qa_amount :: big_decimal
  qa_display :: rat
  qa_value :: rat

definition validate_amount :: "rat \<Rightarrow> (app_error, unit) result" where
  "validate_amount a = ensure (\<not> a \<le> 0) (bad_request ''amount must be greater than 0'')"

definition validate_prices :: "rat \<Rightarrow> rat \<Rightarrow> (app_error, unit) result" where
  "validate_prices inp out = ensure (\<not> (inp \<le> 0 \<or> out \<le> 0)) (bad_request ''token prices must be greater than 0'')"

definition decimal_prices ::
    "'a decimal_crate_scheme \<Rightarrow> rat \<Rightarrow> rat \<Rightarrow> (app_error, rat \<times> rat) result" where
  "decimal_prices dc inp out =
    try_bind (ok_or (dc_from_f64 dc inp) (bad_request ''invalid input price'')) (\<lambda>ip.
    try_bind (ok_or (dc_from_f64 dc out) (bad_request ''invalid output price'')) (\<lambda>op. Inr (ip, op)))"

definition source_name :: "strategy \<Rightarrow> string" where
  "source_name st = st_source_chain st @ '':'' @ sa_asset (st_source_asset st)"

definition dest_name :: "strategy \<Rightarrow> string" where
  "dest_name st = st_dest_chain st @ '':'' @ sa_asset (st_dest_asset st)"

definition calculate_output_amount ::
    "'a decimal_crate_scheme \<Rightarrow> strategy \<Rightarrow> big_decimal \<Rightarrow> rat \<Rightarrow> rat \<Rightarrow> u64 \<Rightarrow> u64 \<Rightarrow> (quote_asset_view \<times> quote_asset_view) reply" where
  "calculate_output_amount dc st input input_price output_price affiliate_fee slippage =
    reply_bind (Some (validate_amount (bd_value input))) (\<lambda>_.
    reply_bind (Some (validate_prices input_price output_price)) (\<lambda>_.
    reply_bind (Some (ensure (\<not> (bd_value input < bd_value (st_min_amount st) \<or> bd_value input > bd_value (st_max_amount st)))
        (bad_request ''expected amount to be within {} and {}''))) (\<lambda>_.
    reply_bind (Some (decimal_prices dc input_price output_price)) (\<lambda>(ip, op).
    reply_bind (divide_by_decimals dc (bd_value input) (sa_decimals (st_source_asset st))) (\<lambda>normalized_input.
    let input_usd = normalized_input * ip in
    reply_bind (checked_div dc (of_nat (unat (st_fee st + affiliate_fee))) 10000) (\<lambda>fee_decimal.
    let fee_amount = input_usd * fee_decimal;
        net_input_usd = input_usd - fee_amount - bd_value (st_fixed_fee st) in
    reply_bind (checked_div dc net_input_usd op) (\<lambda>normalized_output.
    reply_bind (checked_div dc (of_nat (unat (10000 - slippage))) 10000) (\<lambda>slippage_multiplier.
    reply_bind (checked_div dc normalized_output slippage_multiplier) (\<lambda>normalized_output.
    let output_amount = multiply_by_decimals normalized_output (sa_decimals (st_dest_asset st));
        output_int = truncate_int output_amount in
    reply_bind (divide_by_decimals dc (of_int output_int) (sa_decimals (st_dest_asset st))) (\<lambda>output_display.
      Some (Inr
        (\<lparr>qa_asset = source_name st, qa_amount = input, qa_display = with_scale 8 normalized_input, qa_value = with_scale 4 input_usd\<rparr>,
         \<lparr>qa_asset = dest_name st, qa_amount = BigDecimal output_int 0, qa_display = with_scale 8 output_display,
          qa_value = with_scale 4 (normalized_output * op)\<rparr>))))))))))))"

definition calculate_input_amount ::
    "'a decimal_crate_scheme \<Rightarrow> strategy \<Rightarrow> big_decimal \<Rightarrow> rat \<Rightarrow> rat \<Rightarrow> u64 \<Rightarrow> u64 \<Rightarrow> (quote_asset_view \<times> quote_asset_view) reply" where
  "calculate_input_amount dc st output input_price output_price affiliate_fee slippage =
    reply_bind (Some (validate_amount (bd_value output))) (\<lambda>_.
    reply_bind (Some (validate_prices input_price output_price)) (\<lambda>_.
    reply_bind (Some (decimal_prices dc input_price output_price)) (\<lambda>(ip, op).
    reply_bind (divide_by_decimals dc (bd_value output) (sa_decimals (st_dest_asset st))) (\<lambda>normalized_output_with_slippage.
    let output_usd_with_slippage = normalized_output_with_slippage * op in
    reply_bind (checked_div dc (of_nat (unat (10000 - slippage))) 10000) (\<lambda>slippage_multiplier.
    let normalized_output = normalized_output_with_slippage * slippage_multiplier;
        output_usd = normalized_output * op in
    reply_bind (checked_div dc (output_usd + bd_value (st_fixed_fee st)) ip) (\<lambda>normalized_input.
    reply_bind (checked_div dc (of_nat (unat (10000 - (st_fee st + affiliate_fee)))) 10000) (\<lambda>fee_multiplier.
    reply_bind (checked_div dc normalized_input fee_multiplier) (\<lambda>adjusted_input.
    let input_amount = multiply_by_decimals adjusted_input (sa_decimals (st_source_asset st));
        input_int = round_up input_amount in
    reply_bind (Some (ensure (\<not> (of_int input_int > bd_value (st_max_amount st) \<or> of_int input_int < bd_value (st_min_amount st)))
        (bad_request ''output amount falls outside strategy range''))) (\<lambda>_.
    reply_bind (divide_by_decimals dc (of_int input_int) (sa_decimals (st_source_asset st))) (\<lambda>input_display.
      Some (Inr
        (\<lparr>qa_asset = source_name st, qa_amount = BigDecimal input_int 0, qa_display = with_scale 8 input_display,
          qa_value = with_scale 4 (adjusted_input * ip)\<rparr>,
         \<lparr>qa_asset = dest_name st, qa_amount = output, qa_display = with_scale 8 normalized_output_with_slippage,
          qa_value = with_scale 4 output_usd_with_slippage\<rparr>))))))))))))"

section \<open>Liquidity\<close>

text \<open>Balances travel as text and are read back; the readable form is left out.\<close>

record asset_liquidity =
  al_asset :: string
  al_balance :: rat
  al_virtual_balance :: rat

text \<open>The answers of the balance fetchers: by chain, account and token.\<close>

type_synonym fetcher = "string \<Rightarrow> string \<Rightarrow> string \<Rightarrow> rat option"

definition refresh_asset ::
    "db_view \<Rightarrow> fetcher \<Rightarrow> metadata_index \<Rightarrow> orderbook_db \<Rightarrow> string \<Rightarrow> solver_chain \<Rightarrow> string \<Rightarrow> asset_liquidity option" where
  "refresh_asset v fetch mi db chain config asset_id =
    (case get_asset_by_id mi asset_id of
       None \<Rightarrow> None
     | Some m \<Rightarrow>
         (case fetch chain (liquidity_account config) (ct_address (as_token (am_asset m))) of
            None \<Rightarrow> None
          | Some balance \<Rightarrow>
              let committed = (case get_solver_committed_funds v (order_identity config) chain (ct_address (as_htlc (am_asset m))) db of
                                 Inl _ \<Rightarrow> 0 | Inr x \<Rightarrow> x) in
              Some \<lparr>al_asset = show_asset (as_id (am_asset m)), al_balance = balance, al_virtual_balance = max (balance - committed) 0\<rparr>))"

definition refresh_liquidity ::
    "db_view \<Rightarrow> fetcher \<Rightarrow> metadata_index \<Rightarrow> orderbook_db \<Rightarrow> (string \<times> solver_chain) list \<Rightarrow> asset_liquidity list" where
  "refresh_liquidity v fetch mi db configs =
    concat (map (\<lambda>(chain, config). List.map_filter (refresh_asset v fetch mi db chain config) (sc_supported_assets config)) configs)"

definition has_destination_liquidity :: "metadata_index \<Rightarrow> asset_liquidity list \<Rightarrow> string \<Rightarrow> string \<Rightarrow> rat \<Rightarrow> bool" where
  "has_destination_liquidity mi liquidity chain asset amount =
    (case get_asset_by_chain_and_htlc mi chain asset of
       None \<Rightarrow> False
     | Some m \<Rightarrow>
         (case find (\<lambda>e. lower_text (al_asset e) = lower_text (show_asset (as_id (am_asset m)))) liquidity of
            None \<Rightarrow> False
          | Some e \<Rightarrow> al_virtual_balance e \<ge> amount))"

definition can_fulfill :: "metadata_index \<Rightarrow> asset_liquidity list \<Rightarrow> strategy \<Rightarrow> rat \<Rightarrow> bool" where
  "can_fulfill mi liquidity st amount =
    has_destination_liquidity mi liquidity (st_dest_chain st) (sa_htlc_address (st_dest_asset st)) amount"

section \<open>The quote service\<close>

record quote_settings =
  qs_order_deadline_in_minutes :: int
  qs_quote_private_key :: "string option"
  qs_max_user_slippage_bps :: u64
  qs_default_eta_seconds :: i32

record quote_service =
  qv_settings :: quote_settings
  qv_metadata :: metadata_index
  qv_registry :: strategy_registry
  qv_price_for :: "string \<Rightarrow> rat option"
  qv_liquidity :: "asset_liquidity list"
  qv_solver_id :: string

record quote_request =
  qr_from :: string
  qr_to :: string
  qr_from_amount :: "big_decimal option"
  qr_to_amount :: "big_decimal option"
  qr_affiliate_fee :: u64
  qr_slippage :: "u64 option"
  qr_strategy_id :: "string option"

record quote_route =
  ro_strategy_id :: string
  ro_source :: quote_asset_view
  ro_destination :: quote_asset_view
  ro_solver_id :: string
  ro_estimated_time :: i32
  ro_slippage :: u64
  ro_fee :: u64
  ro_fixed_fee :: big_decimal

record quote_response =
  qp_best :: "quote_route option"
  qp_routes :: "quote_route list"
  qp_input_token_price :: rat
  qp_output_token_price :: rat

text \<open>\<open>splitn(2, ':')\<close>; without a colon the rest is empty.\<close>

definition split_first_colon :: "string \<Rightarrow> string \<times> string" where
  "split_first_colon s = (takeWhile (\<lambda>c. c \<noteq> CHR '':'') s, drop 1 (dropWhile (\<lambda>c. c \<noteq> CHR '':'') s))"

definition resolve_asset :: "metadata_index \<Rightarrow> string \<Rightarrow> (app_error, asset_metadata) result" where
  "resolve_asset mi s =
    (let (chain, rest) = split_first_colon s in
     ok_or (or_else (get_asset_by_chain_and_htlc mi chain rest) (get_asset_by_id mi s))
       (AppBadRequest (Format ''unknown asset: {value}'' [ArgStr s])))"

definition quote_slippage :: "quote_service \<Rightarrow> quote_request \<Rightarrow> u64" where
  "quote_slippage qv req = min (unwrap_or (qr_slippage req) 0) (qs_max_user_slippage_bps (qv_settings qv))"

definition build_route :: "quote_service \<Rightarrow> strategy \<Rightarrow> quote_asset_view \<Rightarrow> quote_asset_view \<Rightarrow> u64 \<Rightarrow> quote_route" where
  "build_route qv st source destination slippage =
    \<lparr>ro_strategy_id = st_id st, ro_source = source, ro_destination = destination, ro_solver_id = qv_solver_id qv,
     ro_estimated_time = qs_default_eta_seconds (qv_settings qv), ro_slippage = slippage, ro_fee = st_fee st,
     ro_fixed_fee = st_fixed_fee st\<rparr>"

definition route_amounts ::
    "'a decimal_crate_scheme \<Rightarrow> quote_service \<Rightarrow> quote_request \<Rightarrow> rat \<Rightarrow> rat \<Rightarrow> strategy \<Rightarrow> (quote_asset_view \<times> quote_asset_view) reply" where
  "route_amounts dc qv req input_price output_price st =
    (case (qr_from_amount req, qr_to_amount req) of
       (Some from_amount, _) \<Rightarrow>
         calculate_output_amount dc st from_amount input_price output_price (qr_affiliate_fee req) (quote_slippage qv req)
     | (None, Some to_amount) \<Rightarrow>
         calculate_input_amount dc st to_amount input_price output_price (qr_affiliate_fee req) (quote_slippage qv req)
     | (None, None) \<Rightarrow> Some (Inl (bad_request ''either from_amount or to_amount is required'')))"

text \<open>The loop over the strategies: the routes so far, and whether liquidity has blocked one.\<close>

fun collect_routes ::
    "'a decimal_crate_scheme \<Rightarrow> quote_service \<Rightarrow> quote_request \<Rightarrow> rat \<Rightarrow> rat \<Rightarrow> quote_route list \<times> bool \<Rightarrow> strategy list
      \<Rightarrow> (quote_route list \<times> bool) reply" where
  "collect_routes dc qv req ip op acc [] = Some (Inr acc)"
| "collect_routes dc qv req ip op acc (st # sts) =
    (if (case qr_strategy_id req of None \<Rightarrow> False | Some i \<Rightarrow> lower_text (st_id st) \<noteq> lower_text i)
     then collect_routes dc qv req ip op acc sts
     else
       reply_bind (route_amounts dc qv req ip op st) (\<lambda>(source, destination).
         if \<not> can_fulfill (qv_metadata qv) (qv_liquidity qv) st (bd_value (qa_amount destination))
         then collect_routes dc qv req ip op (fst acc, True) sts
         else collect_routes dc qv req ip op (fst acc @ [build_route qv st source destination (quote_slippage qv req)], snd acc) sts))"

definition classify_empty_routes_error :: "bool \<Rightarrow> (app_error, unit) result" where
  "classify_empty_routes_error blocked =
    ensure (\<not> blocked) (AppConflict (Format ''insufficient destination liquidity for requested route'' []))"

text \<open>A stable sort, the best route first.\<close>

definition sort_routes :: "quote_request \<Rightarrow> quote_route list \<Rightarrow> quote_route list" where
  "sort_routes req routes =
    (if qr_from_amount req \<noteq> None then sort_key (\<lambda>r. - bd_value (qa_amount (ro_destination r))) routes
     else sort_key (\<lambda>r. bd_value (qa_amount (ro_source r))) routes)"

definition quote_pair :: "asset_metadata \<Rightarrow> asset_metadata \<Rightarrow> string" where
  "quote_pair inp out =
    lower_text (as_chain (am_asset inp) @ '':'' @ snd (normalize_htlc_key (am_asset inp)) @ ''::''
      @ as_chain (am_asset out) @ '':'' @ snd (normalize_htlc_key (am_asset out)))"

definition quote :: "'a decimal_crate_scheme \<Rightarrow> quote_service \<Rightarrow> quote_request \<Rightarrow> quote_response reply" where
  "quote dc qv req =
    (if (qr_from_amount req \<noteq> None) = (qr_to_amount req \<noteq> None)
     then Some (Inl (bad_request ''provide exactly one of from_amount or to_amount''))
     else
       reply_bind (Some (resolve_asset (qv_metadata qv) (qr_from req))) (\<lambda>inp.
       reply_bind (Some (resolve_asset (qv_metadata qv) (qr_to req))) (\<lambda>out.
       reply_bind (Some (ok_or (strategies_for_pair (qv_registry qv) (quote_pair inp out)) (bad_request ''pair is not supported''))) (\<lambda>sts.
       reply_bind (Some (ok_or (qv_price_for qv (show_asset (as_id (am_asset inp)))) (AppUpstream (Format ''missing price for {}'' [ArgStr (qr_from req)])))) (\<lambda>ip.
       reply_bind (Some (ok_or (qv_price_for qv (show_asset (as_id (am_asset out)))) (AppUpstream (Format ''missing price for {}'' [ArgStr (qr_to req)])))) (\<lambda>op.
       reply_bind (collect_routes dc qv req ip op ([], False) (map snd sts)) (\<lambda>(routes, blocked).
       reply_bind (Some (if routes = [] then classify_empty_routes_error blocked else Inr ())) (\<lambda>_.
         let routes = sort_routes req routes in
         Some (Inr \<lparr>qp_best = first_row routes, qp_routes = routes, qp_input_token_price = ip, qp_output_token_price = op\<rparr>)))))))))"

section \<open>Prices of a pair\<close>

text \<open>\<open>split("::")\<close>: the pieces between the occurrences from the left.\<close>

fun split_on_pair :: "char \<Rightarrow> string \<Rightarrow> string list" where
  "split_on_pair c [] = [[]]"
| "split_on_pair c [x] = [[x]]"
| "split_on_pair c (x # y # s) =
    (if x = c \<and> y = c then [] # split_on_pair c s
     else (case split_on_pair c (y # s) of [] \<Rightarrow> [[x]] | p # ps \<Rightarrow> (x # p) # ps))"

datatype fiat_error = FiatBadRequest message | PriceUnavailable message

definition invalid_pair :: fiat_error where
  "invalid_pair = FiatBadRequest (Format ''Invalid order pair format, expected source_chain:source_asset::dest_chain:dest_asset'' [])"

definition split_order_pair :: "string \<Rightarrow> (fiat_error, string \<times> string) result" where
  "split_order_pair s =
    (case split_on_pair CHR '':'' s of
       [src, dst] \<Rightarrow> if src = [] \<or> dst = [] then Inl invalid_pair else Inr (src, dst)
     | _ \<Rightarrow> Inl invalid_pair)"

definition resolve_pair_asset :: "metadata_index \<Rightarrow> string \<Rightarrow> string \<Rightarrow> (fiat_error, asset_metadata) result" where
  "resolve_pair_asset mi label pair =
    (let (chain, asset) = split_first_colon pair in
     if chain = [] \<or> asset = [] then Inl invalid_pair
     else
       ok_or (get_asset_by_chain_and_htlc mi (lower_text chain) asset)
         (FiatBadRequest (Format ''{label} asset pair : {pair}, cannot be found in supported asset pairs'' [ArgStr label, ArgStr pair])))"

definition fiat_prices_for_order_pair :: "metadata_index \<Rightarrow> (string \<Rightarrow> rat option) \<Rightarrow> string \<Rightarrow> (fiat_error, rat \<times> rat) result" where
  "fiat_prices_for_order_pair mi price_for pair =
    try_bind (split_order_pair pair) (\<lambda>(src, dst).
    try_bind (resolve_pair_asset mi ''Source'' src) (\<lambda>inp.
    try_bind (resolve_pair_asset mi ''Destination'' dst) (\<lambda>out.
    try_bind (ok_or (price_for (show_asset (as_id (am_asset inp))))
      (PriceUnavailable (Format ''missing price for {}'' [ArgStr (show_asset (as_id (am_asset inp)))]))) (\<lambda>ip.
    try_bind (ok_or (price_for (show_asset (as_id (am_asset out))))
      (PriceUnavailable (Format ''missing price for {}'' [ArgStr (show_asset (as_id (am_asset out)))]))) (\<lambda>op.
      Inr (ip, op))))))"

end
