(* ===== verification/QuoteProps.thy ===== *)
theory QuoteProps
  imports Quotes PolicyProps
begin

text \<open>
  A quote keeps to the solver's limits, liquidity and policy; what it pays is bounded by what it takes
  while the fees do not wrap around, and what wrapping does to it.
\<close>

section \<open>Routes\<close>

lemma calculate_output_amount_ok:
  assumes "calculate_output_amount dc st a ip op aff slip = Some (Inr (source, destination))"
  shows "qa_amount source = a \<and> 0 < bd_value a \<and> bd_value (st_min_amount st) \<le> bd_value a \<and> bd_value a \<le> bd_value (st_max_amount st)"
  using assms
  by (auto simp: calculate_output_amount_def try_simps validate_amount_def Let_def)

lemma calculate_input_amount_ok:
  assumes "calculate_input_amount dc st b ip op aff slip = Some (Inr (source, destination))"
  shows "qa_amount destination = b \<and> 0 < bd_value b
    \<and> bd_value (st_min_amount st) \<le> bd_value (qa_amount source) \<and> bd_value (qa_amount source) \<le> bd_value (st_max_amount st)"
  using assms
  by (auto simp: calculate_input_amount_def try_simps validate_amount_def Let_def bd_value_def)

definition route_ok :: "quote_service \<Rightarrow> quote_request \<Rightarrow> strategy \<Rightarrow> quote_route \<Rightarrow> bool" where
  "route_ok qv req st r =
    (ro_strategy_id r = st_id st \<and> ro_fee r = st_fee st \<and> ro_fixed_fee r = st_fixed_fee st
     \<and> (case qr_strategy_id req of None \<Rightarrow> True | Some i \<Rightarrow> lower_text (st_id st) = lower_text i)
     \<and> bd_value (st_min_amount st) \<le> bd_value (qa_amount (ro_source r))
     \<and> bd_value (qa_amount (ro_source r)) \<le> bd_value (st_max_amount st)
     \<and> can_fulfill (qv_metadata qv) (qv_liquidity qv) st (bd_value (qa_amount (ro_destination r)))
     \<and> (\<forall>a. qr_from_amount req = Some a \<longrightarrow> qa_amount (ro_source r) = a \<and> 0 < bd_value a)
     \<and> (\<forall>b. qr_from_amount req = None \<and> qr_to_amount req = Some b \<longrightarrow> qa_amount (ro_destination r) = b \<and> 0 < bd_value b))"

lemma route_ok_build:
  assumes "route_amounts dc qv req ip op st = Some (Inr (source, destination))"
    and "can_fulfill (qv_metadata qv) (qv_liquidity qv) st (bd_value (qa_amount destination))"
    and "\<not> (case qr_strategy_id req of None \<Rightarrow> False | Some i \<Rightarrow> lower_text (st_id st) \<noteq> lower_text i)"
  shows "route_ok qv req st (build_route qv st source destination slip)"
proof (cases "qr_from_amount req")
  case (Some a)
  with assms(1) have "calculate_output_amount dc st a ip op (qr_affiliate_fee req) (quote_slippage qv req) = Some (Inr (source, destination))"
    by (simp add: route_amounts_def)
  from calculate_output_amount_ok[OF this] assms(2,3) Some show ?thesis
    by (auto simp: route_ok_def build_route_def split: option.splits)
next
  case None
  show ?thesis
  proof (cases "qr_to_amount req")
    case (Some b)
    with None assms(1) have "calculate_input_amount dc st b ip op (qr_affiliate_fee req) (quote_slippage qv req) = Some (Inr (source, destination))"
      by (simp add: route_amounts_def)
    from calculate_input_amount_ok[OF this] assms(2,3) None Some show ?thesis
      by (auto simp: route_ok_def build_route_def split: option.splits)
  qed (use None assms(1) in \<open>simp add: route_amounts_def bad_request_def\<close>)
qed

lemma collect_routes_ok:
  assumes "collect_routes dc qv req ip op acc sts = Some (Inr (routes, blocked))"
    and "\<forall>r \<in> set (fst acc). \<exists>st \<in> S. route_ok qv req st r" "set sts \<subseteq> S"
  shows "\<forall>r \<in> set routes. \<exists>st \<in> S. route_ok qv req st r"
  using assms
proof (induction sts arbitrary: acc)
  case (Cons st sts)
  show ?case
  proof (cases "case qr_strategy_id req of None \<Rightarrow> False | Some i \<Rightarrow> lower_text (st_id st) \<noteq> lower_text i")
    case True
    with Cons.prems have "collect_routes dc qv req ip op acc sts = Some (Inr (routes, blocked))" by simp
    from Cons.IH[OF this] Cons.prems show ?thesis by simp
  next
    case False
    with Cons.prems(1) obtain source destination where
        amounts: "route_amounts dc qv req ip op st = Some (Inr (source, destination))"
      and rest: "(if \<not> can_fulfill (qv_metadata qv) (qv_liquidity qv) st (bd_value (qa_amount destination))
         then collect_routes dc qv req ip op (fst acc, True) sts
         else collect_routes dc qv req ip op (fst acc @ [build_route qv st source destination (quote_slippage qv req)], snd acc) sts)
        = Some (Inr (routes, blocked))"
      by (auto simp only: collect_routes.simps if_False try_simps split: prod.splits)
    show ?thesis
    proof (cases "can_fulfill (qv_metadata qv) (qv_liquidity qv) st (bd_value (qa_amount destination))")
      case True
      then have "route_ok qv req st (build_route qv st source destination (quote_slippage qv req))"
        using route_ok_build[OF amounts _ False] by blast
      with rest True Cons.IH[of "(fst acc @ [build_route qv st source destination (quote_slippage qv req)], snd acc)"] Cons.prems(2,3)
      show ?thesis by auto
    next
      case no: False
      with rest Cons.IH[of "(fst acc, True)"] Cons.prems(2,3) show ?thesis by auto
    qed
  qed
qed auto

lemma quote_cases:
  assumes "quote dc qv req = Some (Inr resp)"
  obtains inp out sts ip op routes blocked where
    "(qr_from_amount req \<noteq> None) \<noteq> (qr_to_amount req \<noteq> None)"
    "resolve_asset (qv_metadata qv) (qr_from req) = Inr inp" "resolve_asset (qv_metadata qv) (qr_to req) = Inr out"
    "strategies_for_pair (qv_registry qv) (quote_pair inp out) = Some sts"
    "qv_price_for qv (show_asset (as_id (am_asset inp))) = Some ip" "qv_price_for qv (show_asset (as_id (am_asset out))) = Some op"
    "collect_routes dc qv req ip op ([], False) (map snd sts) = Some (Inr (routes, blocked))"
    "resp = \<lparr>qp_best = first_row (sort_routes req routes), qp_routes = sort_routes req routes, qp_input_token_price = ip, qp_output_token_price = op\<rparr>"
proof -
  have one: "(qr_from_amount req \<noteq> None) \<noteq> (qr_to_amount req \<noteq> None)"
    using assms by (auto simp only: quote_def if_True split: if_splits)
  note run = assms[unfolded quote_def if_not_P[OF one] Let_def]
  from run obtain inp out sts ip op routes blocked where
      "resolve_asset (qv_metadata qv) (qr_from req) = Inr inp" "resolve_asset (qv_metadata qv) (qr_to req) = Inr out"
      "strategies_for_pair (qv_registry qv) (quote_pair inp out) = Some sts"
      "qv_price_for qv (show_asset (as_id (am_asset inp))) = Some ip" "qv_price_for qv (show_asset (as_id (am_asset out))) = Some op"
      "collect_routes dc qv req ip op ([], False) (map snd sts) = Some (Inr (routes, blocked))"
      "resp = \<lparr>qp_best = first_row (sort_routes req routes), qp_routes = sort_routes req routes, qp_input_token_price = ip, qp_output_token_price = op\<rparr>"
    by (auto simp only: reply_bind_eq_Inr option.inject sum.inject ok_or_eq_Inr case_prod_beta) (metis prod.collapse)
  with one show thesis by (rule that)
qed

text \<open>How good a route is to the user: the amount paid out, or the price asked, negated.\<close>

definition route_gain :: "quote_request \<Rightarrow> quote_route \<Rightarrow> rat" where
  "route_gain req r = (if qr_from_amount req \<noteq> None then bd_value (qa_amount (ro_destination r)) else - bd_value (qa_amount (ro_source r)))"

lemma sort_routes_best: "first_row (sort_routes req routes) = Some r \<Longrightarrow> \<forall>q \<in> set routes. route_gain req q \<le> route_gain req r"
proof -
  assume best: "first_row (sort_routes req routes) = Some r"
  have head: "\<forall>q \<in> set xs. f r \<le> f q" if "sorted (map f (sort_key f xs))" "first_row (sort_key f xs) = Some r" for f :: "quote_route \<Rightarrow> rat" and xs
  proof (cases "sort_key f xs")
    case (Cons y ys)
    then have "set xs = set (y # ys)" by (metis set_sort)
    with that Cons show ?thesis by (auto simp: first_row_def)
  qed (use that in \<open>simp add: first_row_def\<close>)
  show ?thesis
  proof (cases "qr_from_amount req")
    case None
    with best head[of "\<lambda>r. bd_value (qa_amount (ro_source r))" routes] show ?thesis
      by (simp add: sort_routes_def route_gain_def)
  next
    case (Some a)
    with best head[of "\<lambda>r. - bd_value (qa_amount (ro_destination r))" routes] show ?thesis
      by (simp add: sort_routes_def route_gain_def)
  qed
qed

lemma set_sort_routes [simp]: "set (sort_routes req routes) = set routes"
  by (simp add: sort_routes_def)

text \<open>C29: What a quote offers can be done. Each route of an answered quote belongs to a strategy registered
  for the pair (the requested one, if one is named), takes an amount within the limits of that strategy,
  pays no more than the free liquidity last seen for the destination asset, and keeps the amount that the
  user fixed, which is positive; the best route is one that no other beats, and there is one if there is a
  route.\<close>

theorem quote_routes_sound:
  assumes "quote dc qv req = Some (Inr resp)"
  shows "\<exists>inp out sts. resolve_asset (qv_metadata qv) (qr_from req) = Inr inp \<and> resolve_asset (qv_metadata qv) (qr_to req) = Inr out
    \<and> strategies_for_pair (qv_registry qv) (quote_pair inp out) = Some sts
    \<and> (\<forall>r \<in> set (qp_routes resp). \<exists>st \<in> snd ` set sts. route_ok qv req st r)
    \<and> (qp_best resp = None \<longleftrightarrow> qp_routes resp = [])
    \<and> (\<forall>r. qp_best resp = Some r \<longrightarrow> r \<in> set (qp_routes resp) \<and> (\<forall>q \<in> set (qp_routes resp). route_gain req q \<le> route_gain req r))"
proof -
  obtain inp out sts ip op routes blocked where q:
    "resolve_asset (qv_metadata qv) (qr_from req) = Inr inp" "resolve_asset (qv_metadata qv) (qr_to req) = Inr out"
    "strategies_for_pair (qv_registry qv) (quote_pair inp out) = Some sts"
    "collect_routes dc qv req ip op ([], False) (map snd sts) = Some (Inr (routes, blocked))"
    "resp = \<lparr>qp_best = first_row (sort_routes req routes), qp_routes = sort_routes req routes, qp_input_token_price = ip, qp_output_token_price = op\<rparr>"
    using quote_cases[OF assms] by metis
  have ok: "\<forall>r \<in> set routes. \<exists>st \<in> snd ` set sts. route_ok qv req st r"
    using collect_routes_ok[OF q(4), of "snd ` set sts"] by simp
  have mem: "r \<in> set routes" if "first_row (sort_routes req routes) = Some r" for r
    using that set_sort_routes[of req routes] by (cases "sort_routes req routes") (auto simp: first_row_def)
  show ?thesis
    using q ok mem sort_routes_best[of req routes]
    by (intro exI[of _ inp] exI[of _ out] exI[of _ sts]) (auto simp: first_row_def split: list.splits)
qed

section \<open>Amounts\<close>

text \<open>
  What the decimal crate documents of a quotient: it is exact when it has at most a hundred digits, and
  otherwise rounded, with a relative error below \<open>\<epsilon>\<close>. The decimal of a positive price is positive.
\<close>

definition short_decimal :: "rat \<Rightarrow> bool" where
  "short_decimal x = (\<exists>m n. \<bar>m\<bar> < 10 ^ 100 \<and> x = of_int m / 10 ^ n)"

definition division_law :: "rat \<Rightarrow> 'a decimal_crate_scheme \<Rightarrow> bool" where
  "division_law \<epsilon> dc =
    (0 \<le> \<epsilon> \<and> \<epsilon> < 1
     \<and> (\<forall>a b. b \<noteq> 0 \<longrightarrow> short_decimal (a / b) \<longrightarrow> dc_div dc a b = a / b)
     \<and> (\<forall>a b. b \<noteq> 0 \<longrightarrow> \<bar>dc_div dc a b - a / b\<bar> \<le> \<epsilon> * \<bar>a / b\<bar>)
     \<and> (\<forall>p d. 0 < p \<longrightarrow> dc_from_f64 dc p = Some d \<longrightarrow> 0 < d))"

lemma division_bounds:
  assumes "division_law \<epsilon> dc" "b \<noteq> 0"
  shows "a / b \<le> 0 \<Longrightarrow> dc_div dc a b \<le> 0" and "0 \<le> a / b \<Longrightarrow> 0 \<le> dc_div dc a b"
    and "0 \<le> a / b \<Longrightarrow> dc_div dc a b \<le> (1 + \<epsilon>) * (a / b)" and "0 \<le> a / b \<Longrightarrow> (1 - \<epsilon>) * (a / b) \<le> dc_div dc a b"
proof -
  have near: "\<bar>dc_div dc a b - a / b\<bar> \<le> \<epsilon> * \<bar>a / b\<bar>" and \<epsilon>: "0 \<le> \<epsilon>" "\<epsilon> < 1" using assms by (auto simp: division_law_def)
  have "\<epsilon> * \<bar>a / b\<bar> \<le> 1 * \<bar>a / b\<bar>" using \<epsilon> by (intro mult_right_mono) auto
  then have small: "\<epsilon> * \<bar>a / b\<bar> \<le> \<bar>a / b\<bar>" by simp
  show "dc_div dc a b \<le> 0" if "a / b \<le> 0" using near small that by linarith
  show "0 \<le> dc_div dc a b" if "0 \<le> a / b" using near small that by linarith
  show "dc_div dc a b \<le> (1 + \<epsilon>) * (a / b)" if "0 \<le> a / b"
  proof -
    have "\<epsilon> * \<bar>a / b\<bar> = \<epsilon> * (a / b)" using that by (simp only: abs_of_nonneg)
    then have "dc_div dc a b - a / b \<le> \<epsilon> * (a / b)" using near by linarith
    moreover have "(1 + \<epsilon>) * (a / b) = a / b + \<epsilon> * (a / b)" by (simp only: distrib_right mult_1_left)
    ultimately show ?thesis by linarith
  qed
  show "(1 - \<epsilon>) * (a / b) \<le> dc_div dc a b" if "0 \<le> a / b"
  proof -
    have "\<epsilon> * \<bar>a / b\<bar> = \<epsilon> * (a / b)" using that by (simp only: abs_of_nonneg)
    then have "a / b - dc_div dc a b \<le> \<epsilon> * (a / b)" using near by linarith
    moreover have "(1 - \<epsilon>) * (a / b) = a / b - \<epsilon> * (a / b)" by (simp only: left_diff_distrib mult_1_left)
    ultimately show ?thesis by linarith
  qed
qed

text \<open>One division by \<open>b\<close> and another by \<open>c\<close>.\<close>

lemma two_divisions:
  assumes "division_law \<epsilon> dc" "0 < b" "0 < c"
  shows "dc_div dc (dc_div dc a b) c * (b * c) \<le> (1 + \<epsilon>)\<^sup>2 * max 0 a"
    and "0 \<le> a \<Longrightarrow> (1 - \<epsilon>)\<^sup>2 * a \<le> dc_div dc (dc_div dc a b) c * (b * c)"
proof -
  let ?f = "dc_div dc a b"
  have ne: "b \<noteq> 0" "c \<noteq> 0" and \<epsilon>: "0 \<le> \<epsilon>" "\<epsilon> < 1" using assms by (auto simp: division_law_def)
  note B = division_bounds[OF assms(1) ne(1), of a] and C = division_bounds[OF assms(1) ne(2), of ?f]
  have scale: "x \<le> y / c \<Longrightarrow> x * (b * c) \<le> y * b" "y / c \<le> x \<Longrightarrow> y * b \<le> x * (b * c)" for x y
    using assms(2,3) mult_right_mono[of _ _ b] by (simp_all add: pos_le_divide_eq pos_divide_le_eq mult_ac)
  show up: "dc_div dc ?f c * (b * c) \<le> (1 + \<epsilon>)\<^sup>2 * max 0 a"
  proof (cases "0 \<le> a")
    case True
    then have "0 \<le> a / b" using assms(2) by simp
    with B have f: "0 \<le> ?f" "?f \<le> (1 + \<epsilon>) * (a / b)" by blast+
    then have "dc_div dc ?f c \<le> (1 + \<epsilon>) * ?f / c" using C(3) assms(3) by simp
    from scale(1)[OF this] have "dc_div dc ?f c * (b * c) \<le> (1 + \<epsilon>) * ?f * b" .
    also have "\<dots> \<le> (1 + \<epsilon>) * ((1 + \<epsilon>) * (a / b)) * b"
      using f(2) \<epsilon> assms(2) by (intro mult_right_mono mult_left_mono) auto
    finally show ?thesis using True ne by (simp add: power2_eq_square max_def)
  next
    case False
    then have "a / b \<le> 0" using assms(2) by (simp add: divide_le_0_iff)
    then have "?f / c \<le> 0" using B(1) assms(3) by (simp add: divide_le_0_iff)
    then have "dc_div dc ?f c * (b * c) \<le> 0" using C(1) assms(2,3) by (simp add: mult_nonpos_nonneg)
    with False show ?thesis by simp
  qed
  show "(1 - \<epsilon>)\<^sup>2 * a \<le> dc_div dc ?f c * (b * c)" if "0 \<le> a"
  proof -
    have "0 \<le> a / b" using that assms(2) by simp
    with B have f: "0 \<le> ?f" "(1 - \<epsilon>) * (a / b) \<le> ?f" by blast+
    have "(1 - \<epsilon>)\<^sup>2 * a = (1 - \<epsilon>) * ((1 - \<epsilon>) * (a / b)) * b" using ne by (simp add: power2_eq_square)
    also have "\<dots> \<le> (1 - \<epsilon>) * ?f * b"
      using f(2) \<epsilon> assms(2) by (intro mult_right_mono mult_left_mono) auto
    also have "(1 - \<epsilon>) * ?f / c \<le> dc_div dc ?f c" using C(4) f(1) assms(3) by simp
    from scale(2)[OF this] have "(1 - \<epsilon>) * ?f * b \<le> dc_div dc ?f c * (b * c)" .
    finally show ?thesis .
  qed
qed

lemma pow10_small: "n \<le> 19 \<Longrightarrow> unat (u64_pow10 n) = 10 ^ n"
proof -
  assume "n \<le> 19"
  then have "(10 :: nat) ^ n \<le> 10 ^ 19" by (intro power_increasing) auto
  also have "\<dots> < 2 ^ 64" by simp
  finally have "(10 :: nat) ^ n < 2 ^ LENGTH(64)" by simp
  moreover have "u64_pow10 n = of_nat (10 ^ n)" by (simp add: u64_pow10_def)
  ultimately show ?thesis by (simp add: unsigned_of_nat take_bit_nat_eq_self del: of_nat_power of_nat_numeral)
qed

lemma short_basis_points: "n < 2 ^ 64 \<Longrightarrow> short_decimal (of_nat n / 10000)"
proof -
  assume "n < 2 ^ 64"
  then have "int n < int (2 ^ 64)" by (simp only: of_nat_less_iff)
  also have "int (2 ^ 64) < 10 ^ 100" by simp
  finally have "int n < 10 ^ 100" .
  then show ?thesis unfolding short_decimal_def by (intro exI[of _ "int n"] exI[of _ 4]) simp
qed

lemma div_basis_points: "division_law \<epsilon> dc \<Longrightarrow> dc_div dc (of_nat (unat (w :: u64))) 10000 = of_nat (unat w) / 10000"
  using short_basis_points[of "unat w"] unsigned_less[of w, where ?'a = nat] by (simp add: division_law_def)

lemma div_by_decimals:
  assumes "division_law \<epsilon> dc" "unat d \<le> 19" "short_decimal (x / 10 ^ unat d)"
  shows "divide_by_decimals dc x d = Some (Inr (x / 10 ^ unat d))"
  using assms by (simp add: divide_by_decimals_def checked_div_def pow10_small division_law_def)

lemma truncate_int_le: "of_int (truncate_int x) \<le> max 0 x"
proof (cases "x < 0")
  case True
  then have "0 \<le> \<lfloor>- x\<rfloor>" by simp
  then show ?thesis using True by (simp add: truncate_int_def)
qed (simp add: truncate_int_def max_def)

lemma truncate_int_gt: "x - 1 < of_int (truncate_int x)"
  by (simp add: truncate_int_def) linarith

definition received_net :: "strategy \<Rightarrow> rat \<Rightarrow> rat \<Rightarrow> u64 \<Rightarrow> rat" where
  "received_net st a ip affiliate_fee =
    a / 10 ^ unat (sa_decimals (st_source_asset st)) * ip * (1 - of_nat (unat (st_fee st) + unat affiliate_fee) / 10000)
      - bd_value (st_fixed_fee st)"

text \<open>What the code divides and truncates, once its guards have passed.\<close>

lemma exact_in_amount:
  assumes "calculate_output_amount dc st a input_price output_price aff slip = Some (Inr (source, destination))"
    and "division_law \<epsilon> dc" "unat (st_fee st) + unat aff \<le> 10000" "unat slip < 10000"
    and "unat (sa_decimals (st_source_asset st)) \<le> 19" "unat (sa_decimals (st_dest_asset st)) \<le> 19"
    and "short_decimal (bd_value a / 10 ^ unat (sa_decimals (st_source_asset st)))"
    and "dc_from_f64 dc input_price = Some ip" "dc_from_f64 dc output_price = Some op"
  shows "0 < op" and "qa_amount destination =
    BigDecimal (truncate_int (dc_div dc (dc_div dc (received_net st (bd_value a) ip aff) op) (1 - of_nat (unat slip) / 10000)
      * 10 ^ unat (sa_decimals (st_dest_asset st)))) 0"
proof -
  define fee where "fee = (of_nat (unat (st_fee st) + unat aff) / 10000 :: rat)"
  define s where "s = (1 - of_nat (unat slip) / 10000 :: rat)"
  define net where "net = received_net st (bd_value a) ip aff"
  have "unat (st_fee st + aff) = unat (st_fee st) + unat aff"
    using assms(3) by (intro unat_add_if_fits) simp
  then have fee_eq: "dc_div dc (of_nat (unat (st_fee st + aff))) 10000 = fee"
    using div_basis_points[OF assms(2), of "st_fee st + aff"] by (simp only: fee_def)
  have "unat (10000 - slip) = 10000 - unat slip"
    using assms(4) by (simp add: unat_sub word_le_nat_alt)
  then have s_eq: "dc_div dc (of_nat (unat (10000 - slip))) 10000 = s"
    using div_basis_points[OF assms(2), of "10000 - slip"] assms(4) by (simp add: s_def of_nat_diff diff_divide_distrib)
  have "(of_nat (unat slip) :: rat) < of_nat 10000" using assms(4) by (simp only: of_nat_less_iff)
  then have s: "s \<noteq> 0" by (simp add: s_def)
  have prices: "0 < input_price" "0 < output_price"
    using assms(1) by (auto simp: calculate_output_amount_def try_simps validate_prices_def)
  then show op: "0 < op" using assms(2,9) by (auto simp: division_law_def)
  have net_eq: "bd_value a / 10 ^ unat (sa_decimals (st_source_asset st)) * ip
      - bd_value a / 10 ^ unat (sa_decimals (st_source_asset st)) * ip * fee - bd_value (st_fixed_fee st) = net"
    by (simp add: net_def received_net_def fee_def[symmetric] right_diff_distrib del: of_nat_add)
  have "10000 \<noteq> (0 :: rat)" "op \<noteq> 0" using op by auto
  note ne = this s
  have prices_eq: "decimal_prices dc input_price output_price = Inr (ip, op)"
    using assms(8,9) by (simp add: decimal_prices_def)
  have "qa_amount destination = BigDecimal (truncate_int (dc_div dc (dc_div dc net op) s * 10 ^ unat (sa_decimals (st_dest_asset st)))) 0"
    using assms(1)
    unfolding calculate_output_amount_def Let_def prices_eq div_by_decimals[OF assms(2,5,7)] checked_div_def
      if_not_P[OF ne(1)] reply_bind_simps prod.case fee_eq net_eq if_not_P[OF ne(2)] s_eq if_not_P[OF ne(3)]
      multiply_by_decimals_def pow10_small[OF assms(6)] of_nat_power of_nat_numeral
    by (auto simp only: reply_bind_eq_Inr option.inject sum.inject prod.inject quote_asset_view.select_convs)
  then show "qa_amount destination =
    BigDecimal (truncate_int (dc_div dc (dc_div dc (received_net st (bd_value a) ip aff) op) (1 - of_nat (unat slip) / 10000)
      * 10 ^ unat (sa_decimals (st_dest_asset st)))) 0"
    by (simp only: net_def s_def)
qed

lemma exact_in_bounds:
  assumes "calculate_output_amount dc st a input_price output_price aff slip = Some (Inr (source, destination))"
    and "division_law \<epsilon> dc" "unat (st_fee st) + unat aff \<le> 10000" "unat slip < 10000"
    and "unat (sa_decimals (st_source_asset st)) \<le> 19" "unat (sa_decimals (st_dest_asset st)) \<le> 19"
    and "short_decimal (bd_value a / 10 ^ unat (sa_decimals (st_source_asset st)))"
    and "dc_from_f64 dc input_price = Some ip" "dc_from_f64 dc output_price = Some op"
  defines "unit_value \<equiv> op / 10 ^ unat (sa_decimals (st_dest_asset st))"
  defines "payout \<equiv> bd_value (qa_amount destination) * unit_value" and "s \<equiv> 1 - of_nat (unat slip) / 10000"
    and "net \<equiv> received_net st (bd_value a) ip aff"
  shows "payout * s \<le> (1 + \<epsilon>)\<^sup>2 * max 0 net"
    and "0 \<le> net \<longrightarrow> (1 - \<epsilon>)\<^sup>2 * net < (payout + unit_value) * s"
proof -
  define e where "e = unat (sa_decimals (st_dest_asset st))"
  define q where "q = dc_div dc (dc_div dc net op) s"
  note A = exact_in_amount[OF assms(1-9), folded net_def s_def e_def, folded q_def]
  have "(of_nat (unat slip) :: rat) < of_nat 10000" using assms(4) by (simp only: of_nat_less_iff)
  then have s: "0 < s" by (simp add: s_def)
  note T = two_divisions[OF assms(2) A(1) s, of net, folded q_def]
  have u: "0 < unit_value * s" "unit_value = op / 10 ^ e" using A(1) s by (simp_all add: unit_value_def e_def)
  have pay: "payout = of_int (truncate_int (q * 10 ^ e)) * unit_value" by (simp add: payout_def A(2) bd_value_def)
  have whole: "q * 10 ^ e * (unit_value * s) = q * (op * s)" by (simp add: u(2))
  have "payout * s \<le> max 0 (q * 10 ^ e) * (unit_value * s)"
    unfolding pay mult.assoc using truncate_int_le u(1) by (intro mult_right_mono) auto
  also have "\<dots> = max 0 (q * (op * s))" using u(1) by (simp only: max_mult_distrib_right whole) simp
  also have "\<dots> \<le> (1 + \<epsilon>)\<^sup>2 * max 0 net" using T(1) by simp
  finally show "payout * s \<le> (1 + \<epsilon>)\<^sup>2 * max 0 net" .
  have "(q * 10 ^ e) * (unit_value * s) < (of_int (truncate_int (q * 10 ^ e)) + 1) * (unit_value * s)"
    using truncate_int_gt[of "q * 10 ^ e"] u(1) by (intro mult_strict_right_mono) auto
  also have "\<dots> = (payout + unit_value) * s" by (simp add: pay distrib_right mult.assoc)
  finally have "q * (op * s) < (payout + unit_value) * s" by (simp only: whole)
  with T(2) show "0 \<le> net \<longrightarrow> (1 - \<epsilon>)\<^sup>2 * net < (payout + unit_value) * s" by linarith
qed

text \<open>C31: The price of an exact-in quote. If the percentage fees are at most, and the slippage of the request
  below the whole (10000), no asset has more than 19 decimals and the amount is short enough to divide
  exactly, then the value paid out is the value received less the percentage fees and the fixed fee, divided by one
  minus the slippage: never more, and less by under one unit of the destination asset, up to
  the rounding of two divisions. So without slippage the payout stays within the net value received,
  and slippage raises it above. When the fees eat up the value, the payout is zero or less.\<close>

theorem exact_in_payout:
  assumes "calculate_output_amount dc st a input_price output_price aff slip = Some (Inr (source, destination))"
    and "division_law \<epsilon> dc" "unat (st_fee st) + unat aff \<le> 10000" "unat slip < 10000"
    and "unat (sa_decimals (st_source_asset st)) \<le> 19" "unat (sa_decimals (st_dest_asset st)) \<le> 19"
    and "short_decimal (bd_value a / 10 ^ unat (sa_decimals (st_source_asset st)))"
    and "dc_from_f64 dc input_price = Some ip" "dc_from_f64 dc output_price = Some op"
  shows "let unit_value = op / 10 ^ unat (sa_decimals (st_dest_asset st));
        payout = bd_value (qa_amount destination) * unit_value;
        s = 1 - of_nat (unat slip) / 10000;
        net = received_net st (bd_value a) ip aff
    in payout * s \<le> (1 + \<epsilon>)\<^sup>2 * max 0 net \<and> (0 \<le> net \<longrightarrow> (1 - \<epsilon>)\<^sup>2 * net < (payout + unit_value) * s)"
  unfolding Let_def using exact_in_bounds[OF assms] by blast

text \<open>What an exact-out quote should ask for, in units of the source asset and before rounding up.\<close>

definition fair_input :: "strategy \<Rightarrow> rat \<Rightarrow> rat \<Rightarrow> rat \<Rightarrow> u64 \<Rightarrow> rat" where
  "fair_input st b ip op slip =
    (b / 10 ^ unat (sa_decimals (st_dest_asset st)) * (1 - of_nat (unat slip) / 10000) * op + bd_value (st_fixed_fee st)) / ip
      * 10 ^ unat (sa_decimals (st_source_asset st))"

lemma round_up_less: "of_int (round_up x) < max 0 x + 1"
  by (auto simp: round_up_def max_def) linarith+

text \<open>C32: The affiliate fee of a request can turn the price. It is added to the fee of the strategy in 64 bits
  without a check: the value that wraps the sum to zero quotes exact-in without any fee, and for any \<open>k\<close> (up to 64 bits) the value
  that wraps it to minus \<open>k\<close> basis points makes an exact-out quote ask for no more than the fair amount
  divided by 1 + k/10000 (plus a unit, up to rounding), for the same payout.\<close>

theorem affiliate_fee_sets_price:
  assumes "division_law \<epsilon> dc" "0 \<le> bd_value (st_fixed_fee st)" "k + 10000 < 2 ^ 64" "unat slip \<le> 10000"
    and "unat (sa_decimals (st_source_asset st)) \<le> 19" "unat (sa_decimals (st_dest_asset st)) \<le> 19"
    and "short_decimal (bd_value b / 10 ^ unat (sa_decimals (st_dest_asset st)))"
    and "dc_from_f64 dc input_price = Some ip" "dc_from_f64 dc output_price = Some op"
    and "calculate_input_amount dc st b input_price output_price (- st_fee st - of_nat k) slip = Some (Inr (source, destination))"
  shows "bd_value (qa_amount source) < (1 + \<epsilon>)\<^sup>2 * fair_input st (bd_value b) ip op slip / (1 + of_nat k / 10000) + 1
    \<and> qa_amount destination = b
    \<and> calculate_output_amount dc st a input_price output_price (- st_fee st) slip
        = calculate_output_amount dc (st\<lparr>st_fee := 0\<rparr>) a input_price output_price 0 slip"
proof (intro conjI)
  let ?d = "unat (sa_decimals (st_source_asset st))" and ?e = "unat (sa_decimals (st_dest_asset st))"
  define m where "m = (1 + of_nat k / 10000 :: rat)"
  define s where "s = (1 - of_nat (unat slip) / 10000 :: rat)"
  define cost where "cost = bd_value b / 10 ^ ?e * s * op + bd_value (st_fixed_fee st)"
  have "unat (10000 - (st_fee st + (- st_fee st - of_nat k))) = 10000 + k"
  proof -
    have "10000 - (st_fee st + (- st_fee st - of_nat k)) = (of_nat (10000 + k) :: u64)" by simp
    then show ?thesis using assms(3) by (simp only: unsigned_of_nat) (simp add: take_bit_nat_eq_self)
  qed
  then have m_eq: "dc_div dc (of_nat (unat (10000 - (st_fee st + (- st_fee st - of_nat k))))) 10000 = m"
    using div_basis_points[OF assms(1), of "10000 - (st_fee st + (- st_fee st - of_nat k))"]
    by (simp only: m_def) (simp add: add_divide_distrib)
  have "unat (10000 - slip) = 10000 - unat slip"
    using assms(4) by (simp add: unat_sub word_le_nat_alt)
  then have s_eq: "dc_div dc (of_nat (unat (10000 - slip))) 10000 = s"
    using div_basis_points[OF assms(1), of "10000 - slip"] assms(4) by (simp add: s_def of_nat_diff diff_divide_distrib)
  have "(of_nat (unat slip) :: rat) \<le> of_nat 10000" using assms(4) by (simp only: of_nat_le_iff)
  then have s: "0 \<le> s" by (simp add: s_def)
  have m: "0 < m" "m \<noteq> 0" by (simp_all add: m_def add_pos_nonneg)
  have "0 < input_price" "0 < output_price" "0 < bd_value b"
    using assms(10) by (auto simp: calculate_input_amount_def try_simps validate_prices_def validate_amount_def)
  then have pos: "0 < ip" "0 < op" "0 < bd_value b" using assms(1,8,9) by (auto simp: division_law_def)
  have cost: "0 \<le> cost" using pos s assms(2) by (simp add: cost_def)
  define first where "first = dc_div dc cost ip"
  define second where "second = dc_div dc first m"
  have prices_eq: "decimal_prices dc input_price output_price = Inr (ip, op)"
    using assms(8,9) by (simp add: decimal_prices_def)
  have "10000 \<noteq> (0 :: rat)" "ip \<noteq> 0" using pos by auto
  note ne = this m(2)
  have amounts: "qa_amount source = BigDecimal (round_up (second * 10 ^ ?d)) 0 \<and> qa_amount destination = b"
    using assms(10)
    unfolding calculate_input_amount_def Let_def prices_eq div_by_decimals[OF assms(1,6,7)] checked_div_def
      if_not_P[OF ne(1)] reply_bind_simps prod.case s_eq cost_def[symmetric] if_not_P[OF ne(2)] m_eq if_not_P[OF ne(3)]
      first_def[symmetric] second_def[symmetric] multiply_by_decimals_def pow10_small[OF assms(5)] of_nat_power of_nat_numeral
    by (auto simp only: reply_bind_eq_Inr option.inject sum.inject prod.inject quote_asset_view.select_convs)
  then show "qa_amount destination = b" by simp
  have "0 \<le> cost / ip" using cost pos by simp
  then have first: "0 \<le> first" "first \<le> (1 + \<epsilon>) * (cost / ip)"
    using division_bounds(2,3)[OF assms(1) ne(2), of cost] by (simp_all add: first_def)
  then have second: "0 \<le> second" "second \<le> (1 + \<epsilon>) * (first / m)"
    using division_bounds(2,3)[OF assms(1) m(2), of first] m(1) by (simp_all add: second_def)
  have "(1 + \<epsilon>) * (first / m) \<le> (1 + \<epsilon>) * ((1 + \<epsilon>) * (cost / ip) / m)"
    using first(2) m(1) assms(1) by (intro mult_left_mono divide_right_mono) (auto simp: division_law_def)
  with second(2) have "second * 10 ^ ?d \<le> (1 + \<epsilon>) * ((1 + \<epsilon>) * (cost / ip) / m) * 10 ^ ?d"
    by (intro mult_right_mono) auto
  moreover have "(1 + \<epsilon>) * ((1 + \<epsilon>) * (cost / ip) / m) * 10 ^ ?d = (1 + \<epsilon>)\<^sup>2 * fair_input st (bd_value b) ip op slip / m"
    by (simp add: fair_input_def cost_def s_def power2_eq_square)
  moreover have "bd_value (qa_amount source) < max 0 (second * 10 ^ ?d) + 1"
    using round_up_less amounts by (simp add: bd_value_def)
  moreover have "max 0 (second * 10 ^ ?d) = second * 10 ^ ?d" using second(1) by simp
  ultimately have "bd_value (qa_amount source) < (1 + \<epsilon>)\<^sup>2 * fair_input st (bd_value b) ip op slip / m + 1" by linarith
  then show "bd_value (qa_amount source) < (1 + \<epsilon>)\<^sup>2 * fair_input st (bd_value b) ip op slip / (1 + of_nat k / 10000) + 1"
    unfolding m_def .
  show "calculate_output_amount dc st a input_price output_price (- st_fee st) slip
      = calculate_output_amount dc (st\<lparr>st_fee := 0\<rparr>) a input_price output_price 0 slip"
    by (simp add: calculate_output_amount_def source_name_def dest_name_def)
qed


section \<open>Policy\<close>

definition allowed_strategy :: "quote_crate \<Rightarrow> policy_settings \<Rightarrow> metadata_index \<Rightarrow> solver_policy \<Rightarrow> strategy \<Rightarrow> bool" where
  "allowed_strategy qc ps mi sp st =
    (\<exists>src \<in> set (ps_chains ps). \<exists>dst \<in> set (ps_chains ps). \<exists>i \<in> set (sc_supported_assets (snd src)). \<exists>j \<in> set (sc_supported_assets (snd dst)).
     \<exists>s d. get_asset_by_id mi i = Some s \<and> get_asset_by_id mi j = Some d \<and> lower_text (fst src) \<noteq> lower_text (fst dst)
       \<and> validate_asset_pair sp (as_id (am_asset s)) (as_id (am_asset d)) = Inr ()
       \<and> st_source_chain st = fst src \<and> st_dest_chain st = fst dst
       \<and> sa_htlc_address (st_source_asset st) = ct_address (as_htlc (am_asset s))
       \<and> sa_htlc_address (st_dest_asset st) = ct_address (as_htlc (am_asset d))
       \<and> st_fee st = ucast (fee_percent_bips (get_fee sp (as_id (am_asset s)) (as_id (am_asset d))))
       \<and> qc_parse_f64 qc (fee_fixed (get_fee sp (as_id (am_asset s)) (as_id (am_asset d)))) = Some (st_fixed_fee st))"

lemma build_strategy_allowed:
  assumes "build_strategy qc solver sp src dst s d = Inr sts" "st \<in> set sts"
  shows "validate_asset_pair sp (as_id (am_asset s)) (as_id (am_asset d)) = Inr ()
    \<and> st_source_chain st = fst src \<and> st_dest_chain st = fst dst
    \<and> sa_htlc_address (st_source_asset st) = ct_address (as_htlc (am_asset s))
    \<and> sa_htlc_address (st_dest_asset st) = ct_address (as_htlc (am_asset d))
    \<and> st_fee st = ucast (fee_percent_bips (get_fee sp (as_id (am_asset s)) (as_id (am_asset d))))
    \<and> qc_parse_f64 qc (fee_fixed (get_fee sp (as_id (am_asset s)) (as_id (am_asset d)))) = Some (st_fixed_fee st)"
  using assms by (auto simp: build_strategy_def Let_def try_simps strategy_asset_of_def split: sum.splits)

lemma chain_assets_mem:
  assumes "c \<in> set (chain_assets mi ps)" "s \<in> set (snd c)"
  shows "fst c \<in> set (ps_chains ps) \<and> (\<exists>i \<in> set (sc_supported_assets (snd (fst c))). get_asset_by_id mi i = Some s)"
proof -
  from assms(1) obtain c0 where c0: "c0 \<in> set (ps_chains ps)" "c = (c0, List.map_filter (get_asset_by_id mi) (sc_supported_assets (snd c0)))"
    by (auto simp: chain_assets_def)
  with assms(2) have "s \<in> set (List.map_filter (get_asset_by_id mi) (sc_supported_assets (snd c0)))" by simp
  then obtain i where "i \<in> set (sc_supported_assets (snd c0))" "get_asset_by_id mi i = Some s"
    by (auto simp: List.map_filter_def)
  with c0 show ?thesis by auto
qed

lemma build_strategy_configs_allowed:
  assumes "build_strategy_configs qc ps mi = Inr configs"
  shows "\<exists>sp. solver_policy_new (ps_policy ps) (concat (map (\<lambda>(_, c). sc_supported_assets c) (ps_chains ps))) = Inr sp
    \<and> (\<forall>st \<in> set configs. allowed_strategy qc ps mi sp st)"
proof -
  obtain sp where sp: "solver_policy_new (ps_policy ps) (concat (map (\<lambda>(_, c). sc_supported_assets c) (ps_chains ps))) = Inr sp"
    using assms by (auto simp: build_strategy_configs_def split: sum.splits)
  with assms have configs: "try_concat (\<lambda>src. try_concat (strategies_between qc (ps_solver_id ps) sp src) (chain_assets mi ps)) (chain_assets mi ps) = Inr configs"
    by (simp add: build_strategy_configs_def)
  have "allowed_strategy qc ps mi sp st" if st: "st \<in> set configs" for st
  proof -
    obtain src xs where src: "src \<in> set (chain_assets mi ps)" "st \<in> set xs"
        "try_concat (strategies_between qc (ps_solver_id ps) sp src) (chain_assets mi ps) = Inr xs"
      using try_concat_mem[OF configs st] by blast
    obtain dst ys where dst: "dst \<in> set (chain_assets mi ps)" "strategies_between qc (ps_solver_id ps) sp src dst = Inr ys" "st \<in> set ys"
      using try_concat_mem[OF src(3,2)] by blast
    then have diff: "lower_text (fst (fst src)) \<noteq> lower_text (fst (fst dst))" by (auto simp: strategies_between_def)
    with dst(2) have "try_concat (\<lambda>s. try_concat (\<lambda>d. build_strategy qc (ps_solver_id ps) sp (fst src) (fst dst) s d) (snd dst)) (snd src) = Inr ys"
      by (simp add: strategies_between_def)
    from try_concat_mem[OF this dst(3)] obtain s zs where s: "s \<in> set (snd src)" "st \<in> set zs"
        "try_concat (\<lambda>d. build_strategy qc (ps_solver_id ps) sp (fst src) (fst dst) s d) (snd dst) = Inr zs"
      by blast
    obtain d sts where d: "d \<in> set (snd dst)" "build_strategy qc (ps_solver_id ps) sp (fst src) (fst dst) s d = Inr sts" "st \<in> set sts"
      using try_concat_mem[OF s(3,2)] by blast
    from build_strategy_allowed[OF d(2,3)] chain_assets_mem[OF src(1) s(1)] chain_assets_mem[OF dst(1) d(1)] diff
    show ?thesis unfolding allowed_strategy_def by blast
  qed
  with sp show ?thesis by blast
qed

lemma AList_update_mem: "x \<in> set (AList.update k v m) \<Longrightarrow> x = (k, v) \<or> x \<in> set m"
  by (induction m) (auto split: if_splits)

lemma registered_from_configs:
  "(pair, sts) \<in> set (sg_by_pair (registry_from_configs mi configs)) \<Longrightarrow> (key, st) \<in> set sts
    \<Longrightarrow> order_pair st = pair \<and> (\<exists>c \<in> set configs. st = convert_strategy mi c)"
proof (induction configs arbitrary: pair sts key st rule: rev_induct)
  case (snoc c configs)
  let ?sg = "registry_from_configs mi configs" and ?st = "convert_strategy mi c"
  let ?old = "unwrap_or (map_of (sg_by_pair ?sg) (order_pair ?st)) []"
  have sg: "sg_by_pair (registry_from_configs mi (configs @ [c]))
      = AList.update (order_pair ?st) (AList.update (lower_text (st_id ?st)) ?st ?old) (sg_by_pair ?sg)"
    by (simp add: registry_from_configs_def register_strategy_def Let_def)
  have "(pair, sts) = (order_pair ?st, AList.update (lower_text (st_id ?st)) ?st ?old) \<or> (pair, sts) \<in> set (sg_by_pair ?sg)"
    using AList_update_mem[OF snoc.prems(1)[unfolded sg]] .
  then show ?case
  proof
    assume new: "(pair, sts) = (order_pair ?st, AList.update (lower_text (st_id ?st)) ?st ?old)"
    with snoc.prems(2) have "(key, st) \<in> set (AList.update (lower_text (st_id ?st)) ?st ?old)" by simp
    from AList_update_mem[OF this] have "(key, st) = (lower_text (st_id ?st), ?st) \<or> (key, st) \<in> set ?old" .
    then show ?thesis
    proof
      assume old: "(key, st) \<in> set ?old"
      then obtain sts0 where "map_of (sg_by_pair ?sg) (order_pair ?st) = Some sts0" "(key, st) \<in> set sts0"
        by (cases "map_of (sg_by_pair ?sg) (order_pair ?st)") (auto simp: unwrap_or_def)
      with snoc.IH[of "order_pair ?st" sts0 key st] new show ?thesis by (auto dest: map_of_SomeD)
    qed (use new in auto)
  next
    assume "(pair, sts) \<in> set (sg_by_pair ?sg)"
    with snoc.IH snoc.prems(2) show ?thesis by fastforce
  qed
qed (simp add: registry_from_configs_def)

text \<open>C30: No quote against an open policy. If the registry was built from the solver's policy and the policy is
  open by default, each quoted route connects two different chains and uses a strategy for two assets that
  the policy supports, does not isolate from each other and has not blacklisted (unless whitelisted), at
  the percentage fee and the fixed fee that the policy sets for them, under the pair that the request
  names. (A closed default is documented to block what is not allowed explicitly; the code does not
  enforce it, lemma \<open>closed_default_not_enforced\<close>.)\<close>

theorem quotes_obey_policy:
  assumes "build_strategy_configs qc ps mi = Inr configs" "qv_registry qv = registry_from_configs mi configs"
    and "pc_default (ps_policy ps) = OpenPolicy"
    and "quote dc qv req = Some (Inr resp)" "r \<in> set (qp_routes resp)"
  shows "\<exists>sp st inp out. solver_policy_new (ps_policy ps) (concat (map (\<lambda>(_, c). sc_supported_assets c) (ps_chains ps))) = Inr sp
    \<and> allowed_strategy qc ps mi sp st \<and> ro_strategy_id r = st_id st \<and> ro_fee r = st_fee st \<and> ro_fixed_fee r = st_fixed_fee st
    \<and> resolve_asset (qv_metadata qv) (qr_from req) = Inr inp \<and> resolve_asset (qv_metadata qv) (qr_to req) = Inr out
    \<and> order_pair st = lower_text (quote_pair inp out)"
proof -
  obtain inp out sts ip op routes blocked where q:
    "resolve_asset (qv_metadata qv) (qr_from req) = Inr inp" "resolve_asset (qv_metadata qv) (qr_to req) = Inr out"
    "strategies_for_pair (qv_registry qv) (quote_pair inp out) = Some sts"
    "collect_routes dc qv req ip op ([], False) (map snd sts) = Some (Inr (routes, blocked))"
    "resp = \<lparr>qp_best = first_row (sort_routes req routes), qp_routes = sort_routes req routes, qp_input_token_price = ip, qp_output_token_price = op\<rparr>"
    using quote_cases[OF assms(4)] by metis
  from collect_routes_ok[OF q(4), of "snd ` set sts"] assms(5) q(5)
  obtain key st where st: "(key, st) \<in> set sts" "ro_strategy_id r = st_id st" "ro_fee r = st_fee st" "ro_fixed_fee r = st_fixed_fee st"
    by (fastforce simp: route_ok_def)
  from q(3) assms(2) have "(lower_text (quote_pair inp out), sts) \<in> set (sg_by_pair (registry_from_configs mi configs))"
    by (auto simp: strategies_for_pair_def dest: map_of_SomeD)
  from registered_from_configs[OF this st(1)] obtain c where c: "order_pair st = lower_text (quote_pair inp out)" "c \<in> set configs" "st = convert_strategy mi c"
    by blast
  obtain sp where "solver_policy_new (ps_policy ps) (concat (map (\<lambda>(_, c). sc_supported_assets c) (ps_chains ps))) = Inr sp" "allowed_strategy qc ps mi sp c"
    using build_strategy_configs_allowed[OF assms(1)] c(2) by blast
  moreover from this(2) c(3) have "allowed_strategy qc ps mi sp st"
    by (simp add: allowed_strategy_def convert_strategy_def convert_strategy_asset_def)
  ultimately show ?thesis using st c(1) q(1,2) by blast
qed

section \<open>Examples\<close>

definition exact_crate :: quote_crate where
  "exact_crate =
    \<lparr>dc_div = (\<lambda>a b. a / b), dc_from_f64 = Some,
     qc_parse = (\<lambda>s. if s = ''10'' then Some (BigDecimal 10 0) else if s = ''5000'' then Some (BigDecimal 5000 0) else None), qc_parse_f64 = (\<lambda>x. Some (BigDecimal (truncate_int x) 0))\<rparr>"

lemma division_law_exact: "division_law 0 exact_crate"
  by (simp add: division_law_def exact_crate_def)

definition token :: "string \<Rightarrow> string \<Rightarrow> raw_asset" where
  "token chain name =
    \<lparr>ra_id = chain @ '':'' @ name, ra_name = name, ra_chain = chain, ra_htlc = None, ra_token = None, ra_decimals = 2,
     ra_min_amount = ''10'', ra_max_amount = ''5000'', ra_chain_type = ''evm'', ra_version = Some V2, ra_min_timelock = 12,
     ra_token_ids = None, ra_solver = ''s''\<rparr>"

definition sample_chains :: "raw_chain list" where
  "sample_chains =
    [\<lparr>rc_chain = ''base'', rc_assets = [token ''base'' ''usdc'']\<rparr>, \<lparr>rc_chain = ''bitcoin'', rc_assets = [token ''bitcoin'' ''btc'']\<rparr>]"

definition sample_policy :: policy_settings where
  "sample_policy =
    \<lparr>ps_solver_id = ''s'',
     ps_chains = [(''base'', \<lparr>sc_address = ''0xAB'', sc_solver_account = None, sc_supported_assets = [''base:usdc'']\<rparr>),
                  (''bitcoin'', \<lparr>sc_address = ''bc1'', sc_solver_account = Some ''key'', sc_supported_assets = [''bitcoin:btc'']\<rparr>)],
     ps_policy = \<lparr>pc_default = OpenPolicy, pc_isolation_groups = [], pc_blacklist_pairs = [''bitcoin:btc -> base:usdc''],
       pc_whitelist_overrides = [], pc_default_fee = \<lparr>fee_fixed = 0, fee_percent_bips = 100\<rparr>, pc_default_max_slippage = 50,
       pc_default_confirmation_target = 1, pc_overrides = [], pc_max_limits = []\<rparr>\<rparr>"

definition sample_metadata :: metadata_index where
  "sample_metadata = (case load_metadata sample_chains of Inr mi \<Rightarrow> mi)"

definition sample_configs :: "strategy list" where
  "sample_configs = (case build_strategy_configs exact_crate sample_policy sample_metadata of Inr sts \<Rightarrow> sts)"

definition sample_strategy :: strategy where
  "sample_strategy = hd sample_configs"


definition sample_service :: quote_service where
  "sample_service =
    \<lparr>qv_settings = \<lparr>qs_order_deadline_in_minutes = 60, qs_quote_private_key = None, qs_max_user_slippage_bps = 300, qs_default_eta_seconds = 20\<rparr>,
     qv_metadata = sample_metadata, qv_registry = registry_from_configs sample_metadata sample_configs,
     qv_price_for = (\<lambda>_. Some 1), qv_liquidity = [\<lparr>al_asset = ''bitcoin:btc'', al_balance = 2000, al_virtual_balance = 2000\<rparr>],
     qv_solver_id = ''s''\<rparr>"

definition sample_request :: "big_decimal option \<Rightarrow> big_decimal option \<Rightarrow> u64 \<Rightarrow> quote_request" where
  "sample_request inp out aff =
    \<lparr>qr_from = ''base:usdc'', qr_to = ''bitcoin:btc'', qr_from_amount = inp, qr_to_amount = out, qr_affiliate_fee = aff,
     qr_slippage = None, qr_strategy_id = None\<rparr>"


lemma load_sample: "load_metadata sample_chains = Inr sample_metadata"
  by code_simp

lemma build_sample: "build_strategy_configs exact_crate sample_policy sample_metadata = Inr sample_configs"
  by code_simp

definition usdc :: asset_metadata where
  "usdc = (case resolve_asset sample_metadata ''base:usdc'' of Inr m \<Rightarrow> m)"

definition btc :: asset_metadata where
  "btc = (case resolve_asset sample_metadata ''bitcoin:btc'' of Inr m \<Rightarrow> m)"

lemma sample_lookups:
  "resolve_asset sample_metadata ''base:usdc'' = Inr usdc" "resolve_asset sample_metadata ''bitcoin:btc'' = Inr btc"
  "strategies_for_pair (registry_from_configs sample_metadata sample_configs) (quote_pair usdc btc) = Some [(st_id sample_strategy, sample_strategy)]"
  by code_simp+

lemma sample_can_fulfill:
  "can_fulfill sample_metadata [\<lparr>al_asset = ''bitcoin:btc'', al_balance = 2000, al_virtual_balance = 2000\<rparr>] sample_strategy amount \<longleftrightarrow> amount \<le> 2000"
proof -
  have "find (\<lambda>e. lower_text (al_asset e) = lower_text (show_asset (as_id (am_asset btc)))) [\<lparr>al_asset = ''bitcoin:btc'', al_balance = 2000, al_virtual_balance = (2000 :: rat)\<rparr>]
    = Some \<lparr>al_asset = ''bitcoin:btc'', al_balance = 2000, al_virtual_balance = 2000\<rparr>"
    by code_simp
  moreover have "get_asset_by_chain_and_htlc sample_metadata (st_dest_chain sample_strategy) (sa_htlc_address (st_dest_asset sample_strategy)) = Some btc"
    by code_simp
  ultimately show ?thesis by (simp add: can_fulfill_def has_destination_liquidity_def)
qed

lemma sample_strategy_fields:
  "st_fee sample_strategy = 100" "st_fixed_fee sample_strategy = BigDecimal 0 0" "st_min_amount sample_strategy = BigDecimal 10 0"
  "st_max_amount sample_strategy = BigDecimal 5000 0" "sa_decimals (st_source_asset sample_strategy) = 2"
  "sa_decimals (st_dest_asset sample_strategy) = 2"
  by code_simp+

lemma calculate_sample:
  "\<exists>source. calculate_output_amount exact_crate sample_strategy (BigDecimal 1000 0) 1 1 0 0
    = Some (Inr (source, \<lparr>qa_asset = dest_name sample_strategy, qa_amount = BigDecimal 990 0, qa_display = 99 / 10, qa_value = 99 / 10\<rparr>))"
  by (simp add: calculate_output_amount_def sample_strategy_fields bd_value_def validate_amount_def validate_prices_def decimal_prices_def
    exact_crate_def divide_by_decimals_def checked_div_def pow10_small multiply_by_decimals_def truncate_int_def with_scale_def Let_def)

lemma quote_sample:
  "\<exists>resp r. quote exact_crate sample_service (sample_request (Some (BigDecimal 1000 0)) None 0) = Some (Inr resp)
    \<and> qp_routes resp = [r] \<and> qa_amount (ro_destination r) = BigDecimal 990 0"
proof -
  obtain source where calc: "calculate_output_amount exact_crate sample_strategy (BigDecimal 1000 0) 1 1 0 0
      = Some (Inr (source, \<lparr>qa_asset = dest_name sample_strategy, qa_amount = BigDecimal 990 0, qa_display = 99 / 10, qa_value = 99 / 10\<rparr>))"
    using calculate_sample by blast
  have "bd_value (BigDecimal 990 0) \<le> 2000" by (simp add: bd_value_def)
  then show ?thesis
    by (simp add: quote_def sample_request_def sample_service_def sample_lookups route_amounts_def quote_slippage_def unwrap_or_def calc
      sample_can_fulfill sort_routes_def build_route_def Let_def)
qed

lemma exact_in_payout_witness:
  "bd_value (BigDecimal 990 0) / 10 ^ 2 \<le> received_net sample_strategy (bd_value (BigDecimal 1000 0)) 1 0
    \<and> received_net sample_strategy (bd_value (BigDecimal 1000 0)) 1 0 < (bd_value (BigDecimal 990 0) + 1) / 10 ^ 2"
proof -
  obtain source where calc: "calculate_output_amount exact_crate sample_strategy (BigDecimal 1000 0) 1 1 0 0
      = Some (Inr (source, \<lparr>qa_asset = dest_name sample_strategy, qa_amount = BigDecimal 990 0, qa_display = 99 / 10, qa_value = 99 / 10\<rparr>))"
    using calculate_sample by blast
  have "short_decimal (bd_value (BigDecimal 1000 0) / 10 ^ unat (sa_decimals (st_source_asset sample_strategy)))"
    unfolding short_decimal_def by (intro exI[of _ 10] exI[of _ 0]) (simp add: bd_value_def sample_strategy_fields)
  note P = exact_in_payout[OF calc division_law_exact _ _ _ _ this, of 1 1]
  have "0 \<le> received_net sample_strategy (bd_value (BigDecimal 1000 0)) 1 0"
    by (simp add: received_net_def sample_strategy_fields bd_value_def)
  with P show ?thesis by (simp add: Let_def sample_strategy_fields exact_crate_def max_def bd_value_def)
qed

lemma calculate_wrapped_sample:
  "\<exists>source destination. calculate_input_amount exact_crate sample_strategy (BigDecimal 1000 0) 1 1 (- st_fee sample_strategy - of_nat 90000) 0
    = Some (Inr (source, destination)) \<and> qa_amount source = BigDecimal 100 0"
  by (simp add: calculate_input_amount_def sample_strategy_fields bd_value_def validate_amount_def validate_prices_def decimal_prices_def
    exact_crate_def divide_by_decimals_def checked_div_def pow10_small multiply_by_decimals_def round_up_def with_scale_def Let_def)

lemma affiliate_fee_sets_price_witness:
  "\<exists>source :: quote_asset_view. bd_value (qa_amount source) < fair_input sample_strategy (bd_value (BigDecimal 1000 0)) 1 1 0 / 10 + 1"
proof -
  obtain source destination where calc: "calculate_input_amount exact_crate sample_strategy (BigDecimal 1000 0) 1 1
      (- st_fee sample_strategy - of_nat 90000) 0 = Some (Inr (source, destination))"
    using calculate_wrapped_sample by blast
  have "short_decimal (bd_value (BigDecimal 1000 0) / 10 ^ unat (sa_decimals (st_dest_asset sample_strategy)))"
    unfolding short_decimal_def by (intro exI[of _ 10] exI[of _ 0]) (simp add: bd_value_def sample_strategy_fields)
  have "bd_value (qa_amount source) < (1 + 0)\<^sup>2 * fair_input sample_strategy (bd_value (BigDecimal 1000 0)) 1 1 0 / (1 + of_nat 90000 / 10000) + 1"
    by (rule affiliate_fee_sets_price[OF division_law_exact _ _ _ _ _ \<open>short_decimal _\<close> _ _ calc, THEN conjunct1])
      (simp_all add: sample_strategy_fields exact_crate_def bd_value_def)
  then have "bd_value (qa_amount source) < fair_input sample_strategy (bd_value (BigDecimal 1000 0)) 1 1 0 / 10 + 1" by simp
  then show ?thesis by blast
qed

lemma quote_routes_sound_witness:
  "\<exists>(resp :: quote_response) r. r \<in> set (qp_routes resp) \<and> route_ok sample_service (sample_request (Some (BigDecimal 1000 0)) None 0) sample_strategy r"
proof -
  obtain resp r where q: "quote exact_crate sample_service (sample_request (Some (BigDecimal 1000 0)) None 0) = Some (Inr resp)" "qp_routes resp = [r]"
    using quote_sample by blast
  have sel: "qv_metadata sample_service = sample_metadata" "qv_registry sample_service = registry_from_configs sample_metadata sample_configs"
    by (simp_all add: sample_service_def)
  from quote_routes_sound[OF q(1)] obtain inp out sts where "resolve_asset (qv_metadata sample_service) ''base:usdc'' = Inr inp"
      "resolve_asset (qv_metadata sample_service) ''bitcoin:btc'' = Inr out" "strategies_for_pair (qv_registry sample_service) (quote_pair inp out) = Some sts"
      "\<forall>r \<in> set (qp_routes resp). \<exists>st \<in> snd ` set sts. route_ok sample_service (sample_request (Some (BigDecimal 1000 0)) None 0) st r"
    by (auto simp: sample_request_def)
  then have "route_ok sample_service (sample_request (Some (BigDecimal 1000 0)) None 0) sample_strategy r"
    using q(2) sel sample_lookups by auto
  moreover have "r \<in> set (qp_routes resp)" using q(2) by simp
  ultimately show ?thesis by blast
qed

lemma quotes_obey_policy_witness: "\<exists>sp st. allowed_strategy exact_crate sample_policy sample_metadata sp st"
proof -
  obtain resp r where q: "quote exact_crate sample_service (sample_request (Some (BigDecimal 1000 0)) None 0) = Some (Inr resp)" "qp_routes resp = [r]"
    using quote_sample by blast
  have "qv_registry sample_service = registry_from_configs sample_metadata sample_configs" by (simp add: sample_service_def)
  moreover have "pc_default (ps_policy sample_policy) = OpenPolicy" by (simp add: sample_policy_def)
  ultimately show ?thesis using quotes_obey_policy[OF build_sample _ _ q(1), of r] q(2) by auto
qed
end
