(* ===== verification/OrderServer.thy ===== *)
theory OrderServer
  imports BtcExecutor Quotes WatchStore
begin

text \<open>
  Creating orders (orderbook/src/common.rs, orders/matching.rs, orders/service.rs, read_api). The
  identifiers of swaps are computed as the contracts of their chains do; hash functions, base58, the field
  elements of Starknet and the parsers of the big number crates are parameters (\<open>id_crates\<close>), as
  are the Bitcoin functions (\<open>htlc_crates\<close>) and the signature of the quote.
\<close>

section \<open>Bytes\<close>

record 'f id_crates =
  ic_hex_decode :: "string \<Rightarrow> (string, bytes) result"
  ic_hex_encode :: "bytes \<Rightarrow> string"
  ic_sha256 :: "bytes \<Rightarrow> bytes"
  ic_bs58_decode :: "string \<Rightarrow> bytes option"
  ic_biguint_from_str :: "string \<Rightarrow> nat option"
  ic_felt_from_int :: "int \<Rightarrow> 'f option"
  ic_felt_from_hex :: "string \<Rightarrow> 'f option"
  ic_poseidon_hex :: "'f list \<Rightarrow> string"

definition text_bytes :: "string \<Rightarrow> bytes" where
  "text_bytes s = map of_char s"

definition sha256_hex :: "'f id_crates \<Rightarrow> bytes list \<Rightarrow> string" where
  "sha256_hex ic parts = ic_hex_encode ic (ic_sha256 ic (concat parts))"

definition normalize_address :: "string \<Rightarrow> string \<Rightarrow> string" where
  "normalize_address chain addr =
    (if contains ''bitcoin'' chain \<or> contains ''solana'' chain then addr else lower_text addr)"

text \<open>\<open>BigUint::to_bytes_be\<close> and \<open>to_bytes_le\<close>: no leading zeros, and one zero byte for zero.\<close>

fun be_bytes :: "nat \<Rightarrow> bytes" where
  "be_bytes n = (if n < 256 then [of_nat n] else be_bytes (n div 256) @ [of_nat n])"

declare be_bytes.simps [simp del]

definition left_pad_bytes :: "bytes \<Rightarrow> nat \<Rightarrow> bytes" where
  "left_pad_bytes bs n = (if length bs \<ge> n then bs else replicate (n - length bs) 0 @ bs)"

text \<open>A number of more than 32 bytes panics.\<close>

definition abi_encode_uint256 :: "nat \<Rightarrow> bytes option" where
  "abi_encode_uint256 n =
    (let bs = be_bytes n in if length bs > 32 then None else Some (replicate (32 - length bs) 0 @ bs))"

definition hex_text :: "'f id_crates \<Rightarrow> string \<Rightarrow> (message, bytes) result" where
  "hex_text ic s = (case ic_hex_decode ic s of Inl e \<Rightarrow> Inl (Format ''{}'' [ArgStr e]) | Inr bs \<Rightarrow> Inr bs)"

definition decode_and_pad_hex :: "'f id_crates \<Rightarrow> string \<Rightarrow> nat \<Rightarrow> (message, bytes) result" where
  "decode_and_pad_hex ic s n =
    try_bind (hex_text ic (trim_0x s)) (\<lambda>bs.
      if length bs > n then Inl (Format ''{input} too long: expected at most {pad_len} bytes, got {}'' [ArgStr s, ArgNat n, ArgNat (length bs)])
      else Inr (bs @ replicate (n - length bs) 0))"

text \<open>The last 32 bytes, padded on the left.\<close>

definition hex_to_hash :: "'f id_crates \<Rightarrow> string \<Rightarrow> (message, bytes) result" where
  "hex_to_hash ic s =
    try_bind (hex_text ic (strip_0x s)) (\<lambda>bs.
      Inr (if length bs \<le> 32 then replicate (32 - length bs) 0 @ bs else drop (length bs - 32) bs))"

definition bigdecimal_to_i128s :: "big_decimal \<Rightarrow> int \<times> int" where
  "bigdecimal_to_i128s d =
    (let n = (if bd_scale d < 0 then bd_digits d * 10 ^ nat (- bd_scale d)
              else if bd_scale d > 0 then (let q = \<bar>bd_digits d\<bar> div 10 ^ nat (bd_scale d) in if bd_digits d < 0 then - q else q)
              else bd_digits d);
         m = nat \<bar>n\<bar> mod 2 ^ 256 in
     (sint (of_nat m :: 128 word), sint (of_nat (m div 2 ^ 128) :: 128 word)))"

text \<open>\<open>u32::from_str_radix(_, 16)\<close>: an optional plus and hexadecimal digits.\<close>

definition hex_digit :: "char \<Rightarrow> nat option" where
  "hex_digit c =
    (let n = of_char c :: nat in
     if 48 \<le> n \<and> n \<le> 57 then Some (n - 48) else if 65 \<le> n \<and> n \<le> 70 then Some (n - 55)
     else if 97 \<le> n \<and> n \<le> 102 then Some (n - 87) else None)"

definition parse_hex_u32 :: "string \<Rightarrow> u32 option" where
  "parse_hex_u32 s =
    (let ds = (case s of [] \<Rightarrow> [] | c # cs \<Rightarrow> if c = CHR ''+'' then cs else s) in
     if ds = [] \<or> list_ex (\<lambda>c. hex_digit c = None) ds then None
     else Some (of_nat (foldl (\<lambda>n c. 16 * n + unwrap_or (hex_digit c) 0) 0 ds)))"

definition hex_to_u32_array :: "string \<Rightarrow> (message, u32 list) result" where
  "hex_to_u32_array s =
    (let h = strip_0x s in
     if length h \<noteq> 64 then Inl (Format ''invalid hex string length. expected 64 characters, got {}'' [ArgNat (length h)])
     else try_map (\<lambda>i. ok_or (parse_hex_u32 (take 8 (drop (8 * i) h))) (Format ''{parse error}'' [])) [0..<8])"

section \<open>Identifiers of swaps\<close>

record swap_params =
  sm_chain_id :: "128 word"
  sm_initiator_address :: string
  sm_redeemer_address :: string
  sm_timelock :: u64
  sm_secret_hash :: string
  sm_amount :: big_decimal
  sm_htlc_version :: htlc_version
  sm_htlc_address :: string

text \<open>The chain id travels as its decimal text; it is read back as a smaller integer if it fits.\<close>

definition chain_id_below :: "nat \<Rightarrow> swap_params \<Rightarrow> (message, nat) result" where
  "chain_id_below bound p =
    (if unat (sm_chain_id p) < bound then Inr (unat (sm_chain_id p)) else Inl (Format ''number too large to fit in target type'' []))"

definition generate_solana_swap_id :: "'f id_crates \<Rightarrow> swap_params \<Rightarrow> (message, string) result" where
  "generate_solana_swap_id ic p =
    try_bind (chain_id_below (2 ^ 64) p) (\<lambda>chain_id.
    try_bind (decode_and_pad_hex ic (sm_secret_hash p) 32) (\<lambda>secret_hash.
    try_bind (ok_or (ic_bs58_decode ic (trim_0x (sm_initiator_address p)))
        (Format ''invalid base58 initiator address for solana: {}'' [ArgStr (sm_initiator_address p)])) (\<lambda>initiator.
      Inr (sha256_hex ic [left_pad_bytes (be_bytes chain_id) 32, secret_hash, initiator]))))"

definition get_bitcoin_network :: "string \<Rightarrow> (message, network) result" where
  "get_bitcoin_network chain =
    (let c = lower_text chain in
     if c = ''bitcoin'' then Inr Bitcoin else if c = ''bitcoin_regtest'' then Inr Regtest
     else if c = ''bitcoin_testnet'' then Inr Testnet
     else Inl (Format ''Expected one of the following networks: {}, {}, {}'' [ArgStr ''bitcoin'', ArgStr ''bitcoin_testnet'', ArgStr ''bitcoin_regtest'']))"

definition crate_result :: "(string, 'a) result \<Rightarrow> (message, 'a) result" where
  "crate_result r = (case r of Inl e \<Rightarrow> Inl (Format ''{}'' [ArgStr e]) | Inr x \<Rightarrow> Inr x)"

definition generate_bitcoin_swap_id :: "'f id_crates \<Rightarrow> htlc_crates \<Rightarrow> string \<Rightarrow> swap_params \<Rightarrow> (message, string) result" where
  "generate_bitcoin_swap_id ic hc chain p =
    try_bind (get_bitcoin_network chain) (\<lambda>net.
    try_bind (crate_result (hc_xonly_from_str hc (sm_initiator_address p))) (\<lambda>initiator.
    try_bind (crate_result (hc_xonly_from_str hc (sm_redeemer_address p))) (\<lambda>redeemer.
    try_bind (ok_or (parse_u64 (hc_big_decimal_text hc (sm_amount p)))
        (Format ''bitcoin amount is too large, negative, or not a whole number: {}'' [ArgStr (hc_big_decimal_text hc (sm_amount p))])) (\<lambda>amount.
    try_bind (hex_text ic (trim_0x (sm_secret_hash p))) (\<lambda>secret_hash.
      if length secret_hash \<noteq> 32 then Inl (Format ''bitcoin secret hash must be 32 bytes, got {} bytes'' [ArgNat (length secret_hash)])
      else
        try_bind (htlc_address hc \<lparr>hp_initiator_pubkey = initiator, hp_redeemer_pubkey = redeemer, hp_amount = amount,
            hp_secret_hash = secret_hash, hp_timelock = sm_timelock p\<rparr> net) (\<lambda>a. Inr (addr_text a)))))))"

definition generate_starknet_swap_id :: "'f id_crates \<Rightarrow> swap_params \<Rightarrow> (message, string) result" where
  "generate_starknet_swap_id ic p =
    (let felt_error = Format ''{felt error}'' [] in
     try_bind (ok_or (ic_felt_from_int ic (int (unat (sm_chain_id p)))) felt_error) (\<lambda>chain_id.
     try_bind (ok_or (ic_felt_from_hex ic (sm_initiator_address p)) felt_error) (\<lambda>initiator.
     try_bind (ok_or (ic_felt_from_hex ic (sm_redeemer_address p)) felt_error) (\<lambda>redeemer.
     try_bind (ok_or (ic_felt_from_int ic (int (unat (sm_timelock p)))) felt_error) (\<lambda>timelock.
     try_bind (hex_to_u32_array (sm_secret_hash p)) (\<lambda>secret_hash.
       let (lo, hi) = bigdecimal_to_i128s (sm_amount p) in
       try_bind (ok_or (ic_felt_from_int ic lo) felt_error) (\<lambda>amount_low.
       try_bind (ok_or (ic_felt_from_int ic hi) felt_error) (\<lambda>amount_high.
       try_bind (try_map (\<lambda>w. ok_or (ic_felt_from_int ic (uint w)) felt_error) secret_hash) (\<lambda>parts.
         Inr (trim_0x (ic_poseidon_hex ic ([chain_id, initiator, redeemer, timelock, amount_low, amount_high] @ parts))))))))))))"

text \<open>The bytes that are hashed; no result on a panic.\<close>

definition evm_preimage :: "'f id_crates \<Rightarrow> htlc_crates \<Rightarrow> swap_params \<Rightarrow> (message, bytes) result option" where
  "evm_preimage ic hc p =
    (case try_bind (chain_id_below (2 ^ 64) p) (\<lambda>chain_id.
          try_bind (decode_and_pad_hex ic (sm_secret_hash p) 32) (\<lambda>secret_hash.
          try_bind (hex_to_hash ic (sm_initiator_address p)) (\<lambda>initiator.
            Inr (left_pad_bytes (be_bytes chain_id) 32 @ secret_hash @ initiator)))) of
       Inl e \<Rightarrow> Some (Inl e)
     | Inr base \<Rightarrow>
         if sm_htlc_version p = V1 then Some (Inr base)
         else
           (case hex_to_hash ic (sm_redeemer_address p) of
              Inl e \<Rightarrow> Some (Inl e)
            | Inr redeemer \<Rightarrow>
                Option.bind (abi_encode_uint256 (unat (sm_timelock p))) (\<lambda>timelock.
                case ic_biguint_from_str ic (hc_big_decimal_text hc (sm_amount p)) of
                  None \<Rightarrow> Some (Inl (Format ''invalid amount: {}'' []))
                | Some amount \<Rightarrow>
                    Option.bind (abi_encode_uint256 amount) (\<lambda>amount.
                      let data = base @ redeemer @ timelock @ amount in
                      if sm_htlc_version p = V3
                      then Some (try_bind (hex_to_hash ic (sm_htlc_address p)) (\<lambda>htlc. Inr (data @ htlc)))
                      else Some (Inr data)))))"

definition generate_evm_swap_id :: "'f id_crates \<Rightarrow> htlc_crates \<Rightarrow> swap_params \<Rightarrow> (message, string) result option" where
  "generate_evm_swap_id ic hc p =
    map_option (\<lambda>r. try_bind r (\<lambda>data. Inr (sha256_hex ic [data]))) (evm_preimage ic hc p)"

text \<open>\<open>copy_from_slice\<close> and \<open>to_le_bytes\<close>: eight bytes, the least significant first.\<close>

definition le_bytes8 :: "u64 \<Rightarrow> bytes" where
  "le_bytes8 w = map (\<lambda>i. ucast (drop_bit (8 * i) w)) [0..<8]"

definition generate_sui_swap_id :: "'f id_crates \<Rightarrow> swap_params \<Rightarrow> (message, string) result" where
  "generate_sui_swap_id ic p =
    try_bind (chain_id_below 256 p) (\<lambda>chain_id.
    try_bind (hex_text ic (sm_secret_hash p)) (\<lambda>secret_hash.
    try_bind (hex_text ic (trim_0x (sm_initiator_address p))) (\<lambda>initiator.
    try_bind (hex_text ic (trim_0x (sm_redeemer_address p))) (\<lambda>redeemer.
    try_bind (ok_or (big_decimal_to_i64 (sm_amount p)) (Format ''failed to convert amount to i64'' [])) (\<lambda>amount.
    try_bind (hex_text ic (trim_0x (sm_htlc_address p))) (\<lambda>reg_id.
      Inr (sha256_hex ic [replicate 31 0 @ [of_nat chain_id], secret_hash, initiator, redeemer,
        le_bytes8 (sm_timelock p) @ replicate 24 0, le_bytes8 amount, reg_id])))))))"

definition generate_swap_id ::
    "'f id_crates \<Rightarrow> htlc_crates \<Rightarrow> (string \<times> 128 word) list \<Rightarrow> string \<Rightarrow> string \<Rightarrow> string \<Rightarrow> u64 \<Rightarrow> string \<Rightarrow> big_decimal
      \<Rightarrow> htlc_version \<Rightarrow> string \<Rightarrow> (message, string) result option" where
  "generate_swap_id ic hc chain_ids chain initiator redeemer timelock secret_hash amount version htlc =
    (case map_of chain_ids chain of
       None \<Rightarrow> Some (Inl (Format ''missing chain_id for chain: {chain}'' [ArgStr chain]))
     | Some chain_id \<Rightarrow>
         let p = \<lparr>sm_chain_id = chain_id, sm_initiator_address = initiator, sm_redeemer_address = redeemer, sm_timelock = timelock,
                  sm_secret_hash = secret_hash, sm_amount = amount, sm_htlc_version = version, sm_htlc_address = htlc\<rparr> in
         if contains ''bitcoin'' chain \<or> contains ''alpen'' chain \<or> contains ''litecoin'' chain
         then Some (generate_bitcoin_swap_id ic hc chain p)
         else if contains ''solana'' chain then Some (generate_solana_swap_id ic p)
         else if contains ''starknet'' chain then Some (generate_starknet_swap_id ic p)
         else if contains ''sui'' chain then Some (generate_sui_swap_id ic p)
         else generate_evm_swap_id ic hc p)"

section \<open>The fee and the signature of an order\<close>

definition calculate_match_fee ::
    "quote_crate \<Rightarrow> big_decimal \<Rightarrow> big_decimal \<Rightarrow> u8 \<Rightarrow> u8 \<Rightarrow> rat \<Rightarrow> rat \<Rightarrow> (message, rat) result option" where
  "calculate_match_fee qc source destination source_decimals destination_decimals input_price output_price =
    (if bd_value source = 0 \<or> bd_value destination = 0 then Some (Inr 0)
     else
       case try_bind (ok_or (qc_parse_f64 qc input_price) (Format ''{decimal error}'' [])) (\<lambda>ip.
          try_bind (ok_or (qc_parse_f64 qc output_price) (Format ''{decimal error}'' [])) (\<lambda>op. Inr (bd_value ip, bd_value op))) of
         Inl e \<Rightarrow> Some (Inl e)
       | Inr (ip, op) \<Rightarrow>
           let s = u64_pow10 (unat source_decimals); d = u64_pow10 (unat destination_decimals) in
           if s = 0 \<or> d = 0 then None
           else Some (Inr (dc_div qc (bd_value source) (of_nat (unat s)) * ip - dc_div qc (bd_value destination) (of_nat (unat d)) * op)))"

record 'd order_payload =
  op_source_chain :: string
  op_destination_chain :: string
  op_source_asset :: string
  op_destination_asset :: string
  op_initiator_source_address :: "string option"
  op_initiator_destination_address :: "string option"
  op_source_amount :: big_decimal
  op_destination_amount :: big_decimal
  op_fee :: "big_decimal option"
  op_user_id :: "string option"
  op_nonce :: "big_decimal option"
  op_min_destination_confirmations :: "u64 option"
  op_timelock :: "u64 option"
  op_secret_hash :: "string option"
  op_affiliate_fees :: "affiliate_fee list"
  op_additional_data :: 'd

record signable_data =
  sd_strategy_id :: string
  sd_bitcoin_optional_recipient :: "string option"
  sd_input_token_price :: rat
  sd_output_token_price :: rat
  sd_deadline :: int

definition signable_of :: "order_data \<Rightarrow> signable_data" where
  "signable_of d =
    \<lparr>sd_strategy_id = ad_strategy_id d, sd_bitcoin_optional_recipient = ad_bitcoin_optional_recipient d,
     sd_input_token_price = ad_input_token_price d, sd_output_token_price = ad_output_token_price d, sd_deadline = ad_deadline d\<rparr>"

definition signable_order :: "order_data order_payload \<Rightarrow> signable_data order_payload" where
  "signable_order p =
    \<lparr>op_source_chain = op_source_chain p, op_destination_chain = op_destination_chain p, op_source_asset = op_source_asset p,
     op_destination_asset = op_destination_asset p, op_initiator_source_address = op_initiator_source_address p,
     op_initiator_destination_address = op_initiator_destination_address p, op_source_amount = op_source_amount p,
     op_destination_amount = op_destination_amount p, op_fee = op_fee p, op_user_id = None, op_nonce = op_nonce p,
     op_min_destination_confirmations = op_min_destination_confirmations p, op_timelock = op_timelock p,
     op_secret_hash = op_secret_hash p, op_affiliate_fees = op_affiliate_fees p,
     op_additional_data = signable_of (op_additional_data p)\<rparr>"

text \<open>The JSON text and the signer are the parameter \<open>signer\<close>, from the key to the hexadecimal signature.\<close>

definition sign_order_payload ::
    "'f id_crates \<Rightarrow> (bytes \<Rightarrow> signable_data order_payload \<Rightarrow> (message, bytes) result) \<Rightarrow> order_data order_payload \<Rightarrow> string option
      \<Rightarrow> (message, string) result" where
  "sign_order_payload ic signer p key =
    (case key of
       None \<Rightarrow> Inr []
     | Some k \<Rightarrow>
         try_bind (hex_text ic k) (\<lambda>key. try_bind (signer key (signable_order p)) (\<lambda>sig. Inr (ic_hex_encode ic sig))))"

section \<open>Creating an order\<close>

record create_request =
  cq_from :: string
  cq_to :: string
  cq_from_amount :: "big_decimal option"
  cq_to_amount :: "big_decimal option"
  cq_initiator_source_address :: string
  cq_initiator_destination_address :: string
  cq_secret_hash :: string
  cq_strategy_id :: "string option"
  cq_affiliate_fee :: u64
  cq_slippage :: "u64 option"
  cq_nonce :: "big_decimal option"
  cq_bitcoin_optional_recipient :: "string option"
  cq_source_delegator :: "string option"

definition validate_secret_hash :: "'f id_crates \<Rightarrow> string \<Rightarrow> (app_error, unit) result" where
  "validate_secret_hash ic s =
    (if length s \<noteq> 64 then Inl (bad_request ''secret_hash must be a 64 character hex string'')
     else if take 2 s = ''0x'' then Inl (bad_request ''secret_hash must not be 0x-prefixed'')
     else (case ic_hex_decode ic s of Inl _ \<Rightarrow> Inl (bad_request ''invalid secret_hash hex'') | Inr _ \<Rightarrow> Inr ()))"

definition request_quote :: "create_request \<Rightarrow> quote_request" where
  "request_quote cq =
    \<lparr>qr_from = cq_from cq, qr_to = cq_to cq, qr_from_amount = cq_from_amount cq, qr_to_amount = cq_to_amount cq,
     qr_affiliate_fee = cq_affiliate_fee cq, qr_slippage = cq_slippage cq, qr_strategy_id = cq_strategy_id cq\<rparr>"

definition saturating_mul :: "u64 \<Rightarrow> u64 \<Rightarrow> u64" where
  "saturating_mul a b = (if unat a * unat b < 2 ^ 64 then a * b else - 1)"

definition source_timelock_of :: "strategy \<Rightarrow> i32" where
  "source_timelock_of st = ucast (saturating_mul (st_min_source_timelock st) 12)"

fun version_rank :: "htlc_version \<Rightarrow> nat" where
  "version_rank V1 = 1"
| "version_rank V2 = 2"
| "version_rank V3 = 3"

definition max_version :: "htlc_version \<Rightarrow> htlc_version \<Rightarrow> htlc_version" where
  "max_version a b = (if version_rank a > version_rank b then a else b)"

record 'f order_service =
  os_quote_service :: quote_service
  os_quote_settings :: quote_settings
  os_chain_ids :: "(string \<times> 128 word) list"
  os_crates :: "'f id_crates"
  os_sign :: "bytes \<Rightarrow> signable_data order_payload \<Rightarrow> (message, bytes) result"
  os_random :: u64

definition order_deadline :: "quote_settings \<Rightarrow> strategy \<Rightarrow> timestamp \<Rightarrow> timestamp" where
  "order_deadline qs st now =
    now + (if contains ''bitcoin'' (st_source_chain st) then 6 * 60 else qs_order_deadline_in_minutes qs) * 60 * 1000000000"

definition order_data_of :: "'f order_service \<Rightarrow> create_request \<Rightarrow> strategy \<Rightarrow> quote_response \<Rightarrow> timestamp \<Rightarrow> order_data" where
  "order_data_of os cq st q now =
    \<lparr>ad_strategy_id = st_id st, ad_bitcoin_optional_recipient = cq_bitcoin_optional_recipient cq,
     ad_input_token_price = qp_input_token_price q, ad_output_token_price = qp_output_token_price q,
     ad_deadline = order_deadline (os_quote_settings os) st now div 1000000000, ad_instant_refund_tx_bytes = None,
     ad_is_blacklisted = False, ad_source_delegator = cq_source_delegator cq, ad_sig = [], ad_redeem_tx_bytes = None,
     ad_tx_hash = None, ad_integrator = None,
     ad_version = max_version (sa_version (st_source_asset st)) (sa_version (st_dest_asset st)), ad_bitcoin = None\<rparr>"

definition source_asset_of :: "strategy \<Rightarrow> string" where
  "source_asset_of st = normalize_address (st_source_chain st) (sa_htlc_address (st_source_asset st))"

definition dest_asset_of :: "strategy \<Rightarrow> string" where
  "dest_asset_of st = normalize_address (st_dest_chain st) (sa_htlc_address (st_dest_asset st))"

definition order_nonce :: "'f order_service \<Rightarrow> create_request \<Rightarrow> big_decimal" where
  "order_nonce os cq = unwrap_or (cq_nonce cq) (BigDecimal (uint (os_random os)) 0)"

definition unsigned_order :: "'f order_service \<Rightarrow> create_request \<Rightarrow> strategy \<Rightarrow> quote_route \<Rightarrow> order_data \<Rightarrow> order_data order_payload" where
  "unsigned_order os cq st r data =
    \<lparr>op_source_chain = st_source_chain st, op_destination_chain = st_dest_chain st, op_source_asset = source_asset_of st,
     op_destination_asset = dest_asset_of st,
     op_initiator_source_address = Some (normalize_address (st_source_chain st) (cq_initiator_source_address cq)),
     op_initiator_destination_address = Some (normalize_address (st_dest_chain st) (cq_initiator_destination_address cq)),
     op_source_amount = qa_amount (ro_source r), op_destination_amount = qa_amount (ro_destination r), op_fee = Some (BigDecimal 1 0),
     op_user_id = None, op_nonce = Some (order_nonce os cq), op_min_destination_confirmations = Some 0,
     op_timelock = Some (scast (source_timelock_of st)), op_secret_hash = Some (cq_secret_hash cq), op_affiliate_fees = [],
     op_additional_data = data\<rparr>"

definition new_swap :: "timestamp \<Rightarrow> string \<Rightarrow> string \<Rightarrow> strategy_asset \<Rightarrow> string \<Rightarrow> string \<Rightarrow> i32 \<Rightarrow> big_decimal \<Rightarrow> string \<Rightarrow> i32 \<Rightarrow> swap_row" where
  "new_swap now sid chain asset initiator redeemer timelock amount secret_hash confirmations =
    \<lparr>sw_created_at = now, sw_swap_id = sid, sw_chain = chain, sw_asset = normalize_address chain (sa_htlc_address asset),
     sw_initiator = normalize_address chain initiator, sw_redeemer = normalize_address chain redeemer, sw_timelock = timelock,
     sw_filled_amount = BigDecimal 0 0, sw_amount = amount, sw_secret_hash = secret_hash, sw_secret = [], sw_initiate_tx_hash = [],
     sw_redeem_tx_hash = [], sw_refund_tx_hash = [], sw_initiate_block_number = None, sw_redeem_block_number = None,
     sw_refund_block_number = None, sw_required_confirmations = confirmations, sw_current_confirmations = 0,
     sw_initiate_timestamp = None, sw_redeem_timestamp = None, sw_refund_timestamp = None,
     sr_updated_at = now, sr_deleted_at = None, sr_htlc_address = Some (sa_htlc_address asset), sr_token_address = Some (sa_token_address asset)\<rparr>"

definition build_order ::
    "'f order_service \<Rightarrow> create_request \<Rightarrow> strategy \<Rightarrow> quote_route \<Rightarrow> timestamp \<Rightarrow> string \<Rightarrow> string \<Rightarrow> order_data \<Rightarrow> big_decimal \<Rightarrow> verbose_order" where
  "build_order os cq st r now source_id destination_id data fee =
    \<lparr>vo_created_at = now, vo_updated_at = now, vo_deleted_at = None,
     vo_source_swap = new_swap now source_id (st_source_chain st) (st_source_asset st) (cq_initiator_source_address cq)
       (st_source_chain_address st) (source_timelock_of st) (qa_amount (ro_source r)) (cq_secret_hash cq) (ucast (st_min_source_confirmations st)),
     vo_destination_swap = new_swap now destination_id (st_dest_chain st) (st_dest_asset st) (st_dest_chain_address st)
       (cq_initiator_destination_address cq) (ucast (st_destination_timelock st)) (qa_amount (ro_destination r)) (cq_secret_hash cq) 0,
     vo_create_order =
       \<lparr>cr_created_at = now, cr_updated_at = now, cr_deleted_at = None, cr_create_id = sha256_hex (os_crates os) [text_bytes (cq_secret_hash cq)],
        cr_block_number = BigDecimal 0 0, cr_source_chain = st_source_chain st, cr_destination_chain = st_dest_chain st,
        cr_source_asset = source_asset_of st, cr_destination_asset = dest_asset_of st,
        cr_initiator_source_address = normalize_address (st_source_chain st) (cq_initiator_source_address cq),
        cr_initiator_destination_address = normalize_address (st_dest_chain st) (cq_initiator_destination_address cq),
        cr_source_amount = qa_amount (ro_source r), cr_destination_amount = qa_amount (ro_destination r), cr_fee = fee,
        cr_nonce = order_nonce os cq, cr_min_destination_confirmations = 0, cr_timelock = source_timelock_of st,
        cr_secret_hash = cq_secret_hash cq, cr_user_id = None, cr_affiliate_fees = Some [], cr_additional_data = data\<rparr>\<rparr>"

definition app_result :: "(message, 'a) result \<Rightarrow> (app_error, 'a) result" where
  "app_result r = (case r of Inl m \<Rightarrow> Inl (AppInternal m) | Inr x \<Rightarrow> Inr x)"

definition orderbook_result :: "(orderbook_error, 'a) result \<Rightarrow> (app_error, 'a) result" where
  "orderbook_result r = (case r of Inl e \<Rightarrow> Inl (app_error_of_orderbook e) | Inr x \<Rightarrow> Inr x)"

text \<open>
  Everything before the insertion: the checks, the quote, the identifiers, the signature. The decimal
  of the fee is given by its value (\<open>decimal_of\<close>).
\<close>

definition prepare_order ::
    "quote_crate \<Rightarrow> htlc_crates \<Rightarrow> (rat \<Rightarrow> big_decimal) \<Rightarrow> 'f order_service \<Rightarrow> db_view \<Rightarrow> create_request \<Rightarrow> orderbook_db \<Rightarrow> verbose_order reply" where
  "prepare_order qc hc decimal_of os v cq db =
    (let now = dv_now v; ic = os_crates os in
     reply_bind (Some (validate_secret_hash ic (cq_secret_hash cq))) (\<lambda>_.
     reply_bind (Some (orderbook_result (secret_hash_exists v (cq_secret_hash cq) db))) (\<lambda>exists.
     reply_bind (Some (ensure (\<not> exists) (AppConflict (Format ''secret hash already exists'' [])))) (\<lambda>_.
     reply_bind (quote qc (os_quote_service os) (request_quote cq)) (\<lambda>q.
     reply_bind (Some (ok_or (qp_best q) (bad_request ''no route available for order''))) (\<lambda>r.
     reply_bind (Some (ok_or (find_strategy (qv_registry (os_quote_service os)) (ro_strategy_id r)) (bad_request ''selected strategy no longer exists''))) (\<lambda>st.
     reply_bind (map_option app_result (generate_swap_id ic hc (os_chain_ids os) (st_source_chain st) (cq_initiator_source_address cq)
         (st_source_chain_address st) (scast (source_timelock_of st)) (cq_secret_hash cq) (qa_amount (ro_source r))
         (sa_version (st_source_asset st)) (sa_htlc_address (st_source_asset st)))) (\<lambda>source_id.
     reply_bind (map_option app_result (generate_swap_id ic hc (os_chain_ids os) (st_dest_chain st) (st_dest_chain_address st)
         (cq_initiator_destination_address cq) (st_destination_timelock st) (cq_secret_hash cq) (qa_amount (ro_destination r))
         (sa_version (st_dest_asset st)) (sa_htlc_address (st_dest_asset st)))) (\<lambda>destination_id.
       let data = order_data_of os cq st q now;
           sig = (case sign_order_payload ic (os_sign os) (unsigned_order os cq st r data) (qs_quote_private_key (os_quote_settings os)) of
                    Inl _ \<Rightarrow> [] | Inr s \<Rightarrow> s);
           fee = (if st_fee st = 0 then Some (Inr 0)
                  else map_option app_result (calculate_match_fee qc (qa_amount (ro_source r)) (qa_amount (ro_destination r))
                    (sa_decimals (st_source_asset st)) (sa_decimals (st_dest_asset st)) (qp_input_token_price q) (qp_output_token_price q))) in
       reply_bind fee (\<lambda>fee.
         Some (Inr (build_order os cq st r now source_id destination_id (data\<lparr>ad_sig := sig\<rparr>) (decimal_of fee)))))))))))))"

definition create_order_request ::
    "quote_crate \<Rightarrow> htlc_crates \<Rightarrow> (rat \<Rightarrow> big_decimal) \<Rightarrow> 'f order_service \<Rightarrow> db_view \<Rightarrow> conflicts \<Rightarrow> create_request \<Rightarrow> orderbook_db
      \<Rightarrow> verbose_order reply \<times> orderbook_db" where
  "create_order_request qc hc decimal_of os v cn cq db =
    (case prepare_order qc hc decimal_of os v cq db of
       Some (Inr ord) \<Rightarrow>
         (case create_matched_order v cn ord db of
            (Inl e, db) \<Rightarrow> (Some (Inl (app_error_of_orderbook e)), db)
          | (Inr _, db) \<Rightarrow> (Some (Inr ord), db))
     | r \<Rightarrow> (r, db))"

section \<open>Reading orders\<close>

definition get_order :: "db_view \<Rightarrow> string \<Rightarrow> orderbook_db \<Rightarrow> (app_error, verbose_order) result" where
  "get_order v i db =
    try_bind (orderbook_result (get_matched_order v i db)) (\<lambda>r.
      ok_or r (AppNotFound (Format ''order not found: {id}'' [ArgStr i])))"

definition list_orders :: "db_view \<Rightarrow> order_filters \<Rightarrow> orderbook_db \<Rightarrow> verbose_order paginated reply" where
  "list_orders v f db = map_option orderbook_result (get_all_matched_orders v f db)"

end
