(* ===== verification/OrderServerProps.thy ===== *)
theory OrderServerProps
  imports OrderServer OrderbookProps QuoteProps
begin

text \<open>
  Created orders: they carry the quote they come from and start idle; the addresses of their Bitcoin swaps are
  the ones that the executor derives; the identifiers of their EVM swaps tell different swaps apart;
  and they leave the liquidity that later quotes see untouched.
\<close>

section \<open>Creation\<close>

lemma create_order_request_ok:
  assumes "create_order_request qc hc decimal_of os v cn cq db = (Some (Inr ord), db')"
  shows "prepare_order qc hc decimal_of os v cq db = Some (Inr ord) \<and> create_matched_order v cn ord db = (Inr (), db')"
  using assms by (auto simp: create_order_request_def split: option.splits sum.splits prod.splits)

lemma prepare_order_ok:
  assumes "prepare_order qc hc decimal_of os v cq db = Some (Inr ord)"
  obtains q r st source_id destination_id data fee where
    "validate_secret_hash (os_crates os) (cq_secret_hash cq) = Inr ()"
    "secret_hash_exists v (cq_secret_hash cq) db = Inr False"
    "quote qc (os_quote_service os) (request_quote cq) = Some (Inr q)" "qp_best q = Some r"
    "find_strategy (qv_registry (os_quote_service os)) (ro_strategy_id r) = Some st"
    "generate_swap_id (os_crates os) hc (os_chain_ids os) (st_source_chain st) (cq_initiator_source_address cq)
         (st_source_chain_address st) (scast (source_timelock_of st)) (cq_secret_hash cq) (qa_amount (ro_source r))
         (sa_version (st_source_asset st)) (sa_htlc_address (st_source_asset st)) = Some (Inr source_id)"
    "generate_swap_id (os_crates os) hc (os_chain_ids os) (st_dest_chain st) (st_dest_chain_address st)
         (cq_initiator_destination_address cq) (st_destination_timelock st) (cq_secret_hash cq) (qa_amount (ro_destination r))
         (sa_version (st_dest_asset st)) (sa_htlc_address (st_dest_asset st)) = Some (Inr destination_id)"
    "ord = build_order os cq st r (dv_now v) source_id destination_id data fee"
    "ad_strategy_id data = st_id st" "ad_input_token_price data = qp_input_token_price q"
    "ad_output_token_price data = qp_output_token_price q" "ad_is_blacklisted data = False"
proof -
  have ids: "map_option app_result x = Some (Inr y) \<longleftrightarrow> x = Some (Inr y)" for x :: "(message, string) result option" and y
    by (cases x) (auto simp: app_result_def split: sum.splits)
  have exists: "orderbook_result x = Inr b \<longleftrightarrow> x = Inr b" for x :: "(orderbook_error, bool) result" and b
    by (auto simp: orderbook_result_def split: sum.splits)
  note run = assms[unfolded prepare_order_def Let_def]
  show thesis
    using run
    by (auto simp only: reply_bind_eq_Inr option.inject sum.inject ok_or_eq_Inr ensure_eq_Inr ids exists not_False_eq_True)
      (rule that, auto simp: order_data_of_def)
qed

lemma stored_new_swap:
  "stored_swap (new_swap now sid chain asset initiator redeemer timelock amount secret_hash confirmations)
    = (new_swap now sid chain asset initiator redeemer timelock amount secret_hash confirmations)
      \<lparr>sw_asset := lower_text (normalize_address chain (sa_htlc_address asset)),
       sr_htlc_address := Some (normalize_address chain (sa_htlc_address asset)),
       sr_token_address := Some (normalize_address chain (sa_token_address asset))\<rparr>"
proof -
  have norm: "normalize_if (case_sensitive chain) = normalize_address chain"
    by (simp add: normalize_if_def normalize_address_def case_sensitive_def fun_eq_iff)
  have lower: "to_lower (to_lower c) = to_lower c" for c
  proof (cases "65 \<le> (of_char c :: nat) \<and> of_char c \<le> (90 :: nat)")
    case True
    then have "(of_char (char_of ((of_char c :: nat) + 32)) :: nat) = of_char c + 32" by simp
    with True show ?thesis by (simp add: to_lower_def)
  next
    case False
    then have "to_lower c = c" by (auto simp: to_lower_def)
    then show ?thesis by simp
  qed
  have "lower_text (lower_text s) = lower_text s" for s by (simp add: lower_text_def lower)
  then have "normalize_address chain (normalize_address chain s) = normalize_address chain s" for s
    by (simp add: normalize_address_def)
  then show ?thesis by (simp add: stored_swap_def new_swap_def norm Let_def)
qed

lemma fresh_order_idle:
  assumes "vo_source_swap row = new_swap now sid chain a i r t amt h c \<or> vo_source_swap row = stored_swap (new_swap now sid chain a i r t amt h c)"
    and "vo_destination_swap row = new_swap now' sid' chain' a' i' r' t' amt' h' c' \<or> vo_destination_swap row = stored_swap (new_swap now' sid' chain' a' i' r' t' amt' h' c')"
  shows "map_order m w w' (matched_view row) latest = Inr \<lparr>ai_action = ANoOp, ai_swap = None\<rparr>"
proof -
  let ?ord = "matched_view row"
  have src: "sw_initiate_tx_hash (mo_source_swap ?ord) = []" "sw_initiate_block_number (mo_source_swap ?ord) = None"
    using assms(1) unfolding stored_new_swap by (auto simp: matched_view_def new_swap_def single_swap.defs)
  have dst: "sw_initiate_block_number (mo_destination_swap ?ord) = None"
    using assms(2) unfolding stored_new_swap by (auto simp: matched_view_def new_swap_def single_swap.defs)
  have "can_instant_refund m u ?ord = Inr False" for u
    using src by (simp add: can_instant_refund_def has_valid_initiate_def ms_is_some_def Let_def)
  moreover have "can_initiate m u ?ord = Inr False" for u
    using src by (simp add: can_initiate_def has_valid_initiate_def ms_is_some_def Let_def)
  moreover have "\<not> can_refund m ?ord n" for n
    using dst by (simp add: can_refund_def is_valid_block_number_def)
  moreover have "\<not> can_redeem m ?ord"
    using src by (simp add: can_redeem_def has_valid_initiate_def ms_is_some_def)
  ultimately show ?thesis
    by (simp add: map_order_def check_destination_chain_actions_def check_source_chain_actions_def Let_def split: option.splits)
qed

text \<open>C34: A created order is the quote, made durable. When a request succeeds, exactly one order is added to
  the tables; its amounts are those of the best route of the quote, at the prices of the quote, both its
  swaps are locked by the hash of the request, no earlier order carries that text of the hash, and no
  executor acts on it yet; when a request fails, the tables are as before.\<close>

theorem created_order_matches_quote:
  assumes "db_ok db" "keyed cn" "create_order_request qc hc decimal_of os v cn cq db = (result, db')"
  shows "(\<exists>ord q r. result = Some (Inr ord) \<and> joined db' = joined db @ [stored_order ord]
      \<and> quote qc (os_quote_service os) (request_quote cq) = Some (Inr q) \<and> qp_best q = Some r
      \<and> sw_amount (vo_source_swap ord) = qa_amount (ro_source r) \<and> sw_amount (vo_destination_swap ord) = qa_amount (ro_destination r)
      \<and> ad_input_token_price (cr_additional_data (vo_create_order ord)) = qp_input_token_price q
      \<and> ad_output_token_price (cr_additional_data (vo_create_order ord)) = qp_output_token_price q
      \<and> sw_secret_hash (vo_source_swap ord) = cq_secret_hash cq \<and> sw_secret_hash (vo_destination_swap ord) = cq_secret_hash cq
      \<and> (\<forall>c \<in> set (ob_creates db). cr_secret_hash c \<noteq> cq_secret_hash cq)
      \<and> (\<forall>m w w' latest. map_order m w w' (matched_view (stored_order ord)) latest = Inr \<lparr>ai_action = ANoOp, ai_swap = None\<rparr>))
    \<or> (\<nexists>ord. result = Some (Inr ord)) \<and> db' = db"
proof (cases "\<exists>ord. result = Some (Inr ord)")
  case True
  then obtain ord where ord: "result = Some (Inr ord)" by blast
  with assms(3) create_order_request_ok have prep: "prepare_order qc hc decimal_of os v cq db = Some (Inr ord)"
    and ins: "create_matched_order v cn ord db = (Inr (), db')" by fastforce+
  from prep obtain q r st source_id destination_id data fee where p:
    "secret_hash_exists v (cq_secret_hash cq) db = Inr False"
    "quote qc (os_quote_service os) (request_quote cq) = Some (Inr q)" "qp_best q = Some r"
    "ord = build_order os cq st r (dv_now v) source_id destination_id data fee"
    "ad_input_token_price data = qp_input_token_price q" "ad_output_token_price data = qp_output_token_price q"
    by (rule prepare_order_ok) metis
  have fresh: "\<forall>c \<in> set (ob_creates db). cr_secret_hash c \<noteq> cq_secret_hash cq"
    using p(1) by (auto simp: secret_hash_exists_def try_simps list_ex_iff)
  have idle: "map_order m w w' (matched_view (stored_order ord)) latest = Inr \<lparr>ai_action = ANoOp, ai_swap = None\<rparr>" for m w w' latest
    unfolding p(4) by (rule fresh_order_idle) (auto simp: stored_order_def build_order_def)
  have join: "joined db' = joined db @ [stored_order ord]" by (rule joined_create[OF assms(1,2) ins])
  have terms: "sw_amount (vo_source_swap ord) = qa_amount (ro_source r)" "sw_amount (vo_destination_swap ord) = qa_amount (ro_destination r)"
    "sw_secret_hash (vo_source_swap ord) = cq_secret_hash cq" "sw_secret_hash (vo_destination_swap ord) = cq_secret_hash cq"
    "cr_additional_data (vo_create_order ord) = data"
    by (simp_all add: p(4) build_order_def new_swap_def)
  have "quote qc (os_quote_service os) (request_quote cq) = Some (Inr q) \<and> qp_best q = Some r" using p(2,3) by simp
  with ord join terms p(5,6) fresh idle show ?thesis by (metis (no_types, lifting))
next
  case False
  have "db' = db"
  proof (cases "prepare_order qc hc decimal_of os v cq db")
    case None
    with assms(3) show ?thesis by (simp add: create_order_request_def)
  next
    case (Some p)
    show ?thesis
    proof (cases p)
      case Inl
      with Some assms(3) show ?thesis by (simp add: create_order_request_def)
    next
      case (Inr ord)
      obtain r db1 where c: "create_matched_order v cn ord db = (r, db1)" by fastforce
      show ?thesis
      proof (cases r)
        case Inl
        with c have "db1 = db" using create_matched_order_error by blast
        with Inl c Some Inr assms(3) show ?thesis by (simp add: create_order_request_def)
      next
        case (Inr u)
        with c Some \<open>p = Inr ord\<close> assms(3) have "result = Some (Inr ord)" by (simp add: create_order_request_def)
        with False show ?thesis by blast
      qed
    qed
  qed
  with False show ?thesis by blast
qed

section \<open>Liquidity\<close>

text \<open>C35: Open orders do not use up liquidity. After an order has been created, and after the deposit of its user has been
  recorded, a refresh shows the same free liquidity of every asset as before, so the same quote is
  answered again: the solver promises the same funds to any number of orders.\<close>

theorem orders_overcommit_liquidity:
  assumes "db_ok db" "keyed cn" "create_order_request qc hc decimal_of os v cn cq db = (Some (Inr ord), db1)"
    and "update_swap_initiate v1 (sw_swap_id (vo_source_swap ord)) filled tx block time db1 = (Inr (), db2)"
  shows "refresh_liquidity v2 fetch mi db2 configs = refresh_liquidity v2 fetch mi db configs
    \<and> quote qc (qv\<lparr>qv_liquidity := refresh_liquidity v2 fetch mi db2 configs\<rparr>) req
      = quote qc (qv\<lparr>qv_liquidity := refresh_liquidity v2 fetch mi db configs\<rparr>) req"
proof -
  note ok = create_order_request_ok[OF assms(3)]
  from conjunct1[OF ok] obtain st r source_id destination_id data fee where "ord = build_order os cq st r (dv_now v) source_id destination_id data fee"
    by (rule prepare_order_ok) blast
  then have "sw_initiate_block_number (vo_destination_swap ord) = None" by (simp add: build_order_def new_swap_def)
  with ok assms(1,2,4) have "get_solver_committed_funds v2 addr chain asset db2 = get_solver_committed_funds v2 addr chain asset db" for addr chain asset
    using open_order_reserves_nothing by blast
  then have "refresh_asset v2 fetch mi db2 c s a = refresh_asset v2 fetch mi db c s a" for c s a
    unfolding refresh_asset_def by presburger
  then have "refresh_asset v2 fetch mi db2 = refresh_asset v2 fetch mi db" by (intro ext)
  then show ?thesis by (simp add: refresh_liquidity_def)
qed

section \<open>Examples\<close>

definition server_hc :: htlc_crates where
  "server_hc =
    \<lparr>hc_into_script = \<lambda>_. [], hc_leaf_hash = \<lambda>_. 0, hc_add_leaf_error = \<lambda>_ _. None, hc_is_finalizable = \<lambda>_. True,
     hc_finalizes = \<lambda>_ _. True, hc_merkle_root = \<lambda>_. None, hc_control_block = \<lambda>_ _. Some [],
     hc_p2tr = \<lambda>_ _ _. \<lparr>addr_text = ''bc1p'', addr_script = [83]\<rparr>, hc_internal_key = [],
     hc_alloy_hex_decode = \<lambda>s. Inr (text_bytes s), hc_hex_encode = \<lambda>_. [], hc_sha256 = id,
     hc_xonly_from_str = \<lambda>s. Inr (text_bytes s), hc_address_from_str = \<lambda>s. Inr \<lparr>addr_text = s, addr_script = [84]\<rparr>,
     hc_require_network = \<lambda>a _. Inr a, hc_address_from_script = \<lambda>_ _. Inr \<lparr>addr_text = ''user'', addr_script = [84]\<rparr>,
     hc_big_decimal_text = \<lambda>_. ''990'', hc_txid_text = \<lambda>_. ''tx1'',
     hc_signature_from_slice = \<lambda>bs. Inr (bs, SighashSinglePlusAnyoneCanPay), hc_verify_schnorr = \<lambda>_ _ _. Inr (),
     hc_sighash = \<lambda>_ _ _ _ _ _. Inr 0\<rparr>"

definition sample_hash :: string where
  "sample_hash = replicate 64 CHR ''a''"

definition sample_bytes :: bytes where
  "sample_bytes = replicate 32 1"

lemma sample_hash_facts [simp]:
  "length sample_hash = 64" "take 2 sample_hash \<noteq> ''0x''" "trim_0x sample_hash = sample_hash" "length sample_bytes = 32"
  by code_simp+

definition server_crates :: "nat id_crates" where
  "server_crates =
    \<lparr>ic_hex_decode = (\<lambda>_. Inr sample_bytes), ic_hex_encode = (\<lambda>_. ''id''), ic_sha256 = id, ic_bs58_decode = (\<lambda>_. None),
     ic_biguint_from_str = (\<lambda>_. Some 7), ic_felt_from_int = (\<lambda>_. Some 0), ic_felt_from_hex = (\<lambda>_. Some 0), ic_poseidon_hex = (\<lambda>_. [])\<rparr>"

definition sample_server :: "nat order_service" where
  "sample_server =
    \<lparr>os_quote_service = sample_service, os_quote_settings = qv_settings sample_service,
     os_chain_ids = [(''base'', 1), (''bitcoin'', 0)], os_crates = server_crates,
     os_sign = (\<lambda>_ _. Inr []), os_random = 5\<rparr>"

definition sample_creation :: create_request where
  "sample_creation =
    \<lparr>cq_from = ''base:usdc'', cq_to = ''bitcoin:btc'', cq_from_amount = Some (BigDecimal 1000 0), cq_to_amount = None,
     cq_initiator_source_address = ''0xAA'', cq_initiator_destination_address = ''02'',
     cq_secret_hash = sample_hash, cq_strategy_id = None, cq_affiliate_fee = 0, cq_slippage = None, cq_nonce = None,
     cq_bitcoin_optional_recipient = None, cq_source_delegator = None\<rparr>"

lemma quote_sample_route:
  "\<exists>q r. quote exact_crate sample_service (sample_request (Some (BigDecimal 1000 0)) None 0) = Some (Inr q) \<and> qp_best q = Some r
    \<and> qp_input_token_price q = 1 \<and> qp_output_token_price q = 1
    \<and> ro_strategy_id r = st_id sample_strategy \<and> qa_amount (ro_source r) = BigDecimal 1000 0 \<and> qa_amount (ro_destination r) = BigDecimal 990 0"
proof -
  obtain source where calc: "calculate_output_amount exact_crate sample_strategy (BigDecimal 1000 0) 1 1 0 0
      = Some (Inr (source, \<lparr>qa_asset = dest_name sample_strategy, qa_amount = BigDecimal 990 0, qa_display = 99 / 10, qa_value = 99 / 10\<rparr>))"
    using calculate_sample by blast
  have "qa_amount source = BigDecimal 1000 0" using calculate_output_amount_ok[OF calc] by simp
  moreover have "bd_value (BigDecimal 990 0) \<le> 2000" by (simp add: bd_value_def)
  ultimately show ?thesis
    by (simp add: quote_def sample_request_def sample_service_def sample_lookups route_amounts_def quote_slippage_def unwrap_or_def calc
      sample_can_fulfill sort_routes_def build_route_def first_row_def Let_def)
qed

lemma small_be_bytes: "n < 256 \<Longrightarrow> be_bytes n = [of_nat n]"
  by (subst be_bytes.simps) simp

lemma sample_ids:
  "generate_swap_id server_crates server_hc [(''base'', 1), (''bitcoin'', 0)] ''base'' ''0xAA'' ''0xAB'' 144 sample_hash (BigDecimal 1000 0) V2 h
    = Some (Inr ''id'')"
  "generate_swap_id server_crates server_hc [(''base'', 1), (''bitcoin'', 0)] ''bitcoin'' ''key'' ''02'' 12 sample_hash (BigDecimal 990 0) V2 h
    = Some (Inr ''bc1p'')"
proof -
  have c: "\<not> contains ''bitcoin'' ''base''" "\<not> contains ''alpen'' ''base''" "\<not> contains ''litecoin'' ''base''" "\<not> contains ''solana'' ''base''"
    "\<not> contains ''starknet'' ''base''" "\<not> contains ''sui'' ''base''" "contains ''bitcoin'' ''bitcoin''"
    by code_simp+
  have n: "get_bitcoin_network ''bitcoin'' = Inr Bitcoin" by code_simp
  have "list_all is_digit ''990''" "digits_value ''990'' = 990" by code_simp+
  then have amount: "parse_u64 ''990'' = Some 990" by (simp add: parse_u64_def)
  show "generate_swap_id server_crates server_hc [(''base'', 1), (''bitcoin'', 0)] ''base'' ''0xAA'' ''0xAB'' 144 sample_hash (BigDecimal 1000 0) V2 h
    = Some (Inr ''id'')"
  proof -
    have hash: "hex_to_hash server_crates x = Inr sample_bytes" "decode_and_pad_hex server_crates x 32 = Inr sample_bytes" for x
      by (simp_all add: hex_to_hash_def decode_and_pad_hex_def hex_text_def server_crates_def)
    have abi: "\<exists>bs. abi_encode_uint256 n = Some bs" if "n < 256" for n
      using that by (simp add: abi_encode_uint256_def small_be_bytes)
    obtain t where t: "abi_encode_uint256 144 = Some t" using abi[of 144] by auto
    obtain a where a: "abi_encode_uint256 7 = Some a" using abi[of 7] by auto
    have "unat (144 :: u64) = 144" "ic_biguint_from_str server_crates x = Some 7" "sha256_hex server_crates parts = ''id''" for x parts
      by (simp_all add: server_crates_def sha256_hex_def)
    with t a show ?thesis
      by (simp add: generate_swap_id_def c generate_evm_swap_id_def evm_preimage_def chain_id_below_def hash)
  qed
  from amount n c(7) show "generate_swap_id server_crates server_hc [(''base'', 1), (''bitcoin'', 0)] ''bitcoin'' ''key'' ''02'' 12 sample_hash (BigDecimal 990 0) V2 h
    = Some (Inr ''bc1p'')"
    by (simp add: generate_swap_id_def generate_bitcoin_swap_id_def hex_text_def crate_result_def server_crates_def server_hc_def
        htlc_address_def construct_tree_def add_leaf_def Let_def)
qed

lemma sample_strategy_chains:
  "find_strategy (registry_from_configs sample_metadata sample_configs) (st_id sample_strategy) = Some sample_strategy"
  "st_source_chain sample_strategy = ''base''" "st_dest_chain sample_strategy = ''bitcoin''"
  "st_source_chain_address sample_strategy = ''0xAB''" "st_dest_chain_address sample_strategy = ''key''"
  "st_min_source_timelock sample_strategy = 12" "st_destination_timelock sample_strategy = 12"
  "sa_version (st_source_asset sample_strategy) = V2" "sa_version (st_dest_asset sample_strategy) = V2"
  by code_simp+

lemma create_sample_order:
  "\<exists>ord db. create_order_request exact_crate server_hc (\<lambda>x. BigDecimal (truncate_int x) 0) sample_server calm_view key_conflicts sample_creation empty_db
    = (Some (Inr ord), db) \<and> vo_source_swap ord = new_swap 1000000000 ''id'' ''base'' (st_source_asset sample_strategy) ''0xAA'' ''0xAB'' 144
        (BigDecimal 1000 0) sample_hash (ucast (st_min_source_confirmations sample_strategy))
    \<and> vo_destination_swap ord = new_swap 1000000000 ''bc1p'' ''bitcoin'' (st_dest_asset sample_strategy) ''key'' ''02'' 12
        (BigDecimal 990 0) sample_hash 0"
proof -
  let ?cq = sample_creation and ?os = sample_server
  obtain q r where q: "quote exact_crate sample_service (sample_request (Some (BigDecimal 1000 0)) None 0) = Some (Inr q)" "qp_best q = Some r"
      "qp_input_token_price q = 1" "qp_output_token_price q = 1"
      "ro_strategy_id r = st_id sample_strategy" "qa_amount (ro_source r) = BigDecimal 1000 0" "qa_amount (ro_destination r) = BigDecimal 990 0"
    using quote_sample_route by blast
  have cq: "cq_secret_hash ?cq = sample_hash" "request_quote ?cq = sample_request (Some (BigDecimal 1000 0)) None 0"
      "cq_initiator_source_address ?cq = ''0xAA''" "cq_initiator_destination_address ?cq = ''02''"
    by (simp_all add: sample_creation_def request_quote_def sample_request_def)
  have os: "os_quote_service ?os = sample_service" "os_crates ?os = server_crates" "os_chain_ids ?os = [(''base'', 1), (''bitcoin'', 0)]"
      "qv_registry sample_service = registry_from_configs sample_metadata sample_configs" "qs_quote_private_key (os_quote_settings ?os) = None"
    by (simp_all add: sample_server_def sample_service_def)
  have timelock: "source_timelock_of sample_strategy = 144"
    by (simp add: source_timelock_of_def saturating_mul_def sample_strategy_chains)
  have hash: "validate_secret_hash server_crates sample_hash = Inr ()"
    by (simp add: validate_secret_hash_def server_crates_def)
  have fresh: "secret_hash_exists calm_view sample_hash empty_db = Inr False"
    by (simp add: secret_hash_exists_def run_statement_def empty_db_def)
  have fee: "calculate_match_fee exact_crate (BigDecimal 1000 0) (BigDecimal 990 0) 2 2 1 1 = Some (Inr (1 / 10))"
    by (simp add: calculate_match_fee_def bd_value_def exact_crate_def truncate_int_def pow10_small u64_pow10_def)
  define ord where "ord = build_order ?os ?cq sample_strategy r 1000000000 ''id'' ''bc1p''
      ((order_data_of ?os ?cq sample_strategy q 1000000000)\<lparr>ad_sig := []\<rparr>) (BigDecimal (truncate_int (1 / 10)) 0)"
  have prep: "prepare_order exact_crate server_hc (\<lambda>x. BigDecimal (truncate_int x) 0) ?os calm_view ?cq empty_db = Some (Inr ord)"
    unfolding prepare_order_def Let_def cq os hash fresh q(1) timelock
    by (simp add: orderbook_result_def q(2-7) sample_strategy_chains sample_strategy_fields sample_ids app_result_def fee sign_order_payload_def
        os cq timelock calm_view_def ord_def)
  have swaps: "vo_source_swap ord = new_swap 1000000000 ''id'' ''base'' (st_source_asset sample_strategy) ''0xAA'' ''0xAB'' 144
        (BigDecimal 1000 0) sample_hash (ucast (st_min_source_confirmations sample_strategy))"
    "vo_destination_swap ord = new_swap 1000000000 ''bc1p'' ''bitcoin'' (st_dest_asset sample_strategy) ''key'' ''02'' 12
        (BigDecimal 990 0) sample_hash 0"
    by (simp_all add: ord_def build_order_def cq q sample_strategy_chains timelock)
  have "fst (create_matched_order calm_view key_conflicts ord empty_db) = Inr ()"
    by (simp add: create_matched_order_def create_in_transaction_def run_statement_def key_conflicts_def empty_db_def
        stored_new_swap swaps new_swap_def try_bind_def)
  then obtain db where "create_matched_order calm_view key_conflicts ord empty_db = (Inr (), db)" by (metis prod.collapse)
  with prep have "create_order_request exact_crate server_hc (\<lambda>x. BigDecimal (truncate_int x) 0) ?os calm_view key_conflicts ?cq empty_db
      = (Some (Inr ord), db)"
    by (simp add: create_order_request_def)
  with swaps show ?thesis by blast
qed

lemma created_order_matches_quote_witness:
  "\<exists>ord db. joined db = [stored_order ord] \<and> sw_secret_hash (vo_source_swap ord) = sample_hash"
proof -
  obtain ord db where c: "create_order_request exact_crate server_hc (\<lambda>x. BigDecimal (truncate_int x) 0) sample_server calm_view key_conflicts sample_creation empty_db
      = (Some (Inr ord), db)"
    using create_sample_order by blast
  have "joined empty_db = []" by (simp add: joined_def empty_db_def)
  moreover have "cq_secret_hash sample_creation = sample_hash" by (simp add: sample_creation_def)
  ultimately show ?thesis using created_order_matches_quote[OF db_ok_empty keyed_key_conflicts c] by auto
qed

lemma orders_overcommit_liquidity_witness:
  "\<exists>(ord :: verbose_order) (db1 :: orderbook_db) db2. update_swap_initiate calm_view (sw_swap_id (vo_source_swap ord)) (BigDecimal 1000 0) ''tx'' 3 5 db1 = (Inr (), db2)
    \<and> refresh_liquidity calm_view (\<lambda>_ _ _. Some 2000) sample_metadata db2 (ps_chains sample_policy)
      = refresh_liquidity calm_view (\<lambda>_ _ _. Some 2000) sample_metadata empty_db (ps_chains sample_policy)"
proof -
  obtain ord db where c: "create_order_request exact_crate server_hc (\<lambda>x. BigDecimal (truncate_int x) 0) sample_server calm_view key_conflicts sample_creation empty_db
      = (Some (Inr ord), db)"
    using create_sample_order by blast
  obtain r db2 where u: "update_swap_initiate calm_view (sw_swap_id (vo_source_swap ord)) (BigDecimal 1000 0) ''tx'' 3 5 db = (r, db2)" by fastforce
  have "sw_swap_id (vo_source_swap ord) \<in> sw_swap_id ` set (ob_swaps db)"
    using create_matched_order_rows[OF conjunct2[OF create_order_request_ok[OF c]]] by (force simp: stored_swap_def Let_def)
  then have "r = Inr ()" using u by (auto simp: update_swap_initiate_def update_swap_def affected_def run_statement_def filter_empty_conv Let_def split: if_splits)
  with u have ok: "update_swap_initiate calm_view (sw_swap_id (vo_source_swap ord)) (BigDecimal 1000 0) ''tx'' 3 5 db = (Inr (), db2)" by simp
  have "refresh_liquidity calm_view (\<lambda>_ _ _. Some 2000) sample_metadata db2 (ps_chains sample_policy)
      = refresh_liquidity calm_view (\<lambda>_ _ _. Some 2000) sample_metadata empty_db (ps_chains sample_policy)"
    using orders_overcommit_liquidity[OF db_ok_empty keyed_key_conflicts c ok] by blast
  with ok show ?thesis by blast
qed

end
