(* ===== verification/SwapIds.thy ===== *)
theory SwapIds
  imports OrderServerProps TxBuilderProps
begin

text \<open>
  The identifiers that the server computes for the swaps of an order: on Bitcoin they are the addresses that
  the executor derives from the stored swap, on EVM chains the hashed bytes determine the swap.
\<close>

section \<open>Bitcoin addresses\<close>

lemma htlc_address_same: "htlc_address hc p net = Inr a \<Longrightarrow> compute_bitcoin_htlc_id hc p net = Inr (addr_text a)"
  by (auto simp: htlc_address_def compute_bitcoin_htlc_id_def get_htlc_address_def construct_taproot_spend_info_def taproot_error_def
      try_simps split: sum.splits)

lemma crate_result_eq [simp]: "crate_result r = Inr x \<longleftrightarrow> r = Inr x"
  by (auto simp: crate_result_def split: sum.splits)

lemma hex_text_eq [simp]: "hex_text ic s = Inr bs \<longleftrightarrow> ic_hex_decode ic s = Inr bs"
  by (auto simp: hex_text_def split: sum.splits)

lemma generate_bitcoin_swap_id_ok:
  assumes "generate_bitcoin_swap_id ic hc chain p = Inr i"
  obtains net initiator redeemer amount secret_hash where
    "get_bitcoin_network chain = Inr net"
    "hc_xonly_from_str hc (sm_initiator_address p) = Inr initiator" "hc_xonly_from_str hc (sm_redeemer_address p) = Inr redeemer"
    "parse_u64 (hc_big_decimal_text hc (sm_amount p)) = Some amount"
    "ic_hex_decode ic (trim_0x (sm_secret_hash p)) = Inr secret_hash" "length secret_hash = 32"
    "compute_bitcoin_htlc_id hc \<lparr>hp_initiator_pubkey = initiator, hp_redeemer_pubkey = redeemer, hp_amount = amount,
       hp_secret_hash = secret_hash, hp_timelock = sm_timelock p\<rparr> net = Inr i"
  using assms
  by (auto simp: generate_bitcoin_swap_id_def try_simps dest!: htlc_address_same split: if_splits)

lemma trim_0x_plain: "take 2 s \<noteq> ''0x'' \<Longrightarrow> trim_0x s = s"
  by (cases s rule: trim_0x.cases) auto

lemma validate_secret_hash_plain: "validate_secret_hash ic s = Inr () \<Longrightarrow> trim_0x s = s"
  by (auto simp: validate_secret_hash_def trim_0x_plain split: if_splits)

lemma normalize_bitcoin: "contains ''bitcoin'' chain \<Longrightarrow> normalize_address chain a = a"
  by (simp add: normalize_address_def)

text \<open>A swap as the server's parameters describe it.\<close>

definition describes :: "swap_params \<Rightarrow> single_swap \<Rightarrow> bool" where
  "describes p sw =
    (sm_initiator_address p = sw_initiator sw \<and> sm_redeemer_address p = sw_redeemer sw \<and> sm_timelock p = scast (sw_timelock sw)
     \<and> sm_secret_hash p = sw_secret_hash sw \<and> sm_amount p = sw_amount sw)"

lemma bitcoin_id_of_swap:
  assumes "generate_bitcoin_swap_id ic hc (sw_chain sw) p = Inr (sw_swap_id sw)" "describes p sw"
    and "trim_0x (sw_secret_hash sw) = sw_secret_hash sw" "ic_hex_decode ic = hex_decode cr"
  shows "\<exists>net hp. get_bitcoin_network (sw_chain sw) = Inr net \<and> swap_to_htlc_params cr hc sw = Inr hp
    \<and> compute_bitcoin_htlc_id hc hp net = Inr (sw_swap_id sw)"
proof -
  note d = assms(2)[unfolded describes_def]
  obtain net initiator redeemer amount secret_hash where g:
    "get_bitcoin_network (sw_chain sw) = Inr net"
    "hc_xonly_from_str hc (sm_initiator_address p) = Inr initiator" "hc_xonly_from_str hc (sm_redeemer_address p) = Inr redeemer"
    "parse_u64 (hc_big_decimal_text hc (sm_amount p)) = Some amount"
    "ic_hex_decode ic (trim_0x (sm_secret_hash p)) = Inr secret_hash" "length secret_hash = 32"
    "compute_bitcoin_htlc_id hc \<lparr>hp_initiator_pubkey = initiator, hp_redeemer_pubkey = redeemer, hp_amount = amount,
       hp_secret_hash = secret_hash, hp_timelock = sm_timelock p\<rparr> net = Inr (sw_swap_id sw)"
    by (rule generate_bitcoin_swap_id_ok[OF assms(1)])
  with d assms(3,4) have "swap_to_htlc_params cr hc sw = Inr \<lparr>hp_initiator_pubkey = initiator, hp_redeemer_pubkey = redeemer,
      hp_amount = amount, hp_secret_hash = secret_hash, hp_timelock = sm_timelock p\<rparr>"
    by (simp add: swap_to_htlc_params_def)
  with g(1,7) show ?thesis by blast
qed

lemma generate_swap_id_bitcoin:
  assumes "generate_swap_id ic hc chain_ids chain a b t h amount ver addr = Some (Inr i)" "contains ''bitcoin'' chain"
  obtains p where "generate_bitcoin_swap_id ic hc chain p = Inr i" "sm_initiator_address p = a" "sm_redeemer_address p = b"
    "sm_timelock p = t" "sm_secret_hash p = h" "sm_amount p = amount"
  using assms by (auto simp: generate_swap_id_def Let_def split: option.splits)

text \<open>The swap of an order that holds a new swap, as the executor reads it.\<close>

definition read_swap :: "swap_row \<Rightarrow> single_swap" where
  "read_swap row = mo_source_swap (matched_view \<lparr>vo_created_at = 0, vo_updated_at = 0, vo_deleted_at = None, vo_source_swap = row,
     vo_destination_swap = row, vo_create_order = undefined\<rparr>)"

lemma matched_view_read:
  "mo_source_swap (matched_view row) = read_swap (vo_source_swap row)"
  "mo_destination_swap (matched_view row) = read_swap (vo_destination_swap row)"
  by (simp_all add: matched_view_def read_swap_def)

lemma read_new_bitcoin_swap:
  fixes sw
  assumes "sw = read_swap (stored_swap (new_swap now i chain asset a b t amount h n))" "contains ''bitcoin'' chain"
  shows "sw_chain sw = chain \<and> sw_swap_id sw = i \<and> sw_initiator sw = a \<and> sw_redeemer sw = b \<and> sw_timelock sw = t
    \<and> sw_amount sw = amount \<and> sw_secret_hash sw = h"
  unfolding assms(1) stored_new_swap
  using assms(2) by (simp add: read_swap_def matched_view_def new_swap_def normalize_bitcoin single_swap.defs)

lemma read_new_chain: "sw_chain (read_swap (stored_swap (new_swap now i chain asset a b t amount h n))) = chain"
  unfolding stored_new_swap by (simp add: read_swap_def matched_view_def new_swap_def single_swap.defs)

lemma new_bitcoin_swap_agrees:
  assumes "generate_swap_id ic hc chain_ids chain a b ts h amount ver addr = Some (Inr i)" "scast t = ts"
    and "trim_0x h = h" "ic_hex_decode ic = hex_decode cr"
    and "sw = read_swap (stored_swap (new_swap now i chain asset a b t amount h n))" "contains ''bitcoin'' (sw_chain sw)"
  shows "\<exists>net hp. get_bitcoin_network (sw_chain sw) = Inr net \<and> swap_to_htlc_params cr hc sw = Inr hp
    \<and> compute_bitcoin_htlc_id hc hp net = Inr (sw_swap_id sw)"
proof -
  have chain: "contains ''bitcoin'' chain" using assms(5,6) by (simp add: read_new_chain)
  note sw = read_new_bitcoin_swap[OF assms(5) chain]
  obtain p where p: "generate_bitcoin_swap_id ic hc chain p = Inr i" "sm_initiator_address p = a" "sm_redeemer_address p = b"
      "sm_timelock p = ts" "sm_secret_hash p = h" "sm_amount p = amount"
    by (rule generate_swap_id_bitcoin[OF assms(1) chain])
  from p sw assms(2) have "describes p sw" by (simp add: describes_def)
  with p(1) sw assms(3,4) show ?thesis by (intro bitcoin_id_of_swap) auto
qed

lemma scast_ucast_timelock: "unat (t :: u64) < 2 ^ 31 \<Longrightarrow> scast (ucast t :: i32) = t"
proof -
  assume t: "unat t < 2 ^ 31"
  then have "int (unat t) < int (2 ^ 31)" by (simp only: of_nat_less_iff)
  then have "uint t < 2 ^ 31" by simp
  moreover have "- (2 ^ 31) \<le> uint t" by (rule order_trans[OF _ unsigned_greater_eq]) simp
  ultimately have "signed_take_bit 31 (uint t) = uint t" by (intro signed_take_bit_int_eq_self)
  then have "sint (ucast t :: i32) = uint t" by (simp add: signed_ucast_eq)
  then show ?thesis by (simp only: scast_eq word_of_int_uint)
qed

text \<open>C36: Both sides derive the same Bitcoin address. For each swap on Bitcoin of a created order, as it is
  stored and read back, the executor can rebuild the parameters of the contract, and the address of
  that contract on the network of the chain is the identifier that the server gave the swap, which is the
  address that the user is told to fund and the executor funds or spends; destination timelocks must
  fit 31 bits, as the row keeps them in an \<open>i32\<close>.\<close>

theorem bitcoin_order_addresses_agree:
  assumes "create_order_request qc hc decimal_of os v cn cq db = (Some (Inr ord), db')"
    and "ic_hex_decode (os_crates os) = hex_decode cr"
    and "\<forall>i st. find_strategy (qv_registry (os_quote_service os)) i = Some st \<longrightarrow> unat (st_destination_timelock st) < 2 ^ 31"
    and "sw \<in> {mo_source_swap (matched_view (stored_order ord)), mo_destination_swap (matched_view (stored_order ord))}"
    and "contains ''bitcoin'' (sw_chain sw)"
  shows "\<exists>net hp. get_bitcoin_network (sw_chain sw) = Inr net \<and> swap_to_htlc_params cr hc sw = Inr hp
    \<and> compute_bitcoin_htlc_id hc hp net = Inr (sw_swap_id sw)"
proof -
  obtain q r st source_id destination_id data fee where p:
    "validate_secret_hash (os_crates os) (cq_secret_hash cq) = Inr ()"
    "find_strategy (qv_registry (os_quote_service os)) (ro_strategy_id r) = Some st"
    "generate_swap_id (os_crates os) hc (os_chain_ids os) (st_source_chain st) (cq_initiator_source_address cq)
         (st_source_chain_address st) (scast (source_timelock_of st)) (cq_secret_hash cq) (qa_amount (ro_source r))
         (sa_version (st_source_asset st)) (sa_htlc_address (st_source_asset st)) = Some (Inr source_id)"
    "generate_swap_id (os_crates os) hc (os_chain_ids os) (st_dest_chain st) (st_dest_chain_address st)
         (cq_initiator_destination_address cq) (st_destination_timelock st) (cq_secret_hash cq) (qa_amount (ro_destination r))
         (sa_version (st_dest_asset st)) (sa_htlc_address (st_dest_asset st)) = Some (Inr destination_id)"
    "ord = build_order os cq st r (dv_now v) source_id destination_id data fee"
    by (rule prepare_order_ok[OF conjunct1[OF create_order_request_ok[OF assms(1)]]]) blast
  note plain = validate_secret_hash_plain[OF p(1)]
  have short: "scast (ucast (st_destination_timelock st) :: i32) = st_destination_timelock st"
    using assms(3) p(2) by (intro scast_ucast_timelock) blast
  from assms(4) show ?thesis
  proof (elim insertE emptyE)
    assume "sw = mo_source_swap (matched_view (stored_order ord))"
    then have "sw = read_swap (stored_swap (new_swap (dv_now v) source_id (st_source_chain st) (st_source_asset st)
        (cq_initiator_source_address cq) (st_source_chain_address st) (source_timelock_of st) (qa_amount (ro_source r))
        (cq_secret_hash cq) (ucast (st_min_source_confirmations st))))"
      by (simp add: matched_view_read stored_order_def p(5) build_order_def)
    from new_bitcoin_swap_agrees[OF p(3) refl plain assms(2) this assms(5)] show ?thesis .
  next
    assume "sw = mo_destination_swap (matched_view (stored_order ord))"
    then have "sw = read_swap (stored_swap (new_swap (dv_now v) destination_id (st_dest_chain st) (st_dest_asset st)
        (st_dest_chain_address st) (cq_initiator_destination_address cq) (ucast (st_destination_timelock st))
        (qa_amount (ro_destination r)) (cq_secret_hash cq) 0))"
      by (simp add: matched_view_read stored_order_def p(5) build_order_def)
    from new_bitcoin_swap_agrees[OF p(4) short plain assms(2) this assms(5)] show ?thesis .
  qed
qed

section \<open>EVM identifiers\<close>

lemma be_bytes_pos: "0 < length (be_bytes n)"
  by (subst be_bytes.simps) simp

definition be_number :: "bytes \<Rightarrow> nat" where
  "be_number bs = foldl (\<lambda>a b. 256 * a + unat b) 0 bs"

lemma be_number_snoc [simp]: "be_number (bs @ [b]) = 256 * be_number bs + unat b"
  by (simp add: be_number_def)

lemma be_number_be_bytes: "be_number (be_bytes n) = n"
proof (induction n rule: be_bytes.induct)
  case (1 n)
  show ?case
  proof (cases "n < 256")
    case True
    then show ?thesis by (subst be_bytes.simps) (simp add: be_number_def unsigned_of_nat take_bit_nat_eq_self)
  next
    case False
    have "unat (of_nat n :: u8) = n mod 256" by (simp add: unsigned_of_nat take_bit_eq_mod)
    with False 1 show ?thesis by (subst be_bytes.simps) simp
  qed
qed

lemma be_number_pad: "be_number (replicate k 0 @ bs) = be_number bs"
proof -
  have "foldl (\<lambda>a b. 256 * a + unat b) 0 (replicate k (0 :: u8)) = 0" by (induction k) simp_all
  then show ?thesis by (simp add: be_number_def)
qed

lemma be_number_left_pad: "be_number (left_pad_bytes (be_bytes n) k) = n"
  by (simp add: left_pad_bytes_def be_number_pad be_number_be_bytes)

lemma length_be_bytes: "n < 256 ^ Suc k \<Longrightarrow> length (be_bytes n) \<le> Suc k"
proof (induction k arbitrary: n)
  case (Suc k)
  show ?case
  proof (cases "n < 256")
    case False
    from Suc.prems have "n div 256 < 256 ^ Suc k" by (simp add: less_mult_imp_div_less mult.commute)
    from Suc.IH[OF this] False show ?thesis by (subst be_bytes.simps) simp
  qed (subst be_bytes.simps, simp)
qed (subst be_bytes.simps, simp)

lemma length_left_pad: "n < 2 ^ 64 \<Longrightarrow> length (left_pad_bytes (be_bytes n) 32) = 32"
  using length_be_bytes[of n 7] by (simp add: left_pad_bytes_def)

lemma abi_encode_props:
  assumes "abi_encode_uint256 n = Some bs"
  shows "length bs = 32 \<and> be_number bs = n"
  using assms by (auto simp: abi_encode_uint256_def Let_def be_number_pad be_number_be_bytes split: if_splits)

lemma length_hex_to_hash: "hex_to_hash ic s = Inr bs \<Longrightarrow> length bs = 32"
  by (auto simp: hex_to_hash_def try_simps)

lemma length_decode_and_pad: "decode_and_pad_hex ic s n = Inr bs \<Longrightarrow> length bs = n"
  by (auto simp: decode_and_pad_hex_def try_simps split: if_splits)

text \<open>The fields of the hashed bytes: each has 32 bytes, in the order of the contract.\<close>

definition evm_fields :: "'f id_crates \<Rightarrow> htlc_crates \<Rightarrow> swap_params \<Rightarrow> bytes list \<Rightarrow> bool" where
  "evm_fields ic hc p fs =
    (\<exists>c s i rest. fs = [c, s, i] @ rest \<and> be_number c = unat (sm_chain_id p)
     \<and> decode_and_pad_hex ic (sm_secret_hash p) 32 = Inr s \<and> hex_to_hash ic (sm_initiator_address p) = Inr i
     \<and> (if sm_htlc_version p = V1 then rest = []
        else \<exists>r t a end. rest = [r, t, a] @ end \<and> hex_to_hash ic (sm_redeemer_address p) = Inr r
          \<and> be_number t = unat (sm_timelock p) \<and> ic_biguint_from_str ic (hc_big_decimal_text hc (sm_amount p)) = Some (be_number a)
          \<and> (if sm_htlc_version p = V3 then \<exists>h. end = [h] \<and> hex_to_hash ic (sm_htlc_address p) = Inr h else end = [])))"

lemma evm_preimage_fields:
  assumes "evm_preimage ic hc p = Some (Inr d)"
  obtains fs where "d = concat fs" "evm_fields ic hc p fs" "\<forall>f \<in> set fs. length f = 32"
proof -
  obtain base where base: "try_bind (chain_id_below (2 ^ 64) p) (\<lambda>chain_id.
          try_bind (decode_and_pad_hex ic (sm_secret_hash p) 32) (\<lambda>secret_hash.
          try_bind (hex_to_hash ic (sm_initiator_address p)) (\<lambda>initiator.
            Inr (left_pad_bytes (be_bytes chain_id) 32 @ secret_hash @ initiator)))) = Inr base"
    using assms by (auto simp: evm_preimage_def split: sum.splits)
  then obtain s i where b: "decode_and_pad_hex ic (sm_secret_hash p) 32 = Inr s" "hex_to_hash ic (sm_initiator_address p) = Inr i"
      "base = left_pad_bytes (be_bytes (unat (sm_chain_id p))) 32 @ s @ i" "unat (sm_chain_id p) < 2 ^ 64"
    by (auto simp only: try_simps chain_id_below_def split: if_splits)
  let ?c = "left_pad_bytes (be_bytes (unat (sm_chain_id p))) 32"
  have len: "length ?c = 32" "length s = 32" "length i = 32"
    using b length_left_pad length_decode_and_pad length_hex_to_hash by metis+
  note run = assms[unfolded evm_preimage_def base sum.case]
  show thesis
  proof (cases "sm_htlc_version p = V1")
    case True
    with run b(3) have "d = concat [?c, s, i]" by simp
    then show thesis by (rule that) (use True b len in \<open>auto simp: evm_fields_def be_number_left_pad\<close>)
  next
    case False
    with run obtain r t n a where r: "hex_to_hash ic (sm_redeemer_address p) = Inr r" "abi_encode_uint256 (unat (sm_timelock p)) = Some t"
        "ic_biguint_from_str ic (hc_big_decimal_text hc (sm_amount p)) = Some n" "abi_encode_uint256 n = Some a"
        "(if sm_htlc_version p = V3
          then Some (try_bind (hex_to_hash ic (sm_htlc_address p)) (\<lambda>htlc. Inr ((base @ r @ t @ a) @ htlc)))
          else Some (Inr (base @ r @ t @ a))) = Some (Inr d)"
      by (auto simp: Let_def bind_eq_Some_conv split: sum.splits option.splits)
    note len' = length_hex_to_hash[OF r(1)] abi_encode_props[OF r(2)] abi_encode_props[OF r(4)]
    show thesis
    proof (cases "sm_htlc_version p = V3")
      case True
      with r(5) obtain h where h: "hex_to_hash ic (sm_htlc_address p) = Inr h" "d = (base @ r @ t @ a) @ h"
        by (auto simp: try_simps)
      with b(3) have "d = concat [?c, s, i, r, t, a, h]" by simp
      then show thesis
        by (rule that) (use True b len r h len' length_hex_to_hash[OF h(1)] in \<open>auto simp: evm_fields_def be_number_left_pad\<close>)
    next
      case no: False
      with r(5) b(3) have "d = concat [?c, s, i, r, t, a]" by simp
      then show thesis by (rule that) (use no False b len r len' in \<open>auto simp: evm_fields_def be_number_left_pad\<close>)
    qed
  qed
qed

lemma concat_blocks:
  assumes "concat fs = concat gs" "\<forall>f \<in> set fs. length f = n" "\<forall>g \<in> set gs. length g = n" "0 < n"
  shows "fs = gs"
  using assms
proof (induction fs arbitrary: gs)
  case Nil
  then show ?case by (cases gs) auto
next
  case (Cons f fs)
  then show ?case by (cases gs) auto
qed

text \<open>C37: Different EVM swaps are hashed from different bytes. Two swaps with the same bytes have the same
  version, chain id, secret hash and initiator; from version 2 on also the same redeemer, timelock and
  amount, and in version 3 the same contract.\<close>

theorem evm_swap_ids_distinct:
  assumes "evm_preimage ic hc p = Some (Inr d)" "evm_preimage ic hc q = Some (Inr d)"
  shows "sm_htlc_version p = sm_htlc_version q \<and> sm_chain_id p = sm_chain_id q
    \<and> decode_and_pad_hex ic (sm_secret_hash p) 32 = decode_and_pad_hex ic (sm_secret_hash q) 32
    \<and> hex_to_hash ic (sm_initiator_address p) = hex_to_hash ic (sm_initiator_address q)
    \<and> (sm_htlc_version p = V1 \<or>
        hex_to_hash ic (sm_redeemer_address p) = hex_to_hash ic (sm_redeemer_address q) \<and> sm_timelock p = sm_timelock q
        \<and> ic_biguint_from_str ic (hc_big_decimal_text hc (sm_amount p)) = ic_biguint_from_str ic (hc_big_decimal_text hc (sm_amount q)))
    \<and> (sm_htlc_version p = V3 \<longrightarrow> hex_to_hash ic (sm_htlc_address p) = hex_to_hash ic (sm_htlc_address q))"
proof -
  obtain fs where fs: "d = concat fs" "evm_fields ic hc p fs" "\<forall>f \<in> set fs. length f = 32"
    by (rule evm_preimage_fields[OF assms(1)])
  obtain gs where gs: "d = concat gs" "evm_fields ic hc q gs" "\<forall>f \<in> set gs. length f = 32"
    by (rule evm_preimage_fields[OF assms(2)])
  have "fs = gs" using concat_blocks[of fs gs 32] fs gs by simp
  with gs(2) have q: "evm_fields ic hc q fs" by simp
  have versions: "sm_htlc_version p = V1 \<or> sm_htlc_version p = V2 \<or> sm_htlc_version p = V3"
    "sm_htlc_version q = V1 \<or> sm_htlc_version q = V2 \<or> sm_htlc_version q = V3"
    by (meson htlc_version.exhaust)+
  from versions fs(2) q show ?thesis
    unfolding evm_fields_def by (elim disjE) (auto simp: word_unat_eq_iff)
qed

section \<open>Examples\<close>

lemma bitcoin_order_addresses_agree_witness:
  "\<exists>sw hp. sw_chain sw = ''bitcoin'' \<and> sw_swap_id sw = ''bc1p''
    \<and> swap_to_htlc_params (demo_crates\<lparr>hex_decode := \<lambda>_. Inr sample_bytes\<rparr>) server_hc sw = Inr hp
    \<and> compute_bitcoin_htlc_id server_hc hp Bitcoin = Inr ''bc1p''"
proof -
  let ?cr = "demo_crates\<lparr>hex_decode := \<lambda>_. Inr sample_bytes\<rparr>"
  obtain ord db where c: "create_order_request exact_crate server_hc (\<lambda>x. BigDecimal (truncate_int x) 0) sample_server calm_view key_conflicts sample_creation empty_db
      = (Some (Inr ord), db)"
    and dst: "vo_destination_swap ord = new_swap 1000000000 ''bc1p'' ''bitcoin'' (st_dest_asset sample_strategy) ''key'' ''02'' 12
        (BigDecimal 990 0) sample_hash 0"
    using create_sample_order by blast
  define sw where "sw = mo_destination_swap (matched_view (stored_order ord))"
  have bitcoin: "contains ''bitcoin'' ''bitcoin''" by code_simp
  have "sw = read_swap (stored_swap (new_swap 1000000000 ''bc1p'' ''bitcoin'' (st_dest_asset sample_strategy) ''key'' ''02'' 12
      (BigDecimal 990 0) sample_hash 0))"
    by (simp add: sw_def matched_view_read stored_order_def dst)
  note sw = read_new_bitcoin_swap[OF this bitcoin]
  have hex: "ic_hex_decode (os_crates sample_server) = hex_decode ?cr"
    by (simp add: sample_server_def server_crates_def)
  have "list_all (\<lambda>(i, st). st_destination_timelock st = 12) (sg_by_id (registry_from_configs sample_metadata sample_configs))"
    by code_simp
  then have short: "\<forall>i st. find_strategy (qv_registry (os_quote_service sample_server)) i = Some st \<longrightarrow> unat (st_destination_timelock st) < 2 ^ 31"
    by (auto simp: sample_server_def sample_service_def find_strategy_def list_all_iff dest!: map_of_SomeD)
  from bitcoin_order_addresses_agree[OF c hex short, of sw] sw bitcoin obtain net hp where
    "get_bitcoin_network ''bitcoin'' = Inr net" "swap_to_htlc_params ?cr server_hc sw = Inr hp" "compute_bitcoin_htlc_id server_hc hp net = Inr ''bc1p''"
    by (auto simp: sw_def)
  moreover have "get_bitcoin_network ''bitcoin'' = Inr Bitcoin" by code_simp
  ultimately show ?thesis using sw by auto
qed

definition evm_example :: "u64 \<Rightarrow> swap_params" where
  "evm_example timelock =
    \<lparr>sm_chain_id = 1, sm_initiator_address = ''0xAA'', sm_redeemer_address = ''0xBB'', sm_timelock = timelock, sm_secret_hash = sample_hash,
     sm_amount = BigDecimal 7 0, sm_htlc_version = V2, sm_htlc_address = []\<rparr>"

lemma evm_example_preimage: "\<exists>d. evm_preimage server_crates server_hc (evm_example 144) = Some (Inr d)"
proof -
  have hash: "hex_to_hash server_crates x = Inr sample_bytes" "decode_and_pad_hex server_crates x 32 = Inr sample_bytes" for x
    by (simp_all add: hex_to_hash_def decode_and_pad_hex_def hex_text_def server_crates_def)
  have abi: "\<exists>bs. abi_encode_uint256 n = Some bs" if "n < 256" for n
    using that by (simp add: abi_encode_uint256_def small_be_bytes)
  obtain t a where t: "abi_encode_uint256 144 = Some t" and a: "abi_encode_uint256 7 = Some a" using abi[of 144] abi[of 7] by auto
  have "unat (144 :: u64) = 144" "ic_biguint_from_str server_crates x = Some 7" for x
    by (simp_all add: server_crates_def)
  with t a show ?thesis by (simp add: evm_preimage_def evm_example_def chain_id_below_def hash)
qed

lemma evm_swap_ids_distinct_witness:
  "\<exists>d. evm_preimage server_crates server_hc (evm_example 144) = Some (Inr d) \<and> evm_preimage server_crates server_hc (evm_example 145) \<noteq> Some (Inr d)"
proof -
  obtain d where d: "evm_preimage server_crates server_hc (evm_example 144) = Some (Inr d)" using evm_example_preimage by blast
  have "\<not> (144 :: u64) = 145" by simp
  with evm_swap_ids_distinct[OF d, of "evm_example 145"] d show ?thesis by (auto simp: evm_example_def)
qed

end
