(* ===== verification/Spec2Isabelle.thy ===== *)
theory Spec2Isabelle
  imports Prelude WalletTypes WalletRows WalletStore WalletStoreLaws WalletLifecycle WalletStoreProps
    WalletRestore WalletState WalletPlanner WalletPlannerProps WalletPorts WalletReconcile
    WalletContract WalletReconcileProps WalletRuntime WalletRuntimeProps
    TxTypes TxFeeBuilder TxCover TxAdaptor TxBuilder TxBuilderProps
    WalletJournal WalletClients WalletRunner WalletRunnerInv WalletRunnerProps WalletRunnerBatches
    WalletRunnerLife
    Orders OrderMapper OrderFeed OrderMapperProps HtlcScripts InstantRefund HtlcAdapter HtlcAdapterProps
    BtcExecutor BtcExecutorProps
    WatchEvents WatchStore Watcher WatchProps
    Policy PolicyProps Orderbook OrderbookWrites OrderbookProps QuoteRegistry Quotes QuoteProps
    OrderServer OrderServerProps SwapIds
begin

text \<open>
  Verification library of uniPay: its orderbook server (src/orderbook), which quotes and creates
  orders, and its Bitcoin executor and watcher (src/btc-executor, src/btc-watcher). The executor turns
  the solver's Bitcoin actions into wallet requests, and its wallet pays them in batches: one
  transaction serves many requests, a stuck transaction is replaced, and the change of a confirmed
  batch funds the batches that had to wait. A request is paid twice, or never, when the three
  places that remember it, the Postgres table, the runtime in memory and the chain, disagree. Most
  of the theorems say that they do not, and some say where they do.

  \<^bold>\<open>Parts.\<close> The server (quote/service.rs) prices a swap by the solver's strategies, which it builds from
  the solver's policy, and stores an accepted order in the tables of the orderbook, which watchers
  update and the executors read. The executor (executor/mod.rs) polls the orders that concern its solver
  (src/solver-orders serves them from a query of the orderbook), maps each to an action
  (order_mapper.rs), and turns the action into wallet requests (action_executor.rs,
  wallet/htlc_adapter.rs), each with a dedupe key made of the action and the swap. It hands
  the requests to the runner (wallet/runner.rs), which first writes them to the store
  (persistence/bitcoin_wallet.rs). At each tick the runner settles confirmations
  (wallet/confirm.rs), looks at the heads of its live lineages (wallet/runtime.rs), reconciles
  those that disappeared (wallet/reconcile.rs), prices the alternatives by trial builds
  (tx_builder), lets the planner choose (wallet/planner.rs), and for every planned batch builds a
  transaction, persists it, broadcasts it, and either adopts it or reverts the persisted plan.

  \<^bold>\<open>Theories.\<close>
  \<^item> \<open>Prelude\<close>: results, messages, checked and saturating u64 arithmetic, hash maps as
    association lists, and the lemmas about them.
  \<^item> \<open>WalletTypes\<close> (errors.rs, wallet/state.rs, request.rs, config.rs, store.rs): the values.
    \<open>WalletRows\<close>, \<open>WalletStore\<close>: the table \<open>bitcoin_wallet_requests\<close> as a list of rows, its queries and
    transactions. \<open>WalletStoreLaws\<close>, \<open>WalletLifecycle\<close>, \<open>WalletRestore\<close>, \<open>WalletStoreProps\<close>: what each
    operation writes, the invariant \<open>table_ok\<close>, reachability, \<open>restore\<close>.
  \<^item> \<open>WalletContract\<close>, \<open>WalletJournal\<close>: the store as an interface (the locales \<open>wallet_ledger\<close> and
    \<open>wallet_journal\<close>) and their interpretation on the Postgres store.
  \<^item> \<open>WalletState\<close>, \<open>WalletRuntime\<close>, \<open>WalletRuntimeProps\<close> (wallet/runtime.rs): pending requests and
    live lineages; tick, observation, recovery. \<open>WalletPlanner\<close>, \<open>WalletPlannerProps\<close>
    (wallet/planner.rs). \<open>WalletPorts\<close> (the traits, confirm.rs, submission). \<open>WalletReconcile\<close>,
    \<open>WalletReconcileProps\<close> (wallet/reconcile.rs).
  \<^item> \<open>TxTypes\<close>, \<open>TxFeeBuilder\<close>, \<open>TxCover\<close>, \<open>TxAdaptor\<close>, \<open>TxBuilder\<close>, \<open>TxBuilderProps\<close> (tx_builder,
    keys): validation, the fee loop over any adaptor and any provider of inputs, the Bitcoin adaptor
    and the Electrs provider, signing, and what a finished build guarantees.
  \<^item> \<open>WalletClients\<close> (clients/bitcoind.rs, fee_providers, the observer and broadcaster of
    wallet/runner.rs), \<open>WalletRunner\<close> (wallet/runner.rs): every handler of the runner, \<open>process_tick\<close>,
    and the events \<open>runner_step\<close> of its life; \<open>reaches\<close> is the set of states a runner reaches.
    \<open>WalletRunnerInv\<close> proves, over the interface of the store, the invariant \<open>runner_sound\<close> through
    every handler; \<open>WalletRunnerProps\<close>, \<open>WalletRunnerBatches\<close>, \<open>WalletRunnerLife\<close> hold the properties.
  \<^item> \<open>Orders\<close> (Tars-rs/crates/orderbook/src/primitives.rs), \<open>OrderMapper\<close> (order_mapper.rs): swaps,
    orders, and the action an executor takes on an order. \<open>OrderFeed\<close> (the pending-order queries of
    orderbook.rs; src/solver-orders): which orders an executor is given. \<open>OrderMapperProps\<close>: what
    guards each action on the orders served, and where the mapper is not careful.
  \<^item> \<open>HtlcScripts\<close> (chain/bitcoin/primitives), \<open>InstantRefund\<close> (Tars-rs/crates/bitcoin/src/htlc),
    \<open>HtlcAdapter\<close> (wallet/htlc_adapter.rs), \<open>BtcExecutor\<close> (action_executor.rs, executor): contracts,
    their witnesses, the validation of a user's instant refund, the wallet requests of an action, and
    one poll of the executor. \<open>HtlcAdapterProps\<close>: what prepared requests guarantee. \<open>BtcExecutorProps\<close>:
    the submitter of requests as the locale \<open>request_submitter\<close>, interpreted on the runner; its
    instance \<open>rows\<close> of the store's contract adds that no row is ever deleted, which makes the
    keys of settled actions permanent.
  \<^item> \<open>WatchEvents\<close>, \<open>WatchStore\<close>, \<open>Watcher\<close> (src/btc-watcher): the swap events of a transaction, a block
    or a polled address, the updates of the swap tables, and the tasks of the watcher as steps.
    \<open>WatchProps\<close>: what is recorded stays, the witnesses of the executor are recognised, and what the
    watcher and the mapper do together with a deposit that is in no block.
  \<^item> \<open>Policy\<close>, \<open>PolicyProps\<close> (Tars-rs/crates/policy): assets, rules for pairs of assets and what a
    solver's policy decides; the most specific rule wins. \<open>Orderbook\<close>, \<open>OrderbookWrites\<close>,
    \<open>OrderbookProps\<close> (Tars-rs/crates/orderbook/src/orderbook.rs): every statement of the orderbook as a
    function on its tables (\<open>orderbook_db\<close>); orders are stored as a whole and read back
  column by column, their terms never change, and pages are the consecutive parts of a listing as long as
    creation times differ. The order of ties is a parameter of the view.
  \<^item> \<open>QuoteRegistry\<close>, \<open>Quotes\<close>, \<open>QuoteProps\<close> (src/orderbook: metadata, registry, quote, liquidity):
    strategies from the policy, liquidity, the two price computations and the routes of a quote; what
    quotes promise, and what an unchecked affiliate fee does. \<open>OrderServer\<close>, \<open>OrderServerProps\<close>,
    \<open>SwapIds\<close> (src/orderbook: orders, common.rs): the identifiers of swaps on every family of chains and the
    creation of an order from a quote; both sides derive the same Bitcoin addresses, and open orders
    reserve no liquidity.
  \<^bold>\<open>Conventions.\<close> A u64 is a 64-bit word and wraps where Rust would wrap in release builds;
  saturating and checked operations are written out. f64 rates are exact rationals (the code only
  compares, scales and rounds them). Hash maps are association lists in some order. A \<open>Result\<close> is
  a sum, an early return a branch, an error message a format string with its arguments. Loops are
  structural recursions; the fee loop runs its source's 16 rounds and the retries their source's
  counts, so no fuel is assumed. Functions of bitcoin, secp256k1, hex and serde are parameters
  (the record \<open>crates\<close>); theorems name what they need of them. The answers of Electrs and bitcoind are
  parameters too: a sequence of answers with a clock for a build, and one \<open>chain_view\<close> per handler of
  the runner. An order view holds the clock and
  the prices of one mapping, a poll view the orders of one poll and which keys the executor's cache
  still holds. Case is folded on ASCII. Records keep the fields that modelled code reads.

  \<^bold>\<open>Not modelled.\<close> Other tasks running inside one handler (a caller that registers its
  waiter just after its batch was sent, two runners on one table), the five-minute timeout of
  \<open>submit_and_wait\<close>, closing channels, HTTP, database connections and logging. Rounding of f64.
  Of the rest of the repository: price feeds and balance fetchers, the EVM and the other watchers, the executors of the other
  chains and some shared crates (Tars-rs) mostly move data between HTTP, SQL and contract bindings;
  PROJECT.json lists each with its reason.
\<close>

end
